(* ===== verification/Report_Prelude.thy ===== *)
theory Report_Prelude
  imports Main "HOL-Library.List_Lexorder" "HOL-Library.Char_ord"
begin

text \<open>
  The shared vocabulary of the development: the exceptions the Python code raises and a
  result type that carries them, the string operations of the Python standard library that
  the sources call, JSON values, and row operations on tables kept as lists of records (the
  model of the SQL tables).

  A transaction of the ledger (the body of a \<open>with self._connect()\<close> block) is a function from
  a state to \<open>err + 'a \<times> state\<close>: an exception rolls the transaction back, so the error carries
  no state and the caller goes on with the state it had.
\<close>

named_theorems ledger_simps \<open>rewriting rules for table operations\<close>

section \<open>Exceptions and results\<close>

datatype err =
    MissingIdempotencyKeyError string
  | IdempotencyConflictError string
  | ReportJobNotFoundError string
  | InvalidReportJobTransitionError string
  | InvalidReportJobWorkTransitionError string
  | CustodyRecoveryError string
  | TwrAuthorityRefused string
  | ValueError string
  | LookupError string
  | IntegrityError string
  | RuntimeError string
  | PyTimeoutError string
  | PyTypeError string
  | PyKeyError string
  | PyAttributeError string
  | ValidationError string
  | MissingBatchIdempotencyKeyError string
  | BatchIdempotencyConflictError string
  | BatchSelectorValidationError string string
  | BatchScheduleValidationError string string
  | SchedulerTenantAdmissionError string
  | DuplicateScheduleDefinition string
  | StaleScheduleRevision string
  | ScheduleDefinitionError string string
  | BatchScheduleConfigError string string
  | ReportOrderingSubmissionError string string
  | ReportCatalogueDefinitionError string
  | ReportInputSnapshotNotFoundError string
  | ReportInputSnapshotAlreadyCapturedError string
  | ReportInputSnapshotLineageConflictError string
  | IdeaEvidenceIntakeConflictError string
  | RetentionPolicyError string string
  | IdeaEvidenceIntakeMigrationError string
  | IntakeTransferError string
  | IdeaMaterializationNotFoundError string
  | IdeaMaterializationIdentityConflictError string
  | IdeaMaterializationRecoveryIdentityMissingError string
  | HTTPException int string

type_synonym 'a res = "err + 'a"

definition bindE :: "'e + 'a \<Rightarrow> ('a \<Rightarrow> 'e + 'b) \<Rightarrow> 'e + 'b" where
  "bindE m f = (case m of Inl e \<Rightarrow> Inl e | Inr a \<Rightarrow> f a)"

text \<open>\<open>require c e\<close> is the statement \<open>if not c: raise e\<close>.\<close>

definition require :: "bool \<Rightarrow> 'e \<Rightarrow> 'e + unit" where
  "require c e = (if c then Inr () else Inl e)"

text \<open>A \<open>for\<close> loop whose body may raise.\<close>

fun foldE :: "('a \<Rightarrow> 's \<Rightarrow> 'e + 's) \<Rightarrow> 'a list \<Rightarrow> 's \<Rightarrow> 'e + 's" where
  "foldE f [] s = Inr s"
| "foldE f (x # xs) s = bindE (f x s) (foldE f xs)"

text \<open>A list comprehension whose element expression may raise.\<close>

fun mapE :: "('a \<Rightarrow> 'e + 'b) \<Rightarrow> 'a list \<Rightarrow> 'e + 'b list" where
  "mapE f [] = Inr []"
| "mapE f (x # xs) = bindE (f x) (\<lambda>y. bindE (mapE f xs) (\<lambda>ys. Inr (y # ys)))"

lemma bindE_simps [simp]:
  "bindE (Inl e) f = Inl e"
  "bindE (Inr a) f = f a"
  by (simp_all add: bindE_def)

lemma bindE_eq_Inr [simp]: "bindE m f = Inr b \<longleftrightarrow> (\<exists>a. m = Inr a \<and> f a = Inr b)"
  by (cases m) auto

lemma bindE_eq_Inl: "bindE m f = Inl e \<longleftrightarrow> m = Inl e \<or> (\<exists>a. m = Inr a \<and> f a = Inl e)"
  by (cases m) auto

lemma bindE_assoc: "bindE (bindE m f) g = bindE m (\<lambda>x. bindE (f x) g)"
  by (cases m) auto

lemma mapE_Inr: "mapE f xs = Inr ys \<longleftrightarrow> list_all2 (\<lambda>x y. f x = Inr y) xs ys"
  by (induction xs arbitrary: ys) (auto simp: list_all2_Cons1)

lemma mapE_function:
  assumes "\<And>x y. f x = Inr y \<longleftrightarrow> P x \<and> y = g x"
  shows "mapE f xs = Inr ys \<longleftrightarrow> (\<forall>x \<in> set xs. P x) \<and> ys = map g xs"
  unfolding mapE_Inr assms by (induction xs arbitrary: ys) (auto simp: list_all2_Cons1)

lemma foldE_unit: "foldE f xs () = Inr u \<longleftrightarrow> (\<forall>x \<in> set xs. f x () = Inr ())"
  by (induction xs) auto

lemma require_simps [simp]:
  "require True e = Inr ()"
  "require False e = Inl e"
  by (simp_all add: require_def)

lemma require_eq_Inr [simp]: "require c e = Inr u \<longleftrightarrow> c"
  by (cases c) auto

lemma require_eq_Inl [simp]: "require c e = Inl e' \<longleftrightarrow> \<not> c \<and> e' = e"
  by (cases c) auto

lemma foldE_append: "foldE f (xs @ ys) s = bindE (foldE f xs s) (foldE f ys)"
  by (induction xs arbitrary: s) (auto simp: bindE_def split: sum.splits)

lemma foldE_invariant:
  assumes "\<And>x s s'. x \<in> set xs \<Longrightarrow> P s \<Longrightarrow> f x s = Inr s' \<Longrightarrow> P s'"
    and "P s" and "foldE f xs s = Inr s'"
  shows "P s'"
  using assms by (induction xs arbitrary: s) auto

section \<open>Python strings\<close>

text \<open>
  Strings are lists of characters with code points below 256. \<open>py_isspace\<close> is \<open>str.isspace\<close>
  on them, the set that \<open>str.strip()\<close> and \<open>str.split()\<close> use.
\<close>

definition py_isspace :: "char \<Rightarrow> bool" where
  "py_isspace c = (let n = (of_char c :: nat) in
     (9 \<le> n \<and> n \<le> 13) \<or> (28 \<le> n \<and> n \<le> 32) \<or> n = 133 \<or> n = 160)"

definition py_strip :: "string \<Rightarrow> string" where
  "py_strip s = rev (dropWhile py_isspace (rev (dropWhile py_isspace s)))"

text \<open>
  \<open>str.upper\<close> and \<open>str.lower\<close>. The upper cases of U+00B5 and U+00FF lie outside the code points
  modelled; they are left as they are, which no comparison with an ASCII text can tell.
\<close>

definition py_upper :: "string \<Rightarrow> string" where
  "py_upper s = concat (map (\<lambda>c. let n = (of_char c :: nat) in
     if n = 223 then ''SS''
     else if 97 \<le> n \<and> n \<le> 122 \<or> 224 \<le> n \<and> n \<le> 254 \<and> n \<noteq> 247 then [char_of (n - 32)] else [c]) s)"

definition py_lower :: "string \<Rightarrow> string" where
  "py_lower s = map (\<lambda>c. let n = (of_char c :: nat) in
     if 65 \<le> n \<and> n \<le> 90 \<or> 192 \<le> n \<and> n \<le> 222 \<and> n \<noteq> 215 then char_of (n + 32) else c) s"

text \<open>\<open>not value or not value.strip()\<close> and its negation, on optional strings.\<close>

definition py_blank :: "string option \<Rightarrow> bool" where
  "py_blank v = (case v of None \<Rightarrow> True | Some s \<Rightarrow> py_strip s = [])"

text \<open>\<open>str.split()\<close> with no argument, on an accumulator for the current word.\<close>

fun py_split_aux :: "string \<Rightarrow> string \<Rightarrow> string list" where
  "py_split_aux w [] = (if w = [] then [] else [rev w])"
| "py_split_aux w (c # cs) =
     (if py_isspace c then (if w = [] then py_split_aux [] cs else rev w # py_split_aux [] cs)
      else py_split_aux (c # w) cs)"

definition py_split :: "string \<Rightarrow> string list" where
  "py_split s = py_split_aux [] s"

fun py_join :: "string \<Rightarrow> string list \<Rightarrow> string" where
  "py_join sep [] = []"
| "py_join sep [w] = w"
| "py_join sep (w # v # ws) = w @ sep @ py_join sep (v # ws)"

text \<open>\<open>" ".join(s.split())[:n]\<close>, the bounded one-line summary the ledgers store.\<close>

definition bounded_summary :: "nat \<Rightarrow> string \<Rightarrow> string" where
  "bounded_summary n s = take n (py_join '' '' (py_split s))"

definition py_startswith :: "string \<Rightarrow> string \<Rightarrow> bool" where
  "py_startswith s p = (take (length p) s = p)"

text \<open>Optional strings that count as true: \<open>if value:\<close>.\<close>

definition truthy :: "string option \<Rightarrow> bool" where
  "truthy v = (case v of None \<Rightarrow> False | Some s \<Rightarrow> s \<noteq> [])"

text \<open>SQL's \<open>COALESCE(new, old)\<close> on nullable columns, and Python's \<open>a or b\<close> on strings.\<close>

definition coalesce :: "'a option \<Rightarrow> 'a option \<Rightarrow> 'a option" where
  "coalesce a b = (case a of None \<Rightarrow> b | Some x \<Rightarrow> Some x)"

definition or_else :: "string option \<Rightarrow> string \<Rightarrow> string" where
  "or_else v d = (case v of None \<Rightarrow> d | Some s \<Rightarrow> if s = [] then d else s)"

lemma coalesce_simps [simp]:
  "coalesce None b = b"
  "coalesce (Some x) b = Some x"
  "coalesce a None = a"
  by (simp_all add: coalesce_def split: option.split)

lemma py_blank_None [simp]: "py_blank None"
  by (simp add: py_blank_def)

lemma truthy_simps [simp]: "truthy None = False" "truthy (Some s) = (s \<noteq> [])"
  by (simp_all add: truthy_def)

lemma length_bounded_summary: "length (bounded_summary n s) \<le> n"
  by (simp add: bounded_summary_def)

lemma dropWhile_py_strip: "dropWhile py_isspace (py_strip s) = py_strip s"
proof (cases "py_strip s")
  case (Cons c cs)
  define t where "t = dropWhile py_isspace s"
  have st: "py_strip s = rev (dropWhile py_isspace (rev t))"
    by (simp add: py_strip_def t_def)
  obtain ws where t: "t = py_strip s @ ws"
  proof -
    have "rev t = takeWhile py_isspace (rev t) @ dropWhile py_isspace (rev t)" by simp
    then have "t = rev (dropWhile py_isspace (rev t)) @ rev (takeWhile py_isspace (rev t))"
      by (metis rev_append rev_rev_ident)
    then show ?thesis using that st by metis
  qed
  have "t \<noteq> []" using Cons t by simp
  then have "\<not> py_isspace (hd t)"
    unfolding t_def by (metis hd_dropWhile)
  then show ?thesis using Cons t by simp
qed simp

lemma py_strip_idem [simp]: "py_strip (py_strip s) = py_strip s"
proof -
  have "dropWhile py_isspace (rev (py_strip s)) = rev (py_strip s)"
    by (simp add: py_strip_def dropWhile_idem)
  then show ?thesis
    by (subst py_strip_def) (simp add: dropWhile_py_strip)
qed

section \<open>JSON values\<close>

text \<open>
  A JSON value; an object keeps its keys in insertion order, as a Python \<open>dict\<close> does. A float
  is carried by its shortest decimal text, which \<open>repr\<close> and \<open>json.dumps\<close> both print.
\<close>

datatype json =
    JNull
  | JBool bool
  | JInt int
  | JFloat string
  | JStr string
  | JList "json list"
  | JObj "(string \<times> json) list"

type_synonym jobj = "(string \<times> json) list"

text \<open>\<open>d.get(k)\<close>, \<open>d[k] = v\<close>, \<open>d.pop(k)\<close> and \<open>d.setdefault(k, v)\<close> on ordered dictionaries.\<close>

definition dget :: "(string \<times> 'v) list \<Rightarrow> string \<Rightarrow> 'v option" where
  "dget d k = map_of d k"

fun dset :: "(string \<times> 'v) list \<Rightarrow> string \<Rightarrow> 'v \<Rightarrow> (string \<times> 'v) list" where
  "dset [] k v = [(k, v)]"
| "dset ((k', v') # d) k v = (if k' = k then (k, v) # d else (k', v') # dset d k v)"

definition dpop :: "(string \<times> 'v) list \<Rightarrow> string \<Rightarrow> (string \<times> 'v) list" where
  "dpop d k = filter (\<lambda>kv. fst kv \<noteq> k) d"

definition dsetdefault :: "(string \<times> 'v) list \<Rightarrow> string \<Rightarrow> 'v \<Rightarrow> (string \<times> 'v) list" where
  "dsetdefault d k v = (if k \<in> fst ` set d then d else d @ [(k, v)])"

definition dkeys :: "(string \<times> 'v) list \<Rightarrow> string list" where
  "dkeys d = map fst d"

lemma dget_dset [simp]: "dget (dset d k v) k' = (if k' = k then Some v else dget d k')"
  by (induction d) (auto simp: dget_def)

lemma set_dkeys_dset [simp]: "set (dkeys (dset d k v)) = insert k (set (dkeys d))"
  by (induction d k v rule: dset.induct) (auto simp: dkeys_def)

lemma dget_dpop [simp]: "dget (dpop d k) k' = (if k' = k then None else dget d k')"
  by (induction d) (auto simp: dget_def dpop_def)

lemma set_dkeys_dpop [simp]: "set (dkeys (dpop d k)) = set (dkeys d) - {k}"
  by (auto simp: dkeys_def dpop_def)

lemma dget_dsetdefault [simp]:
  "dget (dsetdefault d k v) k' =
     (if k' = k then (case dget d k of None \<Rightarrow> Some v | Some w \<Rightarrow> Some w) else dget d k')"
proof (cases "k \<in> fst ` set d")
  case True
  then obtain w where "map_of d k = Some w"
    by (metis map_of_eq_None_iff option.exhaust)
  then show ?thesis using True by (simp add: dget_def dsetdefault_def)
next
  case False
  then have "map_of d k = None" by (simp add: map_of_eq_None_iff)
  then show ?thesis using False
    by (simp add: dget_def dsetdefault_def map_add_def split: option.split)
qed

lemma set_dkeys_dsetdefault [simp]: "set (dkeys (dsetdefault d k v)) = insert k (set (dkeys d))"
  by (auto simp: dkeys_def dsetdefault_def)

lemma dget_None: "dget d k = None \<longleftrightarrow> k \<notin> set (dkeys d)"
  by (auto simp: dget_def dkeys_def map_of_eq_None_iff)

text \<open>Truth of a JSON value: \<open>if payload.get(field)\<close>.\<close>

fun jtrue :: "json \<Rightarrow> bool" where
  "jtrue JNull = False"
| "jtrue (JBool b) = b"
| "jtrue (JInt i) = (i \<noteq> 0)"
| "jtrue (JFloat s) = (s \<noteq> ''0.0'' \<and> s \<noteq> ''-0.0'')"
| "jtrue (JStr s) = (s \<noteq> [])"
| "jtrue (JList xs) = (xs \<noteq> [])"
| "jtrue (JObj d) = (d \<noteq> [])"

fun jopt :: "string option \<Rightarrow> json" where
  "jopt None = JNull"
| "jopt (Some s) = JStr s"

definition sorted_set :: "string list \<Rightarrow> string list" where
  "sorted_set xs = sort (remdups xs)"

lemma sorted_set_cong: "set xs = set ys \<Longrightarrow> sorted_set xs = sorted_set ys"
  by (simp add: sorted_set_def sorted_list_of_set_sort_remdups [symmetric])

lemma set_sorted_set [simp]: "set (sorted_set xs) = set xs"
  by (simp add: sorted_set_def)

lemma distinct_sorted_set [simp]: "distinct (sorted_set xs)"
  by (simp add: sorted_set_def)

section \<open>Tables as lists of rows\<close>

text \<open>
  \<open>fetch\<close> is \<open>SELECT ... WHERE P\<close> followed by \<open>fetchone()\<close>, \<open>update_where\<close> the \<open>UPDATE\<close>, and
  \<open>rowcount\<close> the number of rows an \<open>UPDATE\<close> with that condition touches.
\<close>

definition fetch :: "('r \<Rightarrow> bool) \<Rightarrow> 'r list \<Rightarrow> 'r option" where
  "fetch P rs = find P rs"

definition update_where :: "('r \<Rightarrow> bool) \<Rightarrow> ('r \<Rightarrow> 'r) \<Rightarrow> 'r list \<Rightarrow> 'r list" where
  "update_where P f rs = map (\<lambda>r. if P r then f r else r) rs"

definition rowcount :: "('r \<Rightarrow> bool) \<Rightarrow> 'r list \<Rightarrow> nat" where
  "rowcount P rs = length (filter P rs)"

lemma fetch_simps [simp]:
  "fetch P [] = None"
  "fetch P (r # rs) = (if P r then Some r else fetch P rs)"
  by (simp_all add: fetch_def)

lemma fetch_SomeD: "fetch P rs = Some r \<Longrightarrow> r \<in> set rs \<and> P r"
  by (induction rs) (auto split: if_splits)

lemma fetch_None [simp]: "fetch P rs = None \<longleftrightarrow> (\<forall>r \<in> set rs. \<not> P r)"
  by (induction rs) auto

lemma fetch_append: "fetch P (rs @ ss) = (case fetch P rs of None \<Rightarrow> fetch P ss | Some r \<Rightarrow> Some r)"
  by (induction rs) auto

lemma update_where_simps [simp]:
  "update_where P f [] = []"
  "update_where P f (r # rs) = (if P r then f r else r) # update_where P f rs"
  by (simp_all add: update_where_def)

lemma length_update_where [simp]: "length (update_where P f rs) = length rs"
  by (simp add: update_where_def)

lemma set_update_where: "set (update_where P f rs) = (\<lambda>r. if P r then f r else r) ` set rs"
  by (simp add: update_where_def)

lemma update_where_append [simp]:
  "update_where P f (rs @ ss) = update_where P f rs @ update_where P f ss"
  by (simp add: update_where_def)

lemma map_update_where:
  assumes "\<And>r. g (f r) = g r"
  shows "map g (update_where P f rs) = map g rs"
  by (simp add: update_where_def assms)

lemma fetch_update_where_other:
  assumes "\<And>r. r \<in> set rs \<Longrightarrow> Q (if P r then f r else r) = Q r"
    and "\<And>r. r \<in> set rs \<Longrightarrow> Q r \<Longrightarrow> \<not> P r"
  shows "fetch Q (update_where P f rs) = fetch Q rs"
  using assms by (induction rs) auto

text \<open>
  Rows with a unique key: a condition that selects the row of key \<open>a\<close> touches exactly that row.
\<close>

lemma keyed_unique:
  assumes "distinct (map k rs)" "fetch (\<lambda>r. k r = a) rs = Some r" "x \<in> set rs" "k x = a"
  shows "x = r"
  using assms fetch_SomeD [OF assms(2)] by (auto simp: distinct_map inj_on_def)

lemma keyed_fetch:
  assumes "distinct (map k rs)" "r \<in> set rs"
  shows "fetch (\<lambda>x. k x = k r) rs = Some r"
  using assms by (induction rs) (auto simp: rev_image_eqI)

lemma keyed_Ex:
  assumes "distinct (map k rs)" "fetch (\<lambda>r. k r = a) rs = Some r" "P r" "\<And>x. P x \<Longrightarrow> k x = a"
  shows "(\<exists>x \<in> set rs. P x \<and> Q x) = Q r"
  using keyed_unique [OF assms(1,2)] fetch_SomeD [OF assms(2)] assms(3,4) by blast

lemma keyed_rowcount:
  assumes "distinct (map k rs)" "fetch (\<lambda>r. k r = a) rs = Some r" "P r" "\<And>x. P x \<Longrightarrow> k x = a"
  shows "rowcount P rs = 1"
proof -
  have "filter P rs = [r]"
    using assms
  proof (induction rs)
    case (Cons x rs)
    show ?case
    proof (cases "k x = a")
      case True
      then have "x = r" "\<And>y. y \<in> set rs \<Longrightarrow> \<not> P y" using Cons.prems by auto
      then show ?thesis using Cons.prems by (auto simp: filter_empty_conv)
    next
      case False
      then show ?thesis using Cons by auto
    qed
  qed simp
  then show ?thesis by (simp add: rowcount_def)
qed

lemma keyed_fetch_update:
  assumes "distinct (map k rs)" "fetch (\<lambda>r. k r = a) rs = Some r" "P r" "\<And>x. P x \<Longrightarrow> k x = a"
    and "k (f r) = a"
  shows "fetch (\<lambda>x. k x = b) (update_where P f rs) =
     (if b = a then Some (f r) else fetch (\<lambda>x. k x = b) rs)"
  using assms
proof (induction rs)
  case (Cons x rs)
  show ?case
  proof (cases "k x = a")
    case True
    have "x = r" using Cons.prems(2) True by simp
    moreover have "\<not> P y" if "y \<in> set rs" for y
      using that Cons.prems(1,4) True by (metis distinct.simps(2) image_eqI list.map(2) list.set_map)
    moreover from this have "update_where P f rs = rs" by (simp add: update_where_def map_idI)
    ultimately show ?thesis using Cons.prems by auto
  next
    case False
    then show ?thesis using Cons by auto
  qed
qed simp

lemma fetch_append_Some: "fetch P rs = Some r \<Longrightarrow> fetch P (rs @ ss) = Some r"
  by (simp add: fetch_append)

section \<open>Transactions\<close>

text \<open>
  A transaction over states \<open>'s\<close>. \<open>tx_raise\<close> aborts it (the connection is rolled back), so no
  later statement runs and no state is returned.
\<close>

type_synonym ('s, 'a) tx = "'s \<Rightarrow> err + 'a \<times> 's"

definition tx_return :: "'a \<Rightarrow> ('s, 'a) tx" where
  "tx_return a s = Inr (a, s)"

definition tx_raise :: "err \<Rightarrow> ('s, 'a) tx" where
  "tx_raise e s = Inl e"

definition tx_bind :: "('s, 'a) tx \<Rightarrow> ('a \<Rightarrow> ('s, 'b) tx) \<Rightarrow> ('s, 'b) tx" where
  "tx_bind m f s = (case m s of Inl e \<Rightarrow> Inl e | Inr (a, s') \<Rightarrow> f a s')"

definition tx_get :: "('s \<Rightarrow> 'a) \<Rightarrow> ('s, 'a) tx" where
  "tx_get g s = Inr (g s, s)"

definition tx_lift :: "'a res \<Rightarrow> ('s, 'a) tx" where
  "tx_lift r s = (case r of Inl e \<Rightarrow> Inl e | Inr a \<Rightarrow> Inr (a, s))"

definition tx_require :: "bool \<Rightarrow> err \<Rightarrow> ('s, unit) tx" where
  "tx_require c e s = (if c then Inr ((), s) else Inl e)"

primrec tx_foreach :: "'x list \<Rightarrow> 'acc \<Rightarrow> ('x \<Rightarrow> 'acc \<Rightarrow> ('s, 'acc) tx) \<Rightarrow> ('s, 'acc) tx" where
  "tx_foreach [] acc f = tx_return acc"
| "tx_foreach (x # xs) acc f = tx_bind (f x acc) (\<lambda>acc'. tx_foreach xs acc' f)"

text \<open>Committing a transaction: an exception leaves the state as it was.\<close>

definition commit :: "('s, 'a) tx \<Rightarrow> 's \<Rightarrow> 'a res \<times> 's" where
  "commit m s = (case m s of Inl e \<Rightarrow> (Inl e, s) | Inr (a, s') \<Rightarrow> (Inr a, s'))"

lemma tx_return_eq [simp]: "tx_return a s = Inr r \<longleftrightarrow> r = (a, s)"
  by (auto simp: tx_return_def)

lemma tx_raise_eq [simp]: "tx_raise e s = Inr r \<longleftrightarrow> False"
  by (simp add: tx_raise_def)

lemma tx_get_eq [simp]: "tx_get g s = Inr r \<longleftrightarrow> r = (g s, s)"
  by (auto simp: tx_get_def)

lemma tx_lift_eq [simp]: "tx_lift x s = Inr r \<longleftrightarrow> (\<exists>a. x = Inr a \<and> r = (a, s))"
  by (auto simp: tx_lift_def split: sum.split)

lemma tx_require_eq [simp]: "tx_require c e s = Inr r \<longleftrightarrow> c \<and> r = ((), s)"
  by (auto simp: tx_require_def)

lemma tx_bind_eq: "tx_bind m f s = Inr r \<longleftrightarrow> (\<exists>a s'. m s = Inr (a, s') \<and> f a s' = Inr r)"
  by (auto simp: tx_bind_def split: sum.split prod.split)

lemma tx_bindE:
  assumes "tx_bind m f s = Inr r"
  obtains a s' where "m s = Inr (a, s')" "f a s' = Inr r"
  using assms by (auto simp: tx_bind_eq)

lemmas tx_run = tx_bind_def tx_return_def tx_raise_def tx_get_def tx_lift_def tx_require_def

text \<open>
  \<open>keeps R m\<close>: every successful run of \<open>m\<close> relates the state before to the state after by \<open>R\<close>.
  With a reflexive and transitive \<open>R\<close> it composes; an invariant \<open>I\<close> is the case
  \<open>R s s' \<equiv> I s \<longrightarrow> I s'\<close>.
\<close>

definition keeps :: "('s \<Rightarrow> 's \<Rightarrow> bool) \<Rightarrow> ('s, 'a) tx \<Rightarrow> bool" where
  "keeps R m \<longleftrightarrow> (\<forall>s a s'. m s = Inr (a, s') \<longrightarrow> R s s')"

lemma keepsI: "(\<And>s a s'. m s = Inr (a, s') \<Longrightarrow> R s s') \<Longrightarrow> keeps R m"
  by (auto simp: keeps_def)

lemma keepsD: "keeps R m \<Longrightarrow> m s = Inr (a, s') \<Longrightarrow> R s s'"
  by (auto simp: keeps_def)

named_theorems keeps_intros \<open>composition of \<open>keeps\<close> facts\<close>

locale tx_relation =
  fixes R :: "'s \<Rightarrow> 's \<Rightarrow> bool"
  assumes R_refl: "R s s"
    and R_trans: "R s t \<Longrightarrow> R t u \<Longrightarrow> R s u"
begin

lemma keeps_return: "keeps R (tx_return a)"
  by (auto simp: keeps_def R_refl)

lemma keeps_raise: "keeps R (tx_raise e)"
  by (auto simp: keeps_def)

lemma keeps_get: "keeps R (tx_get g)"
  by (auto simp: keeps_def R_refl)

lemma keeps_lift: "keeps R (tx_lift r)"
  by (auto simp: keeps_def R_refl)

lemma keeps_require: "keeps R (tx_require c e)"
  by (auto simp: keeps_def R_refl)

lemma keeps_bind: "keeps R m \<Longrightarrow> (\<And>a. keeps R (f a)) \<Longrightarrow> keeps R (tx_bind m f)"
  by (rule keepsI) (auto elim!: tx_bindE intro: R_trans dest: keepsD)

lemma keeps_foreach: "(\<And>x acc. x \<in> set xs \<Longrightarrow> keeps R (f x acc)) \<Longrightarrow> keeps R (tx_foreach xs acc f)"
  by (induction xs arbitrary: acc) (auto intro: keeps_return keeps_bind)

lemma keeps_if: "(c \<Longrightarrow> keeps R m) \<Longrightarrow> (\<not> c \<Longrightarrow> keeps R n) \<Longrightarrow> keeps R (if c then m else n)"
  by simp

lemma keeps_option:
  "(x = None \<Longrightarrow> keeps R m) \<Longrightarrow> (\<And>y. x = Some y \<Longrightarrow> keeps R (f y)) \<Longrightarrow>
   keeps R (case x of None \<Rightarrow> m | Some y \<Rightarrow> f y)"
  by (cases x) auto

lemma keeps_prod: "(\<And>a b. x = (a, b) \<Longrightarrow> keeps R (f a b)) \<Longrightarrow> keeps R (case x of (a, b) \<Rightarrow> f a b)"
  by (cases x) auto

lemma keeps_Let: "keeps R (f a) \<Longrightarrow> keeps R (let x = a in f x)"
  by simp

lemma keeps_commit: "keeps R m \<Longrightarrow> commit m s = (r, s') \<Longrightarrow> R s s'"
  by (auto simp: commit_def R_refl dest: keepsD split: sum.splits prod.splits)

lemmas keeps_rules = keeps_return keeps_raise keeps_get keeps_lift keeps_require keeps_bind
  keeps_foreach keeps_if keeps_option keeps_prod keeps_Let

end

end
