(* ===== verification/Timestamps.thy ===== *)
theory Timestamps
  imports Report_Prelude
begin

text \<open>
  Dates and timestamps as the SQLite ledger stores them. A Python \<open>datetime\<close> is always aware
  and in UTC here, so it is an integer number of microseconds since 1970-01-01; a \<open>date\<close> is its
  proleptic Gregorian ordinal (\<open>date.toordinal()\<close>). The ledger stores the text of
  \<open>_dt_to_text\<close> (\<open>src/src/app/reporting_jobs/ledger.py\<close>), custody recovery the text of
  \<open>timestamp\<close> (\<open>src/src/app/reporting_jobs/custody_recovery.py\<close>), and SQL compares the texts.

  The lemmas show what that comparison means: it is the integer comparison of \<open>text_key\<close>, which
  agrees with time except inside one second, where a \<open>Z\<close> text with no fractional part sorts
  after every other text of that second.
\<close>

section \<open>The proleptic Gregorian calendar\<close>

type_synonym date = int
type_synonym dt = int

definition is_leap :: "int \<Rightarrow> bool" where
  "is_leap y \<longleftrightarrow> y mod 4 = 0 \<and> (y mod 100 \<noteq> 0 \<or> y mod 400 = 0)"

definition days_before_year :: "int \<Rightarrow> int" where
  "days_before_year y = (let p = y - 1 in p * 365 + p div 4 - p div 100 + p div 400)"

definition days_in_year :: "int \<Rightarrow> int" where
  "days_in_year y = (if is_leap y then 366 else 365)"

definition days_before_month :: "int \<Rightarrow> int \<Rightarrow> int" where
  "days_before_month y m =
     [0, 31, 59, 90, 120, 151, 181, 212, 243, 273, 304, 334, 365] ! nat (m - 1)
     + (if 2 < m \<and> is_leap y then 1 else 0)"

definition days_in_month :: "int \<Rightarrow> int \<Rightarrow> int" where
  "days_in_month y m = days_before_month y (m + 1) - days_before_month y m"

definition ymd2ord :: "int \<Rightarrow> int \<Rightarrow> int \<Rightarrow> date" where
  "ymd2ord y m d = days_before_year y + days_before_month y m + d"

lemma div_step:
  fixes p k :: int
  assumes "0 < k"
  shows "(p + 1) div k = p div k + (if (p + 1) mod k = 0 then 1 else 0)"
proof (cases "p mod k + 1 = k")
  case True
  have "p + 1 = k * (p div k + 1) + 0"
    using mult_div_mod_eq [of k p] True by (simp only: distrib_left mult_1_right)
  then have "(p + 1) div k = p div k + 1" "(p + 1) mod k = 0"
    using assms int_div_pos_eq [of "p + 1" k _ 0] int_mod_pos_eq [of "p + 1" k _ 0] by blast+
  then show ?thesis by simp
next
  case False
  have r: "0 \<le> p mod k + 1" "p mod k + 1 < k"
    using assms False pos_mod_bound [OF assms, of p] pos_mod_sign [OF assms, of p] by simp_all
  have "p + 1 = k * (p div k) + (p mod k + 1)"
    using mult_div_mod_eq [of k p] by simp
  then have "(p + 1) div k = p div k" "(p + 1) mod k = p mod k + 1"
    using r int_div_pos_eq int_mod_pos_eq by blast+
  then show ?thesis using pos_mod_sign [OF assms, of p] by simp
qed

lemma leap_arith:
  fixes y a b c :: int
  assumes "B \<longrightarrow> A" and "C \<longrightarrow> B"
  shows "y * 365 + (a + (if A then 1 else 0)) - (b + (if B then 1 else 0))
      + (c + (if C then 1 else 0)) =
    (y - 1) * 365 + a - b + c + (if A \<and> (\<not> B \<or> C) then 366 else 365)"
  using assms by (cases A; cases B; cases C) simp_all

lemma days_before_year_Suc: "days_before_year (y + 1) = days_before_year y + days_in_year y"
proof -
  have d: "y div 4 = (y - 1) div 4 + (if y mod 4 = 0 then 1 else 0)"
    "y div 100 = (y - 1) div 100 + (if y mod 100 = 0 then 1 else 0)"
    "y div 400 = (y - 1) div 400 + (if y mod 400 = 0 then 1 else 0)"
    using div_step [of 4 "y - 1"] div_step [of 100 "y - 1"] div_step [of 400 "y - 1"]
    by (simp_all only: diff_add_cancel zero_less_numeral)
  have "4 dvd y" if "100 dvd y" using dvd_trans [OF _ that, of 4] by simp
  then have m4: "y mod 100 = 0 \<longrightarrow> y mod 4 = 0" unfolding mod_eq_0_iff_dvd by blast
  have "100 dvd y" if "400 dvd y" using dvd_trans [OF _ that, of 100] by simp
  then have m100: "y mod 400 = 0 \<longrightarrow> y mod 100 = 0" unfolding mod_eq_0_iff_dvd by blast
  have "days_before_year (y + 1) = y * 365 + y div 4 - y div 100 + y div 400"
    by (simp only: days_before_year_def Let_def add_diff_cancel_right')
  also have "\<dots> = days_before_year y + days_in_year y"
    unfolding days_before_year_def days_in_year_def is_leap_def Let_def d
    by (rule leap_arith [OF m4 m100])
  finally show ?thesis .
qed

lemma days_in_year_bounds: "365 \<le> days_in_year y" "days_in_year y \<le> 366"
  by (simp_all add: days_in_year_def)

lemma days_before_year_mono: "y \<le> z \<Longrightarrow> days_before_year y \<le> days_before_year z"
proof (induction z rule: int_ge_induct)
  case (step z)
  then show ?case using days_in_year_bounds(1) [of z] by (simp add: days_before_year_Suc)
qed simp

text \<open>The year of an ordinal: a search upwards from a year that cannot be too late.\<close>

function year_from :: "date \<Rightarrow> int \<Rightarrow> int" where
  "year_from n y = (if days_before_year (y + 1) < n then year_from n (y + 1) else y)"
  by pat_completeness auto
termination
proof (relation "measure (\<lambda>(n, y). nat (n - days_before_year (y + 1)))")
  show "((n, y + 1), n, y) \<in> measure (\<lambda>(n, y). nat (n - days_before_year (y + 1)))"
    if "days_before_year (y + 1) < n" for n y
    using that days_in_year_bounds(1) [of "y + 1"] days_before_year_Suc [of "y + 1"] by simp
qed simp

declare year_from.simps [simp del]

definition year_of :: "date \<Rightarrow> int" where
  "year_of n = year_from n ((n - 1) div 366 + 1)"

definition month_of :: "int \<Rightarrow> int \<Rightarrow> int" where
  "month_of y k =
     (if k \<le> days_before_month y 2 then 1 else if k \<le> days_before_month y 3 then 2
      else if k \<le> days_before_month y 4 then 3 else if k \<le> days_before_month y 5 then 4
      else if k \<le> days_before_month y 6 then 5 else if k \<le> days_before_month y 7 then 6
      else if k \<le> days_before_month y 8 then 7 else if k \<le> days_before_month y 9 then 8
      else if k \<le> days_before_month y 10 then 9 else if k \<le> days_before_month y 11 then 10
      else if k \<le> days_before_month y 12 then 11 else 12)"

text \<open>\<open>date.fromordinal\<close>: the year, month and day of an ordinal.\<close>

definition ord2ymd :: "date \<Rightarrow> int \<times> int \<times> int" where
  "ord2ymd n = (let y = year_of n; k = n - days_before_year y; m = month_of y k
     in (y, m, k - days_before_month y m))"

lemma year_from_bounds:
  "days_before_year y < n \<Longrightarrow>
   days_before_year (year_from n y) < n \<and> n \<le> days_before_year (year_from n y + 1)"
proof (induction n y rule: year_from.induct)
  case (1 n y)
  then show ?case by (simp add: year_from.simps [of n y])
qed

lemma year_from_ge: "y \<le> year_from n y"
proof (induction n y rule: year_from.induct)
  case (1 n y)
  then show ?case by (cases "days_before_year (y + 1) < n") (simp_all add: year_from.simps [of n y])
qed

lemma days_before_year_le: "1 \<le> y \<Longrightarrow> days_before_year y \<le> (y - 1) * 366"
proof (induction y rule: int_ge_induct)
  case base
  show ?case by (simp add: days_before_year_def)
next
  case (step y)
  then show ?case using days_in_year_bounds(2) [of y] days_before_year_Suc [of y]
    by (simp add: algebra_simps)
qed

lemma year_of_bounds:
  assumes "1 \<le> n"
  shows "days_before_year (year_of n) < n" "n \<le> days_before_year (year_of n + 1)" "1 \<le> year_of n"
proof -
  have q: "0 \<le> (n - 1) div 366" using assms by (simp add: pos_imp_zdiv_nonneg_iff)
  have "days_before_year ((n - 1) div 366 + 1) \<le> ((n - 1) div 366) * 366"
    using days_before_year_le [of "(n - 1) div 366 + 1"] q by simp
  also have "\<dots> \<le> n - 1"
    using mult_div_mod_eq [of 366 "n - 1"] pos_mod_sign [of 366 "n - 1"] by linarith
  finally have "days_before_year ((n - 1) div 366 + 1) < n" by simp
  then show "days_before_year (year_of n) < n" "n \<le> days_before_year (year_of n + 1)"
    using year_from_bounds unfolding year_of_def by blast+
  show "1 \<le> year_of n"
    using year_from_ge [of "(n - 1) div 366 + 1" n] q unfolding year_of_def by linarith
qed

lemma days_before_month_simps:
  "days_before_month y 1 = 0" "days_before_month y 2 = 31"
  "days_before_month y 3 = 59 + (if is_leap y then 1 else 0)"
  "days_before_month y 4 = 90 + (if is_leap y then 1 else 0)"
  "days_before_month y 5 = 120 + (if is_leap y then 1 else 0)"
  "days_before_month y 6 = 151 + (if is_leap y then 1 else 0)"
  "days_before_month y 7 = 181 + (if is_leap y then 1 else 0)"
  "days_before_month y 8 = 212 + (if is_leap y then 1 else 0)"
  "days_before_month y 9 = 243 + (if is_leap y then 1 else 0)"
  "days_before_month y 10 = 273 + (if is_leap y then 1 else 0)"
  "days_before_month y 11 = 304 + (if is_leap y then 1 else 0)"
  "days_before_month y 12 = 334 + (if is_leap y then 1 else 0)"
  "days_before_month y 13 = 365 + (if is_leap y then 1 else 0)"
  by (simp_all add: days_before_month_def)

lemma month_of_less:
  assumes "k < k'"
  shows "month_of y k < month_of y k' \<or> month_of y k = month_of y k'"
  using assms unfolding month_of_def days_before_month_simps
  by (cases "is_leap y") (simp_all split: if_split)

lemma month_of_range: "1 \<le> month_of y k \<and> month_of y k \<le> 12"
  by (simp add: month_of_def)

lemma day_of_range:
  assumes "1 \<le> k" and "k \<le> days_in_year y"
  shows "1 \<le> k - days_before_month y (month_of y k)
    \<and> k - days_before_month y (month_of y k) \<le> 31"
  using assms unfolding month_of_def days_in_year_def
  by (cases "is_leap y") (simp_all add: days_before_month_simps split: if_split)

section \<open>Rendering\<close>

text \<open>
  \<open>dt_fields\<close> are the six calendar fields of a whole second; \<open>dt_head\<close> is the part of
  \<open>isoformat()\<close> before the fraction. 719163 is the ordinal of 1970-01-01.
\<close>

definition digit :: "int \<Rightarrow> char" where
  "digit n = char_of (48 + nat n)"

definition pad2 :: "int \<Rightarrow> string" where
  "pad2 n = [digit (n div 10), digit (n mod 10)]"

definition pad4 :: "int \<Rightarrow> string" where
  "pad4 n = pad2 (n div 100) @ pad2 (n mod 100)"

definition pad6 :: "int \<Rightarrow> string" where
  "pad6 n = pad2 (n div 10000) @ pad4 (n mod 10000)"

definition date_isoformat :: "date \<Rightarrow> string" where
  "date_isoformat n = (case ord2ymd n of (y, m, d) \<Rightarrow> pad4 y @ ''-'' @ pad2 m @ ''-'' @ pad2 d)"

definition dt_second :: "dt \<Rightarrow> int" where "dt_second t = t div 1000000"
definition dt_micro :: "dt \<Rightarrow> int" where "dt_micro t = t mod 1000000"

definition dt_day :: "dt \<Rightarrow> date" where "dt_day t = dt_second t div 86400 + 719163"

definition dt_head :: "dt \<Rightarrow> string" where
  "dt_head t = (let r = dt_second t mod 86400 in
     date_isoformat (dt_day t) @ ''T'' @ pad2 (r div 3600) @ '':''
     @ pad2 (r mod 3600 div 60) @ '':'' @ pad2 (r mod 3600 mod 60))"

definition dt_fraction :: "dt \<Rightarrow> string" where
  "dt_fraction t = (if dt_micro t = 0 then [] else ''.'' @ pad6 (dt_micro t))"

definition dt_isoformat :: "dt \<Rightarrow> string" where
  "dt_isoformat t = dt_head t @ dt_fraction t @ ''+00:00''"

text \<open>
  A stored timestamp. The ledger writes \<open>value.astimezone(UTC).isoformat().replace("+00:00", "Z")\<close>,
  custody recovery writes \<open>value.astimezone(UTC).isoformat()\<close>; \<open>datetime.fromisoformat\<close> reads
  both back, so a stamp is the instant with the form it was written in.
\<close>

datatype stamp = Zulu (stamp_dt: dt) | Offset (stamp_dt: dt)

definition dt_to_text :: "dt \<Rightarrow> stamp" where "dt_to_text t = Zulu t"

definition custody_timestamp :: "dt \<Rightarrow> stamp" where "custody_timestamp t = Offset t"

definition stamp_text :: "stamp \<Rightarrow> string" where
  "stamp_text s = (case s of
       Zulu t \<Rightarrow> dt_head t @ dt_fraction t @ ''Z''
     | Offset t \<Rightarrow> dt_isoformat t)"

text \<open>
  The order SQLite's \<open>BINARY\<close> collation gives to the stored texts, computed on the instants
  (\<open>stamp_le_iff_text\<close> below): first the second; within it the fraction, with the bare \<open>+00:00\<close>
  form first and the bare \<open>Z\<close> form last.
\<close>

definition text_key :: "stamp \<Rightarrow> int" where
  "text_key s = dt_second (stamp_dt s) * 3000000 +
     (let u = dt_micro (stamp_dt s) in
      case s of Zulu _ \<Rightarrow> if u = 0 then 2000000 else 2 * u + 1
              | Offset _ \<Rightarrow> 2 * u)"

definition stamp_le :: "stamp \<Rightarrow> stamp \<Rightarrow> bool" where
  "stamp_le a b \<longleftrightarrow> text_key a \<le> text_key b"

lemma lex_append_less:
  fixes xs ys :: "'a::linorder list"
  assumes "length xs = length ys"
  shows "xs @ u < ys @ v \<longleftrightarrow> xs < ys \<or> xs = ys \<and> u < v"
  using assms by (induction xs ys rule: list_induct2) auto

lemma lex_append_le:
  fixes xs ys :: "'a::linorder list"
  assumes "length xs = length ys"
  shows "xs @ u \<le> ys @ v \<longleftrightarrow> xs < ys \<or> xs = ys \<and> u \<le> v"
  using lex_append_less [OF assms, of u v] append_eq_append_conv [OF disjI1 [OF assms], of u v]
  by (auto simp: order_le_less)

lemma digit_less: "0 \<le> a \<Longrightarrow> a < 10 \<Longrightarrow> 0 \<le> b \<Longrightarrow> b < 10 \<Longrightarrow> digit a < digit b \<longleftrightarrow> a < b"
  by (auto simp: digit_def less_char_def of_char_of nat_less_eq_zless)

lemma digit_eq: "0 \<le> a \<Longrightarrow> a < 10 \<Longrightarrow> 0 \<le> b \<Longrightarrow> b < 10 \<Longrightarrow> digit a = digit b \<longleftrightarrow> a = b"
  by (metis digit_less linorder_neq_iff order_less_irrefl)

text \<open>Comparing \<open>a\<close> and \<open>b\<close> is comparing quotients first and remainders after.\<close>

lemma divmod_less:
  fixes a b k :: int
  assumes "0 < k"
  shows "a < b \<longleftrightarrow> a div k < b div k \<or> a div k = b div k \<and> a mod k < b mod k"
proof -
  have e: "a = k * (a div k) + a mod k" "b = k * (b div k) + b mod k" by simp_all
  have m: "a div k \<le> b div k" if "a \<le> b" using that assms by (rule zdiv_mono1)
  have m': "b div k \<le> a div k" if "b \<le> a" using that assms by (rule zdiv_mono1)
  show ?thesis
  proof (cases "a div k = b div k")
    case True
    then show ?thesis using e by (metis add_less_cancel_left order_less_irrefl)
  next
    case False
    then show ?thesis using m m' by linarith
  qed
qed

lemma divmod_eq: "a = b \<longleftrightarrow> a div k = b div k \<and> a mod k = b mod k" for a b k :: int
  by (metis mult_div_mod_eq)

lemma pad2_less:
  assumes "0 \<le> a" "a < 100" "0 \<le> b" "b < 100"
  shows "pad2 a < pad2 b \<longleftrightarrow> a < b" "pad2 a = pad2 b \<longleftrightarrow> a = b"
proof -
  have r: "0 \<le> a div 10" "a div 10 < 10" "0 \<le> b div 10" "b div 10 < 10"
    using assms by linarith+
  show "pad2 a < pad2 b \<longleftrightarrow> a < b"
    using r by (simp add: pad2_def digit_less digit_eq divmod_less [of 10 a b])
  show "pad2 a = pad2 b \<longleftrightarrow> a = b"
    using r by (simp add: pad2_def digit_eq divmod_eq [of a b 10])
qed

lemma length_pad [simp]: "length (pad2 a) = 2" "length (pad4 a) = 4" "length (pad6 a) = 6"
  by (simp_all add: pad2_def pad4_def pad6_def)

lemma pad4_less:
  assumes "0 \<le> a" "a < 10000" "0 \<le> b" "b < 10000"
  shows "pad4 a < pad4 b \<longleftrightarrow> a < b" "pad4 a = pad4 b \<longleftrightarrow> a = b"
proof -
  have r: "0 \<le> a div 100" "a div 100 < 100" "0 \<le> b div 100" "b div 100 < 100"
    using assms by linarith+
  show "pad4 a < pad4 b \<longleftrightarrow> a < b"
    using r by (simp add: pad4_def lex_append_less pad2_less divmod_less [of 100 a b])
  show "pad4 a = pad4 b \<longleftrightarrow> a = b"
    using r by (simp add: pad4_def pad2_less divmod_eq [of a b 100])
qed

lemma pad6_less:
  assumes "0 \<le> a" "a < 1000000" "0 \<le> b" "b < 1000000"
  shows "pad6 a < pad6 b \<longleftrightarrow> a < b" "pad6 a = pad6 b \<longleftrightarrow> a = b"
proof -
  have r: "0 \<le> a div 10000" "a div 10000 < 100" "0 \<le> b div 10000" "b div 10000 < 100"
    using assms by linarith+
  show "pad6 a < pad6 b \<longleftrightarrow> a < b"
    using r by (simp add: pad6_def lex_append_less pad2_less pad4_less divmod_less [of 10000 a b])
  show "pad6 a = pad6 b \<longleftrightarrow> a = b"
    using r by (simp add: pad6_def pad2_less pad4_less divmod_eq [of a b 10000])
qed

section \<open>The order of the stored texts\<close>

text \<open>The instants \<open>datetime\<close> can hold: years 1 to 9999.\<close>

definition dt_in_range :: "dt \<Rightarrow> bool" where
  "dt_in_range t \<longleftrightarrow> 1 \<le> dt_day t \<and> year_of (dt_day t) \<le> 9999"

lemma date_isoformat_mono:
  assumes "1 \<le> n" "n < n'" "year_of n' \<le> 9999"
  shows "date_isoformat n < date_isoformat n'"
proof -
  define y where "y = year_of n"
  define y' where "y' = year_of n'"
  define k where "k = n - days_before_year y"
  define k' where "k' = n' - days_before_year y'"
  note bs = year_of_bounds [OF assms(1), folded y_def]
    year_of_bounds [of n', folded y'_def, OF order.trans [OF assms(1) less_imp_le [OF assms(2)]]]
  have "\<not> y' < y"
  proof
    assume "y' < y"
    then have "days_before_year (y' + 1) \<le> days_before_year y" by (intro days_before_year_mono) simp
    then show False using bs assms(2) by linarith
  qed
  then have yy: "1 \<le> y" "y \<le> y'" "y' \<le> 9999" using bs assms(3) by (simp_all add: y'_def)
  have k: "1 \<le> k" "k \<le> days_in_year y" "1 \<le> k'" "k' \<le> days_in_year y'"
    using bs by (simp_all add: k_def k'_def days_before_year_Suc)
  have t: "date_isoformat n = pad4 y @ ''-'' @ pad2 (month_of y k) @ ''-''
      @ pad2 (k - days_before_month y (month_of y k))"
    "date_isoformat n' = pad4 y' @ ''-'' @ pad2 (month_of y' k') @ ''-''
      @ pad2 (k' - days_before_month y' (month_of y' k'))"
    by (simp_all add: date_isoformat_def ord2ymd_def Let_def y_def y'_def k_def k'_def)
  have p4: "pad4 y < pad4 y' \<longleftrightarrow> y < y'" "pad4 y = pad4 y' \<longleftrightarrow> y = y'"
    using yy by (simp_all add: pad4_less)
  have p2: "pad2 (month_of y k) < pad2 (month_of y' k') \<longleftrightarrow> month_of y k < month_of y' k'"
    "pad2 (month_of y k) = pad2 (month_of y' k') \<longleftrightarrow> month_of y k = month_of y' k'"
    using month_of_range [of y k] month_of_range [of y' k'] by (simp_all add: pad2_less)
  have pd: "pad2 (k - days_before_month y (month_of y k))
      < pad2 (k' - days_before_month y' (month_of y' k'))
    \<longleftrightarrow> k - days_before_month y (month_of y k) < k' - days_before_month y' (month_of y' k')"
    using day_of_range [OF k(1,2)] day_of_range [OF k(3,4)] by (simp add: pad2_less)
  show ?thesis
  proof (cases "y = y'")
    case True
    then have "k < k'" using assms(2) by (simp add: k_def k'_def)
    then show ?thesis
      using month_of_less [of k k' y] p2 pd True by (auto simp: t lex_append_less)
  next
    case False
    then show ?thesis using yy by (simp add: t lex_append_less p4)
  qed
qed

lemma length_date_isoformat [simp]: "length (date_isoformat n) = 10"
  by (simp add: date_isoformat_def split: prod.split)

lemma length_dt_head [simp]: "length (dt_head t) = 19"
  by (simp add: dt_head_def Let_def)

lemma dt_head_mono:
  assumes "dt_in_range t" "dt_in_range t'" "dt_second t < dt_second t'"
  shows "dt_head t < dt_head t'"
proof -
  define r where "r = dt_second t mod 86400"
  define r' where "r' = dt_second t' mod 86400"
  have rb: "0 \<le> r" "r < 86400" "0 \<le> r'" "r' < 86400" by (simp_all add: r_def r'_def)
  have q: "0 \<le> r div 3600" "r div 3600 < 100" "0 \<le> r' div 3600" "r' div 3600 < 100"
    "0 \<le> r mod 3600 div 60" "r mod 3600 div 60 < 100"
    "0 \<le> r' mod 3600 div 60" "r' mod 3600 div 60 < 100"
    "r mod 3600 mod 60 < 100" "r' mod 3600 mod 60 < 100"
    using rb by linarith+
  consider (day) "dt_day t < dt_day t'" | (same) "dt_day t = dt_day t'" "r < r'"
    using assms(3) divmod_less [of 86400 "dt_second t" "dt_second t'"]
    by (auto simp: dt_day_def r_def r'_def)
  then show ?thesis
  proof cases
    case day
    then have "date_isoformat (dt_day t) < date_isoformat (dt_day t')"
      using date_isoformat_mono assms(1,2) by (simp add: dt_in_range_def)
    then show ?thesis by (simp add: dt_head_def Let_def lex_append_less)
  next
    case same
    then have "r div 3600 < r' div 3600 \<or> r div 3600 = r' div 3600 \<and>
        (r mod 3600 div 60 < r' mod 3600 div 60 \<or> r mod 3600 div 60 = r' mod 3600 div 60 \<and>
          r mod 3600 mod 60 < r' mod 3600 mod 60)"
      using divmod_less [of 3600 r r'] divmod_less [of 60 "r mod 3600" "r' mod 3600"] by simp
    then show ?thesis
      unfolding dt_head_def Let_def r_def [symmetric] r'_def [symmetric]
      by (simp add: same lex_append_less pad2_less q)
  qed
qed

lemma dt_head_eq:
  assumes "dt_second t = dt_second t'"
  shows "dt_head t = dt_head t'"
  by (simp add: dt_head_def dt_day_def assms)

lemma stamp_text_split:
  "stamp_text s = dt_head (stamp_dt s) @ dt_fraction (stamp_dt s)
     @ (case s of Zulu _ \<Rightarrow> ''Z'' | Offset _ \<Rightarrow> ''+00:00'')"
  by (simp add: stamp_text_def dt_isoformat_def split: stamp.split)

definition text_tail :: "stamp \<Rightarrow> string" where
  "text_tail s = dt_fraction (stamp_dt s) @ (case s of Zulu _ \<Rightarrow> ''Z'' | Offset _ \<Rightarrow> ''+00:00'')"

definition tail_key :: "stamp \<Rightarrow> int" where
  "tail_key s = (let u = dt_micro (stamp_dt s) in
      case s of Zulu _ \<Rightarrow> if u = 0 then 2000000 else 2 * u + 1 | Offset _ \<Rightarrow> 2 * u)"

lemma dt_micro_range: "0 \<le> dt_micro t" "dt_micro t < 1000000"
  by (simp_all add: dt_micro_def)

lemma tail_key_range: "0 \<le> tail_key s" "tail_key s < 3000000"
  using dt_micro_range [of "stamp_dt s"] by (auto simp: tail_key_def Let_def split: stamp.split)

lemma text_tail_le: "text_tail a \<le> text_tail b \<longleftrightarrow> tail_key a \<le> tail_key b"
proof -
  let ?u = "dt_micro (stamp_dt a)" and ?v = "dt_micro (stamp_dt b)"
  note p = pad6_less [OF dt_micro_range dt_micro_range, of "stamp_dt a" "stamp_dt b"]
  note rs = dt_micro_range [of "stamp_dt a"] dt_micro_range [of "stamp_dt b"]
  have c: "CHR ''.'' < CHR ''Z''" "CHR ''+'' < CHR ''Z''" "CHR ''+'' < CHR ''.''"
    by (simp_all add: less_char_def)
  then have c': "\<not> CHR ''Z'' < CHR ''.''" "\<not> CHR ''Z'' < CHR ''+''" "\<not> CHR ''.'' < CHR ''+''"
    by (simp_all add: not_less order.strict_implies_order)
  show ?thesis
    using rs c c' p
    by (cases a; cases b; cases "?u = 0"; cases "?v = 0")
       (auto simp: text_tail_def tail_key_def Let_def dt_fraction_def lex_append_le)
qed

lemma stamp_le_iff_tail:
  "stamp_le a b \<longleftrightarrow> dt_second (stamp_dt a) < dt_second (stamp_dt b)
    \<or> dt_second (stamp_dt a) = dt_second (stamp_dt b) \<and> tail_key a \<le> tail_key b"
proof -
  have k: "text_key s = dt_second (stamp_dt s) * 3000000 + tail_key s" for s
    by (simp add: text_key_def tail_key_def)
  show ?thesis
    unfolding stamp_le_def k using tail_key_range [of a] tail_key_range [of b] by linarith
qed

lemma stamp_le_iff_text:
  assumes "dt_in_range (stamp_dt a)" "dt_in_range (stamp_dt b)"
  shows "stamp_text a \<le> stamp_text b \<longleftrightarrow> stamp_le a b"
proof -
  let ?a = "stamp_dt a" and ?b = "stamp_dt b"
  have t: "stamp_text a \<le> stamp_text b \<longleftrightarrow>
      dt_head ?a < dt_head ?b \<or> dt_head ?a = dt_head ?b \<and> text_tail a \<le> text_tail b"
    unfolding stamp_text_split text_tail_def [symmetric] by (simp add: lex_append_le)
  consider "dt_second ?a < dt_second ?b" | "dt_second ?a = dt_second ?b" | "dt_second ?b < dt_second ?a"
    by linarith
  then show ?thesis
  proof cases
    case 1
    then show ?thesis using dt_head_mono [OF assms 1] t by (simp add: stamp_le_iff_tail)
  next
    case 2
    then show ?thesis using t dt_head_eq [OF 2] by (simp add: stamp_le_iff_tail text_tail_le)
  next
    case 3
    then show ?thesis using dt_head_mono [OF assms(2,1) 3] t
      by (auto simp: stamp_le_iff_tail)
  qed
qed

lemma dt_split: "t = dt_second t * 1000000 + dt_micro t"
  by (simp add: dt_second_def dt_micro_def)

lemma dt_le_iff:
  "t \<le> u \<longleftrightarrow> dt_second t < dt_second u \<or> dt_second t = dt_second u \<and> dt_micro t \<le> dt_micro u"
  using divmod_less [of 1000000 u t] unfolding dt_second_def dt_micro_def by linarith

lemma stamp_le_Zulu:
  "stamp_le (Zulu t) (Zulu u) \<longleftrightarrow>
     (if dt_second t = dt_second u \<and> (dt_micro t = 0) \<noteq> (dt_micro u = 0)
      then dt_micro u = 0 else t \<le> u)"
  using dt_micro_range [of t] dt_micro_range [of u] dt_le_iff [of t u]
  by (auto simp: stamp_le_iff_tail tail_key_def Let_def)

lemma stamp_le_Offset: "stamp_le (Offset t) (Offset u) \<longleftrightarrow> t \<le> u"
  using dt_le_iff [of t u] by (auto simp: stamp_le_iff_tail tail_key_def Let_def)

lemma stamp_le_refl [simp]: "stamp_le s s"
  by (simp add: stamp_le_def)

lemma stamp_le_trans: "stamp_le a b \<Longrightarrow> stamp_le b c \<Longrightarrow> stamp_le a c"
  by (simp add: stamp_le_def)

lemma stamp_le_total: "stamp_le a b \<or> stamp_le b a"
  by (auto simp: stamp_le_def)

text \<open>A stamp of a later second is never sorted before, whatever the two forms.\<close>

lemma stamp_le_later_second:
  "dt_second (stamp_dt a) < dt_second (stamp_dt b) \<Longrightarrow> stamp_le a b \<and> \<not> stamp_le b a"
  by (auto simp: stamp_le_iff_tail)

text \<open> What SQLite's comparison of two ledger timestamps means. The texts written by
  \<open>_dt_to_text\<close> compare like the instants, except that inside one second the text without a
  fractional part, which denotes the start of the second, sorts after the texts with one. The
  comment in \<open>_list_jobs_predicates\<close> claims that the order is chronological throughout.\<close>

theorem stored_text_order:
  assumes "dt_in_range t" and "dt_in_range u"
  shows "stamp_text (dt_to_text t) \<le> stamp_text (dt_to_text u) \<longleftrightarrow>
     (if dt_second t = dt_second u \<and> (dt_micro t = 0) \<noteq> (dt_micro u = 0)
      then dt_micro u = 0 else t \<le> u)"
  using assms by (simp add: dt_to_text_def stamp_le_iff_text stamp_le_Zulu)

lemma in_range_2026: "dt_in_range 1776816000000000" "dt_in_range 1776816000500000"
  by code_simp+

theorem stored_text_order_witness:
  "stamp_text (dt_to_text 1776816000500000) \<le> stamp_text (dt_to_text 1776816000000000)
    \<and> \<not> (1776816000500000 :: dt) \<le> 1776816000000000"
  using stored_text_order [OF in_range_2026(2,1)] by (simp add: dt_second_def dt_micro_def)

end
