(* ===== verification/Iso_Dates.thy ===== *)
theory Iso_Dates
  imports Timestamps
begin

text \<open>
  \<open>date.fromisoformat\<close> of the Python standard library (3.11 and later), which \<open>_request_parts\<close>
  and \<open>_record_from_row\<close> of \<open>src/src/app/reporting_jobs/ledger.py\<close> call: the calendar forms
  \<open>YYYY-MM-DD\<close> and \<open>YYYYMMDD\<close> and the ISO week forms, in texts of length 7, 8 or 10. Characters
  after a complete date are ignored, as the library ignores them.
\<close>

section \<open>Parsing\<close>

definition digit_value :: "char \<Rightarrow> int option" where
  "digit_value c = (let n = (of_char c :: nat) in if 48 \<le> n \<and> n \<le> 57 then Some (int n - 48) else None)"

primrec parse_digits :: "nat \<Rightarrow> int \<Rightarrow> string \<Rightarrow> (int \<times> string) option" where
  "parse_digits 0 acc s = Some (acc, s)"
| "parse_digits (Suc k) acc s =
     (case s of [] \<Rightarrow> None | c # cs \<Rightarrow>
      (case digit_value c of None \<Rightarrow> None | Some v \<Rightarrow> parse_digits k (acc * 10 + v) cs))"

text \<open>The separator is required exactly where the text used one after the year.\<close>

definition parse_separator :: "bool \<Rightarrow> string \<Rightarrow> string option" where
  "parse_separator sep s =
     (if sep then (case s of c # cs \<Rightarrow> if c = CHR ''-'' then Some cs else None | [] \<Rightarrow> None) else Some s)"

definition make_date :: "int \<Rightarrow> int \<Rightarrow> int \<Rightarrow> date option" where
  "make_date y m d =
     (if 1 \<le> y \<and> y \<le> 9999 \<and> 1 \<le> m \<and> m \<le> 12 \<and> 1 \<le> d \<and> d \<le> days_in_month y m
      then Some (ymd2ord y m d) else None)"

definition parse_calendar :: "bool \<Rightarrow> int \<Rightarrow> string \<Rightarrow> date option" where
  "parse_calendar sep y s =
     Option.bind (parse_digits 2 0 s) (\<lambda>(m, s1).
     Option.bind (parse_separator sep s1) (\<lambda>s2.
     Option.bind (parse_digits 2 0 s2) (\<lambda>(d, _). make_date y m d)))"

text \<open>Week 53 exists in the years that begin on a Thursday, or on a Wednesday when leap.\<close>

definition weekday :: "date \<Rightarrow> int" where "weekday n = (n + 6) mod 7"

definition iso_week1_monday :: "int \<Rightarrow> date" where
  "iso_week1_monday y =
     (let first = ymd2ord y 1 1; w = weekday first in first - w + (if w > 3 then 7 else 0))"

definition iso_week_date :: "int \<Rightarrow> int \<Rightarrow> int \<Rightarrow> date option" where
  "iso_week_date y week day =
     (let w = weekday (ymd2ord y 1 1);
          long = (w = 3 \<or> (w = 2 \<and> is_leap y));
          n = iso_week1_monday y + (week - 1) * 7 + (day - 1) in
      if 1 \<le> y \<and> y \<le> 9999 \<and> (1 \<le> week \<and> week \<le> 52 \<or> week = 53 \<and> long) \<and> 1 \<le> day \<and> day \<le> 7
         \<and> 1 \<le> n \<and> n \<le> ymd2ord 9999 12 31
      then Some n else None)"

definition parse_week :: "bool \<Rightarrow> int \<Rightarrow> string \<Rightarrow> date option" where
  "parse_week sep y s =
     Option.bind (parse_digits 2 0 s) (\<lambda>(week, s1).
     if s1 = [] then iso_week_date y week 1 else
     Option.bind (parse_separator sep s1) (\<lambda>s2.
     Option.bind (parse_digits 1 0 s2) (\<lambda>(day, _). iso_week_date y week day)))"

definition date_fromisoformat :: "string \<Rightarrow> date res" where
  "date_fromisoformat s =
     (let parsed = (if length s \<in> {7, 8, 10}
        then Option.bind (parse_digits 4 0 s) (\<lambda>(y, s1).
          let sep = (take 1 s1 = ''-''); s2 = (if sep then drop 1 s1 else s1) in
          (case s2 of c # s3 \<Rightarrow> if c = CHR ''W'' then parse_week sep y s3 else parse_calendar sep y s2
           | [] \<Rightarrow> None))
        else None) in
      case parsed of None \<Rightarrow> Inl (ValueError ''Invalid isoformat string'') | Some n \<Rightarrow> Inr n)"

section \<open>Round trip\<close>

definition MAX_ORDINAL :: date where "MAX_ORDINAL = ymd2ord 9999 12 31"

lemma MAX_ORDINAL_eq: "MAX_ORDINAL = 3652059"
  by (simp add: MAX_ORDINAL_def ymd2ord_def days_before_year_def days_before_month_def is_leap_def)

lemma digit_value_digit: "0 \<le> n \<Longrightarrow> n < 10 \<Longrightarrow> digit_value (digit n) = Some n"
  by (simp add: digit_value_def digit_def of_char_of)

lemma parse_pad2:
  assumes "0 \<le> n" "n < 100"
  shows "parse_digits 2 acc (pad2 n @ s) = Some (acc * 100 + n, s)"
proof -
  have "0 \<le> n div 10" "n div 10 < 10" "0 \<le> n mod 10" "n mod 10 < 10"
    using assms by (simp_all add: pos_imp_zdiv_nonneg_iff div_less_iff_less_mult)
  then show ?thesis
    using mult_div_mod_eq [of 10 n]
    by (simp add: pad2_def digit_value_digit numeral_2_eq_2 distrib_right)
qed

lemma parse_digits_add:
  "parse_digits (k + l) acc s = Option.bind (parse_digits k acc s) (\<lambda>(a, r). parse_digits l a r)"
  by (induction k arbitrary: acc s) (auto split: list.split option.split)

lemma parse_pad4:
  assumes "0 \<le> n" "n < 10000"
  shows "parse_digits 4 0 (pad4 n @ s) = Some (n, s)"
proof -
  have "0 \<le> n div 100" "n div 100 < 100" "0 \<le> n mod 100" "n mod 100 < 100"
    using assms by (simp_all add: pos_imp_zdiv_nonneg_iff div_less_iff_less_mult)
  then show ?thesis
    using parse_digits_add [of 2 2 0 "pad4 n @ s"] mult_div_mod_eq [of 100 n]
    by (simp add: pad4_def parse_pad2 mult.commute)
qed

lemma ord2ymd_valid:
  assumes "1 \<le> n" "n \<le> MAX_ORDINAL" "ord2ymd n = (y, m, d)"
  shows "make_date y m d = Some n \<and> d \<le> 31"
proof -
  let ?y = "year_of n"
  let ?k = "n - days_before_year ?y"
  let ?m = "month_of ?y ?k"
  have b: "days_before_year ?y < n" "n \<le> days_before_year (?y + 1)" "1 \<le> ?y"
    using year_of_bounds [OF assms(1)] by simp_all
  have k: "1 \<le> ?k" "?k \<le> days_in_year ?y"
    using b days_before_year_Suc [of ?y] by simp_all
  have "?y \<le> 9999"
  proof (rule ccontr)
    assume "\<not> ?y \<le> 9999"
    then have "days_before_year 10000 \<le> days_before_year ?y" by (intro days_before_year_mono) simp
    then show False
      using b(1) assms(2) by (simp add: MAX_ORDINAL_eq days_before_year_def)
  qed
  moreover have "?k - days_before_month ?y ?m \<le> days_in_month ?y ?m"
    using k unfolding month_of_def days_in_year_def days_in_month_def
    by (cases "is_leap ?y") (simp_all add: days_before_month_simps split: if_split)
  ultimately show ?thesis
    using assms(3) b(3) month_of_range [of ?y ?k] day_of_range [OF k]
    by (auto simp: ord2ymd_def Let_def make_date_def ymd2ord_def)
qed

lemma digit_not_W: "0 \<le> n \<Longrightarrow> n < 10 \<Longrightarrow> digit n \<noteq> CHR ''W''"
  using digit_value_digit [of n] by (auto simp: digit_value_def)

lemma date_fromisoformat_isoformat:
  assumes "1 \<le> n" "n \<le> MAX_ORDINAL"
  shows "date_fromisoformat (date_isoformat n) = Inr n"
proof -
  obtain y m d where o: "ord2ymd n = (y, m, d)" by (metis prod_cases3)
  have v: "make_date y m d = Some n" "d < 100" using ord2ymd_valid [OF assms o] by simp_all
  then have r: "1 \<le> y" "y \<le> 9999" "1 \<le> m" "m \<le> 12" "1 \<le> d" "d \<le> days_in_month y m"
    by (auto simp: make_date_def split: if_splits)
  have "parse_calendar True y (pad2 m @ CHR ''-'' # pad2 d) = Some n"
    using r v parse_pad2 [of d 0 "[]"] by (simp add: parse_calendar_def parse_pad2 parse_separator_def)
  moreover have "digit (m div 10) \<noteq> CHR ''W''"
    using r by (intro digit_not_W) (simp_all add: pos_imp_zdiv_nonneg_iff div_less_iff_less_mult)
  then have "\<exists>c s. pad2 m @ CHR ''-'' # pad2 d = c # s \<and> c \<noteq> CHR ''W''"
    by (simp add: pad2_def)
  ultimately show ?thesis
    using r parse_pad4 [of y "CHR ''-'' # pad2 m @ CHR ''-'' # pad2 d"]
    by (auto simp: date_fromisoformat_def date_isoformat_def o)
qed

text \<open>The text of a \<open>datetime\<close> starts with the text of its day, which is what \<open>[:10]\<close> keeps.\<close>

lemma take_dt_isoformat: "take 10 (dt_isoformat t) = date_isoformat (dt_day t)"
  by (simp add: dt_isoformat_def dt_head_def Let_def)

end
