(* ===== verification/Json_Text.thy ===== *)
theory Json_Text
  imports Report_Prelude
begin

text \<open>
  The JSON texts the ledgers hash and retain: \<open>canonical_json\<close>
  (\<open>src/src/app/reporting_jobs/ledger.py\<close>), which sorts keys and escapes everything outside
  printable ASCII, and the compact UTF-8 form of \<open>encode_render_offer\<close>
  (\<open>src/src/app/reporting_jobs/custody_policy.py\<close>).
\<close>

fun nat_digits :: "nat \<Rightarrow> string" where
  "nat_digits n = (if n < 10 then [char_of (48 + n)] else nat_digits (n div 10) @ [char_of (48 + n mod 10)])"

declare nat_digits.simps [simp del]

definition int_text :: "int \<Rightarrow> string" where
  "int_text i = (if i < 0 then ''-'' @ nat_digits (nat (- i)) else nat_digits (nat i))"

definition hex_digit :: "nat \<Rightarrow> char" where
  "hex_digit n = ''0123456789abcdef'' ! n"

definition u_escape :: "nat \<Rightarrow> string" where
  "u_escape n = [CHR 0x5C] @ ''u00'' @ [hex_digit (n div 16), hex_digit (n mod 16)]"

text \<open>One character of a JSON string literal, with \<open>ensure_ascii\<close> on or off.\<close>

definition json_char :: "bool \<Rightarrow> char \<Rightarrow> string" where
  "json_char ascii c =
     (let n = (of_char c :: nat) in
      if n = 34 \<or> n = 92 then [CHR 0x5C, c]
      else if n = 10 then [CHR 0x5C, CHR ''n'']
      else if n = 13 then [CHR 0x5C, CHR ''r'']
      else if n = 9 then [CHR 0x5C, CHR ''t'']
      else if n = 12 then [CHR 0x5C, CHR ''f'']
      else if n = 8 then [CHR 0x5C, CHR ''b'']
      else if n < 32 then u_escape n
      else if n < 127 then [c]
      else if ascii then u_escape n
      else if n < 128 then [c]
      else [char_of (192 + n div 64), char_of (128 + n mod 64)])"

definition json_string :: "bool \<Rightarrow> string \<Rightarrow> string" where
  "json_string ascii s = [CHR 0x22] @ concat (map (json_char ascii) s) @ [CHR 0x22]"

lemma size_json_pair: "(k, v) \<in> set d \<Longrightarrow> size v < Suc (size_list (size_prod (\<lambda>x. 0) size) d)"
  by (induction d) (auto simp: less_Suc_eq)

lemma size_json_elem: "x \<in> set xs \<Longrightarrow> size x < Suc (size_list size xs)"
  by (induction xs) (auto simp: less_Suc_eq)

text \<open>\<open>json.dumps(..., separators=(",", ":"))\<close> without key sorting.\<close>

function json_text :: "bool \<Rightarrow> json \<Rightarrow> string" where
  "json_text a JNull = ''null''"
| "json_text a (JBool b) = (if b then ''true'' else ''false'')"
| "json_text a (JInt i) = int_text i"
| "json_text a (JFloat s) = s"
| "json_text a (JStr s) = json_string a s"
| "json_text a (JList xs) = ''['' @ py_join '','' (map (json_text a) xs) @ '']''"
| "json_text a (JObj d) =
     ''{'' @ py_join '','' (map (\<lambda>kv. json_string a (fst kv) @ '':'' @ json_text a (snd kv)) d) @ ''}''"
  by pat_completeness auto
termination
  by (relation "measure (\<lambda>(a, j). size j)")
     (auto simp: size_json_elem intro: size_json_pair)

text \<open>\<open>sort_keys=True\<close> on every object of the value.\<close>

function jsort :: "json \<Rightarrow> json" where
  "jsort JNull = JNull"
| "jsort (JBool b) = JBool b"
| "jsort (JInt i) = JInt i"
| "jsort (JFloat s) = JFloat s"
| "jsort (JStr s) = JStr s"
| "jsort (JList xs) = JList (map jsort xs)"
| "jsort (JObj d) = JObj (sort_key fst (map (\<lambda>kv. (fst kv, jsort (snd kv))) d))"
  by pat_completeness auto
termination
  by (relation "measure size") (auto simp: size_json_elem intro: size_json_pair)

definition canonical_json :: "json \<Rightarrow> string" where
  "canonical_json v = json_text True (jsort v)"

text \<open>The bytes of \<open>json.dumps(payload, ensure_ascii=False, separators=(",", ":")).encode("utf-8")\<close>.\<close>

definition compact_json_utf8 :: "json \<Rightarrow> string" where
  "compact_json_utf8 v = json_text False v"

text \<open>Objects with distinct keys at every level, which every Python dictionary has.\<close>

fun keys_distinct :: "json \<Rightarrow> bool" where
  "keys_distinct (JObj d) = distinct (map fst d)"
| "keys_distinct _ = True"

lemma sort_key_distinct_eq:
  assumes "distinct (map fst d)" "set d = set d'" "distinct (map fst d')"
  shows "sort_key fst d = sort_key fst (d' :: (string \<times> 'v) list)"
proof (rule map_sorted_distinct_set_unique)
  show "inj_on fst (set (sort_key fst d) \<union> set (sort_key fst d'))"
    using assms by (simp add: distinct_map)
  show "sorted (map fst (sort_key fst d))" "sorted (map fst (sort_key fst d'))"
    by (simp_all add: sorted_sort_key)
  show "distinct (map fst (sort_key fst d))" "distinct (map fst (sort_key fst d'))"
    using assms by (metis distinct_map distinct_sort set_sort)+
  show "set (sort_key fst d) = set (sort_key fst d')" using assms by simp
qed

text \<open>The canonical text of an object depends on its entries only, not on their order.\<close>

lemma canonical_json_key_order:
  assumes "distinct (map fst d)" "distinct (map fst d')" "set d = set d'"
  shows "canonical_json (JObj d) = canonical_json (JObj d')"
proof -
  let ?f = "\<lambda>kv :: string \<times> json. (fst kv, jsort (snd kv))"
  have "map fst (map ?f d) = map fst d" "map fst (map ?f d') = map fst d'" by simp_all
  then have "sort_key fst (map ?f d) = sort_key fst (map ?f d')"
    using assms by (intro sort_key_distinct_eq) (simp_all only: set_map)
  then show ?thesis by (simp add: canonical_json_def)
qed

end
