(* ===== verification/Json_Injective.thy ===== *)
theory Json_Injective
  imports Json_Text
begin

text \<open>
  The canonical JSON text determines the value up to the order of object keys, so two requests
  with the same identity text ask for the same thing. The texts are a prefix code: a text followed
  by a delimiter (or by nothing) can be read back in one way only.
\<close>

section \<open>Numbers\<close>

definition is_digit :: "char \<Rightarrow> bool" where
  "is_digit c \<longleftrightarrow> c \<in> set ''0123456789''"

definition is_number_char :: "char \<Rightarrow> bool" where
  "is_number_char c \<longleftrightarrow> c \<in> set ''0123456789.e+-''"

text \<open>The texts \<open>float.__repr__\<close> gives a finite number: they show a point or an exponent.\<close>

definition float_text :: "string \<Rightarrow> bool" where
  "float_text s \<longleftrightarrow> list_all is_number_char s \<and> (CHR ''.'' \<in> set s \<or> CHR ''e'' \<in> set s)"

definition digits_value :: "string \<Rightarrow> nat" where
  "digits_value s = foldl (\<lambda>n c. 10 * n + (of_char c - 48)) 0 s"

lemma digit_char: "(n :: nat) < 10 \<Longrightarrow> is_digit (char_of (48 + n))"
proof -
  have "list_all (\<lambda>n :: nat. is_digit (char_of (48 + n))) [0..<10]" by code_simp
  then show "n < 10 \<Longrightarrow> is_digit (char_of (48 + n))" by (simp add: list_all_iff)
qed

lemma digits_value_nat_digits [simp]: "digits_value (nat_digits n) = n"
proof (induction n rule: nat_digits.induct)
  case (1 n)
  then show ?case
    by (cases "n < 10") (simp_all add: nat_digits.simps [of n] digits_value_def of_char_of)
qed

lemma digits_nat_digits: "list_all is_digit (nat_digits n)"
proof (induction n rule: nat_digits.induct)
  case (1 n)
  then show ?case using digit_char [of "n mod 10"] digit_char [of n]
    by (cases "n < 10") (simp_all add: nat_digits.simps [of n])
qed

lemma nat_digits_nonempty [simp]: "nat_digits n \<noteq> []"
  by (simp add: nat_digits.simps)

lemma digit_number: "is_digit c \<Longrightarrow> is_number_char c \<and> c \<noteq> CHR ''-'' \<and> c \<noteq> CHR ''.'' \<and> c \<noteq> CHR ''e''"
  by (auto simp: is_digit_def is_number_char_def)

lemma int_text_number: "list_all is_number_char (int_text i) \<and> \<not> float_text (int_text i) \<and> int_text i \<noteq> []"
proof -
  have d: "list_all is_digit (nat_digits n)" for n by (rule digits_nat_digits)
  then have "list_all is_number_char (nat_digits n) \<and> CHR ''.'' \<notin> set (nat_digits n)
      \<and> CHR ''e'' \<notin> set (nat_digits n)" for n
    by (metis digit_number list_all_iff)
  then show ?thesis by (simp add: int_text_def float_text_def is_number_char_def)
qed

lemma int_text_inject [simp]: "int_text i = int_text j \<longleftrightarrow> i = j"
proof
  have "hd (nat_digits n) \<noteq> CHR ''-''" for n
    using digits_nat_digits [of n] digit_number by (cases "nat_digits n") auto
  then have n: "nat_digits n \<noteq> CHR ''-'' # s" for n s by (metis list.sel(1))
  have v: "nat_digits m = nat_digits k \<Longrightarrow> m = k" for m k by (metis digits_value_nat_digits)
  assume "int_text i = int_text j"
  then show "i = j"
    using n n [symmetric] by (auto simp: int_text_def dest!: v split: if_splits)
qed simp

section \<open>Strings\<close>

definition hex_value :: "char \<Rightarrow> nat" where
  "hex_value c = (let n = (of_char c :: nat) in if n < 58 then n - 48 else n - 87)"

lemma hex_value_digit: "n < 16 \<Longrightarrow> hex_value (hex_digit n) = n"
  unfolding hex_digit_def hex_value_def by (auto simp: less_Suc_eq numeral_eq_Suc)

text \<open>Reading one character of a JSON string literal back.\<close>

definition json_unescape :: "string \<Rightarrow> char \<times> string" where
  "json_unescape s =
     (if hd s \<noteq> CHR 0x5C then (hd s, tl s)
      else let d = s ! 1 in
        if d = CHR ''u'' then (char_of (16 * hex_value (s ! 4) + hex_value (s ! 5)), drop 6 s)
        else (if d = CHR ''n'' then char_of (10::nat) else if d = CHR ''r'' then char_of (13::nat)
              else if d = CHR ''t'' then char_of (9::nat) else if d = CHR ''f'' then char_of (12::nat)
              else if d = CHR ''b'' then char_of (8::nat) else d, drop 2 s))"

lemma json_unescape_char: "json_unescape (json_char True c @ s) = (c, s)"
proof -
  let ?n = "of_char c :: nat"
  have "?n < 16 * 16" using nat_of_char_less_256 [of c] by simp
  then have dm: "?n div 16 < 16" "?n mod 16 < 16" by (simp_all add: less_mult_imp_div_less)
  have c: "c = char_of ?n" by simp
  have esc: "json_unescape (u_escape ?n @ s) = (c, s)"
    using dm by (simp add: json_unescape_def u_escape_def hex_value_digit)
  have numeral_chars: "char_of (34::nat) = CHR 0x22 \<and> char_of (92::nat) = CHR 0x5C
      \<and> char_of (10::nat) = CHR 0x0A \<and> char_of (13::nat) = CHR 0x0D \<and> char_of (9::nat) = CHR 0x09
      \<and> char_of (12::nat) = CHR 0x0C \<and> char_of (8::nat) = CHR 0x08"
    by code_simp
  have cs: "c = CHR 0x22 \<or> c = CHR 0x5C \<or> c = CHR 0x0A \<or> c = CHR 0x0D \<or> c = CHR 0x09
      \<or> c = CHR 0x0C \<or> c = CHR 0x08"
    if "?n = 34 \<or> ?n = 92 \<or> ?n = 10 \<or> ?n = 13 \<or> ?n = 9 \<or> ?n = 12 \<or> ?n = 8"
    using that c numeral_chars by metis
  show ?thesis
  proof (cases "?n = 34 \<or> ?n = 92 \<or> ?n = 10 \<or> ?n = 13 \<or> ?n = 9 \<or> ?n = 12 \<or> ?n = 8")
    case True
    from cs [OF this] show ?thesis by (elim disjE) (simp_all add: json_char_def json_unescape_def numeral_chars)
  next
    case False
    have "c \<noteq> CHR 0x5C" using False by auto
    then have "json_unescape ([c] @ s) = (c, s)" by (simp add: json_unescape_def)
    moreover have "json_char True c = u_escape ?n \<or> json_char True c = [c]"
      using False by (simp add: json_char_def Let_def)
    ultimately show ?thesis using esc by metis
  qed
qed

lemma json_char_inject:
  "json_char True c @ s = json_char True d @ t \<Longrightarrow> c = d \<and> s = t"
  by (metis json_unescape_char prod.inject)

lemma json_char_head: "json_char True c @ s \<noteq> CHR 0x22 # t"
proof
  assume a: "json_char True c @ s = CHR 0x22 # t"
  then have "json_unescape (json_char True c @ s) = (CHR 0x22, t)"
    by (simp add: json_unescape_def)
  then have "c = CHR 0x22" by (simp add: json_unescape_char)
  then show False using a by (simp add: json_char_def)
qed

lemma json_chars_inject:
  "concat (map (json_char True) s) @ CHR 0x22 # r = concat (map (json_char True) t) @ CHR 0x22 # r' \<Longrightarrow>
   s = t \<and> r = r'"
proof (induction s arbitrary: t)
  case Nil
  then show ?case using json_char_head [symmetric] by (cases t) auto
next
  case (Cons c s)
  then show ?case
  proof (cases t)
    case Nil
    then show ?thesis using Cons.prems json_char_head by auto
  next
    case (Cons d u)
    then have "json_char True c @ (concat (map (json_char True) s) @ CHR 0x22 # r)
        = json_char True d @ (concat (map (json_char True) u) @ CHR 0x22 # r')"
      using Cons.prems by simp
    then have "c = d \<and> concat (map (json_char True) s) @ CHR 0x22 # r
        = concat (map (json_char True) u) @ CHR 0x22 # r'"
      by (rule json_char_inject)
    then show ?thesis using Cons Cons.IH [of u] by simp
  qed
qed

lemma json_string_inject:
  "json_string True s @ r = json_string True t @ r' \<Longrightarrow> s = t \<and> r = r'"
  by (auto simp: json_string_def dest: json_chars_inject)

section \<open>Values\<close>

fun float_texts :: "json \<Rightarrow> bool" where
  "float_texts (JFloat s) = float_text s"
| "float_texts (JList xs) = list_all float_texts xs"
| "float_texts (JObj d) = list_all (\<lambda>kv. float_texts (snd kv)) d"
| "float_texts _ = True"

text \<open>What may follow a value inside a larger text.\<close>

definition delimited :: "string \<Rightarrow> bool" where
  "delimited r \<longleftrightarrow> r = [] \<or> \<not> is_number_char (hd r)"

lemma takeWhile_number:
  "list_all is_number_char s \<Longrightarrow> delimited r \<Longrightarrow> takeWhile is_number_char (s @ r) = s"
  by (cases r) (auto simp: delimited_def list_all_iff takeWhile_append)

lemma number_inject:
  assumes "s @ r = t @ r'" "list_all is_number_char s" "list_all is_number_char t"
    and "delimited r" "delimited r'"
  shows "s = t \<and> r = r'"
  using assms takeWhile_number [of s r] takeWhile_number [of t r'] by auto

text \<open>The first character of a text tells which constructor it came from, numbers apart.\<close>

fun json_kind :: "json \<Rightarrow> char" where
  "json_kind JNull = CHR ''n''"
| "json_kind (JBool b) = (if b then CHR ''t'' else CHR ''f'')"
| "json_kind (JInt i) = CHR ''0''"
| "json_kind (JFloat s) = CHR ''0''"
| "json_kind (JStr s) = CHR 0x22"
| "json_kind (JList xs) = CHR ''[''"
| "json_kind (JObj d) = CHR ''{''"

definition kind_of_head :: "char \<Rightarrow> char" where
  "kind_of_head c = (if is_number_char c then CHR ''0'' else c)"

lemma number_head:
  assumes "list_all is_number_char s" "s \<noteq> []"
  shows "kind_of_head (hd (s @ r)) = CHR ''0''"
  using assms by (cases s) (simp_all add: kind_of_head_def)

lemma json_text_head:
  assumes "float_texts v"
  shows "kind_of_head (hd (json_text True v @ r)) = json_kind v \<and> json_text True v \<noteq> []"
proof (cases v)
  case (JInt i)
  then show ?thesis using number_head int_text_number [of i] by simp
next
  case (JFloat s)
  then have "list_all is_number_char s \<and> s \<noteq> []" using assms by (auto simp: float_text_def)
  then show ?thesis using JFloat number_head by simp
next
  case (JBool b)
  then show ?thesis by (simp add: kind_of_head_def is_number_char_def)
qed (simp_all add: kind_of_head_def is_number_char_def json_string_def)

lemma joined_inject:
  assumes inj: "\<And>x y r r'. x \<in> set xs \<Longrightarrow> y \<in> set ys \<Longrightarrow> delimited r \<Longrightarrow> delimited r' \<Longrightarrow>
      enc x @ r = enc y @ r' \<Longrightarrow> x = y \<and> r = r'"
    and "xs \<noteq> []" "ys \<noteq> []" and close: "close \<in> {CHR '']'', CHR ''}''}"
    and "py_join '','' (map enc xs) @ close # r = py_join '','' (map enc ys) @ close # r'"
  shows "xs = ys \<and> r = r'"
  using assms
proof (induction xs arbitrary: ys)
  case (Cons x xs)
  obtain y ys' where ys: "ys = y # ys'" using Cons.prems(3) by (cases ys) simp_all
  let ?rest = "\<lambda>zs r. if zs = [] then close # r else CHR '','' # py_join '','' (map enc zs) @ close # r"
  have split: "py_join '','' (map enc (z # zs)) @ close # q = enc z @ ?rest zs q" for z zs q
    by (cases zs) simp_all
  have del: "delimited (?rest zs q)" for zs q
    using close by (auto simp: delimited_def is_number_char_def)
  have "enc x @ ?rest xs r = enc y @ ?rest ys' r'"
    using Cons.prems(5) unfolding ys split .
  then have xy: "x = y" "?rest xs r = ?rest ys' r'"
    using Cons.prems(1) [of x y "?rest xs r" "?rest ys' r'"] del ys by simp_all
  show ?case
  proof (cases "xs = [] \<or> ys' = []")
    case True
    then show ?thesis using xy close ys by (auto split: if_splits)
  next
    case False
    then have "py_join '','' (map enc xs) @ close # r = py_join '','' (map enc ys') @ close # r'"
      using xy(2) by simp
    moreover have "x = y \<and> r = r'"
      if "x \<in> set xs" "y \<in> set ys'" "delimited r" "delimited r'" "enc x @ r = enc y @ r'" for x y r r'
      using Cons.prems(1) [OF _ _ that(3-5)] that(1,2) ys by simp
    ultimately have "xs = ys' \<and> r = r'"
      using False close by (intro Cons.IH) blast+
    then show ?thesis using xy ys by simp
  qed
qed simp

lemma joined_inject_all:
  assumes inj: "\<And>x y r r'. x \<in> set xs \<Longrightarrow> y \<in> set ys \<Longrightarrow> delimited r \<Longrightarrow> delimited r' \<Longrightarrow>
      enc x @ r = enc y @ r' \<Longrightarrow> x = y \<and> r = r'"
    and close: "close \<in> {CHR '']'', CHR ''}''}"
    and head: "\<And>x r. x \<in> set xs \<union> set ys \<Longrightarrow> enc x @ r \<noteq> close # r'" "\<And>x r. x \<in> set xs \<union> set ys \<Longrightarrow> enc x @ r \<noteq> close # q"
    and eq: "py_join '','' (map enc xs) @ close # q = py_join '','' (map enc ys) @ close # r'"
  shows "xs = ys \<and> q = r'"
proof -
  have cons: "\<exists>s. py_join '','' (map enc (z # zs)) @ t = enc z @ s" for z zs t
    by (cases zs) simp_all
  show ?thesis
  proof (cases "xs = [] \<or> ys = []")
    case True
    then show ?thesis
    proof
      assume "xs = []"
      then show ?thesis using eq head(2) cons by (cases ys) (simp, metis Un_iff append_Nil list.set_intros(1) list.simps(8) py_join.simps(1))
    next
      assume "ys = []"
      then show ?thesis using eq head(1) cons by (cases xs) (simp, metis Un_iff append_Nil list.set_intros(1) list.simps(8) py_join.simps(1))
    qed
  next
    case False
    then show ?thesis using joined_inject [of xs ys enc close q r'] inj close eq by blast
  qed
qed

lemma kind_of_delimiter [simp]:
  "kind_of_head CHR '']'' = CHR '']''" "kind_of_head CHR ''}'' = CHR ''}''" "kind_of_head CHR '','' = CHR '',''"
  by (simp_all add: kind_of_head_def is_number_char_def)

lemma json_text_not_closing: "float_texts v \<Longrightarrow> json_text True v @ r \<noteq> CHR '']'' # q"
  using json_text_head [of v r] by (cases v) (auto split: if_splits)

lemma json_member_inject:
  assumes "\<And>w r r'. delimited r \<Longrightarrow> delimited r' \<Longrightarrow> float_texts w \<Longrightarrow>
      json_text True (snd kv) @ r = json_text True w @ r' \<Longrightarrow> snd kv = w \<and> r = r'"
    and "delimited r" "delimited r'" "float_texts (snd kv')"
    and "(json_string True (fst kv) @ '':'' @ json_text True (snd kv)) @ r
       = (json_string True (fst kv') @ '':'' @ json_text True (snd kv')) @ r'"
  shows "kv = kv' \<and> r = r'"
proof -
  have "fst kv = fst kv' \<and> '':'' @ json_text True (snd kv) @ r = '':'' @ json_text True (snd kv') @ r'"
    using assms(5) by (intro json_string_inject) simp
  then show ?thesis using assms(1) [OF assms(2-4)] by (simp add: prod_eq_iff)
qed

lemma json_kind_eq:
  assumes "float_texts v" "float_texts w" "json_text True v @ r = json_text True w @ r'"
  shows "json_kind v = json_kind w"
  using json_text_head [OF assms(1), of r] json_text_head [OF assms(2), of r'] assms(3) by metis

lemma number_case:
  assumes "v = JInt i \<or> v = JFloat s" "float_texts w" "delimited r" "delimited r'"
    and "json_text True v @ r = json_text True w @ r'" and "float_texts v"
  shows "v = w \<and> r = r'"
proof -
  have num: "list_all is_number_char (json_text True u)" if "json_kind u = CHR ''0''" "float_texts u" for u
    using that int_text_number by (cases u) (auto simp: float_text_def split: if_splits)
  have k: "json_kind v = CHR ''0''" using assms(1) by auto
  then have k': "json_kind w = CHR ''0''" using json_kind_eq [OF assms(6,2,5)] by simp
  have "json_text True v = json_text True w \<and> r = r'"
    using number_inject [OF assms(5) num [OF k assms(6)] num [OF k' assms(2)] assms(3,4)] .
  moreover have "v = w" if "json_text True v = json_text True w"
    using k k' that assms(2,6) int_text_number
    by (cases v; cases w) (auto split: if_splits)
  ultimately show ?thesis by blast
qed

text \<open>Equal texts, each followed by a delimiter, come from equal values.\<close>

lemma json_text_prefix:
  assumes "float_texts v" "float_texts w" "delimited r" "delimited r'"
    and "json_text True v @ r = json_text True w @ r'"
  shows "v = w \<and> r = r'"
  using assms
proof (induction v arbitrary: w r r' rule: jsort.induct)
  case 1
  then show ?case using json_kind_eq [OF 1(1,2,5)] by (cases w) (auto split: if_splits)
next
  case (2 b)
  then show ?case using json_kind_eq [OF 2(1,2,5)] by (cases w) (auto split: if_splits)
next
  case (3 i)
  then show ?case using number_case [OF _ 3(2,3,4,5,1)] by blast
next
  case (4 s)
  then show ?case using number_case [OF _ 4(2,3,4,5,1)] by blast
next
  case (5 s)
  then obtain t where w: "w = JStr t" using json_kind_eq [OF 5(1,2,5)]
    by (cases w) (auto split: if_splits)
  then show ?case using json_string_inject [of s r t r'] 5(5) by simp
next
  case (6 xs)
  then obtain ys where w: "w = JList ys" using json_kind_eq [OF 6(2,3,6)]
    by (cases w) (auto split: if_splits)
  have fl: "\<And>x. x \<in> set xs \<union> set ys \<Longrightarrow> float_texts x" using 6(2,3) w by (auto simp: list_all_iff)
  have "xs = ys \<and> r = r'"
  proof (rule joined_inject_all [where enc = "json_text True" and close = "CHR '']''"])
    show "py_join '','' (map (json_text True) xs) @ CHR '']'' # r =
        py_join '','' (map (json_text True) ys) @ CHR '']'' # r'"
      using 6(6) w by simp
    show "x = y \<and> q = q'" if "x \<in> set xs" "y \<in> set ys" "delimited q" "delimited q'"
      "json_text True x @ q = json_text True y @ q'" for x y q q'
      using 6(1) [OF that(1) _ _ that(3,4,5)] fl that by simp
    show "json_text True x @ q \<noteq> CHR '']'' # t" if "x \<in> set xs \<union> set ys" for x q t
      using json_text_not_closing fl that by blast
    then show "json_text True x @ q \<noteq> CHR '']'' # r" if "x \<in> set xs \<union> set ys" for x q
      using that by blast
  qed simp
  then show ?case using w by simp
next
  case (7 d)
  then obtain d' where w: "w = JObj d'" using json_kind_eq [OF 7(2,3,6)]
    by (cases w) (auto split: if_splits)
  let ?enc = "\<lambda>kv. json_string True (fst kv) @ '':'' @ json_text True (snd kv)"
  have fl: "\<And>kv. kv \<in> set d \<union> set d' \<Longrightarrow> float_texts (snd kv)" using 7(2,3) w by (auto simp: list_all_iff)
  have "d = d' \<and> r = r'"
  proof (rule joined_inject_all [where enc = ?enc and close = "CHR ''}''"])
    show "py_join '','' (map ?enc d) @ CHR ''}'' # r = py_join '','' (map ?enc d') @ CHR ''}'' # r'"
      using 7(6) w by simp
    show "x = y \<and> q = q'" if "x \<in> set d" "y \<in> set d'" "delimited q" "delimited q'" "?enc x @ q = ?enc y @ q'"
      for x y q q'
    proof (rule json_member_inject [OF _ that(3,4) _ that(5)])
      show "float_texts (snd y)" using fl that by blast
      show "snd x = w \<and> r = r'" if "delimited r" "delimited r'" "float_texts w"
        "json_text True (snd x) @ r = json_text True w @ r'" for w r r'
        using 7(1) [OF \<open>x \<in> set d\<close> _ _ that(1,2,4)] fl \<open>x \<in> set d\<close> that by simp
    qed
  qed (simp_all add: json_string_def)
  then show ?case using w by simp
qed

lemma json_text_inject:
  "float_texts v \<Longrightarrow> float_texts w \<Longrightarrow> json_text True v = json_text True w \<Longrightarrow> v = w"
  using json_text_prefix [of v w "[]" "[]"] by (simp add: delimited_def)

lemma float_texts_jsort [simp]: "float_texts (jsort v) = float_texts v"
  by (induction v rule: jsort.induct) (auto simp: list_all_iff)

text \<open>The canonical text of a value determines the value up to the order of its keys.\<close>

lemma canonical_json_inject:
  assumes "float_texts v" "float_texts w" "canonical_json v = canonical_json w"
  shows "jsort v = jsort w"
  using assms by (intro json_text_inject) (simp_all add: canonical_json_def)

end
