(* ===== verification/Work_Queue.thy ===== *)
theory Work_Queue
  imports Timestamps
begin

text \<open>
  The durable work queue's retry policy, \<open>src/src/app/reporting_jobs/work_queue.py\<close>: the work
  item row, the exponential back-off and the decision taken when an attempt fails.
\<close>

datatype work_status = Pending | Leased | Retry_pending | Work_completed | Work_failed

record work_item =
  work_item_id :: string
  wi_report_job_id :: string
  wi_status :: work_status
  attempt_count :: int
  available_at :: stamp
  lease_owner :: "string option"
  lease_token :: "string option"
  lease_acquired_at :: "stamp option"
  lease_expires_at :: "stamp option"
  last_error_category :: "string option"
  last_error_summary :: "string option"
  wi_created_at :: stamp
  wi_updated_at :: stamp
  wi_completed_at :: "stamp option"

record retry_policy =
  max_attempts :: int
  base_delay_seconds :: int
  max_delay_seconds :: int

definition default_retry_policy :: retry_policy where
  "default_retry_policy = \<lparr>max_attempts = 3, base_delay_seconds = 5, max_delay_seconds = 300\<rparr>"

definition retry_delay_seconds :: "retry_policy \<Rightarrow> int \<Rightarrow> int" where
  "retry_delay_seconds p attempt =
     (let exponent = max (attempt - 1) 0
      in min (base_delay_seconds p * 2 ^ nat exponent) (max_delay_seconds p))"

text \<open>\<open>timedelta(seconds=s)\<close> in microseconds.\<close>

definition seconds :: "int \<Rightarrow> int" where "seconds s = s * 1000000"

record failure_decision =
  fd_status :: work_status
  fd_available_at :: dt

definition decide_report_job_work_failure :: "int \<Rightarrow> dt \<Rightarrow> retry_policy \<Rightarrow> failure_decision" where
  "decide_report_job_work_failure attempt failed_at p =
     (let terminal = attempt \<ge> max_attempts p
      in \<lparr>fd_status = (if terminal then Work_failed else Retry_pending),
          fd_available_at = failed_at + seconds (retry_delay_seconds p attempt)\<rparr>)"

lemma decide_status [simp]:
  "fd_status (decide_report_job_work_failure a t p) =
     (if a \<ge> max_attempts p then Work_failed else Retry_pending)"
  by (simp add: decide_report_job_work_failure_def Let_def)

lemma retry_delay_le_max: "retry_delay_seconds p a \<le> max_delay_seconds p"
  by (simp add: retry_delay_seconds_def Let_def)

lemma retry_delay_mono:
  assumes "0 \<le> base_delay_seconds p" "a \<le> b"
  shows "retry_delay_seconds p a \<le> retry_delay_seconds p b"
proof -
  have "(2 :: int) ^ nat (max (a - 1) 0) \<le> 2 ^ nat (max (b - 1) 0)"
    using assms(2) by (intro power_increasing) auto
  then have "base_delay_seconds p * 2 ^ nat (max (a - 1) 0)
      \<le> base_delay_seconds p * 2 ^ nat (max (b - 1) 0)"
    using assms(1) by (rule mult_left_mono)
  then show ?thesis by (simp add: retry_delay_seconds_def Let_def)
qed

lemma retry_delay_ge_base:
  assumes "0 \<le> base_delay_seconds p"
  shows "min (base_delay_seconds p) (max_delay_seconds p) \<le> retry_delay_seconds p a"
proof -
  have "base_delay_seconds p * 1 \<le> base_delay_seconds p * 2 ^ nat (max (a - 1) 0)"
    using assms by (intro mult_left_mono) simp_all
  then show ?thesis by (simp add: retry_delay_seconds_def Let_def)
qed

text \<open>The back-off of a failed attempt: it lies between the base and the maximum delay, does
  not shrink as attempts are used up, doubles per attempt until it meets the maximum, and the
  decision is terminal exactly when the attempt budget is used.\<close>

theorem retry_backoff_correct:
  assumes "0 \<le> base_delay_seconds p" and "base_delay_seconds p \<le> max_delay_seconds p"
    and "1 \<le> a" and "a \<le> b"
  shows "base_delay_seconds p \<le> retry_delay_seconds p a
    \<and> retry_delay_seconds p a \<le> retry_delay_seconds p b
    \<and> retry_delay_seconds p b \<le> max_delay_seconds p
    \<and> retry_delay_seconds p (a + 1) = min (2 * retry_delay_seconds p a) (max_delay_seconds p)
    \<and> fd_available_at (decide_report_job_work_failure a t p)
        \<in> {t + seconds (base_delay_seconds p) .. t + seconds (max_delay_seconds p)}
    \<and> (fd_status (decide_report_job_work_failure a t p) = Work_failed \<longleftrightarrow> max_attempts p \<le> a)"
proof -
  have lo: "base_delay_seconds p \<le> retry_delay_seconds p a"
    using retry_delay_ge_base [OF assms(1), of a] assms(2) by simp
  define x where "x = base_delay_seconds p * 2 ^ nat (max (a - 1) 0)"
  have n: "nat (max (a + 1 - 1) 0) = Suc (nat (max (a - 1) 0))"
    using assms(3) by simp
  have x: "retry_delay_seconds p a = min x (max_delay_seconds p)"
    "retry_delay_seconds p (a + 1) = min (2 * x) (max_delay_seconds p)"
    unfolding retry_delay_seconds_def Let_def n power_Suc x_def by (simp_all add: algebra_simps)
  then have "retry_delay_seconds p (a + 1) = min (2 * retry_delay_seconds p a) (max_delay_seconds p)"
    using assms(1,2) by (simp add: min_def)
  then show ?thesis
    using lo retry_delay_mono [OF assms(1,4)] retry_delay_le_max [of p a] retry_delay_le_max [of p b]
    by (simp add: decide_report_job_work_failure_def Let_def seconds_def)
qed

theorem retry_backoff_correct_witness:
  "retry_delay_seconds default_retry_policy 3 = min (2 * 10) 300
   \<and> fd_status (decide_report_job_work_failure 2 0 default_retry_policy) \<noteq> Work_failed"
  using retry_backoff_correct [of default_retry_policy 2 3 0]
  by (simp add: default_retry_policy_def retry_delay_seconds_def)

end
