(* ===== verification/Job_Lifecycle.thy ===== *)
theory Job_Lifecycle
  imports Report_Prelude
begin

text \<open>
  The report-job status machine of \<open>src/src/app/reporting_jobs/lifecycle_policy.py\<close> over the
  literals of \<open>src/src/app/reporting_jobs/models.py\<close>: which status a transition may leave, and
  which statuses cancellation refuses.

  The interface \<open>ranked_lifecycle\<close> states what makes a status machine finite: a rank that
  every step increases. The job machine is an instance, so every job changes its status a bounded
  number of times and no status is ever visited twice.
\<close>

section \<open>Statuses\<close>

datatype job_status =
    Accepted | Queued | Collecting_data | Data_ready | Rendering | Completed | Archiving
  | Archived | Completed_with_warnings | Failed | Cancelled

fun status_text :: "job_status \<Rightarrow> string" where
  "status_text Accepted = ''accepted''"
| "status_text Queued = ''queued''"
| "status_text Collecting_data = ''collecting_data''"
| "status_text Data_ready = ''data_ready''"
| "status_text Rendering = ''rendering''"
| "status_text Completed = ''completed''"
| "status_text Archiving = ''archiving''"
| "status_text Archived = ''archived''"
| "status_text Completed_with_warnings = ''completed_with_warnings''"
| "status_text Failed = ''failed''"
| "status_text Cancelled = ''cancelled''"

datatype failure_category =
    Entitlement_failed | Validation_failed | Upstream_data_failed | Data_incomplete
  | Render_validation_failed | Render_conflict | Render_execution_failed
  | Render_artifact_unrecoverable | Archive_validation_failed | Archive_conflict
  | Archive_storage_failed | Archive_execution_failed | Archive_outcome_unknown
  | Archive_handoff_failed | Archive_handoff_not_configured | Timeout | Cancelled_category
  | Operator_intervention_required

fun category_text :: "failure_category \<Rightarrow> string" where
  "category_text Entitlement_failed = ''entitlement_failed''"
| "category_text Validation_failed = ''validation_failed''"
| "category_text Upstream_data_failed = ''upstream_data_failed''"
| "category_text Data_incomplete = ''data_incomplete''"
| "category_text Render_validation_failed = ''render_validation_failed''"
| "category_text Render_conflict = ''render_conflict''"
| "category_text Render_execution_failed = ''render_execution_failed''"
| "category_text Render_artifact_unrecoverable = ''render_artifact_unrecoverable''"
| "category_text Archive_validation_failed = ''archive_validation_failed''"
| "category_text Archive_conflict = ''archive_conflict''"
| "category_text Archive_storage_failed = ''archive_storage_failed''"
| "category_text Archive_execution_failed = ''archive_execution_failed''"
| "category_text Archive_outcome_unknown = ''archive_outcome_unknown''"
| "category_text Archive_handoff_failed = ''archive_handoff_failed''"
| "category_text Archive_handoff_not_configured = ''archive_handoff_not_configured''"
| "category_text Timeout = ''timeout''"
| "category_text Cancelled_category = ''cancelled''"
| "category_text Operator_intervention_required = ''operator_intervention_required''"

section \<open>The lifecycle policy\<close>

fun REPORT_JOB_TRANSITION_ALLOWED_FROM :: "job_status \<Rightarrow> job_status list" where
  "REPORT_JOB_TRANSITION_ALLOWED_FROM Collecting_data = [Accepted]"
| "REPORT_JOB_TRANSITION_ALLOWED_FROM Data_ready = [Accepted, Collecting_data]"
| "REPORT_JOB_TRANSITION_ALLOWED_FROM Rendering = [Data_ready]"
| "REPORT_JOB_TRANSITION_ALLOWED_FROM Completed = [Data_ready, Rendering]"
| "REPORT_JOB_TRANSITION_ALLOWED_FROM Archiving = [Completed]"
| "REPORT_JOB_TRANSITION_ALLOWED_FROM Archived = [Completed, Archiving, Failed]"
| "REPORT_JOB_TRANSITION_ALLOWED_FROM Failed =
     [Accepted, Collecting_data, Data_ready, Rendering, Completed, Archiving]"
| "REPORT_JOB_TRANSITION_ALLOWED_FROM _ = []"

definition REPORT_JOB_CANCEL_BLOCKED_STATUSES :: "job_status list" where
  "REPORT_JOB_CANCEL_BLOCKED_STATUSES =
     [Rendering, Completed, Archiving, Archived, Completed_with_warnings, Cancelled]"

definition is_report_job_transition_allowed :: "job_status \<Rightarrow> job_status \<Rightarrow> bool" where
  "is_report_job_transition_allowed current_status to_status \<longleftrightarrow>
     current_status \<in> set (REPORT_JOB_TRANSITION_ALLOWED_FROM to_status)"

definition is_report_job_cancellable :: "job_status \<Rightarrow> bool" where
  "is_report_job_cancellable s \<longleftrightarrow> s \<notin> set REPORT_JOB_CANCEL_BLOCKED_STATUSES"

text \<open>One status change of a job outside custody: a permitted transition or a cancellation.\<close>

inductive job_step :: "job_status \<Rightarrow> job_status \<Rightarrow> bool" where
  transition: "is_report_job_transition_allowed s t \<Longrightarrow> job_step s t"
| cancel: "is_report_job_cancellable s \<Longrightarrow> job_step s Cancelled"

inductive_cases job_stepE: "job_step s t"

code_pred job_step .

text \<open>A sequence of statuses in which each is a step from the one before.\<close>

fun status_trace :: "job_status \<Rightarrow> job_status list \<Rightarrow> bool" where
  "status_trace s [] = True"
| "status_trace s (t # ts) = (job_step s t \<and> status_trace t ts)"

lemma status_text_inject [simp]: "status_text s = status_text t \<longleftrightarrow> s = t"
  by (cases s; cases t) simp_all

lemma transition_allowed_iff:
  "is_report_job_transition_allowed s t \<longleftrightarrow>
     (t = Collecting_data \<and> s = Accepted) \<or>
     (t = Data_ready \<and> s \<in> {Accepted, Collecting_data}) \<or>
     (t = Rendering \<and> s = Data_ready) \<or>
     (t = Completed \<and> s \<in> {Data_ready, Rendering}) \<or>
     (t = Archiving \<and> s = Completed) \<or>
     (t = Archived \<and> s \<in> {Completed, Archiving, Failed}) \<or>
     (t = Failed \<and> s \<in> {Accepted, Collecting_data, Data_ready, Rendering, Completed, Archiving})"
  by (cases t) (auto simp: is_report_job_transition_allowed_def)

lemma cancellable_iff:
  "is_report_job_cancellable s \<longleftrightarrow> s \<in> {Accepted, Queued, Collecting_data, Data_ready, Failed}"
  by (cases s) (simp_all add: is_report_job_cancellable_def REPORT_JOB_CANCEL_BLOCKED_STATUSES_def)

section \<open>Ranked lifecycles\<close>

locale ranked_lifecycle =
  fixes step :: "'s \<Rightarrow> 's \<Rightarrow> bool"
    and rank :: "'s \<Rightarrow> nat"
    and top :: nat
  assumes step_rank: "step s t \<Longrightarrow> rank s < rank t"
    and rank_top: "rank s \<le> top"
begin

fun path :: "'s \<Rightarrow> 's list \<Rightarrow> bool" where
  "path s [] = True"
| "path s (t # ts) = (step s t \<and> path t ts)"

lemma path_rank: "path s ts \<Longrightarrow> t \<in> set ts \<Longrightarrow> rank s < rank t"
proof (induction ts arbitrary: s)
  case (Cons u ts)
  then show ?case using step_rank [of s u] by (auto intro: less_trans)
qed simp

lemma path_length: "path s ts \<Longrightarrow> rank s + length ts \<le> top"
proof (induction ts arbitrary: s)
  case Nil
  show ?case by (simp add: rank_top)
next
  case (Cons u ts)
  then show ?case using step_rank [of s u] by fastforce
qed

lemma path_distinct: "path s ts \<Longrightarrow> distinct (s # ts)"
proof (induction ts arbitrary: s)
  case (Cons u ts)
  then have "distinct (u # ts)" using Cons.IH [of u] by simp
  moreover have "s \<notin> set (u # ts)"
    using path_rank [OF Cons.prems] by blast
  ultimately show ?case by simp
qed simp

lemma no_return: "step\<^sup>+\<^sup>+ s t \<Longrightarrow> rank s < rank t"
  by (induction rule: tranclp_induct) (auto dest: step_rank intro: less_trans)

lemma top_absorbing: "rank s = top \<Longrightarrow> \<not> step s t"
  using step_rank [of s t] rank_top [of t] by auto

end

fun job_rank :: "job_status \<Rightarrow> nat" where
  "job_rank Accepted = 0"
| "job_rank Queued = 0"
| "job_rank Collecting_data = 1"
| "job_rank Data_ready = 2"
| "job_rank Rendering = 3"
| "job_rank Completed = 4"
| "job_rank Archiving = 5"
| "job_rank Failed = 6"
| "job_rank Archived = 7"
| "job_rank Completed_with_warnings = 7"
| "job_rank Cancelled = 7"

interpretation job_lc: ranked_lifecycle job_step job_rank 7
proof unfold_locales
  show "job_rank s < job_rank t" if "job_step s t" for s t
    using that by (auto elim!: job_stepE simp: transition_allowed_iff cancellable_iff)
  show "job_rank s \<le> 7" for s by (cases s) simp_all
qed

lemma status_trace_path: "status_trace s ts = job_lc.path s ts"
  by (induction ts arbitrary: s) simp_all

section \<open>Properties\<close>

lemma job_step_iff:
  "job_step s t \<longleftrightarrow> is_report_job_transition_allowed s t \<or> t = Cancelled \<and> is_report_job_cancellable s"
  by (auto intro: job_step.intros elim: job_stepE)

lemma terminal_absorbing: "s \<in> {Archived, Cancelled, Completed_with_warnings} \<Longrightarrow> \<not> job_step s t"
  by (auto simp: job_step_iff transition_allowed_iff cancellable_iff)

text \<open>(C15) Along any sequence of permitted status changes from acceptance a job changes its status
  at most seven times, never returns to a status it left, never reaches the two literals no
  transition produces (\<open>queued\<close>, \<open>completed_with_warnings\<close>), and a job that is
  archived or cancelled stays so.\<close>

theorem job_lifecycle_bounded:
  assumes "status_trace Accepted ts"
  shows "length ts \<le> 7 \<and> distinct (Accepted # ts)
    \<and> Queued \<notin> set ts \<and> Completed_with_warnings \<notin> set ts
    \<and> (\<forall>i j. i < j \<longrightarrow> j < length ts \<longrightarrow> ts ! i \<noteq> Archived \<and> ts ! i \<noteq> Cancelled)"
proof (intro conjI)
  from assms have p: "job_lc.path Accepted ts" by (simp add: status_trace_path)
  show "length ts \<le> 7" using job_lc.path_length [OF p] by simp
  show "distinct (Accepted # ts)" using job_lc.path_distinct [OF p] .
  have target: "t \<in> set ts \<Longrightarrow> \<exists>s. job_step s t" if "status_trace r ts" for r t ts
    using that by (induction ts arbitrary: r) auto
  show "Queued \<notin> set ts" "Completed_with_warnings \<notin> set ts"
    using target [OF assms] by (auto simp: job_step_iff transition_allowed_iff)
  have last: "i < j \<Longrightarrow> j < length ts \<Longrightarrow> \<exists>t. job_step (ts ! i) t"
    if "status_trace r ts" for r ts i j
    using that
  proof (induction ts arbitrary: r i j)
    case (Cons u us)
    show ?case
    proof (cases i)
      case 0
      then obtain v vs where "us = v # vs" using Cons.prems by (cases us) auto
      then show ?thesis using Cons.prems 0 by auto
    next
      case (Suc k)
      then show ?thesis using Cons.IH [of k "j - 1" u] Cons.prems by auto
    qed
  qed simp
  show "\<forall>i j. i < j \<longrightarrow> j < length ts \<longrightarrow> ts ! i \<noteq> Archived \<and> ts ! i \<noteq> Cancelled"
    using last [OF assms] terminal_absorbing by (metis insertCI)
qed

theorem job_lifecycle_bounded_witness:
  "length [Collecting_data, Data_ready, Rendering, Completed, Archiving, Failed, Archived] \<le> 7
   \<and> Queued \<notin> set [Collecting_data, Data_ready, Rendering, Completed, Archiving, Failed, Archived]"
proof -
  have "status_trace Accepted
      [Collecting_data, Data_ready, Rendering, Completed, Archiving, Failed, Archived]"
    by (simp add: job_step_iff transition_allowed_iff)
  from job_lifecycle_bounded [OF this] show ?thesis by simp
qed

end
