(* ===== verification/Event_Contracts.thy ===== *)
theory Event_Contracts
  imports Job_Lifecycle
begin

text \<open>
  The status-event contract, \<open>src/src/app/reporting_jobs/event_contracts.py\<close>: what an event
  payload must carry, which keys it may never carry, and the family an event type belongs to.
\<close>

definition REPORT_STATUS_EVENT_SCHEMA_VERSION :: string where
  "REPORT_STATUS_EVENT_SCHEMA_VERSION = ''report-status-event.v1''"

definition LEGACY_REPORT_STATUS_EVENT_SCHEMA_VERSION :: string where
  "LEGACY_REPORT_STATUS_EVENT_SCHEMA_VERSION = ''report-status-event.legacy.v0''"

definition REQUIRED_PAYLOAD_FIELDS_BY_EVENT_TYPE :: "(string \<times> string list) list" where
  "REQUIRED_PAYLOAD_FIELDS_BY_EVENT_TYPE = [
    (''job_accepted'', [''report_type'']),
    (''job_failed'', [''failure_category'', ''failure_message'']),
    (''job_rendering'', [''render_output_format'', ''render_template_id'']),
    (''job_completed'', [''render_job_id'']),
    (''job_archiving'', [''archive_request_id'']),
    (''job_archived'', [''archive_document_id'']),
    (''job_rerender_requested'', [''snapshot_id'']),
    (''job_rerender_archived'', [''archive_document_id'']),
    (''job_rerender_failed'', [''failure_message'']),
    (''job_regenerate_requested'', [''regenerated_job_id'']),
    (''job_regenerate_archived'', [''regenerated_job_id'', ''archive_document_id'']),
    (''job_replay_requested'', [''replayed_job_id'']),
    (''job_replay_snapshot_cloned'', [''source_snapshot_id'', ''cloned_snapshot_id'']),
    (''job_replay_fingerprint_compared'', [''outcome'', ''source_report_job_id'']),
    (''job_replay_archive_resolved'', [''archive_document_id'', ''archive_request_id'']),
    (''job_advisor_commentary_unavailable'', [''reason_code'']),
    (''job_replay_completed'', [''replayed_job_id'', ''replayed_status'']),
    (''batch_item_replay_requested'', [''batch_item_id'', ''replayed_job_id'']),
    (''batch_item_replay_lineage_bound'', [''source_job_id''])]"

definition SENSITIVE_PAYLOAD_KEYS :: "string list" where
  "SENSITIVE_PAYLOAD_KEYS = [''account_id'', ''account_number'', ''client_id'', ''client_name'',
     ''holdings'', ''portfolio_id'', ''portfolio_ids'', ''raw_payload'', ''request_body'',
     ''response_body'', ''secret'', ''token'', ''traceparent'']"

record event_contract =
  ec_schema_version :: string
  ec_event_family :: string
  ec_event_payload :: jobj
  ec_event_idempotency_key :: "string option"

definition required_payload_fields :: "string \<Rightarrow> string list" where
  "required_payload_fields event_type =
     (case dget REQUIRED_PAYLOAD_FIELDS_BY_EVENT_TYPE event_type of None \<Rightarrow> [] | Some fs \<Rightarrow> fs)"

definition report_status_event_family :: "string \<Rightarrow> string" where
  "report_status_event_family event_type =
     (if py_startswith event_type ''batch_item_'' then ''batch_item_replay''
      else if py_startswith event_type ''job_rerender_'' then ''rerender_lifecycle''
      else if py_startswith event_type ''job_regenerate_'' then ''regenerate_lifecycle''
      else if py_startswith event_type ''job_replay_'' then ''replay_lifecycle''
      else if event_type \<in> {''job_rendering'', ''job_completed''} then ''render_lifecycle''
      else if event_type \<in> {''job_archiving'', ''job_archived''} then ''archive_lifecycle''
      else ''job_lifecycle'')"

definition validate_support_safe_payload_keys :: "jobj \<Rightarrow> unit res" where
  "validate_support_safe_payload_keys payload =
     (let found = sorted_set (filter (\<lambda>k. k \<in> set SENSITIVE_PAYLOAD_KEYS) (dkeys payload))
      in if found \<noteq> []
         then Inl (ValueError (''report_status_event_payload_sensitive_keys:'' @ py_join '','' found))
         else Inr ())"

definition normalized_event_idempotency_key :: "string option \<Rightarrow> string option" where
  "normalized_event_idempotency_key v = (if py_blank v then None else map_option py_strip v)"

definition payload_truthy :: "jobj \<Rightarrow> string \<Rightarrow> bool" where
  "payload_truthy payload field = (case dget payload field of None \<Rightarrow> False | Some v \<Rightarrow> jtrue v)"

definition build_report_status_event_contract ::
    "string \<Rightarrow> job_status option \<Rightarrow> job_status \<Rightarrow> jobj option \<Rightarrow> string option \<Rightarrow> event_contract res" where
  "build_report_status_event_contract event_type from_status to_status event_payload key =
     (let p0 = (case event_payload of None \<Rightarrow> [] | Some p \<Rightarrow> p);
          p1 = dsetdefault p0 ''from_status'' (jopt (map_option status_text from_status));
          p2 = dsetdefault p1 ''to_status'' (JStr (status_text to_status));
          payload = dsetdefault p2 ''event_type'' (JStr event_type)
      in bindE (validate_support_safe_payload_keys payload) (\<lambda>_.
         let missing = sorted_set (filter (\<lambda>f. \<not> payload_truthy payload f)
               (required_payload_fields event_type))
         in if missing \<noteq> []
            then Inl (ValueError (''report_status_event_payload_missing:''
                   @ py_join '','' missing @ '':'' @ event_type))
            else Inr \<lparr>ec_schema_version = REPORT_STATUS_EVENT_SCHEMA_VERSION,
                      ec_event_family = report_status_event_family event_type,
                      ec_event_payload = payload,
                      ec_event_idempotency_key = normalized_event_idempotency_key key\<rparr>))"

definition legacy_report_status_event_contract ::
    "string \<Rightarrow> job_status option \<Rightarrow> job_status \<Rightarrow> event_contract" where
  "legacy_report_status_event_contract event_type from_status to_status =
     \<lparr>ec_schema_version = LEGACY_REPORT_STATUS_EVENT_SCHEMA_VERSION,
      ec_event_family = report_status_event_family event_type,
      ec_event_payload = [(''event_type'', JStr event_type),
         (''from_status'', jopt (map_option status_text from_status)),
         (''to_status'', JStr (status_text to_status)),
         (''payload_posture'', JStr ''legacy_message_only'')],
      ec_event_idempotency_key = None\<rparr>"

lemma validate_keys_Inr:
  "validate_support_safe_payload_keys p = Inr u \<longleftrightarrow>
     set (dkeys p) \<inter> set SENSITIVE_PAYLOAD_KEYS = {}"
proof -
  have "sorted_set xs = [] \<longleftrightarrow> xs = []" for xs
    by (metis set_empty set_sorted_set)
  then show ?thesis
    by (auto simp: validate_support_safe_payload_keys_def Let_def filter_empty_conv)
qed

lemma missing_fields_Nil:
  "sorted_set (filter (\<lambda>f. \<not> payload_truthy p f) fs) = [] \<longleftrightarrow> (\<forall>f \<in> set fs. payload_truthy p f)"
proof -
  have "sorted_set xs = [] \<longleftrightarrow> xs = []" for xs
    by (metis set_empty set_sorted_set)
  then show ?thesis by (simp add: filter_empty_conv)
qed

definition event_payload_of :: "string \<Rightarrow> job_status option \<Rightarrow> job_status \<Rightarrow> jobj \<Rightarrow> jobj" where
  "event_payload_of event_type from_status to_status p =
     dsetdefault (dsetdefault (dsetdefault p
       ''from_status'' (jopt (map_option status_text from_status)))
       ''to_status'' (JStr (status_text to_status))) ''event_type'' (JStr event_type)"

lemma build_contract_Inr:
  "build_report_status_event_contract et f t p k = Inr c \<longleftrightarrow>
     (let payload = event_payload_of et f t (case p of None \<Rightarrow> [] | Some q \<Rightarrow> q) in
      set (dkeys payload) \<inter> set SENSITIVE_PAYLOAD_KEYS = {}
      \<and> (\<forall>x \<in> set (required_payload_fields et). payload_truthy payload x)
      \<and> c = \<lparr>ec_schema_version = REPORT_STATUS_EVENT_SCHEMA_VERSION,
             ec_event_family = report_status_event_family et,
             ec_event_payload = payload,
             ec_event_idempotency_key = normalized_event_idempotency_key k\<rparr>)"
  by (auto simp: build_report_status_event_contract_def event_payload_of_def Let_def
        validate_keys_Inr missing_fields_Nil split: if_splits)

lemma sensitive_disjoint_defaults:
  "{''from_status'', ''to_status'', ''event_type''} \<inter> set SENSITIVE_PAYLOAD_KEYS = {}"
  by (simp add: SENSITIVE_PAYLOAD_KEYS_def)

lemma required_fields_not_defaults:
  assumes "x \<in> set (required_payload_fields et)"
  shows "x \<notin> {''from_status'', ''to_status'', ''event_type''}"
proof -
  obtain fs where "map_of REQUIRED_PAYLOAD_FIELDS_BY_EVENT_TYPE et = Some fs" "x \<in> set fs"
    using assms by (cases "map_of REQUIRED_PAYLOAD_FIELDS_BY_EVENT_TYPE et")
      (auto simp: required_payload_fields_def dget_def)
  then have "fs \<in> set (map snd REQUIRED_PAYLOAD_FIELDS_BY_EVENT_TYPE)" "x \<in> set fs"
    by (auto dest!: map_of_SomeD intro: rev_image_eqI)
  then have "x \<in> set (concat (map snd REQUIRED_PAYLOAD_FIELDS_BY_EVENT_TYPE))" by auto
  then show ?thesis by (auto simp: REQUIRED_PAYLOAD_FIELDS_BY_EVENT_TYPE_def)
qed

lemma payload_truthy_defaults:
  assumes "x \<notin> {''from_status'', ''to_status'', ''event_type''}"
  shows "payload_truthy (event_payload_of et f t p) x = payload_truthy p x"
  using assms by (simp add: payload_truthy_def event_payload_of_def)

lemma dkeys_event_payload_of:
  "set (dkeys (event_payload_of et f t p)) =
     set (dkeys p) \<union> {''from_status'', ''to_status'', ''event_type''}"
  by (auto simp: event_payload_of_def)

lemma dget_event_payload_of:
  "dget p k = Some v \<Longrightarrow> dget (event_payload_of et f t p) k = Some v"
  by (auto simp: event_payload_of_def)

text \<open>A status event is accepted exactly when its payload carries none of the sensitive keys
  and every field its type requires is present with a true value; an accepted payload keeps every
  entry of the caller and always states the two statuses and the event type.\<close>

theorem event_contract_enforced:
  "((\<exists>c. build_report_status_event_contract et f t (Some p) k = Inr c) \<longleftrightarrow>
      set (dkeys p) \<inter> set SENSITIVE_PAYLOAD_KEYS = {}
      \<and> (\<forall>x \<in> set (required_payload_fields et). payload_truthy p x))
   \<and> (\<forall>c. build_report_status_event_contract et f t (Some p) k = Inr c \<longrightarrow>
       (\<forall>x v. dget p x = Some v \<longrightarrow> dget (ec_event_payload c) x = Some v)
       \<and> {''from_status'', ''to_status'', ''event_type''} \<subseteq> set (dkeys (ec_event_payload c))
       \<and> set (dkeys (ec_event_payload c)) \<inter> set SENSITIVE_PAYLOAD_KEYS = {})"
proof (intro conjI allI impI)
  have sens: "set (dkeys (event_payload_of et f t p)) \<inter> set SENSITIVE_PAYLOAD_KEYS = {} \<longleftrightarrow>
      set (dkeys p) \<inter> set SENSITIVE_PAYLOAD_KEYS = {}"
    using sensitive_disjoint_defaults by (simp add: dkeys_event_payload_of Int_Un_distrib2)
  have req: "(\<forall>x \<in> set (required_payload_fields et). payload_truthy (event_payload_of et f t p) x)
      \<longleftrightarrow> (\<forall>x \<in> set (required_payload_fields et). payload_truthy p x)"
    using required_fields_not_defaults payload_truthy_defaults by blast
  show "(\<exists>c. build_report_status_event_contract et f t (Some p) k = Inr c) \<longleftrightarrow>
      set (dkeys p) \<inter> set SENSITIVE_PAYLOAD_KEYS = {}
      \<and> (\<forall>x \<in> set (required_payload_fields et). payload_truthy p x)"
    by (simp add: build_contract_Inr Let_def sens req)
  fix c assume "build_report_status_event_contract et f t (Some p) k = Inr c"
  then have c: "ec_event_payload c = event_payload_of et f t p"
    "set (dkeys (event_payload_of et f t p)) \<inter> set SENSITIVE_PAYLOAD_KEYS = {}"
    by (simp_all add: build_contract_Inr Let_def)
  show "dget (ec_event_payload c) x = Some v" if "dget p x = Some v" for x v
    using that by (simp add: c dget_event_payload_of)
  show "{''from_status'', ''to_status'', ''event_type''} \<subseteq> set (dkeys (ec_event_payload c))"
    "set (dkeys (ec_event_payload c)) \<inter> set SENSITIVE_PAYLOAD_KEYS = {}"
    using c by (simp_all add: dkeys_event_payload_of)
qed

theorem event_contract_enforced_witness:
  "(\<exists>c. build_report_status_event_contract ''job_accepted'' None Accepted
      (Some [(''report_type'', JStr ''portfolio_review'')]) None = Inr c)
   \<and> \<not> (\<exists>c. build_report_status_event_contract ''job_failed'' (Some Accepted) Failed
      (Some [(''failure_category'', JStr ''timeout''), (''failure_message'', JStr [])]) None = Inr c)"
  using event_contract_enforced [of "''job_accepted''" None Accepted
      "[(''report_type'', JStr ''portfolio_review'')]" None]
    event_contract_enforced [of "''job_failed''" "Some Accepted" Failed
      "[(''failure_category'', JStr ''timeout''), (''failure_message'', JStr [])]" None]
  by (simp add: required_payload_fields_def REQUIRED_PAYLOAD_FIELDS_BY_EVENT_TYPE_def
      dget_def payload_truthy_def dkeys_def SENSITIVE_PAYLOAD_KEYS_def)

end
