(* ===== verification/Ledger_State.thy ===== *)
theory Ledger_State
  imports Work_Queue Event_Contracts
begin

text \<open>
  The tables of the report-job ledger (\<open>ReportJobLedger.ensure_schema\<close> and
  \<open>ensure_custody_schema\<close>) as records of rows, with the constraints the database enforces: primary
  keys, \<open>UNIQUE\<close> indexes, foreign keys (\<open>PRAGMA foreign_keys = ON\<close> on every connection), \<open>CHECK\<close>
  clauses and the custody triggers. A statement that breaks one raises, which aborts the
  transaction; so the constraints hold in every committed state (\<open>schema_inv\<close>, kept by
  every statement, the insertion of a request with its job counted as one).
  That no two jobs share a request is not a constraint of the schema: it follows from the way the
  one inserting operation writes both rows, and is part of \<open>schema_inv\<close> all the same.

  \<open>env\<close> is what an operation reads from outside the tables: clock readings, \<open>uuid4\<close> draws,
  the custody bindings (a protocol with no implementation in the repository), the
  worker-lease context variable and the SHA-256 digest, of which no theorem assumes
  more than it states. Readings are indexed by the call path, so no two reads
  are assumed equal or ordered.
\<close>

section \<open>Rows\<close>

record request_row =
  r_id :: string
  r_report_type :: string
  r_portfolio_scope :: jobj
  r_output_formats :: "string list"
  r_as_of_date :: date
  r_reporting_currency :: "string option"
  r_options :: jobj
  r_trigger_type :: string
  r_triggered_by :: string
  r_caller_application :: string
  r_tenant_id :: string
  r_region :: string
  r_booking_center_code :: "string option"
  r_role :: "string option"
  r_idempotency_key :: string
  r_request_hash :: string
  r_correlation_id :: string
  r_trace_id :: string
  r_created_at :: stamp

datatype custody_state = Ready | Waiting | Blocked | Refused | Verified

record job_row =
  j_id :: string
  j_request_id :: string
  j_report_type :: string
  j_portfolio_scope :: jobj
  j_status :: job_status
  j_failure_category :: "failure_category option"
  j_failure_message :: "string option"
  j_current_step :: string
  j_retry_eligible :: bool
  j_cancel_requested :: bool
  j_created_at :: stamp
  j_updated_at :: stamp
  j_started_at :: "stamp option"
  j_completed_at :: "stamp option"
  j_cancelled_at :: "stamp option"
  j_render_job_id :: "string option"
  j_render_output_format :: "string option"
  j_render_template_id :: "string option"
  j_render_template_version :: "string option"
  j_render_template_publication :: "string option"
  j_render_artifact_sha256 :: "string option"
  j_render_fingerprint :: "string option"
  j_render_runtime_engine :: "string option"
  j_render_runtime_engine_version :: "string option"
  j_render_duration_ms :: "int option"
  j_archive_request_id :: "string option"
  j_archive_document_id :: "string option"
  j_archive_completed_at :: "stamp option"
  j_accepted_contract :: "jobj option"
  j_custody_policy :: "string option"
  j_offer_body :: "string option"
  j_offer_sha256 :: "string option"
  j_offer_size :: "int option"
  j_offer_version :: "string option"
  j_offer_generation :: int
  j_custody_state :: "custody_state option"
  j_custody_epoch :: int
  j_custody_initial_count :: int
  j_custody_dispatch_count :: int
  j_custody_poll_count :: int
  j_custody_window_started_at :: "stamp option"
  j_custody_next_attempt_at :: "stamp option"
  j_custody_reason :: "string option"
  j_custody_verification :: "jobj option"

record event_row =
  ev_id :: string
  ev_job_id :: string
  ev_from :: "job_status option"
  ev_to :: job_status
  ev_type :: string
  ev_schema_version :: string
  ev_family :: string
  ev_payload :: jobj
  ev_key :: "string option"
  ev_message :: "string option"
  ev_actor :: string
  ev_created_at :: stamp
  ev_correlation_id :: string
  ev_trace_id :: string

datatype relationship_type = Regenerate_replacement | Failed_work_replay | Batch_item_replay

record relationship_row =
  rel_id :: string
  rel_source :: string
  rel_derived :: string
  rel_type :: relationship_type
  rel_source_status :: job_status
  rel_derived_status :: job_status
  rel_source_failure :: "failure_category option"
  rel_derived_failure :: "failure_category option"
  rel_archive_consequence :: "string option"
  rel_previous_document :: "string option"
  rel_new_document :: "string option"
  rel_actor :: string
  rel_reason :: string
  rel_created_at :: stamp
  rel_updated_at :: stamp

datatype rerender_status = Rr_rendering | Rr_rendered | Rr_archiving | Rr_archived | Rr_failed

record rerender_row =
  rr_id :: string
  rr_job_id :: string
  rr_key :: string
  rr_status :: rerender_status
  rr_snapshot_id :: string
  rr_snapshot_hash :: string
  rr_previous_render_job_id :: "string option"
  rr_previous_document :: "string option"
  rr_render_job_id :: string
  rr_output_format :: string
  rr_template_id :: string
  rr_template_version :: string
  rr_artifact_sha256 :: "string option"
  rr_fingerprint :: "string option"
  rr_runtime_engine :: "string option"
  rr_runtime_engine_version :: "string option"
  rr_duration_ms :: "int option"
  rr_archive_request_id :: "string option"
  rr_archive_document_id :: "string option"
  rr_archive_completed_at :: "stamp option"
  rr_failure_category :: "failure_category option"
  rr_failure_message :: "string option"
  rr_retry_eligible :: bool
  rr_requested_by :: string
  rr_reason :: string
  rr_correlation_id :: string
  rr_trace_id :: string
  rr_created_at :: stamp
  rr_updated_at :: stamp

record ledger =
  requests :: "request_row list"
  jobs :: "job_row list"
  events :: "event_row list"
  relationships :: "relationship_row list"
  attempts :: "rerender_row list"
  work_items :: "work_item list"

type_synonym 'a ledger_tx = "(ledger, 'a) tx"

definition empty_ledger :: ledger where
  "empty_ledger = \<lparr>requests = [], jobs = [], events = [], relationships = [], attempts = [],
     work_items = []\<rparr>"

section \<open>The environment of an operation\<close>

text \<open>
  \<open>CustodyBindings\<close> (\<open>src/src/app/reporting_jobs/custody_policy.py\<close>) is a protocol that no
  class of the repository implements: its methods are parameters, each of which may raise.
\<close>

record custody_bindings =
  cb_require_readiness :: "unit res"
  cb_admit :: "string \<Rightarrow> string \<Rightarrow> string \<Rightarrow> bool res"
  cb_authorize :: "string \<Rightarrow> string \<Rightarrow> string \<Rightarrow> string \<Rightarrow> unit res"
  cb_verify_final_custody :: "jobj \<Rightarrow> unit res"

record env =
  env_clock :: "nat list \<Rightarrow> dt"
  env_uuid :: "nat list \<Rightarrow> string"
  env_randbelow :: "nat list \<Rightarrow> nat"
  env_sha256 :: "string \<Rightarrow> string"
  env_bindings :: "custody_bindings option"
  env_work_lease :: "(string \<times> string) option"

definition utc_now :: "env \<Rightarrow> nat \<Rightarrow> dt" where "utc_now e i = env_clock e [i]"

definition uuid4_hex :: "env \<Rightarrow> nat \<Rightarrow> string" where "uuid4_hex e i = env_uuid e [i]"

text \<open>The environment seen by the \<open>i\<close>-th call an operation makes.\<close>

definition sub_env :: "nat \<Rightarrow> env \<Rightarrow> env" where
  "sub_env i e = e\<lparr>env_clock := \<lambda>p. env_clock e (i # p), env_uuid := \<lambda>p. env_uuid e (i # p),
     env_randbelow := \<lambda>p. env_randbelow e (i # p)\<rparr>"

lemma sub_env_simps [simp]:
  "env_bindings (sub_env i e) = env_bindings e"
  "env_work_lease (sub_env i e) = env_work_lease e"
  "env_sha256 (sub_env i e) = env_sha256 e"
  by (simp_all add: sub_env_def)

section \<open>Constraints\<close>

definition REQUIRED_POLICY :: string where "REQUIRED_POLICY = ''retained-render-offer.v1''"
definition ENCODING_VERSION :: string where "ENCODING_VERSION = ''json-utf8-compact.v1''"
definition MAX_OFFER_BYTES :: int where "MAX_OFFER_BYTES = 8388608"

definition is_hex_digest :: "string \<Rightarrow> bool" where
  "is_hex_digest s \<longleftrightarrow> length s = 64 \<and> list_all (\<lambda>c. c \<in> set ''0123456789abcdef'') s"

text \<open>The column checks added by \<open>CUSTODY_COLUMNS\<close>.\<close>

definition custody_checks :: "job_row \<Rightarrow> bool" where
  "custody_checks j \<longleftrightarrow>
     (j_custody_policy j = None \<or> j_custody_policy j = Some REQUIRED_POLICY)
     \<and> 0 \<le> j_custody_initial_count j \<and> j_custody_initial_count j \<le> 1
     \<and> 0 \<le> j_custody_dispatch_count j \<and> j_custody_dispatch_count j \<le> 3
     \<and> 0 \<le> j_custody_poll_count j \<and> j_custody_poll_count j \<le> 12"

text \<open>The conditions under which the three triggers abort.\<close>

definition report_custody_insert :: "job_row \<Rightarrow> bool" where
  "report_custody_insert n \<longleftrightarrow>
     j_offer_body n \<noteq> None \<or> j_custody_state n \<noteq> None \<or> j_custody_initial_count n \<noteq> 0
     \<or> j_custody_dispatch_count n \<noteq> 0 \<or> j_custody_poll_count n \<noteq> 0 \<or> j_offer_generation n \<noteq> 0"

definition report_custody_immutable :: "job_row \<Rightarrow> job_row \<Rightarrow> bool" where
  "report_custody_immutable old new \<longleftrightarrow>
     j_custody_policy new \<noteq> j_custody_policy old
     \<or> (j_offer_body old \<noteq> None \<and> (
          j_offer_body new \<noteq> j_offer_body old
          \<or> j_offer_sha256 new \<noteq> j_offer_sha256 old
          \<or> j_offer_size new \<noteq> j_offer_size old
          \<or> j_offer_version new \<noteq> j_offer_version old
          \<or> j_offer_generation new \<noteq> j_offer_generation old
          \<or> j_render_job_id new \<noteq> j_render_job_id old
          \<or> j_request_id new \<noteq> j_request_id old
          \<or> j_report_type new \<noteq> j_report_type old
          \<or> j_render_template_id new \<noteq> j_render_template_id old
          \<or> j_render_template_version new \<noteq> j_render_template_version old
          \<or> j_accepted_contract new \<noteq> j_accepted_contract old))
     \<or> (j_custody_policy old = Some REQUIRED_POLICY \<and> j_archive_request_id old \<noteq> None
          \<and> j_archive_request_id new \<noteq> j_archive_request_id old)
     \<or> (j_custody_state old = Some Verified \<and> j_custody_state new \<noteq> Some Verified)
     \<or> (j_custody_state old = Some Verified \<and> (
          j_status new \<noteq> Archived
          \<or> j_archive_document_id new \<noteq> j_archive_document_id old
          \<or> j_custody_verification new \<noteq> j_custody_verification old))"

definition report_custody_shape :: "job_row \<Rightarrow> job_row \<Rightarrow> bool" where
  "report_custody_shape old new \<longleftrightarrow>
     (case j_offer_body new of None \<Rightarrow> False | Some body \<Rightarrow>
          j_custody_policy new \<noteq> Some REQUIRED_POLICY
          \<or> j_offer_size new \<noteq> Some (int (length body))
          \<or> int (length body) > MAX_OFFER_BYTES \<or> int (length body) < 1
          \<or> (case j_offer_sha256 new of None \<Rightarrow> True | Some d \<Rightarrow> \<not> is_hex_digest d)
          \<or> j_offer_version new \<noteq> Some ENCODING_VERSION
          \<or> j_offer_generation new \<noteq> 1 \<or> j_render_job_id new = None)
     \<or> (j_custody_policy new = Some REQUIRED_POLICY \<and> j_custody_state new \<noteq> Some Verified
          \<and> (j_offer_sha256 old \<noteq> None \<or> j_render_job_id old \<noteq> None
             \<or> j_custody_initial_count old > 0 \<or> j_status old \<in> {Rendering, Completed, Archiving})
          \<and> j_status new \<in> {Failed, Cancelled, Archived, Completed, Completed_with_warnings})
     \<or> j_custody_initial_count new < j_custody_initial_count old
     \<or> (j_custody_state new = Some Verified \<and> (j_custody_verification new = None
          \<or> j_archive_request_id new = None \<or> j_archive_document_id new = None
          \<or> j_offer_sha256 old = None))"

text \<open>Whether the database lets an \<open>UPDATE\<close> turn one job row into another.\<close>

definition job_update_ok :: "job_row \<Rightarrow> job_row \<Rightarrow> bool" where
  "job_update_ok old new \<longleftrightarrow>
     \<not> report_custody_immutable old new \<and> \<not> report_custody_shape old new \<and> custody_checks new"

section \<open>Statements\<close>

definition insert_request :: "request_row \<Rightarrow> unit ledger_tx" where
  "insert_request r s =
     (if r_id r \<in> r_id ` set (requests s)
      then Inl (IntegrityError ''report_request.report_request_id'')
      else if (r_tenant_id r, r_idempotency_key r)
                \<in> (\<lambda>x. (r_tenant_id x, r_idempotency_key x)) ` set (requests s)
      then Inl (IntegrityError ''report_request_tenant_idempotency_key'')
      else Inr ((), s\<lparr>requests := requests s @ [r]\<rparr>))"

definition insert_job :: "job_row \<Rightarrow> unit ledger_tx" where
  "insert_job j s =
     (if report_custody_insert j then Inl (IntegrityError ''custody_insert_shape'')
      else if \<not> custody_checks j then Inl (IntegrityError ''CHECK'')
      else if j_id j \<in> j_id ` set (jobs s) then Inl (IntegrityError ''report_job.report_job_id'')
      else if j_request_id j \<notin> r_id ` set (requests s) then Inl (IntegrityError ''FOREIGN KEY'')
      else Inr ((), s\<lparr>jobs := jobs s @ [j]\<rparr>))"

definition insert_event :: "event_row \<Rightarrow> unit ledger_tx" where
  "insert_event v s =
     (if ev_id v \<in> ev_id ` set (events s)
      then Inl (IntegrityError ''report_status_event.status_event_id'')
      else if ev_job_id v \<notin> j_id ` set (jobs s) then Inl (IntegrityError ''FOREIGN KEY'')
      else Inr ((), s\<lparr>events := events s @ [v]\<rparr>))"

definition rel_identity :: "relationship_row \<Rightarrow> string \<times> string \<times> relationship_type" where
  "rel_identity x = (rel_source x, rel_derived x, rel_type x)"

text \<open>\<open>INSERT ... ON CONFLICT(source, derived, type) DO NOTHING\<close> and \<open>DO UPDATE\<close>.\<close>

definition insert_relationship_or_nothing :: "relationship_row \<Rightarrow> unit ledger_tx" where
  "insert_relationship_or_nothing x s =
     (if rel_identity x \<in> rel_identity ` set (relationships s) then Inr ((), s)
      else if rel_id x \<in> rel_id ` set (relationships s)
      then Inl (IntegrityError ''report_job_relationship.relationship_id'')
      else if rel_source x \<notin> j_id ` set (jobs s) \<or> rel_derived x \<notin> j_id ` set (jobs s)
      then Inl (IntegrityError ''FOREIGN KEY'')
      else Inr ((), s\<lparr>relationships := relationships s @ [x]\<rparr>))"

definition insert_relationship_or_update ::
    "relationship_row \<Rightarrow> (relationship_row \<Rightarrow> relationship_row) \<Rightarrow> unit ledger_tx" where
  "insert_relationship_or_update x f s =
     (if rel_identity x \<in> rel_identity ` set (relationships s)
      then Inr ((), s\<lparr>relationships :=
             update_where (\<lambda>y. rel_identity y = rel_identity x) f (relationships s)\<rparr>)
      else if rel_id x \<in> rel_id ` set (relationships s)
      then Inl (IntegrityError ''report_job_relationship.relationship_id'')
      else if rel_source x \<notin> j_id ` set (jobs s) \<or> rel_derived x \<notin> j_id ` set (jobs s)
      then Inl (IntegrityError ''FOREIGN KEY'')
      else Inr ((), s\<lparr>relationships := relationships s @ [x]\<rparr>))"

definition insert_attempt :: "rerender_row \<Rightarrow> unit ledger_tx" where
  "insert_attempt a s =
     (if rr_id a \<in> rr_id ` set (attempts s)
      then Inl (IntegrityError ''report_rerender_attempt.rerender_attempt_id'')
      else if (rr_job_id a, rr_key a) \<in> (\<lambda>x. (rr_job_id x, rr_key x)) ` set (attempts s)
      then Inl (IntegrityError ''report_rerender_attempt.idempotency_key'')
      else if rr_job_id a \<notin> j_id ` set (jobs s) then Inl (IntegrityError ''FOREIGN KEY'')
      else Inr ((), s\<lparr>attempts := attempts s @ [a]\<rparr>))"

text \<open>\<open>INSERT OR IGNORE\<close>: a taken key is ignored, a missing job is not.\<close>

definition insert_work_or_ignore :: "work_item \<Rightarrow> unit ledger_tx" where
  "insert_work_or_ignore w s =
     (if work_item_id w \<in> work_item_id ` set (work_items s)
         \<or> wi_report_job_id w \<in> wi_report_job_id ` set (work_items s) then Inr ((), s)
      else if wi_report_job_id w \<notin> j_id ` set (jobs s) then Inl (IntegrityError ''FOREIGN KEY'')
      else Inr ((), s\<lparr>work_items := work_items s @ [w]\<rparr>))"

definition update_job :: "(job_row \<Rightarrow> bool) \<Rightarrow> (job_row \<Rightarrow> job_row) \<Rightarrow> nat ledger_tx" where
  "update_job P f s =
     (if \<exists>j \<in> set (jobs s). P j \<and> \<not> job_update_ok j (f j)
      then Inl (IntegrityError ''custody_trigger'')
      else Inr (rowcount P (jobs s), s\<lparr>jobs := update_where P f (jobs s)\<rparr>))"

definition update_work :: "(work_item \<Rightarrow> bool) \<Rightarrow> (work_item \<Rightarrow> work_item) \<Rightarrow> nat ledger_tx" where
  "update_work P f s =
     Inr (rowcount P (work_items s), s\<lparr>work_items := update_where P f (work_items s)\<rparr>)"

definition update_attempt :: "(rerender_row \<Rightarrow> bool) \<Rightarrow> (rerender_row \<Rightarrow> rerender_row) \<Rightarrow> nat ledger_tx" where
  "update_attempt P f s =
     Inr (rowcount P (attempts s), s\<lparr>attempts := update_where P f (attempts s)\<rparr>)"

definition find_job :: "string \<Rightarrow> ledger \<Rightarrow> job_row option" where
  "find_job jid s = fetch (\<lambda>j. j_id j = jid) (jobs s)"

definition find_request :: "string \<Rightarrow> ledger \<Rightarrow> request_row option" where
  "find_request rid s = fetch (\<lambda>r. r_id r = rid) (requests s)"

definition find_work :: "string \<Rightarrow> ledger \<Rightarrow> work_item option" where
  "find_work wid s = fetch (\<lambda>w. work_item_id w = wid) (work_items s)"

definition find_work_of_job :: "string \<Rightarrow> ledger \<Rightarrow> work_item option" where
  "find_work_of_job jid s = fetch (\<lambda>w. wi_report_job_id w = jid) (work_items s)"

section \<open>What the constraints guarantee\<close>

definition request_keys :: "ledger \<Rightarrow> (string \<times> string) list" where
  "request_keys s = map (\<lambda>r. (r_tenant_id r, r_idempotency_key r)) (requests s)"

definition job_ids :: "ledger \<Rightarrow> string list" where "job_ids s = map j_id (jobs s)"

definition requests_ok :: "ledger \<Rightarrow> bool" where
  "requests_ok s \<longleftrightarrow> distinct (map r_id (requests s)) \<and> distinct (request_keys s)"

text \<open>A retained offer and verified custody belong to jobs of the required policy.\<close>

definition custody_scoped :: "job_row \<Rightarrow> bool" where
  "custody_scoped j \<longleftrightarrow> (j_offer_body j \<noteq> None \<or> j_custody_state j = Some Verified \<longrightarrow>
     j_custody_policy j = Some REQUIRED_POLICY)"

definition jobs_ok :: "ledger \<Rightarrow> bool" where
  "jobs_ok s \<longleftrightarrow> distinct (job_ids s) \<and> distinct (map j_request_id (jobs s)) \<and> (\<forall>j \<in> set (jobs s).
     j_request_id j \<in> r_id ` set (requests s) \<and> custody_checks j \<and> custody_scoped j)"

definition events_ok :: "ledger \<Rightarrow> bool" where
  "events_ok s \<longleftrightarrow> distinct (map ev_id (events s))
     \<and> (\<forall>v \<in> set (events s). ev_job_id v \<in> set (job_ids s))"

definition relationships_ok :: "ledger \<Rightarrow> bool" where
  "relationships_ok s \<longleftrightarrow> distinct (map rel_id (relationships s))
     \<and> distinct (map rel_identity (relationships s))
     \<and> (\<forall>x \<in> set (relationships s). rel_source x \<in> set (job_ids s) \<and> rel_derived x \<in> set (job_ids s))"

definition attempts_ok :: "ledger \<Rightarrow> bool" where
  "attempts_ok s \<longleftrightarrow> distinct (map rr_id (attempts s))
     \<and> distinct (map (\<lambda>x. (rr_job_id x, rr_key x)) (attempts s))
     \<and> (\<forall>a \<in> set (attempts s). rr_job_id a \<in> set (job_ids s))"

definition work_ok :: "ledger \<Rightarrow> bool" where
  "work_ok s \<longleftrightarrow> distinct (map work_item_id (work_items s))
     \<and> distinct (map wi_report_job_id (work_items s))
     \<and> (\<forall>w \<in> set (work_items s). wi_report_job_id w \<in> set (job_ids s))"

definition schema_inv :: "ledger \<Rightarrow> bool" where
  "schema_inv s \<longleftrightarrow> requests_ok s \<and> jobs_ok s \<and> events_ok s \<and> relationships_ok s
     \<and> attempts_ok s \<and> work_ok s"

lemmas table_oks = requests_ok_def jobs_ok_def events_ok_def relationships_ok_def attempts_ok_def
  work_ok_def request_keys_def job_ids_def

lemma schema_inv_empty: "schema_inv empty_ledger"
  by (simp add: schema_inv_def table_oks empty_ledger_def)

text \<open>\<open>keeps_schema m\<close>: a successful run of \<open>m\<close> keeps the constraints.\<close>

definition schema_rel :: "ledger \<Rightarrow> ledger \<Rightarrow> bool" where
  "schema_rel s s' \<longleftrightarrow> (schema_inv s \<longrightarrow> schema_inv s')"

interpretation schema: tx_relation schema_rel
  by unfold_locales (auto simp: schema_rel_def)

lemma schema_insert_request_job:
  assumes "j_request_id j = r_id r"
  shows "keeps schema_rel (tx_bind (insert_request r) (\<lambda>_. insert_job j))"
proof (rule keepsI)
  fix s u s' assume "tx_bind (insert_request r) (\<lambda>_. insert_job j) s = Inr (u, s')"
  then have s': "s' = s\<lparr>requests := requests s @ [r], jobs := jobs s @ [j]\<rparr>"
    and new: "r_id r \<notin> r_id ` set (requests s)" "custody_checks j" "custody_scoped j" "j_id j \<notin> j_id ` set (jobs s)"
      "(r_tenant_id r, r_idempotency_key r) \<notin> (\<lambda>x. (r_tenant_id x, r_idempotency_key x)) ` set (requests s)"
    by (auto simp: insert_request_def insert_job_def report_custody_insert_def custody_scoped_def
        elim!: tx_bindE split: if_splits)
  have "requests_ok s \<Longrightarrow> requests_ok s'" using new by (simp add: requests_ok_def request_keys_def s')
  moreover have "j_request_id j \<notin> j_request_id ` set (jobs s)" if "jobs_ok s"
    using that new(1) assms by (auto simp: jobs_ok_def)
  then have "jobs_ok s \<Longrightarrow> jobs_ok s'" using new assms by (auto simp: jobs_ok_def job_ids_def s')
  moreover have "events_ok s \<Longrightarrow> events_ok s'" "relationships_ok s \<Longrightarrow> relationships_ok s'"
    "attempts_ok s \<Longrightarrow> attempts_ok s'" "work_ok s \<Longrightarrow> work_ok s'"
    by (simp_all add: events_ok_def relationships_ok_def attempts_ok_def work_ok_def job_ids_def s')
  ultimately show "schema_rel s s'" by (simp add: schema_rel_def schema_inv_def)
qed

lemma schema_insert_event: "keeps schema_rel (insert_event r)"
  by (rule keepsI)
     (auto simp: insert_event_def schema_rel_def schema_inv_def table_oks split: if_splits)

lemma schema_insert_attempt: "keeps schema_rel (insert_attempt r)"
  by (rule keepsI)
     (auto simp: insert_attempt_def schema_rel_def schema_inv_def table_oks split: if_splits)

lemma schema_insert_work: "keeps schema_rel (insert_work_or_ignore r)"
  by (rule keepsI)
     (auto simp: insert_work_or_ignore_def schema_rel_def schema_inv_def table_oks split: if_splits)

lemma schema_insert_relationship: "keeps schema_rel (insert_relationship_or_nothing r)"
  by (rule keepsI)
     (auto simp: insert_relationship_or_nothing_def schema_rel_def schema_inv_def table_oks
       split: if_splits)

lemma distinct_map_update_where:
  "(\<And>r. g (f r) = g r) \<Longrightarrow> distinct (map g (update_where P f rs)) = distinct (map g rs)"
  by (simp add: map_update_where)

lemma ball_update_where:
  assumes "\<And>r. r \<in> set rs \<Longrightarrow> Q r" and "\<And>r. r \<in> set rs \<Longrightarrow> P r \<Longrightarrow> Q (f r)"
  shows "\<forall>r \<in> set (update_where P f rs). Q r"
  using assms by (auto simp: set_update_where)

lemma image_update_where: "(\<And>r. g (f r) = g r) \<Longrightarrow> g ` set (update_where P f rs) = g ` set rs"
  by (metis list.set_map map_update_where)

lemma schema_upsert_relationship:
  assumes "\<And>y. rel_id (f y) = rel_id y" "\<And>y. rel_source (f y) = rel_source y"
    "\<And>y. rel_derived (f y) = rel_derived y" "\<And>y. rel_type (f y) = rel_type y"
  shows "keeps schema_rel (insert_relationship_or_update x f)"
proof (rule keepsI)
  fix s u s' assume run: "insert_relationship_or_update x f s = Inr (u, s')"
  have idn: "rel_identity (f y) = rel_identity y" for y by (simp add: rel_identity_def assms)
  show "schema_rel s s'"
  proof (cases "rel_identity x \<in> rel_identity ` set (relationships s)")
    case True
    let ?rs = "update_where (\<lambda>y. rel_identity y = rel_identity x) f (relationships s)"
    from True run have s': "s' = s\<lparr>relationships := ?rs\<rparr>"
      by (simp add: insert_relationship_or_update_def)
    have "map rel_id ?rs = map rel_id (relationships s)"
      "map rel_identity ?rs = map rel_identity (relationships s)"
      by (simp_all add: map_update_where assms idn)
    moreover have "\<forall>y \<in> set ?rs. rel_source y \<in> set (job_ids s) \<and> rel_derived y \<in> set (job_ids s)"
      if "relationships_ok s"
      using that by (intro ball_update_where) (auto simp: relationships_ok_def assms)
    ultimately have "relationships_ok s \<Longrightarrow> relationships_ok s'"
      by (simp add: relationships_ok_def s' job_ids_def)
    then show ?thesis
      unfolding schema_rel_def schema_inv_def
      by (simp add: s' requests_ok_def jobs_ok_def events_ok_def work_ok_def attempts_ok_def
          request_keys_def job_ids_def)
  next
    case False
    then have "insert_relationship_or_nothing x s = Inr (u, s')"
      using run by (simp add: insert_relationship_or_update_def insert_relationship_or_nothing_def)
    then show ?thesis by (rule keepsD [OF schema_insert_relationship])
  qed
qed

lemma update_keeps_scoped:
  assumes "job_update_ok j j'" "custody_scoped j"
    and "j_custody_state j' = Some Verified \<Longrightarrow>
       j_custody_state j = Some Verified \<or> j_custody_policy j = Some REQUIRED_POLICY"
  shows "custody_scoped j'"
proof -
  have "j_custody_policy j' = j_custody_policy j"
    using assms(1) unfolding job_update_ok_def report_custody_immutable_def by blast
  moreover have "j_offer_body j' \<noteq> None \<Longrightarrow> j_custody_policy j' = Some REQUIRED_POLICY"
    using assms(1) unfolding job_update_ok_def report_custody_shape_def by auto
  ultimately show ?thesis using assms(2,3) by (auto simp: custody_scoped_def)
qed

lemma schema_update_job_run:
  assumes "\<And>j. j_id (f j) = j_id j" "\<And>j. j_request_id (f j) = j_request_id j"
    and run: "update_job P f s = Inr (n, s')"
    and verified: "\<And>j. j \<in> set (jobs s) \<Longrightarrow> P j \<Longrightarrow> j_custody_state (f j) = Some Verified \<Longrightarrow>
       j_custody_state j = Some Verified \<or> j_custody_policy j = Some REQUIRED_POLICY"
  shows "schema_rel s s'"
proof -
  from run have s': "s' = s\<lparr>jobs := update_where P f (jobs s)\<rparr>"
    and up: "\<And>j. j \<in> set (jobs s) \<Longrightarrow> P j \<Longrightarrow> job_update_ok j (f j)"
    by (auto simp: update_job_def split: if_splits)
  then have ok: "\<And>j. j \<in> set (jobs s) \<Longrightarrow> P j \<Longrightarrow> custody_checks (f j)"
    by (simp add: job_update_ok_def)
  have ids: "job_ids s' = job_ids s"
    by (simp add: job_ids_def s' map_update_where assms)
  have "\<forall>j \<in> set (update_where P f (jobs s)).
      j_request_id j \<in> r_id ` set (requests s) \<and> custody_checks j \<and> custody_scoped j"
    if jok: "jobs_ok s"
  proof (rule ball_update_where)
    show "j_request_id j \<in> r_id ` set (requests s) \<and> custody_checks j \<and> custody_scoped j"
      if "j \<in> set (jobs s)" for j using that jok by (simp add: jobs_ok_def)
    show "j_request_id (f j) \<in> r_id ` set (requests s) \<and> custody_checks (f j) \<and> custody_scoped (f j)"
      if "j \<in> set (jobs s)" "P j" for j
      using that jok ok update_keeps_scoped [OF up] verified by (simp add: jobs_ok_def assms)
  qed
  moreover have "jobs s' = update_where P f (jobs s)" "requests s' = requests s" by (simp_all add: s')
  moreover have "map j_request_id (update_where P f (jobs s)) = map j_request_id (jobs s)"
    by (simp add: map_update_where assms)
  ultimately have "jobs_ok s \<Longrightarrow> jobs_ok s'" by (metis jobs_ok_def ids)
  moreover have "requests_ok s' = requests_ok s" "events_ok s' = events_ok s"
    "relationships_ok s' = relationships_ok s" "attempts_ok s' = attempts_ok s" "work_ok s' = work_ok s"
    by (simp_all add: requests_ok_def request_keys_def events_ok_def relationships_ok_def
        attempts_ok_def work_ok_def ids) (simp_all add: s')
  ultimately show "schema_rel s s'" by (simp add: schema_rel_def schema_inv_def)
qed

text \<open>An update that never brings a row to verified custody.\<close>

definition unverifying :: "(job_row \<Rightarrow> job_row) \<Rightarrow> bool" where
  "unverifying f \<longleftrightarrow> (\<forall>j. j_custody_state (f j) = Some Verified \<longrightarrow> j_custody_state j = Some Verified)"

lemma schema_update_job:
  assumes "\<And>j. j_id (f j) = j_id j" "\<And>j. j_request_id (f j) = j_request_id j" "unverifying f"
  shows "keeps schema_rel (update_job P f)"
  by (rule keepsI, rule schema_update_job_run [OF assms(1,2)]) (use assms(3) in \<open>auto simp: unverifying_def\<close>)

lemma schema_update_work:
  assumes "\<And>w. work_item_id (f w) = work_item_id w" "\<And>w. wi_report_job_id (f w) = wi_report_job_id w"
  shows "keeps schema_rel (update_work P f)"
proof (rule keepsI)
  fix s n s' assume "update_work P f s = Inr (n, s')"
  then have s': "s' = s\<lparr>work_items := update_where P f (work_items s)\<rparr>"
    by (simp add: update_work_def)
  have ids: "map work_item_id (update_where P f (work_items s)) = map work_item_id (work_items s)"
    "map wi_report_job_id (update_where P f (work_items s)) = map wi_report_job_id (work_items s)"
    by (simp_all add: map_update_where assms)
  have "\<forall>w \<in> set (update_where P f (work_items s)). wi_report_job_id w \<in> set (job_ids s)" if "work_ok s"
    using that by (intro ball_update_where) (auto simp: work_ok_def assms)
  then have "work_ok s \<Longrightarrow> work_ok s'" by (simp add: work_ok_def s' ids job_ids_def)
  then show "schema_rel s s'"
    unfolding schema_rel_def schema_inv_def
    by (simp add: s' requests_ok_def jobs_ok_def events_ok_def relationships_ok_def attempts_ok_def
        request_keys_def job_ids_def)
qed

lemma schema_update_attempt:
  assumes "\<And>w. rr_id (f w) = rr_id w" "\<And>w. rr_job_id (f w) = rr_job_id w" "\<And>w. rr_key (f w) = rr_key w"
  shows "keeps schema_rel (update_attempt P f)"
proof (rule keepsI)
  fix s n s' assume "update_attempt P f s = Inr (n, s')"
  then have s': "s' = s\<lparr>attempts := update_where P f (attempts s)\<rparr>"
    by (simp add: update_attempt_def)
  have ids: "map rr_id (update_where P f (attempts s)) = map rr_id (attempts s)"
    "map (\<lambda>x. (rr_job_id x, rr_key x)) (update_where P f (attempts s))
      = map (\<lambda>x. (rr_job_id x, rr_key x)) (attempts s)"
    by (simp_all add: map_update_where assms)
  have "\<forall>w \<in> set (update_where P f (attempts s)). rr_job_id w \<in> set (job_ids s)" if "attempts_ok s"
    using that by (intro ball_update_where) (auto simp: attempts_ok_def assms)
  then have "attempts_ok s \<Longrightarrow> attempts_ok s'" by (simp add: attempts_ok_def s' ids job_ids_def)
  then show "schema_rel s s'"
    unfolding schema_rel_def schema_inv_def
    by (simp add: s' requests_ok_def jobs_ok_def events_ok_def relationships_ok_def work_ok_def
        request_keys_def job_ids_def)
qed

lemmas schema_statements = schema_insert_request_job schema_insert_event
  schema_insert_attempt schema_insert_work schema_insert_relationship schema_upsert_relationship
  schema_update_job schema_update_work schema_update_attempt

text \<open>Statements that address one row by its primary key.\<close>

lemma schema_distinct:
  assumes "schema_inv s"
  shows "distinct (map j_id (jobs s))" "distinct (map work_item_id (work_items s))"
    "distinct (map wi_report_job_id (work_items s))" "distinct (map r_id (requests s))"
    "distinct (map rr_id (attempts s))" "distinct (map j_request_id (jobs s))"
  using assms by (simp_all add: schema_inv_def table_oks)

lemma update_job_point:
  assumes "schema_inv s" "find_job jid s = Some j" "P j" "\<And>x. P x \<Longrightarrow> j_id x = jid"
  shows "update_job P f s =
     (if job_update_ok j (f j) then Inr (1, s\<lparr>jobs := update_where P f (jobs s)\<rparr>)
      else Inl (IntegrityError ''custody_trigger''))"
proof -
  note key = schema_distinct(1) [OF assms(1)] assms(2) [unfolded find_job_def]
  have "(\<exists>x \<in> set (jobs s). P x \<and> \<not> job_update_ok x (f x)) = (\<not> job_update_ok j (f j))"
    by (rule keyed_Ex [OF key]) (fact assms(3,4))+
  moreover have "rowcount P (jobs s) = 1" by (rule keyed_rowcount [OF key]) (fact assms(3,4))+
  ultimately show ?thesis by (simp add: update_job_def)
qed

lemma find_job_update:
  assumes "schema_inv s" "find_job jid s = Some j" "P j" "\<And>x. P x \<Longrightarrow> j_id x = jid"
    and "j_id (f j) = jid"
  shows "find_job k (s\<lparr>jobs := update_where P f (jobs s)\<rparr>) = (if k = jid then Some (f j) else find_job k s)"
proof -
  have "fetch (\<lambda>x. j_id x = k) (update_where P f (jobs s)) =
     (if k = jid then Some (f j) else fetch (\<lambda>x. j_id x = k) (jobs s))"
    by (rule keyed_fetch_update [OF schema_distinct(1) [OF assms(1)]])
       (fact assms(2) [unfolded find_job_def] assms(3,4,5))+
  then show ?thesis by (simp add: find_job_def)
qed

lemma update_work_point:
  assumes "schema_inv s" "find_work wid s = Some w" "P w" "\<And>x. P x \<Longrightarrow> work_item_id x = wid"
  shows "update_work P f s = Inr (1, s\<lparr>work_items := update_where P f (work_items s)\<rparr>)"
proof -
  have "rowcount P (work_items s) = 1"
    by (rule keyed_rowcount [OF schema_distinct(2) [OF assms(1)] assms(2) [unfolded find_work_def]])
       (fact assms(3,4))+
  then show ?thesis by (simp add: update_work_def)
qed

lemma find_work_update:
  assumes "schema_inv s" "find_work wid s = Some w" "P w" "\<And>x. P x \<Longrightarrow> work_item_id x = wid"
    and "work_item_id (f w) = wid"
  shows "find_work k (s\<lparr>work_items := update_where P f (work_items s)\<rparr>) =
     (if k = wid then Some (f w) else find_work k s)"
proof -
  have "fetch (\<lambda>x. work_item_id x = k) (update_where P f (work_items s)) =
     (if k = wid then Some (f w) else fetch (\<lambda>x. work_item_id x = k) (work_items s))"
    by (rule keyed_fetch_update [OF schema_distinct(2) [OF assms(1)]])
       (fact assms(2) [unfolded find_work_def] assms(3,4,5))+
  then show ?thesis by (simp add: find_work_def)
qed

lemma find_work_of_job_iff:
  assumes "schema_inv s"
  shows "find_work_of_job jid s = Some w \<longleftrightarrow> w \<in> set (work_items s) \<and> wi_report_job_id w = jid"
  using keyed_fetch [OF schema_distinct(3) [OF assms]]
  by (auto simp: find_work_of_job_def dest!: fetch_SomeD)

lemma find_work_iff:
  assumes "schema_inv s"
  shows "find_work wid s = Some w \<longleftrightarrow> w \<in> set (work_items s) \<and> work_item_id w = wid"
  using keyed_fetch [OF schema_distinct(2) [OF assms]]
  by (auto simp: find_work_def dest!: fetch_SomeD)

lemma find_job_iff:
  assumes "schema_inv s"
  shows "find_job jid s = Some j \<longleftrightarrow> j \<in> set (jobs s) \<and> j_id j = jid"
  using keyed_fetch [OF schema_distinct(1) [OF assms]]
  by (auto simp: find_job_def dest!: fetch_SomeD)

lemma find_work_of_job_SomeD:
  "find_work_of_job jid s = Some w \<Longrightarrow> w \<in> set (work_items s) \<and> wi_report_job_id w = jid"
  unfolding find_work_of_job_def by (rule fetch_SomeD)

lemma find_job_SomeD: "find_job jid s = Some j \<Longrightarrow> j \<in> set (jobs s) \<and> j_id j = jid"
  unfolding find_job_def by (rule fetch_SomeD)

lemma find_request_SomeD: "find_request rid s = Some r \<Longrightarrow> r \<in> set (requests s) \<and> r_id r = rid"
  unfolding find_request_def by (rule fetch_SomeD)

lemma find_other_tables [simp]:
  "find_job jid (s\<lparr>work_items := ws\<rparr>) = find_job jid s"
  "find_job jid (s\<lparr>events := vs\<rparr>) = find_job jid s"
  "find_job jid (s\<lparr>relationships := xs\<rparr>) = find_job jid s"
  "find_job jid (s\<lparr>attempts := xs'\<rparr>) = find_job jid s"
  "find_work wid (s\<lparr>jobs := js\<rparr>) = find_work wid s"
  "find_work wid (s\<lparr>events := vs\<rparr>) = find_work wid s"
  "find_work_of_job jid (s\<lparr>jobs := js\<rparr>) = find_work_of_job jid s"
  "find_work_of_job jid (s\<lparr>events := vs\<rparr>) = find_work_of_job jid s"
  "find_request rid (s\<lparr>jobs := js\<rparr>) = find_request rid s"
  "find_request rid (s\<lparr>events := vs\<rparr>) = find_request rid s"
  "find_request rid (s\<lparr>work_items := ws\<rparr>) = find_request rid s"
  by (simp_all add: find_job_def find_work_def find_work_of_job_def find_request_def)

section \<open>What no statement changes\<close>

text \<open>
  The history relation: requests and events are append-only; a job keeps its identity, and its
  columns change only as the triggers permit; work items keep their identity and their job;
  relationships and rerender attempts are never removed.
\<close>

definition job_evolves :: "job_row \<Rightarrow> job_row \<Rightarrow> bool" where
  "job_evolves j j' \<longleftrightarrow>
     j_id j' = j_id j \<and> j_request_id j' = j_request_id j \<and> j_report_type j' = j_report_type j
     \<and> j_accepted_contract j' = j_accepted_contract j \<and> j_created_at j' = j_created_at j
     \<and> j_portfolio_scope j' = j_portfolio_scope j
     \<and> j_custody_policy j' = j_custody_policy j
     \<and> (j_offer_body j \<noteq> None \<longrightarrow>
          j_offer_body j' = j_offer_body j \<and> j_offer_sha256 j' = j_offer_sha256 j
          \<and> j_offer_size j' = j_offer_size j \<and> j_offer_version j' = j_offer_version j
          \<and> j_offer_generation j' = j_offer_generation j
          \<and> j_render_job_id j' = j_render_job_id j
          \<and> j_render_template_id j' = j_render_template_id j
          \<and> j_render_template_version j' = j_render_template_version j)
     \<and> (j_custody_state j = Some Verified \<longrightarrow>
          j_custody_state j' = Some Verified \<and> j_status j' \<in> {j_status j, Archived}
          \<and> j_archive_document_id j' = j_archive_document_id j)"

definition attempt_identity :: "rerender_row \<Rightarrow> string \<times> string \<times> string" where
  "attempt_identity a = (rr_id a, rr_job_id a, rr_key a)"

definition history_rel :: "ledger \<Rightarrow> ledger \<Rightarrow> bool" where
  "history_rel s s' \<longleftrightarrow>
     rel_identity ` set (relationships s) \<subseteq> rel_identity ` set (relationships s')
     \<and> attempt_identity ` set (attempts s) \<subseteq> attempt_identity ` set (attempts s') \<and>
     (\<exists>rs. requests s' = requests s @ rs) \<and> (\<exists>vs. events s' = events s @ vs)
     \<and> list_all2 job_evolves (jobs s) (take (length (jobs s)) (jobs s'))
     \<and> (\<exists>ws. map (\<lambda>w. (work_item_id w, wi_report_job_id w)) (work_items s') =
              map (\<lambda>w. (work_item_id w, wi_report_job_id w)) (work_items s) @ ws)"

lemma job_evolves_refl [simp]: "job_evolves j j"
  by (simp add: job_evolves_def)

lemma job_evolves_trans: "job_evolves a b \<Longrightarrow> job_evolves b c \<Longrightarrow> job_evolves a c"
  unfolding job_evolves_def by auto

lemma list_all2_evolves_refl: "list_all2 job_evolves js js"
  by (rule list_all2_refl) simp

lemma history_trans:
  assumes "history_rel s t" "history_rel t u"
  shows "history_rel s u"
proof -
  let ?n = "length (jobs s)" and ?m = "length (jobs t)"
  have a: "list_all2 job_evolves (jobs s) (take ?n (jobs t))"
    and b: "list_all2 job_evolves (jobs t) (take ?m (jobs u))"
    using assms by (simp_all add: history_rel_def)
  have nm: "?n \<le> ?m" using list_all2_lengthD [OF a] by simp
  have "list_all2 job_evolves (take ?n (jobs t)) (take ?n (take ?m (jobs u)))"
    using b by (rule list_all2_takeI)
  then have "list_all2 job_evolves (take ?n (jobs t)) (take ?n (jobs u))"
    using nm by (simp add: min_def)
  then have "list_all2 job_evolves (jobs s) (take ?n (jobs u))"
    using list_all2_trans [OF _ a, of job_evolves job_evolves] job_evolves_trans by blast
  moreover have "\<exists>ws. map (\<lambda>w. (work_item_id w, wi_report_job_id w)) (work_items u) =
      map (\<lambda>w. (work_item_id w, wi_report_job_id w)) (work_items s) @ ws"
    using assms by (auto simp: history_rel_def)
  moreover have "\<exists>rs. requests u = requests s @ rs"
    using assms by (auto simp: history_rel_def)
  moreover have "\<exists>vs. events u = events s @ vs"
    using assms by (auto simp: history_rel_def)
  moreover have "rel_identity ` set (relationships s) \<subseteq> rel_identity ` set (relationships u)"
    "attempt_identity ` set (attempts s) \<subseteq> attempt_identity ` set (attempts u)"
    using assms unfolding history_rel_def by (meson subset_trans)+
  ultimately show ?thesis by (simp add: history_rel_def)
qed

interpretation history: tx_relation history_rel
proof unfold_locales
  show "history_rel s s" for s
    using list_all2_evolves_refl by (auto simp: history_rel_def)
  show "history_rel s u" if "history_rel s t" "history_rel t u" for s t u
    using that by (rule history_trans)
qed

lemma history_growsI:
  assumes "rel_identity ` set (relationships s) \<subseteq> rel_identity ` set (relationships s')"
    "attempt_identity ` set (attempts s) \<subseteq> attempt_identity ` set (attempts s')"
    "requests s' = requests s @ rs" "events s' = events s @ vs" "jobs s' = jobs s @ js"
    "work_items s' = work_items s @ ws"
  shows "history_rel s s'"
  using assms by (auto simp: history_rel_def intro: list_all2_evolves_refl)

lemma history_insert_request: "keeps history_rel (insert_request r)"
  by (rule keepsI, simp add: insert_request_def split: if_splits,
      rule history_growsI [where rs = "[r]" and vs = "[]" and js = "[]" and ws = "[]"]) auto

lemma history_insert_job: "keeps history_rel (insert_job j)"
  by (rule keepsI, simp add: insert_job_def split: if_splits,
      rule history_growsI [where rs = "[]" and vs = "[]" and js = "[j]" and ws = "[]"]) auto

lemma history_insert_event: "keeps history_rel (insert_event v)"
  by (rule keepsI, simp add: insert_event_def split: if_splits,
      rule history_growsI [where rs = "[]" and vs = "[v]" and js = "[]" and ws = "[]"]) auto

lemma history_other_tables:
  assumes "rel_identity ` set (relationships s) \<subseteq> rel_identity ` set (relationships s')"
    "attempt_identity ` set (attempts s) \<subseteq> attempt_identity ` set (attempts s')"
    "requests s' = requests s" "events s' = events s" "jobs s' = jobs s"
    "work_items s' = work_items s"
  shows "history_rel s s'"
  by (rule history_growsI [where rs = "[]" and vs = "[]" and js = "[]" and ws = "[]"])
     (simp_all add: assms)

lemma history_insert_relationship: "keeps history_rel (insert_relationship_or_nothing x)"
  by (rule keepsI, rule history_other_tables)
     (auto simp: insert_relationship_or_nothing_def split: if_splits)

lemma history_upsert_relationship:
  assumes "\<And>y. rel_identity (g y) = rel_identity y"
  shows "keeps history_rel (insert_relationship_or_update x g)"
  by (rule keepsI, rule history_other_tables)
     (auto simp: insert_relationship_or_update_def image_update_where [of rel_identity g, OF assms]
       simp del: image_subset_iff split: if_splits)

lemma history_insert_attempt: "keeps history_rel (insert_attempt a)"
  by (rule keepsI, rule history_other_tables) (auto simp: insert_attempt_def split: if_splits)

lemma history_insert_work: "keeps history_rel (insert_work_or_ignore w)"
proof (rule keepsI)
  fix s u s' assume "insert_work_or_ignore w s = Inr (u, s')"
  then have "s' = s \<or> s' = s\<lparr>work_items := work_items s @ [w]\<rparr>"
    by (simp add: insert_work_or_ignore_def split: if_splits)
  then show "history_rel s s'"
  proof
    assume "s' = s\<lparr>work_items := work_items s @ [w]\<rparr>"
    then show ?thesis
      by (intro history_growsI [where rs = "[]" and vs = "[]" and js = "[]" and ws = "[w]"]) simp_all
  qed (simp add: history_other_tables)
qed

lemmas history_insert = history_insert_request history_insert_job history_insert_event
  history_insert_relationship history_upsert_relationship history_insert_attempt history_insert_work

lemma job_update_evolves:
  assumes "job_update_ok j j'" "j_id j' = j_id j" "j_request_id j' = j_request_id j"
    "j_report_type j' = j_report_type j" "j_accepted_contract j' = j_accepted_contract j"
    "j_created_at j' = j_created_at j" "j_portfolio_scope j' = j_portfolio_scope j"
  shows "job_evolves j j'"
  using assms unfolding job_update_ok_def report_custody_immutable_def job_evolves_def by auto

text \<open>The columns an \<open>UPDATE\<close> of a job row leaves alone.\<close>

definition job_frame :: "(job_row \<Rightarrow> job_row) \<Rightarrow> bool" where
  "job_frame f \<longleftrightarrow> (\<forall>j. j_id (f j) = j_id j \<and> j_request_id (f j) = j_request_id j
     \<and> j_report_type (f j) = j_report_type j \<and> j_accepted_contract (f j) = j_accepted_contract j
     \<and> j_created_at (f j) = j_created_at j \<and> j_portfolio_scope (f j) = j_portfolio_scope j)"

lemma history_update_job:
  assumes "job_frame f"
  shows "keeps history_rel (update_job P f)"
proof (rule keepsI)
  fix s n s' assume "update_job P f s = Inr (n, s')"
  then have s': "s' = s\<lparr>jobs := update_where P f (jobs s)\<rparr>"
    and ok: "\<And>j. j \<in> set (jobs s) \<Longrightarrow> P j \<Longrightarrow> job_update_ok j (f j)"
    by (auto simp: update_job_def split: if_splits)
  have "list_all2 job_evolves js (update_where P f js)"
    if "\<And>j. j \<in> set js \<Longrightarrow> P j \<Longrightarrow> job_update_ok j (f j)" for js
    using that assms by (induction js) (auto intro!: job_update_evolves simp: job_frame_def)
  then show "history_rel s s'" using ok s' by (auto simp: history_rel_def)
qed

lemma history_update_work:
  assumes "\<And>w. work_item_id (f w) = work_item_id w" "\<And>w. wi_report_job_id (f w) = wi_report_job_id w"
  shows "keeps history_rel (update_work P f)"
  by (rule keepsI)
     (auto simp: update_work_def history_rel_def map_update_where assms intro: list_all2_evolves_refl)

lemma history_update_attempt:
  assumes "\<And>a. attempt_identity (f a) = attempt_identity a"
  shows "keeps history_rel (update_attempt P f)"
  by (rule keepsI, rule history_other_tables)
     (auto simp: update_attempt_def image_update_where [of attempt_identity f, OF assms]
       simp del: image_subset_iff)

lemmas history_statements = history_insert history_update_job history_update_work
  history_update_attempt

text \<open>What a row of one state is in every later one.\<close>

lemma history_relationship:
  assumes "history_rel s s'" "x \<in> set (relationships s)"
  shows "\<exists>y \<in> set (relationships s'). rel_identity y = rel_identity x"
proof -
  have "rel_identity ` set (relationships s) \<subseteq> rel_identity ` set (relationships s')"
    using assms(1) by (simp only: history_rel_def)
  then have "rel_identity x \<in> rel_identity ` set (relationships s')" using assms(2) by blast
  then show ?thesis by force
qed

lemma history_find_request:
  assumes "history_rel s s'" "find_request rid s = Some r"
  shows "find_request rid s' = Some r"
proof -
  obtain rs where "requests s' = requests s @ rs" using assms(1) unfolding history_rel_def by blast
  then show ?thesis using assms(2) by (simp add: find_request_def fetch_append_Some)
qed

lemma evolves_fetch:
  assumes "list_all2 job_evolves js (take (length js) js')" "fetch (\<lambda>j. j_id j = jid) js = Some j"
  shows "\<exists>j'. fetch (\<lambda>j. j_id j = jid) js' = Some j' \<and> job_evolves j j'"
  using assms
proof (induction js arbitrary: js')
  case (Cons x js)
  then obtain y ys where js': "js' = y # ys" and xy: "job_evolves x y"
    and rest: "list_all2 job_evolves js (take (length js) ys)"
    by (cases js') auto
  show ?case using Cons.IH [OF rest] Cons.prems(2) xy by (auto simp: js' job_evolves_def)
qed simp

lemma history_find_job:
  assumes "history_rel s s'" "find_job jid s = Some j"
  shows "\<exists>j'. find_job jid s' = Some j' \<and> job_evolves j j'"
proof -
  have "list_all2 job_evolves (jobs s) (take (length (jobs s)) (jobs s'))"
    using assms(1) by (simp add: history_rel_def)
  then show ?thesis using evolves_fetch assms(2) unfolding find_job_def by blast
qed

lemma schema_request_of_job:
  assumes "schema_inv s" "find_job jid s = Some j"
  shows "\<exists>r. find_request (j_request_id j) s = Some r"
proof -
  have "j_request_id j \<in> r_id ` set (requests s)"
    using assms find_job_SomeD [OF assms(2)] by (auto simp: schema_inv_def jobs_ok_def)
  then have "find_request (j_request_id j) s \<noteq> None" by (auto simp: find_request_def)
  then show ?thesis by blast
qed

lemma schema_job_of_work:
  assumes "schema_inv s" "w \<in> set (work_items s)"
  shows "\<exists>j. find_job (wi_report_job_id w) s = Some j"
proof -
  have "wi_report_job_id w \<in> j_id ` set (jobs s)"
    using assms by (auto simp: schema_inv_def work_ok_def job_ids_def)
  then have "find_job (wi_report_job_id w) s \<noteq> None" by (auto simp: find_job_def)
  then show ?thesis by blast
qed

section \<open>Both at once\<close>

text \<open>What every transaction of the ledger keeps: the constraints and the history.\<close>

definition ledger_rel :: "ledger \<Rightarrow> ledger \<Rightarrow> bool" where
  "ledger_rel s s' \<longleftrightarrow> schema_rel s s' \<and> history_rel s s'"

interpretation led: tx_relation ledger_rel
  by unfold_locales (auto simp: ledger_rel_def schema.R_refl history.R_refl
      intro: schema.R_trans history.R_trans)

lemma keeps_ledger: "keeps schema_rel m \<Longrightarrow> keeps history_rel m \<Longrightarrow> keeps ledger_rel m"
  by (auto simp: keeps_def ledger_rel_def)

definition work_frame :: "(work_item \<Rightarrow> work_item) \<Rightarrow> bool" where
  "work_frame f \<longleftrightarrow> (\<forall>w. work_item_id (f w) = work_item_id w \<and> wi_report_job_id (f w) = wi_report_job_id w)"

definition attempt_frame :: "(rerender_row \<Rightarrow> rerender_row) \<Rightarrow> bool" where
  "attempt_frame f \<longleftrightarrow> (\<forall>a. rr_id (f a) = rr_id a \<and> rr_job_id (f a) = rr_job_id a \<and> rr_key (f a) = rr_key a)"

definition relationship_frame :: "(relationship_row \<Rightarrow> relationship_row) \<Rightarrow> bool" where
  "relationship_frame f \<longleftrightarrow> (\<forall>x. rel_id (f x) = rel_id x \<and> rel_source (f x) = rel_source x
     \<and> rel_derived (f x) = rel_derived x \<and> rel_type (f x) = rel_type x)"

lemmas frames = unverifying_def job_frame_def work_frame_def attempt_frame_def relationship_frame_def

lemma ledger_inserts [keeps_intros]:
  "keeps ledger_rel (insert_event v)" "keeps ledger_rel (insert_relationship_or_nothing x)"
  "keeps ledger_rel (insert_attempt a)" "keeps ledger_rel (insert_work_or_ignore w)"
  by (intro keeps_ledger schema_statements history_insert)+

lemma ledger_insert_request_job [keeps_intros]:
  "j_request_id j = r_id r \<Longrightarrow> keeps ledger_rel (tx_bind (insert_request r) (\<lambda>_. insert_job j))"
  by (intro keeps_ledger schema_insert_request_job history.keeps_bind history_insert)

lemma ledger_update_job [keeps_intros]: "job_frame f \<Longrightarrow> unverifying f \<Longrightarrow> keeps ledger_rel (update_job P f)"
  by (intro keeps_ledger schema_update_job history_update_job) (simp_all add: job_frame_def)

lemma ledger_update_work [keeps_intros]: "work_frame f \<Longrightarrow> keeps ledger_rel (update_work P f)"
  by (intro keeps_ledger schema_update_work history_update_work) (simp_all add: work_frame_def)

lemma ledger_update_attempt [keeps_intros]: "attempt_frame f \<Longrightarrow> keeps ledger_rel (update_attempt P f)"
  by (intro keeps_ledger schema_update_attempt history_update_attempt)
     (simp_all add: attempt_frame_def attempt_identity_def)

lemma ledger_upsert_relationship [keeps_intros]:
  "relationship_frame f \<Longrightarrow> keeps ledger_rel (insert_relationship_or_update x f)"
  by (intro keeps_ledger schema_upsert_relationship history_upsert_relationship)
     (simp_all add: relationship_frame_def rel_identity_def)

lemma keeps_json [keeps_intros]:
  assumes "keeps ledger_rel a" "\<And>x. keeps ledger_rel (b x)" "\<And>x. keeps ledger_rel (c x)"
    "\<And>x. keeps ledger_rel (d x)" "\<And>x. keeps ledger_rel (f x)" "\<And>x. keeps ledger_rel (g x)"
    "\<And>x. keeps ledger_rel (h x)"
  shows "keeps ledger_rel (case v of JNull \<Rightarrow> a | JBool x \<Rightarrow> b x | JInt x \<Rightarrow> c x | JFloat x \<Rightarrow> d x
     | JStr x \<Rightarrow> f x | JList x \<Rightarrow> g x | JObj x \<Rightarrow> h x)"
  using assms by (cases v) simp_all

lemmas ledger_rules = led.keeps_rules keeps_intros

end
