(* ===== verification/Ledger_Samples.thy ===== *)
theory Ledger_Samples
  imports Ledger_State
begin

text \<open>
  Rows and environments the witnesses run on: one accepted request, its job with and without
  the custody policy, its work item under a lease, a clock that stands still and distinct
  identifiers for distinct call paths.
\<close>

definition sample_env :: env where
  "sample_env = \<lparr>env_clock = (\<lambda>_. 5000000), env_uuid = (\<lambda>p. map (\<lambda>n. char_of (97 + n)) p),
     env_randbelow = (\<lambda>_. 4), env_sha256 = (\<lambda>_. replicate 64 CHR ''a''),
     env_bindings = None, env_work_lease = None\<rparr>"

definition sample_bindings :: custody_bindings where
  "sample_bindings = \<lparr>cb_require_readiness = Inr (), cb_admit = (\<lambda>_ _ _. Inr True),
     cb_authorize = (\<lambda>_ _ _ _. Inr ()), cb_verify_final_custody = (\<lambda>_. Inr ())\<rparr>"

definition sample_custody_env :: env where
  "sample_custody_env = sample_env\<lparr>env_bindings := Some sample_bindings\<rparr>"

definition sample_request :: request_row where
  "sample_request = \<lparr>r_id = ''rrq_1'', r_report_type = ''portfolio_review'', r_portfolio_scope = [],
     r_output_formats = [''pdf''], r_as_of_date = 737000, r_reporting_currency = None, r_options = [],
     r_trigger_type = ''manual'', r_triggered_by = ''advisor'', r_caller_application = ''gateway'',
     r_tenant_id = ''t1'', r_region = ''sg'', r_booking_center_code = None, r_role = None,
     r_idempotency_key = ''k1'', r_request_hash = ''h1'', r_correlation_id = ''corr'',
     r_trace_id = ''trace'', r_created_at = Zulu 1000000\<rparr>"

definition sample_job :: job_row where
  "sample_job = \<lparr>j_id = ''rjb_1'', j_request_id = ''rrq_1'', j_report_type = ''portfolio_review'',
     j_portfolio_scope = [], j_status = Data_ready, j_failure_category = None,
     j_failure_message = None, j_current_step = ''data_ready'', j_retry_eligible = False,
     j_cancel_requested = False, j_created_at = Zulu 1000000, j_updated_at = Zulu 1000000,
     j_started_at = None, j_completed_at = None, j_cancelled_at = None, j_render_job_id = None,
     j_render_output_format = None, j_render_template_id = Some ''tmpl'',
     j_render_template_version = Some ''v2'', j_render_template_publication = None,
     j_render_artifact_sha256 = None, j_render_fingerprint = None, j_render_runtime_engine = None,
     j_render_runtime_engine_version = None, j_render_duration_ms = None,
     j_archive_request_id = None, j_archive_document_id = None, j_archive_completed_at = None,
     j_accepted_contract = None, j_custody_policy = None, j_offer_body = None,
     j_offer_sha256 = None, j_offer_size = None, j_offer_version = None, j_offer_generation = 0,
     j_custody_state = None, j_custody_epoch = 0, j_custody_initial_count = 0,
     j_custody_dispatch_count = 0, j_custody_poll_count = 0, j_custody_window_started_at = None,
     j_custody_next_attempt_at = None, j_custody_reason = None, j_custody_verification = None\<rparr>"

definition sample_custody_job :: job_row where
  "sample_custody_job = sample_job\<lparr>j_custody_policy := Some REQUIRED_POLICY\<rparr>"

definition sample_work :: work_item where
  "sample_work = \<lparr>work_item_id = ''wi_1'', wi_report_job_id = ''rjb_1'', wi_status = Leased,
     attempt_count = 1, available_at = Zulu 1000000, lease_owner = Some ''worker'',
     lease_token = Some ''tok'', lease_acquired_at = Some (Zulu 2000000),
     lease_expires_at = Some (Zulu 9000000), last_error_category = None, last_error_summary = None,
     wi_created_at = Zulu 1000000, wi_updated_at = Zulu 2000000, wi_completed_at = None\<rparr>"

definition sample_ledger :: "job_row \<Rightarrow> ledger" where
  "sample_ledger j = \<lparr>requests = [sample_request], jobs = [j], events = [], relationships = [],
     attempts = [], work_items = [sample_work]\<rparr>"

lemmas samples = sample_env_def sample_bindings_def sample_custody_env_def sample_request_def
  sample_job_def sample_custody_job_def sample_work_def sample_ledger_def

lemma schema_inv_sample:
  assumes "j_id j = ''rjb_1''" "j_request_id j = ''rrq_1''" "custody_checks j" "custody_scoped j"
  shows "schema_inv (sample_ledger j)"
  using assms by (simp add: schema_inv_def table_oks samples)

end
