(* ===== verification/Custody.thy ===== *)
theory Custody
  imports Ledger_Samples Json_Text
begin

text \<open>
  Status events and the retained-render-offer custody of a job:
  \<open>ReportJobLedger._append_status_event\<close> and the whole of
  \<open>src/src/app/reporting_jobs/custody_policy.py\<close> and
  \<open>src/src/app/reporting_jobs/custody_recovery.py\<close> as the SQLite ledger runs them. Every method
  that opens a connection is a transaction. Row locks and \<open>BEGIN IMMEDIATE\<close> are the isolation a
  transaction has here; \<open>clock\<close> returns the instant it is given.

  \<open>confirm_final\<close> awaits an outside verifier between two transactions, which are modelled
  separately, so that other transactions can run between them.
\<close>

section \<open>Status events\<close>

definition append_status_event ::
    "env \<Rightarrow> string \<Rightarrow> job_status option \<Rightarrow> job_status \<Rightarrow> string \<Rightarrow> string option \<Rightarrow> jobj option
     \<Rightarrow> string option \<Rightarrow> string \<Rightarrow> string \<Rightarrow> string \<Rightarrow> dt \<Rightarrow> unit ledger_tx" where
  "append_status_event e job_id from_status to_status event_type message event_payload
       event_idempotency_key actor correlation_id trace_id created_at =
     tx_bind (tx_lift (build_report_status_event_contract event_type from_status to_status
                event_payload event_idempotency_key)) (\<lambda>contract.
     insert_event \<lparr>
       ev_id = ''rse_'' @ uuid4_hex e 0, ev_job_id = job_id, ev_from = from_status,
       ev_to = to_status, ev_type = event_type,
       ev_schema_version = ec_schema_version contract, ev_family = ec_event_family contract,
       ev_payload = ec_event_payload contract, ev_key = ec_event_idempotency_key contract,
       ev_message = message, ev_actor = actor, ev_created_at = dt_to_text created_at,
       ev_correlation_id = correlation_id, ev_trace_id = trace_id\<rparr>)"

section \<open>Policy\<close>

definition MAX_RETAINED_BYTES :: int where "MAX_RETAINED_BYTES = 134217728"
definition MAX_TENANT_BYTES :: int where "MAX_TENANT_BYTES = 33554432"
definition RECOVERY_DELAYS :: "int list" where "RECOVERY_DELAYS = [60, 300, 900]"

record custody_fence =
  cl_work_item_id :: string
  cl_token :: "string option"
  cl_epoch :: int

abbreviation custody_error :: "string \<Rightarrow> err" where
  "custody_error \<equiv> CustodyRecoveryError"

definition encode_render_offer :: "jobj \<Rightarrow> string res" where
  "encode_render_offer payload =
     (let body = compact_json_utf8 (JObj payload) in
      if \<not> (0 < length body \<and> int (length body) \<le> MAX_OFFER_BYTES)
      then Inl (custody_error ''render_offer_size_exceeded'') else Inr body)"

definition offer_digest :: "env \<Rightarrow> string \<Rightarrow> string" where
  "offer_digest e body = env_sha256 e body"

definition custody_protected :: "job_row \<Rightarrow> bool" where
  "custody_protected j \<longleftrightarrow>
     (if j_custody_policy j \<noteq> Some REQUIRED_POLICY \<or> j_custody_state j = Some Verified then False
      else truthy (j_offer_sha256 j) \<or> truthy (j_render_job_id j) \<or> truthy (j_archive_request_id j)
           \<or> j_custody_initial_count j \<noteq> 0 \<or> j_status j \<in> {Rendering, Completed, Archiving})"

definition requires_work_item :: "bool \<Rightarrow> string option \<Rightarrow> bool" where
  "requires_work_item enqueue custody_policy \<longleftrightarrow> enqueue \<or> custody_policy \<noteq> None"

section \<open>Recovery\<close>

text \<open>\<open>execute\<close> raises when an \<open>UPDATE\<close> does not touch exactly one row.\<close>

definition execute :: "nat ledger_tx \<Rightarrow> unit ledger_tx" where
  "execute m = tx_bind m (\<lambda>n. tx_require (n = 1) (custody_error ''custody_stale_write''))"

definition authorize :: "env \<Rightarrow> string \<Rightarrow> string \<Rightarrow> string \<Rightarrow> string \<Rightarrow> unit res" where
  "authorize e operation job_id tenant_id region =
     (case env_bindings e of
        None \<Rightarrow> Inl (custody_error ''custody_authority_unavailable'')
      | Some b \<Rightarrow> bindE (cb_require_readiness b) (\<lambda>_. cb_authorize b operation job_id tenant_id region))"

definition acceptance_policy :: "env \<Rightarrow> string \<Rightarrow> string \<Rightarrow> string \<Rightarrow> string option res" where
  "acceptance_policy e report_type tenant_id region =
     (case env_bindings e of
        None \<Rightarrow> Inr None
      | Some b \<Rightarrow> bindE (cb_require_readiness b) (\<lambda>_.
                  bindE (cb_admit b report_type tenant_id region) (\<lambda>admitted.
                  Inr (if admitted then Some REQUIRED_POLICY else None))))"

text \<open>The job row joined with its request row.\<close>

definition metadata :: "string \<Rightarrow> (job_row \<times> request_row) ledger_tx" where
  "metadata job_id =
     tx_bind (tx_get (find_job job_id)) (\<lambda>j.
     case j of None \<Rightarrow> tx_raise (custody_error ''custody_job_not_found'') | Some j \<Rightarrow>
     tx_bind (tx_get (find_request (j_request_id j))) (\<lambda>r.
     case r of None \<Rightarrow> tx_raise (custody_error ''custody_job_not_found'') | Some r \<Rightarrow>
     tx_return (j, r)))"

definition lock_pair :: "string \<Rightarrow> (work_item option \<times> job_row \<times> request_row) ledger_tx" where
  "lock_pair job_id =
     tx_bind (tx_get (find_work_of_job job_id)) (\<lambda>work.
     tx_bind (metadata job_id) (\<lambda>(j, r).
     if j_custody_policy j = Some REQUIRED_POLICY \<and> work = None
     then tx_raise (custody_error ''custody_work_missing'')
     else tx_return (work, j, r)))"

definition lease :: "work_item option \<Rightarrow> job_row \<Rightarrow> custody_fence \<Rightarrow> dt \<Rightarrow> unit res" where
  "lease work j fence now =
     (case work of None \<Rightarrow> Inl (custody_error ''custody_stale_lease'') | Some w \<Rightarrow>
      if work_item_id w \<noteq> cl_work_item_id fence \<or> wi_status w \<noteq> Leased
         \<or> lease_token w \<noteq> cl_token fence \<or> j_custody_epoch j \<noteq> cl_epoch fence
         \<or> (case lease_expires_at w of None \<Rightarrow> now | Some t \<Rightarrow> stamp_dt t) \<le> now
      then Inl (custody_error ''custody_stale_lease'') else Inr ())"

definition custody_event :: "env \<Rightarrow> job_row \<Rightarrow> request_row \<Rightarrow> string \<Rightarrow> unit ledger_tx" where
  "custody_event e j r reason =
     append_status_event (sub_env 1 e) (j_id j) (Some (j_status j)) (j_status j)
       ''job_custody_parked'' (Some (take 240 reason))
       (Some [(''reason_code'', JStr (take 80 reason))]) None ''report-job-worker''
       (r_correlation_id r) (r_trace_id r) (utc_now e 0)"

definition park_work :: "string \<Rightarrow> stamp \<Rightarrow> work_item \<Rightarrow> work_item" where
  "park_work reason now w = w\<lparr>wi_status := Work_failed, lease_token := None, lease_owner := None,
     lease_acquired_at := None, lease_expires_at := None, last_error_category := Some (take 80 reason),
     last_error_summary := Some ''Custody unresolved; automatic work parked.'', wi_updated_at := now\<rparr>"

definition park_job :: "string \<Rightarrow> job_row \<Rightarrow> job_row" where
  "park_job reason j = j\<lparr>j_custody_state := Some Blocked, j_custody_reason := Some (take 80 reason),
     j_custody_epoch := j_custody_epoch j + 1\<rparr>"

definition park :: "env \<Rightarrow> work_item option \<Rightarrow> job_row \<Rightarrow> request_row \<Rightarrow> string \<Rightarrow> unit ledger_tx" where
  "park e work j r reason =
     (if j_custody_state j = Some Verified then tx_return ()
      else case work of None \<Rightarrow> tx_raise (custody_error ''custody_work_missing'') | Some w \<Rightarrow>
        tx_bind (execute (update_work
            (\<lambda>x. work_item_id x = work_item_id w \<and> wi_status x = wi_status w)
            (park_work reason (custody_timestamp (utc_now e 0))))) (\<lambda>_.
        tx_bind (execute (update_job
            (\<lambda>x. j_id x = j_id j \<and> j_custody_epoch x = j_custody_epoch j) (park_job reason))) (\<lambda>_.
        custody_event (sub_env 1 e) j r reason)))"

definition guard_transition :: "env \<Rightarrow> string \<Rightarrow> job_status \<Rightarrow> bool ledger_tx" where
  "guard_transition e job_id to_status =
     tx_bind (tx_get (find_job job_id)) (\<lambda>found.
     case found of None \<Rightarrow> tx_return False | Some f \<Rightarrow>
     if j_custody_policy f = None then tx_return False
     else
       tx_bind (lock_pair job_id) (\<lambda>(work, j, r).
       if j_custody_policy j \<noteq> Some REQUIRED_POLICY then tx_return False
       else
         tx_bind (case env_work_lease e of
            Some (wid, token) \<Rightarrow> tx_lift (lease work j
              \<lparr>cl_work_item_id = wid, cl_token = Some token, cl_epoch = j_custody_epoch j\<rparr> (utc_now e 0))
          | None \<Rightarrow> if to_status \<in> {Collecting_data, Data_ready}
                    then tx_raise (custody_error ''custody_worker_lease_required'')
                    else tx_return ()) (\<lambda>_.
         if j_custody_state j = Some Verified then tx_return (to_status \<noteq> Archived)
         else if custody_protected j \<and> to_status \<in> {Failed, Cancelled, Archived}
         then tx_bind (park (sub_env 1 e) work j r ''custody_transition_blocked'') (\<lambda>_. tx_return True)
         else if to_status \<in> {Rendering, Completed, Archiving}
         then tx_raise (custody_error ''custody_fenced_transition_required'')
         else tx_return False)))"

definition scheduled_at :: "string \<Rightarrow> dt \<Rightarrow> dt ledger_tx" where
  "scheduled_at work_id proposed =
     tx_bind (tx_get (find_work work_id)) (\<lambda>selected.
     case selected of None \<Rightarrow> tx_raise (PyTypeError ''NoneType'') | Some w \<Rightarrow>
     tx_bind (metadata (wi_report_job_id w)) (\<lambda>(j, r).
     tx_return (case j_custody_next_attempt_at j of
         None \<Rightarrow> proposed
       | Some due \<Rightarrow> if j_custody_policy j = Some REQUIRED_POLICY
                     then max proposed (stamp_dt due) else proposed)))"

definition settle_work :: "work_item \<Rightarrow> work_item" where
  "settle_work w = w\<lparr>wi_status := Work_completed, lease_owner := None, lease_token := None,
     lease_acquired_at := None, lease_expires_at := None\<rparr>"

definition protect_work :: "env \<Rightarrow> string \<Rightarrow> bool \<Rightarrow> bool ledger_tx" where
  "protect_work e work_id completing =
     tx_bind (tx_get (find_work work_id)) (\<lambda>selected.
     case selected of None \<Rightarrow> tx_raise (custody_error ''custody_work_missing'') | Some w0 \<Rightarrow>
     tx_bind (lock_pair (wi_report_job_id w0)) (\<lambda>(work, j, r).
     if j_custody_policy j = Some REQUIRED_POLICY \<and> j_custody_state j = Some Verified
     then tx_bind (execute (update_work (\<lambda>x. work_item_id x = work_id) settle_work)) (\<lambda>_. tx_return True)
     else if custody_protected j
     then tx_bind (park e work j r
            (if completing then ''custody_completion_blocked'' else ''custody_retry_exhausted''))
            (\<lambda>_. tx_return True)
     else tx_return False))"

definition validate_work :: "string \<Rightarrow> string \<Rightarrow> dt \<Rightarrow> unit ledger_tx" where
  "validate_work work_id token now =
     tx_bind (tx_get (find_work work_id)) (\<lambda>found.
     case found of None \<Rightarrow> tx_return () | Some w \<Rightarrow>
     tx_bind (lock_pair (wi_report_job_id w)) (\<lambda>(work, j, r).
     if j_custody_policy j = Some REQUIRED_POLICY
     then tx_lift (lease work j
            \<lparr>cl_work_item_id = work_id, cl_token = Some token, cl_epoch = j_custody_epoch j\<rparr> now)
     else tx_return ()))"

definition settle_verified_work :: "env \<Rightarrow> string \<Rightarrow> work_item option ledger_tx" where
  "settle_verified_work e work_id =
     tx_bind (tx_get (\<lambda>s. Option.bind (find_work work_id s) (\<lambda>w. find_job (wi_report_job_id w) s))) (\<lambda>row.
     if (case row of None \<Rightarrow> True | Some j \<Rightarrow> j_custody_state j \<noteq> Some Verified)
     then tx_return None
     else tx_bind (protect_work e work_id False) (\<lambda>_. tx_get (find_work work_id)))"

definition bump_epoch :: "job_row \<Rightarrow> job_row" where
  "bump_epoch j = j\<lparr>j_custody_epoch := j_custody_epoch j + 1\<rparr>"

definition claimed :: "env \<Rightarrow> work_item \<Rightarrow> int \<Rightarrow> unit ledger_tx" where
  "claimed e work lease_seconds =
     tx_bind (lock_pair (wi_report_job_id work)) (\<lambda>(locked_work, j, r).
     if j_custody_policy j = Some REQUIRED_POLICY
     then if lease_seconds < 120 then tx_raise (custody_error ''custody_lease_budget_invalid'')
          else tx_bind (tx_lift (lease locked_work j
                 \<lparr>cl_work_item_id = work_item_id work, cl_token = lease_token work,
                  cl_epoch = j_custody_epoch j\<rparr> (utc_now e 0))) (\<lambda>_.
               execute (update_job (\<lambda>x. j_id x = wi_report_job_id work) bump_epoch))
     else tx_return ())"

section \<open>Fenced ports\<close>

definition scope :: "job_row \<Rightarrow> request_row \<Rightarrow> string \<Rightarrow> string \<Rightarrow> unit res" where
  "scope j r tenant_id region =
     require (\<not> (r_tenant_id r \<noteq> tenant_id \<or> r_region r \<noteq> region
                  \<or> j_custody_policy j \<noteq> Some REQUIRED_POLICY))
       (custody_error ''custody_scope_mismatch'')"

text \<open>\<open>d.get(k)\<close> where an absent key reads as \<open>None\<close>.\<close>

definition jget :: "jobj \<Rightarrow> string \<Rightarrow> json" where
  "jget d k = (case dget d k of None \<Rightarrow> JNull | Some v \<Rightarrow> v)"

text \<open>\<open>d.get(k, {})\<close> followed by a method of dictionaries.\<close>

definition jget_dict :: "jobj \<Rightarrow> string \<Rightarrow> jobj res" where
  "jget_dict d k = (case dget d k of None \<Rightarrow> Inr [] | Some (JObj v) \<Rightarrow> Inr v
     | Some _ \<Rightarrow> Inl (PyAttributeError ''get''))"

fun unhashable :: "json \<Rightarrow> bool" where
  "unhashable (JList _) = True"
| "unhashable (JObj _) = True"
| "unhashable _ = False"

definition offer_identity :: "job_row \<Rightarrow> request_row \<Rightarrow> jobj \<Rightarrow> unit res" where
  "offer_identity j r payload =
     (let output = jget payload ''output_format'' in
      bindE (jget_dict payload ''render_context'') (\<lambda>context.
      let archive = (case dget context ''archive'' of None \<Rightarrow> JObj [] | Some v \<Rightarrow> v);
          expected = [(''report_job_id'', JStr (j_id j)), (''report_type'', JStr (j_report_type j)),
            (''render_job_id'', JStr (''rdr_'' @ j_id j @ ''_'' @
               (case output of JStr o' \<Rightarrow> o' | _ \<Rightarrow> ''''))),
            (''template_id'', jopt (j_render_template_id j)),
            (''template_version'', jopt (j_render_template_version j))] in
      bindE (require (\<not> unhashable output) (PyTypeError ''unhashable'')) (\<lambda>_.
      bindE (require (output \<in> {JStr ''pdf'', JStr ''xlsx''}
                \<and> list_all (\<lambda>(k, v). jget payload k = v) expected)
              (custody_error ''custody_offer_identity_mismatch'')) (\<lambda>_.
      case archive of JObj a \<Rightarrow>
          require (jget a ''tenant_id'' = JStr (r_tenant_id r) \<and> jget a ''region'' = JStr (r_region r))
            (custody_error ''custody_offer_scope_mismatch'')
        | _ \<Rightarrow> Inl (PyAttributeError ''get'')))))"

definition retained_bytes :: "string option \<Rightarrow> ledger \<Rightarrow> int" where
  "retained_bytes tenant s = sum_list (map (\<lambda>j.
     case (j_offer_body j, find_request (j_request_id j) s) of
       (Some body, Some r) \<Rightarrow> if tenant = None \<or> tenant = Some (r_tenant_id r) then int (length body) else 0
     | _ \<Rightarrow> 0) (jobs s))"

definition retain_offer :: "string \<Rightarrow> string \<Rightarrow> string \<Rightarrow> job_row \<Rightarrow> job_row" where
  "retain_offer body digest render_id j = j\<lparr>j_offer_body := Some body, j_offer_sha256 := Some digest,
     j_offer_size := Some (int (length body)), j_offer_version := Some ENCODING_VERSION,
     j_offer_generation := 1, j_render_job_id := Some render_id, j_status := Rendering,
     j_custody_state := Some Ready\<rparr>"

definition jrequire :: "jobj \<Rightarrow> string \<Rightarrow> json res" where
  "jrequire d k = (case dget d k of None \<Rightarrow> Inl (PyKeyError k) | Some v \<Rightarrow> Inr v)"

definition commit_offer_row ::
    "env \<Rightarrow> string \<Rightarrow> string \<Rightarrow> job_row \<Rightarrow> request_row \<Rightarrow> jobj \<Rightarrow> string \<Rightarrow> string \<Rightarrow> string \<Rightarrow> dt option
     \<Rightarrow> unit ledger_tx" where
  "commit_offer_row e job_id tenant_id j r payload body digest render_id now =
     tx_bind (tx_lift (offer_identity j r payload)) (\<lambda>_.
     tx_bind (tx_require (j_status j = Data_ready) (custody_error ''custody_offer_not_ready'')) (\<lambda>_.
     tx_bind (tx_get (retained_bytes None)) (\<lambda>total.
     tx_bind (tx_get (retained_bytes (Some tenant_id))) (\<lambda>tenant.
     tx_bind (tx_require (\<not> (total + int (length body) > MAX_RETAINED_BYTES
                 \<or> tenant + int (length body) > MAX_TENANT_BYTES))
               (custody_error ''custody_retention_quota_exceeded'')) (\<lambda>_.
     tx_bind (execute (update_job
         (\<lambda>x. j_id x = job_id \<and> j_custody_policy x = Some REQUIRED_POLICY \<and> j_offer_body x = None)
         (retain_offer body digest render_id))) (\<lambda>_.
     tx_bind (tx_lift (jrequire payload ''output_format'')) (\<lambda>fmt.
     tx_bind (tx_lift (jrequire payload ''template_id'')) (\<lambda>tmpl.
     append_status_event (sub_env 1 e) job_id (Some Data_ready) Rendering ''job_rendering''
       (Some ''Retained Render offer.'')
       (Some [(''render_output_format'', fmt), (''render_template_id'', tmpl)]) None
       ''report-job-worker'' (r_correlation_id r) (r_trace_id r)
       (case now of None \<Rightarrow> utc_now e 2 | Some t \<Rightarrow> t)))))))))"

definition commit_offer ::
    "env \<Rightarrow> string \<Rightarrow> string \<Rightarrow> string \<Rightarrow> custody_fence \<Rightarrow> jobj \<Rightarrow> dt option \<Rightarrow> string ledger_tx" where
  "commit_offer e job_id tenant_id region fence payload now =
     tx_bind (tx_lift (authorize e ''retain_offer'' job_id tenant_id region)) (\<lambda>_.
     tx_bind (tx_lift (encode_render_offer payload)) (\<lambda>body.
     let digest = offer_digest e body in
     case jget payload ''render_job_id'' of
       JStr render_id \<Rightarrow>
         if render_id = [] then tx_raise (custody_error ''custody_render_identity_missing'') else
         tx_bind (lock_pair job_id) (\<lambda>(work, j, r).
         tx_bind (tx_lift (lease work j fence (case now of None \<Rightarrow> utc_now e 0 | Some t \<Rightarrow> t))) (\<lambda>_.
         tx_bind (tx_lift (scope j r tenant_id region)) (\<lambda>_.
         if truthy (j_offer_sha256 j)
         then if j_offer_sha256 j \<noteq> Some digest \<or> j_render_job_id j \<noteq> Some render_id
              then tx_raise (custody_error ''custody_offer_conflict'')
              else tx_return digest
         else tx_bind (commit_offer_row e job_id tenant_id j r payload body digest render_id now)
                (\<lambda>_. tx_return digest))))
     | _ \<Rightarrow> tx_raise (custody_error ''custody_render_identity_missing'')))"

definition load_offer :: "env \<Rightarrow> string \<Rightarrow> string \<Rightarrow> string \<Rightarrow> string ledger_tx" where
  "load_offer e job_id tenant_id region =
     tx_bind (tx_lift (authorize e ''read_offer'' job_id tenant_id region)) (\<lambda>_.
     tx_bind (metadata job_id) (\<lambda>(j, r).
     tx_bind (tx_lift (scope j r tenant_id region)) (\<lambda>_.
     let body = (case j_offer_body j of None \<Rightarrow> [] | Some b \<Rightarrow> b) in
     if \<not> (0 < length body \<and> int (length body) \<le> MAX_OFFER_BYTES)
        \<or> j_offer_size j \<noteq> Some (int (length body)) \<or> j_offer_sha256 j \<noteq> Some (offer_digest e body)
        \<or> j_offer_version j \<noteq> Some ENCODING_VERSION \<or> j_offer_generation j \<noteq> 1
     then tx_raise (custody_error ''custody_offer_integrity_failed'')
     else tx_return body)))"

definition hours24 :: int where "hours24 = seconds 86400"

text \<open>The column and the limit of an operation, and the update that counts an attempt.\<close>

definition reserve_used :: "string \<Rightarrow> job_row \<Rightarrow> int" where
  "reserve_used operation j = (if operation = ''initial'' then j_custody_initial_count j
     else if operation = ''retry'' then j_custody_dispatch_count j else j_custody_poll_count j)"

definition reserve_limit :: "string \<Rightarrow> int" where
  "reserve_limit operation = (if operation = ''initial'' then 1 else if operation = ''retry'' then 3 else 12)"

definition reserve_count :: "string \<Rightarrow> job_row \<Rightarrow> job_row" where
  "reserve_count operation j =
     (if operation = ''initial'' then j\<lparr>j_custody_initial_count := j_custody_initial_count j + 1\<rparr>
      else if operation = ''retry'' then j\<lparr>j_custody_dispatch_count := j_custody_dispatch_count j + 1\<rparr>
      else j\<lparr>j_custody_poll_count := j_custody_poll_count j + 1\<rparr>)"

text \<open>\<open>randbelow(11)\<close> is the draw reduced to its range.\<close>

definition reserve_delay :: "env \<Rightarrow> string \<Rightarrow> job_row \<Rightarrow> int" where
  "reserve_delay e operation j =
     (let next_recovery = j_custody_dispatch_count j + (if operation = ''retry'' then 1 else 0)
      in if operation = ''poll'' then 0
         else RECOVERY_DELAYS ! nat (min next_recovery 2) + int (env_randbelow e [0] mod 11))"

definition reserve_row ::
    "env \<Rightarrow> string \<Rightarrow> string \<Rightarrow> dt \<Rightarrow> work_item option \<Rightarrow> job_row \<Rightarrow> request_row \<Rightarrow> bool ledger_tx" where
  "reserve_row e job_id operation instant work j r =
     (let window = (case j_custody_window_started_at j of None \<Rightarrow> instant | Some t \<Rightarrow> stamp_dt t);
         due = (case j_custody_next_attempt_at j of None \<Rightarrow> instant | Some t \<Rightarrow> stamp_dt t) in
     if j_custody_state j \<in> {Some Blocked, Some Refused, Some Verified} \<or> due > instant
     then tx_return False
     else if reserve_used operation j \<ge> reserve_limit operation \<or> instant \<ge> window + hours24
     then tx_bind (park (sub_env 1 e) work j r ''custody_retry_budget_exhausted'') (\<lambda>_. tx_return False)
     else tx_bind (execute (update_job
            (\<lambda>x. j_id x = job_id \<and> j_custody_epoch x = j_custody_epoch j)
            (\<lambda>x. (reserve_count operation x)\<lparr>
               j_custody_window_started_at := Some (custody_timestamp window),
               j_custody_next_attempt_at :=
                 Some (custody_timestamp (instant + seconds (reserve_delay e operation j)))\<rparr>)))
          (\<lambda>_. tx_return True))"

definition reserve ::
    "env \<Rightarrow> string \<Rightarrow> string \<Rightarrow> string \<Rightarrow> custody_fence \<Rightarrow> string \<Rightarrow> dt option \<Rightarrow> bool ledger_tx" where
  "reserve e job_id tenant_id region fence operation now =
     (if operation \<notin> {''initial'', ''retry'', ''poll''}
      then tx_raise (custody_error ''custody_operation_invalid'') else
     tx_bind (tx_lift (authorize e operation job_id tenant_id region)) (\<lambda>_.
     let instant = (case now of None \<Rightarrow> utc_now e 0 | Some t \<Rightarrow> t) in
     tx_bind (lock_pair job_id) (\<lambda>(work, j, r).
     tx_bind (tx_lift (lease work j fence instant)) (\<lambda>_.
     tx_bind (tx_lift (scope j r tenant_id region)) (\<lambda>_.
     reserve_row e job_id operation instant work j r)))))"

definition set_custody_state :: "custody_state \<Rightarrow> job_row \<Rightarrow> job_row" where
  "set_custody_state c j = j\<lparr>j_custody_state := Some c\<rparr>"

definition disposition ::
    "env \<Rightarrow> string \<Rightarrow> custody_fence \<Rightarrow> jobj \<Rightarrow> int \<Rightarrow> string \<Rightarrow> string \<Rightarrow> unit ledger_tx" where
  "disposition e job_id fence response http_status tenant_id region =
     tx_bind (tx_lift (authorize e ''record_outcome'' job_id tenant_id region)) (\<lambda>_.
     tx_bind (lock_pair job_id) (\<lambda>(work, j, r).
     tx_bind (tx_lift (lease work j fence (utc_now e 0))) (\<lambda>_.
     tx_bind (tx_lift (scope j r tenant_id region)) (\<lambda>_.
     let returned_id = jget response ''render_job_id'';
         request_id = jget response ''archive_request_id'';
         state = jget response ''archive_state'' in
     if returned_id \<noteq> JNull \<and> returned_id \<noteq> jopt (j_render_job_id j)
     then park (sub_env 1 e) work j r ''custody_identity_conflict''
     else if truthy (j_archive_request_id j) \<and> unhashable request_id
     then tx_raise (PyTypeError ''unhashable'')
     else if truthy (j_archive_request_id j) \<and> request_id \<notin> {JNull, jopt (j_archive_request_id j)}
     then park (sub_env 1 e) work j r ''custody_identity_conflict''
     else if (400 \<le> http_status \<and> http_status < 500 \<and> http_status \<noteq> 429)
             \<or> (case state of JStr t \<Rightarrow> py_startswith t ''archive_refused_'' | _ \<Rightarrow> False)
     then tx_bind (park (sub_env 1 e) work j r ''custody_refused'') (\<lambda>_.
          execute (update_job (\<lambda>x. j_id x = job_id) (set_custody_state Refused)))
     else
       tx_bind (case request_id of
           JStr rid \<Rightarrow> if rid \<noteq> [] \<and> length rid \<le> 256
             then execute (update_job (\<lambda>x. j_id x = job_id)
                    (\<lambda>x. x\<lparr>j_archive_request_id := Some rid, j_status := Archiving\<rparr>))
             else tx_return ()
         | _ \<Rightarrow> tx_return ()) (\<lambda>_.
       execute (update_job (\<lambda>x. j_id x = job_id) (set_custody_state Waiting)))))))"

definition block :: "env \<Rightarrow> string \<Rightarrow> string \<Rightarrow> string \<Rightarrow> custody_fence \<Rightarrow> unit ledger_tx" where
  "block e job_id tenant_id region fence =
     tx_bind (tx_lift (authorize e ''record_outcome'' job_id tenant_id region)) (\<lambda>_.
     tx_bind (lock_pair job_id) (\<lambda>(work, j, r).
     tx_bind (tx_lift (lease work j fence (utc_now e 0))) (\<lambda>_.
     tx_bind (tx_lift (scope j r tenant_id region)) (\<lambda>_.
     park (sub_env 1 e) work j r ''custody_owner_blocked''))))"

definition record_owner_due ::
    "env \<Rightarrow> string \<Rightarrow> string \<Rightarrow> string \<Rightarrow> custody_fence \<Rightarrow> dt \<Rightarrow> bool ledger_tx" where
  "record_owner_due e job_id tenant_id region fence due =
     tx_bind (tx_lift (authorize e ''record_owner_due'' job_id tenant_id region)) (\<lambda>_.
     let instant = utc_now e 0 in
     tx_bind (lock_pair job_id) (\<lambda>(work, j, r).
     tx_bind (tx_lift (lease work j fence instant)) (\<lambda>_.
     tx_bind (tx_lift (scope j r tenant_id region)) (\<lambda>_.
     let window = (case j_custody_window_started_at j of None \<Rightarrow> instant | Some t \<Rightarrow> stamp_dt t) in
     if due \<ge> window + hours24
     then tx_bind (park (sub_env 1 e) work j r ''custody_owner_schedule_exhausted'') (\<lambda>_. tx_return False)
     else
       let target = max due (case j_custody_next_attempt_at j of None \<Rightarrow> instant | Some t \<Rightarrow> stamp_dt t) in
       tx_bind (execute (update_job (\<lambda>x. j_id x = job_id)
           (\<lambda>x. x\<lparr>j_custody_next_attempt_at := Some (custody_timestamp target)\<rparr>))) (\<lambda>_.
       tx_return True)))))"

fun verification_field :: "json \<Rightarrow> bool" where
  "verification_field (JStr v) = (0 < length v \<and> length v \<le> 256)"
| "verification_field _ = False"

text \<open>\<open>confirm_final\<close> up to and including the verifier it awaits; the result is the identity.\<close>

definition confirm_final_verify ::
    "env \<Rightarrow> string \<Rightarrow> string \<Rightarrow> string \<Rightarrow> custody_fence \<Rightarrow> jobj \<Rightarrow> jobj ledger_tx" where
  "confirm_final_verify e job_id tenant_id region fence response =
     tx_bind (tx_lift (authorize e ''verify_final'' job_id tenant_id region)) (\<lambda>_.
     let named = map (\<lambda>key. (key, jget response key))
           [''render_job_id'', ''archive_request_id'', ''archive_document_id'', ''artifact_sha256''] in
     tx_bind (tx_require (list_all (\<lambda>(k, v). verification_field v) named)
               (custody_error ''custody_verification_identity_missing'')) (\<lambda>_.
     let identity = named @ [(''job_id'', JStr job_id), (''tenant_id'', JStr tenant_id),
           (''region'', JStr region)] in
     tx_bind (metadata job_id) (\<lambda>(j, r).
     tx_bind (tx_lift (scope j r tenant_id region)) (\<lambda>_.
     tx_bind (tx_require (\<not> (jopt (j_render_job_id j) \<noteq> jget identity ''render_job_id''
                 \<or> jopt (j_archive_request_id j) \<noteq> jget identity ''archive_request_id''))
               (custody_error ''custody_verification_identity_conflict'')) (\<lambda>_.
     let identity' = identity @ [(''offer_sha256'', jopt (j_offer_sha256 j)),
           (''offer_generation'', JInt (j_offer_generation j)), (''epoch'', JInt (cl_epoch fence))] in
     tx_bind (tx_lift (case env_bindings e of None \<Rightarrow> Inl (RuntimeError ''AssertionError'')
                | Some b \<Rightarrow> cb_verify_final_custody b identity')) (\<lambda>_.
     tx_return identity'))))))"

definition jstr :: "json \<Rightarrow> string option" where
  "jstr v = (case v of JStr t \<Rightarrow> Some t | _ \<Rightarrow> None)"

definition verify_job :: "string option \<Rightarrow> jobj \<Rightarrow> stamp \<Rightarrow> stamp \<Rightarrow> stamp \<Rightarrow> job_row \<Rightarrow> job_row" where
  "verify_job document proof t1 t2 t3 j = j\<lparr>j_custody_state := Some Verified, j_status := Archived,
     j_archive_document_id := document, j_custody_verification := Some proof,
     j_archive_completed_at := Some t1, j_completed_at := Some t2, j_updated_at := t3,
     j_current_step := ''archived''\<rparr>"

text \<open>The transaction of \<open>confirm_final\<close> that runs after the verifier returned.\<close>

definition confirm_final_commit ::
    "env \<Rightarrow> string \<Rightarrow> string \<Rightarrow> string \<Rightarrow> custody_fence \<Rightarrow> jobj \<Rightarrow> unit ledger_tx" where
  "confirm_final_commit e job_id tenant_id region fence identity =
     tx_bind (lock_pair job_id) (\<lambda>(work, j, r).
     tx_bind (tx_lift (lease work j fence (utc_now e 0))) (\<lambda>_.
     tx_bind (tx_lift (scope j r tenant_id region)) (\<lambda>_.
     tx_bind (tx_require (\<not> (jopt (j_render_job_id j) \<noteq> jget identity ''render_job_id''
                 \<or> jopt (j_archive_request_id j) \<noteq> jget identity ''archive_request_id''))
               (custody_error ''custody_verification_identity_conflict'')) (\<lambda>_.
     let proof = dset (dset (dset identity ''offer_sha256'' (jopt (j_offer_sha256 j)))
           ''offer_generation'' (JInt (j_offer_generation j))) ''epoch'' (JInt (cl_epoch fence)) in
     tx_bind (execute (update_job (\<lambda>x. j_id x = job_id)
         (verify_job (jstr (jget identity ''archive_document_id'')) proof
           (custody_timestamp (utc_now e 1)) (custody_timestamp (utc_now e 2))
           (custody_timestamp (utc_now e 3))))) (\<lambda>_.
     append_status_event (sub_env 5 e) job_id (Some (j_status j)) Archived ''job_archived''
       (Some ''Native custody independently verified.'')
       (Some [(''archive_document_id'', jget identity ''archive_document_id'')]) None
       ''report-job-worker'' (r_correlation_id r) (r_trace_id r) (utc_now e 4))))))"

text \<open>The undisturbed run, in which nothing else commits while the verifier is awaited.\<close>

definition confirm_final ::
    "env \<Rightarrow> string \<Rightarrow> string \<Rightarrow> string \<Rightarrow> custody_fence \<Rightarrow> jobj \<Rightarrow> unit ledger_tx" where
  "confirm_final e job_id tenant_id region fence response =
     tx_bind (confirm_final_verify e job_id tenant_id region fence response)
       (confirm_final_commit e job_id tenant_id region fence)"

definition resume_job :: "stamp \<Rightarrow> job_row \<Rightarrow> job_row" where
  "resume_job now j = j\<lparr>j_custody_state := Some Ready, j_custody_epoch := j_custody_epoch j + 1,
     j_custody_dispatch_count := 0, j_custody_poll_count := 0,
     j_custody_window_started_at := Some now, j_custody_next_attempt_at := Some now\<rparr>"

definition resume_work :: "stamp \<Rightarrow> work_item \<Rightarrow> work_item" where
  "resume_work now w = w\<lparr>wi_status := Retry_pending, attempt_count := 0, available_at := now\<rparr>"

definition resume ::
    "env \<Rightarrow> string \<Rightarrow> string \<Rightarrow> string \<Rightarrow> int \<Rightarrow> string \<Rightarrow> dt option \<Rightarrow> unit ledger_tx" where
  "resume e job_id tenant_id region expected_epoch expected_digest now =
     tx_bind (tx_lift (authorize e ''resume'' job_id tenant_id region)) (\<lambda>_.
     let instant = (case now of None \<Rightarrow> utc_now e 0 | Some t \<Rightarrow> t) in
     tx_bind (lock_pair job_id) (\<lambda>(work, j, r).
     tx_bind (tx_lift (scope j r tenant_id region)) (\<lambda>_.
     case work of None \<Rightarrow> tx_raise (PyTypeError ''NoneType'') | Some w \<Rightarrow>
     if wi_status w = Retry_pending \<and> j_custody_epoch j = expected_epoch + 1
        \<and> j_offer_sha256 j = Some expected_digest \<and> j_custody_state j = Some Ready
     then tx_return ()
     else if wi_status w \<noteq> Work_failed \<or> j_custody_epoch j \<noteq> expected_epoch
        \<or> j_offer_sha256 j \<noteq> Some expected_digest \<or> j_custody_state j \<noteq> Some Blocked
        \<or> j_custody_reason j \<notin> {Some ''custody_retry_budget_exhausted'', Some ''custody_retry_exhausted''}
     then tx_raise (custody_error ''custody_resume_conflict'')
     else tx_bind (execute (update_job (\<lambda>x. j_id x = job_id) (resume_job (custody_timestamp instant)))) (\<lambda>_.
          execute (update_work (\<lambda>x. work_item_id x = work_item_id w)
            (resume_work (custody_timestamp instant)))))))"

section \<open>Every custody operation keeps the constraints and the history\<close>

lemma custody_frames [simp]:
  "work_frame (park_work reason now)" "work_frame settle_work" "work_frame (resume_work now)"
  "job_frame (park_job reason)" "job_frame bump_epoch" "job_frame (retain_offer b d i)"
  "job_frame (set_custody_state c)" "job_frame (verify_job doc proof t1 t2 t3)" "job_frame (resume_job now)"
  "unverifying (park_job reason)" "unverifying bump_epoch" "unverifying (retain_offer b d i)"
  "unverifying (set_custody_state Refused)" "unverifying (set_custody_state Waiting)"
  "unverifying (resume_job now)"
  by (simp_all add: frames park_work_def settle_work_def resume_work_def park_job_def bump_epoch_def
      retain_offer_def set_custody_state_def verify_job_def resume_job_def)

lemma keeps_append_status_event [keeps_intros]:
  "keeps ledger_rel (append_status_event e j f t ty m p k a c tr n)"
  unfolding append_status_event_def by (intro ledger_rules)

lemma keeps_execute [keeps_intros]: "keeps ledger_rel m \<Longrightarrow> keeps ledger_rel (execute m)"
  unfolding execute_def by (intro ledger_rules)

lemma keeps_metadata [keeps_intros]: "keeps ledger_rel (metadata jid)"
  unfolding metadata_def by (intro ledger_rules)

lemma keeps_lock_pair [keeps_intros]: "keeps ledger_rel (lock_pair jid)"
  unfolding lock_pair_def by (intro ledger_rules keeps_intros)

lemma keeps_park [keeps_intros]: "keeps ledger_rel (park e w j r reason)"
  unfolding park_def custody_event_def by (intro ledger_rules keeps_intros custody_frames)

lemma keeps_guards [keeps_intros]:
  "keeps ledger_rel (guard_transition e jid t)" "keeps ledger_rel (scheduled_at wid p)"
  "keeps ledger_rel (protect_work e wid c)" "keeps ledger_rel (validate_work wid tok now)"
  unfolding guard_transition_def scheduled_at_def protect_work_def validate_work_def
  by (intro ledger_rules keeps_intros custody_frames)+

lemma keeps_settle [keeps_intros]:
  "keeps ledger_rel (settle_verified_work e wid)" "keeps ledger_rel (claimed e work n)"
  unfolding settle_verified_work_def claimed_def
  by (intro ledger_rules keeps_intros custody_frames)+

lemma keeps_ports [keeps_intros]:
  "keeps ledger_rel (commit_offer e jid tn rg fence payload now)"
  "keeps ledger_rel (load_offer e jid tn rg)"
  "keeps ledger_rel (disposition e jid fence resp h tn rg)"
  "keeps ledger_rel (block e jid tn rg fence)"
  "keeps ledger_rel (confirm_final_verify e jid tn rg fence resp)"
  "keeps ledger_rel (resume e jid tn rg ep d now)"
  unfolding commit_offer_def commit_offer_row_def load_offer_def disposition_def block_def
    confirm_final_verify_def resume_def
  by (intro ledger_rules keeps_intros custody_frames; simp add: frames)+

lemma keeps_reserve [keeps_intros]: "keeps ledger_rel (reserve e jid tn rg fence op now)"
  unfolding reserve_def reserve_row_def
  by (intro ledger_rules keeps_intros) (simp_all add: frames reserve_count_def)

lemma keeps_record_owner_due [keeps_intros]:
  "keeps ledger_rel (record_owner_due e jid tn rg fence due)"
  unfolding record_owner_due_def
  by (intro ledger_rules keeps_intros) (simp_all add: frames)

section \<open>What the operations do\<close>

lemma execute_Inr: "execute m s = Inr (u, s') \<longleftrightarrow> m s = Inr (1, s')"
  by (auto simp: execute_def tx_bind_eq)

lemma metadata_Inr:
  "metadata jid s = Inr ((j, r), s') \<longleftrightarrow>
     s' = s \<and> find_job jid s = Some j \<and> find_request (j_request_id j) s = Some r"
  by (auto simp: metadata_def tx_run split: option.splits)

lemma lock_pair_Inr:
  "lock_pair jid s = Inr ((w, j, r), s') \<longleftrightarrow>
     s' = s \<and> w = find_work_of_job jid s \<and> find_job jid s = Some j
     \<and> find_request (j_request_id j) s = Some r
     \<and> (j_custody_policy j = Some REQUIRED_POLICY \<longrightarrow> w \<noteq> None)"
  by (auto simp: lock_pair_def tx_bind_eq metadata_Inr split: if_splits)

definition lease_valid :: "work_item option \<Rightarrow> job_row \<Rightarrow> custody_fence \<Rightarrow> dt \<Rightarrow> bool" where
  "lease_valid work j fence now \<longleftrightarrow> (\<exists>w t. work = Some w \<and> work_item_id w = cl_work_item_id fence
     \<and> wi_status w = Leased \<and> lease_token w = cl_token fence \<and> j_custody_epoch j = cl_epoch fence
     \<and> lease_expires_at w = Some t \<and> now < stamp_dt t)"

lemma lease_Inr [simp]: "lease work j fence now = Inr u \<longleftrightarrow> lease_valid work j fence now"
  by (auto simp: lease_def lease_valid_def split: option.splits)

lemma scope_Inr [simp]:
  "scope j r tn rg = Inr u \<longleftrightarrow>
     r_tenant_id r = tn \<and> r_region r = rg \<and> j_custody_policy j = Some REQUIRED_POLICY"
  by (auto simp: scope_def)

lemma append_event_Inr:
  assumes "append_status_event e jid f t ty m p k a c tr now s = Inr (u, s')"
  obtains v where "s' = s\<lparr>events := events s @ [v]\<rparr>" "ev_job_id v = jid" "ev_from v = f" "ev_to v = t"
    "ev_type v = ty" "ev_message v = m" "ev_actor v = a" "ev_created_at v = dt_to_text now"
    "ev_correlation_id v = c" "ev_trace_id v = tr" "ev_id v = ''rse_'' @ uuid4_hex e 0"
  using assms that
  by (fastforce simp: append_status_event_def insert_event_def elim!: tx_bindE split: if_splits)

text \<open>One row of the job table written by an \<open>execute\<close>.\<close>

lemma execute_job_effect:
  assumes "schema_inv s" "find_job jid s = Some j" "P j" "\<And>x. P x \<Longrightarrow> j_id x = jid"
    and "job_frame f" "unverifying f" and run: "execute (update_job P f) s = Inr (u, s')"
  shows "s' = s\<lparr>jobs := update_where P f (jobs s)\<rparr> \<and> job_update_ok j (f j)
    \<and> find_job jid s' = Some (f j) \<and> schema_inv s'"
proof -
  have up: "update_job P f s = Inr (1, s')" using run by (simp add: execute_Inr)
  then have inv': "schema_inv s'"
    using keepsD [OF ledger_update_job [OF assms(5,6)] up] assms(1)
    by (simp add: ledger_rel_def schema_rel_def)
  have "update_job P f s =
     (if job_update_ok j (f j) then Inr (1, s\<lparr>jobs := update_where P f (jobs s)\<rparr>)
      else Inl (IntegrityError ''custody_trigger''))"
    by (rule update_job_point [OF assms(1,2)]) (fact assms(3,4))+
  with up have s': "s' = s\<lparr>jobs := update_where P f (jobs s)\<rparr>" and ok: "job_update_ok j (f j)"
    by (simp_all split: if_splits)
  have "j_id (f j) = jid" using assms(5) find_job_SomeD [OF assms(2)] by (simp add: job_frame_def)
  then have "find_job jid s' = Some (f j)"
    unfolding s' using find_job_update [OF assms(1,2), of P f jid] assms(3,4) by simp
  with s' ok inv' show ?thesis by simp
qed

text \<open>Parking: the job keeps its status and its offer, its work item fails without a lease.\<close>

lemma park_effect:
  assumes inv: "schema_inv s" and j: "find_job jid s = Some j"
    and w: "find_work_of_job jid s = Some w"
    and run: "park e (Some w) j r reason s = Inr (u, s')"
    and live: "j_custody_state j \<noteq> Some Verified"
  shows "find_job jid s' = Some (park_job reason j)
    \<and> find_work (work_item_id w) s' = Some (park_work reason (custody_timestamp (utc_now e 0)) w)
    \<and> (\<exists>v. events s' = events s @ [v] \<and> ev_job_id v = jid \<and> ev_type v = ''job_custody_parked'')"
proof -
  have jid: "j_id j = jid" using find_job_SomeD [OF j] by simp
  let ?f = "park_work reason (custody_timestamp (utc_now e 0))"
  let ?P = "\<lambda>x. work_item_id x = work_item_id w \<and> wi_status x = wi_status w"
  let ?Q = "\<lambda>x. j_id x = j_id j \<and> j_custody_epoch x = j_custody_epoch j"
  let ?t = "s\<lparr>work_items := update_where ?P ?f (work_items s)\<rparr>"
  have fw: "find_work (work_item_id w) s = Some w"
    using inv w by (simp add: find_work_iff find_work_of_job_iff)
  have up: "update_work ?P ?f s = Inr (1, ?t)"
    by (rule update_work_point [OF inv fw]) auto
  then have inv_t: "schema_inv ?t"
    using inv keepsD [OF ledger_update_work, of ?f ?P s 1 ?t] by (simp add: ledger_rel_def schema_rel_def)
  have jt: "find_job jid ?t = Some j" using j by simp
  obtain s2 where s2: "update_job ?Q (park_job reason) ?t = Inr (1, s2)"
    and ev: "custody_event (sub_env 1 e) j r reason s2 = Inr (u, s')"
    using run live up by (auto simp: park_def tx_bind_eq execute_Inr)
  have "s2 = ?t\<lparr>jobs := update_where ?Q (park_job reason) (jobs ?t)\<rparr>
    \<and> job_update_ok j (park_job reason j) \<and> find_job jid s2 = Some (park_job reason j) \<and> schema_inv s2"
    by (rule execute_job_effect [OF inv_t jt]) (use jid s2 in \<open>auto simp: execute_Inr\<close>)
  then have s2eq: "s2 = ?t\<lparr>jobs := update_where ?Q (park_job reason) (jobs ?t)\<rparr>"
    and fj: "find_job jid s2 = Some (park_job reason j)" by blast+
  have "find_work (work_item_id w) ?t = Some (?f w)"
    using find_work_update [OF inv fw, of ?P ?f "work_item_id w"] by (simp add: park_work_def)
  then have fw2: "find_work (work_item_id w) s2 = Some (?f w)" by (simp add: s2eq)
  have "events s2 = events s" by (simp add: s2eq)
  then show ?thesis
    using ev fj fw2 jid unfolding custody_event_def by (elim append_event_Inr) auto
qed

lemma ledger_rel_schema: "ledger_rel s s' \<Longrightarrow> schema_inv s \<Longrightarrow> schema_inv s'"
  by (simp add: ledger_rel_def schema_rel_def)

text \<open>Only the final confirmation verifies custody, of a job in scope.\<close>

lemma keeps_confirm_final_commit [keeps_intros]:
  "keeps ledger_rel (confirm_final_commit e jid tn rg fence identity)"
proof (rule keepsI)
  fix s u s' assume "confirm_final_commit e jid tn rg fence identity s = Inr (u, s')"
  then obtain j doc vp t1 t2 t3 frm msg p k a c tr now e' s1 where
      j: "find_job jid s = Some j" "j_custody_policy j = Some REQUIRED_POLICY"
    and ex: "execute (update_job (\<lambda>x. j_id x = jid) (verify_job doc vp t1 t2 t3)) s = Inr ((), s1)"
    and ev: "append_status_event e' jid frm Archived ''job_archived'' msg p k a c tr now s1 = Inr (u, s')"
    unfolding confirm_final_commit_def Let_def
    by (auto simp: tx_bind_eq lock_pair_Inr)
  have up: "update_job (\<lambda>x. j_id x = jid) (verify_job doc vp t1 t2 t3) s = Inr (1, s1)"
    using ex by (simp add: execute_Inr)
  have "schema_rel s s1"
  proof (cases "schema_inv s")
    case True
    show ?thesis
    proof (rule schema_update_job_run [OF _ _ up])
      show "j_custody_state x = Some Verified \<or> j_custody_policy x = Some REQUIRED_POLICY"
        if "x \<in> set (jobs s)" "j_id x = jid" for x
        using that j find_job_iff [OF True, of jid x] by auto
    qed (simp_all add: verify_job_def)
  qed (simp add: schema_rel_def)
  moreover have "history_rel s s1"
    using keepsD [OF history_update_job up] by (simp add: custody_frames)
  ultimately have "ledger_rel s s1" by (simp add: ledger_rel_def)
  then show "ledger_rel s s'"
    using keepsD [OF keeps_append_status_event ev] led.R_trans by blast
qed

lemma protected_policy: "custody_protected j \<Longrightarrow>
    j_custody_policy j = Some REQUIRED_POLICY \<and> j_custody_state j \<noteq> Some Verified"
  by (simp add: custody_protected_def split: if_splits)

lemma guard_protected:
  assumes "find_job jid s = Some j" "custody_protected j" "t \<in> {Failed, Cancelled, Archived}"
    and "guard_transition e jid t s = Inr (b, s')"
  obtains w r where "find_work_of_job jid s = Some w" "b"
    "park (sub_env 1 e) (Some w) j r ''custody_transition_blocked'' s = Inr ((), s')"
  using assms protected_policy [OF assms(2)]
  by (auto simp: guard_transition_def tx_bind_eq lock_pair_Inr split: option.splits if_splits)

section \<open>Properties\<close>

text \<open>
  (C1) A job whose custody is unresolved cannot be failed, cancelled or archived through the
  ordinary transitions: the guard reports the transition as handled, the job keeps its
  status and its retained offer and is blocked under a new epoch, and its work item fails
  without a lease, so no worker picks it up again.
\<close>

theorem custody_guard_parks:
  assumes "schema_inv s" "find_job jid s = Some j" "custody_protected j"
    and "t \<in> {Failed, Cancelled, Archived}" "guard_transition e jid t s = Inr (handled, s')"
  shows "handled \<and> (\<exists>j' w'. find_job jid s' = Some j' \<and> j_status j' = j_status j
     \<and> j_offer_body j' = j_offer_body j \<and> j_custody_state j' = Some Blocked
     \<and> j_custody_epoch j' = j_custody_epoch j + 1
     \<and> w' \<in> set (work_items s') \<and> wi_report_job_id w' = jid \<and> wi_status w' = Work_failed
     \<and> lease_token w' = None \<and> lease_expires_at w' = None)"
proof -
  obtain w r where w: "find_work_of_job jid s = Some w" and b: handled
    and p: "park (sub_env 1 e) (Some w) j r ''custody_transition_blocked'' s = Inr ((), s')"
    using assms(2-5) by (rule guard_protected)
  have live: "j_custody_state j \<noteq> Some Verified" using protected_policy [OF assms(3)] by simp
  note eff = park_effect [OF assms(1,2) w p live]
  then obtain w' where w': "find_work (work_item_id w) s' = Some w'" "wi_status w' = Work_failed"
    "lease_token w' = None" "lease_expires_at w' = None" "wi_report_job_id w' = jid"
    using find_work_of_job_SomeD [OF w] by (auto simp: park_work_def)
  then have "w' \<in> set (work_items s')"
    unfolding find_work_def by (auto dest!: fetch_SomeD)
  with w' eff b show ?thesis by (auto simp: park_job_def)
qed

theorem custody_guard_parks_witness:
  "\<exists>s'. guard_transition sample_custody_env ''rjb_1'' Cancelled
          (sample_ledger (sample_custody_job\<lparr>j_status := Rendering\<rparr>)) = Inr (True, s')
     \<and> (\<exists>j'. find_job ''rjb_1'' s' = Some j' \<and> j_status j' = Rendering \<and> j_custody_state j' = Some Blocked)"
proof -
  let ?j = "sample_custody_job\<lparr>j_status := Rendering\<rparr>"
  have inv: "schema_inv (sample_ledger ?j)"
    by (rule schema_inv_sample) (simp_all add: samples custody_checks_def custody_scoped_def REQUIRED_POLICY_def)
  have j: "find_job ''rjb_1'' (sample_ledger ?j) = Some ?j"
    by (simp add: samples find_job_def)
  have prot: "custody_protected ?j" by (simp add: samples custody_protected_def)
  have "\<not> isl (guard_transition sample_custody_env ''rjb_1'' Cancelled (sample_ledger ?j))"
    by code_simp
  then obtain b s' where run:
    "guard_transition sample_custody_env ''rjb_1'' Cancelled (sample_ledger ?j) = Inr (b, s')"
    by (metis isl_def obj_sumE surj_pair)
  show ?thesis using custody_guard_parks [OF inv j prot _ run] run by (auto simp: samples)
qed

text \<open>The custody guards on a job without the policy.\<close>

lemma legacy_guards:
  assumes inv: "schema_inv s" and w: "find_work wid s = Some w"
    and j: "find_job (wi_report_job_id w) s = Some j" and legacy: "j_custody_policy j = None"
  shows "guard_transition e (wi_report_job_id w) t s = Inr (False, s)
    \<and> validate_work wid token now s = Inr ((), s)
    \<and> protect_work e wid completing s = Inr (False, s)
    \<and> scheduled_at wid proposed s = Inr (proposed, s)"
proof -
  obtain r where r: "find_request (j_request_id j) s = Some r"
    using schema_request_of_job [OF inv j] by blast
  have md: "metadata (wi_report_job_id w) s = Inr ((j, r), s)" using j r by (simp add: metadata_Inr)
  have lp: "lock_pair (wi_report_job_id w) s = Inr ((find_work_of_job (wi_report_job_id w) s, j, r), s)"
    using j r legacy by (simp add: lock_pair_Inr)
  show ?thesis
    using w j legacy lp md
    by (auto simp: guard_transition_def validate_work_def protect_work_def scheduled_at_def tx_run
        custody_protected_def split: option.split)
qed

text \<open>
  A job accepted without the custody policy is untouched by custody: the transition guard, the
  lease check, the completion guard and the retry schedule all let it through and write nothing.
\<close>

theorem custody_legacy_transparent:
  assumes "schema_inv s" "find_work wid s = Some w" "find_job (wi_report_job_id w) s = Some j"
    and "j_custody_policy j = None"
  shows "guard_transition e (wi_report_job_id w) t s = Inr (False, s)
    \<and> validate_work wid token now s = Inr ((), s)
    \<and> protect_work e wid completing s = Inr (False, s)
    \<and> scheduled_at wid proposed s = Inr (proposed, s)"
  using assms by (rule legacy_guards)

theorem custody_legacy_transparent_witness:
  "guard_transition sample_env ''rjb_1'' Failed (sample_ledger sample_job)
     = Inr (False, sample_ledger sample_job)"
proof -
  have "schema_inv (sample_ledger sample_job)"
    by (rule schema_inv_sample) (simp_all add: samples custody_checks_def custody_scoped_def)
  from custody_legacy_transparent [OF this, of "''wi_1''" sample_work sample_job]
  show ?thesis by (simp add: find_work_def find_job_def samples)
qed

text \<open>A fence is stale when the epoch, the work item, its status or the token has moved on.\<close>

definition stale_fence :: "string \<Rightarrow> custody_fence \<Rightarrow> ledger \<Rightarrow> bool" where
  "stale_fence jid fence s \<longleftrightarrow>
     (case (find_job jid s, find_work_of_job jid s) of
        (Some j, Some w) \<Rightarrow> j_custody_epoch j \<noteq> cl_epoch fence \<or> work_item_id w \<noteq> cl_work_item_id fence
          \<or> wi_status w \<noteq> Leased \<or> lease_token w \<noteq> cl_token fence
      | _ \<Rightarrow> True)"

lemma stale_fence_invalid:
  "stale_fence jid fence s \<Longrightarrow> find_job jid s = Some j \<Longrightarrow> \<not> lease_valid (find_work_of_job jid s) j fence now"
  by (auto simp: stale_fence_def lease_valid_def)

lemma islI: "(\<And>a s'. x = Inr (a, s') \<Longrightarrow> False) \<Longrightarrow> isl x"
  by (cases x) auto

lemma fenced_raises:
  assumes "stale_fence jid fence s"
  shows "isl (tx_bind (lock_pair jid) (\<lambda>(work, j, r). tx_bind (tx_lift (lease work j fence now)) (k work j r)) s)"
proof (rule islI)
  fix a s'
  assume "tx_bind (lock_pair jid) (\<lambda>(work, j, r). tx_bind (tx_lift (lease work j fence now)) (k work j r)) s
      = Inr (a, s')"
  then obtain work j r s1 where "lock_pair jid s = Inr ((work, j, r), s1)"
    and "tx_bind (tx_lift (lease work j fence now)) (k work j r) s1 = Inr (a, s')"
    by (elim tx_bindE) (simp split: prod.splits)
  then have "find_job jid s = Some j" "lease_valid (find_work_of_job jid s) j fence now"
    by (auto simp: lock_pair_Inr elim!: tx_bindE)
  then show False using stale_fence_invalid [OF assms] by blast
qed

lemma isl_tx_lift_bind: "(\<And>a. x = Inr a \<Longrightarrow> isl (f a s)) \<Longrightarrow> isl (tx_bind (tx_lift x) f s)"
  by (cases x) (simp_all add: tx_run)

text \<open>
  (C13) Fencing: with a stale fence every custody port of a worker raises, so none of them changes
  the ledger. A worker that lost its lease, or whose job was parked or claimed again, can
  neither retain an offer, reserve an attempt, record an outcome nor confirm final custody.
\<close>

theorem custody_fencing:
  assumes "stale_fence jid fence s"
  shows "isl (commit_offer e jid tn rg fence payload now s)
    \<and> isl (reserve e jid tn rg fence operation now s)
    \<and> isl (disposition e jid fence response http tn rg s)
    \<and> isl (block e jid tn rg fence s)
    \<and> isl (record_owner_due e jid tn rg fence due s)
    \<and> isl (confirm_final_commit e jid tn rg fence identity s)"
proof (intro conjI)
  note fenced = fenced_raises [OF assms]
  show "isl (commit_offer e jid tn rg fence payload now s)"
    unfolding commit_offer_def Let_def
  proof (rule isl_tx_lift_bind)+
    fix body assume "encode_render_offer payload = Inr body"
    show "isl ((case jget payload ''render_job_id'' of
       JStr render_id \<Rightarrow>
         if render_id = [] then tx_raise (custody_error ''custody_render_identity_missing'') else
         tx_bind (lock_pair jid) (\<lambda>(work, j, r).
         tx_bind (tx_lift (lease work j fence (case now of None \<Rightarrow> utc_now e 0 | Some t \<Rightarrow> t))) (k work j r render_id))
     | _ \<Rightarrow> tx_raise (custody_error ''custody_render_identity_missing'')) s)" for k
      by (cases "jget payload ''render_job_id''") (simp_all add: tx_raise_def fenced)
  qed
  show "isl (reserve e jid tn rg fence operation now s)"
    unfolding reserve_def Let_def
    by (cases "operation \<in> {''initial'', ''retry'', ''poll''}"; simp only: if_True if_False not_True_eq_False not_False_eq_True)
       (rule isl_tx_lift_bind fenced | simp add: tx_raise_def)+
  show "isl (disposition e jid fence response http tn rg s)"
    unfolding disposition_def by (rule isl_tx_lift_bind fenced)+
  show "isl (block e jid tn rg fence s)"
    unfolding block_def by (rule isl_tx_lift_bind fenced)+
  show "isl (record_owner_due e jid tn rg fence due s)"
    unfolding record_owner_due_def Let_def by (rule isl_tx_lift_bind fenced)+
  show "isl (confirm_final_commit e jid tn rg fence identity s)"
    unfolding confirm_final_commit_def by (rule fenced)
qed

theorem custody_fencing_witness:
  "isl (block sample_custody_env ''rjb_1'' ''t1'' ''sg''
     \<lparr>cl_work_item_id = ''wi_1'', cl_token = Some ''tok'', cl_epoch = 7\<rparr> (sample_ledger sample_custody_job))"
proof -
  have "stale_fence ''rjb_1'' \<lparr>cl_work_item_id = ''wi_1'', cl_token = Some ''tok'', cl_epoch = 7\<rparr>
      (sample_ledger sample_custody_job)"
    by (simp add: stale_fence_def find_job_def find_work_of_job_def samples)
  from custody_fencing [OF this] show ?thesis by blast
qed

lemma reserve_frame:
  "job_frame (\<lambda>x. (reserve_count op x)\<lparr>j_custody_window_started_at := a, j_custody_next_attempt_at := b\<rparr>)"
  "unverifying (\<lambda>x. (reserve_count op x)\<lparr>j_custody_window_started_at := a, j_custody_next_attempt_at := b\<rparr>)"
  by (simp_all add: frames reserve_count_def)

lemma tx_lift_bindE:
  assumes "tx_bind (tx_lift x) f s = Inr r"
  obtains a where "x = Inr a" "f a s = Inr r"
  using assms by (cases x) (auto simp: tx_run)

text \<open>The opening every fenced port shares.\<close>

lemma fenced_openE:
  assumes "tx_bind (lock_pair jid) (\<lambda>(work, j, r).
     tx_bind (tx_lift (lease work j fence now)) (\<lambda>_.
     tx_bind (tx_lift (scope j r tn rg)) (k work j r))) s = Inr x"
  obtains w j r where "find_work_of_job jid s = Some w" "find_job jid s = Some j"
    "find_request (j_request_id j) s = Some r" "lease_valid (Some w) j fence now"
    "r_tenant_id r = tn" "r_region r = rg" "j_custody_policy j = Some REQUIRED_POLICY"
    "k (Some w) j r () s = Inr x"
proof -
  obtain work j r s1 where lp: "lock_pair jid s = Inr ((work, j, r), s1)"
    and rest: "tx_bind (tx_lift (lease work j fence now)) (\<lambda>_.
        tx_bind (tx_lift (scope j r tn rg)) (k work j r)) s1 = Inr x"
    using assms by (elim tx_bindE) (simp split: prod.splits)
  from rest have "lease_valid work j fence now" "r_tenant_id r = tn" "r_region r = rg"
    "j_custody_policy j = Some REQUIRED_POLICY" "k work j r () s1 = Inr x"
    by (auto elim!: tx_lift_bindE)
  moreover from this(1) obtain w where w: "work = Some w" by (auto simp: lease_valid_def)
  moreover from lp have "s1 = s" "find_work_of_job jid s = work" "find_job jid s = Some j"
    "find_request (j_request_id j) s = Some r" by (simp_all add: lock_pair_Inr)
  ultimately show ?thesis using that by simp
qed

text \<open>The three ways a reservation returns: not due, budget exhausted, counted.\<close>

lemma reserve_row_cases:
  assumes inv: "schema_inv s" and j: "find_job jid s = Some j" and w: "find_work_of_job jid s = Some w"
    and run: "reserve_row e jid op instant (Some w) j r s = Inr (granted, s')"
  shows "(\<not> granted \<and> s' = s)
    \<or> (\<not> granted \<and> find_job jid s' = Some (park_job ''custody_retry_budget_exhausted'' j))
    \<or> (granted \<and> reserve_used op j < reserve_limit op \<and> (\<exists>w. find_job jid s' = Some
        ((reserve_count op j)\<lparr>j_custody_window_started_at := w,
           j_custody_next_attempt_at := Some (custody_timestamp (instant + seconds (reserve_delay e op j)))\<rparr>)))"
proof -
  let ?window = "case j_custody_window_started_at j of None \<Rightarrow> instant | Some t \<Rightarrow> stamp_dt t"
  let ?due = "case j_custody_next_attempt_at j of None \<Rightarrow> instant | Some t \<Rightarrow> stamp_dt t"
  let ?stop = "j_custody_state j \<in> {Some Blocked, Some Refused, Some Verified} \<or> ?due > instant"
  let ?out = "reserve_used op j \<ge> reserve_limit op \<or> instant \<ge> ?window + hours24"
  let ?f = "\<lambda>x. (reserve_count op x)\<lparr>j_custody_window_started_at := Some (custody_timestamp ?window),
     j_custody_next_attempt_at := Some (custody_timestamp (instant + seconds (reserve_delay e op j)))\<rparr>"
  let ?P = "\<lambda>x. j_id x = jid \<and> j_custody_epoch x = j_custody_epoch j"
  note row = run [unfolded reserve_row_def Let_def]
  consider "?stop" | "\<not> ?stop" "?out" | "\<not> ?stop" "\<not> ?out" by blast
  then show ?thesis
  proof cases
    case 1
    then have "\<not> granted \<and> s' = s" using row by (simp only: if_True tx_return_eq prod.inject) blast
    then show ?thesis by blast
  next
    case 2
    then have "park (sub_env 1 e) (Some w) j r ''custody_retry_budget_exhausted'' s = Inr ((), s')" "\<not> granted"
      using row by (simp_all only: if_True if_False tx_bind_eq tx_return_eq prod.inject) auto
    then show ?thesis using park_effect [OF inv j w] 2(1) by blast
  next
    case 3
    then have ex: "execute (update_job ?P ?f) s = Inr ((), s')" and granted
      using row by (simp_all only: if_True if_False tx_bind_eq tx_return_eq prod.inject) auto
    have "s' = s\<lparr>jobs := update_where ?P ?f (jobs s)\<rparr> \<and> job_update_ok j (?f j)
      \<and> find_job jid s' = Some (?f j) \<and> schema_inv s'"
      by (rule execute_job_effect [OF inv j _ _ reserve_frame ex]) (use find_job_SomeD [OF j] in auto)
    with 3 \<open>granted\<close> show ?thesis by auto
  qed
qed

lemma reserve_openE:
  assumes "reserve e jid tn rg fence op now s = Inr x"
  obtains w j r where "op \<in> {''initial'', ''retry'', ''poll''}"
    "find_work_of_job jid s = Some w" "find_job jid s = Some j"
    "reserve_row e jid op (case now of None \<Rightarrow> utc_now e 0 | Some t \<Rightarrow> t) (Some w) j r s = Inr x"
proof -
  have op: "op \<in> {''initial'', ''retry'', ''poll''}"
    using assms by (auto simp: reserve_def split: if_splits)
  then show ?thesis using assms that unfolding reserve_def Let_def
    by (simp only: not_True_eq_False if_False) (elim tx_lift_bindE fenced_openE, blast)
qed

lemma reserve_delay_bounds:
  "op \<in> {''initial'', ''retry''} \<Longrightarrow> 0 \<le> j_custody_dispatch_count j \<Longrightarrow>
   60 \<le> reserve_delay e op j \<and> reserve_delay e op j \<le> 910"
proof -
  assume a: "op \<in> {''initial'', ''retry''}" "0 \<le> j_custody_dispatch_count j"
  let ?n = "nat (min (j_custody_dispatch_count j + (if op = ''retry'' then 1 else 0)) 2)"
  have "?n = 0 \<or> ?n = 1 \<or> ?n = 2" by (auto simp: min_def)
  then have "60 \<le> RECOVERY_DELAYS ! ?n \<and> RECOVERY_DELAYS ! ?n \<le> 900"
    by (elim disjE) (simp_all add: RECOVERY_DELAYS_def)
  moreover have "int (env_randbelow e [0] mod 11) \<le> 10" by simp
  moreover have "op \<noteq> ''poll''" using a by auto
  ultimately show ?thesis by (simp add: reserve_delay_def Let_def)
qed

text \<open>
  The retry budget of a retained offer. A granted reservation is counted against the limit of
  its operation (one initial dispatch, three retries, twelve polls), which it had not reached,
  and a granted dispatch puts the next attempt at least 60 and at most 910
  seconds away. A refused reservation counts nothing.
\<close>

theorem reserve_within_budget:
  assumes inv: "schema_inv s" and j: "find_job jid s = Some j"
    and run: "reserve e jid tn rg fence op now s = Inr (granted, s')"
  shows "\<exists>j'. find_job jid s' = Some j' \<and> reserve_used op j' \<le> reserve_limit op
    \<and> reserve_used op j' = reserve_used op j + (if granted then 1 else 0)
    \<and> (granted \<and> op \<noteq> ''poll'' \<longrightarrow> (\<exists>t. j_custody_next_attempt_at j' = Some t
         \<and> (case now of None \<Rightarrow> utc_now e 0 | Some n \<Rightarrow> n) + seconds 60 \<le> stamp_dt t
         \<and> stamp_dt t \<le> (case now of None \<Rightarrow> utc_now e 0 | Some n \<Rightarrow> n) + seconds 910))"
proof -
  have ck: "custody_checks j"
    using inv find_job_SomeD [OF j] by (auto simp: schema_inv_def jobs_ok_def)
  then have dc: "0 \<le> j_custody_dispatch_count j" and le: "reserve_used op j \<le> reserve_limit op"
    by (simp_all add: custody_checks_def reserve_used_def reserve_limit_def)
  obtain w r where op: "op \<in> {''initial'', ''retry'', ''poll''}"
    and w: "find_work_of_job jid s = Some w"
    and row: "reserve_row e jid op (case now of None \<Rightarrow> utc_now e 0 | Some t \<Rightarrow> t) (Some w) j r s
       = Inr (granted, s')"
    using run j by (elim reserve_openE) auto
  let ?i = "case now of None \<Rightarrow> utc_now e 0 | Some n \<Rightarrow> n"
  consider (same) "\<not> granted" "s' = s"
    | (parked) "\<not> granted" "find_job jid s' = Some (park_job ''custody_retry_budget_exhausted'' j)"
    | (counted) w where "granted" "reserve_used op j < reserve_limit op"
      "find_job jid s' = Some ((reserve_count op j)\<lparr>j_custody_window_started_at := w,
         j_custody_next_attempt_at := Some (custody_timestamp (?i + seconds (reserve_delay e op j)))\<rparr>)"
    using reserve_row_cases [OF inv j w row] by blast
  then show ?thesis
  proof cases
    case same
    then show ?thesis using j le by simp
  next
    case parked
    then show ?thesis using le by (auto simp: park_job_def reserve_used_def)
  next
    case counted
    let ?j' = "(reserve_count op j)\<lparr>j_custody_window_started_at := w,
         j_custody_next_attempt_at := Some (custody_timestamp (?i + seconds (reserve_delay e op j)))\<rparr>"
    have "op \<noteq> ''poll'' \<Longrightarrow> 60 \<le> reserve_delay e op j \<and> reserve_delay e op j \<le> 910"
      using reserve_delay_bounds [OF _ dc] op by blast
    moreover have "reserve_used op ?j' = reserve_used op j + 1"
      by (simp add: reserve_used_def reserve_count_def)
    ultimately show ?thesis using counted
      by (intro exI [of _ ?j']) (simp add: custody_timestamp_def seconds_def)
  qed
qed

theorem reserve_within_budget_witness:
  "\<exists>s' j'. reserve sample_custody_env ''rjb_1'' ''t1'' ''sg''
      \<lparr>cl_work_item_id = ''wi_1'', cl_token = Some ''tok'', cl_epoch = 0\<rparr> ''initial'' None
      (sample_ledger sample_custody_job) = Inr (True, s')
    \<and> find_job ''rjb_1'' s' = Some j' \<and> j_custody_initial_count j' = 1"
proof -
  let ?s = "sample_ledger sample_custody_job"
  let ?run = "reserve sample_custody_env ''rjb_1'' ''t1'' ''sg''
      \<lparr>cl_work_item_id = ''wi_1'', cl_token = Some ''tok'', cl_epoch = 0\<rparr> ''initial'' None ?s"
  have inv: "schema_inv ?s"
    by (rule schema_inv_sample) (simp_all add: samples custody_checks_def custody_scoped_def REQUIRED_POLICY_def)
  have j: "find_job ''rjb_1'' ?s = Some sample_custody_job" by (simp add: samples find_job_def)
  have "map_sum (\<lambda>_. ()) fst ?run = Inr True" by code_simp
  then obtain s' where run: "?run = Inr (True, s')" by (cases ?run) auto
  from reserve_within_budget [OF inv j run] run show ?thesis
    by (auto simp: reserve_used_def samples)
qed

section \<open>Retention and resumption\<close>

text \<open>What a successful commit of a new offer leaves in the job row.\<close>

lemma commit_offer_row_effect:
  assumes inv: "schema_inv s" and j: "find_job jid s = Some j" and pol: "j_custody_policy j = Some REQUIRED_POLICY"
    and run: "commit_offer_row e jid tn j r payload body digest rid now s = Inr (u, s')"
  shows "find_job jid s' = Some (retain_offer body digest rid j)"
proof -
  let ?P = "\<lambda>x. j_id x = jid \<and> j_custody_policy x = Some REQUIRED_POLICY \<and> j_offer_body x = None"
  obtain s1 fmt tmpl where ex: "execute (update_job ?P (retain_offer body digest rid)) s = Inr ((), s1)"
    and ev: "append_status_event (sub_env 1 e) jid (Some Data_ready) Rendering ''job_rendering''
       (Some ''Retained Render offer.'') (Some [(''render_output_format'', fmt), (''render_template_id'', tmpl)])
       None ''report-job-worker'' (r_correlation_id r) (r_trace_id r)
       (case now of None \<Rightarrow> utc_now e 2 | Some t \<Rightarrow> t) s1 = Inr (u, s')"
    using run unfolding commit_offer_row_def by (elim tx_bindE) auto
  have P: "?P j"
  proof (rule ccontr)
    assume no: "\<not> ?P j"
    have "filter ?P (jobs s) = []"
      using no inv j by (auto simp: filter_empty_conv find_job_iff
          dest: keyed_unique [OF schema_distinct(1) [OF inv] j [unfolded find_job_def]])
    then show False using ex by (simp add: execute_Inr update_job_def rowcount_def split: if_splits)
  qed
  have "s1 = s\<lparr>jobs := update_where ?P (retain_offer body digest rid) (jobs s)\<rparr>
      \<and> job_update_ok j (retain_offer body digest rid j)
      \<and> find_job jid s1 = Some (retain_offer body digest rid j) \<and> schema_inv s1"
    by (rule execute_job_effect [OF inv j P _ _ _ ex]) simp_all
  with ev show ?thesis by (elim append_event_Inr) auto
qed

text \<open>An offer once retained is read back unchanged from every later state.\<close>

lemma offer_survives:
  assumes inv: "schema_inv s" and new: "\<And>j. find_job jid s = Some j \<Longrightarrow> \<not> truthy (j_offer_sha256 j)"
    and run: "commit_offer e jid tn rg fence payload now s = Inr (digest, s1)"
    and later: "ledger_rel s1 s2"
    and auth: "authorize e' ''read_offer'' jid tn rg = Inr ()" and sha: "env_sha256 e' = env_sha256 e"
  shows "digest = env_sha256 e (compact_json_utf8 (JObj payload))
    \<and> load_offer e' jid tn rg s2 = Inr (compact_json_utf8 (JObj payload), s2)"
proof -
  obtain body where body: "encode_render_offer payload = Inr body"
    and rest: "(case jget payload ''render_job_id'' of
       JStr render_id \<Rightarrow>
         if render_id = [] then tx_raise (custody_error ''custody_render_identity_missing'') else
         tx_bind (lock_pair jid) (\<lambda>(work, j, r).
         tx_bind (tx_lift (lease work j fence (case now of None \<Rightarrow> utc_now e 0 | Some t \<Rightarrow> t))) (\<lambda>_.
         tx_bind (tx_lift (scope j r tn rg)) (\<lambda>_.
         if truthy (j_offer_sha256 j)
         then if j_offer_sha256 j \<noteq> Some (offer_digest e body) \<or> j_render_job_id j \<noteq> Some render_id
              then tx_raise (custody_error ''custody_offer_conflict'')
              else tx_return (offer_digest e body)
         else tx_bind (commit_offer_row e jid tn j r payload body (offer_digest e body) render_id now)
                (\<lambda>_. tx_return (offer_digest e body)))))
     | _ \<Rightarrow> tx_raise (custody_error ''custody_render_identity_missing'')) s = Inr (digest, s1)"
    using run unfolding commit_offer_def Let_def by (elim tx_lift_bindE)
  have b: "body = compact_json_utf8 (JObj payload)" "0 < length body" "int (length body) \<le> MAX_OFFER_BYTES"
    using body by (auto simp: encode_render_offer_def Let_def split: if_splits)
  obtain rid where rid: "jget payload ''render_job_id'' = JStr rid" "rid \<noteq> []"
    using rest by (cases "jget payload ''render_job_id''") (auto split: if_splits)
  obtain j r where j: "find_job jid s = Some j" and r: "find_request (j_request_id j) s = Some r"
    and sc: "r_tenant_id r = tn" "r_region r = rg" "j_custody_policy j = Some REQUIRED_POLICY"
    and row: "tx_bind (commit_offer_row e jid tn j r payload body (offer_digest e body) rid now)
                (\<lambda>_. tx_return (offer_digest e body)) s = Inr (digest, s1)"
    using rest rid new by (simp, elim fenced_openE) auto
  have crow: "commit_offer_row e jid tn j r payload body (offer_digest e body) rid now s = Inr ((), s1)"
    and dg: "digest = offer_digest e body"
    using row by (auto simp: tx_bind_eq)
  have hist: "history_rel s s1"
    using keepsD [OF keeps_ports(1) run] by (simp add: ledger_rel_def)
  have "find_job jid s1 = Some (retain_offer body digest rid j)"
    using commit_offer_row_effect [OF inv j sc(3) crow] dg by simp
  then obtain j2 where j2: "find_job jid s2 = Some j2" "job_evolves (retain_offer body digest rid j) j2"
    using history_find_job later unfolding ledger_rel_def by blast
  have "history_rel s s2" using hist later by (auto simp: ledger_rel_def intro: history.R_trans)
  then have "find_request (j_request_id j2) s2 = Some r"
    using history_find_request [OF _ r] j2(2) by (simp add: job_evolves_def retain_offer_def)
  then show ?thesis
    using j2 sc b dg auth sha
    by (simp add: load_offer_def tx_run metadata_def job_evolves_def retain_offer_def scope_def
        offer_digest_def)
qed

lemma resume_openE:
  assumes "resume e jid tn rg ep digest now s = Inr (u, s')"
  obtains w j r where "find_work_of_job jid s = Some w" "find_job jid s = Some j"
    "find_request (j_request_id j) s = Some r" "r_tenant_id r = tn" "r_region r = rg"
    "j_custody_policy j = Some REQUIRED_POLICY" "j_offer_sha256 j = Some digest"
    "(s' = s \<and> wi_status w = Retry_pending \<and> j_custody_epoch j = ep + 1 \<and> j_custody_state j = Some Ready)
     \<or> (j_custody_epoch j = ep \<and> wi_status w = Work_failed \<and> (\<exists>t s1.
          execute (update_job (\<lambda>x. j_id x = jid) (resume_job t)) s = Inr ((), s1)
          \<and> execute (update_work (\<lambda>x. work_item_id x = work_item_id w) (resume_work t)) s1 = Inr ((), s')))"
proof -
  let ?t = "custody_timestamp (case now of None \<Rightarrow> utc_now e 0 | Some t \<Rightarrow> t)"
  obtain work j r where lp: "lock_pair jid s = Inr ((work, j, r), s)"
    and sc: "r_tenant_id r = tn" "r_region r = rg" "j_custody_policy j = Some REQUIRED_POLICY"
    and rest: "(case work of None \<Rightarrow> tx_raise (PyTypeError ''NoneType'') | Some w \<Rightarrow>
     if wi_status w = Retry_pending \<and> j_custody_epoch j = ep + 1
        \<and> j_offer_sha256 j = Some digest \<and> j_custody_state j = Some Ready
     then tx_return ()
     else if wi_status w \<noteq> Work_failed \<or> j_custody_epoch j \<noteq> ep
        \<or> j_offer_sha256 j \<noteq> Some digest \<or> j_custody_state j \<noteq> Some Blocked
        \<or> j_custody_reason j \<notin> {Some ''custody_retry_budget_exhausted'', Some ''custody_retry_exhausted''}
     then tx_raise (custody_error ''custody_resume_conflict'')
     else tx_bind (execute (update_job (\<lambda>x. j_id x = jid) (resume_job ?t))) (\<lambda>_.
          execute (update_work (\<lambda>x. work_item_id x = work_item_id w) (resume_work ?t)))) s = Inr (u, s')"
    using assms unfolding resume_def Let_def
    by (elim tx_lift_bindE tx_bindE, simp split: prod.splits) (auto simp: lock_pair_Inr elim!: tx_lift_bindE)
  obtain w where w: "work = Some w" using rest by (cases work) auto
  from rest have cases: "j_offer_sha256 j = Some digest \<and>
     ((s' = s \<and> wi_status w = Retry_pending \<and> j_custody_epoch j = ep + 1 \<and> j_custody_state j = Some Ready)
     \<or> (j_custody_epoch j = ep \<and> wi_status w = Work_failed \<and> (\<exists>s1.
          execute (update_job (\<lambda>x. j_id x = jid) (resume_job ?t)) s = Inr ((), s1)
          \<and> execute (update_work (\<lambda>x. work_item_id x = work_item_id w) (resume_work ?t)) s1 = Inr ((), s'))))"
    by (auto simp: w tx_bind_eq split: if_splits)
  moreover from lp w have "find_work_of_job jid s = Some w" "find_job jid s = Some j"
    "find_request (j_request_id j) s = Some r" by (simp_all add: lock_pair_Inr)
  ultimately show ?thesis using that sc by blast
qed

lemma resume_effect:
  assumes inv: "schema_inv s" and run: "resume e jid tn rg ep digest now s = Inr ((), s1)"
  obtains j' w' r where "find_job jid s1 = Some j'" "j_custody_epoch j' = ep + 1"
    "j_custody_state j' = Some Ready" "j_offer_sha256 j' = Some digest"
    "j_custody_policy j' = Some REQUIRED_POLICY" "find_request (j_request_id j') s1 = Some r"
    "r_tenant_id r = tn" "r_region r = rg" "find_work_of_job jid s1 = Some w'" "wi_status w' = Retry_pending"
proof -
  obtain w j r where w: "find_work_of_job jid s = Some w" and j: "find_job jid s = Some j"
    and r: "find_request (j_request_id j) s = Some r" "r_tenant_id r = tn" "r_region r = rg"
    and pol: "j_custody_policy j = Some REQUIRED_POLICY" and sha: "j_offer_sha256 j = Some digest"
    and out: "(s1 = s \<and> wi_status w = Retry_pending \<and> j_custody_epoch j = ep + 1 \<and> j_custody_state j = Some Ready)
     \<or> (j_custody_epoch j = ep \<and> wi_status w = Work_failed \<and> (\<exists>t s2.
          execute (update_job (\<lambda>x. j_id x = jid) (resume_job t)) s = Inr ((), s2)
          \<and> execute (update_work (\<lambda>x. work_item_id x = work_item_id w) (resume_work t)) s2 = Inr ((), s1)))"
    using run by (rule resume_openE)
  have "\<exists>j' w'. find_job jid s1 = Some j' \<and> j_custody_epoch j' = ep + 1 \<and> j_custody_state j' = Some Ready
      \<and> j_offer_sha256 j' = Some digest \<and> j_custody_policy j' = Some REQUIRED_POLICY
      \<and> j_request_id j' = j_request_id j
      \<and> find_work_of_job jid s1 = Some w' \<and> wi_status w' = Retry_pending \<and> requests s1 = requests s"
    using out
  proof (elim disjE conjE exE)
    assume "s1 = s" "wi_status w = Retry_pending" "j_custody_epoch j = ep + 1" "j_custody_state j = Some Ready"
    then show ?thesis using w j sha pol by auto
  next
    fix t s2
    let ?P = "\<lambda>x. work_item_id x = work_item_id w"
    assume ep: "j_custody_epoch j = ep" and s2: "execute (update_job (\<lambda>x. j_id x = jid) (resume_job t)) s = Inr ((), s2)"
      and s1: "execute (update_work ?P (resume_work t)) s2 = Inr ((), s1)"
    have e2: "s2 = s\<lparr>jobs := update_where (\<lambda>x. j_id x = jid) (resume_job t) (jobs s)\<rparr>
        \<and> job_update_ok j (resume_job t j) \<and> find_job jid s2 = Some (resume_job t j) \<and> schema_inv s2"
      by (rule execute_job_effect [OF inv j _ _ _ _ s2]) (use find_job_SomeD [OF j] in simp_all)
    have s1e: "s1 = s2\<lparr>work_items := update_where ?P (resume_work t) (work_items s2)\<rparr>"
      using s1 by (simp add: execute_Inr update_work_def)
    have inv1: "schema_inv s1"
      using run inv keepsD [OF keeps_ports(6)] ledger_rel_schema by blast
    have "w \<in> set (work_items s2)" "wi_report_job_id w = jid"
      using e2 find_work_of_job_SomeD [OF w] by auto
    then have "resume_work t w \<in> set (work_items s1)" "wi_report_job_id (resume_work t w) = jid"
      by (auto simp: s1e set_update_where resume_work_def intro!: image_eqI [of _ _ w])
    then have "find_work_of_job jid s1 = Some (resume_work t w)"
      using find_work_of_job_iff [OF inv1] by blast
    moreover have "find_job jid s1 = Some (resume_job t j)" "requests s1 = requests s"
      using e2 by (auto simp: s1e)
    ultimately show ?thesis
      using ep sha pol by (intro exI [of _ "resume_job t j"] exI [of _ "resume_work t w"])
        (simp add: resume_job_def resume_work_def)
  qed
  then show thesis using that r by (metis find_request_def)
qed

text \<open>
  Resuming a parked job is idempotent: a resume that succeeded leaves the job ready under
  the next epoch with its offer and its work item pending, and repeating the same request,
  at any later instant, succeeds and changes nothing.
\<close>

theorem resume_idempotent:
  assumes inv: "schema_inv s" and run: "resume e jid tn rg ep digest now s = Inr ((), s1)"
    and auth: "authorize e' ''resume'' jid tn rg = Inr ()"
  shows "resume e' jid tn rg ep digest now' s1 = Inr ((), s1)
    \<and> (\<exists>j w. find_job jid s1 = Some j \<and> j_custody_epoch j = ep + 1 \<and> j_custody_state j = Some Ready
        \<and> find_work_of_job jid s1 = Some w \<and> wi_status w = Retry_pending)"
proof -
  obtain j' w' r where new: "find_job jid s1 = Some j'" "j_custody_epoch j' = ep + 1"
    "j_custody_state j' = Some Ready" "j_offer_sha256 j' = Some digest"
    "j_custody_policy j' = Some REQUIRED_POLICY" "find_request (j_request_id j') s1 = Some r"
    "r_tenant_id r = tn" "r_region r = rg" "find_work_of_job jid s1 = Some w'" "wi_status w' = Retry_pending"
    by (rule resume_effect [OF inv run])
  then have "lock_pair jid s1 = Inr ((Some w', j', r), s1)" by (simp add: lock_pair_Inr)
  then have "resume e' jid tn rg ep digest now' s1 = Inr ((), s1)"
    using auth new by (simp add: resume_def Let_def tx_run scope_def)
  then show ?thesis using new by blast
qed

text \<open>A job parked after its budget was spent, with its offer.\<close>

definition sample_parked :: ledger where
  "sample_parked = (sample_ledger (sample_custody_job\<lparr>j_status := Rendering, j_render_job_id := Some ''r'',
     j_offer_body := Some ''{}'', j_offer_sha256 := Some (replicate 64 CHR ''a''), j_offer_size := Some 2,
     j_offer_version := Some ENCODING_VERSION, j_offer_generation := 1, j_custody_state := Some Blocked,
     j_custody_reason := Some ''custody_retry_exhausted'', j_custody_epoch := 4\<rparr>))
     \<lparr>work_items := [sample_work\<lparr>wi_status := Work_failed, lease_token := None\<rparr>]\<rparr>"

lemma map_sum_Inr: "map_sum (\<lambda>_. ()) fst x = Inr a \<Longrightarrow> \<exists>s'. x = Inr (a, s')"
  by (cases x) auto

theorem resume_idempotent_witness:
  "\<exists>s1. resume sample_custody_env ''rjb_1'' ''t1'' ''sg'' 4 (replicate 64 CHR ''a'') None sample_parked = Inr ((), s1)
     \<and> resume sample_custody_env ''rjb_1'' ''t1'' ''sg'' 4 (replicate 64 CHR ''a'') (Some 7) s1 = Inr ((), s1)"
proof -
  have inv: "schema_inv sample_parked"
    by (simp add: schema_inv_def table_oks samples sample_parked_def custody_checks_def custody_scoped_def REQUIRED_POLICY_def)
  have auth: "authorize sample_custody_env ''resume'' ''rjb_1'' ''t1'' ''sg'' = Inr ()" by code_simp
  have "map_sum (\<lambda>_. ()) fst (resume sample_custody_env ''rjb_1'' ''t1'' ''sg'' 4
      (replicate 64 CHR ''a'') None sample_parked) = Inr ()" by code_simp
  then obtain s1 where run: "resume sample_custody_env ''rjb_1'' ''t1'' ''sg'' 4
      (replicate 64 CHR ''a'') None sample_parked = Inr ((), s1)"
    by (metis map_sum_Inr)
  from resume_idempotent [OF inv run auth] run show ?thesis by blast
qed

end
