(* ===== verification/Job_Transitions.thy ===== *)
theory Job_Transitions
  imports Custody
begin

text \<open>
  Reading a job (\<open>_load_by_request_id\<close>, \<open>_record_from_row\<close>, \<open>get_job\<close>) and moving it through its
  lifecycle (\<open>_transition_job\<close>, the \<open>mark_*\<close> methods, \<open>cancel_job\<close>, \<open>append_job_event\<close>) in
  \<open>src/src/app/reporting_jobs/ledger.py\<close>, and the visibility fence of
  \<open>src/src/app/reporting_jobs/visibility.py\<close>.
\<close>

section \<open>Records\<close>

record job_record =
  lr_custody_policy :: "string option"
  lr_custody_state :: "custody_state option"
  lr_custody_epoch :: int
  lr_request_id :: string
  lr_job_id :: string
  lr_report_type :: string
  lr_portfolio_scope :: jobj
  lr_requested_output_formats :: "string list"
  lr_as_of_date :: date
  lr_reporting_currency :: "string option"
  lr_options :: jobj
  lr_trigger_type :: string
  lr_triggered_by :: string
  lr_caller_application :: string
  lr_tenant_id :: string
  lr_region :: string
  lr_booking_center_code :: "string option"
  lr_role :: "string option"
  lr_idempotency_key :: string
  lr_request_hash :: string
  lr_status :: job_status
  lr_failure_category :: "failure_category option"
  lr_failure_message :: "string option"
  lr_current_step :: string
  lr_retry_eligible :: bool
  lr_cancel_requested :: bool
  lr_created_at :: dt
  lr_updated_at :: dt
  lr_started_at :: "dt option"
  lr_completed_at :: "dt option"
  lr_cancelled_at :: "dt option"
  lr_correlation_id :: string
  lr_trace_id :: string
  lr_render_job_id :: "string option"
  lr_render_output_format :: "string option"
  lr_render_template_id :: "string option"
  lr_render_template_version :: "string option"
  lr_render_template_publication :: "string option"
  lr_accepted_contract :: "jobj option"
  lr_render_artifact_sha256 :: "string option"
  lr_render_fingerprint :: "string option"
  lr_render_runtime_engine :: "string option"
  lr_render_runtime_engine_version :: "string option"
  lr_render_duration_ms :: "int option"
  lr_archive_request_id :: "string option"
  lr_archive_document_id :: "string option"
  lr_archive_completed_at :: "dt option"

definition record_from_row :: "request_row \<Rightarrow> job_row \<Rightarrow> job_record" where
  "record_from_row r j = \<lparr>
     lr_custody_policy = j_custody_policy j, lr_custody_state = j_custody_state j,
     lr_custody_epoch = j_custody_epoch j, lr_request_id = r_id r, lr_job_id = j_id j,
     lr_report_type = r_report_type r, lr_portfolio_scope = r_portfolio_scope r,
     lr_requested_output_formats = r_output_formats r, lr_as_of_date = r_as_of_date r,
     lr_reporting_currency = r_reporting_currency r, lr_options = r_options r,
     lr_trigger_type = r_trigger_type r, lr_triggered_by = r_triggered_by r,
     lr_caller_application = r_caller_application r, lr_tenant_id = r_tenant_id r,
     lr_region = r_region r, lr_booking_center_code = r_booking_center_code r,
     lr_role = r_role r, lr_idempotency_key = r_idempotency_key r,
     lr_request_hash = r_request_hash r, lr_status = j_status j,
     lr_failure_category = j_failure_category j, lr_failure_message = j_failure_message j,
     lr_current_step = j_current_step j, lr_retry_eligible = j_retry_eligible j,
     lr_cancel_requested = j_cancel_requested j, lr_created_at = stamp_dt (j_created_at j),
     lr_updated_at = stamp_dt (j_updated_at j), lr_started_at = map_option stamp_dt (j_started_at j),
     lr_completed_at = map_option stamp_dt (j_completed_at j),
     lr_cancelled_at = map_option stamp_dt (j_cancelled_at j),
     lr_correlation_id = r_correlation_id r, lr_trace_id = r_trace_id r,
     lr_render_job_id = j_render_job_id j, lr_render_output_format = j_render_output_format j,
     lr_render_template_id = j_render_template_id j,
     lr_render_template_version = j_render_template_version j,
     lr_render_template_publication = j_render_template_publication j,
     lr_accepted_contract = j_accepted_contract j,
     lr_render_artifact_sha256 = j_render_artifact_sha256 j,
     lr_render_fingerprint = j_render_fingerprint j,
     lr_render_runtime_engine = j_render_runtime_engine j,
     lr_render_runtime_engine_version = j_render_runtime_engine_version j,
     lr_render_duration_ms = j_render_duration_ms j,
     lr_archive_request_id = j_archive_request_id j,
     lr_archive_document_id = j_archive_document_id j,
     lr_archive_completed_at = map_option stamp_dt (j_archive_completed_at j)\<rparr>"

definition load_by_request_id :: "string \<Rightarrow> job_record ledger_tx" where
  "load_by_request_id request_id s =
     (case (find_request request_id s, fetch (\<lambda>j. j_request_id j = request_id) (jobs s)) of
        (Some r, Some j) \<Rightarrow> Inr (record_from_row r j, s)
      | _ \<Rightarrow> Inl (ReportJobNotFoundError ''report_job_not_found''))"

definition get_job :: "string \<Rightarrow> job_record ledger_tx" where
  "get_job job_id =
     tx_bind (tx_get (find_job job_id)) (\<lambda>row.
     case row of None \<Rightarrow> tx_raise (ReportJobNotFoundError ''report_job_not_found'')
     | Some j \<Rightarrow> load_by_request_id (j_request_id j))"

text \<open>
  The statements that close a transition: the request id of the job is selected (subscripting the
  row fails when there is none) and the record is loaded.
\<close>

definition reload_job :: "string \<Rightarrow> job_record ledger_tx" where
  "reload_job job_id =
     tx_bind (tx_get (find_job job_id)) (\<lambda>row.
     case row of None \<Rightarrow> tx_raise (PyTypeError ''NoneType'')
     | Some j \<Rightarrow> load_by_request_id (j_request_id j))"

record caller_context =
  cc_trigger_type :: string
  cc_triggered_by :: string
  cc_caller_application :: string
  cc_tenant_id :: string
  cc_region :: string
  cc_booking_center_code :: "string option"
  cc_role :: "string option"
  cc_correlation_id :: string
  cc_trace_id :: string

definition assert_job_visible :: "job_record \<Rightarrow> caller_context \<Rightarrow> unit res" where
  "assert_job_visible job caller =
     (if lr_tenant_id job \<noteq> cc_tenant_id caller \<or> lr_region job \<noteq> cc_region caller
         \<or> (lr_booking_center_code job \<noteq> None
             \<and> cc_booking_center_code caller \<noteq> lr_booking_center_code job)
      then Inl (ReportJobNotFoundError ''report_job_not_found'') else Inr ())"

section \<open>Transitions\<close>

text \<open>The keyword arguments of \<open>_transition_job\<close>.\<close>

record transition =
  t_to_status :: job_status
  t_failure_category :: "failure_category option"
  t_failure_message :: "string option"
  t_current_step :: string
  t_retry_eligible :: bool
  t_actor :: string
  t_correlation_id :: string
  t_trace_id :: string
  t_event_type :: string
  t_event_message :: "string option"
  t_set_started_at :: bool
  t_set_completed_at :: bool
  t_render_job_id :: "string option"
  t_render_output_format :: "string option"
  t_render_template_id :: "string option"
  t_render_template_version :: "string option"
  t_render_template_publication :: "string option"
  t_render_artifact_sha256 :: "string option"
  t_render_fingerprint :: "string option"
  t_render_runtime_engine :: "string option"
  t_render_runtime_engine_version :: "string option"
  t_render_duration_ms :: "int option"
  t_archive_request_id :: "string option"
  t_archive_document_id :: "string option"
  t_archive_completed_at :: "dt option"

definition transition_event_payload :: "transition \<Rightarrow> jobj" where
  "transition_event_payload t = (''current_step'', JStr (t_current_step t)) #
     filter (\<lambda>kv. snd kv \<noteq> JNull) [
       (''failure_category'', jopt (map_option category_text (t_failure_category t))),
       (''failure_message'', jopt (t_failure_message t)),
       (''render_job_id'', jopt (t_render_job_id t)),
       (''render_output_format'', jopt (t_render_output_format t)),
       (''render_template_id'', jopt (t_render_template_id t)),
       (''render_template_version'', jopt (t_render_template_version t)),
       (''render_artifact_sha256'', jopt (t_render_artifact_sha256 t)),
       (''render_bounded_determinism_fingerprint'', jopt (t_render_fingerprint t)),
       (''render_runtime_engine'', jopt (t_render_runtime_engine t)),
       (''render_runtime_engine_version'', jopt (t_render_runtime_engine_version t)),
       (''render_duration_ms'', case t_render_duration_ms t of None \<Rightarrow> JNull | Some n \<Rightarrow> JInt n),
       (''archive_request_id'', jopt (t_archive_request_id t)),
       (''archive_document_id'', jopt (t_archive_document_id t))]"

text \<open>The \<open>UPDATE\<close> of a transition, at the instant \<open>now\<close>, of a job with the given \<open>started_at\<close>.\<close>

definition apply_transition :: "transition \<Rightarrow> dt \<Rightarrow> stamp option \<Rightarrow> job_row \<Rightarrow> job_row" where
  "apply_transition t now started j = j\<lparr>
     j_status := t_to_status t, j_failure_category := t_failure_category t,
     j_failure_message := t_failure_message t, j_current_step := t_current_step t,
     j_retry_eligible := t_retry_eligible t, j_updated_at := dt_to_text now,
     j_started_at := coalesce started (if t_set_started_at t then Some (dt_to_text now) else None),
     j_completed_at := (if t_set_completed_at t then Some (dt_to_text now) else None),
     j_render_job_id := coalesce (t_render_job_id t) (j_render_job_id j),
     j_render_output_format := coalesce (t_render_output_format t) (j_render_output_format j),
     j_render_template_id := coalesce (t_render_template_id t) (j_render_template_id j),
     j_render_template_version := coalesce (t_render_template_version t) (j_render_template_version j),
     j_render_template_publication :=
       coalesce (t_render_template_publication t) (j_render_template_publication j),
     j_render_artifact_sha256 := coalesce (t_render_artifact_sha256 t) (j_render_artifact_sha256 j),
     j_render_fingerprint := coalesce (t_render_fingerprint t) (j_render_fingerprint j),
     j_render_runtime_engine := coalesce (t_render_runtime_engine t) (j_render_runtime_engine j),
     j_render_runtime_engine_version :=
       coalesce (t_render_runtime_engine_version t) (j_render_runtime_engine_version j),
     j_render_duration_ms := coalesce (t_render_duration_ms t) (j_render_duration_ms j),
     j_archive_request_id := coalesce (t_archive_request_id t) (j_archive_request_id j),
     j_archive_document_id := coalesce (t_archive_document_id t) (j_archive_document_id j),
     j_archive_completed_at :=
       coalesce (map_option dt_to_text (t_archive_completed_at t)) (j_archive_completed_at j)\<rparr>"

definition transition_job :: "env \<Rightarrow> string \<Rightarrow> transition \<Rightarrow> job_record ledger_tx" where
  "transition_job e job_id t =
     tx_bind (guard_transition (sub_env 0 e) job_id (t_to_status t)) (\<lambda>handled.
     if handled then reload_job job_id else
     tx_bind (tx_get (find_job job_id)) (\<lambda>existing.
     case existing of None \<Rightarrow> tx_raise (ReportJobNotFoundError ''report_job_not_found'') | Some j \<Rightarrow>
     if j_status j = t_to_status t then reload_job job_id
     else if \<not> is_report_job_transition_allowed (j_status j) (t_to_status t)
     then tx_raise (InvalidReportJobTransitionError ''report_job_invalid_transition'')
     else
       tx_bind (update_job (\<lambda>x. j_id x = job_id) (apply_transition t (utc_now e 1) (j_started_at j))) (\<lambda>_.
       tx_bind (append_status_event (sub_env 2 e) job_id (Some (j_status j)) (t_to_status t)
         (t_event_type t) (t_event_message t) (Some (transition_event_payload t)) None
         (t_actor t) (t_correlation_id t) (t_trace_id t) (utc_now e 1)) (\<lambda>_.
       reload_job job_id))))"

text \<open>The arguments every \<open>mark_*\<close> method leaves empty unless it names them.\<close>

definition plain_transition ::
    "job_status \<Rightarrow> string \<Rightarrow> string \<Rightarrow> string \<Rightarrow> string \<Rightarrow> string \<Rightarrow> transition" where
  "plain_transition to_status event_type message actor correlation_id trace_id = \<lparr>
     t_to_status = to_status, t_failure_category = None, t_failure_message = None,
     t_current_step = status_text to_status, t_retry_eligible = False, t_actor = actor,
     t_correlation_id = correlation_id, t_trace_id = trace_id, t_event_type = event_type,
     t_event_message = Some message, t_set_started_at = True, t_set_completed_at = False,
     t_render_job_id = None, t_render_output_format = None, t_render_template_id = None,
     t_render_template_version = None, t_render_template_publication = None,
     t_render_artifact_sha256 = None, t_render_fingerprint = None, t_render_runtime_engine = None,
     t_render_runtime_engine_version = None, t_render_duration_ms = None,
     t_archive_request_id = None, t_archive_document_id = None, t_archive_completed_at = None\<rparr>"

definition mark_collecting_data ::
    "env \<Rightarrow> string \<Rightarrow> string \<Rightarrow> string \<Rightarrow> string \<Rightarrow> job_record ledger_tx" where
  "mark_collecting_data e job_id actor correlation_id trace_id =
     transition_job e job_id (plain_transition Collecting_data ''job_collecting_data''
       ''Portfolio review input capture started.'' actor correlation_id trace_id)"

definition mark_data_ready ::
    "env \<Rightarrow> string \<Rightarrow> string \<Rightarrow> string \<Rightarrow> string \<Rightarrow> job_record ledger_tx" where
  "mark_data_ready e job_id actor correlation_id trace_id =
     transition_job e job_id (plain_transition Data_ready ''job_data_ready''
       ''Portfolio review snapshot and lineage captured.'' actor correlation_id trace_id)"

definition mark_rendering ::
    "env \<Rightarrow> string \<Rightarrow> string \<Rightarrow> string \<Rightarrow> string \<Rightarrow> string \<Rightarrow> string \<Rightarrow> string \<Rightarrow> string
     \<Rightarrow> job_record ledger_tx" where
  "mark_rendering e job_id actor correlation_id trace_id render_job_id output_format template_id
       template_version =
     transition_job e job_id ((plain_transition Rendering ''job_rendering''
       ''Portfolio review render started.'' actor correlation_id trace_id)\<lparr>
         t_render_job_id := Some render_job_id, t_render_output_format := Some output_format,
         t_render_template_id := Some template_id, t_render_template_version := Some template_version\<rparr>)"

record render_outcome =
  ro_render_job_id :: string
  ro_output_format :: string
  ro_template_id :: string
  ro_template_version :: string
  ro_template_publication :: "string option"
  ro_artifact_sha256 :: "string option"
  ro_fingerprint :: "string option"
  ro_runtime_engine :: "string option"
  ro_runtime_engine_version :: "string option"
  ro_duration_ms :: "int option"

definition mark_completed ::
    "env \<Rightarrow> string \<Rightarrow> string \<Rightarrow> string \<Rightarrow> string \<Rightarrow> render_outcome \<Rightarrow> job_record ledger_tx" where
  "mark_completed e job_id actor correlation_id trace_id o' =
     transition_job e job_id ((plain_transition Completed ''job_completed''
       ''Portfolio review render completed.'' actor correlation_id trace_id)\<lparr>
         t_set_completed_at := True,
         t_render_job_id := Some (ro_render_job_id o'),
         t_render_output_format := Some (ro_output_format o'),
         t_render_template_id := Some (ro_template_id o'),
         t_render_template_version := Some (ro_template_version o'),
         t_render_template_publication := ro_template_publication o',
         t_render_artifact_sha256 := ro_artifact_sha256 o',
         t_render_fingerprint := ro_fingerprint o',
         t_render_runtime_engine := ro_runtime_engine o',
         t_render_runtime_engine_version := ro_runtime_engine_version o',
         t_render_duration_ms := ro_duration_ms o'\<rparr>)"

definition mark_archiving ::
    "env \<Rightarrow> string \<Rightarrow> string \<Rightarrow> string \<Rightarrow> string \<Rightarrow> string \<Rightarrow> job_record ledger_tx" where
  "mark_archiving e job_id actor correlation_id trace_id archive_request_id =
     transition_job e job_id ((plain_transition Archiving ''job_archiving''
       ''Portfolio review archive handoff started.'' actor correlation_id trace_id)\<lparr>
         t_archive_request_id := Some archive_request_id\<rparr>)"

definition mark_archived ::
    "env \<Rightarrow> string \<Rightarrow> string \<Rightarrow> string \<Rightarrow> string \<Rightarrow> string \<Rightarrow> string \<Rightarrow> job_record ledger_tx" where
  "mark_archived e job_id actor correlation_id trace_id archive_request_id archive_document_id =
     transition_job (sub_env 1 e) job_id ((plain_transition Archived ''job_archived''
       ''Portfolio review archived successfully.'' actor correlation_id trace_id)\<lparr>
         t_archive_request_id := Some archive_request_id,
         t_archive_document_id := Some archive_document_id,
         t_archive_completed_at := Some (utc_now e 0)\<rparr>)"

definition mark_failed ::
    "env \<Rightarrow> string \<Rightarrow> string \<Rightarrow> string \<Rightarrow> string \<Rightarrow> failure_category \<Rightarrow> string \<Rightarrow> bool
     \<Rightarrow> job_record ledger_tx" where
  "mark_failed e job_id actor correlation_id trace_id failure_category failure_message retry_eligible =
     transition_job e job_id ((plain_transition Failed ''job_failed'' failure_message actor
         correlation_id trace_id)\<lparr>
         t_failure_category := Some failure_category, t_failure_message := Some failure_message,
         t_retry_eligible := retry_eligible, t_set_completed_at := True\<rparr>)"

definition CANCEL_MESSAGE :: string where
  "CANCEL_MESSAGE = ''Report job cancelled before render or archive processing.''"

definition apply_cancel :: "dt \<Rightarrow> job_row \<Rightarrow> job_row" where
  "apply_cancel now j = j\<lparr>j_status := Cancelled, j_failure_category := Some Cancelled_category,
     j_failure_message := Some CANCEL_MESSAGE, j_current_step := ''cancelled'',
     j_retry_eligible := False, j_cancel_requested := True, j_updated_at := dt_to_text now,
     j_cancelled_at := Some (dt_to_text now)\<rparr>"

definition cancel_job :: "env \<Rightarrow> string \<Rightarrow> string \<Rightarrow> string \<Rightarrow> string \<Rightarrow> job_record ledger_tx" where
  "cancel_job e job_id actor correlation_id trace_id =
     tx_bind (guard_transition (sub_env 0 e) job_id Cancelled) (\<lambda>handled.
     if handled then reload_job job_id else
     tx_bind (tx_get (find_job job_id)) (\<lambda>existing.
     case existing of None \<Rightarrow> tx_raise (ReportJobNotFoundError ''report_job_not_found'') | Some j \<Rightarrow>
     if \<not> is_report_job_cancellable (j_status j)
     then tx_raise (InvalidReportJobTransitionError ''report_job_cannot_be_cancelled'')
     else
       tx_bind (update_job (\<lambda>x. j_id x = job_id) (apply_cancel (utc_now e 1))) (\<lambda>_.
       tx_bind (append_status_event (sub_env 2 e) job_id (Some (j_status j)) Cancelled
         ''job_cancelled'' (Some CANCEL_MESSAGE)
         (Some [(''current_step'', JStr ''cancelled''), (''cancel_requested'', JBool True)]) None
         actor correlation_id trace_id (utc_now e 1)) (\<lambda>_.
       reload_job job_id))))"

definition append_job_event ::
    "env \<Rightarrow> string \<Rightarrow> string \<Rightarrow> string \<Rightarrow> jobj option \<Rightarrow> string option \<Rightarrow> string \<Rightarrow> string \<Rightarrow> string \<Rightarrow> bool
     \<Rightarrow> bool ledger_tx" where
  "append_job_event e job_id event_type message event_payload event_idempotency_key actor
       correlation_id trace_id skip_if_idempotency_key_exists =
     tx_bind (tx_get (find_job job_id)) (\<lambda>existing.
     case existing of None \<Rightarrow> tx_raise (ReportJobNotFoundError ''report_job_not_found'') | Some j \<Rightarrow>
     tx_bind (tx_get (\<lambda>s. \<exists>v \<in> set (events s). ev_job_id v = job_id \<and> ev_key v = event_idempotency_key)) (\<lambda>dup.
     if skip_if_idempotency_key_exists \<and> truthy event_idempotency_key \<and> dup
     then tx_return False
     else tx_bind (append_status_event (sub_env 1 e) job_id (Some (j_status j)) (j_status j) event_type
            (Some message) event_payload event_idempotency_key actor correlation_id trace_id
            (utc_now e 0)) (\<lambda>_. tx_return True)))"

section \<open>Frames\<close>

lemma transition_frames [simp]: "job_frame (apply_transition t now st)" "job_frame (apply_cancel now)"
  "unverifying (apply_transition t now st)" "unverifying (apply_cancel now)"
  by (simp_all add: frames apply_transition_def apply_cancel_def)

lemma keeps_load [keeps_intros]: "keeps ledger_rel (load_by_request_id rid)"
  by (rule keepsI) (auto simp: load_by_request_id_def led.R_refl split: option.splits)

lemma keeps_get_job [keeps_intros]: "keeps ledger_rel (get_job jid)" "keeps ledger_rel (reload_job jid)"
  unfolding get_job_def reload_job_def by (intro ledger_rules keeps_intros)+

lemma keeps_transition_job [keeps_intros]: "keeps ledger_rel (transition_job e jid t)"
  unfolding transition_job_def by (intro ledger_rules keeps_intros transition_frames)

lemma keeps_marks [keeps_intros]:
  "keeps ledger_rel (mark_collecting_data e jid a c tr)"
  "keeps ledger_rel (mark_data_ready e jid a c tr)"
  "keeps ledger_rel (mark_rendering e jid a c tr rj fmt tm tv)"
  "keeps ledger_rel (mark_completed e jid a c tr ro)"
  "keeps ledger_rel (mark_archiving e jid a c tr ar)"
  "keeps ledger_rel (mark_archived e jid a c tr ar ad)"
  "keeps ledger_rel (mark_failed e jid a c tr fc fm re)"
  unfolding mark_collecting_data_def mark_data_ready_def mark_rendering_def mark_completed_def
    mark_archiving_def mark_archived_def mark_failed_def
  by (intro keeps_transition_job)+

lemma keeps_cancel [keeps_intros]: "keeps ledger_rel (cancel_job e jid a c tr)"
  unfolding cancel_job_def by (intro ledger_rules keeps_intros transition_frames)

lemma keeps_append_job_event [keeps_intros]:
  "keeps ledger_rel (append_job_event e jid ty m p k a c tr sk)"
  unfolding append_job_event_def by (intro ledger_rules keeps_intros)

section \<open>What a transition does\<close>

lemma load_unique:
  assumes inv: "schema_inv s" and j: "find_job jid s = Some j" and r: "find_request (j_request_id j) s = Some r"
  shows "load_by_request_id (j_request_id j) s = Inr (record_from_row r j, s)"
proof -
  have "fetch (\<lambda>x. j_request_id x = j_request_id j) (jobs s) = Some j"
    using keyed_fetch [OF schema_distinct(6) [OF inv]] find_job_SomeD [OF j] by blast
  then show ?thesis using r by (simp add: load_by_request_id_def)
qed

lemma reload_unique:
  assumes "schema_inv s" "find_job jid s = Some j" "find_request (j_request_id j) s = Some r"
  shows "reload_job jid s = Inr (record_from_row r j, s)"
  using load_unique [OF assms] assms(2) by (simp add: reload_job_def tx_run)

lemma reload_effect:
  assumes "schema_inv s" "find_job jid s = Some j" "reload_job jid s = Inr (rec, s')"
  shows "s' = s \<and> (\<exists>r. find_request (j_request_id j) s = Some r \<and> rec = record_from_row r j)"
  using schema_request_of_job [OF assms(1,2)] reload_unique [OF assms(1,2)] assms(3) by auto

lemma guard_unhandled: "guard_transition e jid t s = Inr (False, s') \<Longrightarrow> s' = s"
  by (auto simp: guard_transition_def tx_bind_eq lock_pair_Inr
      split: option.splits if_splits)

lemma park_keeps_status:
  assumes inv: "schema_inv s" and j: "find_job jid s = Some j"
    and run: "park e (find_work_of_job jid s) j r reason s = Inr (u, s')"
  shows "\<exists>j'. find_job jid s' = Some j' \<and> j_status j' = j_status j"
proof (cases "j_custody_state j = Some Verified")
  case True
  then show ?thesis using run j by (simp add: park_def)
next
  case False
  then obtain w where w: "find_work_of_job jid s = Some w"
    using run by (cases "find_work_of_job jid s") (auto simp: park_def)
  show ?thesis
    using park_effect [OF inv j w run [unfolded w] False] by (auto simp: park_job_def)
qed

lemma guard_handled_status:
  assumes inv: "schema_inv s" and j: "find_job jid s = Some j"
    and run: "guard_transition e jid t s = Inr (True, s')"
  shows "\<exists>j'. find_job jid s' = Some j' \<and> j_status j' = j_status j"
proof (cases "j_custody_state j = Some Verified")
  case True
  then have "s' = s"
    using run j by (auto simp: guard_transition_def tx_bind_eq lock_pair_Inr
        split: option.splits if_splits)
  then show ?thesis using j by simp
next
  case False
  then have "custody_protected j" "t \<in> {Failed, Cancelled, Archived}"
    using run j by (auto simp: guard_transition_def tx_bind_eq lock_pair_Inr
        split: option.splits if_splits)
  then obtain w r where "find_work_of_job jid s = Some w"
    "park (sub_env 1 e) (Some w) j r ''custody_transition_blocked'' s = Inr ((), s')"
    using j run by (elim guard_protected)
  then show ?thesis using park_keeps_status [OF inv j] by simp
qed

text \<open>One job row written by an \<open>UPDATE\<close> that addresses it by its identifier.\<close>

lemma update_by_id:
  assumes inv: "schema_inv s" and j: "find_job jid s = Some j" and f: "job_frame f" "unverifying f"
    and run: "update_job (\<lambda>x. j_id x = jid) f s = Inr (n, s')"
  shows "s' = s\<lparr>jobs := update_where (\<lambda>x. j_id x = jid) f (jobs s)\<rparr> \<and> job_update_ok j (f j)
    \<and> find_job jid s' = Some (f j) \<and> schema_inv s' \<and> n = 1"
proof -
  have "n = 1"
    using run update_job_point [OF inv j, of "\<lambda>x. j_id x = jid" f] find_job_SomeD [OF j]
    by (simp split: if_splits)
  then have ex: "execute (update_job (\<lambda>x. j_id x = jid) f) s = Inr ((), s')"
    using run by (simp add: execute_Inr)
  have "s' = s\<lparr>jobs := update_where (\<lambda>x. j_id x = jid) f (jobs s)\<rparr> \<and> job_update_ok j (f j)
    \<and> find_job jid s' = Some (f j) \<and> schema_inv s'"
    by (rule execute_job_effect [OF inv j _ _ f ex]) (use find_job_SomeD [OF j] in simp_all)
  with \<open>n = 1\<close> show ?thesis by blast
qed

lemma append_keeps_schema:
  "schema_inv s \<Longrightarrow> append_status_event e j f t ty m p k a c tr now s = Inr (u, s') \<Longrightarrow> schema_inv s'"
  using keepsD [OF keeps_append_status_event] ledger_rel_schema by blast

text \<open>The writing branch of a transition or a cancellation.\<close>

lemma write_effect:
  assumes inv: "schema_inv s" and j: "find_job jid s = Some j" and f: "job_frame f" "unverifying f"
    and run: "tx_bind (update_job (\<lambda>x. j_id x = jid) f) (\<lambda>_.
       tx_bind (append_status_event e jid from to ty m p k a c tr now) (\<lambda>_. reload_job jid)) s = Inr (rec, s')"
  shows "find_job jid s' = Some (f j) \<and> job_update_ok j (f j)
    \<and> (\<exists>r. find_request (j_request_id j) s = Some r \<and> rec = record_from_row r (f j))
    \<and> (\<exists>v. events s' = events s @ [v] \<and> ev_job_id v = jid \<and> ev_from v = from \<and> ev_to v = to
        \<and> ev_type v = ty \<and> ev_actor v = a \<and> ev_created_at v = dt_to_text now)
    \<and> work_items s' = work_items s \<and> requests s' = requests s"
proof -
  obtain n s1 s2 where s1: "update_job (\<lambda>x. j_id x = jid) f s = Inr (n, s1)"
    and s2: "append_status_event e jid from to ty m p k a c tr now s1 = Inr ((), s2)"
    and s3: "reload_job jid s2 = Inr (rec, s')"
    using run by (auto elim!: tx_bindE)
  note up = update_by_id [OF inv j f s1]
  then have j1: "find_job jid s1 = Some (f j)" by blast
  from s2 obtain v where v: "s2 = s1\<lparr>events := events s1 @ [v]\<rparr>" "ev_job_id v = jid" "ev_from v = from"
    "ev_to v = to" "ev_type v = ty" "ev_actor v = a" "ev_created_at v = dt_to_text now"
    by (elim append_event_Inr) auto
  have inv2: "schema_inv s2" using append_keeps_schema [OF _ s2] up by blast
  have j2: "find_job jid s2 = Some (f j)" unfolding v(1) using j1 by (simp only: find_other_tables)
  have rid: "j_request_id (f j) = j_request_id j" using f by (simp add: job_frame_def)
  note rl = reload_effect [OF inv2 j2 s3]
  moreover have "requests s2 = requests s" "work_items s2 = work_items s" "events s2 = events s @ [v]"
    using up v(1) by auto
  ultimately show ?thesis using up v j2 rid unfolding find_request_def by auto
qed

lemma transition_cases:
  assumes inv: "schema_inv s" and j: "find_job jid s = Some j"
    and run: "transition_job e jid t s = Inr (rec, s')"
  shows "(\<exists>j'. find_job jid s' = Some j' \<and> j_status j' = j_status j)
    \<or> (is_report_job_transition_allowed (j_status j) (t_to_status t)
       \<and> tx_bind (update_job (\<lambda>x. j_id x = jid) (apply_transition t (utc_now e 1) (j_started_at j))) (\<lambda>_.
         tx_bind (append_status_event (sub_env 2 e) jid (Some (j_status j)) (t_to_status t)
           (t_event_type t) (t_event_message t) (Some (transition_event_payload t)) None
           (t_actor t) (t_correlation_id t) (t_trace_id t) (utc_now e 1)) (\<lambda>_.
         reload_job jid)) s = Inr (rec, s'))"
proof -
  obtain handled s1 where g: "guard_transition (sub_env 0 e) jid (t_to_status t) s = Inr (handled, s1)"
    and rest: "(if handled then reload_job jid else
     tx_bind (tx_get (find_job jid)) (\<lambda>existing.
     case existing of None \<Rightarrow> tx_raise (ReportJobNotFoundError ''report_job_not_found'') | Some j \<Rightarrow>
     if j_status j = t_to_status t then reload_job jid
     else if \<not> is_report_job_transition_allowed (j_status j) (t_to_status t)
     then tx_raise (InvalidReportJobTransitionError ''report_job_invalid_transition'')
     else
       tx_bind (update_job (\<lambda>x. j_id x = jid) (apply_transition t (utc_now e 1) (j_started_at j))) (\<lambda>_.
       tx_bind (append_status_event (sub_env 2 e) jid (Some (j_status j)) (t_to_status t)
         (t_event_type t) (t_event_message t) (Some (transition_event_payload t)) None
         (t_actor t) (t_correlation_id t) (t_trace_id t) (utc_now e 1)) (\<lambda>_.
       reload_job jid)))) s1 = Inr (rec, s')"
    using run unfolding transition_job_def by (elim tx_bindE)
  show ?thesis
  proof (cases handled)
    case True
    obtain j1 where j1: "find_job jid s1 = Some j1" "j_status j1 = j_status j"
      using guard_handled_status [OF inv j, of "sub_env 0 e" "t_to_status t" s1] g True by auto
    have "schema_inv s1" using keepsD [OF keeps_guards(1) g] ledger_rel_schema inv by blast
    then have "s' = s1" using reload_effect [OF _ j1(1)] rest True by simp
    then show ?thesis using j1 by blast
  next
    case False
    then have "s1 = s" using guard_unhandled [of "sub_env 0 e" jid "t_to_status t" s s1] g by simp
    then have "(if j_status j = t_to_status t then reload_job jid
       else if \<not> is_report_job_transition_allowed (j_status j) (t_to_status t)
       then tx_raise (InvalidReportJobTransitionError ''report_job_invalid_transition'')
       else tx_bind (update_job (\<lambda>x. j_id x = jid) (apply_transition t (utc_now e 1) (j_started_at j))) (\<lambda>_.
         tx_bind (append_status_event (sub_env 2 e) jid (Some (j_status j)) (t_to_status t)
           (t_event_type t) (t_event_message t) (Some (transition_event_payload t)) None
           (t_actor t) (t_correlation_id t) (t_trace_id t) (utc_now e 1)) (\<lambda>_.
         reload_job jid))) s = Inr (rec, s')"
      using rest False j by (simp add: tx_bind_def tx_get_def)
    then show ?thesis
      using reload_effect [OF inv j] j by (auto split: if_splits)
  qed
qed

lemma write_fresh:
  assumes inv: "schema_inv s" and j: "find_job jid s = Some j" and f: "job_frame f" "unverifying f"
    and ok: "job_update_ok j (f j)"
    and contract: "build_report_status_event_contract ty from to p k = Inr contract"
    and fresh: "''rse_'' @ uuid4_hex e 0 \<notin> ev_id ` set (events s)"
  shows "\<exists>rec s'. tx_bind (update_job (\<lambda>x. j_id x = jid) f) (\<lambda>_.
       tx_bind (append_status_event e jid from to ty m p k a c tr now) (\<lambda>_. reload_job jid)) s = Inr (rec, s')"
proof -
  have jid: "j_id j = jid" using find_job_SomeD [OF j] by simp
  obtain s1 where s1: "update_job (\<lambda>x. j_id x = jid) f s = Inr (1, s1)"
    using update_job_point [OF inv j, of "\<lambda>x. j_id x = jid" f] jid ok by auto
  note up = update_by_id [OF inv j f s1]
  then have ev: "events s1 = events s" and j1: "find_job jid s1 = Some (f j)" by auto
  have "jid \<in> j_id ` set (jobs s1)"
    using find_job_SomeD [OF j1] by force
  then obtain s2 where s2: "append_status_event e jid from to ty m p k a c tr now s1 = Inr ((), s2)"
    using contract fresh ev by (auto simp: append_status_event_def tx_run insert_event_def)
  then have j2: "find_job jid s2 = Some (f j)"
    using j1 by (elim append_event_Inr) simp
  have "schema_inv s2" using append_keeps_schema [OF _ s2] up by blast
  then show ?thesis
    using s1 s2 reload_unique [OF _ j2] schema_request_of_job [OF _ j2] by (auto simp: tx_bind_def)
qed

text \<open>The triggers never stop a job accepted without the custody policy.\<close>

lemma legacy_update:
  assumes "schema_inv s" "find_job jid s = Some j" "j_custody_policy j = None"
  shows "job_update_ok j (apply_transition t now st j)" "job_update_ok j (apply_cancel now j)"
proof -
  have "custody_checks j" "custody_scoped j"
    using assms(1) find_job_SomeD [OF assms(2)] by (auto simp: schema_inv_def jobs_ok_def)
  then show "job_update_ok j (apply_transition t now st j)" "job_update_ok j (apply_cancel now j)"
    using assms(3)
    by (simp_all add: job_update_ok_def report_custody_immutable_def report_custody_shape_def
        custody_checks_def custody_scoped_def apply_transition_def apply_cancel_def REQUIRED_POLICY_def)
qed

lemma guard_legacy: "find_job jid s = Some j \<Longrightarrow> j_custody_policy j = None \<Longrightarrow>
    guard_transition e jid t s = Inr (False, s)"
  by (simp add: guard_transition_def tx_run)

lemma transition_legacy:
  assumes inv: "schema_inv s" and j: "find_job jid s = Some j" and free: "j_custody_policy j = None"
    and allowed: "is_report_job_transition_allowed (j_status j) (t_to_status t)"
    and c: "build_report_status_event_contract (t_event_type t) (Some (j_status j)) (t_to_status t)
       (Some (transition_event_payload t)) None = Inr c"
    and fresh: "''rse_'' @ uuid4_hex (sub_env 2 e) 0 \<notin> ev_id ` set (events s)"
  shows "\<exists>rec s'. transition_job e jid t s = Inr (rec, s') \<and> lr_status rec = t_to_status t
    \<and> find_job jid s' = Some (apply_transition t (utc_now e 1) (j_started_at j) j)
    \<and> work_items s' = work_items s"
proof -
  have ne: "j_status j \<noteq> t_to_status t" using allowed by (auto simp: transition_allowed_iff)
  have ok: "job_update_ok j (apply_transition t (utc_now e 1) (j_started_at j) j)"
    using legacy_update(1) [OF inv j free] .
  obtain rec s' where run: "tx_bind (update_job (\<lambda>x. j_id x = jid) (apply_transition t (utc_now e 1) (j_started_at j))) (\<lambda>_.
       tx_bind (append_status_event (sub_env 2 e) jid (Some (j_status j)) (t_to_status t)
         (t_event_type t) (t_event_message t) (Some (transition_event_payload t)) None
         (t_actor t) (t_correlation_id t) (t_trace_id t) (utc_now e 1)) (\<lambda>_. reload_job jid)) s = Inr (rec, s')"
    using write_fresh [OF inv j transition_frames(1,3) ok c fresh] by blast
  have "transition_job e jid t s = Inr (rec, s')"
    using run j free allowed ne
    by (simp add: transition_job_def guard_legacy tx_bind_def tx_get_def)
  then show ?thesis
    using write_effect [OF inv j transition_frames(1,3) run]
    by (auto simp: record_from_row_def apply_transition_def)
qed

section \<open>Properties\<close>


definition sample_to_rendering :: transition where
  "sample_to_rendering = (plain_transition Rendering ''job_rendering'' ''started'' ''worker'' ''c'' ''t'')
     \<lparr>t_render_output_format := Some ''pdf'', t_render_template_id := Some ''tmpl''\<rparr>"


text \<open>
  A job outside custody never gets stuck on its way: a transition to an allowed status
  whose event satisfies the event contract succeeds, unless the fresh event identifier is
  already taken; a transition to a status the policy does not allow is refused, and so is one of an
  unknown job. In the refused cases nothing is written.
\<close>

theorem transition_decided:
  assumes inv: "schema_inv s"
  shows "(find_job jid s = None \<longrightarrow>
       transition_job e jid t s = Inl (ReportJobNotFoundError ''report_job_not_found''))
    \<and> (\<forall>j. find_job jid s = Some j \<and> j_custody_policy j = None \<longrightarrow>
         (j_status j \<noteq> t_to_status t \<and> \<not> is_report_job_transition_allowed (j_status j) (t_to_status t) \<longrightarrow>
            transition_job e jid t s = Inl (InvalidReportJobTransitionError ''report_job_invalid_transition''))
       \<and> (is_report_job_transition_allowed (j_status j) (t_to_status t)
            \<and> \<not> isl (build_report_status_event_contract (t_event_type t) (Some (j_status j)) (t_to_status t)
                      (Some (transition_event_payload t)) None)
            \<and> ''rse_'' @ uuid4_hex (sub_env 2 e) 0 \<notin> ev_id ` set (events s) \<longrightarrow>
            (\<exists>rec s'. transition_job e jid t s = Inr (rec, s') \<and> lr_status rec = t_to_status t)))"
proof (intro conjI allI impI; (elim conjE)?)
  assume "find_job jid s = None"
  then show "transition_job e jid t s = Inl (ReportJobNotFoundError ''report_job_not_found'')"
    by (simp add: transition_job_def guard_transition_def tx_run)
next
  fix j assume "find_job jid s = Some j" "j_custody_policy j = None" "j_status j \<noteq> t_to_status t"
    "\<not> is_report_job_transition_allowed (j_status j) (t_to_status t)"
  then show "transition_job e jid t s = Inl (InvalidReportJobTransitionError ''report_job_invalid_transition'')"
    by (simp add: transition_job_def guard_legacy tx_bind_def tx_get_def tx_raise_def)
next
  fix j assume j: "find_job jid s = Some j" and free: "j_custody_policy j = None"
    and allowed: "is_report_job_transition_allowed (j_status j) (t_to_status t)"
    and contract: "\<not> isl (build_report_status_event_contract (t_event_type t) (Some (j_status j))
       (t_to_status t) (Some (transition_event_payload t)) None)"
    and fresh: "''rse_'' @ uuid4_hex (sub_env 2 e) 0 \<notin> ev_id ` set (events s)"
  obtain c where c: "build_report_status_event_contract (t_event_type t) (Some (j_status j))
       (t_to_status t) (Some (transition_event_payload t)) None = Inr c"
    using contract by (auto simp: isl_def) (meson sum.exhaust)
  show "\<exists>rec s'. transition_job e jid t s = Inr (rec, s') \<and> lr_status rec = t_to_status t"
    using transition_legacy [OF inv j free allowed c fresh] by blast
qed

theorem transition_decided_witness:
  "(\<exists>rec s'. transition_job sample_env ''rjb_1'' sample_to_rendering (sample_ledger sample_job) = Inr (rec, s')
      \<and> lr_status rec = Rendering)
   \<and> transition_job sample_env ''rjb_1'' (sample_to_rendering\<lparr>t_to_status := Archived\<rparr>) (sample_ledger sample_job)
       = Inl (InvalidReportJobTransitionError ''report_job_invalid_transition'')"
proof -
  have inv: "schema_inv (sample_ledger sample_job)"
    by (rule schema_inv_sample) (simp_all add: samples custody_checks_def custody_scoped_def)
  have j: "find_job ''rjb_1'' (sample_ledger sample_job) = Some sample_job"
    by (simp add: samples find_job_def)
  have c: "\<not> isl (build_report_status_event_contract (t_event_type sample_to_rendering)
     (Some (j_status sample_job)) (t_to_status sample_to_rendering)
     (Some (transition_event_payload sample_to_rendering)) None)" by code_simp
  show ?thesis
    using transition_decided [OF inv, of "''rjb_1''" sample_env sample_to_rendering]
      transition_decided [OF inv, of "''rjb_1''" sample_env "sample_to_rendering\<lparr>t_to_status := Archived\<rparr>"] j c
    by (auto simp: samples sample_to_rendering_def plain_transition_def
        transition_allowed_iff)
qed

text \<open>
  Cancellation: a job outside custody is cancelled exactly when its status is not one of the
  blocked ones, and then carries the cancelled status, category and request flag, is no longer
  eligible for retry and has one more event; in every other case the call raises and writes nothing.
\<close>

theorem cancel_job_correct:
  assumes inv: "schema_inv s" and j: "find_job jid s = Some j" and free: "j_custody_policy j = None"
    and fresh: "''rse_'' @ uuid4_hex (sub_env 2 e) 0 \<notin> ev_id ` set (events s)"
  shows "if is_report_job_cancellable (j_status j)
     then \<exists>rec s' j' v. cancel_job e jid actor corr trace s = Inr (rec, s')
       \<and> find_job jid s' = Some j' \<and> j_status j' = Cancelled \<and> j_cancel_requested j'
       \<and> \<not> j_retry_eligible j' \<and> j_failure_category j' = Some Cancelled_category
       \<and> lr_status rec = Cancelled
       \<and> events s' = events s @ [v] \<and> ev_from v = Some (j_status j) \<and> ev_to v = Cancelled
     else cancel_job e jid actor corr trace s
       = Inl (InvalidReportJobTransitionError ''report_job_cannot_be_cancelled'')"
proof (cases "is_report_job_cancellable (j_status j)")
  case False
  then show ?thesis
    using j free by (simp add: cancel_job_def guard_legacy tx_bind_def tx_get_def tx_raise_def)
next
  case True
  let ?p = "Some [(''current_step'', JStr ''cancelled''), (''cancel_requested'', JBool True)]"
  have "\<not> isl (build_report_status_event_contract ''job_cancelled'' (Some (j_status j)) Cancelled ?p None)"
    by (cases "j_status j") code_simp+
  then obtain c where c:
    "build_report_status_event_contract ''job_cancelled'' (Some (j_status j)) Cancelled ?p None = Inr c"
    by (cases "build_report_status_event_contract ''job_cancelled'' (Some (j_status j)) Cancelled ?p None") auto
  have ok: "job_update_ok j (apply_cancel (utc_now e 1) j)"
    using legacy_update(2) [OF inv j free] .
  obtain rec s' where run: "tx_bind (update_job (\<lambda>x. j_id x = jid) (apply_cancel (utc_now e 1))) (\<lambda>_.
       tx_bind (append_status_event (sub_env 2 e) jid (Some (j_status j)) Cancelled ''job_cancelled''
         (Some CANCEL_MESSAGE) ?p None actor corr trace (utc_now e 1)) (\<lambda>_. reload_job jid)) s = Inr (rec, s')"
    using write_fresh [OF inv j transition_frames(2,4) ok c fresh] by blast
  have "cancel_job e jid actor corr trace s = Inr (rec, s')"
    using run j free True by (simp add: cancel_job_def guard_legacy tx_bind_def tx_get_def)
  then show ?thesis
    using write_effect [OF inv j transition_frames(2,4) run] True
    by (auto simp: apply_cancel_def record_from_row_def)
qed

theorem cancel_job_correct_witness:
  "\<exists>rec s'. cancel_job sample_env ''rjb_1'' ''ops'' ''c'' ''t'' (sample_ledger sample_job) = Inr (rec, s')
     \<and> lr_status rec = Cancelled"
proof -
  have inv: "schema_inv (sample_ledger sample_job)"
    by (rule schema_inv_sample) (simp_all add: samples custody_checks_def custody_scoped_def)
  have j: "find_job ''rjb_1'' (sample_ledger sample_job) = Some sample_job"
    by (simp add: samples find_job_def)
  show ?thesis
    using cancel_job_correct [OF inv j, of sample_env "''ops''" "''c''" "''t''"]
    by (auto simp: samples cancellable_iff)
qed

text \<open>
  An archived job has no completion time: archiving writes \<open>completed_at\<close> without keeping the
  value \<open>mark_completed\<close> stored, so the record \<open>mark_archived\<close> returns for a job it archives never
  carries one, whatever the job had before.
\<close>

theorem archived_drops_completed_at:
  assumes inv: "schema_inv s" and j: "find_job jid s = Some j" and free: "j_custody_policy j = None"
    and "j_status j \<noteq> Archived"
    and run: "mark_archived e jid actor corr trace req doc s = Inr (rec, s')"
  shows "lr_status rec = Archived \<and> lr_completed_at rec = None \<and> lr_archive_document_id rec = Some doc"
proof -
  let ?t = "(plain_transition Archived ''job_archived'' ''Portfolio review archived successfully.''
      actor corr trace)\<lparr>t_archive_request_id := Some req, t_archive_document_id := Some doc,
         t_archive_completed_at := Some (utc_now e 0)\<rparr>"
  have w: "tx_bind (update_job (\<lambda>x. j_id x = jid) (apply_transition ?t (utc_now (sub_env 1 e) 1) (j_started_at j))) (\<lambda>_.
         tx_bind (append_status_event (sub_env 2 (sub_env 1 e)) jid (Some (j_status j)) (t_to_status ?t)
           (t_event_type ?t) (t_event_message ?t) (Some (transition_event_payload ?t)) None
           (t_actor ?t) (t_correlation_id ?t) (t_trace_id ?t) (utc_now (sub_env 1 e) 1)) (\<lambda>_.
         reload_job jid)) s = Inr (rec, s')"
    using run assms(4) free j
    by (simp add: mark_archived_def transition_job_def guard_legacy tx_bind_def
        tx_get_def tx_raise_def plain_transition_def split: if_splits)
  from write_effect [OF inv j transition_frames(1,3) w] show ?thesis
    by (auto simp: record_from_row_def apply_transition_def plain_transition_def)
qed

theorem archived_drops_completed_at_witness:
  "\<exists>rec s'. mark_archived sample_env ''rjb_1'' ''w'' ''c'' ''t'' ''areq'' ''doc''
       (sample_ledger (sample_job\<lparr>j_status := Completed, j_completed_at := Some (Zulu 4000000)\<rparr>)) = Inr (rec, s')
     \<and> lr_status rec = Archived \<and> lr_completed_at rec = None"
proof -
  let ?j = "sample_job\<lparr>j_status := Completed, j_completed_at := Some (Zulu 4000000)\<rparr>"
  let ?run = "mark_archived sample_env ''rjb_1'' ''w'' ''c'' ''t'' ''areq'' ''doc'' (sample_ledger ?j)"
  have inv: "schema_inv (sample_ledger ?j)"
    by (rule schema_inv_sample) (simp_all add: samples custody_checks_def custody_scoped_def)
  have j: "find_job ''rjb_1'' (sample_ledger ?j) = Some ?j"
    by (simp add: samples find_job_def)
  have free: "j_custody_policy ?j = None" "j_status ?j \<noteq> Archived" by (simp_all add: samples)
  have "\<not> isl ?run" by code_simp
  then obtain rec s' where run: "?run = Inr (rec, s')" by (cases ?run) auto
  from archived_drops_completed_at [OF inv j free run] run show ?thesis by blast
qed

text \<open>
  Appending an event under an idempotency key with \<open>skip_if_idempotency_key_exists\<close> is
  idempotent when the key carries no surrounding whitespace: once a call with the key returned,
  every later call for the same job and key returns \<open>False\<close> and appends nothing.
\<close>

theorem append_job_event_idempotent:
  assumes key: "py_strip k = k" "k \<noteq> []"
    and run: "append_job_event e jid ty m p (Some k) a c tr True s = Inr (b, s1)"
    and later: "events s2 = events s1 @ vs" and job: "find_job jid s2 \<noteq> None"
  shows "append_job_event e' jid ty' m' p' (Some k) a' c' tr' True s2 = Inr (False, s2)"
proof -
  obtain j where j: "find_job jid s = Some j"
    using run by (cases "find_job jid s") (auto simp: append_job_event_def tx_run)
  have "\<exists>v \<in> set (events s1). ev_job_id v = jid \<and> ev_key v = Some k"
  proof (cases "\<exists>v \<in> set (events s). ev_job_id v = jid \<and> ev_key v = Some k")
    case True
    then have "s1 = s" using run j key(2) by (simp add: append_job_event_def tx_run)
    then show ?thesis using True by simp
  next
    case False
    then have "append_status_event (sub_env 1 e) jid (Some (j_status j)) (j_status j) ty (Some m) p
        (Some k) a c tr (utc_now e 0) s = Inr ((), s1)"
      using run j by (auto simp: append_job_event_def tx_bind_eq split: if_splits)
    then obtain ct where ct: "build_report_status_event_contract ty (Some (j_status j)) (j_status j) p (Some k) = Inr ct"
      and s1: "\<exists>v. events s1 = events s @ [v] \<and> ev_job_id v = jid \<and> ev_key v = ec_event_idempotency_key ct"
      unfolding append_status_event_def by (auto simp: insert_event_def tx_bind_eq split: if_splits)
    have "ec_event_idempotency_key ct = Some k"
      using ct key unfolding build_report_status_event_contract_def Let_def
      by (auto simp: normalized_event_idempotency_key_def py_blank_def split: if_splits)
    then show ?thesis using s1 by auto
  qed
  then have "\<exists>v \<in> set (events s2). ev_job_id v = jid \<and> ev_key v = Some k" using later by auto
  then show ?thesis using job key(2) by (auto simp: append_job_event_def tx_run)
qed

theorem append_job_event_idempotent_witness:
  "\<exists>s1. append_job_event sample_env ''rjb_1'' ''job_note'' ''m'' None (Some ''key'') ''a'' ''c'' ''t'' True
       (sample_ledger sample_job) = Inr (True, s1)
     \<and> append_job_event sample_env ''rjb_1'' ''job_note'' ''m'' None (Some ''key'') ''a'' ''c'' ''t'' True s1
         = Inr (False, s1)"
proof -
  let ?run = "append_job_event sample_env ''rjb_1'' ''job_note'' ''m'' None (Some ''key'') ''a'' ''c'' ''t'' True
      (sample_ledger sample_job)"
  have j: "find_job ''rjb_1'' (sample_ledger sample_job) = Some sample_job"
    by (simp add: samples find_job_def)
  have "map_sum (\<lambda>_. ()) fst ?run = Inr True" by code_simp
  then obtain s1 where run: "?run = Inr (True, s1)" by (metis map_sum_Inr)
  have k: "py_strip ''key'' = ''key''" "''key'' \<noteq> []" by code_simp+
  have "ledger_rel (sample_ledger sample_job) s1" using keepsD [OF keeps_append_job_event run] .
  then have "find_job ''rjb_1'' s1 \<noteq> None"
    using history_find_job [OF _ j, of s1] by (auto simp: ledger_rel_def)
  then show ?thesis
    using append_job_event_idempotent [OF k run, of s1 "[]"] run by auto
qed

text \<open>
  With surrounding whitespace the key is stored stripped but looked up as given, so the
  duplicate check never finds it: repeating the call appends a second event.
\<close>

theorem append_job_event_padded_key:
  assumes pad: "py_strip k \<noteq> k"
    and normal: "\<forall>v \<in> set (events s). ev_key v = map_option py_strip (ev_key v)"
    and run: "append_job_event e jid ty m p (Some k) a c tr True s = Inr (b, s1)"
  shows "b \<and> length (events s1) = length (events s) + 1"
proof -
  obtain j where j: "find_job jid s = Some j"
    using run by (cases "find_job jid s") (auto simp: append_job_event_def tx_run)
  have "\<not> (\<exists>v \<in> set (events s). ev_job_id v = jid \<and> ev_key v = Some k)"
    using normal pad by fastforce
  then have "b" and "append_status_event (sub_env 1 e) jid (Some (j_status j)) (j_status j) ty (Some m) p
        (Some k) a c tr (utc_now e 0) s = Inr ((), s1)"
    using run j by (auto simp: append_job_event_def tx_bind_eq split: if_splits)
  then show ?thesis by (elim append_event_Inr) simp
qed

theorem append_job_event_padded_key_witness:
  "\<exists>s1 s2. append_job_event sample_env ''rjb_1'' ''job_note'' ''m'' None (Some '' key'') ''a'' ''c'' ''t'' True
       (sample_ledger sample_job) = Inr (True, s1)
     \<and> append_job_event (sub_env 3 sample_env) ''rjb_1'' ''job_note'' ''m'' None (Some '' key'') ''a'' ''c'' ''t'' True s1
         = Inr (True, s2) \<and> length (events s2) = 2"
proof -
  let ?one = "append_job_event sample_env ''rjb_1'' ''job_note'' ''m'' None (Some '' key'') ''a'' ''c'' ''t'' True"
  let ?two = "append_job_event (sub_env 3 sample_env) ''rjb_1'' ''job_note'' ''m'' None (Some '' key'') ''a'' ''c'' ''t'' True"
  let ?s = "sample_ledger sample_job"
  have "map_sum (\<lambda>_. ()) fst (tx_bind ?one (\<lambda>b. tx_bind ?two (\<lambda>b'.
      tx_get (\<lambda>s. (b, b', map ev_key (events s))))) ?s)
    = Inr (True, True, [Some ''key'', Some ''key''])" by code_simp
  then obtain s1 s2 where one: "?one ?s = Inr (True, s1)" and two: "?two s1 = Inr (True, s2)"
    and keys: "map ev_key (events s2) = [Some ''key'', Some ''key'']"
    by (auto simp: tx_bind_def tx_get_def split: sum.splits prod.splits)
  have pad: "py_strip '' key'' \<noteq> '' key''" by code_simp
  have "length (events s1) = 1"
    using append_job_event_padded_key [OF pad _ one] by (simp add: samples)
  then show ?thesis using one two keys by (auto dest: arg_cong [where f = length])
qed

end
