(* ===== verification/Request_Identity.thy ===== *)
theory Request_Identity
  imports Iso_Dates Json_Injective Job_Transitions "HOL-Library.Multiset"
begin

text \<open>
  What a report request is to the ledger (\<open>src/src/app/reporting_jobs/ledger.py\<close>): the parts
  \<open>_request_parts\<close> extracts from each of the five request types, and the client identity hash that
  decides whether a repeated idempotency key asks for the same thing.

  A request type is a Pydantic model; a field of it that the code only passes on through
  \<open>model_dump(mode="json")\<close> is the JSON value of that dump.
\<close>

section \<open>\<open>str\<close> and \<open>repr\<close> of JSON values\<close>

definition repr_quote :: "string \<Rightarrow> char" where
  "repr_quote s = (if CHR 0x27 \<in> set s \<and> CHR 0x22 \<notin> set s then CHR 0x22 else CHR 0x27)"

definition repr_char :: "char \<Rightarrow> char \<Rightarrow> string" where
  "repr_char q c =
     (let n = (of_char c :: nat) in
      if c = q \<or> n = 92 then [CHR 0x5C, c]
      else if n = 9 then [CHR 0x5C, CHR ''t'']
      else if n = 10 then [CHR 0x5C, CHR ''n'']
      else if n = 13 then [CHR 0x5C, CHR ''r'']
      else if n < 32 \<or> 127 \<le> n \<and> n \<le> 160 \<or> n = 173
      then [CHR 0x5C, CHR ''x'', hex_digit (n div 16), hex_digit (n mod 16)]
      else [c])"

definition repr_string :: "string \<Rightarrow> string" where
  "repr_string s = (let q = repr_quote s in [q] @ concat (map (repr_char q) s) @ [q])"

function py_repr :: "json \<Rightarrow> string" where
  "py_repr JNull = ''None''"
| "py_repr (JBool b) = (if b then ''True'' else ''False'')"
| "py_repr (JInt i) = int_text i"
| "py_repr (JFloat s) = s"
| "py_repr (JStr s) = repr_string s"
| "py_repr (JList xs) = ''['' @ py_join '', '' (map py_repr xs) @ '']''"
| "py_repr (JObj d) =
     ''{'' @ py_join '', '' (map (\<lambda>kv. repr_string (fst kv) @ '': '' @ py_repr (snd kv)) d) @ ''}''"
  by pat_completeness auto
termination
  by (relation "measure size") (auto simp: size_json_elem intro: size_json_pair)

fun py_str :: "json \<Rightarrow> string" where
  "py_str (JStr s) = s"
| "py_str v = py_repr v"

section \<open>Requests\<close>

record portfolio_review_request =
  pq_portfolio_scope :: jobj
  pq_as_of_date :: date
  pq_output_formats :: "string list"
  pq_reporting_currency :: "string option"
  pq_options :: jobj
  pq_narrative_package :: "json option"
  pq_memo_package :: "json option"

text \<open>
  The proof-pack, wave and outcome requests: \<open>mq_key\<close> is the identifier the code strips
  (\<open>portfolio_id\<close>, for a wave \<open>wave_id\<close>), \<open>mq_input\<close> the dump of the report input.
\<close>

record managed_request =
  mq_key :: string
  mq_input :: jobj
  mq_output_formats :: "string list"
  mq_reporting_currency :: "string option"
  mq_options :: jobj

record selection =
  sel_tenant_id :: string
  sel_composite_id :: string
  sel_period_end :: date
  sel_reporting_currency :: string
  sel_dump :: json

record return_product =
  pd_selection :: selection
  pd_dump :: json

record composite_request =
  cq_notice_selection :: "selection option"
  cq_selection :: "selection option"
  cq_linked_selection :: "selection option"
  cq_eligibility_selection :: "selection option"
  cq_pooled_selection :: "selection option"
  cq_source_products :: "return_product list option"
  cq_source_context :: "json option"
  cq_output_formats :: "string list"
  cq_options :: jobj

datatype job_request =
    Portfolio_review portfolio_review_request
  | Proof_pack managed_request
  | Wave managed_request
  | Outcome_review managed_request
  | Composite_review composite_request

text \<open>\<open>assert self.selection is not None\<close> ends both methods when no selection is set.\<close>

definition primary_selection :: "composite_request \<Rightarrow> selection res" where
  "primary_selection q =
     (case cq_notice_selection q of Some x \<Rightarrow> Inr x | None \<Rightarrow>
      case cq_pooled_selection q of Some x \<Rightarrow> Inr x | None \<Rightarrow>
      case cq_eligibility_selection q of Some x \<Rightarrow> Inr x | None \<Rightarrow>
      case cq_linked_selection q of Some x \<Rightarrow> Inr x | None \<Rightarrow>
      case cq_selection q of Some x \<Rightarrow> Inr x | None \<Rightarrow> Inl (RuntimeError ''AssertionError''))"

definition capture_options :: "composite_request \<Rightarrow> jobj res" where
  "capture_options q =
     (case cq_notice_selection q of
        Some x \<Rightarrow> Inr (dset (cq_options q) ''composite_notice_selection'' (sel_dump x)) | None \<Rightarrow>
      case cq_pooled_selection q of
        Some x \<Rightarrow> Inr (dset (cq_options q) ''composite_pooled_selection'' (sel_dump x)) | None \<Rightarrow>
      case cq_eligibility_selection q of
        Some x \<Rightarrow> Inr (dset (cq_options q) ''composite_eligibility_selection'' (sel_dump x)) | None \<Rightarrow>
      case cq_linked_selection q of
        Some x \<Rightarrow> Inr (dset (cq_options q) ''composite_linked_selection'' (sel_dump x)) | None \<Rightarrow>
      case cq_selection q of None \<Rightarrow> Inl (RuntimeError ''AssertionError'') | Some x \<Rightarrow>
      let o1 = dset (cq_options q) ''composite_selection'' (sel_dump x);
          o2 = (case cq_source_context q of None \<Rightarrow> o1 | Some c \<Rightarrow> dset o1 ''composite_source_context'' c);
          o3 = (case cq_source_products q of None \<Rightarrow> o2
                | Some ps \<Rightarrow> dset o2 ''composite_source_products'' (JList (map pd_dump ps))) in
      Inr o3)"

section \<open>The parts of a request\<close>

record request_parts =
  rp_portfolio_scope :: jobj
  rp_as_of_date :: date
  rp_output_formats :: "string list"
  rp_reporting_currency :: "string option"
  rp_options :: jobj

definition portfolio_review_parts :: "portfolio_review_request \<Rightarrow> request_parts" where
  "portfolio_review_parts q =
     (let o1 = (case pq_narrative_package q of None \<Rightarrow> pq_options q
                | Some p \<Rightarrow> dset (pq_options q) ''proposal_narrative_package'' p);
          o2 = (case pq_memo_package q of None \<Rightarrow> o1 | Some p \<Rightarrow> dset o1 ''proposal_memo_package'' p) in
      \<lparr>rp_portfolio_scope = pq_portfolio_scope q, rp_as_of_date = pq_as_of_date q,
       rp_output_formats = pq_output_formats q, rp_reporting_currency = pq_reporting_currency q,
       rp_options = o2\<rparr>)"

text \<open>\<open>a or b\<close> on JSON values, and the date text of a report input.\<close>

definition jor :: "json \<Rightarrow> json \<Rightarrow> json" where "jor a b = (if jtrue a then a else b)"

definition parse_as_of :: "json \<Rightarrow> err \<Rightarrow> date res" where
  "parse_as_of v e = (if jtrue v then date_fromisoformat (take 10 (py_str v)) else Inl e)"

definition managed_parts :: "managed_request \<Rightarrow> string \<Rightarrow> jobj \<Rightarrow> date \<Rightarrow> request_parts" where
  "managed_parts q input_option portfolio_scope as_of =
     \<lparr>rp_portfolio_scope = portfolio_scope, rp_as_of_date = as_of,
      rp_output_formats = mq_output_formats q, rp_reporting_currency = mq_reporting_currency q,
      rp_options = dset (mq_options q) input_option (JObj (mq_input q))\<rparr>"

definition proof_pack_parts :: "managed_request \<Rightarrow> request_parts res" where
  "proof_pack_parts q =
     (let portfolio_id = py_strip (mq_key q) in
      bindE (require (portfolio_id \<noteq> []) (ValueError ''proof_pack_report_input.portfolio_id is required'')) (\<lambda>_.
      bindE (parse_as_of (jor (jget (mq_input q) ''as_of_date'') (jget (mq_input q) ''generated_at''))
               (ValueError ''proof_pack_report_input.as_of_date is required'')) (\<lambda>as_of.
      Inr (managed_parts q ''proof_pack_report_input''
             [(''portfolio_ids'', JList [JStr portfolio_id]),
              (''proof_pack_id'', jget (mq_input q) ''proof_pack_id'')] as_of))))"

text \<open>
  \<open>for item in report_input.get("items", [])\<close>: the objects of a list; iterating a string or
  an object yields strings, which the code skips; a value that cannot be iterated raises.
\<close>

definition wave_items :: "jobj \<Rightarrow> jobj list res" where
  "wave_items input =
     (case dget input ''items'' of None \<Rightarrow> Inr []
      | Some (JList xs) \<Rightarrow> Inr (List.map_filter (\<lambda>x. case x of JObj d \<Rightarrow> Some d | _ \<Rightarrow> None) xs)
      | Some (JStr _) \<Rightarrow> Inr [] | Some (JObj _) \<Rightarrow> Inr []
      | Some _ \<Rightarrow> Inl (PyTypeError ''not iterable''))"

definition wave_ids :: "string \<Rightarrow> jobj list \<Rightarrow> string list" where
  "wave_ids key items = map (\<lambda>d. py_strip (py_str (jget d key)))
     (filter (\<lambda>d. py_strip (py_str (jor (jget d key) (JStr []))) \<noteq> []) items)"

definition wave_parts :: "managed_request \<Rightarrow> request_parts res" where
  "wave_parts q =
     (let wave_id = py_strip (mq_key q) in
      bindE (require (wave_id \<noteq> []) (ValueError ''wave_report_input.wave_id is required'')) (\<lambda>_.
      bindE (parse_as_of (jor (jget (mq_input q) ''as_of_date'') (jget (mq_input q) ''generated_at''))
               (ValueError ''wave_report_input.as_of_date is required'')) (\<lambda>as_of.
      bindE (wave_items (mq_input q)) (\<lambda>items.
      Inr (managed_parts q ''wave_report_input''
             [(''portfolio_ids'', JList (map JStr (sorted_set (wave_ids ''portfolio_id'' items)))),
              (''wave_id'', JStr wave_id),
              (''proof_pack_ids'', JList (map JStr (sorted_set (wave_ids ''proof_pack_id'' items))))]
             as_of)))))"

definition outcome_parts :: "managed_request \<Rightarrow> request_parts res" where
  "outcome_parts q =
     (let portfolio_id = py_strip (mq_key q);
          review_window = (case jget (mq_input q) ''review_window'' of JObj d \<Rightarrow> d | _ \<Rightarrow> []) in
      bindE (require (portfolio_id \<noteq> []) (ValueError ''outcome_report_input.portfolio_id is required'')) (\<lambda>_.
      bindE (parse_as_of
               (jor (jget review_window ''end_date'')
                  (jor (jget review_window ''period_end'') (jget (mq_input q) ''generated_at'')))
               (ValueError ''outcome_report_input review window end date is required'')) (\<lambda>as_of.
      Inr (managed_parts q ''outcome_report_input''
             [(''portfolio_ids'', JList [JStr portfolio_id]),
              (''outcome_review_id'', jget (mq_input q) ''outcome_review_id'')] as_of))))"

definition composite_parts :: "composite_request \<Rightarrow> request_parts res" where
  "composite_parts q =
     bindE (primary_selection q) (\<lambda>sel.
     bindE (capture_options q) (\<lambda>options.
     Inr \<lparr>rp_portfolio_scope = [(''composite_id'', JStr (sel_composite_id sel))],
          rp_as_of_date = sel_period_end sel, rp_output_formats = cq_output_formats q,
          rp_reporting_currency = Some (sel_reporting_currency sel), rp_options = options\<rparr>))"

fun request_parts_of :: "job_request \<Rightarrow> request_parts res" where
  "request_parts_of (Composite_review q) = composite_parts q"
| "request_parts_of (Portfolio_review q) = Inr (portfolio_review_parts q)"
| "request_parts_of (Proof_pack q) = proof_pack_parts q"
| "request_parts_of (Wave q) = wave_parts q"
| "request_parts_of (Outcome_review q) = outcome_parts q"

section \<open>The client identity hash\<close>

definition BINDING_OPTION :: string where "BINDING_OPTION = ''composite_twr_invocation_binding''"

definition SERVER_DERIVED_REQUEST_OPTION_KEYS :: "string list" where
  "SERVER_DERIVED_REQUEST_OPTION_KEYS = [''idea_materialization_recovery_identity'', BINDING_OPTION]"

definition normalize_key :: "string \<Rightarrow> jobj \<Rightarrow> jobj" where
  "normalize_key key d =
     (case dget d key of Some (JList xs) \<Rightarrow> dset d key (JList (map JStr (sorted_set (map py_str xs))))
      | _ \<Rightarrow> d)"

definition set_normalized :: "jobj \<Rightarrow> string list \<Rightarrow> jobj" where
  "set_normalized payload set_keys = fold normalize_key set_keys payload"

definition strip_server_options :: "jobj \<Rightarrow> jobj" where
  "strip_server_options options =
     filter (\<lambda>kv. fst kv \<notin> set SERVER_DERIVED_REQUEST_OPTION_KEYS) options"

definition hash_payload :: "string \<Rightarrow> request_parts \<Rightarrow> string \<Rightarrow> string \<Rightarrow> bool \<Rightarrow> jobj" where
  "hash_payload report_type p tenant_id region strip =
     (let options = (if strip then strip_server_options (rp_options p) else rp_options p) in
      [(''report_type'', JStr report_type),
       (''portfolio_scope'', JObj (set_normalized (rp_portfolio_scope p) [''portfolio_ids''])),
       (''as_of_date'', JStr (date_isoformat (rp_as_of_date p))),
       (''requested_output_formats'', JList (map JStr (sort (rp_output_formats p)))),
       (''reporting_currency'', jopt (rp_reporting_currency p)),
       (''options'', JObj (set_normalized options [''sections'', ''allocation_dimensions''])),
       (''tenant_id'', JStr tenant_id),
       (''region'', JStr region)])"

definition client_identity_hash ::
    "env \<Rightarrow> string \<Rightarrow> request_parts \<Rightarrow> string \<Rightarrow> string \<Rightarrow> bool \<Rightarrow> string" where
  "client_identity_hash e report_type p tenant_id region strip =
     env_sha256 e (canonical_json (JObj (hash_payload report_type p tenant_id region strip)))"

definition compute_request_hash ::
    "env \<Rightarrow> string \<Rightarrow> job_request \<Rightarrow> caller_context \<Rightarrow> bool \<Rightarrow> string res" where
  "compute_request_hash e report_type request caller include_server_derived =
     bindE (request_parts_of request) (\<lambda>p.
     Inr (client_identity_hash e report_type p (cc_tenant_id caller) (cc_region caller)
            (\<not> include_server_derived)))"

definition record_parts :: "job_record \<Rightarrow> request_parts" where
  "record_parts rec =
     \<lparr>rp_portfolio_scope = lr_portfolio_scope rec, rp_as_of_date = lr_as_of_date rec,
      rp_output_formats = lr_requested_output_formats rec,
      rp_reporting_currency = lr_reporting_currency rec, rp_options = lr_options rec\<rparr>"

definition client_identity_hash_from_record :: "env \<Rightarrow> job_record \<Rightarrow> string" where
  "client_identity_hash_from_record e rec =
     client_identity_hash e (lr_report_type rec) (record_parts rec) (lr_tenant_id rec)
       (lr_region rec) True"

section \<open>When two requests have the same identity\<close>

text \<open>
  Two values of a request field ask for the same thing when they are equal up to the order of
  object keys, or, in a field declared to be a set, when they are lists of the same \<open>str\<close> items.
\<close>

definition same_value :: "bool \<Rightarrow> json option \<Rightarrow> json option \<Rightarrow> bool" where
  "same_value declared v w \<longleftrightarrow>
     (case (v, w) of (Some (JList xs), Some (JList ys)) \<Rightarrow>
        if declared then set (map py_str xs) = set (map py_str ys) else jsort (JList xs) = jsort (JList ys)
      | _ \<Rightarrow> map_option jsort v = map_option jsort w)"

definition same_fields :: "string list \<Rightarrow> jobj \<Rightarrow> jobj \<Rightarrow> bool" where
  "same_fields set_keys d d' \<longleftrightarrow>
     list_all (\<lambda>k. same_value (k \<in> set set_keys) (dget d k) (dget d' k)) (dkeys d @ dkeys d')"

definition same_request :: "request_parts \<Rightarrow> request_parts \<Rightarrow> bool" where
  "same_request p q \<longleftrightarrow>
     same_fields [''portfolio_ids''] (rp_portfolio_scope p) (rp_portfolio_scope q)
     \<and> rp_as_of_date p = rp_as_of_date q
     \<and> mset (rp_output_formats p) = mset (rp_output_formats q)
     \<and> rp_reporting_currency p = rp_reporting_currency q
     \<and> same_fields [''sections'', ''allocation_dimensions'']
         (strip_server_options (rp_options p)) (strip_server_options (rp_options q))"

text \<open>Parts that come from parsed JSON: distinct keys, finite floats and a representable date.\<close>

definition wf_parts :: "request_parts \<Rightarrow> bool" where
  "wf_parts p \<longleftrightarrow> distinct (dkeys (rp_portfolio_scope p)) \<and> distinct (dkeys (rp_options p))
     \<and> float_texts (JObj (rp_portfolio_scope p)) \<and> float_texts (JObj (rp_options p))
     \<and> 1 \<le> rp_as_of_date p \<and> rp_as_of_date p \<le> MAX_ORDINAL"

definition norm_value :: "json option \<Rightarrow> json option" where
  "norm_value v = (case v of Some (JList xs) \<Rightarrow> Some (JList (map JStr (sorted_set (map py_str xs)))) | _ \<Rightarrow> v)"

lemma dget_normalize_key: "dget (normalize_key k d) k' = (if k' = k then norm_value (dget d k) else dget d k')"
  by (auto simp: normalize_key_def norm_value_def split: option.split json.split)

lemma norm_value_idem: "norm_value (norm_value v) = norm_value v"
  by (auto simp: norm_value_def comp_def sorted_set_def sort_key_id_if_sorted distinct_remdups_id
      split: option.split json.split)

lemma dget_set_normalized:
  "dget (set_normalized d keys) k = (if k \<in> set keys then norm_value (dget d k) else dget d k)"
  unfolding set_normalized_def
  by (induction keys arbitrary: d) (auto simp: dget_normalize_key norm_value_idem)

lemma distinct_dset [simp]: "distinct (dkeys (dset (d :: (string \<times> 'v) list) k v)) = distinct (dkeys d)"
proof -
  have f: "set (map fst (dset d k v)) = insert k (set (map fst d))" for d :: "(string \<times> 'v) list" and k v
    using set_dkeys_dset [of d k v] by (simp only: dkeys_def)
  show ?thesis
    by (induction d k v rule: dset.induct) (auto simp: dkeys_def f simp del: set_map)
qed

lemma distinct_normalize_key: "distinct (dkeys (normalize_key k d)) = distinct (dkeys d)"
  by (auto simp: normalize_key_def split: option.split json.split)

lemma distinct_set_normalized [simp]: "distinct (dkeys (set_normalized d keys)) = distinct (dkeys d)"
  unfolding set_normalized_def by (induction keys arbitrary: d) (auto simp: distinct_normalize_key)

definition sorted_obj :: "jobj \<Rightarrow> jobj" where
  "sorted_obj d = sort_key fst (map (\<lambda>kv. (fst kv, jsort (snd kv))) d)"

lemma jsort_JObj: "jsort (JObj d) = JObj (sorted_obj d)"
  by (simp add: sorted_obj_def)

lemma dkeys_sorted_obj: "distinct (dkeys (sorted_obj d)) = distinct (dkeys d)"
proof -
  have "distinct (map fst (sort_key fst xs)) = distinct (map fst xs)" for xs :: "(string \<times> json) list"
    by (metis distinct_map distinct_sort set_sort)
  then show ?thesis by (simp add: sorted_obj_def dkeys_def comp_def)
qed

lemma dget_map: "dget (map (\<lambda>kv. (fst kv, f (snd kv))) d) k = map_option f (dget d k)"
  by (induction d) (auto simp: dget_def)

lemma dget_sorted_obj:
  assumes "distinct (dkeys d)"
  shows "dget (sorted_obj d) k = map_option jsort (dget d k)"
proof -
  let ?m = "map (\<lambda>kv. (fst kv, jsort (snd kv))) d"
  have "map_of (sorted_obj d) = map_of ?m"
    using assms dkeys_sorted_obj [of d]
    by (subst map_of_inject_set) (simp_all add: sorted_obj_def dkeys_def comp_def)
  then show ?thesis using dget_map [of jsort d k] by (simp add: dget_def)
qed

lemma sorted_obj_eq_iff:
  assumes "distinct (dkeys d)" "distinct (dkeys d')"
  shows "sorted_obj d = sorted_obj d' \<longleftrightarrow> (\<forall>k. map_option jsort (dget d k) = map_option jsort (dget d' k))"
proof
  assume "\<forall>k. map_option jsort (dget d k) = map_option jsort (dget d' k)"
  then have "map_of (sorted_obj d) = map_of (sorted_obj d')"
    using assms by (auto simp: dget_sorted_obj dget_def [symmetric] fun_eq_iff)
  then have "set (sorted_obj d) = set (sorted_obj d')"
    using assms dkeys_sorted_obj [of d] dkeys_sorted_obj [of d']
    by (subst (asm) map_of_inject_set) (simp_all add: dkeys_def)
  then have "sort_key fst (sorted_obj d) = sort_key fst (sorted_obj d')"
    using assms dkeys_sorted_obj [of d] dkeys_sorted_obj [of d']
    by (intro sort_key_distinct_eq) (simp_all add: dkeys_def)
  then show "sorted_obj d = sorted_obj d'"
    by (simp add: sorted_obj_def sort_key_id_if_sorted sorted_sort_key)
next
  assume "sorted_obj d = sorted_obj d'"
  then show "\<forall>k. map_option jsort (dget d k) = map_option jsort (dget d' k)"
    using assms by (metis dget_sorted_obj)
qed

lemma sorted_set_eq_iff: "sorted_set xs = sorted_set ys \<longleftrightarrow> set xs = set ys"
  using sorted_set_cong set_sorted_set by metis

lemma map_JStr_eq: "map JStr xs = map JStr ys \<longleftrightarrow> xs = ys"
  by (simp add: inj_map_eq_map inj_def)

lemma map_jsort_JStr: "map (jsort \<circ> JStr) xs = map JStr xs"
  by simp

lemma norm_value_eq_iff:
  "map_option jsort (norm_value v) = map_option jsort (norm_value w) \<longleftrightarrow> same_value True v w"
  by (auto simp: norm_value_def same_value_def comp_def map_JStr_eq sorted_set_eq_iff
      split: option.splits json.splits)

lemma same_value_plain: "same_value False v w \<longleftrightarrow> map_option jsort v = map_option jsort w"
  by (cases v; cases w) (auto simp: same_value_def split: json.split)

lemma same_value_None [simp]: "same_value b None None"
  by (simp add: same_value_def)

lemma same_fields_iff: "same_fields keys d d' \<longleftrightarrow> (\<forall>k. same_value (k \<in> set keys) (dget d k) (dget d' k))"
proof -
  have "same_value b (dget d k) (dget d' k)" if "k \<notin> set (dkeys d)" "k \<notin> set (dkeys d')" for b k
    using that by (simp add: dget_None [symmetric])
  then show ?thesis by (auto simp: same_fields_def list_all_iff)
qed

text \<open>The normalised objects have the same canonical form exactly when the fields are the same.\<close>

lemma set_normalized_eq_iff:
  assumes "distinct (dkeys d)" "distinct (dkeys d')"
  shows "jsort (JObj (set_normalized d keys)) = jsort (JObj (set_normalized d' keys)) \<longleftrightarrow> same_fields keys d d'"
proof -
  have "map_option jsort (dget (set_normalized d keys) k) = map_option jsort (dget (set_normalized d' keys) k)
      \<longleftrightarrow> same_value (k \<in> set keys) (dget d k) (dget d' k)" for k
    by (simp add: dget_set_normalized norm_value_eq_iff same_value_plain)
  then show ?thesis
    using assms by (simp only: jsort_JObj json.inject sorted_obj_eq_iff distinct_set_normalized same_fields_iff)
qed

lemma sort_eq_iff_mset: "sort xs = sort ys \<longleftrightarrow> mset xs = mset (ys :: string list)"
  by (metis mset_sort sorted_list_of_multiset_mset)

lemma jopt_inject [simp]: "jopt a = jopt b \<longleftrightarrow> a = b"
  by (cases a; cases b) simp_all

lemma jsort_jopt [simp]: "jsort (jopt a) = jopt a"
  by (cases a) simp_all

lemma date_isoformat_inject:
  assumes "1 \<le> m" "m \<le> MAX_ORDINAL" "1 \<le> n" "n \<le> MAX_ORDINAL"
  shows "date_isoformat m = date_isoformat n \<longleftrightarrow> m = n"
  using date_fromisoformat_isoformat [OF assms(1,2)] date_fromisoformat_isoformat [OF assms(3,4)]
  by (metis sum.inject(2))

lemma distinct_strip: "distinct (dkeys d) \<Longrightarrow> distinct (dkeys (strip_server_options d))"
  unfolding dkeys_def strip_server_options_def by (rule distinct_map_filter)

lemma sorted_obj_zip_eq:
  assumes "distinct ks" "length vs = length ks" "length ws = length ks"
  shows "sorted_obj (zip ks vs) = sorted_obj (zip ks ws) \<longleftrightarrow> map jsort vs = map jsort ws"
proof -
  have m: "map (\<lambda>kv. (fst kv, jsort (snd kv))) (zip ks us) = zip ks (map jsort us)" for us
    by (simp add: zip_map2 case_prod_unfold)
  have key: "map_of (zip ks (map jsort us)) (ks ! i) = Some (jsort (us ! i))"
    if "length us = length ks" "i < length ks" for us i
    using map_of_zip_nth [of ks "map jsort us" i] assms(1) that by simp
  have "map jsort vs = map jsort ws" if "sorted_obj (zip ks vs) = sorted_obj (zip ks ws)"
  proof -
    have "set (zip ks (map jsort vs)) = set (zip ks (map jsort ws))"
      using that unfolding sorted_obj_def m by (metis set_sort)
    then have "map_of (zip ks (map jsort vs)) = map_of (zip ks (map jsort ws))"
      using assms by (subst map_of_inject_set) simp_all
    then have "jsort (vs ! i) = jsort (ws ! i)" if "i < length ks" for i
      using key [OF assms(2) that] key [OF assms(3) that] by simp
    then show ?thesis using assms by (intro nth_equalityI) simp_all
  qed
  then show ?thesis unfolding sorted_obj_def m by auto
qed

definition HASH_FIELDS :: "string list" where
  "HASH_FIELDS = [''report_type'', ''portfolio_scope'', ''as_of_date'', ''requested_output_formats'',
     ''reporting_currency'', ''options'', ''tenant_id'', ''region'']"

definition hash_values :: "string \<Rightarrow> request_parts \<Rightarrow> string \<Rightarrow> string \<Rightarrow> json list" where
  "hash_values rt p t r =
     [JStr rt, JObj (set_normalized (rp_portfolio_scope p) [''portfolio_ids'']),
      JStr (date_isoformat (rp_as_of_date p)), JList (map JStr (sort (rp_output_formats p))),
      jopt (rp_reporting_currency p),
      JObj (set_normalized (strip_server_options (rp_options p)) [''sections'', ''allocation_dimensions'']),
      JStr t, JStr r]"

lemma hash_payload_zip: "hash_payload rt p t r True = zip HASH_FIELDS (hash_values rt p t r)"
  by (simp add: hash_payload_def HASH_FIELDS_def hash_values_def Let_def)

lemma distinct_HASH_FIELDS: "distinct HASH_FIELDS"
  by code_simp

text \<open>The identity payloads have the same canonical form exactly for the same request.\<close>

lemma hash_payload_eq_iff:
  assumes "wf_parts p" "wf_parts q"
  shows "jsort (JObj (hash_payload rt p t r True)) = jsort (JObj (hash_payload rt' q t' r' True))
    \<longleftrightarrow> rt = rt' \<and> t = t' \<and> r = r' \<and> same_request p q"
proof -
  have "jsort (JObj (hash_payload rt p t r True)) = jsort (JObj (hash_payload rt' q t' r' True))
      \<longleftrightarrow> map jsort (hash_values rt p t r) = map jsort (hash_values rt' q t' r')"
    unfolding jsort_JObj json.inject hash_payload_zip
    by (rule sorted_obj_zip_eq [OF distinct_HASH_FIELDS]) (simp_all add: HASH_FIELDS_def hash_values_def)
  also have "\<dots> \<longleftrightarrow> rt = rt' \<and> t = t' \<and> r = r' \<and> same_request p q"
    using assms unfolding hash_values_def same_request_def wf_parts_def
    by (auto simp: comp_def map_JStr_eq sort_eq_iff_mset date_isoformat_inject
        set_normalized_eq_iff distinct_strip simp del: jsort.simps(7))
  finally show ?thesis .
qed

lemma float_texts_normalized:
  "float_texts (JObj d) \<Longrightarrow> float_texts (JObj (set_normalized d keys))"
proof -
  have s: "set (dset d k v) \<subseteq> insert (k, v) (set d)" for d :: jobj and k v
    by (induction d k v rule: dset.induct) auto
  have "float_texts (JObj (normalize_key k d))" if "float_texts (JObj d)" for k and d :: jobj
    using that s by (fastforce simp: normalize_key_def list_all_iff split: option.split json.split)
  then show "float_texts (JObj d) \<Longrightarrow> ?thesis"
    unfolding set_normalized_def by (induction keys arbitrary: d) auto
qed

lemma float_texts_hash_payload:
  assumes "wf_parts p"
  shows "float_texts (JObj (hash_payload rt p t r True))"
proof -
  have "float_texts (JObj (set_normalized (rp_portfolio_scope p) keys))"
    "float_texts (JObj (set_normalized (strip_server_options (rp_options p)) keys))" for keys
    using assms float_texts_normalized [of "rp_portfolio_scope p" keys]
      float_texts_normalized [of "strip_server_options (rp_options p)" keys]
    by (auto simp: wf_parts_def list_all_iff strip_server_options_def)
  then show ?thesis
    by (cases "rp_reporting_currency p") (simp_all add: hash_payload_def Let_def list_all_iff)
qed

abbreviation identity_text :: "string \<Rightarrow> request_parts \<Rightarrow> string \<Rightarrow> string \<Rightarrow> string" where
  "identity_text rt p t r \<equiv> canonical_json (JObj (hash_payload rt p t r True))"

lemma identity_text_eq_iff:
  assumes "wf_parts p" "wf_parts q"
  shows "identity_text rt p t r = identity_text rt' q t' r'
    \<longleftrightarrow> rt = rt' \<and> t = t' \<and> r = r' \<and> same_request p q"
proof -
  have "identity_text rt p t r = identity_text rt' q t' r'
      \<longleftrightarrow> jsort (JObj (hash_payload rt p t r True)) = jsort (JObj (hash_payload rt' q t' r' True))"
    using canonical_json_inject [OF float_texts_hash_payload [OF assms(1)] float_texts_hash_payload [OF assms(2)]]
    unfolding canonical_json_def by metis
  then show ?thesis by (simp only: hash_payload_eq_iff [OF assms])
qed

lemma same_request_hash:
  "wf_parts p \<Longrightarrow> wf_parts q \<Longrightarrow> same_request p q \<Longrightarrow>
   client_identity_hash e rt p t r True = client_identity_hash e rt q t r True"
  unfolding client_identity_hash_def by (metis identity_text_eq_iff)

subsection \<open>The identity of a stored request\<close>

fun scalar :: "json \<Rightarrow> bool" where
  "scalar (JList _) = False"
| "scalar (JObj _) = False"
| "scalar _ = True"

definition declared_scalars :: "string list \<Rightarrow> jobj \<Rightarrow> bool" where
  "declared_scalars keys d \<longleftrightarrow>
     list_all (\<lambda>k. case dget d k of Some (JList xs) \<Rightarrow> list_all scalar xs | _ \<Rightarrow> True) keys"

definition stored_parts :: "request_parts \<Rightarrow> json option \<Rightarrow> request_parts" where
  "stored_parts p binding = p\<lparr>
     rp_portfolio_scope := sorted_obj (rp_portfolio_scope p),
     rp_output_formats := sort (rp_output_formats p),
     rp_options := sorted_obj (case binding of None \<Rightarrow> rp_options p
       | Some b \<Rightarrow> dset (rp_options p) BINDING_OPTION b)\<rparr>"

lemma jsort_scalar: "scalar x \<Longrightarrow> jsort x = x"
  by (cases x) simp_all

lemma jsort_idem [simp]: "jsort (jsort v) = jsort v"
proof (induction v rule: jsort.induct)
  case (7 d)
  have "map (\<lambda>kv. (fst kv, jsort (snd kv))) (sorted_obj d) = sorted_obj d"
    using 7 by (intro map_idI) (force simp: sorted_obj_def)
  then show ?case
    unfolding jsort_JObj by (subst (1) sorted_obj_def) (simp add: sorted_obj_def sort_key_id_if_sorted sorted_sort_key)
qed simp_all

lemma sorted_obj_idem [simp]: "sorted_obj (sorted_obj d) = sorted_obj d"
  using jsort_idem [of "JObj d"] by (simp only: jsort_JObj json.inject)

lemma same_value_sorted:
  assumes "distinct (dkeys d)" "declared_scalars keys d"
  shows "same_value (k \<in> set keys) (dget (sorted_obj d) k) (dget d k)"
proof (cases "dget d k")
  case (Some v)
  have "map jsort xs = xs" if "k \<in> set keys" "v = JList xs" for xs
    using assms(2) that Some by (auto simp: declared_scalars_def list_all_iff jsort_scalar intro!: map_idI)
  then show ?thesis
    using Some by (cases v) (auto simp: dget_sorted_obj [OF assms(1)] same_value_def jsort_JObj simp del: jsort.simps(7))
qed (simp add: dget_sorted_obj [OF assms(1)])

lemma dget_strip: "dget (strip_server_options d) k =
    (if k \<in> set SERVER_DERIVED_REQUEST_OPTION_KEYS then None else dget d k)"
  unfolding strip_server_options_def dget_def by (induction d) auto

lemma stored_same_request:
  assumes wf: "wf_parts p"
    and scope: "declared_scalars [''portfolio_ids''] (rp_portfolio_scope p)"
    and options: "declared_scalars [''sections'', ''allocation_dimensions''] (rp_options p)"
  shows "same_request (stored_parts p binding) p"
proof -
  let ?keys = "[''sections'', ''allocation_dimensions'']"
  let ?o = "case binding of None \<Rightarrow> rp_options p | Some b \<Rightarrow> dset (rp_options p) BINDING_OPTION b"
  have d: "distinct (dkeys (rp_options p))" "distinct (dkeys ?o)" "distinct (dkeys (rp_portfolio_scope p))"
    using wf by (auto simp: wf_parts_def split: option.split)
  have bk: "BINDING_OPTION \<in> set SERVER_DERIVED_REQUEST_OPTION_KEYS"
    by (simp add: SERVER_DERIVED_REQUEST_OPTION_KEYS_def)
  have o: "dget ?o k = dget (rp_options p) k" if "k \<notin> set SERVER_DERIVED_REQUEST_OPTION_KEYS" for k
    using that bk by (auto split: option.split)
  have "same_value (k \<in> set ?keys) (dget (strip_server_options (sorted_obj ?o)) k)
      (dget (strip_server_options (rp_options p)) k)" for k
    using same_value_sorted [OF d(1) options, of k]
    by (auto simp: dget_strip dget_sorted_obj [OF d(1)] dget_sorted_obj [OF d(2)] o)
  moreover have "same_fields [''portfolio_ids''] (sorted_obj (rp_portfolio_scope p)) (rp_portfolio_scope p)"
    unfolding same_fields_iff using same_value_sorted [OF d(3) scope] by blast
  ultimately show ?thesis by (simp add: same_request_def stored_parts_def same_fields_iff)
qed

text \<open>
  Recomputing the client identity from the stored fields (keys sorted, formats sorted, the
  invocation binding added by the server) gives the hash of the original request, when the
  declared sets are lists of scalars, as the request contracts have them; an item that is itself an
  object is hashed by the text of its key order, which storing changes.
\<close>

lemma stored_identity:
  assumes "wf_parts p" and "wf_parts (stored_parts p binding)"
    and "declared_scalars [''portfolio_ids''] (rp_portfolio_scope p)"
    and "declared_scalars [''sections'', ''allocation_dimensions''] (rp_options p)"
    and "record_parts rec = stored_parts p binding"
  shows "client_identity_hash_from_record e rec =
    client_identity_hash e (lr_report_type rec) p (lr_tenant_id rec) (lr_region rec) True"
  using same_request_hash [OF assms(2,1) stored_same_request [OF assms(1,3,4)]] assms(5)
  by (simp add: client_identity_hash_from_record_def)

section \<open>Properties\<close>

definition sample_parts :: "string list \<Rightarrow> string list \<Rightarrow> request_parts" where
  "sample_parts portfolios sections = \<lparr>
     rp_portfolio_scope = [(''portfolio_ids'', JList (map JStr portfolios))], rp_as_of_date = 739728,
     rp_output_formats = [''pdf'', ''json''], rp_reporting_currency = Some ''USD'',
     rp_options = [(''sections'', JList (map JStr sections)), (''depth'', JFloat ''1.5'')]\<rparr>"

text \<open>
  (C5) The request hash answers exactly ``did the client ask for the same thing''. Two requests
  have the same hash if and only if they agree on report type, tenant, region, date, currency,
  output formats (as a multiset), on scope and options up to the order of object keys, and on the
  declared sets (\<open>portfolio_ids\<close>, \<open>sections\<close>, \<open>allocation_dimensions\<close>) as sets, whatever options the
  server derived. Only the ``only if'' part rests on the hypothesis that SHA-256 does not collide
  on the two identity texts.
\<close>

theorem request_hash_decides_intent:
  assumes "wf_parts p" and "wf_parts q"
    and "env_sha256 e (identity_text rt p t r) = env_sha256 e (identity_text rt' q t' r') \<Longrightarrow>
      identity_text rt p t r = identity_text rt' q t' r'"
  shows "client_identity_hash e rt p t r True = client_identity_hash e rt' q t' r' True
    \<longleftrightarrow> rt = rt' \<and> t = t' \<and> r = r' \<and> same_request p q"
proof -
  have "client_identity_hash e rt p t r True = client_identity_hash e rt' q t' r' True
      \<longleftrightarrow> identity_text rt p t r = identity_text rt' q t' r'"
    using assms(3) unfolding client_identity_hash_def by metis
  then show ?thesis by (simp only: identity_text_eq_iff [OF assms(1,2)])
qed

theorem request_hash_decides_intent_witness:
  "client_identity_hash (sample_env\<lparr>env_sha256 := id\<rparr>) ''portfolio_review''
       (sample_parts [''B'', ''A''] [''OVERVIEW'']) ''t1'' ''sg'' True
     = client_identity_hash (sample_env\<lparr>env_sha256 := id\<rparr>) ''portfolio_review''
       (sample_parts [''A'', ''B'', ''A''] [''OVERVIEW'']) ''t1'' ''sg'' True
   \<and> client_identity_hash (sample_env\<lparr>env_sha256 := id\<rparr>) ''portfolio_review''
       (sample_parts [''A''] [''OVERVIEW'']) ''t1'' ''sg'' True
     \<noteq> client_identity_hash (sample_env\<lparr>env_sha256 := id\<rparr>) ''portfolio_review''
       (sample_parts [''A''] [''RISK'']) ''t1'' ''sg'' True"
proof -
  have wf: "wf_parts (sample_parts [''B'', ''A''] [''OVERVIEW''])"
    "wf_parts (sample_parts [''A'', ''B'', ''A''] [''OVERVIEW''])"
    "wf_parts (sample_parts [''A''] [''OVERVIEW''])" "wf_parts (sample_parts [''A''] [''RISK''])"
    by code_simp+
  have same: "same_request (sample_parts [''B'', ''A''] [''OVERVIEW'']) (sample_parts [''A'', ''B'', ''A''] [''OVERVIEW''])"
    "\<not> same_request (sample_parts [''A''] [''OVERVIEW'']) (sample_parts [''A''] [''RISK''])"
    by code_simp+
  note hash = request_hash_decides_intent [where e = "sample_env\<lparr>env_sha256 := id\<rparr>"
      and rt = "''portfolio_review''" and rt' = "''portfolio_review''" and t = "''t1''" and t' = "''t1''"
      and r = "''sg''" and r' = "''sg''"]
  show ?thesis
    using hash [OF wf(1,2)] hash [OF wf(3,4)] same by simp
qed

end
