(* ===== verification/Batch_Selection.thy ===== *)
theory Batch_Selection
  imports Request_Identity
begin

text \<open>
  The pure parts of the report-batch orchestrator (\<open>src/src/app/report_batch_orchestrator\<close>): batch and
  item statuses with the reconciliation rule (\<open>lifecycle_policy.py\<close>), the selection of portfolios
  (\<open>selector.py\<close>), and the business cycle of a scheduled batch with its idempotency key
  (\<open>schedule.py\<close>).
\<close>

section \<open>Statuses\<close>

datatype batch_status =
    Batch_materialized | Batch_running | Batch_paused | Batch_cancelled | Batch_completed
  | Batch_completed_with_failures | Batch_failed

datatype item_status =
    Item_materialized | Item_leased | Item_waiting | Item_succeeded | Item_failed_retryable
  | Item_failed_terminal | Item_cancelled | Item_recovery_pending

definition batch_item_failure_outcome :: "bool \<Rightarrow> int \<Rightarrow> int \<Rightarrow> item_status \<times> bool" where
  "batch_item_failure_outcome retryable tries maximum =
     (let status = (if retryable \<and> tries < maximum then Item_failed_retryable else Item_failed_terminal)
      in (status, status = Item_failed_retryable))"

definition reconciled_batch_status :: "item_status list \<Rightarrow> batch_status option" where
  "reconciled_batch_status item_statuses =
     (let statuses = set item_statuses in
      if statuses = {} then None
      else if statuses \<subseteq> {Item_succeeded, Item_cancelled}
      then Some (if Item_cancelled \<notin> statuses then Batch_completed else Batch_cancelled)
      else if statuses \<subseteq> {Item_succeeded, Item_failed_terminal, Item_cancelled}
      then Some Batch_completed_with_failures
      else if Item_failed_retryable \<in> statuses \<and> statuses \<subseteq> {Item_succeeded, Item_failed_retryable}
      then Some Batch_failed
      else None)"

section \<open>Selecting portfolios\<close>

record portfolio_candidate =
  pc_portfolio_id :: string
  pc_tenant_id :: string
  pc_region :: string
  pc_active :: bool
  pc_selected :: bool
  pc_source_system :: string
  pc_source_object :: string

record batch_request =
  bq_selector_mode :: string
  bq_portfolio_ids :: "string list"
  bq_source_candidates :: "portfolio_candidate list"
  bq_as_of_date :: date
  bq_requested_output_formats :: "string list"
  bq_reporting_currency :: "string option"
  bq_options :: jobj
  bq_max_batch_size :: int

record materialized_portfolio =
  mp_portfolio_id :: string
  mp_source_system :: string
  mp_source_object :: string

definition SUPPORTED_MATERIALIZATION_SELECTORS :: "string list" where
  "SUPPORTED_MATERIALIZATION_SELECTORS =
     [''explicit_portfolio_list'', ''selected_subset'', ''all_active_portfolios'', ''batch_manifest'']"

abbreviation selector_error :: "string \<Rightarrow> string \<Rightarrow> err" where
  "selector_error code message \<equiv> BatchSelectorValidationError code message"

text \<open>The dictionary of candidates by id and the ids met again.\<close>

definition candidate_step ::
    "portfolio_candidate \<Rightarrow> (string \<times> portfolio_candidate) list \<times> string list
     \<Rightarrow> (string \<times> portfolio_candidate) list \<times> string list" where
  "candidate_step c acc = (case acc of (by_id, duplicates) \<Rightarrow>
     (dset by_id (pc_portfolio_id c) c,
      if dget by_id (pc_portfolio_id c) \<noteq> None then pc_portfolio_id c # duplicates else duplicates))"

definition candidate_map :: "portfolio_candidate list \<Rightarrow> (string \<times> portfolio_candidate) list res" where
  "candidate_map candidates =
     (case fold candidate_step candidates ([], []) of (by_id, duplicates) \<Rightarrow>
      if duplicates \<noteq> []
      then Inl (selector_error ''duplicate_source_portfolio''
        (''Source candidates contain duplicate portfolio ids: '' @ py_join '', '' (sorted_set duplicates) @ ''.''))
      else Inr by_id)"

definition explicit_portfolio_ids :: "string list \<Rightarrow> string list res" where
  "explicit_portfolio_ids portfolio_ids =
     (let normalized = map py_strip (filter (\<lambda>p. py_strip p \<noteq> []) portfolio_ids);
          duplicates = sorted_set (filter (\<lambda>p. count_list normalized p > 1) normalized) in
      if normalized = []
      then Inl (selector_error ''empty_batch_selector'' ''Explicit-list batch requires at least one portfolio id.'')
      else if duplicates \<noteq> []
      then Inl (selector_error ''duplicate_requested_portfolio''
        (''Explicit-list batch contains duplicate portfolio ids: '' @ py_join '', '' duplicates @ ''.''))
      else Inr normalized)"

definition candidate_for_id ::
    "(string \<times> portfolio_candidate) list \<Rightarrow> string \<Rightarrow> portfolio_candidate res" where
  "candidate_for_id candidates portfolio_id =
     (case dget candidates portfolio_id of
        None \<Rightarrow> Inl (selector_error ''portfolio_not_found''
          (''Portfolio '' @ repr_string portfolio_id @ '' was not found in the resolved source candidates.''))
      | Some c \<Rightarrow> Inr c)"

definition validate_candidate :: "caller_context \<Rightarrow> portfolio_candidate \<Rightarrow> unit res" where
  "validate_candidate caller c =
     (let p = ''Portfolio '' @ repr_string (pc_portfolio_id c) in
      if pc_tenant_id c \<noteq> cc_tenant_id caller
      then Inl (selector_error ''portfolio_tenant_mismatch'' (p @ '' does not belong to the caller tenant.''))
      else if pc_region c \<noteq> cc_region caller
      then Inl (selector_error ''portfolio_region_mismatch'' (p @ '' does not belong to the caller region.''))
      else if \<not> pc_active c
      then Inl (selector_error ''inactive_portfolio'' (p @ '' is inactive and cannot be reported in batch.''))
      else Inr ())"

definition select_explicit ::
    "(string \<times> portfolio_candidate) list \<Rightarrow> batch_request \<Rightarrow> portfolio_candidate list res" where
  "select_explicit candidates q =
     bindE (explicit_portfolio_ids (bq_portfolio_ids q)) (mapE (candidate_for_id candidates))"

definition select_candidates ::
    "(string \<times> portfolio_candidate) list \<Rightarrow> batch_request \<Rightarrow> portfolio_candidate list res" where
  "select_candidates candidates q =
     (if bq_selector_mode q = ''explicit_portfolio_list'' then select_explicit candidates q
      else if bq_selector_mode q = ''selected_subset'' then
        let selected = sort_key pc_portfolio_id (filter pc_selected (bq_source_candidates q)) in
        if selected = []
        then Inl (selector_error ''empty_batch_selector''
          ''Selected-subset batch requires at least one selected active portfolio.'')
        else Inr selected
      else if bq_selector_mode q = ''all_active_portfolios'' then
        let selected = sort_key pc_portfolio_id (bq_source_candidates q) in
        if selected = []
        then Inl (selector_error ''empty_batch_selector''
          ''All-active batch requires at least one source-backed active portfolio candidate.'')
        else Inr selected
      else select_explicit candidates q)"

definition materialized_from :: "portfolio_candidate \<Rightarrow> materialized_portfolio" where
  "materialized_from c = \<lparr>mp_portfolio_id = pc_portfolio_id c,
     mp_source_system = pc_source_system c, mp_source_object = pc_source_object c\<rparr>"

definition materialize_portfolios :: "batch_request \<Rightarrow> caller_context \<Rightarrow> materialized_portfolio list res" where
  "materialize_portfolios q caller =
     (if bq_selector_mode q \<notin> set SUPPORTED_MATERIALIZATION_SELECTORS
      then Inl (selector_error ''unsupported_batch_selector''
        (''Selector mode '' @ repr_string (bq_selector_mode q) @ '' is not supported for materialization yet.''))
      else
        bindE (candidate_map (bq_source_candidates q)) (\<lambda>candidates.
        bindE (select_candidates candidates q) (\<lambda>selected.
        if int (length selected) > bq_max_batch_size q
        then Inl (selector_error ''batch_size_exceeded''
          ''Batch selector materialized more portfolios than the configured maximum.'')
        else mapE (\<lambda>c. bindE (validate_candidate caller c) (\<lambda>_. Inr (materialized_from c))) selected)))"

section \<open>Business cycles\<close>

record cycle_request =
  cq_frequency :: string
  cq_as_of_date :: date
  cq_explicit_period_start :: "date option"
  cq_explicit_period_end :: "date option"

record batch_cycle =
  bc_frequency :: string
  bc_period_start :: date
  bc_period_end :: date
  bc_as_of_date :: date
  bc_idempotency_scope :: string

definition BATCH_FREQUENCIES :: "string list" where
  "BATCH_FREQUENCIES = [''monthly'', ''quarterly'', ''semi_annual'', ''yearly'', ''explicit'']"

definition explicit_period :: "cycle_request \<Rightarrow> (date \<times> date) res" where
  "explicit_period q =
     (case (cq_explicit_period_start q, cq_explicit_period_end q) of
        (Some a, Some b) \<Rightarrow>
          if a > b
          then Inl (BatchScheduleValidationError ''invalid_explicit_period''
            ''Explicit period start must be on or before explicit period end.'')
          else if \<not> (a \<le> cq_as_of_date q \<and> cq_as_of_date q \<le> b)
          then Inl (BatchScheduleValidationError ''as_of_date_outside_period''
            ''Explicit as-of date must fall within the explicit period.'')
          else Inr (a, b)
      | _ \<Rightarrow> Inl (BatchScheduleValidationError ''explicit_period_required''
            ''Explicit batch frequency requires explicit period start and end dates.''))"

definition cycle_scope :: "env \<Rightarrow> string \<Rightarrow> date \<Rightarrow> date \<Rightarrow> date \<Rightarrow> string" where
  "cycle_scope e frequency period_start period_end as_of =
     (let payload = JObj [(''frequency'', JStr frequency),
            (''period_start'', JStr (date_isoformat period_start)),
            (''period_end'', JStr (date_isoformat period_end)),
            (''as_of_date'', JStr (date_isoformat as_of))];
          digest = take 24 (env_sha256 e (canonical_json payload))
      in frequency @ '':'' @ date_isoformat period_start @ '':'' @ date_isoformat period_end @ '':'' @ digest)"

text \<open>The first day of the period of a recurring frequency.\<close>

definition period_start_of :: "string \<Rightarrow> date \<Rightarrow> date option" where
  "period_start_of frequency as_of = (case ord2ymd as_of of (year, month, day) \<Rightarrow>
     if frequency = ''monthly'' then Some (ymd2ord year month 1)
     else if frequency = ''quarterly'' then Some (ymd2ord year (((month - 1) div 3) * 3 + 1) 1)
     else if frequency = ''semi_annual'' then Some (ymd2ord year (if month \<le> 6 then 1 else 7) 1)
     else if frequency = ''yearly'' then Some (ymd2ord year 1 1)
     else None)"

definition materialize_cycle :: "env \<Rightarrow> cycle_request \<Rightarrow> batch_cycle res" where
  "materialize_cycle e q =
     (let unsupported = BatchScheduleValidationError ''unsupported_batch_frequency''
            (''Batch frequency '' @ repr_string (cq_frequency q) @ '' is not supported.'') in
      if cq_frequency q \<notin> set BATCH_FREQUENCIES then Inl unsupported
      else
        bindE (if cq_frequency q = ''explicit'' then explicit_period q
               else case period_start_of (cq_frequency q) (cq_as_of_date q) of
                 None \<Rightarrow> Inl unsupported | Some a \<Rightarrow> Inr (a, cq_as_of_date q)) (\<lambda>(period_start, period_end).
        Inr \<lparr>bc_frequency = cq_frequency q, bc_period_start = period_start, bc_period_end = period_end,
           bc_as_of_date = cq_as_of_date q,
           bc_idempotency_scope = cycle_scope e (cq_frequency q) period_start period_end (cq_as_of_date q)\<rparr>))"

definition scheduled_batch_idempotency_key ::
    "env \<Rightarrow> caller_context \<Rightarrow> string \<Rightarrow> batch_cycle \<Rightarrow> string option \<Rightarrow> string" where
  "scheduled_batch_idempotency_key e caller selector_mode cycle selector_identity =
     (let payload = [(''tenant_id'', JStr (cc_tenant_id caller)), (''region'', JStr (cc_region caller)),
            (''selector_mode'', JStr selector_mode), (''cycle'', JStr (bc_idempotency_scope cycle))]
            @ (case selector_identity of None \<Rightarrow> [] | Some i \<Rightarrow> [(''selector_identity'', JStr i)])
      in ''scheduled-batch-'' @ take 32 (env_sha256 e (canonical_json (JObj payload))))"

section \<open>What selection returns\<close>

lemma candidate_step_pair:
  "candidate_step c (d, u) = (dset d (pc_portfolio_id c) c,
     if dget d (pc_portfolio_id c) \<noteq> None then pc_portfolio_id c # u else u)"
  by (simp add: candidate_step_def)

lemma fold_candidate_step:
  assumes "fold candidate_step cs (d0, u0) = (d, u)"
  shows "u = [] \<longleftrightarrow> u0 = [] \<and> distinct (map pc_portfolio_id cs) \<and> (\<forall>c \<in> set cs. dget d0 (pc_portfolio_id c) = None)"
    and "u = [] \<Longrightarrow> dget d p = (case fetch (\<lambda>c. pc_portfolio_id c = p) cs of None \<Rightarrow> dget d0 p | Some c \<Rightarrow> Some c)"
proof -
  have u: "u = [] \<longleftrightarrow> u0 = [] \<and> distinct (map pc_portfolio_id cs) \<and> (\<forall>c \<in> set cs. dget d0 (pc_portfolio_id c) = None)"
    if "fold candidate_step cs (d0, u0) = (d, u)" for cs d0 u0
    using that by (induction cs arbitrary: d0 u0) (auto simp: candidate_step_pair image_iff split: if_splits)
  then show "u = [] \<longleftrightarrow> u0 = [] \<and> distinct (map pc_portfolio_id cs) \<and> (\<forall>c \<in> set cs. dget d0 (pc_portfolio_id c) = None)"
    using assms .
  show "dget d p = (case fetch (\<lambda>c. pc_portfolio_id c = p) cs of None \<Rightarrow> dget d0 p | Some c \<Rightarrow> Some c)" if "u = []"
    using assms that
  proof (induction cs arbitrary: d0 u0)
    case (Cons c cs)
    let ?d1 = "dset d0 (pc_portfolio_id c) c"
    obtain u1 where run: "fold candidate_step cs (?d1, u1) = (d, u)"
      using Cons.prems(1) by (auto simp: candidate_step_pair)
    have "\<forall>x \<in> set cs. pc_portfolio_id x \<noteq> pc_portfolio_id c"
      using u [OF run] Cons.prems(2) by (auto split: if_splits)
    then have "fetch (\<lambda>x. pc_portfolio_id x = pc_portfolio_id c) cs = None" by simp
    then show ?case using Cons.IH [OF run Cons.prems(2)] by (cases "p = pc_portfolio_id c") (auto simp del: fetch_None split: option.split)
  qed simp
qed

lemma candidate_map_Inr:
  assumes "candidate_map cs = Inr d"
  shows "distinct (map pc_portfolio_id cs)" "dget d p = fetch (\<lambda>c. pc_portfolio_id c = p) cs"
proof -
  obtain u where f: "fold candidate_step cs ([], []) = (d, u)" "u = []"
    using assms by (auto simp: candidate_map_def split: prod.splits if_splits)
  show "distinct (map pc_portfolio_id cs)" using fold_candidate_step(1) [OF f(1)] f(2) by simp
  show "dget d p = fetch (\<lambda>c. pc_portfolio_id c = p) cs"
    using fold_candidate_step(2) [OF f(1,2), of p]
    by (cases "fetch (\<lambda>c. pc_portfolio_id c = p) cs") (simp_all add: dget_def del: fetch_None)
qed

lemma candidate_map_total: "distinct (map pc_portfolio_id cs) \<Longrightarrow> \<exists>d. candidate_map cs = Inr d"
proof -
  assume "distinct (map pc_portfolio_id cs)"
  moreover obtain d u where f: "fold candidate_step cs ([], []) = (d, u)" by fastforce
  ultimately show ?thesis using fold_candidate_step(1) [OF f] by (simp add: candidate_map_def dget_def)
qed

text \<open>The ids a request asks for, in the order of the batch.\<close>

definition wanted_ids :: "batch_request \<Rightarrow> string list" where
  "wanted_ids q =
     (if bq_selector_mode q \<in> {''selected_subset'', ''all_active_portfolios''}
      then sort (map pc_portfolio_id
             (filter (\<lambda>c. bq_selector_mode q = ''all_active_portfolios'' \<or> pc_selected c) (bq_source_candidates q)))
      else filter (\<lambda>p. p \<noteq> []) (map py_strip (bq_portfolio_ids q)))"

definition eligible :: "caller_context \<Rightarrow> portfolio_candidate \<Rightarrow> bool" where
  "eligible caller c \<longleftrightarrow> pc_tenant_id c = cc_tenant_id caller \<and> pc_region c = cc_region caller \<and> pc_active c"

lemma validate_candidate_Inr [simp]: "validate_candidate caller c = Inr u \<longleftrightarrow> eligible caller c"
  by (simp add: validate_candidate_def eligible_def Let_def)

lemma filter_strip: "map py_strip (filter (\<lambda>p. py_strip p \<noteq> []) ps) = filter (\<lambda>p. p \<noteq> []) (map py_strip ps)"
  by (induction ps) auto

lemma count_list_distinct: "(\<forall>x \<in> set xs. \<not> count_list xs x > 1) \<longleftrightarrow> distinct xs"
proof (induction xs)
  case (Cons x xs)
  have "count_list xs x = 0 \<longleftrightarrow> x \<notin> set xs" by (simp add: count_list_0_iff)
  then show ?case using Cons by (auto simp: not_less split: if_splits)
qed simp

lemma explicit_portfolio_ids_Inr:
  "explicit_portfolio_ids ps = Inr ids \<longleftrightarrow>
     ids = filter (\<lambda>p. p \<noteq> []) (map py_strip ps) \<and> ids \<noteq> [] \<and> distinct ids"
proof -
  have "sorted_set xs = [] \<longleftrightarrow> xs = []" for xs by (metis set_empty set_sorted_set)
  then show ?thesis
    unfolding explicit_portfolio_ids_def filter_strip Let_def
    using count_list_distinct [of "filter (\<lambda>p. p \<noteq> []) (map py_strip ps)"]
    by (auto simp: filter_empty_conv)
qed

lemma keyed_fetch_iff:
  assumes "distinct (map k rs)"
  shows "fetch (\<lambda>x. k x = a) rs = Some r \<longleftrightarrow> r \<in> set rs \<and> k r = a"
  using keyed_fetch [OF assms, of r] fetch_SomeD [of "\<lambda>x. k x = a" rs r] by blast

lemma select_explicit_Inr:
  assumes d: "\<And>p. dget d p = fetch (\<lambda>c. pc_portfolio_id c = p) cands"
    and cands: "distinct (map pc_portfolio_id cands)"
  shows "select_explicit d q = Inr cs \<longleftrightarrow>
    (let ids = filter (\<lambda>p. p \<noteq> []) (map py_strip (bq_portfolio_ids q)) in
     ids \<noteq> [] \<and> distinct ids \<and> map pc_portfolio_id cs = ids \<and> set cs \<subseteq> set cands)"
proof -
  have one: "candidate_for_id d p = Inr c \<longleftrightarrow> c \<in> set cands \<and> pc_portfolio_id c = p" for p c
    using keyed_fetch_iff [OF cands, of p c] 
    by (cases "fetch (\<lambda>c. pc_portfolio_id c = p) cands") (auto simp: candidate_for_id_def d simp del: fetch_None)
  have "mapE (candidate_for_id d) ids = Inr cs \<longleftrightarrow> map pc_portfolio_id cs = ids \<and> set cs \<subseteq> set cands" for ids
    unfolding mapE_Inr one by (induction ids arbitrary: cs) (auto simp: list_all2_Cons1)
  then show ?thesis
    by (auto simp: select_explicit_def explicit_portfolio_ids_Inr Let_def)
qed

lemma map_sort_key: "map f (sort_key f xs) = sort (map f xs)"
  by (rule properties_for_sort [symmetric]) simp_all

lemma sorted_selection:
  fixes f :: "'a \<Rightarrow> string"
  assumes "distinct (map f cands)" "set xs \<subseteq> set cands"
  shows "xs \<noteq> [] \<and> sort_key f xs = cs \<longleftrightarrow> sort (map f xs) \<noteq> [] \<and> map f cs = sort (map f xs) \<and> set cs \<subseteq> set cands"
proof -
  have "inj_on f (set (sort_key f xs) \<union> set cs)" if "set cs \<subseteq> set cands"
    using assms that by (auto simp: distinct_map intro: inj_on_subset)
  from inj_on_map_eq_map [OF this] have eq: "set cs \<subseteq> set cands \<Longrightarrow> map f (sort_key f xs) = map f cs \<longleftrightarrow> sort_key f xs = cs" .
  have "sort_key f xs = [] \<longleftrightarrow> xs = []" by (metis length_0_conv length_sort)
  then show ?thesis
    using assms(2) eq unfolding map_sort_key [symmetric] by auto
qed

lemma select_candidates_Inr:
  assumes d: "\<And>p. dget d p = fetch (\<lambda>c. pc_portfolio_id c = p) (bq_source_candidates q)"
    and cands: "distinct (map pc_portfolio_id (bq_source_candidates q))"
    and mode: "bq_selector_mode q \<in> set SUPPORTED_MATERIALIZATION_SELECTORS"
  shows "select_candidates d q = Inr cs \<longleftrightarrow> wanted_ids q \<noteq> [] \<and> distinct (wanted_ids q)
     \<and> map pc_portfolio_id cs = wanted_ids q \<and> set cs \<subseteq> set (bq_source_candidates q)"
proof -
  let ?cands = "bq_source_candidates q"
  have sub: "distinct (sort (map pc_portfolio_id (filter P ?cands)))" for P
    using cands by (simp add: distinct_map_filter)
  note sel = sorted_selection [OF cands, of "filter P ?cands" for P, OF filter_is_subset]
  show ?thesis
  proof -
    consider (listed) "bq_selector_mode q \<in> {''explicit_portfolio_list'', ''batch_manifest''}"
      | (subset) "bq_selector_mode q = ''selected_subset''" | (all) "bq_selector_mode q = ''all_active_portfolios''"
      using mode by (auto simp: SUPPORTED_MATERIALIZATION_SELECTORS_def)
    then show ?thesis
    proof cases
      case listed
      then have "select_candidates d q = select_explicit d q"
        and "wanted_ids q = filter (\<lambda>p. p \<noteq> []) (map py_strip (bq_portfolio_ids q))"
        by (auto simp: select_candidates_def wanted_ids_def)
      then show ?thesis using select_explicit_Inr [OF d cands, of q cs] by (simp add: Let_def)
    next
      case subset
      then show ?thesis using sub [of pc_selected] sel [of pc_selected cs]
        by (auto simp: select_candidates_def wanted_ids_def Let_def)
    next
      case all
      then show ?thesis using sub [of "\<lambda>_. True"] sel [of "\<lambda>_. True" cs]
        by (auto simp: select_candidates_def wanted_ids_def Let_def)
    qed
  qed
qed

lemma materialize_portfolios_Inr:
  "materialize_portfolios q caller = Inr ps \<longleftrightarrow>
     bq_selector_mode q \<in> set SUPPORTED_MATERIALIZATION_SELECTORS
     \<and> distinct (map pc_portfolio_id (bq_source_candidates q))
     \<and> wanted_ids q \<noteq> [] \<and> distinct (wanted_ids q) \<and> int (length (wanted_ids q)) \<le> bq_max_batch_size q
     \<and> (\<exists>cs. map pc_portfolio_id cs = wanted_ids q \<and> set cs \<subseteq> set (bq_source_candidates q)
          \<and> (\<forall>c \<in> set cs. eligible caller c) \<and> ps = map materialized_from cs)"
proof (cases "bq_selector_mode q \<in> set SUPPORTED_MATERIALIZATION_SELECTORS
    \<and> distinct (map pc_portfolio_id (bq_source_candidates q))")
  case True
  then obtain d where d: "candidate_map (bq_source_candidates q) = Inr d" using candidate_map_total by blast
  have val: "mapE (\<lambda>c. bindE (validate_candidate caller c) (\<lambda>_. Inr (materialized_from c))) cs = Inr ps
      \<longleftrightarrow> (\<forall>c \<in> set cs. eligible caller c) \<and> ps = map materialized_from cs" for cs
    by (rule mapE_function) auto
  note sel = select_candidates_Inr [OF candidate_map_Inr(2) [OF d] conjunct2 [OF True] conjunct1 [OF True]]
  have len: "length cs = length (wanted_ids q)" if "map pc_portfolio_id cs = wanted_ids q" for cs
    using that by (metis length_map)
  have "materialize_portfolios q caller = Inr ps \<longleftrightarrow> (\<exists>cs. select_candidates d q = Inr cs
      \<and> int (length cs) \<le> bq_max_batch_size q \<and> (\<forall>c \<in> set cs. eligible caller c) \<and> ps = map materialized_from cs)"
    using True d by (auto simp: materialize_portfolios_def val not_less)
  then show ?thesis using True unfolding sel by (auto simp: len)
next
  case False
  then show ?thesis
    using candidate_map_Inr(1) by (auto simp: materialize_portfolios_def)
qed

text \<open>
  (C17) Selection returns exactly the portfolios the request asks for. A batch is materialized if and
  only if the selector is supported, the candidates carry distinct ids, the ids asked for (the listed
  ones, stripped and without blanks, in their order; or those of the selected, or of all, candidates in
  sorted order) are at least one, without duplicates and within the size limit, and every one of them
  is a candidate of the caller's tenant and region and active; the result then describes these
  candidates in that order.
\<close>

theorem materialize_portfolios_correct:
  "materialize_portfolios q caller = Inr ps \<longleftrightarrow>
     bq_selector_mode q \<in> set SUPPORTED_MATERIALIZATION_SELECTORS
     \<and> distinct (map pc_portfolio_id (bq_source_candidates q))
     \<and> wanted_ids q \<noteq> [] \<and> distinct (wanted_ids q) \<and> int (length (wanted_ids q)) \<le> bq_max_batch_size q
     \<and> (\<exists>cs. map pc_portfolio_id cs = wanted_ids q \<and> set cs \<subseteq> set (bq_source_candidates q)
          \<and> (\<forall>c \<in> set cs. eligible caller c) \<and> ps = map materialized_from cs)"
  by (rule materialize_portfolios_Inr)

definition sample_candidate :: "string \<Rightarrow> portfolio_candidate" where
  "sample_candidate p = \<lparr>pc_portfolio_id = p, pc_tenant_id = ''t1'', pc_region = ''sg'', pc_active = True,
     pc_selected = False, pc_source_system = ''lotus-core'', pc_source_object = ''PortfolioScope''\<rparr>"

definition sample_batch_request :: batch_request where
  "sample_batch_request = \<lparr>bq_selector_mode = ''explicit_portfolio_list'', bq_portfolio_ids = ['' p2 '', ''p1'', '' ''],
     bq_source_candidates = [sample_candidate ''p1'', sample_candidate ''p2'', sample_candidate ''p3''],
     bq_as_of_date = 739728, bq_requested_output_formats = [''pdf''], bq_reporting_currency = None,
     bq_options = [], bq_max_batch_size = 250\<rparr>"

definition sample_batch_caller :: caller_context where
  "sample_batch_caller = \<lparr>cc_trigger_type = ''manual'', cc_triggered_by = ''ops'', cc_caller_application = ''app'',
     cc_tenant_id = ''t1'', cc_region = ''sg'', cc_booking_center_code = None, cc_role = None,
     cc_correlation_id = ''c1'', cc_trace_id = ''tr1''\<rparr>"

theorem materialize_portfolios_correct_witness:
  "materialize_portfolios sample_batch_request sample_batch_caller
     = Inr [materialized_from (sample_candidate ''p2''), materialized_from (sample_candidate ''p1'')]
   \<and> wanted_ids sample_batch_request = [''p2'', ''p1'']"
proof -
  have run: "materialize_portfolios sample_batch_request sample_batch_caller
     = Inr [materialized_from (sample_candidate ''p2''), materialized_from (sample_candidate ''p1'')]" by code_simp
  from iffD1 [OF materialize_portfolios_correct this]
  have "wanted_ids sample_batch_request = map mp_portfolio_id
      [materialized_from (sample_candidate ''p2''), materialized_from (sample_candidate ''p1'')]"
    by (auto simp: materialized_from_def comp_def)
  then show ?thesis using run by (simp add: materialized_from_def sample_candidate_def)
qed

section \<open>What a cycle covers\<close>

text \<open>Months counted from year 0, and the number of months in the period of a frequency.\<close>

definition month_index :: "date \<Rightarrow> int" where
  "month_index n = (case ord2ymd n of (y, m, d) \<Rightarrow> 12 * y + (m - 1))"

definition period_months :: "string \<Rightarrow> int option" where
  "period_months frequency =
     (if frequency = ''monthly'' then Some 1 else if frequency = ''quarterly'' then Some 3
      else if frequency = ''semi_annual'' then Some 6 else if frequency = ''yearly'' then Some 12 else None)"

lemma month_cases: "1 \<le> m \<Longrightarrow> m \<le> 12 \<Longrightarrow> m \<in> {1, 2, 3, 4, 5, 6, 7, 8, 9, 10, 11, 12 :: int}"
  unfolding insert_iff empty_iff by presburger

lemma month_of_ge:
  assumes "1 \<le> m" "m \<le> 12" "1 \<le> k"
  shows "m \<le> month_of y k \<longleftrightarrow> days_before_month y m < k"
  using month_cases [OF assms(1,2)] assms(3) unfolding month_of_def
  by (elim insertE; cases "is_leap y") (simp_all add: days_before_month_simps)

lemma days_before_month_range:
  assumes "1 \<le> m" "m \<le> 12"
  shows "0 \<le> days_before_month y m" "days_before_month y m < days_in_year y"
  using month_cases [OF assms] unfolding days_in_year_def
  by (elim insertE; cases "is_leap y"; simp add: days_before_month_simps)+

lemma month_start_iff:
  assumes "1 \<le> n" "1 \<le> y" "1 \<le> m" "m \<le> 12"
  shows "ymd2ord y m 1 \<le> n \<longleftrightarrow> 12 * y + (m - 1) \<le> month_index n"
proof -
  define z where "z = year_of n"
  define k where "k = n - days_before_year z"
  note b = year_of_bounds [OF assms(1), folded z_def]
  have k: "1 \<le> k" using b by (simp add: k_def)
  have mi: "month_index n = 12 * z + (month_of z k - 1)"
    by (simp add: month_index_def ord2ymd_def Let_def z_def k_def)
  note dm = days_before_month_range [OF assms(3,4), of y]
  consider "z < y" | "y < z" | "z = y" by linarith
  then show ?thesis
  proof cases
    case 1
    then have "days_before_year (z + 1) \<le> days_before_year y" by (intro days_before_year_mono) simp
    then show ?thesis using 1 b dm month_of_range [of z k] assms by (auto simp: mi ymd2ord_def)
  next
    case 2
    then have "days_before_year (y + 1) \<le> days_before_year z" by (intro days_before_year_mono) simp
    then show ?thesis using 2 b dm month_of_range [of z k] assms days_before_year_Suc [of y] by (auto simp: mi ymd2ord_def)
  next
    case 3
    then show ?thesis using month_of_ge [OF assms(3,4) k, of y] by (auto simp: mi ymd2ord_def k_def)
  qed
qed

lemma ord2ymd_month:
  assumes "1 \<le> n" "ord2ymd n = (y, m, d)"
  shows "1 \<le> y" "1 \<le> m" "m \<le> 12" "ymd2ord y m 1 \<le> n"
proof -
  show b: "1 \<le> y" "1 \<le> m" "m \<le> 12"
    using assms year_of_bounds(3) [OF assms(1)] month_of_range by (auto simp: ord2ymd_def Let_def)
  show "ymd2ord y m 1 \<le> n"
    unfolding month_start_iff [OF assms(1) b] by (simp add: month_index_def assms(2))
qed

lemma month_index_mono:
  assumes "1 \<le> n" "n \<le> n'"
  shows "month_index n \<le> month_index n'"
proof -
  obtain y m d where o: "ord2ymd n = (y, m, d)" by (cases "ord2ymd n") auto
  note b = ord2ymd_month [OF assms(1) o]
  have "ymd2ord y m 1 \<le> n'" using b(4) assms(2) by simp
  then have "12 * y + (m - 1) \<le> month_index n'"
    using month_start_iff [OF _ b(1-3), of n'] assms by simp
  then show ?thesis by (simp add: month_index_def o)
qed

lemma mult_le_iff_le_div: "0 < L \<Longrightarrow> L * a \<le> b \<longleftrightarrow> a \<le> b div L" for L a b :: int
proof
  assume L: "0 < L" and "L * a \<le> b"
  then have "(L * a) div L \<le> b div L" by (intro zdiv_mono1) simp_all
  then show "a \<le> b div L" using L by simp
next
  assume L: "0 < L" and "a \<le> b div L"
  then have "L * a \<le> L * (b div L)" by simp
  then show "L * a \<le> b" using mult_div_mod_eq [of L b] pos_mod_sign [OF L, of b] by linarith
qed

text \<open>The period start is the first day of a month, the one that opens the period.\<close>

lemma period_start_month:
  assumes n: "1 \<le> n" and L: "period_months f = Some L"
  obtains y m where "period_start_of f n = Some (ymd2ord y m 1)" "1 \<le> y" "1 \<le> m" "m \<le> 12"
    "12 * y + (m - 1) = L * (month_index n div L)"
proof -
  obtain y m d where o: "ord2ymd n = (y, m, d)" by (cases "ord2ymd n") auto
  note b = ord2ymd_month(1-3) [OF n o]
  have i: "month_index n = 12 * y + (m - 1)" by (simp add: month_index_def o)
  have q: "12 * y + (m - 1) div 3 * 3 = 3 * ((12 * y + (m - 1)) div 3)" by presburger
  have h: "12 * y + ((if m \<le> 6 then 1 else 7) - 1) = 6 * ((12 * y + (m - 1)) div 6)" 
  proof -
    have "(6 * (2 * y) + (m - 1)) div 6 = 2 * y + (m - 1) div 6" by (rule div_mult_self4) simp
    moreover have "(m - 1) div 6 = (if m \<le> 6 then 0 else 1)" using month_cases [OF b(2,3)] by auto
    ultimately show ?thesis by simp
  qed
  have t: "12 * y = 12 * ((12 * y + (m - 1)) div 12)"
  proof -
    have "(12 * y + (m - 1)) div 12 = y + (m - 1) div 12" by (rule div_mult_self4) simp
    moreover have "(m - 1) div 12 = 0" using b by simp
    ultimately show ?thesis by simp
  qed
  consider "f = ''monthly'' \<and> L = 1" | "f = ''quarterly'' \<and> L = 3" | "f = ''semi_annual'' \<and> L = 6"
    | "f = ''yearly'' \<and> L = 12" using L by (auto simp: period_months_def split: if_splits)
  then show thesis
  proof cases
    case 1
    then show thesis using b by (intro that [of y m]) (simp_all add: period_start_of_def o i)
  next
    case 2
    then show thesis using b q by (intro that [of y "(m - 1) div 3 * 3 + 1"]) (simp_all add: period_start_of_def o i)
  next
    case 3
    then show thesis using b h by (intro that [of y "if m \<le> 6 then 1 else 7"]) (simp_all add: period_start_of_def o i)
  next
    case 4
    then show thesis using b t by (intro that [of y 1]) (simp_all add: period_start_of_def o i)
  qed
qed

text \<open>
  A cycle is the calendar period of its as-of date up to that date. For every recurring frequency
  the cycle exists, ends on the as-of date, and its days are exactly the days up to the as-of date that
  lie in the same month, quarter, half-year or year. An explicit cycle is the period given, and exists
  exactly when the period is given and contains the as-of date. Any other frequency is refused.
\<close>

theorem materialize_cycle_period:
  assumes n: "1 \<le> cq_as_of_date q"
  shows "case period_months (cq_frequency q) of
      Some L \<Rightarrow> \<exists>c. materialize_cycle e q = Inr c \<and> bc_period_end c = cq_as_of_date q
        \<and> (\<forall>d \<ge> 1. bc_period_start c \<le> d \<and> d \<le> bc_period_end c
              \<longleftrightarrow> d \<le> cq_as_of_date q \<and> month_index d div L = month_index (cq_as_of_date q) div L)
    | None \<Rightarrow> (\<exists>c. materialize_cycle e q = Inr c) \<longleftrightarrow> cq_frequency q = ''explicit''
        \<and> (\<exists>a b. cq_explicit_period_start q = Some a \<and> cq_explicit_period_end q = Some b
              \<and> a \<le> cq_as_of_date q \<and> cq_as_of_date q \<le> b)"
proof (cases "period_months (cq_frequency q)")
  case None
  then have "cq_frequency q \<in> set BATCH_FREQUENCIES \<longleftrightarrow> cq_frequency q = ''explicit''"
    by (auto simp: period_months_def BATCH_FREQUENCIES_def split: if_splits)
  then show ?thesis
    using None by (auto simp: materialize_cycle_def explicit_period_def Let_def split: option.splits)
next
  case (Some L)
  then have freq: "cq_frequency q \<in> set BATCH_FREQUENCIES" "cq_frequency q \<noteq> ''explicit''" and L: "0 < L"
    by (auto simp: period_months_def BATCH_FREQUENCIES_def split: if_splits)
  obtain y m where start: "period_start_of (cq_frequency q) (cq_as_of_date q) = Some (ymd2ord y m 1)"
    and ym: "1 \<le> y" "1 \<le> m" "m \<le> 12" and i: "12 * y + (m - 1) = L * (month_index (cq_as_of_date q) div L)"
    using period_start_month [OF n Some] .
  have day: "ymd2ord y m 1 \<le> d \<and> d \<le> cq_as_of_date q \<longleftrightarrow>
      d \<le> cq_as_of_date q \<and> month_index d div L = month_index (cq_as_of_date q) div L" if d: "1 \<le> d" for d
  proof -
    note le = mult_le_iff_le_div [OF L, of "month_index (cq_as_of_date q) div L" "month_index d"]
    have "month_index d div L \<le> month_index (cq_as_of_date q) div L" if "d \<le> cq_as_of_date q"
      using month_index_mono [OF d that] L by (simp add: zdiv_mono1)
    then show ?thesis unfolding month_start_iff [OF d ym] i le by auto
  qed
  show ?thesis
    using Some freq start day by (auto simp: materialize_cycle_def Let_def)
qed

theorem materialize_cycle_period_witness:
  "\<exists>c. materialize_cycle e \<lparr>cq_frequency = ''quarterly'', cq_as_of_date = ymd2ord 2026 5 20,
       cq_explicit_period_start = None, cq_explicit_period_end = None\<rparr> = Inr c
     \<and> bc_period_start c \<le> ymd2ord 2026 4 1 \<and> \<not> bc_period_start c \<le> ymd2ord 2026 3 31"
proof -
  let ?q = "\<lparr>cq_frequency = ''quarterly'', cq_as_of_date = ymd2ord 2026 5 20,
       cq_explicit_period_start = None, cq_explicit_period_end = None\<rparr>"
  have n: "1 \<le> cq_as_of_date ?q" by code_simp
  have L: "period_months (cq_frequency ?q) = Some 3" by code_simp
  from materialize_cycle_period [OF n, of e] obtain c where run: "materialize_cycle e ?q = Inr c"
    and last: "bc_period_end c = cq_as_of_date ?q"
    and days: "\<And>d. 1 \<le> d \<Longrightarrow> bc_period_start c \<le> d \<and> d \<le> bc_period_end c
      \<longleftrightarrow> d \<le> cq_as_of_date ?q \<and> month_index d div 3 = month_index (cq_as_of_date ?q) div 3"
    unfolding L option.case by blast
  have "1 \<le> ymd2ord 2026 4 1 \<and> ymd2ord 2026 4 1 \<le> cq_as_of_date ?q
      \<and> month_index (ymd2ord 2026 4 1) div 3 = month_index (cq_as_of_date ?q) div 3" by code_simp
  moreover have "1 \<le> ymd2ord 2026 3 31 \<and> ymd2ord 2026 3 31 \<le> cq_as_of_date ?q
      \<and> month_index (ymd2ord 2026 3 31) div 3 \<noteq> month_index (cq_as_of_date ?q) div 3" by code_simp
  ultimately show ?thesis using run last days [of "ymd2ord 2026 4 1"] days [of "ymd2ord 2026 3 31"] by metis
qed

section \<open>What a cycle key identifies\<close>

lemma suffix_eq: "xs @ us = ys @ vs \<Longrightarrow> length us = length vs \<Longrightarrow> us = vs"
  by simp

lemma string_object_inject:
  assumes "distinct (dkeys d)" "distinct (dkeys d')"
    and "\<forall>kv \<in> set d \<union> set d'. \<exists>t. snd kv = JStr t"
  shows "canonical_json (JObj d) = canonical_json (JObj d') \<longleftrightarrow> (\<forall>k. dget d k = dget d' k)"
proof -
  have str: "map_option jsort (dget x k) = dget x k" if "x = d \<or> x = d'" for x k
  proof (cases "dget x k")
    case (Some v)
    then have "(k, v) \<in> set d \<union> set d'" using that map_of_SomeD [of x k v] by (auto simp: dget_def)
    from bspec [OF assms(3) this] obtain t where "v = JStr t" by auto
    then show ?thesis using Some by simp
  qed simp
  have "float_texts (snd kv)" if "kv \<in> set d \<union> set d'" for kv using bspec [OF assms(3) that] by auto
  then have fl: "float_texts (JObj d)" "float_texts (JObj d')" by (simp_all add: list_all_iff)
  have "canonical_json (JObj d) = canonical_json (JObj d') \<longleftrightarrow> jsort (JObj d) = jsort (JObj d')"
    using canonical_json_inject [OF fl] unfolding canonical_json_def by metis
  then show ?thesis
    by (simp add: jsort_JObj sorted_obj_eq_iff [OF assms(1,2)] str del: jsort.simps)
qed

abbreviation cycle_payload :: "string \<Rightarrow> date \<Rightarrow> date \<Rightarrow> date \<Rightarrow> jobj" where
  "cycle_payload frequency a b n \<equiv> [(''frequency'', JStr frequency), (''period_start'', JStr (date_isoformat a)),
     (''period_end'', JStr (date_isoformat b)), (''as_of_date'', JStr (date_isoformat n))]"

abbreviation key_payload :: "string \<Rightarrow> string \<Rightarrow> string \<Rightarrow> string \<Rightarrow> string option \<Rightarrow> jobj" where
  "key_payload tenant region mode scp identity \<equiv> [(''tenant_id'', JStr tenant), (''region'', JStr region),
     (''selector_mode'', JStr mode), (''cycle'', JStr scp)]
     @ (case identity of None \<Rightarrow> [] | Some i \<Rightarrow> [(''selector_identity'', JStr i)])"

lemma cycle_payload_inject:
  assumes "\<forall>d \<in> {a, b, n, a', b', n'}. 1 \<le> d \<and> d \<le> MAX_ORDINAL"
  shows "canonical_json (JObj (cycle_payload f a b n)) = canonical_json (JObj (cycle_payload f' a' b' n'))
    \<longleftrightarrow> f = f' \<and> a = a' \<and> b = b' \<and> n = n'"
proof
  assume "canonical_json (JObj (cycle_payload f a b n)) = canonical_json (JObj (cycle_payload f' a' b' n'))"
  then have eq: "dget (cycle_payload f a b n) k = dget (cycle_payload f' a' b' n') k" for k
    by (subst (asm) string_object_inject) (simp_all add: dkeys_def)
  from eq [of "''frequency''"] eq [of "''period_start''"] eq [of "''period_end''"] eq [of "''as_of_date''"]
  show "f = f' \<and> a = a' \<and> b = b' \<and> n = n'"
    using assms by (simp add: dget_def date_isoformat_inject)
qed simp

lemma key_payload_inject:
  "canonical_json (JObj (key_payload t r m c i)) = canonical_json (JObj (key_payload t' r' m' c' i'))
    \<longleftrightarrow> t = t' \<and> r = r' \<and> m = m' \<and> c = c' \<and> i = i'"
proof
  assume "canonical_json (JObj (key_payload t r m c i)) = canonical_json (JObj (key_payload t' r' m' c' i'))"
  then have eq: "dget (key_payload t r m c i) k = dget (key_payload t' r' m' c' i') k" for k
    by (subst (asm) string_object_inject) (auto simp: dkeys_def split: option.split)
  have "i = i'" using eq [of "''selector_identity''"] by (cases i; cases i') (simp_all add: dget_def)
  then show "t = t' \<and> r = r' \<and> m = m' \<and> c = c' \<and> i = i'"
    using eq [of "''tenant_id''"] eq [of "''region''"] eq [of "''selector_mode''"] eq [of "''cycle''"]
    by (simp add: dget_def)
qed simp

text \<open>
  The key of a scheduled batch is the business cycle. Provided the shortened digests do not
  collide on the texts compared, two schedules get the same idempotency key if and only if tenant,
  region, selector mode, selector identity, frequency, period and as-of date agree; template and
  package versions have no part in it.
\<close>

theorem scheduled_key_identifies_cycle:
  assumes c: "materialize_cycle e q = Inr c" and c': "materialize_cycle e q' = Inr c'"
    and dates: "\<forall>d \<in> {bc_period_start c, bc_period_end c, cq_as_of_date q,
        bc_period_start c', bc_period_end c', cq_as_of_date q'}. 1 \<le> d \<and> d \<le> MAX_ORDINAL"
    and hex: "\<forall>t. length (env_sha256 e t) = 64"
    and scopes: "inj_on (\<lambda>t. take 24 (env_sha256 e t))
        {canonical_json (JObj (cycle_payload (cq_frequency q) (bc_period_start c) (bc_period_end c) (cq_as_of_date q))),
         canonical_json (JObj (cycle_payload (cq_frequency q') (bc_period_start c') (bc_period_end c') (cq_as_of_date q')))}"
    and keys: "inj_on (\<lambda>t. take 32 (env_sha256 e t))
        {canonical_json (JObj (key_payload (cc_tenant_id u) (cc_region u) m (bc_idempotency_scope c) i)),
         canonical_json (JObj (key_payload (cc_tenant_id u') (cc_region u') m' (bc_idempotency_scope c') i'))}"
  shows "scheduled_batch_idempotency_key e u m c i = scheduled_batch_idempotency_key e u' m' c' i'
    \<longleftrightarrow> cc_tenant_id u = cc_tenant_id u' \<and> cc_region u = cc_region u' \<and> m = m' \<and> i = i'
       \<and> cq_frequency q = cq_frequency q' \<and> bc_period_start c = bc_period_start c'
       \<and> bc_period_end c = bc_period_end c' \<and> cq_as_of_date q = cq_as_of_date q'"
proof -
  have k: "scheduled_batch_idempotency_key e u m c i = scheduled_batch_idempotency_key e u' m' c' i'
      \<longleftrightarrow> cc_tenant_id u = cc_tenant_id u' \<and> cc_region u = cc_region u' \<and> m = m'
        \<and> bc_idempotency_scope c = bc_idempotency_scope c' \<and> i = i'"
    unfolding scheduled_batch_idempotency_key_def Let_def same_append_eq
    by (subst inj_on_eq_iff [OF keys]) (simp_all only: insert_iff key_payload_inject simp_thms)
  have sc: "bc_idempotency_scope c = cycle_scope e (cq_frequency q) (bc_period_start c) (bc_period_end c) (cq_as_of_date q)"
    "bc_idempotency_scope c' = cycle_scope e (cq_frequency q') (bc_period_start c') (bc_period_end c') (cq_as_of_date q')"
    using c c' by (auto simp: materialize_cycle_def Let_def split: if_splits option.splits)
  have "bc_idempotency_scope c = bc_idempotency_scope c' \<longleftrightarrow> cq_frequency q = cq_frequency q'
      \<and> bc_period_start c = bc_period_start c' \<and> bc_period_end c = bc_period_end c' \<and> cq_as_of_date q = cq_as_of_date q'"
  proof
    assume "bc_idempotency_scope c = bc_idempotency_scope c'"
    then have "take 24 (env_sha256 e (canonical_json (JObj (cycle_payload (cq_frequency q) (bc_period_start c)
          (bc_period_end c) (cq_as_of_date q)))))
        = take 24 (env_sha256 e (canonical_json (JObj (cycle_payload (cq_frequency q') (bc_period_start c')
          (bc_period_end c') (cq_as_of_date q')))))"
      unfolding sc cycle_scope_def Let_def append_assoc [symmetric] by (rule suffix_eq) (simp add: hex)
    then have "canonical_json (JObj (cycle_payload (cq_frequency q) (bc_period_start c) (bc_period_end c) (cq_as_of_date q)))
        = canonical_json (JObj (cycle_payload (cq_frequency q') (bc_period_start c') (bc_period_end c') (cq_as_of_date q')))"
      by (rule iffD1 [OF inj_on_eq_iff [OF scopes insertI1 insertI2 [OF singletonI]]])
    then show "cq_frequency q = cq_frequency q' \<and> bc_period_start c = bc_period_start c'
        \<and> bc_period_end c = bc_period_end c' \<and> cq_as_of_date q = cq_as_of_date q'"
      using cycle_payload_inject [OF dates] by blast
  qed (simp add: sc)
  then show ?thesis unfolding k by blast
qed

text \<open>Two tenants with the same calendar: a digest that separates the two key texts keeps the keys apart.\<close>

theorem scheduled_key_identifies_cycle_witness:
  "\<exists>e c. materialize_cycle e \<lparr>cq_frequency = ''yearly'', cq_as_of_date = 739728,
        cq_explicit_period_start = None, cq_explicit_period_end = None\<rparr> = Inr c
     \<and> scheduled_batch_idempotency_key e sample_batch_caller ''batch_manifest'' c None
       \<noteq> scheduled_batch_idempotency_key e (sample_batch_caller\<lparr>cc_tenant_id := ''t2''\<rparr>) ''batch_manifest'' c None"
proof -
  let ?q = "\<lparr>cq_frequency = ''yearly'', cq_as_of_date = 739728,
        cq_explicit_period_start = None, cq_explicit_period_end = None\<rparr>"
  define key where "key t scp = canonical_json (JObj (key_payload t ''sg'' ''batch_manifest'' scp None))" for t scp
  define e where "e = sample_env\<lparr>env_sha256 := \<lambda>t. replicate 64 (if \<exists>scp. t = key ''t2'' scp then CHR ''b'' else CHR ''a'')\<rparr>"
  let ?c = "\<lparr>bc_frequency = ''yearly'', bc_period_start = 739617, bc_period_end = 739728, bc_as_of_date = 739728,
     bc_idempotency_scope = cycle_scope e ''yearly'' 739617 739728 739728\<rparr>"
  have start: "period_start_of ''yearly'' 739728 = Some 739617" by code_simp
  have c: "materialize_cycle e ?q = Inr ?c"
    using start by (simp add: materialize_cycle_def BATCH_FREQUENCIES_def)
  have t1: "\<nexists>s. key ''t1'' scp = key ''t2'' s" for scp unfolding key_def key_payload_inject by simp
  have hex: "\<forall>t. length (env_sha256 e t) = 64" by (simp add: e_def)
  have keys: "inj_on (\<lambda>t. take 32 (env_sha256 e t)) {key ''t1'' scp, key ''t2'' scp}" for scp
    using t1 by (auto simp: inj_on_def e_def)
  have "scheduled_batch_idempotency_key e sample_batch_caller ''batch_manifest'' ?c None
      = scheduled_batch_idempotency_key e (sample_batch_caller\<lparr>cc_tenant_id := ''t2''\<rparr>) ''batch_manifest'' ?c None
    \<longleftrightarrow> cc_tenant_id sample_batch_caller = cc_tenant_id (sample_batch_caller\<lparr>cc_tenant_id := ''t2''\<rparr>)
      \<and> cc_region sample_batch_caller = cc_region (sample_batch_caller\<lparr>cc_tenant_id := ''t2''\<rparr>)
      \<and> ''batch_manifest'' = ''batch_manifest'' \<and> (None :: string option) = None
      \<and> cq_frequency ?q = cq_frequency ?q \<and> bc_period_start ?c = bc_period_start ?c
      \<and> bc_period_end ?c = bc_period_end ?c \<and> cq_as_of_date ?q = cq_as_of_date ?q"
  proof (rule scheduled_key_identifies_cycle [OF c c _ hex])
    show "\<forall>d \<in> {bc_period_start ?c, bc_period_end ?c, cq_as_of_date ?q, bc_period_start ?c, bc_period_end ?c,
        cq_as_of_date ?q}. 1 \<le> d \<and> d \<le> MAX_ORDINAL" by (simp add: MAX_ORDINAL_eq)
  qed (use keys in \<open>simp_all add: sample_batch_caller_def key_def\<close>)
  then show ?thesis using c by (auto simp: sample_batch_caller_def)
qed

end
