(* ===== verification/Work_Ledger.thy ===== *)
theory Work_Ledger
  imports Job_Transitions "HOL-Library.Product_Lexorder"
begin

text \<open>
  The durable work queue of the SQLite ledger (\<open>src/src/app/reporting_jobs/ledger.py\<close>):
  enqueueing, claiming with leases, completing, deferring, failing, recovery of expired leases and
  the failure of a job whose work is exhausted. Telemetry counters are left out.

  The interface \<open>fenced_settlement\<close> states what a worker relies on: a settlement succeeds only for
  the holder of the lease and ends the lease. The three settling operations are an instance.
\<close>

section \<open>Operations\<close>

record work_record =
  wr_work_item_id :: string
  wr_report_job_id :: string
  wr_status :: work_status
  wr_attempt_count :: int
  wr_available_at :: dt
  wr_lease_owner :: "string option"
  wr_lease_token :: "string option"
  wr_lease_acquired_at :: "dt option"
  wr_lease_expires_at :: "dt option"
  wr_last_error_category :: "string option"
  wr_last_error_summary :: "string option"
  wr_created_at :: dt
  wr_updated_at :: dt
  wr_completed_at :: "dt option"

definition work_item_from_row :: "work_item \<Rightarrow> work_record" where
  "work_item_from_row w = \<lparr>wr_work_item_id = work_item_id w, wr_report_job_id = wi_report_job_id w,
     wr_status = wi_status w, wr_attempt_count = attempt_count w,
     wr_available_at = stamp_dt (available_at w), wr_lease_owner = lease_owner w,
     wr_lease_token = lease_token w, wr_lease_acquired_at = map_option stamp_dt (lease_acquired_at w),
     wr_lease_expires_at = map_option stamp_dt (lease_expires_at w),
     wr_last_error_category = last_error_category w, wr_last_error_summary = last_error_summary w,
     wr_created_at = stamp_dt (wi_created_at w), wr_updated_at = stamp_dt (wi_updated_at w),
     wr_completed_at = map_option stamp_dt (wi_completed_at w)\<rparr>"

definition ensure_work_item :: "env \<Rightarrow> job_record \<Rightarrow> unit ledger_tx" where
  "ensure_work_item e record =
     (if lr_status record \<in> {Archived, Completed_with_warnings, Failed, Cancelled} then tx_return ()
      else let now = dt_to_text (utc_now e 0) in
        insert_work_or_ignore \<lparr>work_item_id = ''rwork_'' @ uuid4_hex e 1,
          wi_report_job_id = lr_job_id record, wi_status = Pending, attempt_count = 0,
          available_at = now, lease_owner = None, lease_token = None, lease_acquired_at = None,
          lease_expires_at = None, last_error_category = None, last_error_summary = None,
          wi_created_at = now, wi_updated_at = now, wi_completed_at = None\<rparr>)"

definition get_work_item_for_job :: "string \<Rightarrow> work_record option ledger_tx" where
  "get_work_item_for_job job_id =
     tx_get (\<lambda>s. map_option work_item_from_row (find_work_of_job job_id s))"

definition exhaustion_message :: "string \<Rightarrow> string" where
  "exhaustion_message summary =
     take 500 (''Durable report processing exhausted its permitted attempts. '' @ summary)"

definition exhaustion_transition ::
    "string \<Rightarrow> failure_category \<Rightarrow> string \<Rightarrow> string \<Rightarrow> string \<Rightarrow> transition" where
  "exhaustion_transition actor failure_category summary correlation_id trace_id =
     (plain_transition Failed ''job_failed'' summary actor correlation_id trace_id)\<lparr>
        t_failure_category := Some failure_category,
        t_failure_message := Some (exhaustion_message summary),
        t_retry_eligible := True, t_set_completed_at := True\<rparr>"

definition terminalize_report_job_from_work ::
    "env \<Rightarrow> string \<Rightarrow> string \<Rightarrow> failure_category \<Rightarrow> string \<Rightarrow> unit ledger_tx" where
  "terminalize_report_job_from_work e wid actor failure_category failure_summary =
     tx_bind (protect_work (sub_env 0 e) wid False) (\<lambda>protected.
     if protected then tx_return () else
     tx_bind (tx_get (\<lambda>s. Option.bind (find_work wid s) (\<lambda>w.
         Option.bind (find_job (wi_report_job_id w) s) (\<lambda>j.
         map_option (\<lambda>r. (j, r)) (find_request (j_request_id j) s))))) (\<lambda>job_context.
     case job_context of None \<Rightarrow> tx_return () | Some (j, r) \<Rightarrow>
     if j_status j \<in> {Archived, Completed_with_warnings, Failed, Cancelled} then tx_return ()
     else tx_bind (transition_job (sub_env 1 e) (j_id j)
            (exhaustion_transition actor failure_category (bounded_summary 240 failure_summary)
               (r_correlation_id r) (r_trace_id r))) (\<lambda>_. tx_return ())))"

text \<open>A lease ends: the owner, the token and both lease times are cleared.\<close>

definition release :: "work_item \<Rightarrow> work_item" where
  "release w = w\<lparr>lease_owner := None, lease_token := None, lease_acquired_at := None,
     lease_expires_at := None\<rparr>"

definition expire_work :: "work_status \<Rightarrow> stamp \<Rightarrow> stamp \<Rightarrow> work_item \<Rightarrow> work_item" where
  "expire_work status available now w = (release w)\<lparr>wi_status := status, available_at := available,
     last_error_category := Some ''expired_work_lease'',
     last_error_summary := Some ''Report job work lease expired before completion.'',
     wi_updated_at := now\<rparr>"

definition lease_expired :: "stamp \<Rightarrow> work_item \<Rightarrow> bool" where
  "lease_expired now w \<longleftrightarrow> wi_status w = Leased
     \<and> (case lease_expires_at w of None \<Rightarrow> False | Some t \<Rightarrow> stamp_le t now)"

definition expiry_key :: "work_item \<Rightarrow> int \<times> string" where
  "expiry_key w = (case lease_expires_at w of None \<Rightarrow> 0 | Some t \<Rightarrow> text_key t, work_item_id w)"

definition expired_rows :: "stamp \<Rightarrow> ledger \<Rightarrow> work_item list" where
  "expired_rows now s = take 5 (sort_key expiry_key (filter (lease_expired now) (work_items s)))"

definition sql_eq :: "'a option \<Rightarrow> 'a option \<Rightarrow> bool" where
  "sql_eq a b \<longleftrightarrow> a \<noteq> None \<and> a = b"

definition recover_one ::
    "env \<Rightarrow> dt \<Rightarrow> retry_policy \<Rightarrow> work_item \<Rightarrow> nat \<times> nat \<Rightarrow> (nat \<times> nat) ledger_tx" where
  "recover_one e recovered_at policy expired counts =
     (let decision = decide_report_job_work_failure (attempt_count expired)
            (case lease_expires_at expired of None \<Rightarrow> recovered_at | Some t \<Rightarrow> stamp_dt t) policy;
          now = dt_to_text recovered_at in
      tx_bind (update_work
          (\<lambda>w. work_item_id w = work_item_id expired \<and> wi_status w = Leased
               \<and> sql_eq (lease_token w) (lease_token expired) \<and> lease_expired now w)
          (expire_work (fd_status decision) (dt_to_text (fd_available_at decision)) now)) (\<lambda>n.
      tx_bind (tx_require (n = 1)
          (InvalidReportJobWorkTransitionError ''report_job_work_lease_not_owned'')) (\<lambda>_.
      if fd_status decision = Work_failed
      then tx_bind (terminalize_report_job_from_work e (work_item_id expired)
             (or_else (lease_owner expired) ''report-job-worker'') Timeout
             ''Report job work lease expired after the final permitted attempt.'') (\<lambda>_.
           tx_return (fst counts, Suc (snd counts)))
      else tx_return (Suc (fst counts), snd counts))))"

text \<open>The \<open>for\<close> loop over the selected rows; the \<open>i\<close>-th pass sees its own environment.\<close>

definition recover_expired_work_items ::
    "env \<Rightarrow> dt \<Rightarrow> retry_policy \<Rightarrow> (nat \<times> nat) ledger_tx" where
  "recover_expired_work_items e recovered_at policy =
     tx_bind (tx_get (expired_rows (dt_to_text recovered_at))) (\<lambda>rows.
     tx_foreach (enumerate 0 rows) (0, 0)
       (\<lambda>x counts. recover_one (sub_env (fst x) e) recovered_at policy (snd x) counts))"

definition claimable :: "stamp \<Rightarrow> work_item \<Rightarrow> bool" where
  "claimable now w \<longleftrightarrow> wi_status w \<in> {Pending, Retry_pending} \<and> stamp_le (available_at w) now"

definition claim_key :: "work_item \<Rightarrow> int \<times> int \<times> string" where
  "claim_key w = (text_key (available_at w), text_key (wi_created_at w), work_item_id w)"

definition claimable_rows :: "stamp \<Rightarrow> int \<Rightarrow> ledger \<Rightarrow> string list" where
  "claimable_rows now limit s =
     map work_item_id (take (nat limit) (sort_key claim_key (filter (claimable now) (work_items s))))"

definition lease_work :: "string \<Rightarrow> string \<Rightarrow> stamp \<Rightarrow> stamp \<Rightarrow> work_item \<Rightarrow> work_item" where
  "lease_work worker_id token now expires w = w\<lparr>wi_status := Leased, attempt_count := attempt_count w + 1,
     lease_owner := Some worker_id, lease_token := Some token, lease_acquired_at := Some now,
     lease_expires_at := Some expires, wi_updated_at := now\<rparr>"

definition claim_one ::
    "env \<Rightarrow> string \<Rightarrow> int \<Rightarrow> dt \<Rightarrow> string \<Rightarrow> work_record list \<Rightarrow> work_record list ledger_tx" where
  "claim_one e worker_id lease_seconds claimed_at wid acc =
     (let token = ''rlease_'' @ uuid4_hex e 0 in
      tx_bind (update_work (\<lambda>w. work_item_id w = wid \<and> wi_status w \<in> {Pending, Retry_pending})
          (lease_work worker_id token (dt_to_text claimed_at)
             (dt_to_text (claimed_at + seconds lease_seconds)))) (\<lambda>_.
      tx_bind (tx_get (find_work wid)) (\<lambda>row.
      case row of None \<Rightarrow> tx_return acc | Some w \<Rightarrow>
      if lease_token w = Some token
      then tx_bind (claimed (sub_env 1 e) w lease_seconds) (\<lambda>_. tx_return (acc @ [work_item_from_row w]))
      else tx_return acc)))"

definition claim_work_items ::
    "env \<Rightarrow> string \<Rightarrow> int \<Rightarrow> int \<Rightarrow> retry_policy option \<Rightarrow> dt option \<Rightarrow> work_record list ledger_tx" where
  "claim_work_items e worker_id limit lease_seconds policy now =
     (if limit < 1 then tx_return [] else
      let claimed_at = (case now of None \<Rightarrow> utc_now e 0 | Some t \<Rightarrow> t) in
      tx_bind (recover_expired_work_items (sub_env 1 e) claimed_at
          (case policy of None \<Rightarrow> default_retry_policy | Some p \<Rightarrow> p)) (\<lambda>_.
      tx_bind (tx_get (claimable_rows (dt_to_text claimed_at) limit)) (\<lambda>rows.
      tx_foreach (enumerate 0 rows) []
        (\<lambda>x acc. claim_one (sub_env (fst x) (sub_env 2 e)) worker_id lease_seconds claimed_at (snd x) acc))))"

definition lease_held :: "string \<Rightarrow> string \<Rightarrow> work_item \<Rightarrow> bool" where
  "lease_held wid token w \<longleftrightarrow> work_item_id w = wid \<and> wi_status w = Leased \<and> lease_token w = Some token"

abbreviation lease_not_owned :: err where
  "lease_not_owned \<equiv> InvalidReportJobWorkTransitionError ''report_job_work_lease_not_owned''"

text \<open>The row read back at the end of a settlement.\<close>

definition settled_row :: "string \<Rightarrow> work_record ledger_tx" where
  "settled_row wid =
     tx_bind (tx_get (find_work wid)) (\<lambda>row.
     case row of None \<Rightarrow> tx_raise (InvalidReportJobWorkTransitionError ''report_job_work_item_not_found'')
     | Some w \<Rightarrow> tx_return (work_item_from_row w))"

definition complete_work :: "stamp \<Rightarrow> work_item \<Rightarrow> work_item" where
  "complete_work now w = (release w)\<lparr>wi_status := Work_completed, wi_updated_at := now,
     wi_completed_at := Some now\<rparr>"

definition complete_work_item :: "env \<Rightarrow> string \<Rightarrow> string \<Rightarrow> dt option \<Rightarrow> work_record ledger_tx" where
  "complete_work_item e wid token now =
     (let completed_at = dt_to_text (case now of None \<Rightarrow> utc_now e 0 | Some t \<Rightarrow> t) in
      tx_bind (validate_work wid token (case now of None \<Rightarrow> utc_now e 1 | Some t \<Rightarrow> t)) (\<lambda>_.
      tx_bind (protect_work (sub_env 2 e) wid True) (\<lambda>protected.
      if protected then tx_bind (tx_get (find_work wid)) (\<lambda>row.
         case row of None \<Rightarrow> tx_raise (PyTypeError ''NoneType'') | Some w \<Rightarrow> tx_return (work_item_from_row w))
      else
        tx_bind (update_work (lease_held wid token) (complete_work completed_at)) (\<lambda>n.
        tx_bind (tx_require (n = 1) lease_not_owned) (\<lambda>_.
        settled_row wid)))))"

definition defer_work :: "stamp \<Rightarrow> string \<Rightarrow> stamp \<Rightarrow> work_item \<Rightarrow> work_item" where
  "defer_work available reason now w = (release w)\<lparr>wi_status := Retry_pending,
     attempt_count := max (attempt_count w - 1) 0, available_at := available,
     last_error_category := Some (take 80 reason),
     last_error_summary := Some ''Waiting on owner-side work; the failure budget is untouched.'',
     wi_updated_at := now\<rparr>"

text \<open>The part of \<open>defer_work_item\<close> for work whose custody is not verified.\<close>

definition defer_unsettled :: "string \<Rightarrow> string \<Rightarrow> string \<Rightarrow> int \<Rightarrow> dt \<Rightarrow> work_record ledger_tx" where
  "defer_unsettled wid token wait_reason delay_seconds deferred_at =
     tx_bind (scheduled_at wid (deferred_at + seconds (max delay_seconds 1))) (\<lambda>available.
     tx_bind (update_work (lease_held wid token)
         (defer_work (dt_to_text available) wait_reason (dt_to_text deferred_at))) (\<lambda>n.
     tx_bind (tx_require (n = 1) lease_not_owned) (\<lambda>_.
     settled_row wid)))"

definition defer_work_item ::
    "env \<Rightarrow> string \<Rightarrow> string \<Rightarrow> string \<Rightarrow> int \<Rightarrow> dt option \<Rightarrow> work_record ledger_tx" where
  "defer_work_item e wid token wait_reason delay_seconds now =
     (let deferred_at = (case now of None \<Rightarrow> utc_now e 0 | Some t \<Rightarrow> t) in
      tx_bind (validate_work wid token deferred_at) (\<lambda>_.
      tx_bind (settle_verified_work (sub_env 1 e) wid) (\<lambda>settled.
      case settled of Some w \<Rightarrow> tx_return (work_item_from_row w)
      | None \<Rightarrow> defer_unsettled wid token wait_reason delay_seconds deferred_at)))"

definition fail_work :: "work_status \<Rightarrow> stamp \<Rightarrow> string \<Rightarrow> string \<Rightarrow> stamp \<Rightarrow> work_item \<Rightarrow> work_item" where
  "fail_work status available category summary now w = (release w)\<lparr>wi_status := status,
     available_at := available, last_error_category := Some (take 80 category),
     last_error_summary := Some (bounded_summary 240 summary), wi_updated_at := now\<rparr>"

text \<open>The part of \<open>fail_work_item\<close> for work whose custody is not verified.\<close>

definition fail_unsettled ::
    "env \<Rightarrow> string \<Rightarrow> string \<Rightarrow> string \<Rightarrow> string \<Rightarrow> retry_policy \<Rightarrow> dt \<Rightarrow> work_record ledger_tx" where
  "fail_unsettled e wid token error_category error_summary policy failed_at =
     tx_bind (tx_get (\<lambda>s. fetch (lease_held wid token) (work_items s))) (\<lambda>current.
     case current of None \<Rightarrow> tx_raise lease_not_owned | Some c \<Rightarrow>
     let decision = decide_report_job_work_failure (attempt_count c) failed_at policy in
     tx_bind (scheduled_at wid (fd_available_at decision)) (\<lambda>available.
     tx_bind (update_work (lease_held wid token)
         (fail_work (fd_status decision) (dt_to_text available) error_category error_summary
            (dt_to_text failed_at))) (\<lambda>n.
     tx_bind (tx_require (n = 1) lease_not_owned) (\<lambda>_.
     tx_bind (settled_row wid) (\<lambda>row.
     tx_bind (if fd_status decision = Work_failed
         then terminalize_report_job_from_work e wid
                (or_else (lease_owner c) ''report-job-worker'') Operator_intervention_required
                error_summary
         else tx_return ()) (\<lambda>_.
     tx_return row))))))"

definition fail_work_item ::
    "env \<Rightarrow> string \<Rightarrow> string \<Rightarrow> string \<Rightarrow> string \<Rightarrow> retry_policy option \<Rightarrow> dt option
     \<Rightarrow> work_record ledger_tx" where
  "fail_work_item e wid token error_category error_summary policy now =
     (let failed_at = (case now of None \<Rightarrow> utc_now e 0 | Some t \<Rightarrow> t) in
      tx_bind (validate_work wid token failed_at) (\<lambda>_.
      tx_bind (settle_verified_work (sub_env 1 e) wid) (\<lambda>settled.
      case settled of Some w \<Rightarrow> tx_return (work_item_from_row w)
      | None \<Rightarrow> fail_unsettled (sub_env 2 e) wid token error_category error_summary
                  (case policy of None \<Rightarrow> default_retry_policy | Some p \<Rightarrow> p) failed_at)))"

section \<open>Frames\<close>

lemma work_frames [simp]:
  "work_frame (expire_work st av now)" "work_frame (lease_work wk tok now ex)"
  "work_frame (complete_work now)" "work_frame (defer_work av re now)"
  "work_frame (fail_work st av c sm now)"
  by (simp_all add: work_frame_def release_def expire_work_def lease_work_def complete_work_def
      defer_work_def fail_work_def)

lemma keeps_ensure_work [keeps_intros]: "keeps ledger_rel (ensure_work_item e rec)"
  unfolding ensure_work_item_def by (intro ledger_rules keeps_intros)

lemma keeps_terminalize [keeps_intros]: "keeps ledger_rel (terminalize_report_job_from_work e w a f m)"
  unfolding terminalize_report_job_from_work_def by (intro ledger_rules keeps_intros)

lemma keeps_recover_one [keeps_intros]: "keeps ledger_rel (recover_one e t p x c)"
  unfolding recover_one_def by (intro ledger_rules keeps_intros work_frames)

lemma keeps_recover [keeps_intros]: "keeps ledger_rel (recover_expired_work_items e t p)"
  unfolding recover_expired_work_items_def by (intro ledger_rules keeps_intros)

lemma keeps_claim_one [keeps_intros]: "keeps ledger_rel (claim_one e wk n t w acc)"
  unfolding claim_one_def by (intro ledger_rules keeps_intros work_frames)

lemma keeps_claim [keeps_intros]: "keeps ledger_rel (claim_work_items e wk l n p t)"
  unfolding claim_work_items_def by (intro ledger_rules keeps_intros)

lemma keeps_settled_row [keeps_intros]: "keeps ledger_rel (settled_row w)"
  unfolding settled_row_def by (intro ledger_rules keeps_intros)

lemma keeps_settlements [keeps_intros]:
  "keeps ledger_rel (complete_work_item e w tok now)"
  "keeps ledger_rel (defer_work_item e w tok r d now)"
  "keeps ledger_rel (fail_work_item e w tok c sm p now)"
  unfolding complete_work_item_def defer_work_item_def defer_unsettled_def fail_work_item_def fail_unsettled_def
  by (intro ledger_rules keeps_intros work_frames)+

section \<open>No lease is taken from its holder\<close>

text \<open>
  Between two states nobody grabs work: every leased row was leased in the same way before, and
  a row waiting to be claimed was waiting before, or its lease had expired. All operations but the
  claim itself keep this.
\<close>

abbreviation waiting :: "work_item \<Rightarrow> bool" where
  "waiting w \<equiv> wi_status w \<in> {Pending, Retry_pending}"

definition no_grab :: "stamp \<Rightarrow> ledger \<Rightarrow> ledger \<Rightarrow> bool" where
  "no_grab now s s' \<longleftrightarrow> (\<forall>w' \<in> set (work_items s').
     (wi_status w' = Leased \<longrightarrow> w' \<in> set (work_items s))
     \<and> (waiting w' \<longrightarrow> (\<exists>w \<in> set (work_items s). work_item_id w = work_item_id w'
          \<and> (waiting w \<or> lease_expired now w))))"

lemma no_grab_same: "work_items s' = work_items s \<Longrightarrow> no_grab now s s'"
  by (auto simp: no_grab_def)

interpretation grab: tx_relation "no_grab now" for now
proof unfold_locales
  show "no_grab now s s" for s by (rule no_grab_same) simp
  show "no_grab now s u" if st: "no_grab now s t" and tu: "no_grab now t u" for s t u
    unfolding no_grab_def
  proof (intro ballI conjI impI)
    fix w assume w: "w \<in> set (work_items u)"
    show "w \<in> set (work_items s)" if "wi_status w = Leased"
      using that w st tu by (auto simp: no_grab_def)
    show "\<exists>x\<in>set (work_items s). work_item_id x = work_item_id w \<and> (waiting x \<or> lease_expired now x)"
      if wt: "waiting w"
    proof -
      obtain v where v: "v \<in> set (work_items t)" "work_item_id v = work_item_id w"
        "waiting v \<or> lease_expired now v"
        using tu w wt unfolding no_grab_def by blast
      show ?thesis
      proof (cases "waiting v")
        case True
        then show ?thesis using st v(1,2) unfolding no_grab_def by metis
      next
        case False
        then have "wi_status v = Leased" using v(3) by (simp add: lease_expired_def)
        then have "v \<in> set (work_items s)" using st v(1) unfolding no_grab_def by blast
        then show ?thesis using v by blast
      qed
    qed
  qed
qed

named_theorems grab_intros \<open>operations that keep \<open>no_grab\<close>\<close>

lemma grab_statements [grab_intros]:
  "keeps (no_grab now) (insert_event v)" "keeps (no_grab now) (update_job P f)"
  by (rule keepsI, rule no_grab_same,
      auto simp: insert_event_def update_job_def split: if_splits)+

lemma grab_update_work:
  assumes "\<And>x. P x \<Longrightarrow> wi_status (f x) \<noteq> Leased"
    and "\<And>x. P x \<Longrightarrow> waiting (f x) \<Longrightarrow> work_item_id (f x) = work_item_id x \<and> (waiting x \<or> lease_expired now x)"
  shows "keeps (no_grab now) (update_work P f)"
proof (rule keepsI)
  fix s n s' assume "update_work P f s = Inr (n, s')"
  then have "work_items s' = update_where P f (work_items s)" by (auto simp: update_work_def)
  then show "no_grab now s s'"
    unfolding no_grab_def using assms by (fastforce simp: set_update_where)
qed

lemma grab_execute [grab_intros]: "keeps (no_grab now) m \<Longrightarrow> keeps (no_grab now) (execute m)"
  unfolding execute_def by (intro grab.keeps_rules)

lemma grab_append [grab_intros]: "keeps (no_grab now) (append_status_event e j f t ty m p k a c tr n)"
  unfolding append_status_event_def by (intro grab.keeps_rules grab_intros)

lemma grab_reads [grab_intros]: "keeps (no_grab now) (metadata jid)" "keeps (no_grab now) (lock_pair jid)"
  "keeps (no_grab now) (reload_job jid)"
proof -
  show md: "keeps (no_grab now) (metadata jid)" unfolding metadata_def by (intro grab.keeps_rules)
  show "keeps (no_grab now) (lock_pair jid)" unfolding lock_pair_def by (intro grab.keeps_rules md)
  have ld: "keeps (no_grab now) (load_by_request_id rid)" for rid
    by (rule keepsI, rule no_grab_same) (auto simp: load_by_request_id_def split: option.splits)
  show "keeps (no_grab now) (reload_job jid)" unfolding reload_job_def by (intro grab.keeps_rules ld)
qed

lemma grab_park [grab_intros]: "keeps (no_grab now) (park e w j r reason)"
  unfolding park_def custody_event_def
  by (intro grab.keeps_rules grab_intros grab_update_work) (simp_all add: park_work_def)

lemma grab_protect [grab_intros]:
  "keeps (no_grab now) (guard_transition e jid t)" "keeps (no_grab now) (protect_work e wid c)"
  unfolding guard_transition_def protect_work_def
  by (intro grab.keeps_rules grab_intros grab_update_work; simp add: settle_work_def)+

lemma grab_transition [grab_intros]: "keeps (no_grab now) (transition_job e jid t)"
  unfolding transition_job_def by (intro grab.keeps_rules grab_intros)

lemma grab_terminalize [grab_intros]:
  "keeps (no_grab now) (terminalize_report_job_from_work e w a f m)"
  unfolding terminalize_report_job_from_work_def by (intro grab.keeps_rules grab_intros)

lemma decision_not_leased: "fd_status (decide_report_job_work_failure n t p) \<in> {Work_failed, Retry_pending}"
  by (simp add: decide_report_job_work_failure_def Let_def)

lemma grab_recover: "keeps (no_grab (dt_to_text t)) (recover_expired_work_items e t p)"
proof -
  have "keeps (no_grab (dt_to_text t)) (recover_one e' t p x c)" for e' x c
    unfolding recover_one_def Let_def
    by (intro grab.keeps_rules grab_intros grab_update_work)
       (use decision_not_leased in \<open>auto simp: expire_work_def release_def\<close>)
  then show ?thesis
    unfolding recover_expired_work_items_def by (intro grab.keeps_rules)
qed

section \<open>Claiming\<close>

lemma claimed_work_items: "claimed e w n s = Inr (u, s') \<Longrightarrow> work_items s' = work_items s"
  unfolding claimed_def
  by (auto simp: tx_bind_eq lock_pair_Inr execute_Inr update_job_def split: if_splits)

lemma find_work_same: "work_items s' = work_items s \<Longrightarrow> find_work k s' = find_work k s"
  by (simp add: find_work_def)

lemma claim_one_effect:
  assumes inv: "schema_inv s" and w: "find_work wid s = Some w" and wt: "waiting w"
    and run: "claim_one e wk n t wid acc s = Inr (acc', s')"
  defines "w' \<equiv> lease_work wk (''rlease_'' @ uuid4_hex e 0) (dt_to_text t) (dt_to_text (t + seconds n)) w"
  shows "acc' = acc @ [work_item_from_row w'] \<and> schema_inv s'
    \<and> (\<forall>k. find_work k s' = (if k = wid then Some w' else find_work k s))"
proof -
  let ?tok = "''rlease_'' @ uuid4_hex e 0"
  let ?P = "\<lambda>w. work_item_id w = wid \<and> waiting w"
  let ?f = "lease_work wk ?tok (dt_to_text t) (dt_to_text (t + seconds n))"
  let ?s = "s\<lparr>work_items := update_where ?P ?f (work_items s)\<rparr>"
  have wid: "work_item_id w = wid" using w by (auto simp: find_work_def dest: fetch_SomeD)
  have up: "update_work ?P ?f s = Inr (1, ?s)"
    by (rule update_work_point [OF inv w]) (use wid wt in auto)
  have fw: "find_work k ?s = (if k = wid then Some w' else find_work k s)" for k
    unfolding w'_def
    by (rule find_work_update [OF inv w]) (use wid wt in \<open>auto simp: lease_work_def\<close>)
  then have "find_work wid ?s = Some w'" "lease_token w' = Some ?tok"
    by (simp_all add: w'_def lease_work_def)
  then have cl: "claimed (sub_env 1 e) w' n ?s = Inr ((), s')" and acc: "acc' = acc @ [work_item_from_row w']"
    using run up unfolding claim_one_def Let_def by (auto simp: tx_bind_def tx_get_def split: sum.splits)
  have "schema_inv s'" using keepsD [OF keeps_claim_one run] ledger_rel_schema inv by blast
  then show ?thesis using acc fw find_work_same [OF claimed_work_items [OF cl]] by simp
qed

text \<open>A row leased by this claim.\<close>

definition leased_by :: "string \<Rightarrow> dt \<Rightarrow> int \<Rightarrow> work_record \<Rightarrow> bool" where
  "leased_by wk t n it \<longleftrightarrow> wr_status it = Leased \<and> wr_lease_owner it = Some wk \<and> wr_lease_token it \<noteq> None
     \<and> wr_lease_acquired_at it = Some t \<and> wr_lease_expires_at it = Some (t + seconds n)"

lemma claim_loop:
  assumes "schema_inv s" "distinct (map snd xs)" "\<forall>wid \<in> set (map snd xs). \<exists>w. find_work wid s = Some w \<and> waiting w"
    and "tx_foreach xs acc (\<lambda>x acc. claim_one (sub_env (fst x) e) wk n t (snd x) acc) s = Inr (acc', s')"
  shows "\<exists>news. acc' = acc @ news \<and> map wr_work_item_id news = map snd xs \<and> schema_inv s'
    \<and> (\<forall>it \<in> set news. leased_by wk t n it \<and> (\<exists>w. find_work (wr_work_item_id it) s' = Some w \<and> it = work_item_from_row w))
    \<and> (\<forall>k. k \<notin> set (map snd xs) \<longrightarrow> find_work k s' = find_work k s)"
  using assms
proof (induction xs arbitrary: s acc)
  case Nil
  then show ?case by simp
next
  case (Cons x xs)
  obtain w where w: "find_work (snd x) s = Some w" "waiting w" using Cons.prems(3) by auto
  obtain acc1 s1 where one: "claim_one (sub_env (fst x) e) wk n t (snd x) acc s = Inr (acc1, s1)"
    and rest: "tx_foreach xs acc1 (\<lambda>x acc. claim_one (sub_env (fst x) e) wk n t (snd x) acc) s1 = Inr (acc', s')"
    using Cons.prems(4) by (auto elim: tx_bindE)
  define w' where "w' = lease_work wk (''rlease_'' @ uuid4_hex (sub_env (fst x) e) 0) (dt_to_text t)
     (dt_to_text (t + seconds n)) w"
  have eff: "acc1 = acc @ [work_item_from_row w']" "schema_inv s1"
    "\<And>k. find_work k s1 = (if k = snd x then Some w' else find_work k s)"
    using claim_one_effect [OF Cons.prems(1) w one] by (auto simp: w'_def)
  have "snd x \<notin> set (map snd xs)" using Cons.prems(2) by simp
  then have "\<forall>wid \<in> set (map snd xs). \<exists>w. find_work wid s1 = Some w \<and> waiting w"
    using Cons.prems(3) eff(3) by (metis list.set_intros(2) list.simps(9))
  with Cons.IH [OF eff(2) _ _ rest] Cons.prems(2) obtain news where
    news: "acc' = acc1 @ news" "map wr_work_item_id news = map snd xs" "schema_inv s'"
    "\<forall>it \<in> set news. leased_by wk t n it \<and> (\<exists>w. find_work (wr_work_item_id it) s' = Some w \<and> it = work_item_from_row w)"
    "\<forall>k. k \<notin> set (map snd xs) \<longrightarrow> find_work k s' = find_work k s1"
    by auto
  have id: "work_item_id w = snd x" using w(1) by (auto simp: find_work_def dest: fetch_SomeD)
  have "find_work (snd x) s' = Some w'" using news(5) eff(3) Cons.prems(2) by auto
  moreover have "wr_work_item_id (work_item_from_row w') = snd x" "leased_by wk t n (work_item_from_row w')"
    by (simp_all add: work_item_from_row_def w'_def lease_work_def id leased_by_def dt_to_text_def)
  ultimately show ?case
    using news eff Cons.prems(2) by (intro exI [of _ "work_item_from_row w' # news"]) auto
qed

lemma claimable_rows_waiting:
  assumes "schema_inv s" "wid \<in> set (claimable_rows now limit s)"
  shows "\<exists>w. find_work wid s = Some w \<and> claimable now w"
proof -
  obtain w where "w \<in> set (work_items s)" "claimable now w" "work_item_id w = wid"
    using assms(2) by (auto simp: claimable_rows_def dest!: in_set_takeD)
  then show ?thesis using find_work_iff [OF assms(1)] by blast
qed

lemma distinct_claimable_rows:
  assumes "schema_inv s"
  shows "distinct (claimable_rows now limit s)"
proof -
  have "inj_on work_item_id (set (work_items s))" "distinct (work_items s)"
    using schema_distinct(2) [OF assms] by (simp_all add: distinct_map)
  moreover have "set (take (nat limit) (sort_key claim_key (filter (claimable now) (work_items s))))
      \<subseteq> set (work_items s)"
    by (auto dest: in_set_takeD)
  ultimately show ?thesis
    unfolding claimable_rows_def distinct_map
    by (auto intro!: distinct_take intro: inj_on_subset)
qed

lemma claimable_rows_all:
  assumes "length (claimable_rows now limit s) < nat limit" "w \<in> set (work_items s)" "claimable now w"
  shows "work_item_id w \<in> set (claimable_rows now limit s)"
proof -
  let ?rows = "sort_key claim_key (filter (claimable now) (work_items s))"
  have "length ?rows \<le> nat limit"
    using assms(1) by (simp add: claimable_rows_def)
  then show ?thesis using assms(2,3) by (auto simp: claimable_rows_def)
qed

text \<open>A claim recovers expired leases, then leases exactly the selected rows.\<close>

lemma claim_opens:
  assumes inv: "schema_inv s" and limit: "1 \<le> limit"
    and run: "claim_work_items e wk limit n policy (Some t) s = Inr (items, s')"
  obtains p' counts s1 where "recover_expired_work_items (sub_env 1 e) t p' s = Inr (counts, s1)" "schema_inv s1"
    "map wr_work_item_id items = claimable_rows (dt_to_text t) limit s1" "schema_inv s'"
    "\<forall>it \<in> set items. leased_by wk t n it \<and> (\<exists>w. find_work (wr_work_item_id it) s' = Some w \<and> it = work_item_from_row w)"
    "\<forall>k. k \<notin> set (claimable_rows (dt_to_text t) limit s1) \<longrightarrow> find_work k s' = find_work k s1"
proof -
  let ?now = "dt_to_text t"
  obtain counts s1 where rec: "recover_expired_work_items (sub_env 1 e) t
       (case policy of None \<Rightarrow> default_retry_policy | Some p \<Rightarrow> p) s = Inr (counts, s1)"
    and loop: "tx_foreach (enumerate 0 (claimable_rows ?now limit s1)) []
       (\<lambda>x acc. claim_one (sub_env (fst x) (sub_env 2 e)) wk n t (snd x) acc) s1 = Inr (items, s')"
    using run limit unfolding claim_work_items_def by (auto simp: Let_def elim!: tx_bindE)
  let ?ids = "claimable_rows ?now limit s1"
  have inv1: "schema_inv s1" using keepsD [OF keeps_recover rec] ledger_rel_schema inv by blast
  have ids: "map snd (enumerate 0 ?ids) = ?ids" by simp
  have "\<forall>wid \<in> set (map snd (enumerate 0 ?ids)). \<exists>w. find_work wid s1 = Some w \<and> waiting w"
    unfolding ids using claimable_rows_waiting [OF inv1] unfolding claimable_def by blast
  from claim_loop [OF inv1 _ this loop] distinct_claimable_rows [OF inv1]
  have news: "map wr_work_item_id items = ?ids" "schema_inv s'"
    "\<forall>it \<in> set items. leased_by wk t n it \<and> (\<exists>w. find_work (wr_work_item_id it) s' = Some w \<and> it = work_item_from_row w)"
    "\<And>k. k \<notin> set ?ids \<Longrightarrow> find_work k s' = find_work k s1"
    by (auto simp: ids)
  show thesis by (rule that [OF rec inv1 news(1,2,3)]) (use news(4) in blast)
qed

section \<open>Properties\<close>

text \<open>
  (C3) A claim takes only free work and takes it exclusively. At most \<open>limit\<close> distinct items are
  returned; each is a row of the resulting state, leased to the claiming worker from the claim
  instant for exactly the lease time; each was waiting before the claim, or held a lease that had
  expired, so no live lease is stolen. When fewer than \<open>limit\<close> items are returned no work that
  is due is left unclaimed.
\<close>

theorem claim_exclusive:
  assumes inv: "schema_inv s" and limit: "1 \<le> limit"
    and run: "claim_work_items e wk limit n policy (Some t) s = Inr (items, s')"
  shows "length items \<le> nat limit \<and> distinct (map wr_work_item_id items)
    \<and> (\<forall>it \<in> set items. leased_by wk t n it
         \<and> (\<exists>w \<in> set (work_items s'). it = work_item_from_row w)
         \<and> (\<exists>w \<in> set (work_items s). work_item_id w = wr_work_item_id it
              \<and> (waiting w \<or> lease_expired (dt_to_text t) w)))
    \<and> (length items < nat limit \<longrightarrow> (\<forall>w \<in> set (work_items s'). \<not> claimable (dt_to_text t) w))"
proof -
  let ?now = "dt_to_text t"
  obtain p' counts s1 where rec: "recover_expired_work_items (sub_env 1 e) t p' s = Inr (counts, s1)"
    and inv1: "schema_inv s1" and news: "map wr_work_item_id items = claimable_rows ?now limit s1" "schema_inv s'"
      "\<forall>it \<in> set items. leased_by wk t n it \<and> (\<exists>w. find_work (wr_work_item_id it) s' = Some w \<and> it = work_item_from_row w)"
      "\<forall>k. k \<notin> set (claimable_rows ?now limit s1) \<longrightarrow> find_work k s' = find_work k s1"
    by (rule claim_opens [OF inv limit run])
  let ?ids = "claimable_rows ?now limit s1"
  have len: "length items = length ?ids" using news(1) by (metis length_map)
  have free: "\<exists>w \<in> set (work_items s). work_item_id w = wr_work_item_id it \<and> (waiting w \<or> lease_expired ?now w)"
    if it: "it \<in> set items" for it
  proof -
    have "wr_work_item_id it \<in> set ?ids" using it news(1) by (metis image_eqI list.set_map)
    then obtain w1 where w1: "find_work (wr_work_item_id it) s1 = Some w1" "claimable ?now w1"
      using claimable_rows_waiting [OF inv1] by blast
    then have "w1 \<in> set (work_items s1)" "work_item_id w1 = wr_work_item_id it" "waiting w1"
      using find_work_iff [OF inv1] by (auto simp: claimable_def)
    then show ?thesis using keepsD [OF grab_recover rec] unfolding no_grab_def by metis
  qed
  have none_left: "\<not> claimable ?now w" if short: "length items < nat limit" and w: "w \<in> set (work_items s')" for w
  proof
    assume cl: "claimable ?now w"
    have fw: "find_work (work_item_id w) s' = Some w" using find_work_iff [OF news(2)] w by blast
    show False
    proof (cases "work_item_id w \<in> set ?ids")
      case True
      then obtain it where it: "it \<in> set items" "wr_work_item_id it = work_item_id w"
        using news(1) by (metis imageE list.set_map)
      then have "leased_by wk t n (work_item_from_row w)" using news(3) fw by fastforce
      then show False using cl by (auto simp: leased_by_def work_item_from_row_def claimable_def)
    next
      case False
      then have "w \<in> set (work_items s1)" using news(4) fw find_work_iff [OF inv1] by metis
      then show False using claimable_rows_all [of ?now limit s1 w] cl short len False by simp
    qed
  qed
  have "length items \<le> nat limit" using len by (simp add: claimable_rows_def)
  moreover have "distinct (map wr_work_item_id items)" using news(1) distinct_claimable_rows [OF inv1] by simp
  moreover have "\<exists>w \<in> set (work_items s'). it = work_item_from_row w" if "it \<in> set items" for it
    using that news(3) find_work_iff [OF news(2)] by blast
  ultimately show ?thesis using news(3) free none_left by blast
qed

definition sample_queue :: ledger where
  "sample_queue = (sample_ledger sample_job)\<lparr>work_items := [sample_work\<lparr>wi_status := Pending,
     lease_token := None, lease_owner := None, lease_expires_at := None, attempt_count := 0\<rparr>]\<rparr>"

lemma schema_inv_queue: "schema_inv sample_queue"
  by (simp add: schema_inv_def table_oks samples sample_queue_def custody_checks_def custody_scoped_def)

theorem claim_exclusive_witness:
  "\<exists>items s'. claim_work_items sample_env ''w'' 1 60 None (Some 5000000) sample_queue = Inr (items, s')
     \<and> length items = 1 \<and> (\<forall>it \<in> set items. leased_by ''w'' 5000000 60 it)"
proof -
  let ?run = "claim_work_items sample_env ''w'' 1 60 None (Some 5000000) sample_queue"
  have "map_sum (\<lambda>_. ()) (\<lambda>x. length (fst x)) ?run = Inr 1" by code_simp
  then obtain items s' where run: "?run = Inr (items, s')" and len: "length items = 1"
    by (cases ?run) auto
  from claim_exclusive [OF schema_inv_queue _ run] run len show ?thesis by auto
qed

section \<open>Settling\<close>

text \<open>
  What a worker relies on: an operation settles a work item only for the holder of its lease, and
  the lease is gone afterwards. The client's lemma follows once and for all: a lease is settled once.
\<close>

locale fenced_settlement =
  fixes good :: "'s \<Rightarrow> bool"
    and holds :: "'s \<Rightarrow> string \<Rightarrow> string \<Rightarrow> bool"
    and settle :: "'op \<Rightarrow> string \<Rightarrow> string \<Rightarrow> 's \<Rightarrow> err + 'a \<times> 's"
  assumes settle_holds: "good s \<Longrightarrow> settle op wid tok s = Inr (a, s') \<Longrightarrow> holds s wid tok"
    and settle_releases: "good s \<Longrightarrow> settle op wid tok s = Inr (a, s') \<Longrightarrow> \<not> holds s' wid tok'"
    and settle_good: "good s \<Longrightarrow> settle op wid tok s = Inr (a, s') \<Longrightarrow> good s'"
begin

lemma stale_raises: "good s \<Longrightarrow> \<not> holds s wid tok \<Longrightarrow> isl (settle op wid tok s)"
  by (cases "settle op wid tok s") (auto dest: settle_holds)

lemma settled_once:
  "good s \<Longrightarrow> settle op wid tok s = Inr (a, s') \<Longrightarrow> isl (settle op' wid tok' s')"
  using stale_raises settle_releases settle_good by blast

end

definition released :: "string \<Rightarrow> ledger \<Rightarrow> bool" where
  "released wid s \<longleftrightarrow> (\<forall>w \<in> set (work_items s). work_item_id w = wid \<longrightarrow> wi_status w \<noteq> Leased)"

definition holds_lease :: "ledger \<Rightarrow> string \<Rightarrow> string \<Rightarrow> bool" where
  "holds_lease s wid tok \<longleftrightarrow> (\<exists>w \<in> set (work_items s). lease_held wid tok w)"

datatype settlement =
    Complete env "dt option"
  | Defer env string int "dt option"
  | Fail env string string "retry_policy option" "dt option"

fun settle :: "settlement \<Rightarrow> string \<Rightarrow> string \<Rightarrow> work_record ledger_tx" where
  "settle (Complete e now) wid tok = complete_work_item e wid tok now"
| "settle (Defer e reason delay now) wid tok = defer_work_item e wid tok reason delay now"
| "settle (Fail e category summary policy now) wid tok = fail_work_item e wid tok category summary policy now"

lemma released_later: "released wid s \<Longrightarrow> no_grab now s s' \<Longrightarrow> released wid s'"
  unfolding released_def no_grab_def by blast

lemma released_no_lease: "released wid s \<Longrightarrow> \<not> holds_lease s wid tok"
  by (auto simp: released_def holds_lease_def lease_held_def)

lemma released_find:
  assumes "schema_inv s" "find_work wid s = Some w" "wi_status w \<noteq> Leased"
  shows "released wid s"
  unfolding released_def
proof (intro ballI impI)
  fix x assume "x \<in> set (work_items s)" "work_item_id x = wid"
  then have "find_work wid s = Some x" using find_work_iff [OF assms(1)] by blast
  then show "wi_status x \<noteq> Leased" using assms(2,3) by simp
qed

lemma rowcount_one: "rowcount P rs = Suc 0 \<Longrightarrow> \<exists>r \<in> set rs. P r"
  unfolding rowcount_def by (metis filter_empty_conv length_0_conv nat.distinct(1))

lemma update_releases:
  assumes inv: "schema_inv s" and run: "update_work P f s = Inr (1, s')"
    and P: "\<And>x. P x \<Longrightarrow> work_item_id x = wid" and f: "\<And>x. wi_status (f x) \<noteq> Leased"
  shows "released wid s'"
proof -
  have s': "work_items s' = update_where P f (work_items s)" and n: "rowcount P (work_items s) = Suc 0"
    using run by (auto simp: update_work_def)
  obtain w where w: "w \<in> set (work_items s)" "P w" using rowcount_one [OF n] by blast
  have "x = w" if "x \<in> set (work_items s)" "work_item_id x = wid" for x
    using that w P find_work_iff [OF inv] by (metis option.inject)
  then show ?thesis
    unfolding released_def s' set_update_where using w f by auto
qed

lemma validate_work_held:
  assumes inv: "schema_inv s" and w: "find_work wid s = Some w" and run: "validate_work wid tok now s = Inr (u, s')"
  shows "s' = s \<and> (\<exists>j. find_job (wi_report_job_id w) s = Some j
     \<and> (j_custody_policy j = Some REQUIRED_POLICY \<longrightarrow> lease_held wid tok w))"
proof -
  have "w \<in> set (work_items s)" using w find_work_iff [OF inv] by blast
  then have "find_work_of_job (wi_report_job_id w) s = Some w" using find_work_of_job_iff [OF inv] by blast
  then show ?thesis
    using w run unfolding validate_work_def
    by (auto simp: tx_bind_eq lock_pair_Inr lease_valid_def lease_held_def split: if_splits)
qed

lemma protect_work_cases:
  assumes inv: "schema_inv s" and w: "find_work wid s = Some w"
    and j: "find_job (wi_report_job_id w) s = Some j" and run: "protect_work e wid c s = Inr (b, s')"
  shows "if b then j_custody_policy j = Some REQUIRED_POLICY \<and> released wid s' else s' = s"
proof -
  have mem: "w \<in> set (work_items s)" and id: "work_item_id w = wid" using w find_work_iff [OF inv] by auto
  then have wj: "find_work_of_job (wi_report_job_id w) s = Some w" using find_work_of_job_iff [OF inv] by blast
  obtain r where r: "find_request (j_request_id j) s = Some r" using schema_request_of_job [OF inv j] by blast
  let ?reason = "if c then ''custody_completion_blocked'' else ''custody_retry_exhausted''"
  have "lock_pair (wi_report_job_id w) s = Inr ((Some w, j, r), s)" using wj j r by (simp add: lock_pair_Inr)
  then have run': "(if j_custody_policy j = Some REQUIRED_POLICY \<and> j_custody_state j = Some Verified
     then tx_bind (execute (update_work (\<lambda>x. work_item_id x = wid) settle_work)) (\<lambda>_. tx_return True)
     else if custody_protected j then tx_bind (park e (Some w) j r ?reason) (\<lambda>_. tx_return True)
     else tx_return False) s = Inr (b, s')"
    using run w by (simp add: protect_work_def tx_bind_def tx_get_def)
  consider (verified) "j_custody_policy j = Some REQUIRED_POLICY" "j_custody_state j = Some Verified"
    | (protected) "\<not> (j_custody_policy j = Some REQUIRED_POLICY \<and> j_custody_state j = Some Verified)"
        "custody_protected j"
    | (free) "\<not> (j_custody_policy j = Some REQUIRED_POLICY \<and> j_custody_state j = Some Verified)"
        "\<not> custody_protected j" by blast
  then show ?thesis
  proof cases
    case verified
    then have b and up: "update_work (\<lambda>x. work_item_id x = wid) settle_work s = Inr (1, s')"
      using run' by (auto simp: tx_bind_eq execute_Inr)
    have "released wid s'"
      by (rule update_releases [OF inv up]) (simp_all add: settle_work_def)
    then show ?thesis using \<open>b\<close> verified by simp
  next
    case protected
    then have b and pk: "park e (Some w) j r ?reason s = Inr ((), s')"
      using run' by (auto simp: tx_bind_eq split: if_splits)
    note pol = protected_policy [OF protected(2)]
    have inv': "schema_inv s'" using keepsD [OF keeps_park pk] ledger_rel_schema inv by blast
    obtain w' where "find_work wid s' = Some w'" "wi_status w' = Work_failed"
      using park_effect [OF inv j wj pk] pol id by (auto simp: park_work_def)
    then have "released wid s'" using released_find [OF inv'] by simp
    then show ?thesis using \<open>b\<close> pol by simp
  next
    case free
    then show ?thesis using run' by (auto split: if_splits)
  qed
qed

lemma settle_verified_cases:
  assumes inv: "schema_inv s" and w: "find_work wid s = Some w"
    and run: "settle_verified_work e wid s = Inr (settled, s')"
  shows "case settled of None \<Rightarrow> s' = s
     | Some v \<Rightarrow> released wid s' \<and> (\<forall>j. find_job (wi_report_job_id w) s = Some j \<longrightarrow>
          j_custody_policy j = Some REQUIRED_POLICY)"
proof -
  obtain j where j: "find_job (wi_report_job_id w) s = Some j"
    using schema_job_of_work [OF inv] w find_work_iff [OF inv] by blast
  show ?thesis
  proof (cases "j_custody_state j = Some Verified")
    case False
    then show ?thesis using run w j by (auto simp: settle_verified_work_def tx_run)
  next
    case True
    then have pol: "j_custody_policy j = Some REQUIRED_POLICY"
      using inv find_job_SomeD [OF j] by (auto simp: schema_inv_def jobs_ok_def custody_scoped_def)
    obtain b where pr: "protect_work e wid False s = Inr (b, s')" and settled: "settled = find_work wid s'"
      using run w j True by (auto simp: settle_verified_work_def tx_bind_eq)
    have b
      using pr w j True pol by (auto simp: protect_work_def tx_bind_eq lock_pair_Inr)
    then have "released wid s'" using protect_work_cases [OF inv w j pr] by simp
    moreover have "settled \<noteq> None"
    proof -
      have "history_rel s s'" using keepsD [OF keeps_guards(3) pr] by (simp add: ledger_rel_def)
      then have "wid \<in> work_item_id ` set (work_items s')"
        using w find_work_iff [OF inv] unfolding history_rel_def by (force dest: arg_cong [where f = "set \<circ> map fst"])
      then show ?thesis using settled by (auto simp: find_work_def)
    qed
    ultimately show ?thesis using pol j by (auto split: option.split)
  qed
qed

text \<open>The fenced \<open>UPDATE\<close> with which a settlement of a job outside custody ends the lease.\<close>

lemma fenced_update:
  assumes inv: "schema_inv s" and f: "\<And>x. wi_status (f x) \<noteq> Leased" and frame: "work_frame f"
    and run: "tx_bind (update_work (lease_held wid tok) f) (\<lambda>n.
       tx_bind (tx_require (n = 1) err) k) s = Inr (a, s')"
  shows "holds_lease s wid tok \<and> (\<exists>s1. released wid s1 \<and> schema_rel s s1 \<and> k () s1 = Inr (a, s')
     \<and> s1 = s\<lparr>work_items := update_where (lease_held wid tok) f (work_items s)\<rparr>)"
proof -
  obtain s1 where up: "update_work (lease_held wid tok) f s = Inr (1, s1)" and k: "k () s1 = Inr (a, s')"
    using run by (auto simp: tx_bind_eq)
  have rel: "released wid s1" by (rule update_releases [OF inv up]) (simp_all add: lease_held_def f)
  have n: "rowcount (lease_held wid tok) (work_items s) = Suc 0" using up by (simp add: update_work_def)
  then have "holds_lease s wid tok" using rowcount_one [OF n] by (auto simp: holds_lease_def)
  moreover have "schema_rel s s1"
    using keepsD [OF ledger_update_work [OF frame] up] by (simp add: ledger_rel_def)
  moreover have "s1 = s\<lparr>work_items := update_where (lease_held wid tok) f (work_items s)\<rparr>"
    using up by (simp add: update_work_def)
  ultimately show ?thesis using rel k by blast
qed

lemma settled_row_same: "settled_row wid s = Inr (a, s') \<Longrightarrow> s' = s \<and> (\<exists>w. find_work wid s = Some w \<and> a = work_item_from_row w)"
  by (auto simp: settled_row_def tx_bind_eq split: option.splits)

lemma held_lease: "find_work wid s = Some w \<Longrightarrow> lease_held wid tok w \<Longrightarrow> holds_lease s wid tok"
  unfolding find_work_def holds_lease_def by (auto dest: fetch_SomeD)

lemma complete_fenced:
  assumes inv: "schema_inv s" and run: "complete_work_item e wid tok now s = Inr (a, s')"
  shows "holds_lease s wid tok \<and> released wid s'"
proof -
  let ?at = "case now of None \<Rightarrow> utc_now e 1 | Some t \<Rightarrow> t"
  obtain s0 b s1 where val: "validate_work wid tok ?at s = Inr ((), s0)"
    and pr: "protect_work (sub_env 2 e) wid True s0 = Inr (b, s1)"
    and rest: "(if b then tx_bind (tx_get (find_work wid)) (\<lambda>row.
         case row of None \<Rightarrow> tx_raise (PyTypeError ''NoneType'') | Some w \<Rightarrow> tx_return (work_item_from_row w))
      else tx_bind (update_work (lease_held wid tok)
          (complete_work (dt_to_text (case now of None \<Rightarrow> utc_now e 0 | Some t \<Rightarrow> t)))) (\<lambda>n.
        tx_bind (tx_require (n = 1) lease_not_owned) (\<lambda>_. settled_row wid))) s1 = Inr (a, s')"
    using run unfolding complete_work_item_def Let_def by (auto elim!: tx_bindE)
  obtain w0 where w0: "find_work wid s0 = Some w0"
    using pr by (cases "find_work wid s0") (auto simp: protect_work_def tx_run)
  have s0: "s0 = s" using val unfolding validate_work_def
    by (auto simp: tx_bind_eq lock_pair_Inr split: option.splits if_splits)
  note w = w0 [unfolded s0] and pr = pr [unfolded s0]
  obtain j where j: "find_job (wi_report_job_id w0) s = Some j"
    and held: "j_custody_policy j = Some REQUIRED_POLICY \<longrightarrow> lease_held wid tok w0"
    using validate_work_held [OF inv w] val s0 by blast
  note pc = protect_work_cases [OF inv w j pr]
  show ?thesis
  proof (cases b)
    case True
    then have "s' = s1" using rest by (auto simp: tx_bind_eq split: option.splits)
    then show ?thesis using pc True held held_lease [OF w] by simp
  next
    case False
    then have s1: "s1 = s" using pc by simp
    from rest False have "tx_bind (update_work (lease_held wid tok)
          (complete_work (dt_to_text (case now of None \<Rightarrow> utc_now e 0 | Some t \<Rightarrow> t)))) (\<lambda>n.
        tx_bind (tx_require (n = 1) lease_not_owned) (\<lambda>_. settled_row wid)) s = Inr (a, s')"
      by (simp add: s1)
    from fenced_update [OF inv _ _ this] show ?thesis
      using settled_row_same by (auto simp: complete_work_def)
  qed
qed

lemma validate_same: "validate_work wid tok at s = Inr (u, s') \<Longrightarrow> s' = s"
  unfolding validate_work_def
  by (auto simp: tx_bind_eq lock_pair_Inr split: option.splits if_splits)

lemma scheduled_at_same: "scheduled_at wid p s = Inr (t, s') \<Longrightarrow> s' = s \<and> find_work wid s \<noteq> None"
  by (auto simp: scheduled_at_def tx_bind_eq metadata_Inr split: option.splits)

lemma defer_unsettled_fenced:
  assumes inv: "schema_inv s" and run: "defer_unsettled wid tok reason delay at s = Inr (a, s')"
  shows "holds_lease s wid tok \<and> released wid s'"
proof -
  obtain av where "tx_bind (update_work (lease_held wid tok)
            (defer_work (dt_to_text av) reason (dt_to_text at))) (\<lambda>n.
        tx_bind (tx_require (n = 1) lease_not_owned) (\<lambda>_. settled_row wid)) s = Inr (a, s')"
    using run unfolding defer_unsettled_def by (elim tx_bindE [of "scheduled_at _ _"]) (auto dest!: scheduled_at_same)
  from fenced_update [OF inv _ _ this] show ?thesis
    using settled_row_same by (auto simp: defer_work_def)
qed

lemma fail_unsettled_fenced:
  assumes inv: "schema_inv s" and run: "fail_unsettled e wid tok cat sm p at s = Inr (a, s')"
  shows "holds_lease s wid tok \<and> released wid s'"
proof -
  obtain c where c: "fetch (lease_held wid tok) (work_items s) = Some c"
    using run by (cases "fetch (lease_held wid tok) (work_items s)") (auto simp: fail_unsettled_def tx_run)
  let ?d = "decide_report_job_work_failure (attempt_count c) at p"
  obtain av where up: "tx_bind (update_work (lease_held wid tok)
         (fail_work (fd_status ?d) (dt_to_text av) cat sm (dt_to_text at))) (\<lambda>n.
     tx_bind (tx_require (n = 1) lease_not_owned) (\<lambda>_.
     tx_bind (settled_row wid) (\<lambda>row.
     tx_bind (if fd_status ?d = Work_failed
         then terminalize_report_job_from_work e wid
                (or_else (lease_owner c) ''report-job-worker'') Operator_intervention_required sm
         else tx_return ()) (\<lambda>_. tx_return row)))) s = Inr (a, s')"
    using run c unfolding fail_unsettled_def Let_def
    by (elim tx_bindE [of "tx_get _"] tx_bindE [of "scheduled_at _ _"]) (auto elim!: tx_bindE [of "scheduled_at _ _"] dest!: scheduled_at_same)
  have nl: "wi_status (fail_work (fd_status ?d) (dt_to_text av) cat sm (dt_to_text at) x) \<noteq> Leased" for x
    using decision_not_leased [of "attempt_count c" at p] by (auto simp: fail_work_def)
  obtain s1 where h: "holds_lease s wid tok" and r1: "released wid s1"
    and k: "tx_bind (settled_row wid) (\<lambda>row.
     tx_bind (if fd_status ?d = Work_failed
         then terminalize_report_job_from_work e wid
                (or_else (lease_owner c) ''report-job-worker'') Operator_intervention_required sm
         else tx_return ()) (\<lambda>_. tx_return row)) s1 = Inr (a, s')"
    using fenced_update [OF inv nl work_frames(5) up] by blast
  have sr: "keeps (no_grab now) (settled_row wid)" for now
    unfolding settled_row_def by (intro grab.keeps_rules)
  have "keeps (no_grab (dt_to_text at)) (tx_bind (settled_row wid) (\<lambda>row.
     tx_bind (if fd_status ?d = Work_failed
         then terminalize_report_job_from_work e wid
                (or_else (lease_owner c) ''report-job-worker'') Operator_intervention_required sm
         else tx_return ()) (\<lambda>_. tx_return row)))"
    by (intro grab.keeps_rules grab_intros sr)
  from keepsD [OF this k] have "no_grab (dt_to_text at) s1 s'" .
  then show ?thesis using h released_later [OF r1] by blast
qed

text \<open>The prefix \<open>defer_work_item\<close> and \<open>fail_work_item\<close> share.\<close>

lemma settle_prefix:
  assumes inv: "schema_inv s"
    and run: "tx_bind (validate_work wid tok at) (\<lambda>_.
      tx_bind (settle_verified_work e wid) (\<lambda>settled.
      case settled of Some w \<Rightarrow> tx_return (work_item_from_row w) | None \<Rightarrow> k)) s = Inr (a, s')"
    and k: "\<And>t t'. schema_inv t \<Longrightarrow> k t = Inr (a, t') \<Longrightarrow> holds_lease t wid tok \<and> released wid t'"
  shows "holds_lease s wid tok \<and> released wid s'"
proof -
  obtain u s0 settled s1 where val: "validate_work wid tok at s = Inr (u, s0)"
    and st: "settle_verified_work e wid s0 = Inr (settled, s1)"
    and rest: "(case settled of Some w \<Rightarrow> tx_return (work_item_from_row w) | None \<Rightarrow> k) s1 = Inr (a, s')"
    using run by (elim tx_bindE) blast
  have s0: "s0 = s" using validate_same [OF val] .
  note st = st [unfolded s0]
  show ?thesis
  proof (cases "find_work wid s")
    case None
    then have "settled = None" "s1 = s" using st by (auto simp: settle_verified_work_def tx_run)
    then have "holds_lease s wid tok" using k [OF inv] rest by simp
    then show ?thesis using None by (auto simp: holds_lease_def lease_held_def find_work_def)
  next
    case (Some w)
    obtain j where j: "find_job (wi_report_job_id w) s = Some j"
      and held: "j_custody_policy j = Some REQUIRED_POLICY \<longrightarrow> lease_held wid tok w"
      using validate_work_held [OF inv Some val] by blast
    show ?thesis
    proof (cases settled)
      case None
      then have "s1 = s" using settle_verified_cases [OF inv Some st] by simp
      then show ?thesis using k [OF inv] rest None by simp
    next
      case (Some v)
      then show ?thesis
        using settle_verified_cases [OF inv \<open>find_work wid s = Some w\<close> st] rest held j
          held_lease [OF \<open>find_work wid s = Some w\<close>] by auto
    qed
  qed
qed

lemma settle_fenced:
  assumes inv: "schema_inv s" and run: "settle op wid tok s = Inr (a, s')"
  shows "holds_lease s wid tok \<and> released wid s'"
proof (cases op)
  case (Complete e now)
  then show ?thesis using complete_fenced [OF inv] run by simp
next
  case (Defer e reason delay now)
  then show ?thesis
    using settle_prefix [OF inv run [unfolded Defer settle.simps defer_work_item_def Let_def]]
      defer_unsettled_fenced by blast
next
  case (Fail e cat sm p now)
  then show ?thesis
    using settle_prefix [OF inv run [unfolded Fail settle.simps fail_work_item_def Let_def]]
      fail_unsettled_fenced by blast
qed

lemma keeps_settle_op: "keeps ledger_rel (settle op wid tok)"
  by (cases op) (simp_all add: keeps_settlements)

interpretation queue: fenced_settlement schema_inv holds_lease settle
proof unfold_locales
  fix s op wid tok a s' tok' assume "schema_inv s" "settle op wid tok s = Inr (a, s')"
  then show "holds_lease s wid tok" "\<not> holds_lease s' wid tok'" "schema_inv s'"
    using settle_fenced released_no_lease keepsD [OF keeps_settle_op] ledger_rel_schema by blast+
qed



section \<open>Settling work outside custody\<close>

lemma settle_verified_legacy:
  assumes "schema_inv s" "find_work wid s = Some w" "find_job (wi_report_job_id w) s = Some j"
    "j_custody_policy j = None"
  shows "settle_verified_work e wid s = Inr (None, s)"
proof -
  have "j_custody_state j \<noteq> Some Verified"
    using assms(1,4) find_job_SomeD [OF assms(3)] by (auto simp: schema_inv_def jobs_ok_def custody_scoped_def)
  then show ?thesis using assms(2,3) by (simp add: settle_verified_work_def tx_run)
qed

text \<open>The fenced \<open>UPDATE\<close> succeeds for the holder.\<close>

lemma held_update:
  assumes inv: "schema_inv s" and w: "find_work wid s = Some w" and held: "lease_held wid tok w"
    and f: "work_frame f"
  defines "s1 \<equiv> s\<lparr>work_items := update_where (lease_held wid tok) f (work_items s)\<rparr>"
  shows "update_work (lease_held wid tok) f s = Inr (1, s1) \<and> find_work wid s1 = Some (f w) \<and> schema_inv s1"
proof -
  have up: "update_work (lease_held wid tok) f s = Inr (1, s1)"
    unfolding s1_def by (rule update_work_point [OF inv w]) (use held in \<open>simp_all add: lease_held_def\<close>)
  have "find_work wid s1 = (if wid = wid then Some (f w) else find_work wid s)"
    unfolding s1_def
    by (rule find_work_update [OF inv w]) (use f held in \<open>auto simp: lease_held_def work_frame_def\<close>)
  then show ?thesis
    using up keepsD [OF ledger_update_work [OF f] up] ledger_rel_schema [OF _ inv] by simp
qed

text \<open>
  Deferring is not failing: the holder of a lease can always defer the work of a job outside
  custody, the attempt its claim charged is refunded, the item waits again with no lease, and it
  becomes available after the given delay, at least one second later.
\<close>

theorem defer_refunds_attempt:
  assumes inv: "schema_inv s" and w: "find_work wid s = Some w" and held: "lease_held wid tok w"
    and j: "find_job (wi_report_job_id w) s = Some j" and legacy: "j_custody_policy j = None"
    and counted: "1 \<le> attempt_count w"
  shows "\<exists>row s'. defer_work_item e wid tok reason delay (Some t) s = Inr (row, s')
    \<and> wr_status row = Retry_pending \<and> wr_attempt_count row = attempt_count w - 1
    \<and> wr_lease_token row = None \<and> wr_available_at row = t + seconds (max delay 1)
    \<and> t < wr_available_at row \<and> jobs s' = jobs s"
proof -
  let ?f = "defer_work (dt_to_text (t + seconds (max delay 1))) reason (dt_to_text t)"
  let ?s1 = "s\<lparr>work_items := update_where (lease_held wid tok) ?f (work_items s)\<rparr>"
  note lg = legacy_guards [OF inv w j legacy]
  have up: "update_work (lease_held wid tok) ?f s = Inr (1, ?s1)" "find_work wid ?s1 = Some (?f w)"
    using held_update [OF inv w held work_frames(4)] by blast+
  have "defer_work_item e wid tok reason delay (Some t) s = Inr (work_item_from_row (?f w), ?s1)"
    using lg settle_verified_legacy [OF inv w j legacy] up
    by (simp add: defer_work_item_def defer_unsettled_def tx_bind_def tx_require_def settled_row_def
        tx_get_def tx_return_def)
  then show ?thesis
    using counted
    by (simp add: work_item_from_row_def defer_work_def release_def dt_to_text_def seconds_def)
qed

theorem defer_refunds_attempt_witness:
  "\<exists>row s'. defer_work_item sample_env ''wi_1'' ''tok'' ''waiting'' 30 (Some 5000000)
      (sample_ledger sample_job) = Inr (row, s') \<and> wr_attempt_count row = 0"
proof -
  have inv: "schema_inv (sample_ledger sample_job)"
    by (rule schema_inv_sample) (simp_all add: samples custody_checks_def custody_scoped_def)
  have w: "find_work ''wi_1'' (sample_ledger sample_job) = Some sample_work"
    by (simp add: samples find_work_def)
  have held: "lease_held ''wi_1'' ''tok'' sample_work" by (simp add: lease_held_def samples)
  have j: "find_job (wi_report_job_id sample_work) (sample_ledger sample_job) = Some sample_job"
    by (simp add: samples find_job_def)
  have rest: "j_custody_policy sample_job = None" "1 \<le> attempt_count sample_work" by (simp_all add: samples)
  have "attempt_count sample_work = 1" by (simp add: samples)
  then show ?thesis
    using defer_refunds_attempt [OF inv w held j rest, of sample_env "''waiting''" 30 5000000] by auto
qed

lemma category_text_nonempty: "category_text c \<noteq> []"
  by (cases c) simp_all

text \<open>The failure event of an exhausted job satisfies the event contract.\<close>

lemma exhaustion_contract:
  "\<exists>c. build_report_status_event_contract (t_event_type (exhaustion_transition a cat m co tr)) f
     (t_to_status (exhaustion_transition a cat m co tr))
     (Some (transition_event_payload (exhaustion_transition a cat m co tr))) None = Inr c"
proof -
  let ?p = "transition_event_payload (exhaustion_transition a cat m co tr)"
  have p: "?p = [(''current_step'', JStr ''failed''), (''failure_category'', JStr (category_text cat)),
      (''failure_message'', JStr (exhaustion_message m))]"
    by (simp add: transition_event_payload_def exhaustion_transition_def plain_transition_def)
  have "exhaustion_message m \<noteq> []" by (simp add: exhaustion_message_def)
  moreover have "t_event_type (exhaustion_transition a cat m co tr) = ''job_failed''"
    by (simp add: exhaustion_transition_def plain_transition_def)
  moreover have "required_payload_fields ''job_failed'' = [''failure_category'', ''failure_message'']"
    by code_simp
  ultimately show ?thesis
    unfolding build_contract_Inr Let_def p event_payload_of_def
    by (simp add: SENSITIVE_PAYLOAD_KEYS_def payload_truthy_def category_text_nonempty)
       (simp add: dkeys_def dget_def category_text_nonempty)
qed

text \<open>A work item that exhausts its attempts fails its job, which may then be replayed.\<close>

lemma terminalize_legacy:
  assumes inv: "schema_inv s" and w: "find_work wid s = Some w"
    and j: "find_job (wi_report_job_id w) s = Some j" and legacy: "j_custody_policy j = None"
    and st: "is_report_job_transition_allowed (j_status j) Failed"
    and fresh: "''rse_'' @ uuid4_hex (sub_env 2 (sub_env 1 e)) 0 \<notin> ev_id ` set (events s)"
  shows "\<exists>s'. terminalize_report_job_from_work e wid actor cat sm s = Inr ((), s')
    \<and> work_items s' = work_items s
    \<and> (\<exists>j'. find_job (wi_report_job_id w) s' = Some j' \<and> j_status j' = Failed
        \<and> j_failure_category j' = Some cat
        \<and> j_failure_message j' = Some (exhaustion_message (bounded_summary 240 sm)) \<and> j_retry_eligible j')"
proof -
  obtain r where r: "find_request (j_request_id j) s = Some r" using schema_request_of_job [OF inv j] by blast
  have jid: "j_id j = wi_report_job_id w" using find_job_SomeD [OF j] by simp
  let ?t = "exhaustion_transition actor cat (bounded_summary 240 sm) (r_correlation_id r) (r_trace_id r)"
  have to: "t_to_status ?t = Failed" by (simp add: exhaustion_transition_def plain_transition_def)
  obtain c where c: "build_report_status_event_contract (t_event_type ?t) (Some (j_status j)) (t_to_status ?t)
      (Some (transition_event_payload ?t)) None = Inr c"
    using exhaustion_contract by blast
  obtain rec s' where run: "transition_job (sub_env 1 e) (wi_report_job_id w) ?t s = Inr (rec, s')"
    and fj: "find_job (wi_report_job_id w) s' = Some (apply_transition ?t (utc_now (sub_env 1 e) 1) (j_started_at j) j)"
    and ws: "work_items s' = work_items s"
    using transition_legacy [OF inv j legacy st [folded to] c fresh] by blast
  have "j_status j \<notin> {Archived, Completed_with_warnings, Failed, Cancelled}"
    using st by (auto simp: transition_allowed_iff)
  then have "terminalize_report_job_from_work e wid actor cat sm s = Inr ((), s')"
    using legacy_guards [OF inv w j legacy] w j r run jid
    by (simp add: terminalize_report_job_from_work_def tx_bind_def tx_get_def tx_return_def)
  then show ?thesis
    using ws fj by (simp add: apply_transition_def exhaustion_transition_def plain_transition_def)
qed

lemma held_fetch:
  assumes inv: "schema_inv s" and w: "find_work wid s = Some w" and held: "lease_held wid tok w"
  shows "fetch (lease_held wid tok) (work_items s) = Some w"
proof -
  have "fetch (lease_held wid tok) (work_items s) \<noteq> None" using held w find_work_iff [OF inv] by auto
  then obtain c where c: "fetch (lease_held wid tok) (work_items s) = Some c" by blast
  then have "c \<in> set (work_items s)" "work_item_id c = wid" by (auto dest!: fetch_SomeD simp: lease_held_def)
  then have "find_work wid s = Some c" using find_work_iff [OF inv] by blast
  then show ?thesis using c w by simp
qed

text \<open>The row a failed attempt leaves, and how a failure runs outside custody.\<close>

definition failed_row :: "retry_policy \<Rightarrow> string \<Rightarrow> string \<Rightarrow> dt \<Rightarrow> work_item \<Rightarrow> work_item" where
  "failed_row p cat sm t w = (let d = decide_report_job_work_failure (attempt_count w) t p in
     fail_work (fd_status d) (dt_to_text (fd_available_at d)) cat sm (dt_to_text t) w)"

lemma failed_row_fields:
  "wr_attempt_count (work_item_from_row (failed_row p cat sm t w)) = attempt_count w"
  "wr_lease_token (work_item_from_row (failed_row p cat sm t w)) = None"
  "wr_available_at (work_item_from_row (failed_row p cat sm t w)) = t + seconds (retry_delay_seconds p (attempt_count w))"
  "length (the (wr_last_error_summary (work_item_from_row (failed_row p cat sm t w)))) \<le> 240"
  "wr_status (work_item_from_row (failed_row p cat sm t w))
     = (if attempt_count w < max_attempts p then Retry_pending else Work_failed)"
  by (simp_all add: failed_row_def work_item_from_row_def fail_work_def release_def dt_to_text_def
      decide_report_job_work_failure_def Let_def length_bounded_summary)

lemma fail_legacy_run:
  assumes inv: "schema_inv s" and w: "find_work wid s = Some w" and held: "lease_held wid tok w"
    and j: "find_job (wi_report_job_id w) s = Some j" and legacy: "j_custody_policy j = None"
  obtains s1 where "schema_inv s1" "find_work wid s1 = Some (failed_row p cat sm t w)" "jobs s1 = jobs s" "events s1 = events s"
    "fail_work_item e wid tok cat sm (Some p) (Some t) s =
       tx_bind (if attempt_count w < max_attempts p then tx_return ()
         else terminalize_report_job_from_work (sub_env 2 e) wid
                (or_else (lease_owner w) ''report-job-worker'') Operator_intervention_required sm)
       (\<lambda>_. tx_return (work_item_from_row (failed_row p cat sm t w))) s1"
proof -
  let ?d = "decide_report_job_work_failure (attempt_count w) t p"
  let ?f = "fail_work (fd_status ?d) (dt_to_text (fd_available_at ?d)) cat sm (dt_to_text t)"
  let ?s1 = "s\<lparr>work_items := update_where (lease_held wid tok) ?f (work_items s)\<rparr>"
  have up: "update_work (lease_held wid tok) ?f s = Inr (1, ?s1)" and w1: "find_work wid ?s1 = Some (?f w)"
    and inv1: "schema_inv ?s1"
    using held_update [OF inv w held work_frames(5)] by blast+
  have d: "(fd_status ?d = Work_failed) = (\<not> attempt_count w < max_attempts p)"
    by (simp add: decide_report_job_work_failure_def Let_def)
  have "fail_work_item e wid tok cat sm (Some p) (Some t) s =
     tx_bind (if fd_status ?d = Work_failed
         then terminalize_report_job_from_work (sub_env 2 e) wid
                (or_else (lease_owner w) ''report-job-worker'') Operator_intervention_required sm
         else tx_return ()) (\<lambda>_. tx_return (work_item_from_row (?f w))) ?s1"
    using legacy_guards [OF inv w j legacy] settle_verified_legacy [OF inv w j legacy] up w1 held_fetch [OF inv w held]
    by (simp add: fail_work_item_def fail_unsettled_def tx_bind_def tx_require_def settled_row_def
        tx_get_def tx_return_def Let_def)
  then show thesis
    using inv1 w1 unfolding d by (intro that [of ?s1]) (simp_all add: Let_def failed_row_def)
qed

text \<open>
  (C14) Failing a work item of a job outside custody. While attempts remain the item waits again
  with its count unchanged and becomes available after the exponential backoff of the policy,
  and the job is not touched. On the last permitted attempt the item fails for good and, in the
  same transaction, the job fails with operator intervention required, eligible for
  replay, and a bounded failure message.
\<close>

theorem fail_retries_then_terminates:
  assumes inv: "schema_inv s" and w: "find_work wid s = Some w" and held: "lease_held wid tok w"
    and j: "find_job (wi_report_job_id w) s = Some j" and legacy: "j_custody_policy j = None"
    and st: "is_report_job_transition_allowed (j_status j) Failed"
    and fresh: "''rse_'' @ uuid4_hex (sub_env 2 (sub_env 1 (sub_env 2 e))) 0 \<notin> ev_id ` set (events s)"
  shows "\<exists>row s'. fail_work_item e wid tok cat sm (Some p) (Some t) s = Inr (row, s')
    \<and> wr_attempt_count row = attempt_count w \<and> wr_lease_token row = None
    \<and> wr_available_at row = t + seconds (retry_delay_seconds p (attempt_count w))
    \<and> length (the (wr_last_error_summary row)) \<le> 240
    \<and> (if attempt_count w < max_attempts p
       then wr_status row = Retry_pending \<and> jobs s' = jobs s
       else wr_status row = Work_failed \<and> (\<exists>j'. find_job (wi_report_job_id w) s' = Some j'
          \<and> j_status j' = Failed \<and> j_failure_category j' = Some Operator_intervention_required
          \<and> j_retry_eligible j' \<and> (\<exists>m. j_failure_message j' = Some m \<and> length m \<le> 500)))"
proof -
  obtain s1 where inv1: "schema_inv s1" and w1: "find_work wid s1 = Some (failed_row p cat sm t w)"
    and same: "jobs s1 = jobs s" "events s1 = events s"
    and fails: "fail_work_item e wid tok cat sm (Some p) (Some t) s =
       tx_bind (if attempt_count w < max_attempts p then tx_return ()
         else terminalize_report_job_from_work (sub_env 2 e) wid
                (or_else (lease_owner w) ''report-job-worker'') Operator_intervention_required sm)
       (\<lambda>_. tx_return (work_item_from_row (failed_row p cat sm t w))) s1"
    by (rule fail_legacy_run [OF inv w held j legacy])
  note row = failed_row_fields [where p = p and cat = cat and sm = sm and t = t and w = w]
  show ?thesis
  proof (cases "attempt_count w < max_attempts p")
    case True
    then have "fail_work_item e wid tok cat sm (Some p) (Some t) s = Inr (work_item_from_row (failed_row p cat sm t w), s1)"
      using fails by (simp add: tx_bind_def tx_return_def)
    then show ?thesis using row same True by auto
  next
    case False
    have fr: "wi_report_job_id (failed_row p cat sm t w) = wi_report_job_id w" by (simp add: failed_row_def Let_def fail_work_def release_def)
    have j1: "find_job (wi_report_job_id (failed_row p cat sm t w)) s1 = Some j"
      using j same(1) unfolding fr find_job_def by simp
    have fresh1: "''rse_'' @ uuid4_hex (sub_env 2 (sub_env 1 (sub_env 2 e))) 0 \<notin> ev_id ` set (events s1)"
      using fresh same by simp
    obtain s' where "terminalize_report_job_from_work (sub_env 2 e) wid
        (or_else (lease_owner w) ''report-job-worker'') Operator_intervention_required sm s1 = Inr ((), s')"
      and jf: "\<exists>j'. find_job (wi_report_job_id w) s' = Some j' \<and> j_status j' = Failed
        \<and> j_failure_category j' = Some Operator_intervention_required
        \<and> j_failure_message j' = Some (exhaustion_message (bounded_summary 240 sm)) \<and> j_retry_eligible j'"
      using terminalize_legacy [OF inv1 w1 j1 legacy st fresh1] fr by metis
    then have "fail_work_item e wid tok cat sm (Some p) (Some t) s = Inr (work_item_from_row (failed_row p cat sm t w), s')"
      using fails False by (simp add: tx_bind_def tx_return_def)
    moreover have "length (exhaustion_message m) \<le> 500" for m by (simp add: exhaustion_message_def)
    ultimately show ?thesis using row False jf by fastforce
  qed
qed

theorem fail_retries_then_terminates_witness:
  "\<exists>row s'. fail_work_item sample_env ''wi_1'' ''tok'' ''boom'' ''it broke''
      (Some \<lparr>max_attempts = 1, base_delay_seconds = 5, max_delay_seconds = 300\<rparr>) (Some 5000000)
      (sample_ledger sample_job) = Inr (row, s')
    \<and> wr_status row = Work_failed \<and> (\<exists>j'. find_job ''rjb_1'' s' = Some j' \<and> j_status j' = Failed)"
proof -
  have inv: "schema_inv (sample_ledger sample_job)"
    by (rule schema_inv_sample) (simp_all add: samples custody_checks_def custody_scoped_def)
  have w: "find_work ''wi_1'' (sample_ledger sample_job) = Some sample_work"
    by (simp add: samples find_work_def)
  have held: "lease_held ''wi_1'' ''tok'' sample_work" by (simp add: lease_held_def samples)
  have j: "find_job (wi_report_job_id sample_work) (sample_ledger sample_job) = Some sample_job"
    by (simp add: samples find_job_def)
  have rest: "j_custody_policy sample_job = None"
    "is_report_job_transition_allowed (j_status sample_job) Failed"
    "''rse_'' @ uuid4_hex (sub_env 2 (sub_env 1 (sub_env 2 sample_env))) 0 \<notin> ev_id ` set (events (sample_ledger sample_job))"
    by (simp_all add: samples transition_allowed_iff)
  have n: "attempt_count sample_work = 1" "wi_report_job_id sample_work = ''rjb_1''" by (simp_all add: samples)
  show ?thesis
    using fail_retries_then_terminates [OF inv w held j rest, of "''boom''" "''it broke''"
        "\<lparr>max_attempts = 1, base_delay_seconds = 5, max_delay_seconds = 300\<rparr>" 5000000] n by auto
qed

section \<open>Recovering expired leases\<close>

lemma grab_recover_one: "keeps (no_grab (dt_to_text t)) (recover_one e t p x c)"
  unfolding recover_one_def Let_def
  by (intro grab.keeps_rules grab_intros grab_update_work)
     (use decision_not_leased in \<open>auto simp: expire_work_def release_def\<close>)

lemma recover_one_effect:
  assumes inv: "schema_inv s" and run: "recover_one e t p x c s = Inr (c', s')"
  shows "fst c' + snd c' = Suc (fst c + snd c) \<and> released (work_item_id x) s' \<and> schema_inv s'"
proof -
  let ?d = "decide_report_job_work_failure (attempt_count x)
      (case lease_expires_at x of None \<Rightarrow> t | Some u \<Rightarrow> stamp_dt u) p"
  let ?P = "\<lambda>w. work_item_id w = work_item_id x \<and> wi_status w = Leased
      \<and> sql_eq (lease_token w) (lease_token x) \<and> lease_expired (dt_to_text t) w"
  let ?f = "expire_work (fd_status ?d) (dt_to_text (fd_available_at ?d)) (dt_to_text t)"
  let ?k = "if fd_status ?d = Work_failed
      then tx_bind (terminalize_report_job_from_work e (work_item_id x)
             (or_else (lease_owner x) ''report-job-worker'') Timeout
             ''Report job work lease expired after the final permitted attempt.'') (\<lambda>_.
           tx_return (fst c, Suc (snd c)))
      else tx_return (Suc (fst c), snd c)"
  obtain s1 where up: "update_work ?P ?f s = Inr (1, s1)" and k: "?k s1 = Inr (c', s')"
    using run unfolding recover_one_def Let_def by (auto simp: tx_bind_eq)
  have "wi_status (?f w) \<noteq> Leased" for w
    using decision_not_leased [of "attempt_count x" "case lease_expires_at x of None \<Rightarrow> t | Some u \<Rightarrow> stamp_dt u" p]
    by (auto simp: expire_work_def)
  then have r1: "released (work_item_id x) s1" by (intro update_releases [OF inv up]) auto
  have "keeps (no_grab (dt_to_text t)) ?k" by (intro grab.keeps_rules grab_intros)
  then have "no_grab (dt_to_text t) s1 s'" using k by (rule keepsD)
  then have "released (work_item_id x) s'" by (rule released_later [OF r1])
  moreover have "fst c' + snd c' = Suc (fst c + snd c)"
    using k by (auto simp: tx_bind_eq split: if_splits)
  moreover have "schema_inv s'" using keepsD [OF keeps_recover_one run] ledger_rel_schema inv by blast
  ultimately show ?thesis by blast
qed

lemma recover_loop:
  assumes "schema_inv s" "tx_foreach xs c (\<lambda>x c. recover_one (sub_env (fst x) e) t p (snd x) c) s = Inr (c', s')"
  shows "fst c' + snd c' = fst c + snd c + length xs \<and> (\<forall>x \<in> set xs. released (work_item_id (snd x)) s')
    \<and> no_grab (dt_to_text t) s s'"
  using assms
proof (induction xs arbitrary: s c)
  case Nil
  then show ?case by (simp add: grab.R_refl)
next
  case (Cons x xs)
  obtain c1 s1 where one: "recover_one (sub_env (fst x) e) t p (snd x) c s = Inr (c1, s1)"
    and rest: "tx_foreach xs c1 (\<lambda>x c. recover_one (sub_env (fst x) e) t p (snd x) c) s1 = Inr (c', s')"
    using Cons.prems(2) by (auto elim: tx_bindE)
  note eff = recover_one_effect [OF Cons.prems(1) one]
  note ih = Cons.IH [OF _ rest]
  have "no_grab (dt_to_text t) s s1" by (rule keepsD [OF grab_recover_one one])
  then show ?case using eff ih released_later grab.R_trans by fastforce
qed

text \<open>
  Recovery of expired leases is bounded and complete within its bound: one pass handles the
  expired leases it selects, at most five of them, counts each once as recovered or exhausted, and
  none of them is leased afterwards.
\<close>

theorem recovery_bounded:
  assumes "schema_inv s" "recover_expired_work_items e t p s = Inr ((recovered, exhausted), s')"
  shows "recovered + exhausted = min 5 (length (filter (lease_expired (dt_to_text t)) (work_items s)))
    \<and> (\<forall>w \<in> set (expired_rows (dt_to_text t) s). released (work_item_id w) s')"
proof -
  let ?rows = "expired_rows (dt_to_text t) s"
  have loop: "tx_foreach (enumerate 0 ?rows) (0, 0)
      (\<lambda>x c. recover_one (sub_env (fst x) e) t p (snd x) c) s = Inr ((recovered, exhausted), s')"
    using assms(2) by (simp add: recover_expired_work_items_def tx_bind_def tx_get_def)
  note eff = recover_loop [OF assms(1) loop]
  have "length ?rows = min 5 (length (filter (lease_expired (dt_to_text t)) (work_items s)))"
    by (simp add: expired_rows_def)
  with eff have "recovered + exhausted = min 5 (length (filter (lease_expired (dt_to_text t)) (work_items s)))"
    by simp
  moreover have "released (work_item_id w) s'" if w: "w \<in> set ?rows" for w
  proof -
    have "w \<in> snd ` set (enumerate 0 ?rows)" using w by (metis list.set_map map_snd_enumerate)
    then show ?thesis using eff by blast
  qed
  ultimately show ?thesis by blast
qed

theorem recovery_bounded_witness:
  "\<exists>s'. recover_expired_work_items sample_env 10000000 default_retry_policy (sample_ledger sample_job)
      = Inr ((1, 0), s') \<and> released ''wi_1'' s'"
proof -
  let ?run = "recover_expired_work_items sample_env 10000000 default_retry_policy (sample_ledger sample_job)"
  have inv: "schema_inv (sample_ledger sample_job)"
    by (rule schema_inv_sample) (simp_all add: samples custody_checks_def custody_scoped_def)
  have "map_sum (\<lambda>_. ()) fst ?run = Inr (1, 0)" by code_simp
  then obtain s' where run: "?run = Inr ((1, 0), s')" by (metis map_sum_Inr)
  let ?rows = "expired_rows (dt_to_text 10000000) (sample_ledger sample_job)"
  have ids: "map work_item_id ?rows = [''wi_1'']" by code_simp
  have "''wi_1'' \<in> set (map work_item_id ?rows)" unfolding ids by simp
  then obtain w where w: "w \<in> set ?rows" "''wi_1'' = work_item_id w"
    unfolding set_map by (elim imageE)
  from recovery_bounded [OF inv run] w(1) have "released (work_item_id w) s'" by blast
  then show ?thesis using run unfolding w(2) by blast
qed

end
