(* ===== verification/Batch_Ledger.thy ===== *)
theory Batch_Ledger
  imports Batch_Selection Work_Ledger
begin

text \<open>
  The batch ledger, \<open>src/src/app/report_batch_orchestrator/ledger.py\<close> (class \<open>ReportBatchLedger\<close>): batches
  and their items, created once per idempotency key, leased for dispatch, linked to a report job,
  settled, retried, paused, resumed, cancelled and listed.

  A JSON column holds the value its text denotes (\<open>canonical_json\<close> sorts the keys of the options). The
  foreign key of the items is not enforced: \<open>PRAGMA foreign_keys\<close> is set on the connection of
  \<open>ensure_schema\<close> only. Records returned to callers have the fields of the rows read, so the model
  returns the rows. \<open>RANDOM()\<close> is the argument \<open>rnd\<close> of the one query that uses it.
\<close>

section \<open>Rows\<close>

record batch_row =
  b_id :: string
  b_selector_mode :: string
  b_tenant_id :: string
  b_region :: string
  b_portfolio_ids :: "string list"
  b_output_formats :: "string list"
  b_as_of_date :: date
  b_reporting_currency :: "string option"
  b_options :: jobj
  b_trigger_type :: string
  b_triggered_by :: string
  b_caller_application :: string
  b_booking_center_code :: "string option"
  b_role :: "string option"
  b_idempotency_key :: string
  b_request_hash :: string
  b_status :: batch_status
  b_item_count :: int
  b_correlation_id :: string
  b_trace_id :: string
  b_created_at :: stamp
  b_updated_at :: "stamp option"
  b_started_at :: "stamp option"
  b_completed_at :: "stamp option"
  b_cancelled_at :: "stamp option"
  b_failed_at :: "stamp option"

record item_row =
  i_id :: string
  i_batch_id :: string
  i_position :: int
  i_portfolio_id :: string
  i_key :: string
  i_status :: item_status
  i_source_system :: string
  i_source_object :: string
  i_created_at :: stamp
  i_report_job_id :: "string option"
  i_lease_owner :: "string option"
  i_lease_token :: "string option"
  i_lease_acquired_at :: "stamp option"
  i_lease_expires_at :: "stamp option"
  i_last_heartbeat_at :: "stamp option"
  i_dispatched_at :: "stamp option"
  i_attempt_count :: int
  i_retry_eligible :: bool
  i_next_retry_at :: "stamp option"
  i_last_error_category :: "string option"
  i_last_error_summary :: "string option"
  i_started_at :: "stamp option"
  i_completed_at :: "stamp option"
  i_cancelled_at :: "stamp option"

record batch_ledger =
  batches :: "batch_row list"
  batch_items :: "item_row list"

record batch_record =
  br_batch :: batch_row
  br_items :: "item_row list"

record control_result =
  ct_batch_id :: string
  ct_affected_count :: nat
  ct_batch_status :: batch_status

record recovery_result =
  rc_batch_id :: string
  rc_recovered_count :: nat
  rc_item_ids :: "string list"

type_synonym 'a batch_tx = "(batch_ledger, 'a) tx"

section \<open>Statements\<close>

definition find_batch :: "string \<Rightarrow> batch_ledger \<Rightarrow> batch_row option" where
  "find_batch bid s = fetch (\<lambda>b. b_id b = bid) (batches s)"

definition find_item :: "string \<Rightarrow> batch_ledger \<Rightarrow> item_row option" where
  "find_item iid s = fetch (\<lambda>i. i_id i = iid) (batch_items s)"

definition items_of :: "string \<Rightarrow> batch_ledger \<Rightarrow> item_row list" where
  "items_of bid s = filter (\<lambda>i. i_batch_id i = bid) (batch_items s)"

definition insert_batch :: "batch_row \<Rightarrow> unit batch_tx" where
  "insert_batch b s =
     (if b_id b \<in> b_id ` set (batches s) \<or> b_idempotency_key b \<in> b_idempotency_key ` set (batches s)
      then Inl (IntegrityError ''UNIQUE'') else Inr ((), s\<lparr>batches := batches s @ [b]\<rparr>))"

definition insert_item :: "item_row \<Rightarrow> unit batch_tx" where
  "insert_item i s =
     (if i_id i \<in> i_id ` set (batch_items s) \<or> i_key i \<in> i_key ` set (batch_items s)
         \<or> (i_batch_id i, i_portfolio_id i) \<in> (\<lambda>x. (i_batch_id x, i_portfolio_id x)) ` set (batch_items s)
      then Inl (IntegrityError ''UNIQUE'') else Inr ((), s\<lparr>batch_items := batch_items s @ [i]\<rparr>))"

definition update_batches :: "(batch_row \<Rightarrow> bool) \<Rightarrow> (batch_row \<Rightarrow> batch_row) \<Rightarrow> nat batch_tx" where
  "update_batches P f s = Inr (rowcount P (batches s), s\<lparr>batches := update_where P f (batches s)\<rparr>)"

definition update_items :: "(item_row \<Rightarrow> bool) \<Rightarrow> (item_row \<Rightarrow> item_row) \<Rightarrow> nat batch_tx" where
  "update_items P f s = Inr (rowcount P (batch_items s), s\<lparr>batch_items := update_where P f (batch_items s)\<rparr>)"

text \<open>\<open>UPDATE ... RETURNING *\<close>: the rows as updated.\<close>

definition update_items_returning :: "(item_row \<Rightarrow> bool) \<Rightarrow> (item_row \<Rightarrow> item_row) \<Rightarrow> item_row list batch_tx" where
  "update_items_returning P f s =
     Inr (map f (filter P (batch_items s)), s\<lparr>batch_items := update_where P f (batch_items s)\<rparr>)"

definition stamp_before :: "stamp option \<Rightarrow> stamp \<Rightarrow> bool" where
  "stamp_before a b \<longleftrightarrow> (case a of None \<Rightarrow> False | Some t \<Rightarrow> \<not> stamp_le b t)"

definition stamp_due :: "stamp option \<Rightarrow> stamp \<Rightarrow> bool" where
  "stamp_due a b \<longleftrightarrow> (case a of None \<Rightarrow> True | Some t \<Rightarrow> stamp_le t b)"

definition clear_lease :: "item_row \<Rightarrow> item_row" where
  "clear_lease i = i\<lparr>i_lease_owner := None, i_lease_token := None, i_lease_acquired_at := None,
     i_lease_expires_at := None, i_last_heartbeat_at := None\<rparr>"

definition given_or_now :: "env \<Rightarrow> dt option \<Rightarrow> dt" where
  "given_or_now e now = (case now of None \<Rightarrow> utc_now e 0 | Some t \<Rightarrow> t)"

definition item_not_found :: err where "item_not_found = ValueError ''report_batch_item_not_found''"

section \<open>Reading and reconciling a batch\<close>

definition load_batch :: "string \<Rightarrow> batch_record batch_tx" where
  "load_batch bid =
     tx_bind (tx_get (find_batch bid)) (\<lambda>row.
     case row of None \<Rightarrow> tx_raise (ValueError ''report_batch_not_found'')
     | Some b \<Rightarrow> tx_bind (tx_get (items_of bid)) (\<lambda>rows.
         tx_return \<lparr>br_batch = b, br_items = sort_key i_position rows\<rparr>))"

definition get_batch :: "string \<Rightarrow> batch_record batch_tx" where
  "get_batch bid = load_batch bid"

definition get_batch_item :: "string \<Rightarrow> string \<Rightarrow> item_row batch_tx" where
  "get_batch_item bid iid =
     tx_bind (load_batch bid) (\<lambda>_.
     tx_bind (tx_get (\<lambda>s. fetch (\<lambda>i. i_batch_id i = bid \<and> i_id i = iid) (batch_items s))) (\<lambda>row.
     case row of None \<Rightarrow> tx_raise item_not_found | Some i \<Rightarrow> tx_return i))"

definition reconcile_row :: "batch_status \<Rightarrow> stamp \<Rightarrow> batch_row \<Rightarrow> batch_row" where
  "reconcile_row status now b = b\<lparr>b_status := status, b_updated_at := Some now,
     b_completed_at := (if status \<in> {Batch_completed, Batch_completed_with_failures}
        then coalesce (b_completed_at b) (Some now) else b_completed_at b),
     b_cancelled_at := (if status = Batch_cancelled then coalesce (b_cancelled_at b) (Some now) else b_cancelled_at b),
     b_failed_at := (if status = Batch_failed then coalesce (b_failed_at b) (Some now) else b_failed_at b)\<rparr>"

definition refresh_batch_status :: "string \<Rightarrow> dt \<Rightarrow> unit batch_tx" where
  "refresh_batch_status bid now =
     tx_bind (tx_get (items_of bid)) (\<lambda>rows.
     if rows = [] then tx_return () else
     case reconciled_batch_status (map i_status rows) of
       None \<Rightarrow> tx_return ()
     | Some status \<Rightarrow>
         tx_bind (update_batches (\<lambda>b. b_id b = bid \<and> b_status b \<notin> {Batch_paused, Batch_cancelled})
                    (reconcile_row status (dt_to_text now))) (\<lambda>_. tx_return ()))"

section \<open>Creation\<close>

definition compute_batch_request_hash ::
    "env \<Rightarrow> batch_request \<Rightarrow> caller_context \<Rightarrow> materialized_portfolio list \<Rightarrow> string" where
  "compute_batch_request_hash e q caller materialized =
     env_sha256 e (canonical_json (JObj [
       (''selector_mode'', JStr (bq_selector_mode q)),
       (''materialized_portfolio_ids'', JList (map (\<lambda>p. JStr (mp_portfolio_id p)) materialized)),
       (''as_of_date'', JStr (date_isoformat (bq_as_of_date q))),
       (''requested_output_formats'', JList (map JStr (sort (bq_requested_output_formats q)))),
       (''reporting_currency'', jopt (bq_reporting_currency q)),
       (''options'', JObj (bq_options q)),
       (''tenant_id'', JStr (cc_tenant_id caller)),
       (''region'', JStr (cc_region caller))]))"

definition new_batch_row ::
    "batch_request \<Rightarrow> caller_context \<Rightarrow> materialized_portfolio list \<Rightarrow> stamp \<Rightarrow> string \<Rightarrow> string \<Rightarrow> string \<Rightarrow> batch_row" where
  "new_batch_row q caller materialized now bid key hash = \<lparr>
     b_id = bid, b_selector_mode = bq_selector_mode q, b_tenant_id = cc_tenant_id caller,
     b_region = cc_region caller, b_portfolio_ids = map mp_portfolio_id materialized,
     b_output_formats = sort (bq_requested_output_formats q), b_as_of_date = bq_as_of_date q,
     b_reporting_currency = bq_reporting_currency q, b_options = sorted_obj (bq_options q),
     b_trigger_type = cc_trigger_type caller, b_triggered_by = cc_triggered_by caller,
     b_caller_application = cc_caller_application caller, b_booking_center_code = cc_booking_center_code caller,
     b_role = cc_role caller, b_idempotency_key = key, b_request_hash = hash,
     b_status = Batch_materialized, b_item_count = int (length materialized),
     b_correlation_id = cc_correlation_id caller, b_trace_id = cc_trace_id caller,
     b_created_at = now, b_updated_at = Some now, b_started_at = None, b_completed_at = None,
     b_cancelled_at = None, b_failed_at = None\<rparr>"

definition item_idempotency_key :: "string \<Rightarrow> date \<Rightarrow> nat \<Rightarrow> string \<Rightarrow> string" where
  "item_idempotency_key key as_of n portfolio_id =
     key @ '':'' @ date_isoformat as_of @ '':'' @ nat_digits n @ '':'' @ portfolio_id"

definition new_item_row ::
    "env \<Rightarrow> string \<Rightarrow> string \<Rightarrow> date \<Rightarrow> stamp \<Rightarrow> nat \<times> materialized_portfolio \<Rightarrow> item_row" where
  "new_item_row e bid key as_of now p = \<lparr>
     i_id = ''rbit_'' @ uuid4_hex e (fst p), i_batch_id = bid, i_position = int (fst p),
     i_portfolio_id = mp_portfolio_id (snd p),
     i_key = item_idempotency_key key as_of (fst p) (mp_portfolio_id (snd p)), i_status = Item_materialized,
     i_source_system = mp_source_system (snd p), i_source_object = mp_source_object (snd p),
     i_created_at = now, i_report_job_id = None, i_lease_owner = None, i_lease_token = None,
     i_lease_acquired_at = None, i_lease_expires_at = None, i_last_heartbeat_at = None,
     i_dispatched_at = None, i_attempt_count = 0, i_retry_eligible = False, i_next_retry_at = None,
     i_last_error_category = None, i_last_error_summary = None, i_started_at = None,
     i_completed_at = None, i_cancelled_at = None\<rparr>"

definition insert_new_batch ::
    "env \<Rightarrow> batch_request \<Rightarrow> caller_context \<Rightarrow> string \<Rightarrow> materialized_portfolio list \<Rightarrow> string \<Rightarrow> batch_record batch_tx" where
  "insert_new_batch e q caller key materialized hash =
     (let now = dt_to_text (utc_now e 0); bid = ''rbch_'' @ uuid4_hex e 1 in
      tx_bind (insert_batch (new_batch_row q caller materialized now bid key hash)) (\<lambda>_.
      tx_bind (tx_foreach (enumerate 1 materialized) ()
         (\<lambda>p _. insert_item (new_item_row (sub_env 2 e) bid key (bq_as_of_date q) now p))) (\<lambda>_.
      load_batch bid)))"

definition create_batch ::
    "env \<Rightarrow> batch_request \<Rightarrow> caller_context \<Rightarrow> string option \<Rightarrow> batch_record batch_tx" where
  "create_batch e q caller idempotency_key =
     (if py_blank idempotency_key then tx_raise (MissingBatchIdempotencyKeyError ''missing_batch_idempotency_key'')
      else
        let key = py_strip (the idempotency_key) in
        tx_bind (tx_lift (materialize_portfolios q caller)) (\<lambda>materialized.
        let hash = compute_batch_request_hash e q caller materialized in
        tx_bind (tx_get (\<lambda>s. fetch (\<lambda>b. b_idempotency_key b = key) (batches s))) (\<lambda>existing.
        case existing of
          Some b \<Rightarrow>
            tx_bind (tx_require (b_request_hash b = hash)
              (BatchIdempotencyConflictError ''batch_idempotency_key_reused_with_different_request'')) (\<lambda>_.
            load_batch (b_id b))
        | None \<Rightarrow> insert_new_batch e q caller key materialized hash)))"

definition has_batch_for_idempotency_key :: "string \<Rightarrow> bool batch_tx" where
  "has_batch_for_idempotency_key idempotency_key =
     (let key = py_strip idempotency_key in
      if key = [] then tx_return False
      else tx_get (\<lambda>s. fetch (\<lambda>b. b_idempotency_key b = key) (batches s) \<noteq> None))"

text \<open>\<open>json_extract\<close> of an option equals a text only when the option is that string.\<close>

definition has_batch_for_schedule_cycle ::
    "string \<Rightarrow> string \<Rightarrow> string \<Rightarrow> string \<Rightarrow> string \<Rightarrow> string \<Rightarrow> bool batch_tx" where
  "has_batch_for_schedule_cycle tenant_id region schedule_id period_start period_end as_of =
     tx_get (\<lambda>s. fetch (\<lambda>b. date_isoformat (b_as_of_date b) = as_of \<and> b_tenant_id b = tenant_id \<and> b_region b = region
        \<and> dget (b_options b) ''batch_schedule_id'' = Some (JStr schedule_id)
        \<and> dget (b_options b) ''batch_period_start'' = Some (JStr period_start)
        \<and> dget (b_options b) ''batch_period_end'' = Some (JStr period_end)) (batches s) \<noteq> None)"

section \<open>Leasing items for dispatch\<close>

abbreviation batch_runnable :: "batch_row \<Rightarrow> bool" where
  "batch_runnable b \<equiv> b_status b \<in> {Batch_materialized, Batch_running}"

definition retry_ready :: "stamp \<Rightarrow> item_row \<Rightarrow> bool" where
  "retry_ready now i \<longleftrightarrow> i_status i = Item_failed_retryable \<and> i_retry_eligible i \<and> stamp_due (i_next_retry_at i) now"

definition dispatch_ready :: "stamp \<Rightarrow> item_row \<Rightarrow> bool" where
  "dispatch_ready now i \<longleftrightarrow> i_report_job_id i = None
     \<and> (i_status i = Item_materialized \<or> i_status i = Item_recovery_pending
        \<or> (i_status i = Item_leased \<and> stamp_before (i_lease_expires_at i) now)
        \<or> retry_ready now i)"

definition dispatch_rows :: "string \<Rightarrow> stamp \<Rightarrow> int \<Rightarrow> batch_ledger \<Rightarrow> item_row list" where
  "dispatch_rows bid now limit s =
     take (nat limit) (sort_key i_position (filter (\<lambda>i. i_batch_id i = bid \<and> dispatch_ready now i
       \<and> (\<exists>b \<in> set (batches s). b_id b = i_batch_id i \<and> batch_runnable b)) (batch_items s)))"

definition lease_item :: "string \<Rightarrow> string \<Rightarrow> stamp \<Rightarrow> stamp \<Rightarrow> item_row \<Rightarrow> item_row" where
  "lease_item worker_id token now expires i = i\<lparr>i_status := Item_leased, i_lease_owner := Some worker_id,
     i_lease_token := Some token, i_lease_acquired_at := Some now, i_lease_expires_at := Some expires,
     i_last_heartbeat_at := Some now, i_started_at := coalesce (i_started_at i) (Some now)\<rparr>"

definition start_batch :: "stamp \<Rightarrow> batch_row \<Rightarrow> batch_row" where
  "start_batch now b = b\<lparr>b_status := Batch_running, b_updated_at := Some now,
     b_started_at := coalesce (b_started_at b) (Some now)\<rparr>"

definition acquire_dispatch_items ::
    "env \<Rightarrow> string \<Rightarrow> string \<Rightarrow> int \<Rightarrow> int \<Rightarrow> dt option \<Rightarrow> item_row list batch_tx" where
  "acquire_dispatch_items e bid worker_id lease_seconds limit now =
     (if limit < 1 then tx_return [] else
      let lease_start = given_or_now e now;
          start = dt_to_text lease_start; expiry = dt_to_text (lease_start + seconds lease_seconds);
          token = ''lease_'' @ uuid4_hex e 1 in
      tx_bind (tx_get (dispatch_rows bid start limit)) (\<lambda>rows.
      if rows = [] then tx_return [] else
        let ids = map i_id rows in
        tx_bind (update_items (\<lambda>i. i_id i \<in> set ids) (lease_item worker_id token start expiry)) (\<lambda>_.
        tx_bind (update_batches (\<lambda>b. b_id b = bid \<and> b_status b = Batch_materialized) (start_batch start)) (\<lambda>_.
        tx_get (\<lambda>s. sort_key i_position (filter (\<lambda>i. i_id i \<in> set ids) (batch_items s)))))))"

definition item_lease_held :: "string \<Rightarrow> string \<Rightarrow> item_row \<Rightarrow> bool" where
  "item_lease_held iid token i \<longleftrightarrow> i_id i = iid \<and> i_lease_token i = Some token \<and> i_status i = Item_leased"

text \<open>The row read back by its key after an update of exactly one row.\<close>

definition reread_item :: "nat \<Rightarrow> string \<Rightarrow> item_row batch_tx" where
  "reread_item n iid =
     tx_bind (tx_require (n = 1) item_not_found) (\<lambda>_.
     tx_bind (tx_get (find_item iid)) (\<lambda>row.
     case row of None \<Rightarrow> tx_raise (PyTypeError ''NoneType'') | Some i \<Rightarrow> tx_return i))"

definition heartbeat_item_lease :: "env \<Rightarrow> string \<Rightarrow> string \<Rightarrow> int \<Rightarrow> dt option \<Rightarrow> item_row batch_tx" where
  "heartbeat_item_lease e iid token lease_seconds now =
     (let heartbeat_at = given_or_now e now in
      tx_bind (update_items (item_lease_held iid token) (\<lambda>i. i\<lparr>
         i_last_heartbeat_at := Some (dt_to_text heartbeat_at),
         i_lease_expires_at := Some (dt_to_text (heartbeat_at + seconds lease_seconds))\<rparr>)) (\<lambda>n.
      reread_item n iid))"

definition mark_item_waiting_on_report_job ::
    "env \<Rightarrow> string \<Rightarrow> string \<Rightarrow> string \<Rightarrow> dt option \<Rightarrow> item_row batch_tx" where
  "mark_item_waiting_on_report_job e iid token report_job_id now =
     tx_bind (update_items (item_lease_held iid token) (\<lambda>i. i\<lparr>i_status := Item_waiting,
        i_report_job_id := Some report_job_id, i_dispatched_at := Some (dt_to_text (given_or_now e now))\<rparr>)) (\<lambda>n.
     reread_item n iid)"

section \<open>Settling items\<close>

definition succeed_item :: "stamp \<Rightarrow> item_row \<Rightarrow> item_row" where
  "succeed_item now i = (clear_lease i)\<lparr>i_status := Item_succeeded, i_retry_eligible := False,
     i_next_retry_at := None, i_last_error_category := None, i_last_error_summary := None,
     i_completed_at := Some now\<rparr>"

text \<open>\<open>fetchone()\<close> of a returning update, the reconciliation of the batch, and the row.\<close>

definition settle_returned :: "item_row list \<Rightarrow> err \<Rightarrow> dt \<Rightarrow> item_row batch_tx" where
  "settle_returned rows error now =
     (case rows of [] \<Rightarrow> tx_raise error
      | i # _ \<Rightarrow> tx_bind (refresh_batch_status (i_batch_id i) now) (\<lambda>_. tx_return i))"

definition mark_item_succeeded :: "env \<Rightarrow> string \<Rightarrow> string \<Rightarrow> dt option \<Rightarrow> item_row batch_tx" where
  "mark_item_succeeded e iid report_job_id now =
     (let completed_at = given_or_now e now in
      tx_bind (update_items_returning
         (\<lambda>i. i_id i = iid \<and> i_report_job_id i = Some report_job_id \<and> i_status i = Item_waiting)
         (succeed_item (dt_to_text completed_at))) (\<lambda>rows.
      settle_returned rows item_not_found completed_at))"

definition default_batch_max_attempts :: int where "default_batch_max_attempts = 3"

definition fail_item ::
    "item_status \<Rightarrow> int \<Rightarrow> bool \<Rightarrow> dt option \<Rightarrow> string \<Rightarrow> string \<Rightarrow> stamp \<Rightarrow> item_row \<Rightarrow> item_row" where
  "fail_item status tries again next category summary now i = (clear_lease i)\<lparr>i_status := status,
     i_attempt_count := tries, i_retry_eligible := again, i_next_retry_at := map_option dt_to_text next,
     i_last_error_category := Some category, i_last_error_summary := Some summary,
     i_completed_at := Some now\<rparr>"

text \<open>\<open>max_attempts\<close> is the retry policy's only field.\<close>

definition mark_item_failed ::
    "env \<Rightarrow> string \<Rightarrow> string \<Rightarrow> string \<Rightarrow> bool \<Rightarrow> int option \<Rightarrow> dt option \<Rightarrow> dt option \<Rightarrow> item_row batch_tx" where
  "mark_item_failed e iid category summary retryable retry_policy next_retry_at now =
     (let failure_at = given_or_now e now;
          maximum = (case retry_policy of None \<Rightarrow> default_batch_max_attempts | Some m \<Rightarrow> m) in
      tx_bind (tx_get (find_item iid)) (\<lambda>row.
      case row of None \<Rightarrow> tx_raise item_not_found
      | Some i \<Rightarrow>
        let tries = i_attempt_count i + 1;
            outcome = batch_item_failure_outcome retryable tries maximum in
        tx_bind (update_items_returning (\<lambda>x. i_id x = iid)
           (fail_item (fst outcome) tries (snd outcome) next_retry_at category summary (dt_to_text failure_at))) (\<lambda>rows.
        settle_returned rows item_not_found failure_at)))"

section \<open>Control operations\<close>

text \<open>The result of a control operation: the rows it touched and the batch as it is now.\<close>

definition control_result_of :: "string \<Rightarrow> nat \<Rightarrow> control_result batch_tx" where
  "control_result_of bid n =
     tx_bind (load_batch bid) (\<lambda>batch.
     tx_return \<lparr>ct_batch_id = bid, ct_affected_count = n, ct_batch_status = b_status (br_batch batch)\<rparr>)"

definition retry_item :: "item_row \<Rightarrow> item_row" where
  "retry_item i = (clear_lease i)\<lparr>i_status := Item_materialized, i_retry_eligible := False, i_next_retry_at := None\<rparr>"

definition retry_failed_items :: "env \<Rightarrow> string \<Rightarrow> int option \<Rightarrow> dt option \<Rightarrow> control_result batch_tx" where
  "retry_failed_items e bid retry_policy now =
     (let retry_at = given_or_now e now;
          maximum = (case retry_policy of None \<Rightarrow> default_batch_max_attempts | Some m \<Rightarrow> m) in
      tx_bind (update_items (\<lambda>i. i_batch_id i = bid \<and> i_report_job_id i = None \<and> i_attempt_count i < maximum
           \<and> retry_ready (dt_to_text retry_at) i) retry_item) (\<lambda>n.
      tx_bind (refresh_batch_status bid retry_at) (\<lambda>_.
      control_result_of bid n)))"

definition pause_batch :: "env \<Rightarrow> string \<Rightarrow> dt option \<Rightarrow> control_result batch_tx" where
  "pause_batch e bid now =
     tx_bind (update_batches (\<lambda>b. b_id b = bid \<and> batch_runnable b)
        (\<lambda>b. b\<lparr>b_status := Batch_paused, b_updated_at := Some (dt_to_text (given_or_now e now))\<rparr>)) (\<lambda>n.
     control_result_of bid n)"

definition resume_batch :: "env \<Rightarrow> string \<Rightarrow> dt option \<Rightarrow> control_result batch_tx" where
  "resume_batch e bid now =
     tx_bind (update_batches (\<lambda>b. b_id b = bid \<and> b_status b = Batch_paused)
        (\<lambda>b. b\<lparr>b_status := Batch_materialized, b_updated_at := Some (dt_to_text (given_or_now e now))\<rparr>)) (\<lambda>n.
     control_result_of bid n)"

definition cancel_item :: "stamp \<Rightarrow> item_row \<Rightarrow> item_row" where
  "cancel_item now i = (clear_lease i)\<lparr>i_status := Item_cancelled, i_retry_eligible := False,
     i_next_retry_at := None, i_cancelled_at := Some now\<rparr>"

definition cancellable_item :: "item_row \<Rightarrow> bool" where
  "cancellable_item i \<longleftrightarrow> i_report_job_id i = None
     \<and> i_status i \<in> {Item_materialized, Item_recovery_pending, Item_failed_retryable, Item_leased}"

definition cancel_batch :: "env \<Rightarrow> string \<Rightarrow> dt option \<Rightarrow> control_result batch_tx" where
  "cancel_batch e bid now =
     (let cancelled = dt_to_text (given_or_now e now) in
      tx_bind (update_items (\<lambda>i. i_batch_id i = bid \<and> cancellable_item i) (cancel_item cancelled)) (\<lambda>n.
      tx_bind (update_batches
         (\<lambda>b. b_id b = bid \<and> b_status b \<notin> {Batch_completed, Batch_completed_with_failures, Batch_failed})
         (\<lambda>b. b\<lparr>b_status := Batch_cancelled, b_updated_at := Some cancelled, b_cancelled_at := Some cancelled\<rparr>)) (\<lambda>_.
      control_result_of bid n)))"

definition recover_item :: "item_row \<Rightarrow> item_row" where
  "recover_item i = (clear_lease i)\<lparr>i_status := Item_recovery_pending, i_retry_eligible := True,
     i_last_error_category := Some ''expired_item_lease'',
     i_last_error_summary := Some ''Batch item lease expired before report-job dispatch.''\<rparr>"

definition recover_expired_leases :: "env \<Rightarrow> string \<Rightarrow> dt option \<Rightarrow> recovery_result batch_tx" where
  "recover_expired_leases e bid now =
     (let recovery_at = given_or_now e now in
      tx_bind (update_items_returning (\<lambda>i. i_batch_id i = bid \<and> i_status i = Item_leased \<and> i_report_job_id i = None
           \<and> stamp_before (i_lease_expires_at i) (dt_to_text recovery_at)) recover_item) (\<lambda>rows.
      tx_bind (refresh_batch_status bid recovery_at) (\<lambda>_.
      tx_return \<lparr>rc_batch_id = bid, rc_recovered_count = length rows, rc_item_ids = map i_id rows\<rparr>)))"

definition relink_item :: "string \<Rightarrow> stamp \<Rightarrow> item_row \<Rightarrow> item_row" where
  "relink_item report_job_id now i = (clear_lease i)\<lparr>i_status := Item_waiting, i_report_job_id := Some report_job_id,
     i_retry_eligible := False, i_next_retry_at := None, i_last_error_category := None,
     i_last_error_summary := None, i_started_at := coalesce (i_started_at i) (Some now),
     i_completed_at := None, i_cancelled_at := None\<rparr>"

definition relink_failed_item_for_replay ::
    "env \<Rightarrow> string \<Rightarrow> string \<Rightarrow> string \<Rightarrow> int option \<Rightarrow> dt option \<Rightarrow> item_row batch_tx" where
  "relink_failed_item_for_replay e bid iid replayed_report_job_id retry_policy now =
     (let replay_at = given_or_now e now;
          maximum = (case retry_policy of None \<Rightarrow> default_batch_max_attempts | Some m \<Rightarrow> m) in
      tx_bind (tx_get (\<lambda>s. fetch (\<lambda>i. i_batch_id i = bid \<and> i_id i = iid) (batch_items s))) (\<lambda>existing.
      case existing of
        None \<Rightarrow> tx_bind (load_batch bid) (\<lambda>_. tx_raise item_not_found)
      | Some i \<Rightarrow>
        if i_status i = Item_waiting \<and> i_report_job_id i = Some replayed_report_job_id then tx_return i
        else
          tx_bind (update_items_returning (\<lambda>x. i_batch_id x = bid \<and> i_id x = iid
               \<and> i_status x = Item_failed_retryable \<and> i_retry_eligible x \<and> i_lease_token x = None
               \<and> i_attempt_count x < maximum) (relink_item replayed_report_job_id (dt_to_text replay_at))) (\<lambda>rows.
          case rows of [] \<Rightarrow> tx_raise (ValueError ''report_batch_item_cannot_be_replayed'')
          | u # _ \<Rightarrow> tx_bind (refresh_batch_status bid replay_at) (\<lambda>_. tx_return u))))"

section \<open>Listings\<close>

definition count_active_batches :: "nat batch_tx" where
  "count_active_batches = tx_get (\<lambda>s. rowcount (\<lambda>b. b_status b = Batch_running) (batches s))"

definition count_active_items :: "nat batch_tx" where
  "count_active_items = tx_get (\<lambda>s. rowcount (\<lambda>i. i_status i \<in> {Item_leased, Item_waiting}) (batch_items s))"

text \<open>The condition an item meets for its batch to be picked up by a pass.\<close>

definition runnable_item :: "stamp \<Rightarrow> item_row \<Rightarrow> bool" where
  "runnable_item now i \<longleftrightarrow> i_status i \<in> {Item_materialized, Item_recovery_pending, Item_waiting}
     \<or> (i_status i = Item_leased \<and> i_report_job_id i = None \<and> stamp_before (i_lease_expires_at i) now)
     \<or> retry_ready now i"

definition runnable_batch :: "stamp \<Rightarrow> batch_ledger \<Rightarrow> batch_row \<Rightarrow> bool" where
  "runnable_batch now s b \<longleftrightarrow> batch_runnable b
     \<and> (\<exists>i \<in> set (batch_items s). i_batch_id i = b_id b \<and> runnable_item now i)"

record pressure_snapshot =
  ps_runnable_batches :: nat
  ps_active_batches :: nat
  ps_active_items :: nat
  ps_dispatch_ready_items :: nat
  ps_retry_ready_items :: nat
  ps_recovery_pending_items :: nat

definition batch_pressure_snapshot :: "env \<Rightarrow> dt option \<Rightarrow> pressure_snapshot batch_tx" where
  "batch_pressure_snapshot e now =
     (let t = dt_to_text (given_or_now e now) in
      tx_get (\<lambda>s. \<lparr>
        ps_runnable_batches = rowcount (runnable_batch t s) (batches s),
        ps_active_batches = rowcount (\<lambda>b. b_status b = Batch_running) (batches s),
        ps_active_items = rowcount (\<lambda>i. i_status i \<in> {Item_leased, Item_waiting}) (batch_items s),
        ps_dispatch_ready_items = rowcount (dispatch_ready t) (batch_items s),
        ps_retry_ready_items = rowcount (retry_ready t) (batch_items s),
        ps_recovery_pending_items = rowcount (\<lambda>i. i_status i = Item_recovery_pending) (batch_items s)\<rparr>))"

definition batch_age :: "batch_row \<Rightarrow> int \<times> string" where
  "batch_age b = (text_key (b_created_at b), b_id b)"

text \<open>\<open>ROW_NUMBER() OVER (PARTITION BY tenant_id ORDER BY created_at, batch_id)\<close>.\<close>

definition tenant_rank :: "batch_row list \<Rightarrow> batch_row \<Rightarrow> nat" where
  "tenant_rank rows b =
     Suc (rowcount (\<lambda>x. b_tenant_id x = b_tenant_id b \<and> batch_age x < batch_age b) rows)"

definition list_runnable_batch_ids ::
    "env \<Rightarrow> (string \<Rightarrow> int) \<Rightarrow> string list \<Rightarrow> int \<Rightarrow> dt option \<Rightarrow> string list batch_tx" where
  "list_runnable_batch_ids e rnd tenant_ids limit now =
     (if limit < 1 \<or> tenant_ids = [] then tx_return [] else
      let t = dt_to_text (given_or_now e now) in
      tx_get (\<lambda>s. let rows = filter (\<lambda>b. b_tenant_id b \<in> set tenant_ids \<and> runnable_batch t s b) (batches s) in
        map b_id (take (nat limit) (sort_key (\<lambda>b. (tenant_rank rows b, rnd (b_id b))) rows))))"

definition attention_item :: "stamp \<Rightarrow> item_row \<Rightarrow> bool" where
  "attention_item now i \<longleftrightarrow> i_status i \<in> {Item_materialized, Item_leased, Item_waiting, Item_recovery_pending}
     \<or> retry_ready now i"

definition list_attention_batch_ids :: "env \<Rightarrow> int \<Rightarrow> dt option \<Rightarrow> string list batch_tx" where
  "list_attention_batch_ids e limit now =
     (if limit < 1 then tx_return [] else
      let t = dt_to_text (given_or_now e now) in
      tx_get (\<lambda>s. map b_id (take (nat limit) (sort_key batch_age
        (filter (\<lambda>b. batch_runnable b \<and> (\<exists>i \<in> set (batch_items s). i_batch_id i = b_id b \<and> attention_item t i))
           (batches s))))))"

end
