(* ===== verification/Batch_Laws.thy ===== *)
theory Batch_Laws
  imports Batch_Ledger
begin

text \<open>
  What the batch ledger keeps: the history relation (rows are only appended, identities never change,
  a closed batch stays closed, an item never loses its report job) and the consistency invariant, both
  preserved by every operation, and runs of the ledger as sequences of committed operations.
\<close>

section \<open>Growing tables\<close>

text \<open>A table grows along \<open>R\<close>: its rows evolve by \<open>R\<close> in place, new rows come at the end.\<close>

definition grows :: "('r \<Rightarrow> 'r \<Rightarrow> bool) \<Rightarrow> 'r list \<Rightarrow> 'r list \<Rightarrow> bool" where
  "grows R xs ys \<longleftrightarrow> list_all2 R xs (take (length xs) ys)"

locale row_evolution =
  fixes R :: "'r \<Rightarrow> 'r \<Rightarrow> bool"
  assumes row_refl: "R x x"
    and row_trans: "R x y \<Longrightarrow> R y z \<Longrightarrow> R x z"
begin

lemma grows_append: "grows R xs (xs @ ys)"
  unfolding grows_def by (simp add: list_all2_refl row_refl)

lemma grows_refl: "grows R xs xs"
  using grows_append [of xs "[]"] by simp

lemma grows_update:
  assumes "\<And>x. x \<in> set xs \<Longrightarrow> P x \<Longrightarrow> R x (f x)"
  shows "grows R xs (update_where P f xs)"
  unfolding grows_def using assms by (induction xs) (auto simp: row_refl)

lemma grows_trans:
  assumes "grows R xs ys" "grows R ys zs"
  shows "grows R xs zs"
proof -
  have len: "length xs \<le> length ys" using list_all2_lengthD [OF assms(1) [unfolded grows_def]] by simp
  have "list_all2 R (take (length xs) ys) (take (length xs) (take (length ys) zs))"
    using assms(2) unfolding grows_def by (rule list_all2_takeI)
  then have "list_all2 R (take (length xs) ys) (take (length xs) zs)" using len by (simp add: min_def)
  then show ?thesis
    using assms(1) unfolding grows_def by (blast intro: list_all2_trans [of R R R] row_trans)
qed

lemma grows_row: "grows R xs ys \<Longrightarrow> x \<in> set xs \<Longrightarrow> \<exists>y \<in> set ys. R x y"
  unfolding grows_def by (metis in_set_conv_nth in_set_takeD list_all2_conv_all_nth nth_mem)

end

section \<open>How rows evolve\<close>

text \<open>The columns no statement changes, as the row with the others blanked.\<close>

definition batch_core :: "batch_row \<Rightarrow> batch_row" where
  "batch_core b = b\<lparr>b_status := Batch_materialized, b_updated_at := None, b_started_at := None,
     b_completed_at := None, b_cancelled_at := None, b_failed_at := None\<rparr>"

definition item_core :: "item_row \<Rightarrow> item_row" where
  "item_core i = (clear_lease i)\<lparr>i_status := Item_materialized, i_report_job_id := None, i_dispatched_at := None,
     i_attempt_count := 0, i_retry_eligible := False, i_next_retry_at := None, i_last_error_category := None,
     i_last_error_summary := None, i_started_at := None, i_completed_at := None, i_cancelled_at := None\<rparr>"

text \<open>
  The life of an item as callers see it: its phase, its report job and the failures counted. This is
  the abstract machine the ledger implements. A report job, once linked, can only be replaced by the
  job of a replay; only an item without one is ever leased, reopened or withdrawn; a failure may be
  recorded in any phase.
\<close>

datatype item_phase = Awaiting | Held | Linked | Settled | Retryable | Exhausted | Withdrawn

type_synonym item_view = "item_phase \<times> string option \<times> int"

fun phase_of :: "item_status \<Rightarrow> item_phase" where
  "phase_of Item_materialized = Awaiting"
| "phase_of Item_recovery_pending = Awaiting"
| "phase_of Item_leased = Held"
| "phase_of Item_waiting = Linked"
| "phase_of Item_succeeded = Settled"
| "phase_of Item_failed_retryable = Retryable"
| "phase_of Item_failed_terminal = Exhausted"
| "phase_of Item_cancelled = Withdrawn"

definition item_view :: "item_row \<Rightarrow> item_view" where
  "item_view i = (phase_of (i_status i), i_report_job_id i, i_attempt_count i)"

inductive item_spec :: "item_view \<Rightarrow> item_view \<Rightarrow> bool" where
  spec_lease: "p \<in> {Awaiting, Held, Retryable} \<Longrightarrow> item_spec (p, None, n) (Held, None, n)"
| spec_release: "item_spec (Held, None, n) (Awaiting, None, n)"
| spec_link: "item_spec (Held, None, n) (Linked, Some j, n)"
| spec_succeed: "item_spec (Linked, Some j, n) (Settled, Some j, n)"
| spec_fail: "p' \<in> {Retryable, Exhausted} \<Longrightarrow> item_spec (p, j, n) (p', j, n + 1)"
| spec_reopen: "item_spec (Retryable, None, n) (Awaiting, None, n)"
| spec_withdraw: "p \<in> {Awaiting, Held, Retryable} \<Longrightarrow> item_spec (p, None, n) (Withdrawn, None, n)"
| spec_replay: "item_spec (Retryable, j, n) (Linked, Some k, n)"

inductive_cases item_spec_fromE: "item_spec (p, j, n) v"

definition batch_closed :: "batch_row \<Rightarrow> bool" where
  "batch_closed b \<longleftrightarrow> b_status b \<in> {Batch_cancelled, Batch_completed, Batch_completed_with_failures, Batch_failed}"

definition batch_evolves :: "batch_row \<Rightarrow> batch_row \<Rightarrow> bool" where
  "batch_evolves b b' \<longleftrightarrow> batch_core b' = batch_core b \<and> (batch_closed b \<longrightarrow> batch_closed b')
     \<and> (b_status b = Batch_cancelled \<longrightarrow> b_status b' = Batch_cancelled)"

definition item_evolves :: "item_row \<Rightarrow> item_row \<Rightarrow> bool" where
  "item_evolves i i' \<longleftrightarrow> item_core i' = item_core i \<and> item_spec\<^sup>*\<^sup>* (item_view i) (item_view i')"

interpretation batch_rows: row_evolution batch_evolves
  by unfold_locales (auto simp: batch_evolves_def)

interpretation item_rows: row_evolution item_evolves
  by unfold_locales (auto simp: item_evolves_def)

definition batch_rel :: "batch_ledger \<Rightarrow> batch_ledger \<Rightarrow> bool" where
  "batch_rel s s' \<longleftrightarrow> grows batch_evolves (batches s) (batches s') \<and> grows item_evolves (batch_items s) (batch_items s')"

interpretation bhist: tx_relation batch_rel
proof unfold_locales
  show "batch_rel s s" for s by (simp add: batch_rel_def batch_rows.grows_refl item_rows.grows_refl)
  show "batch_rel s t \<Longrightarrow> batch_rel t u \<Longrightarrow> batch_rel s u" for s t u
    unfolding batch_rel_def by (blast intro: batch_rows.grows_trans item_rows.grows_trans)
qed

named_theorems batch_keeps \<open>operations that keep \<open>bl_rel\<close>\<close>

lemma keeps_insert_batch: "keeps batch_rel (insert_batch b)"
  by (rule keepsI) (auto simp: insert_batch_def batch_rel_def batch_rows.grows_append item_rows.grows_refl split: if_splits)

lemma keeps_insert_item: "keeps batch_rel (insert_item i)"
  by (rule keepsI) (auto simp: insert_item_def batch_rel_def batch_rows.grows_refl item_rows.grows_append split: if_splits)

lemma keeps_update_batches:
  "(\<And>b. P b \<Longrightarrow> batch_evolves b (f b)) \<Longrightarrow> keeps batch_rel (update_batches P f)"
  by (rule keepsI) (auto simp: update_batches_def batch_rel_def item_rows.grows_refl intro!: batch_rows.grows_update)

section \<open>Consistency\<close>

text \<open>The structure of the two tables, a matter of the fixed columns only.\<close>

definition batch_shape :: "item_row list \<Rightarrow> batch_row \<Rightarrow> bool" where
  "batch_shape is b \<longleftrightarrow> (let own = filter (\<lambda>i. i_batch_id i = b_id b) is in
     b_portfolio_ids b \<noteq> [] \<and> distinct (b_portfolio_ids b) \<and> b_item_count b = int (length (b_portfolio_ids b))
     \<and> map i_portfolio_id own = b_portfolio_ids b
     \<and> map i_position own = map int [1..<Suc (length (b_portfolio_ids b))]
     \<and> map i_key own = map (\<lambda>p. item_idempotency_key (b_idempotency_key b) (b_as_of_date b) (fst p) (snd p))
           (enumerate 1 (b_portfolio_ids b)))"

definition struct_ok :: "batch_row list \<Rightarrow> item_row list \<Rightarrow> bool" where
  "struct_ok bs is \<longleftrightarrow> distinct (map b_id bs) \<and> distinct (map b_idempotency_key bs) \<and> distinct (map i_id is)
     \<and> distinct (map i_key is) \<and> set (map i_batch_id is) \<subseteq> set (map b_id bs) \<and> list_all (batch_shape is) bs"

text \<open>What the mutable columns of an item say together.\<close>

definition item_ok :: "item_row \<Rightarrow> bool" where
  "item_ok i \<longleftrightarrow> 0 \<le> i_attempt_count i
     \<and> (i_lease_token i \<noteq> None \<longrightarrow> i_status i \<in> {Item_leased, Item_waiting})
     \<and> (case i_status i of
          Item_materialized \<Rightarrow> i_report_job_id i = None \<and> \<not> i_retry_eligible i
        | Item_recovery_pending \<Rightarrow> i_report_job_id i = None
        | Item_leased \<Rightarrow> i_report_job_id i = None \<and> i_lease_token i \<noteq> None \<and> i_lease_owner i \<noteq> None
            \<and> i_lease_expires_at i \<noteq> None
        | Item_waiting \<Rightarrow> i_report_job_id i \<noteq> None
        | Item_succeeded \<Rightarrow> i_report_job_id i \<noteq> None \<and> \<not> i_retry_eligible i
        | Item_failed_retryable \<Rightarrow> i_retry_eligible i \<and> 1 \<le> i_attempt_count i
        | Item_failed_terminal \<Rightarrow> \<not> i_retry_eligible i \<and> 1 \<le> i_attempt_count i
        | Item_cancelled \<Rightarrow> i_report_job_id i = None \<and> \<not> i_retry_eligible i)"

text \<open>An item's view is one the abstract machine reaches from a fresh item.\<close>

definition item_born :: "item_row \<Rightarrow> bool" where
  "item_born i \<longleftrightarrow> item_spec\<^sup>*\<^sup>* (Awaiting, None, 0) (item_view i)"

definition batch_inv :: "batch_ledger \<Rightarrow> bool" where
  "batch_inv s \<longleftrightarrow> struct_ok (batches s) (batch_items s) \<and> list_all item_ok (batch_items s)
     \<and> list_all item_born (batch_items s)"

lemma core_fields [simp]:
  "b_id (batch_core b) = b_id b" "b_idempotency_key (batch_core b) = b_idempotency_key b"
  "b_portfolio_ids (batch_core b) = b_portfolio_ids b" "b_item_count (batch_core b) = b_item_count b"
  "b_as_of_date (batch_core b) = b_as_of_date b" "b_request_hash (batch_core b) = b_request_hash b"
  "b_tenant_id (batch_core b) = b_tenant_id b"
  "i_id (item_core i) = i_id i" "i_batch_id (item_core i) = i_batch_id i" "i_key (item_core i) = i_key i"
  "i_portfolio_id (item_core i) = i_portfolio_id i" "i_position (item_core i) = i_position i"
  by (simp_all add: batch_core_def item_core_def clear_lease_def)

lemma map_core [simp]:
  "map b_id (map batch_core bs) = map b_id bs" "map b_idempotency_key (map batch_core bs) = map b_idempotency_key bs"
  "map i_id (map item_core is) = map i_id is" "map i_key (map item_core is) = map i_key is"
  "map i_batch_id (map item_core is) = map i_batch_id is"
  by (simp_all add: comp_def)

lemma batch_shape_core: "batch_shape (map item_core is) (batch_core b) = batch_shape is b"
  unfolding batch_shape_def Let_def core_fields filter_map comp_def by (simp add: comp_def)

lemma struct_ok_core: "struct_ok (map batch_core bs) (map item_core is) = struct_ok bs is"
  unfolding struct_ok_def map_core by (simp add: list_all_iff batch_shape_core)

lemma struct_ok_cong:
  "map batch_core bs = map batch_core bs' \<Longrightarrow> map item_core is = map item_core is' \<Longrightarrow>
   struct_ok bs is = struct_ok bs' is'"
  by (metis struct_ok_core)

text \<open>The relation of two states of one ledger: consistency is kept and the history respected.\<close>

definition bl_rel :: "batch_ledger \<Rightarrow> batch_ledger \<Rightarrow> bool" where
  "bl_rel s s' \<longleftrightarrow> (batch_inv s \<longrightarrow> batch_inv s' \<and> batch_rel s s')"

interpretation bl: tx_relation bl_rel
  by unfold_locales (auto simp: bl_rel_def bhist.R_refl intro: bhist.R_trans)

lemma bl_keeps:
  assumes "keeps batch_rel m" "\<And>s a s'. m s = Inr (a, s') \<Longrightarrow> batch_inv s \<Longrightarrow> batch_inv s'"
  shows "keeps bl_rel m"
  using assms by (auto simp: keeps_def bl_rel_def)

text \<open>A good update of a row: it evolves, and stays consistent when it was.\<close>

definition good_item :: "(item_row \<Rightarrow> item_row) \<Rightarrow> item_row \<Rightarrow> bool" where
  "good_item f i \<longleftrightarrow> item_evolves i (f i) \<and> (item_ok i \<longrightarrow> item_ok (f i))"

lemma update_items_bl:
  assumes "\<And>i. i \<in> set (batch_items s) \<Longrightarrow> P i \<Longrightarrow> item_ok i \<Longrightarrow> good_item f i"
  shows "bl_rel s (s\<lparr>batch_items := update_where P f (batch_items s)\<rparr>)"
  unfolding bl_rel_def
proof (intro impI conjI)
  let ?s = "s\<lparr>batch_items := update_where P f (batch_items s)\<rparr>"
  assume inv: "batch_inv s"
  then have ok: "item_ok i" if "i \<in> set (batch_items s)" for i
    using that by (simp add: batch_inv_def list_all_iff)
  have "map item_core (batch_items ?s) = map item_core (batch_items s)"
    using assms ok by (auto simp: update_where_def good_item_def item_evolves_def)
  from struct_ok_cong [OF refl this, of "batches s"] have "struct_ok (batches ?s) (batch_items ?s)"
    using inv by (simp add: batch_inv_def)
  moreover have "list_all item_ok (batch_items ?s)"
    using assms ok by (auto simp: list_all_iff set_update_where good_item_def)
  moreover have "list_all item_born (batch_items ?s)"
    using assms ok inv
    by (auto simp: batch_inv_def list_all_iff set_update_where good_item_def item_born_def item_evolves_def
        intro: rtranclp_trans)
  ultimately show "batch_inv ?s" by (simp add: batch_inv_def)
  show "batch_rel s ?s"
    using assms ok by (auto simp: batch_rel_def batch_rows.grows_refl good_item_def intro!: item_rows.grows_update)
qed

lemma update_batches_bl:
  assumes "\<And>b. P b \<Longrightarrow> batch_evolves b (f b)"
  shows "keeps bl_rel (update_batches P f)"
proof (rule bl_keeps [OF keeps_update_batches [OF assms]])
  fix s a s' assume run: "update_batches P f s = Inr (a, s')" and inv: "batch_inv s"
  then have "map batch_core (batches s') = map batch_core (batches s)" "batch_items s' = batch_items s"
    using assms by (auto simp: update_batches_def update_where_def batch_evolves_def)
  then show "batch_inv s'" using inv struct_ok_cong by (metis batch_inv_def)
qed

lemma update_items_keeps:
  "(\<And>i. P i \<Longrightarrow> item_ok i \<Longrightarrow> good_item f i) \<Longrightarrow> keeps bl_rel (update_items P f)"
  by (rule keepsI) (auto simp: update_items_def intro: update_items_bl)

lemma update_returning_keeps:
  "(\<And>i. P i \<Longrightarrow> item_ok i \<Longrightarrow> good_item f i) \<Longrightarrow> keeps bl_rel (update_items_returning P f)"
  by (rule keepsI) (auto simp: update_items_returning_def intro: update_items_bl)

lemmas spec_moves = item_spec.intros [THEN r_into_rtranclp [of item_spec]]

lemmas row_defs = batch_core_def item_view_def item_core_def clear_lease_def batch_closed_def batch_evolves_def item_evolves_def
  good_item_def item_ok_def

lemma reconciled_closed: "reconciled_batch_status xs = Some st \<Longrightarrow>
    st \<in> {Batch_cancelled, Batch_completed, Batch_completed_with_failures, Batch_failed}"
  by (auto simp: reconciled_batch_status_def Let_def split: if_splits)

lemma bkeeps_load [batch_keeps]: "keeps bl_rel (load_batch bid)"
  unfolding load_batch_def by (intro bl.keeps_rules)

lemma bkeeps_refresh [batch_keeps]: "keeps bl_rel (refresh_batch_status bid now)"
  unfolding refresh_batch_status_def
  by (intro bl.keeps_rules update_batches_bl)
     (auto simp: row_defs reconcile_row_def dest!: reconciled_closed)

lemma bkeeps_settle [batch_keeps]: "keeps bl_rel (settle_returned rows er now)"
  unfolding settle_returned_def by (cases rows) (auto intro!: bl.keeps_rules batch_keeps)

lemma bkeeps_reread [batch_keeps]: "keeps bl_rel (reread_item n iid)"
  unfolding reread_item_def by (intro bl.keeps_rules)

lemma bkeeps_control [batch_keeps]: "keeps bl_rel (control_result_of bid n)"
  unfolding control_result_of_def by (intro bl.keeps_rules batch_keeps)

lemma batch_inv_distinct:
  assumes "batch_inv s"
  shows "distinct (map b_id (batches s))" "distinct (map b_idempotency_key (batches s))"
    "distinct (map i_id (batch_items s))" "distinct (map i_key (batch_items s))"
  using assms by (simp_all add: batch_inv_def struct_ok_def)

lemma set_dispatch_rows:
  "set (dispatch_rows bid now limit s) \<subseteq> {i \<in> set (batch_items s). i_batch_id i = bid \<and> dispatch_ready now i
     \<and> (\<exists>b \<in> set (batches s). b_id b = bid \<and> batch_runnable b)}"
  unfolding dispatch_rows_def by (auto dest!: in_set_takeD)

lemma keyed_member: "distinct (map k xs) \<Longrightarrow> x \<in> set xs \<Longrightarrow> set ys \<subseteq> set xs \<Longrightarrow> k x \<in> k ` set ys \<longleftrightarrow> x \<in> set ys"
  by (auto simp: distinct_map inj_on_def)

lemma dispatch_ready_free:
  "dispatch_ready now i \<Longrightarrow> item_ok i \<Longrightarrow> i_report_job_id i = None
    \<and> i_status i \<in> {Item_materialized, Item_recovery_pending, Item_leased, Item_failed_retryable}"
  by (auto simp: dispatch_ready_def retry_ready_def)

lemma bkeeps_acquire: "keeps bl_rel (acquire_dispatch_items e bid wk n limit now)"
proof (rule keepsI)
  fix s out s'
  let ?t = "given_or_now e now"
  let ?rows = "dispatch_rows bid (dt_to_text ?t) limit s"
  let ?f = "lease_item wk (''lease_'' @ uuid4_hex e 1) (dt_to_text ?t) (dt_to_text (?t + seconds n))"
  let ?s1 = "s\<lparr>batch_items := update_where (\<lambda>i. i_id i \<in> i_id ` set ?rows) ?f (batch_items s)\<rparr>"
  assume run: "acquire_dispatch_items e bid wk n limit now s = Inr (out, s')"
  show "bl_rel s s'"
  proof (cases "batch_inv s \<and> 1 \<le> limit \<and> ?rows \<noteq> []")
    case False
    then have "\<not> batch_inv s \<or> s' = s"
      using run by (auto simp: acquire_dispatch_items_def Let_def tx_bind_eq split: if_splits)
    then show ?thesis by (auto simp: bl_rel_def bhist.R_refl)
  next
    case True
    have "item_evolves i (?f i) \<and> item_ok (?f i)" if "dispatch_ready (dt_to_text ?t) i" "item_ok i" for i
      using dispatch_ready_free [OF that] that(2) by (auto simp: row_defs lease_item_def intro!: spec_moves)
    moreover have "dispatch_ready (dt_to_text ?t) i" if "i \<in> set (batch_items s)" "i_id i \<in> i_id ` set ?rows" for i
      using that keyed_member [OF batch_inv_distinct(3) that(1), of ?rows] True set_dispatch_rows [of bid _ limit s] by blast
    ultimately have "bl_rel s ?s1" by (intro update_items_bl) (simp add: good_item_def)
    moreover have "bl_rel ?s1 s'"
    proof -
      have "update_batches (\<lambda>b. b_id b = bid \<and> b_status b = Batch_materialized) (start_batch (dt_to_text ?t)) ?s1
          = Inr (rowcount (\<lambda>b. b_id b = bid \<and> b_status b = Batch_materialized) (batches ?s1), s')"
        using run True by (auto simp: acquire_dispatch_items_def Let_def tx_bind_eq update_items_def update_batches_def)
      then show ?thesis by (rule keepsD [OF update_batches_bl, rotated]) (auto simp: row_defs start_batch_def)
    qed
    ultimately show ?thesis by (rule bl.R_trans)
  qed
qed

lemma bkeeps_heartbeat: "keeps bl_rel (heartbeat_item_lease e iid tok n now)"
  unfolding heartbeat_item_lease_def Let_def
  by (intro bl.keeps_rules batch_keeps update_items_keeps) (auto simp: row_defs item_lease_held_def intro!: spec_moves)

lemma bkeeps_waiting: "keeps bl_rel (mark_item_waiting_on_report_job e iid tok rj now)"
  unfolding mark_item_waiting_on_report_job_def
  by (intro bl.keeps_rules batch_keeps update_items_keeps) (auto simp: row_defs item_lease_held_def intro!: spec_moves)

lemma bkeeps_succeeded: "keeps bl_rel (mark_item_succeeded e iid rj now)"
  unfolding mark_item_succeeded_def Let_def
  by (intro bl.keeps_rules batch_keeps update_returning_keeps) (auto simp: row_defs succeed_item_def intro!: spec_moves)

lemma bkeeps_retry: "keeps bl_rel (retry_failed_items e bid policy now)"
  unfolding retry_failed_items_def Let_def
  by (intro bl.keeps_rules batch_keeps update_items_keeps) (auto simp: row_defs retry_item_def retry_ready_def intro!: spec_moves)

lemma bkeeps_pause: "keeps bl_rel (pause_batch e bid now)"
  unfolding pause_batch_def
  by (intro bl.keeps_rules batch_keeps update_batches_bl) (auto simp: row_defs)

lemma bkeeps_resume: "keeps bl_rel (resume_batch e bid now)"
  unfolding resume_batch_def
  by (intro bl.keeps_rules batch_keeps update_batches_bl) (auto simp: row_defs)

lemma bkeeps_cancel: "keeps bl_rel (cancel_batch e bid now)"
  unfolding cancel_batch_def Let_def
  by (intro bl.keeps_rules batch_keeps update_batches_bl update_items_keeps)
     (auto simp: row_defs cancel_item_def cancellable_item_def intro!: spec_moves)

lemma bkeeps_recover_leases: "keeps bl_rel (recover_expired_leases e bid now)"
  unfolding recover_expired_leases_def Let_def
  by (intro bl.keeps_rules batch_keeps update_returning_keeps) (auto simp: row_defs recover_item_def intro!: spec_moves)

lemma find_item_iff:
  assumes "batch_inv s"
  shows "find_item iid s = Some i \<longleftrightarrow> i \<in> set (batch_items s) \<and> i_id i = iid"
  unfolding find_item_def by (rule keyed_fetch_iff [OF batch_inv_distinct(3) [OF assms]])

lemma find_batch_iff:
  assumes "batch_inv s"
  shows "find_batch bid s = Some b \<longleftrightarrow> b \<in> set (batches s) \<and> b_id b = bid"
  unfolding find_batch_def by (rule keyed_fetch_iff [OF batch_inv_distinct(1) [OF assms]])

lemma bkeeps_failed: "keeps bl_rel (mark_item_failed e iid cat sm retryable policy next now)"
proof (rule keepsI)
  fix s out s'
  assume run: "mark_item_failed e iid cat sm retryable policy next now s = Inr (out, s')"
  show "bl_rel s s'"
  proof (cases "batch_inv s")
    case inv: True
    obtain i where i: "find_item iid s = Some i"
      using run by (cases "find_item iid s") (auto simp: mark_item_failed_def Let_def tx_bind_eq)
    let ?o = "batch_item_failure_outcome retryable (i_attempt_count i + 1)
        (case policy of None \<Rightarrow> default_batch_max_attempts | Some m \<Rightarrow> m)"
    let ?f = "fail_item (fst ?o) (i_attempt_count i + 1) (snd ?o) next cat sm (dt_to_text (given_or_now e now))"
    let ?s1 = "s\<lparr>batch_items := update_where (\<lambda>x. i_id x = iid) ?f (batch_items s)\<rparr>"
    have "settle_returned (map ?f (filter (\<lambda>x. i_id x = iid) (batch_items s))) item_not_found (given_or_now e now) ?s1
        = Inr (out, s')"
      using run i by (simp add: mark_item_failed_def Let_def tx_bind_def tx_get_def update_items_returning_def)
    then have "bl_rel ?s1 s'" by (rule keepsD [OF bkeeps_settle])
    moreover have "bl_rel s ?s1"
    proof (rule update_items_bl)
      fix x assume x: "x \<in> set (batch_items s)" "i_id x = iid" and ok: "item_ok x"
      then have "x = i" using find_item_iff [OF inv] i by (metis option.inject)
      then show "good_item ?f x" using ok
        by (auto simp: row_defs fail_item_def batch_item_failure_outcome_def Let_def intro!: spec_moves)
    qed
    ultimately show ?thesis by (rule bl.R_trans [rotated])
  qed (simp add: bl_rel_def)
qed

lemma bkeeps_relink: "keeps bl_rel (relink_failed_item_for_replay e bid iid rj policy now)"
proof -
  have "keeps bl_rel (case rows of [] \<Rightarrow> tx_raise er | u # us \<Rightarrow> tx_bind (refresh_batch_status bid t) (\<lambda>_. tx_return u))"
    for rows :: "item_row list" and er t
    by (cases rows) (auto intro!: bl.keeps_rules batch_keeps)
  then show ?thesis
    unfolding relink_failed_item_for_replay_def Let_def
    by (intro bl.keeps_rules batch_keeps update_returning_keeps) (auto simp: row_defs relink_item_def intro!: spec_moves)
qed

section \<open>Creation\<close>

lemma enumerate_map: "enumerate n (map f xs) = map (\<lambda>p. (fst p, f (snd p))) (enumerate n xs)"
  by (induction xs arbitrary: n) simp_all

lemma insert_items_effect:
  assumes "tx_foreach xs () (\<lambda>p _. insert_item (g p)) s = Inr (u, s')"
  shows "batch_items s' = batch_items s @ map g xs \<and> batches s' = batches s
    \<and> (distinct (map i_id (batch_items s)) \<and> distinct (map i_key (batch_items s))
        \<longrightarrow> distinct (map i_id (batch_items s')) \<and> distinct (map i_key (batch_items s')))"
  using assms
proof (induction xs arbitrary: s)
  case (Cons x xs)
  then obtain s1 where one: "insert_item (g x) s = Inr ((), s1)"
    and rest: "tx_foreach xs () (\<lambda>p _. insert_item (g p)) s1 = Inr (u, s')" by (auto elim: tx_bindE)
  have s1: "batch_items s1 = batch_items s @ [g x]" "batches s1 = batches s"
    "i_id (g x) \<notin> i_id ` set (batch_items s)" "i_key (g x) \<notin> i_key ` set (batch_items s)"
    using one by (auto simp: insert_item_def split: if_splits)
  then have "distinct (map i_id (batch_items s)) \<and> distinct (map i_key (batch_items s))
      \<longrightarrow> distinct (map i_id (batch_items s1)) \<and> distinct (map i_key (batch_items s1))" by simp
  moreover have "batch_items s' = batch_items s @ map g (x # xs)" "batches s' = batches s"
    using Cons.IH [OF rest] s1(1,2) by simp_all
  ultimately show ?case using Cons.IH [OF rest] by blast
qed simp

text \<open>The rows of a batch just created.\<close>

lemma new_rows_shape:
  assumes "ms \<noteq> []" "distinct (map mp_portfolio_id ms)" "bid \<notin> i_batch_id ` set old"
  shows "batch_shape (old @ map (new_item_row e bid key as_of now) (enumerate 1 ms))
      (new_batch_row q caller ms now bid key hash\<lparr>b_as_of_date := as_of\<rparr>)"
proof -
  let ?g = "new_item_row e bid key as_of now"
  have "filter (\<lambda>i. i_batch_id i = bid) old = []" using assms(3) by (auto simp: filter_empty_conv)
  moreover have "filter (\<lambda>i. i_batch_id i = bid) (map ?g (enumerate 1 ms)) = map ?g (enumerate 1 ms)"
    by (auto simp: filter_id_conv new_item_row_def)
  ultimately have own: "filter (\<lambda>i. i_batch_id i = bid) (old @ map ?g (enumerate 1 ms)) = map ?g (enumerate 1 ms)"
    by simp
  have "map i_portfolio_id (map ?g (enumerate 1 ms)) = map mp_portfolio_id (map snd (enumerate 1 ms))"
    and "map i_position (map ?g (enumerate 1 ms)) = map int (map fst (enumerate 1 ms))"
    by (simp_all only: map_map comp_def new_item_row_def item_row.simps)
  moreover have "map snd (enumerate 1 ms) = ms" "map fst (enumerate 1 ms) = [1..<Suc (length ms)]"
    by (simp_all del: upt_Suc)
  ultimately have cols: "map i_portfolio_id (map ?g (enumerate 1 ms)) = map mp_portfolio_id ms"
    "map i_position (map ?g (enumerate 1 ms)) = map int [1..<Suc (length ms)]" by metis+
  have keys: "map i_key (map ?g (enumerate 1 ms))
      = map (\<lambda>p. item_idempotency_key key as_of (fst p) (snd p)) (enumerate 1 (map mp_portfolio_id ms))"
    by (simp add: enumerate_map new_item_row_def comp_def)
  have fields: "b_id (new_batch_row q caller ms now bid key hash\<lparr>b_as_of_date := as_of\<rparr>) = bid"
    by (simp add: new_batch_row_def)
  show ?thesis
    unfolding batch_shape_def Let_def fields own cols keys using assms(1,2)
    by (simp add: new_batch_row_def del: upt_Suc map_map)
qed

lemma insert_new_batch_run:
  assumes "insert_new_batch e q caller key ms hash s = Inr (out, s')"
  obtains s1 where
    "insert_batch (new_batch_row q caller ms (dt_to_text (utc_now e 0)) (''rbch_'' @ uuid4_hex e 1) key hash) s = Inr ((), s1)"
    "tx_foreach (enumerate 1 ms) () (\<lambda>p _. insert_item (new_item_row (sub_env 2 e) (''rbch_'' @ uuid4_hex e 1) key
       (bq_as_of_date q) (dt_to_text (utc_now e 0)) p)) s1 = Inr ((), s')"
    "load_batch (''rbch_'' @ uuid4_hex e 1) s' = Inr (out, s')"
proof -
  obtain s1 s2 where steps:
    "insert_batch (new_batch_row q caller ms (dt_to_text (utc_now e 0)) (''rbch_'' @ uuid4_hex e 1) key hash) s = Inr ((), s1)"
    "tx_foreach (enumerate 1 ms) () (\<lambda>p _. insert_item (new_item_row (sub_env 2 e) (''rbch_'' @ uuid4_hex e 1) key
       (bq_as_of_date q) (dt_to_text (utc_now e 0)) p)) s1 = Inr ((), s2)"
    "load_batch (''rbch_'' @ uuid4_hex e 1) s2 = Inr (out, s')"
    using assms unfolding insert_new_batch_def Let_def by (auto elim!: tx_bindE)
  moreover have "s' = s2" using steps(3) by (auto simp: load_batch_def tx_bind_eq split: option.splits)
  ultimately show thesis using that by blast
qed

lemma insert_new_batch_inv:
  assumes inv: "batch_inv s" and ms: "ms \<noteq> []" "distinct (map mp_portfolio_id ms)"
    and run: "insert_new_batch e q caller key ms hash s = Inr (out, s')"
  shows "batch_inv s'"
proof -
  let ?now = "dt_to_text (utc_now e 0)" and ?bid = "''rbch_'' @ uuid4_hex e 1"
  let ?b = "new_batch_row q caller ms ?now ?bid key hash"
  let ?g = "new_item_row (sub_env 2 e) ?bid key (bq_as_of_date q) ?now"
  obtain s1 where ins: "insert_batch ?b s = Inr ((), s1)"
    and loop: "tx_foreach (enumerate 1 ms) () (\<lambda>p _. insert_item (?g p)) s1 = Inr ((), s')"
    using insert_new_batch_run [OF run] .
  have b: "batches s1 = batches s @ [?b]" "batch_items s1 = batch_items s" "b_id ?b \<notin> b_id ` set (batches s)"
    "b_idempotency_key ?b \<notin> b_idempotency_key ` set (batches s)" "b_id ?b = ?bid"
    using ins by (auto simp: insert_batch_def new_batch_row_def split: if_splits)
  note eff = insert_items_effect [OF loop]
  have st: "struct_ok (batches s) (batch_items s)" using inv by (simp add: batch_inv_def)
  then have old: "set (map i_batch_id (batch_items s)) \<subseteq> set (map b_id (batches s))" by (simp add: struct_ok_def)
  then have nb: "?bid \<notin> i_batch_id ` set (batch_items s)" using b(3) unfolding b(5) by auto
  have new: "batch_shape (batch_items s') ?b"
    using new_rows_shape [OF ms nb, of "sub_env 2 e" key "bq_as_of_date q" ?now q caller hash] eff b(2)
    by (simp add: new_batch_row_def)
  have "batch_shape (batch_items s') x" if x: "x \<in> set (batches s)" for x
  proof -
    have "b_id x \<noteq> ?bid" using x b(3) unfolding b(5) by (metis imageI)
    then have "filter (\<lambda>i. i_batch_id i = b_id x) (batch_items s') = filter (\<lambda>i. i_batch_id i = b_id x) (batch_items s)"
      using eff b(2) by (auto simp: filter_empty_conv new_item_row_def)
    moreover have "batch_shape (batch_items s) x" using st x by (simp add: struct_ok_def list_all_iff)
    ultimately show ?thesis by (simp add: batch_shape_def)
  qed
  then have "list_all (batch_shape (batch_items s')) (batches s')" using new eff b(1) by (simp add: list_all_iff)
  moreover have "set (map i_batch_id (batch_items s')) \<subseteq> set (map b_id (batches s'))"
  proof -
    have "i_batch_id (?g p) = b_id ?b" for p by (simp add: new_item_row_def new_batch_row_def)
    then show ?thesis using old eff b(1,2) by auto
  qed
  moreover have "distinct (map b_id (batches s'))" "distinct (map b_idempotency_key (batches s'))"
    using batch_inv_distinct [OF inv] eff b(1,3,4) by simp_all
  moreover have "distinct (map i_id (batch_items s'))" "distinct (map i_key (batch_items s'))"
    using batch_inv_distinct(3,4) [OF inv] eff unfolding b(2) by blast+
  ultimately have "struct_ok (batches s') (batch_items s')" by (simp only: struct_ok_def simp_thms)
  moreover have "item_ok (?g p) \<and> item_born (?g p)" for p
    by (simp add: item_ok_def item_born_def item_view_def new_item_row_def)
  ultimately show ?thesis
    using inv eff b(2) by (auto simp: batch_inv_def list_all_iff)
qed

lemma create_batch_cases:
  assumes "create_batch e q caller key s = Inr (out, s')"
  obtains (existing) ms b where "key \<noteq> None" "materialize_portfolios q caller = Inr ms"
      "fetch (\<lambda>b. b_idempotency_key b = py_strip (the key)) (batches s) = Some b"
      "b_request_hash b = compute_batch_request_hash e q caller ms" "load_batch (b_id b) s = Inr (out, s')" "s' = s"
  | (fresh) ms where "key \<noteq> None" "materialize_portfolios q caller = Inr ms"
      "fetch (\<lambda>b. b_idempotency_key b = py_strip (the key)) (batches s) = None"
      "insert_new_batch e q caller (py_strip (the key)) ms (compute_batch_request_hash e q caller ms) s = Inr (out, s')"
proof -
  have k: "\<not> py_blank key" using assms by (auto simp: create_batch_def)
  then have kn: "key \<noteq> None" by (cases key) (auto simp: py_blank_def)
  obtain ms where ms: "materialize_portfolios q caller = Inr ms"
    using assms k by (auto simp: create_batch_def Let_def tx_bind_eq)
  have load: "load_batch bid s = Inr (out, s') \<Longrightarrow> s' = s" for bid
    by (auto simp: load_batch_def tx_bind_eq split: option.splits)
  show thesis
  proof (cases "fetch (\<lambda>b. b_idempotency_key b = py_strip (the key)) (batches s)")
    case None
    then have "create_batch e q caller key s
        = insert_new_batch e q caller (py_strip (the key)) ms (compute_batch_request_hash e q caller ms) s"
      using k ms by (simp add: create_batch_def Let_def tx_run del: fetch_None)
    then show thesis using fresh [OF kn ms None] assms by simp
  next
    case (Some b)
    then show thesis using existing [OF kn ms Some] assms k ms load [of "b_id b"]
      by (auto simp: create_batch_def Let_def tx_bind_eq)
  qed
qed

lemma materialized_nonempty:
  assumes "materialize_portfolios q caller = Inr ms"
  shows "ms \<noteq> []" "distinct (map mp_portfolio_id ms)"
proof -
  obtain cs where cs: "map pc_portfolio_id cs = wanted_ids q" "wanted_ids q \<noteq> []" "distinct (wanted_ids q)"
    "ms = map materialized_from cs"
    using assms unfolding materialize_portfolios_Inr by blast
  have "map mp_portfolio_id ms = wanted_ids q"
    using cs(1) by (simp add: cs(4) materialized_from_def comp_def)
  then show "ms \<noteq> []" "distinct (map mp_portfolio_id ms)" using cs(2,3) by auto
qed

lemma bkeeps_create: "keeps bl_rel (create_batch e q caller key)"
proof (rule keepsI)
  fix s out s' assume run: "create_batch e q caller key s = Inr (out, s')"
  from run show "bl_rel s s'"
  proof (cases rule: create_batch_cases)
    case (existing ms b)
    then show ?thesis by (simp add: bl.R_refl)
  next
    case (fresh ms)
    have "keeps batch_rel (load_batch bid)" for bid unfolding load_batch_def by (intro bhist.keeps_rules)
    then have "keeps batch_rel (insert_new_batch e q caller (py_strip (the key)) ms (compute_batch_request_hash e q caller ms))"
      unfolding insert_new_batch_def Let_def by (intro bhist.keeps_rules keeps_insert_batch keeps_insert_item)
    from keepsD [OF this fresh(4)] insert_new_batch_inv [OF _ materialized_nonempty [OF fresh(2)] fresh(4)]
    show ?thesis by (simp add: bl_rel_def)
  qed
qed

end
