(* ===== verification/Batch_Runs.thy ===== *)
theory Batch_Runs
  imports Batch_Laws
begin

text \<open>
  Runs of the batch ledger: any interleaving of committed operations of \<open>ReportBatchLedger\<close>, one rule
  per operation that changes state, with arbitrary arguments, clocks and identifiers. What holds in
  every ledger so reached: consistency, idempotent creation, exclusive leases, final statuses, the
  abstract life of an item, and a fair selection of the batches to work on.
\<close>

inductive batch_step :: "batch_ledger \<Rightarrow> batch_ledger \<Rightarrow> bool" where
  batch_create: "create_batch e q caller key s = Inr (r, s') \<Longrightarrow> batch_step s s'"
| batch_acquire: "acquire_dispatch_items e bid wk n limit now s = Inr (rows, s') \<Longrightarrow> batch_step s s'"
| batch_heartbeat: "heartbeat_item_lease e iid tok n now s = Inr (i, s') \<Longrightarrow> batch_step s s'"
| batch_waiting: "mark_item_waiting_on_report_job e iid tok rj now s = Inr (i, s') \<Longrightarrow> batch_step s s'"
| batch_succeeded: "mark_item_succeeded e iid rj now s = Inr (i, s') \<Longrightarrow> batch_step s s'"
| batch_item_failed: "mark_item_failed e iid cat sm retryable policy next now s = Inr (i, s') \<Longrightarrow> batch_step s s'"
| batch_retry: "retry_failed_items e bid policy now s = Inr (c, s') \<Longrightarrow> batch_step s s'"
| batch_pause: "pause_batch e bid now s = Inr (c, s') \<Longrightarrow> batch_step s s'"
| batch_resume: "resume_batch e bid now s = Inr (c, s') \<Longrightarrow> batch_step s s'"
| batch_cancel: "cancel_batch e bid now s = Inr (c, s') \<Longrightarrow> batch_step s s'"
| batch_recover: "recover_expired_leases e bid now s = Inr (rc, s') \<Longrightarrow> batch_step s s'"
| batch_relink: "relink_failed_item_for_replay e bid iid rj policy now s = Inr (i, s') \<Longrightarrow> batch_step s s'"

abbreviation batch_run :: "batch_ledger \<Rightarrow> batch_ledger \<Rightarrow> bool" where
  "batch_run \<equiv> batch_step\<^sup>*\<^sup>*"

lemmas batch_ops = bkeeps_create bkeeps_acquire bkeeps_heartbeat bkeeps_waiting bkeeps_succeeded bkeeps_failed
  bkeeps_retry bkeeps_pause bkeeps_resume bkeeps_cancel bkeeps_recover_leases bkeeps_relink

lemma batch_step_rel: "batch_step s s' \<Longrightarrow> bl_rel s s'"
  by (induction rule: batch_step.induct) (erule keepsD [rotated], rule batch_ops)+

lemma batch_run_rel: "batch_run s s' \<Longrightarrow> bl_rel s s'"
  by (induction rule: rtranclp_induct) (auto intro: bl.R_refl bl.R_trans batch_step_rel)

lemma batch_run_inv: "batch_run s s' \<Longrightarrow> batch_inv s \<Longrightarrow> batch_inv s' \<and> batch_rel s s'"
  using batch_run_rel by (simp add: bl_rel_def)

definition empty_batches :: batch_ledger where
  "empty_batches = \<lparr>batches = [], batch_items = []\<rparr>"

lemma empty_batches_inv: "batch_inv empty_batches"
  by (simp add: empty_batches_def batch_inv_def struct_ok_def)

text \<open>What a run does to one batch and to one item.\<close>

lemma batch_later:
  assumes "batch_run s s'" "batch_inv s" "b \<in> set (batches s)"
  obtains b' where "b' \<in> set (batches s')" "b_id b' = b_id b" "batch_evolves b b'"
proof -
  have "grows batch_evolves (batches s) (batches s')" using batch_run_inv [OF assms(1,2)] by (simp add: batch_rel_def)
  then obtain b' where "b' \<in> set (batches s')" "batch_evolves b b'" using batch_rows.grows_row assms(3) by blast
  then show thesis using that by (metis batch_evolves_def core_fields(1))
qed

lemma item_later:
  assumes "batch_run s s'" "batch_inv s" "i \<in> set (batch_items s)"
  obtains i' where "i' \<in> set (batch_items s')" "i_id i' = i_id i" "item_evolves i i'"
proof -
  have "grows item_evolves (batch_items s) (batch_items s')"
    using batch_run_inv [OF assms(1,2)] by (simp add: batch_rel_def)
  then obtain i' where "i' \<in> set (batch_items s')" "item_evolves i i'" using item_rows.grows_row assms(3) by blast
  then show thesis using that by (metis item_evolves_def core_fields(8))
qed

section \<open>Samples\<close>

definition sample_batch_row :: batch_row where
  "sample_batch_row = new_batch_row sample_batch_request sample_batch_caller
     [materialized_from (sample_candidate ''p2''), materialized_from (sample_candidate ''p1'')]
     (Zulu 5000000) ''rbch_b'' ''k'' (replicate 64 CHR ''a'')"

definition sample_item_row :: "string \<Rightarrow> nat \<Rightarrow> string \<Rightarrow> item_row" where
  "sample_item_row iid n p = (new_item_row sample_env ''rbch_b'' ''k'' (bq_as_of_date sample_batch_request) (Zulu 5000000)
     (n, materialized_from (sample_candidate p)))\<lparr>i_id := iid\<rparr>"

definition sample_batches :: batch_ledger where
  "sample_batches = \<lparr>batches = [sample_batch_row],
     batch_items = [sample_item_row ''rbit_cb'' 1 ''p2'', sample_item_row ''rbit_cc'' 2 ''p1'']\<rparr>"

lemmas batch_samples = sample_batches_def sample_batch_row_def sample_item_row_def new_batch_row_def new_item_row_def
  sample_batch_request_def sample_batch_caller_def sample_candidate_def materialized_from_def

lemma sample_batch_created:
  "create_batch sample_env sample_batch_request sample_batch_caller (Some '' k '') empty_batches
     = Inr (\<lparr>br_batch = sample_batch_row, br_items = batch_items sample_batches\<rparr>, sample_batches)"
  by code_simp

lemma sample_batch_run: "batch_run empty_batches sample_batches"
  using batch_create [OF sample_batch_created] by blast

lemma sample_batches_inv: "batch_inv sample_batches"
  using batch_run_inv [OF sample_batch_run empty_batches_inv] by simp

section \<open>Consistency and the abstract life of an item\<close>

text \<open>
  (C18) In every batch ledger reached from the empty one: batch identifiers, batch keys, item identifiers
  and item keys are unique, every item belongs to a stored batch, every batch has exactly one item per
  materialized portfolio, in order, numbered from one and keyed by batch key, date, number and portfolio;
  an item is leased only with owner, token and expiry and without a report job, waits or has succeeded
  only with one, and is retryable or exhausted only after a counted failure.
\<close>

theorem reachable_batches_consistent:
  assumes "batch_run empty_batches s"
  shows "batch_inv s"
  using batch_run_inv [OF assms empty_batches_inv] by simp

theorem reachable_batches_consistent_witness:
  "batch_inv sample_batches \<and> batch_items sample_batches \<noteq> []"
  using reachable_batches_consistent [OF sample_batch_run] by (simp add: sample_batches_def)

lemma spec_keeps_job:
  assumes "item_spec\<^sup>*\<^sup>* v w" "fst (snd v) \<noteq> None" "fst v \<notin> {Awaiting, Held, Withdrawn}"
  shows "fst (snd w) \<noteq> None \<and> fst w \<notin> {Awaiting, Held, Withdrawn}"
  using assms by (induction rule: rtranclp_induct) (auto elim: item_spec.cases)

lemma item_ok_linked: "item_ok i \<Longrightarrow> i_report_job_id i \<noteq> None \<Longrightarrow> fst (item_view i) \<notin> {Awaiting, Held, Withdrawn}"
  by (cases "i_status i") (auto simp: item_ok_def item_view_def)

lemma linked_stays:
  assumes "batch_run s s'" "batch_inv s" "i \<in> set (batch_items s)" "i_report_job_id i \<noteq> None"
    "i' \<in> set (batch_items s')" "i_id i' = i_id i"
  shows "i_report_job_id i' \<noteq> None"
proof -
  obtain k where k: "k \<in> set (batch_items s')" "i_id k = i_id i" "item_evolves i k"
    using item_later [OF assms(1-3)] by blast
  have "batch_inv s'" using batch_run_inv assms(1,2) by blast
  then have "k = i'" using find_item_iff k(1,2) assms(5,6) by (metis option.inject)
  moreover have "item_ok i" using assms(2,3) by (simp add: batch_inv_def list_all_iff)
  ultimately show ?thesis
    using spec_keeps_job [of "item_view i" "item_view k"] item_ok_linked [of i] assms(4) k(3)
    by (simp add: item_evolves_def item_view_def)
qed

text \<open>
  (C19) The ledger implements the abstract life of an item: in any ledger reached from the empty one
  an item's view is one the abstract machine reaches from a fresh item, and whatever operations follow,
  the item is still there with its identity and its view has moved by moves of the machine only. So an
  item that has a report job is never leased, reopened or withdrawn again, and failures are never
  uncounted.
\<close>

theorem batch_items_refine_spec:
  assumes "batch_run empty_batches s" "batch_run s s'" "i \<in> set (batch_items s)"
  shows "item_spec\<^sup>*\<^sup>* (Awaiting, None, 0) (item_view i)
    \<and> (\<exists>i' \<in> set (batch_items s'). item_core i' = item_core i \<and> item_spec\<^sup>*\<^sup>* (item_view i) (item_view i'))"
proof -
  have inv: "batch_inv s" using batch_run_inv [OF assms(1) empty_batches_inv] by simp
  then have "item_born i" using assms(3) by (simp add: batch_inv_def list_all_iff)
  then show ?thesis
    using item_later [OF assms(2) inv assms(3)] unfolding item_born_def item_evolves_def by metis
qed

text \<open>The first item leased to a worker.\<close>

definition sample_leased_item :: item_row where
  "sample_leased_item = lease_item ''w1'' ''lease_b'' (Zulu 5000000) (Zulu 65000000) (sample_item_row ''rbit_cb'' 1 ''p2'')"

definition sample_leased :: batch_ledger where
  "sample_leased = \<lparr>batches = [start_batch (Zulu 5000000) sample_batch_row],
     batch_items = [sample_leased_item, sample_item_row ''rbit_cc'' 2 ''p1'']\<rparr>"

lemma sample_acquire:
  "acquire_dispatch_items sample_env ''rbch_b'' ''w1'' 60 1 None sample_batches = Inr ([sample_leased_item], sample_leased)"
  by code_simp

lemma sample_leased_run: "batch_run sample_batches sample_leased"
  using batch_acquire [OF sample_acquire] by blast

lemma sample_leased_inv: "batch_inv sample_leased"
  using batch_run_inv [OF sample_leased_run sample_batches_inv] by simp

lemma sample_leased_ids: "i_id sample_leased_item = ''rbit_cb''" "i_lease_owner sample_leased_item = Some ''w1''"
  by (simp_all add: sample_leased_item_def lease_item_def sample_item_row_def)

theorem batch_items_refine_spec_witness:
  "item_spec\<^sup>*\<^sup>* (Awaiting, None, 0) (item_view (sample_item_row ''rbit_cb'' 1 ''p2''))
    \<and> (\<exists>i' \<in> set (batch_items sample_leased). item_core i' = item_core (sample_item_row ''rbit_cb'' 1 ''p2'')
        \<and> item_spec\<^sup>*\<^sup>* (item_view (sample_item_row ''rbit_cb'' 1 ''p2'')) (item_view i'))"
  by (rule batch_items_refine_spec [OF sample_batch_run sample_leased_run]) (simp add: sample_batches_def)

section \<open>Leases\<close>

lemma sort_key_map_fixed:
  assumes "\<And>x. k (f x) = k x"
  shows "sort_key k (map f xs) = map f (sort_key k xs)"
proof -
  have "insort_key k (f x) (map f ys) = map f (insort_key k x ys)" for x ys
    using assms by (induction ys) simp_all
  then show ?thesis by (induction xs) simp_all
qed

lemma filter_taken: "distinct ys \<Longrightarrow> filter (\<lambda>x. x \<in> set (take k ys)) ys = take k ys"
proof -
  assume d: "distinct ys"
  have "filter (\<lambda>x. x \<in> set (take k ys)) (take k ys @ drop k ys) = take k ys"
    using set_take_disj_set_drop_if_distinct [OF d, of k k] by (auto simp: filter_empty_conv simp del: append_take_drop_id)
  then show ?thesis by simp
qed

text \<open>Reading back, in order, rows selected in order.\<close>

lemma taken_in_order:
  assumes "distinct xs" "ys = take k (sort_key g (filter P xs))"
  shows "sort_key g (filter (\<lambda>x. x \<in> set ys) xs) = ys"
proof -
  have "x \<in> set ys \<Longrightarrow> P x" for x using in_set_takeD [of x k "sort_key g (filter P xs)"] assms(2) by simp
  then have "filter (\<lambda>x. x \<in> set ys) xs = filter (\<lambda>x. x \<in> set ys) (filter P xs)"
    unfolding filter_filter by (intro filter_cong) blast+
  then have "sort_key g (filter (\<lambda>x. x \<in> set ys) xs) = filter (\<lambda>x. x \<in> set ys) (sort_key g (filter P xs))"
    by (simp add: filter_sort)
  then show ?thesis using filter_taken [of "sort_key g (filter P xs)" k] assms by simp
qed

lemma filter_update_where:
  assumes "\<And>x. x \<in> set xs \<Longrightarrow> P x \<longleftrightarrow> T x" "\<And>x. P (f x) \<longleftrightarrow> P x"
  shows "filter P (update_where T f xs) = map f (filter T xs)"
  using assms by (induction xs) auto

text \<open>An acquisition: the rows taken and the ledger after it.\<close>

lemma acquire_effect:
  assumes inv: "batch_inv s" and run: "acquire_dispatch_items e bid wk n limit now s = Inr (rows, s')"
  defines "t \<equiv> given_or_now e now"
  defines "taken \<equiv> dispatch_rows bid (dt_to_text t) limit s"
  defines "f \<equiv> lease_item wk (''lease_'' @ uuid4_hex e 1) (dt_to_text t) (dt_to_text (t + seconds n))"
  shows "batch_items s' = update_where (\<lambda>i. i \<in> set taken) f (batch_items s)" "rows = map f taken"
proof -
  have sub: "set taken \<subseteq> set (batch_items s)" using set_dispatch_rows unfolding taken_def by fast
  have same: "i \<in> set (batch_items s) \<Longrightarrow> i_id i \<in> i_id ` set taken \<longleftrightarrow> i \<in> set taken" for i
    using keyed_member [OF batch_inv_distinct(3) [OF inv] _ sub] .
  then have upd: "update_where (\<lambda>i. i_id i \<in> i_id ` set taken) f (batch_items s)
      = update_where (\<lambda>i. i \<in> set taken) f (batch_items s)" by (simp add: update_where_def)
  have fid: "i_id (f i) = i_id i" "i_position (f i) = i_position i" for i by (simp_all add: f_def lease_item_def)
  have items: "batch_items s' = update_where (\<lambda>i. i \<in> set taken) f (batch_items s)
      \<and> rows = sort_key i_position (filter (\<lambda>i. i_id i \<in> i_id ` set taken) (batch_items s'))"
  proof (cases "1 \<le> limit \<and> taken \<noteq> []")
    case True
    then show ?thesis using run upd
      by (auto simp: acquire_dispatch_items_def Let_def tx_bind_eq update_items_def update_batches_def
          taken_def t_def f_def)
  next
    case False
    then have "taken = []" by (auto simp: taken_def dispatch_rows_def)
    then show ?thesis using False run
      by (auto simp: acquire_dispatch_items_def Let_def tx_bind_eq taken_def t_def update_where_def split: if_splits)
  qed
  then show "batch_items s' = update_where (\<lambda>i. i \<in> set taken) f (batch_items s)" by simp
  have "filter (\<lambda>i. i_id i \<in> i_id ` set taken) (batch_items s') = map f (filter (\<lambda>i. i \<in> set taken) (batch_items s))"
    unfolding items [THEN conjunct1] by (rule filter_update_where) (simp_all add: same fid)
  moreover have "sort_key i_position (filter (\<lambda>i. i \<in> set taken) (batch_items s)) = taken"
    using batch_inv_distinct(3) [OF inv]
    by (intro taken_in_order) (simp add: distinct_map, simp add: taken_def dispatch_rows_def)
  ultimately show "rows = map f taken" using items sort_key_map_fixed [of i_position f] fid by simp
qed

text \<open>An item an acquisition may lease: free, without a report job, of a batch that may run.\<close>

definition may_lease :: "string \<Rightarrow> stamp \<Rightarrow> batch_ledger \<Rightarrow> item_row \<Rightarrow> bool" where
  "may_lease bid t s i \<longleftrightarrow> i_batch_id i = bid \<and> dispatch_ready t i
     \<and> (\<exists>b \<in> set (batches s). b_id b = bid \<and> batch_runnable b)"

lemma dispatch_rows_may_lease:
  "dispatch_rows bid t limit s = take (nat limit) (sort_key i_position (filter (may_lease bid t s) (batch_items s)))"
  unfolding dispatch_rows_def may_lease_def
  by (intro arg_cong [of _ _ "\<lambda>xs. take (nat limit) (sort_key i_position xs)"] filter_cong) auto

lemma taken_first:
  fixes g :: "'r \<Rightarrow> int"
  assumes "x \<in> set xs" "P x" "x \<notin> set (take k (sort_key g (filter P xs)))"
  shows "length (take k (sort_key g (filter P xs))) = k \<and> (\<forall>y \<in> set (take k (sort_key g (filter P xs))). g y \<le> g x)"
proof -
  let ?all = "sort_key g (filter P xs)"
  have "x \<in> set (take k ?all @ drop k ?all)" using assms(1,2) by simp
  then have late: "x \<in> set (drop k ?all)" using assms(3) by (simp del: append_take_drop_id)
  then have "k < length ?all" by (cases "k < length ?all") auto
  moreover have "sorted (map g (take k ?all @ drop k ?all))" by simp
  ultimately show ?thesis using late unfolding map_append sorted_append by auto
qed

text \<open>
  Leasing the items of a batch: the rows handed out are at most \<open>limit\<close> items of that batch, in
  order of position, each of them free (fresh, recovered, due for retry, or leased with the lease
  expired) and without a report job, in a batch that may run; each is now leased to the worker under
  the one new token until the expiry asked for. Every other item is untouched, and a free item is
  passed over only when the limit is used up by items no later than it.
\<close>

theorem acquire_leases_free_items:
  assumes "batch_inv s" "acquire_dispatch_items e bid wk n limit now s = Inr (rows, s')"
  shows "length rows \<le> nat limit \<and> sorted (map i_position rows)
    \<and> (\<forall>r \<in> set rows. r \<in> set (batch_items s') \<and> i_batch_id r = bid \<and> i_status r = Item_leased
          \<and> i_lease_owner r = Some wk \<and> i_lease_token r = Some (''lease_'' @ uuid4_hex e 1)
          \<and> i_lease_expires_at r = Some (dt_to_text (given_or_now e now + seconds n)) \<and> i_report_job_id r = None)
    \<and> (\<forall>i \<in> set (batch_items s).
          if i_id i \<in> i_id ` set rows then may_lease bid (dt_to_text (given_or_now e now)) s i
          else i \<in> set (batch_items s')
            \<and> (may_lease bid (dt_to_text (given_or_now e now)) s i
               \<longrightarrow> length rows = nat limit \<and> (\<forall>r \<in> set rows. i_position r \<le> i_position i)))"
proof -
  define t where "t = dt_to_text (given_or_now e now)"
  define f where "f = lease_item wk (''lease_'' @ uuid4_hex e 1) t (dt_to_text (given_or_now e now + seconds n))"
  define taken where "taken = take (nat limit) (sort_key i_position (filter (may_lease bid t s) (batch_items s)))"
  have eff: "batch_items s' = update_where (\<lambda>i. i \<in> set taken) f (batch_items s)" "rows = map f taken"
    using acquire_effect [OF assms] by (simp_all add: dispatch_rows_may_lease taken_def t_def f_def)
  have f: "i_id (f x) = i_id x" "i_position (f x) = i_position x" for x by (simp_all add: f_def lease_item_def)
  have mem: "i \<in> set (batch_items s)" "may_lease bid t s i" if "i \<in> set taken" for i
    using in_set_takeD [OF that [unfolded taken_def]] by auto
  then have "set taken \<subseteq> set (batch_items s)" by blast
  then have ids: "i_id i \<in> i_id ` set rows \<longleftrightarrow> i \<in> set taken" if "i \<in> set (batch_items s)" for i
    using keyed_member [OF batch_inv_distinct(3) [OF assms(1)] that] by (simp add: eff(2) image_image f)
  have "sorted (map i_position taken)" unfolding taken_def by (metis sorted_sort_key sorted_wrt_take take_map)
  then have "sorted (map i_position rows)" "length rows \<le> nat limit" "length rows = length taken"
    by (simp_all add: eff(2) f comp_def taken_def)
  moreover have "r \<in> set (batch_items s') \<and> i_batch_id r = bid \<and> i_status r = Item_leased
        \<and> i_lease_owner r = Some wk \<and> i_lease_token r = Some (''lease_'' @ uuid4_hex e 1)
        \<and> i_lease_expires_at r = Some (dt_to_text (given_or_now e now + seconds n)) \<and> i_report_job_id r = None"
    if r: "r \<in> set rows" for r
  proof -
    obtain x where x: "x \<in> set taken" "r = f x" using r eff(2) by auto
    have "r \<in> set (batch_items s')" using x mem(1) by (auto simp: eff(1) set_update_where)
    then show ?thesis using mem(2) [OF x(1)] by (simp add: x(2) f_def lease_item_def may_lease_def dispatch_ready_def)
  qed
  moreover have "if i_id i \<in> i_id ` set rows then may_lease bid t s i
      else i \<in> set (batch_items s') \<and> (may_lease bid t s i
        \<longrightarrow> length rows = nat limit \<and> (\<forall>r \<in> set rows. i_position r \<le> i_position i))"
    if i: "i \<in> set (batch_items s)" for i
  proof (cases "i \<in> set taken")
    case True
    then show ?thesis using ids [OF i] mem(2) by simp
  next
    case False
    then have "i \<in> set (batch_items s')" using i by (force simp: eff(1) set_update_where)
    then show ?thesis
      using False ids [OF i] taken_first [OF i, of "may_lease bid t s" "nat limit" i_position, folded taken_def]
      by (auto simp: eff(2) f)
  qed
  ultimately show ?thesis unfolding t_def by blast
qed

theorem acquire_leases_free_items_witness:
  "acquire_dispatch_items sample_env ''rbch_b'' ''w1'' 60 1 None sample_batches = Inr ([sample_leased_item], sample_leased)
    \<and> length [sample_leased_item] \<le> nat 1 \<and> i_lease_owner sample_leased_item = Some ''w1''
    \<and> i_report_job_id sample_leased_item = None"
  using acquire_leases_free_items [OF sample_batches_inv sample_acquire] sample_acquire by simp

lemma acquired_was_free:
  assumes "batch_inv s" "acquire_dispatch_items e bid wk n limit now s = Inr (rows, s')" "r \<in> set rows"
  obtains i where "i \<in> set (batch_items s)" "i_id i = i_id r" "may_lease bid (dt_to_text (given_or_now e now)) s i"
proof -
  obtain i where i: "i \<in> set (dispatch_rows bid (dt_to_text (given_or_now e now)) limit s)" "i_id r = i_id i"
    using assms(3) acquire_effect(2) [OF assms(1,2)] by (auto simp: lease_item_def)
  then show thesis using that [of i] in_set_takeD [OF i(1) [unfolded dispatch_rows_may_lease]] by simp
qed

text \<open>
  (C20) No double dispatch. In a reachable ledger, an item that has a report job is never handed out for
  dispatch again, in any later ledger and by any acquisition; and while a lease is unexpired by the
  stored text of the clock, the item it covers is not handed out to another worker.
\<close>

theorem item_dispatched_once:
  assumes "batch_inv s" "i \<in> set (batch_items s)" "batch_run s s1"
    and "acquire_dispatch_items e bid wk n limit now s1 = Inr (rows, s2)"
    and "i_report_job_id i \<noteq> None
      \<or> s1 = s \<and> i_status i = Item_leased
          \<and> stamp_le (dt_to_text (given_or_now e now)) (the (i_lease_expires_at i))"
  shows "i_id i \<notin> i_id ` set rows"
proof
  assume "i_id i \<in> i_id ` set rows"
  then obtain r where r: "r \<in> set rows" "i_id r = i_id i" by auto
  have inv1: "batch_inv s1" using batch_run_inv assms(1,3) by blast
  obtain k where k: "k \<in> set (batch_items s1)" "i_id k = i_id i"
    "may_lease bid (dt_to_text (given_or_now e now)) s1 k"
    using acquired_was_free [OF inv1 assms(4) r(1)] r(2) by metis
  then have ready: "dispatch_ready (dt_to_text (given_or_now e now)) k" by (simp add: may_lease_def)
  from assms(5) show False
  proof
    assume "i_report_job_id i \<noteq> None"
    from linked_stays [OF assms(3,1,2) this k(1,2)] ready show False by (simp add: dispatch_ready_def)
  next
    assume held: "s1 = s \<and> i_status i = Item_leased
          \<and> stamp_le (dt_to_text (given_or_now e now)) (the (i_lease_expires_at i))"
    then have "k = i" using find_item_iff [OF inv1] k(1,2) assms(2) by (metis option.inject)
    moreover have "item_ok i" using assms(1,2) by (simp add: batch_inv_def list_all_iff)
    ultimately show False
      using ready held by (auto simp: dispatch_ready_def retry_ready_def stamp_before_def item_ok_def split: option.splits)
  qed
qed

theorem item_dispatched_once_witness:
  "\<exists>rows s2. acquire_dispatch_items sample_env ''rbch_b'' ''w2'' 60 5 None sample_leased = Inr (rows, s2)
     \<and> rows \<noteq> [] \<and> ''rbit_cb'' \<notin> i_id ` set rows"
proof -
  have ready: "dispatch_rows ''rbch_b'' (dt_to_text 5000000) 5 sample_leased = [sample_item_row ''rbit_cc'' 2 ''p1'']"
    by code_simp
  then obtain rows s2 where run: "acquire_dispatch_items sample_env ''rbch_b'' ''w2'' 60 5 None sample_leased = Inr (rows, s2)"
    by (auto simp: acquire_dispatch_items_def Let_def tx_bind_eq update_items_def update_batches_def given_or_now_def
        utc_now_def sample_env_def)
  have "rows \<noteq> []" using acquire_effect(2) [OF sample_leased_inv run] ready
    by (simp add: given_or_now_def utc_now_def sample_env_def)
  moreover have "i_id sample_leased_item \<notin> i_id ` set rows"
    by (rule item_dispatched_once [OF sample_leased_inv _ rtranclp.rtrancl_refl run])
       (simp_all add: sample_leased_def sample_leased_item_def lease_item_def given_or_now_def utc_now_def sample_env_def
          dt_to_text_def stamp_le_def text_key_def dt_second_def dt_micro_def)
  ultimately show ?thesis using run by (auto simp: sample_leased_ids)
qed

section \<open>Closed batches\<close>

lemma closed_not_runnable: "batch_closed b \<Longrightarrow> \<not> batch_runnable b"
  by (auto simp: batch_closed_def)

text \<open>
  A batch that is cancelled, completed, completed with failures or failed stays so, whatever follows,
  and a cancelled one stays cancelled: no later acquisition leases an item of it and no later selection
  lists it. This includes a failed batch whose items were reset for retry or relinked to a replay job.
\<close>

theorem closed_batch_final:
  assumes "batch_inv s" "b \<in> set (batches s)" "batch_closed b" "batch_run s s'"
  shows "(\<exists>b' \<in> set (batches s'). b_id b' = b_id b \<and> batch_closed b'
            \<and> (b_status b = Batch_cancelled \<longrightarrow> b_status b' = Batch_cancelled))
    \<and> acquire_dispatch_items e (b_id b) wk n limit now s' = Inr ([], s')
    \<and> (list_runnable_batch_ids e rnd tenants limit now s' = Inr (ids, s'') \<longrightarrow> b_id b \<notin> set ids)"
proof -
  obtain b' where b': "b' \<in> set (batches s')" "b_id b' = b_id b" "batch_evolves b b'"
    using batch_later [OF assms(4,1,2)] .
  then have closed: "batch_closed b'" "b_status b = Batch_cancelled \<longrightarrow> b_status b' = Batch_cancelled"
    using assms(3) by (auto simp: batch_evolves_def)
  have inv': "batch_inv s'" using batch_run_inv assms(1,4) by blast
  have only: "x = b'" if "x \<in> set (batches s')" "b_id x = b_id b" for x
    using find_batch_iff [OF inv'] that b'(1,2) by (metis option.inject)
  then have "\<not> may_lease (b_id b) t s' i" for t i using closed_not_runnable closed(1) unfolding may_lease_def by blast
  then have "dispatch_rows (b_id b) t limit s' = []" for t by (simp add: dispatch_rows_may_lease)
  then have "acquire_dispatch_items e (b_id b) wk n limit now s' = Inr ([], s')"
    by (simp add: acquire_dispatch_items_def Let_def tx_run)
  moreover have "b_id b \<notin> set ids" if listed: "list_runnable_batch_ids e rnd tenants limit now s' = Inr (ids, s'')"
  proof
    assume "b_id b \<in> set ids"
    then obtain x where "x \<in> set (batches s')" "batch_runnable x" "b_id x = b_id b"
      using listed by (auto simp: list_runnable_batch_ids_def Let_def runnable_batch_def split: if_splits dest!: in_set_takeD)
    then show False using only closed(1) closed_not_runnable by blast
  qed
  ultimately show ?thesis using b'(1,2) closed by blast
qed

definition sample_cancelled :: batch_ledger where
  "sample_cancelled = \<lparr>batches = [(start_batch (Zulu 5000000) sample_batch_row)
       \<lparr>b_status := Batch_cancelled, b_updated_at := Some (Zulu 5000000), b_cancelled_at := Some (Zulu 5000000)\<rparr>],
     batch_items = map (cancel_item (Zulu 5000000)) (batch_items sample_leased)\<rparr>"

lemma sample_cancel:
  "cancel_batch sample_env ''rbch_b'' None sample_leased
     = Inr (\<lparr>ct_batch_id = ''rbch_b'', ct_affected_count = 2, ct_batch_status = Batch_cancelled\<rparr>, sample_cancelled)"
  by code_simp

theorem closed_batch_final_witness:
  "\<exists>c s'. resume_batch sample_env ''rbch_b'' None sample_cancelled = Inr (c, s')
     \<and> (\<exists>b' \<in> set (batches s'). b_id b' = ''rbch_b'' \<and> b_status b' = Batch_cancelled)
     \<and> acquire_dispatch_items sample_env ''rbch_b'' ''w2'' 60 5 None s' = Inr ([], s')"
proof -
  let ?b = "hd (batches sample_cancelled)"
  have b: "?b \<in> set (batches sample_cancelled)" "b_status ?b = Batch_cancelled" "b_id ?b = ''rbch_b''" "batch_closed ?b"
    by (simp_all add: sample_cancelled_def start_batch_def batch_closed_def sample_batch_row_def new_batch_row_def)
  have resumed: "resume_batch sample_env ''rbch_b'' None sample_cancelled
      = Inr (\<lparr>ct_batch_id = ''rbch_b'', ct_affected_count = 0, ct_batch_status = Batch_cancelled\<rparr>, sample_cancelled)"
    by code_simp
  have inv: "batch_inv sample_cancelled"
    using keepsD [OF bkeeps_cancel sample_cancel] sample_leased_inv by (simp add: bl_rel_def)
  from closed_batch_final [OF inv b(1,4) r_into_rtranclp, of sample_cancelled sample_env "''w2''" 60 5 None]
  show ?thesis using batch_resume [OF resumed] resumed unfolding b(2,3) by blast
qed

section \<open>Idempotent creation\<close>

lemma load_batch_Inr:
  "load_batch bid s = Inr (r, s') \<longleftrightarrow> s' = s \<and> (\<exists>b. find_batch bid s = Some b
     \<and> r = \<lparr>br_batch = b, br_items = sort_key i_position (items_of bid s)\<rparr>)"
  by (auto simp: load_batch_def tx_bind_eq split: option.splits)

lemma created_batch_row:
  assumes "batch_inv s" "create_batch e q caller key s = Inr (r, s1)"
  obtains ms where "materialize_portfolios q caller = Inr ms" "\<not> py_blank key"
    "br_batch r \<in> set (batches s1)" "b_idempotency_key (br_batch r) = py_strip (the key)"
    "b_request_hash (br_batch r) = compute_batch_request_hash e q caller ms"
    "load_batch (b_id (br_batch r)) s1 = Inr (r, s1)"
proof -
  have blank: "\<not> py_blank key" using assms(2) by (auto simp: create_batch_def)
  from assms(2) show thesis
  proof (cases rule: create_batch_cases)
    case (existing ms b)
    have b: "b \<in> set (batches s)" "b_idempotency_key b = py_strip (the key)"
      using fetch_SomeD [OF existing(3)] by simp_all
    then have "find_batch (b_id b) s = Some b" using find_batch_iff [OF assms(1)] by simp
    then have "br_batch r = b" using existing(5) by (simp add: load_batch_Inr)
    then show thesis using that [of ms] blank existing b by simp
  next
    case (fresh ms)
    let ?bid = "''rbch_'' @ uuid4_hex e 1"
    let ?b = "new_batch_row q caller ms (dt_to_text (utc_now e 0)) ?bid (py_strip (the key)) (compute_batch_request_hash e q caller ms)"
    obtain t1 where t: "insert_batch ?b s = Inr ((), t1)" "load_batch ?bid s1 = Inr (r, s1)" "batches s1 = batches t1"
      using insert_new_batch_run [OF fresh(4)] insert_items_effect by metis
    have inv1: "batch_inv s1" using keepsD [OF bkeeps_create assms(2)] assms(1) by (simp add: bl_rel_def)
    have rows: "batches s1 = batches s @ [?b]" using t(1,3) by (auto simp: insert_batch_def split: if_splits)
    moreover have id: "b_id ?b = ?bid" by (simp add: new_batch_row_def)
    ultimately have "find_batch ?bid s1 = Some ?b" using find_batch_iff [OF inv1] by simp
    then have "br_batch r = ?b" using t(2) by (simp add: load_batch_Inr)
    then show thesis using that [of ms] blank fresh(2) t(2) id rows
      by (simp add: new_batch_row_def)
  qed
qed

lemma create_batch_existing:
  assumes "batch_inv s" "b \<in> set (batches s)" "b_idempotency_key b = py_strip (the key)" "\<not> py_blank key"
    and "materialize_portfolios q caller = Inr ms"
  shows "create_batch e q caller key s =
    (if b_request_hash b = compute_batch_request_hash e q caller ms then load_batch (b_id b) s
     else Inl (BatchIdempotencyConflictError ''batch_idempotency_key_reused_with_different_request''))"
proof -
  have "fetch (\<lambda>x. b_idempotency_key x = py_strip (the key)) (batches s) = Some b"
    using keyed_fetch_iff [OF batch_inv_distinct(2) [OF assms(1)]] assms(2,3) by simp
  then show ?thesis using assms(4,5) by (simp add: create_batch_def Let_def tx_run)
qed

text \<open>The items of a batch are fixed when it is created.\<close>

lemma items_of_later:
  assumes "batch_run s s'" "batch_inv s" "b \<in> set (batches s)"
  shows "map item_core (items_of (b_id b) s') = map item_core (items_of (b_id b) s)"
proof -
  let ?n = "length (batch_items s)"
  obtain b' where b': "b' \<in> set (batches s')" "b_id b' = b_id b" "batch_evolves b b'"
    using batch_later [OF assms] .
  have inv': "batch_inv s'" and rel: "batch_rel s s'" using batch_run_inv [OF assms(1,2)] by auto
  have own: "map item_core (items_of bid t) = filter (\<lambda>i. i_batch_id i = bid) (map item_core (batch_items t))" for bid t
    by (simp add: items_of_def filter_map comp_def)
  have "map item_core (take ?n (batch_items s')) = map item_core (batch_items s)"
    using rel unfolding batch_rel_def grows_def item_evolves_def
    by (simp add: list_all2_conv_all_nth list_eq_iff_nth_eq)
  then obtain more where more: "map item_core (batch_items s') = map item_core (batch_items s) @ more"
    by (metis append_take_drop_id map_append)
  then have split: "map item_core (items_of (b_id b) s') = map item_core (items_of (b_id b) s)
      @ filter (\<lambda>i. i_batch_id i = b_id b) more" by (simp add: own)
  have shape: "length (items_of (b_id x) t) = length (b_portfolio_ids x)" if "batch_inv t" "x \<in> set (batches t)" for x t
  proof -
    have "batch_shape (batch_items t) x" using that by (simp add: batch_inv_def struct_ok_def list_all_iff)
    then have "map i_portfolio_id (items_of (b_id x) t) = b_portfolio_ids x"
      by (simp add: batch_shape_def Let_def items_of_def)
    then show ?thesis by (metis length_map)
  qed
  have "b_portfolio_ids b' = b_portfolio_ids b" using b'(3) by (metis batch_evolves_def core_fields(3))
  then have "length (items_of (b_id b) s') = length (items_of (b_id b) s)"
    using shape [OF inv' b'(1)] shape [OF assms(2,3)] b'(2) by simp
  then have "filter (\<lambda>i. i_batch_id i = b_id b) more = []" using arg_cong [OF split, of length] by (simp del: filter_empty_conv)
  then show ?thesis using split by simp
qed

lemma sort_items_core: "map item_core (sort_key i_position xs) = sort_key i_position (map item_core xs)"
  by (rule sort_key_map_fixed [symmetric]) simp

text \<open>
  (C21) A batch idempotency key names one batch for ever: when a creation has returned, then after any
  further operations a creation under the same key (up to surrounding blanks) whose request materializes
  either has the same request hash, returns that same batch with the same items and changes nothing, or
  is refused as a conflict.
\<close>

theorem batch_create_idempotent:
  assumes "batch_inv s" "create_batch e q caller key s = Inr (r, s1)" "batch_run s1 s2"
    and "materialize_portfolios q caller = Inr ms" "materialize_portfolios q' caller' = Inr ms'"
  shows "if compute_batch_request_hash e' q' caller' ms' = compute_batch_request_hash e q caller ms
    then \<exists>r'. create_batch e' q' caller' key s2 = Inr (r', s2) \<and> batch_core (br_batch r') = batch_core (br_batch r)
       \<and> map item_core (br_items r') = map item_core (br_items r)
    else create_batch e' q' caller' key s2
       = Inl (BatchIdempotencyConflictError ''batch_idempotency_key_reused_with_different_request'')"
proof -
  obtain b where b: "b = br_batch r" "\<not> py_blank key" "b \<in> set (batches s1)"
    "b_idempotency_key b = py_strip (the key)" "b_request_hash b = compute_batch_request_hash e q caller ms"
    "load_batch (b_id b) s1 = Inr (r, s1)"
    using created_batch_row [OF assms(1,2)] assms(4) by (metis Inr_inject)
  have inv1: "batch_inv s1" using keepsD [OF bkeeps_create assms(2)] assms(1) by (simp add: bl_rel_def)
  then have inv2: "batch_inv s2" using batch_run_inv assms(3) by blast
  obtain b' where b': "b' \<in> set (batches s2)" "b_id b' = b_id b" "batch_core b' = batch_core b"
    using batch_later [OF assms(3) inv1 b(3)] by (metis batch_evolves_def)
  then have key: "b_idempotency_key b' = py_strip (the key)" "b_request_hash b' = compute_batch_request_hash e q caller ms"
    using b(4,5) by (metis core_fields(2), metis core_fields(6))
  have "load_batch (b_id b') s2 = Inr (\<lparr>br_batch = b', br_items = sort_key i_position (items_of (b_id b) s2)\<rparr>, s2)"
    using find_batch_iff [OF inv2] b'(1,2) by (simp add: load_batch_Inr)
  moreover have "map item_core (sort_key i_position (items_of (b_id b) s2)) = map item_core (br_items r)"
    using items_of_later [OF assms(3) inv1 b(3)] b(6) by (auto simp: load_batch_Inr sort_items_core)
  ultimately show ?thesis
    using create_batch_existing [OF inv2 b'(1) key(1) b(2) assms(5), of e'] key(2) b(1) b'(3) by auto
qed

theorem batch_create_idempotent_witness:
  "\<exists>r'. create_batch sample_env sample_batch_request sample_batch_caller (Some '' k '') sample_leased
      = Inr (r', sample_leased)
    \<and> batch_core (br_batch r') = batch_core sample_batch_row
    \<and> map item_core (br_items r') = map item_core (batch_items sample_batches)"
proof -
  obtain ms where "materialize_portfolios sample_batch_request sample_batch_caller = Inr ms"
    using created_batch_row [OF empty_batches_inv sample_batch_created] by metis
  from batch_create_idempotent [OF empty_batches_inv sample_batch_created sample_leased_run this this, of sample_env]
  show ?thesis by simp
qed

section \<open>Fair selection\<close>

text \<open>In a list sorted by a key, fewer rows come before \<open>x\<close> than there are rows with a key no larger.\<close>

lemma sorted_early:
  fixes g :: "'r \<Rightarrow> 'k :: linorder"
  assumes "x \<in> set xs" "rowcount (\<lambda>y. g y \<le> g x) xs \<le> k"
  shows "x \<in> set (take k (sort_key g xs))"
proof (rule ccontr)
  let ?all = "sort_key g xs"
  assume out: "x \<notin> set (take k ?all)"
  have "x \<in> set (take k ?all @ drop k ?all)" using assms(1) by simp
  then have late: "x \<in> set (drop k ?all)" using out by (simp del: append_take_drop_id)
  then have long: "k < length ?all" by (cases "k < length ?all") auto
  have "sorted (map g (take k ?all @ drop k ?all))" by simp
  then have "\<forall>y \<in> set (take k ?all). g y \<le> g x" using late unfolding map_append sorted_append by auto
  then have "filter (\<lambda>y. g y \<le> g x) (take k ?all) = take k ?all" by (simp add: filter_id_conv)
  moreover have "filter (\<lambda>y. g y \<le> g x) (drop k ?all) \<noteq> []" using late by (auto simp: filter_empty_conv)
  ultimately have "k < length (filter (\<lambda>y. g y \<le> g x) (take k ?all @ drop k ?all))"
    using long by (simp del: append_take_drop_id)
  also have "\<dots> = length (filter (\<lambda>y. g y \<le> g x) xs)" by (simp add: filter_sort)
  finally show False using assms(2) by (simp add: rowcount_def)
qed

text \<open>The oldest of a tenant's rows is the only one of rank one.\<close>

lemma first_ranks_distinct:
  assumes "distinct (map b_id rows)"
  shows "inj_on b_tenant_id {b \<in> set rows. tenant_rank rows b = 1}"
proof (rule inj_onI, clarsimp)
  fix x y
  assume x: "x \<in> set rows" "tenant_rank rows x = Suc 0" and y: "y \<in> set rows" "tenant_rank rows y = Suc 0"
    and same: "b_tenant_id x = b_tenant_id y"
  have "\<not> batch_age u < batch_age v" if "u \<in> set rows" "tenant_rank rows v = Suc 0" "b_tenant_id u = b_tenant_id v" for u v
    using that by (auto simp: tenant_rank_def rowcount_def filter_empty_conv)
  from this [OF x(1) y(2) same] this [OF y(1) x(2) same [symmetric]]
  have "b_id x = b_id y" unfolding batch_age_def less_prod_def by auto
  then show "x = y" using assms x(1) y(1) by (auto simp: distinct_map inj_on_def)
qed

text \<open>
  (C22) Every tenant makes progress: when the limit is at least the number of tenants that have a batch
  to work on, the selection lists, for every one of them, its oldest such batch, however many batches
  the other tenants have and whatever the random tie-break draws.
\<close>

theorem selection_serves_every_tenant:
  assumes inv: "batch_inv s"
    and rows: "rows = filter (\<lambda>b. b_tenant_id b \<in> set tenants \<and> runnable_batch (dt_to_text (given_or_now e now)) s b) (batches s)"
    and limit: "int (card (b_tenant_id ` set rows)) \<le> limit"
    and b: "b \<in> set rows"
    and oldest: "\<forall>x \<in> set rows. b_tenant_id x = b_tenant_id b \<longrightarrow> batch_age b \<le> batch_age x"
  shows "\<exists>ids. list_runnable_batch_ids e rnd tenants limit now s = Inr (ids, s)
    \<and> b_id b \<in> set ids \<and> length ids \<le> nat limit"
proof -
  let ?g = "\<lambda>b. (tenant_rank rows b, rnd (b_id b))"
  have rank: "tenant_rank rows b = 1"
    using oldest by (auto simp: tenant_rank_def rowcount_def filter_empty_conv)
  have positive: "tenant_rank rows x \<noteq> 0" for x by (simp add: tenant_rank_def)
  have dist: "distinct (map b_id rows)" using batch_inv_distinct(1) [OF inv] by (simp add: rows distinct_map_filter)
  have "rowcount (\<lambda>y. ?g y \<le> ?g b) rows \<le> card {x \<in> set rows. tenant_rank rows x = 1}"
  proof -
    have "distinct rows" using dist by (simp add: distinct_map)
    then have "rowcount (\<lambda>y. ?g y \<le> ?g b) rows = card {x \<in> set rows. ?g x \<le> ?g b}"
      by (simp add: rowcount_def distinct_length_filter Int_def conj_commute)
    also have "\<dots> \<le> card {x \<in> set rows. tenant_rank rows x = 1}"
      by (intro card_mono) (auto simp: rank positive le_Suc_eq)
    finally show ?thesis .
  qed
  also have "\<dots> = card (b_tenant_id ` {x \<in> set rows. tenant_rank rows x = 1})"
    using card_image [OF first_ranks_distinct [OF dist]] by simp
  also have "\<dots> \<le> card (b_tenant_id ` set rows)" by (intro card_mono) auto
  finally have "rowcount (\<lambda>y. ?g y \<le> ?g b) rows \<le> nat limit" using limit by linarith
  from sorted_early [OF b this] have mem: "b_id b \<in> set (map b_id (take (nat limit) (sort_key ?g rows)))" by simp
  have "b_tenant_id ` set rows \<noteq> {}" using b by auto
  then have "0 < card (b_tenant_id ` set rows)" by (simp add: card_gt_0_iff)
  then have "\<not> (limit < 1 \<or> tenants = [])" using limit b rows by auto
  then have "list_runnable_batch_ids e rnd tenants limit now s = Inr (map b_id (take (nat limit) (sort_key ?g rows)), s)"
    by (simp add: list_runnable_batch_ids_def Let_def tx_get_def rows)
  then show ?thesis using mem by auto
qed

theorem selection_serves_every_tenant_witness:
  "\<exists>ids. list_runnable_batch_ids sample_env (\<lambda>_. 7) [''t1'', ''t2''] 1 None sample_batches = Inr (ids, sample_batches)
    \<and> ''rbch_b'' \<in> set ids \<and> length ids \<le> nat 1"
proof -
  define rows where "rows = filter (\<lambda>b. b_tenant_id b \<in> set [''t1'', ''t2'']
      \<and> runnable_batch (dt_to_text (given_or_now sample_env None)) sample_batches b) (batches sample_batches)"
  have r: "rows = [sample_batch_row]" unfolding rows_def by code_simp
  have "b_id sample_batch_row = ''rbch_b''" by code_simp
  then show ?thesis
    using selection_serves_every_tenant [OF sample_batches_inv rows_def, of 1 sample_batch_row "\<lambda>_. 7"]
    by (simp add: r)
qed

end
