(* ===== verification/Admission.thy ===== *)
theory Admission
  imports Request_Identity
begin

text \<open>
  The authority a composite return calculation is requested under
  (\<open>src/src/app/composite_reporting/invocation_authority.py\<close>): the admission a provider grants for the
  exact set of selectors of a request, the binding of an admission to the job it was granted for,
  and the checks on replay and on each attempt.

  Pydantic's \<open>TwrJobBinding.model_validate\<close> is the parameter \<open>load\<close> (\<open>None\<close> for a validation error);
  the provider is a protocol and a parameter as well. An admission is the validated model; its
  \<open>admitted_at\<close> is carried by its JSON text.
\<close>

section \<open>Admissions and bindings\<close>

record admission =
  ad_binding_reference :: string
  ad_issuer :: string
  ad_trust_config_digest :: string
  ad_principal_kind :: string
  ad_subject :: string
  ad_delegated_application :: "string option"
  ad_delegated_actor :: "string option"
  ad_tenant_id :: string
  ad_resolver_policy_version :: string
  ad_effective_scope_digest :: string
  ad_selector_set_digest :: string
  ad_authority_revision :: "string option"
  ad_admitted_at :: string

definition security_identity :: "admission \<Rightarrow> jobj" where
  "security_identity a = [
     (''schema_version'', JStr ''composite-twr-admission.v1''),
     (''provider_reference'', JStr ''report.composite-twr.invocation.v1''),
     (''binding_reference'', JStr (ad_binding_reference a)),
     (''issuer'', JStr (ad_issuer a)),
     (''audience'', JStr ''lotus-performance''),
     (''trust_config_digest'', JStr (ad_trust_config_digest a)),
     (''principal_kind'', JStr (ad_principal_kind a)),
     (''subject'', JStr (ad_subject a)),
     (''delegated_application'', jopt (ad_delegated_application a)),
     (''delegated_actor'', jopt (ad_delegated_actor a)),
     (''tenant_id'', JStr (ad_tenant_id a)),
     (''method'', JStr ''POST''),
     (''endpoint'', JStr ''/performance/composites/twr''),
     (''capability'', JStr ''operations.runtime.read''),
     (''resolver_policy_version'', JStr (ad_resolver_policy_version a)),
     (''effective_scope_digest'', JStr (ad_effective_scope_digest a)),
     (''selector_set_digest'', JStr (ad_selector_set_digest a)),
     (''authority_revision'', jopt (ad_authority_revision a))]"

definition admission_dump :: "admission \<Rightarrow> jobj" where
  "admission_dump a = security_identity a @ [(''admitted_at'', JStr (ad_admitted_at a))]"

record job_binding =
  tb_admission :: admission
  tb_request_id :: string
  tb_job_id :: string
  tb_correlation_id :: string
  tb_trace_id :: string

definition binding_dump :: "job_binding \<Rightarrow> json" where
  "binding_dump b = JObj [(''admission'', JObj (admission_dump (tb_admission b))),
     (''request_id'', JStr (tb_request_id b)), (''job_id'', JStr (tb_job_id b)),
     (''correlation_id'', JStr (tb_correlation_id b)), (''trace_id'', JStr (tb_trace_id b))]"

type_synonym binding_loader = "json \<Rightarrow> job_binding option"

section \<open>Admission of a request\<close>

definition digest :: "env \<Rightarrow> json \<Rightarrow> string" where
  "digest e v = env_sha256 e (canonical_json v)"

definition selector_set_for :: "env \<Rightarrow> composite_request \<Rightarrow> json list" where
  "selector_set_for e q =
     (case cq_selection q of None \<Rightarrow> [] | Some sel \<Rightarrow>
      let selections = sel # map pd_selection (case cq_source_products q of None \<Rightarrow> [] | Some ps \<Rightarrow> ps) in
      sort_key (digest e) (map sel_dump selections))"

definition require_admission :: "env \<Rightarrow> composite_request \<Rightarrow> string \<Rightarrow> admission option \<Rightarrow> unit res" where
  "require_admission e q tenant admission =
     (let selectors = selector_set_for e q in
      if selectors = []
      then require (admission = None) (TwrAuthorityRefused ''COMPOSITE_TWR_UNEXPECTED_BINDING'')
      else (case admission of None \<Rightarrow> Inl (TwrAuthorityRefused ''COMPOSITE_TWR_ADMISSION_REQUIRED'')
        | Some a \<Rightarrow> require (ad_tenant_id a = tenant \<and> ad_selector_set_digest a = digest e (JList selectors))
            (TwrAuthorityRefused ''COMPOSITE_TWR_ADMISSION_REQUIRED'')))"

text \<open>\<open>provider.admit\<close> may raise, and may return something that is not an admission (\<open>None\<close>).\<close>

definition admit_request ::
    "env \<Rightarrow> composite_request \<Rightarrow> string option \<Rightarrow> string
     \<Rightarrow> (string \<Rightarrow> string \<Rightarrow> json list \<Rightarrow> admission option res) \<Rightarrow> admission option res" where
  "admit_request e q initiator tenant provider_admit =
     (let selectors = selector_set_for e q in
      if selectors = [] then Inr None
      else case initiator of
        None \<Rightarrow> Inl (TwrAuthorityRefused ''COMPOSITE_TWR_AUTHENTICATED_INITIATOR_REQUIRED'')
      | Some context \<Rightarrow>
        (case provider_admit context tenant selectors of
           Inl _ \<Rightarrow> Inl (TwrAuthorityRefused ''COMPOSITE_TWR_AUTHORITY_UNAVAILABLE'')
         | Inr admission \<Rightarrow> bindE (require_admission e q tenant admission) (\<lambda>_. Inr admission)))"

definition require_internal_admission ::
    "env \<Rightarrow> job_request \<Rightarrow> jobj \<Rightarrow> string \<Rightarrow> admission option \<Rightarrow> unit res" where
  "require_internal_admission e request options tenant admission =
     bindE (require (BINDING_OPTION \<notin> set (dkeys options))
              (TwrAuthorityRefused ''COMPOSITE_TWR_CALLER_BINDING_FORBIDDEN'')) (\<lambda>_.
     case request of Composite_review q \<Rightarrow> require_admission e q tenant admission
     | _ \<Rightarrow> require (admission = None) (TwrAuthorityRefused ''COMPOSITE_TWR_UNEXPECTED_BINDING''))"

section \<open>Binding to a job\<close>

text \<open>The binding model rejects empty identifiers (\<open>min_length=1\<close>).\<close>

definition bind_admission ::
    "jobj \<Rightarrow> admission option \<Rightarrow> string \<Rightarrow> string \<Rightarrow> string \<Rightarrow> string \<Rightarrow> jobj res" where
  "bind_admission options admission request_id job_id correlation_id trace_id =
     bindE (require (BINDING_OPTION \<notin> set (dkeys options))
              (TwrAuthorityRefused ''COMPOSITE_TWR_CALLER_BINDING_FORBIDDEN'')) (\<lambda>_.
     case admission of None \<Rightarrow> Inr options | Some a \<Rightarrow>
       bindE (require (request_id \<noteq> [] \<and> job_id \<noteq> [] \<and> correlation_id \<noteq> [] \<and> trace_id \<noteq> [])
                (ValueError ''ValidationError'')) (\<lambda>_.
       Inr (dset options BINDING_OPTION (binding_dump \<lparr>tb_admission = a, tb_request_id = request_id,
              tb_job_id = job_id, tb_correlation_id = correlation_id, tb_trace_id = trace_id\<rparr>))))"

definition binding_for_job :: "binding_loader \<Rightarrow> job_record \<Rightarrow> job_binding res" where
  "binding_for_job load job =
     (case load (jget (lr_options job) BINDING_OPTION) of
        None \<Rightarrow> Inl (TwrAuthorityRefused ''COMPOSITE_TWR_JOB_BINDING_REQUIRED'')
      | Some b \<Rightarrow>
        bindE (require (tb_job_id b = lr_job_id job \<and> tb_request_id b = lr_request_id job
                 \<and> tb_correlation_id b = lr_correlation_id job \<and> tb_trace_id b = lr_trace_id job
                 \<and> ad_tenant_id (tb_admission b) = lr_tenant_id job)
                 (TwrAuthorityRefused ''COMPOSITE_TWR_JOB_BINDING_CONFLICT'')) (\<lambda>_. Inr b))"

definition require_same_admission :: "binding_loader \<Rightarrow> job_record \<Rightarrow> admission option \<Rightarrow> unit res" where
  "require_same_admission load job admission =
     (if admission = None \<and> BINDING_OPTION \<notin> set (dkeys (lr_options job)) then Inr ()
      else bindE (binding_for_job load job) (\<lambda>b.
        case admission of None \<Rightarrow> Inl (TwrAuthorityRefused ''COMPOSITE_TWR_REPLAY_AUTHORITY_CONFLICT'')
        | Some a \<Rightarrow> require (security_identity (tb_admission b) = security_identity a)
            (TwrAuthorityRefused ''COMPOSITE_TWR_REPLAY_AUTHORITY_CONFLICT'')))"

section \<open>Authority of an attempt\<close>

record twr_selection = selection +
  ts_calculation_id :: string
  ts_period_start :: date
  ts_return_view :: string
  ts_materialization_ids :: "string list"

definition performance_request :: "twr_selection \<Rightarrow> json" where
  "performance_request s = JObj [
     (''calculation_id'', JStr (ts_calculation_id s)),
     (''composite_id'', JStr (sel_composite_id s)),
     (''period_start'', JStr (date_isoformat (ts_period_start s))),
     (''period_end'', JStr (date_isoformat (sel_period_end s))),
     (''reporting_currency'', JStr (sel_reporting_currency s)),
     (''return_view'', JStr (ts_return_view s)),
     (''materialization_ids'', JList (map JStr (ts_materialization_ids s)))]"

text \<open>\<open>iv_well_typed\<close> is the outcome of the \<open>isinstance\<close> checks, \<open>iv_aware\<close> that \<open>validated_at\<close> has a zone.\<close>

record invocation =
  iv_well_typed :: bool
  iv_admission :: admission
  iv_exact_selector_digest :: string
  iv_request_payload_digest :: string
  iv_credential_id :: string
  iv_aware :: bool
  iv_credential :: string

definition require_request :: "env \<Rightarrow> invocation \<Rightarrow> json \<Rightarrow> string \<Rightarrow> unit res" where
  "require_request e iv payload tenant_id =
     bindE (require (iv_well_typed iv) (TwrAuthorityRefused ''COMPOSITE_TWR_INVOCATION_INVALID'')) (\<lambda>_.
     require (iv_credential iv \<noteq> []
         \<and> list_all (\<lambda>c. \<not> py_isspace c \<and> 33 \<le> (of_char c :: nat) \<and> (of_char c :: nat) \<le> 126) (iv_credential iv)
         \<and> ad_tenant_id (iv_admission iv) = tenant_id
         \<and> digest e payload = iv_request_payload_digest iv
         \<and> iv_credential_id iv \<noteq> [] \<and> length (iv_credential_id iv) \<le> 200 \<and> iv_aware iv)
       (TwrAuthorityRefused ''COMPOSITE_TWR_INVOCATION_INVALID''))"

record attempt_context =
  ac_job_id :: string
  ac_request_id :: string
  ac_correlation_id :: string
  ac_trace_id :: string
  ac_attempt_id :: string

definition authorize_selection ::
    "env \<Rightarrow> binding_loader \<Rightarrow> job_record \<Rightarrow> twr_selection
     \<Rightarrow> (job_binding \<Rightarrow> json \<Rightarrow> attempt_context \<Rightarrow> invocation option res) \<Rightarrow> attempt_context
     \<Rightarrow> invocation res" where
  "authorize_selection e load job sel provider_authorize context =
     bindE (binding_for_job load job) (\<lambda>b.
     case provider_authorize b (sel_dump sel) context of
       Inl _ \<Rightarrow> Inl (TwrAuthorityRefused ''COMPOSITE_TWR_CURRENT_AUTHORITY_REFUSED'')
     | Inr None \<Rightarrow> Inl (TwrAuthorityRefused ''COMPOSITE_TWR_CURRENT_AUTHORITY_CONFLICT'')
     | Inr (Some iv) \<Rightarrow>
       bindE (require_request e iv (performance_request sel) (lr_tenant_id job)) (\<lambda>_.
       bindE (require (security_identity (iv_admission iv) = security_identity (tb_admission b)
                \<and> iv_exact_selector_digest iv = digest e (sel_dump sel))
                (TwrAuthorityRefused ''COMPOSITE_TWR_CURRENT_AUTHORITY_CONFLICT'')) (\<lambda>_.
       Inr iv)))"

end
