(* ===== verification/Replay_Lineage.thy ===== *)
theory Replay_Lineage
  imports Job_Transitions
begin

text \<open>
  The lineage of replayed jobs that \<open>_create_report_job\<close>
  (\<open>src/src/app/reporting_jobs/ledger.py\<close>) walks with two recursive queries before it lets a replay
  create a replacement: up to the root of the failed source, then down to every replacement of
  that root.

  SQLite evaluates \<open>WITH RECURSIVE ... UNION\<close> with a first-in first-out queue of rows not seen
  before; \<open>closure\<close> is that queue, with the relationship rows in table order (the order SQL leaves
  open). Its fuel bounds the rows extracted: every row but the start is an end of a relationship, so
  one more than the number of relationships is enough (\<open>set_closure\<close>).
\<close>

section \<open>The recursive queries\<close>

primrec closure_loop ::
    "('a \<Rightarrow> 'a list) \<Rightarrow> nat \<Rightarrow> 'a list \<Rightarrow> 'a list \<Rightarrow> 'a list" where
  "closure_loop step 0 queue seen = seen"
| "closure_loop step (Suc n) queue seen =
     (case queue of [] \<Rightarrow> seen
      | x # rest \<Rightarrow> let new = remdups (filter (\<lambda>y. y \<notin> set seen) (step x)) in
          closure_loop step n (rest @ new) (seen @ new))"

definition replay_parents :: "ledger \<Rightarrow> string \<Rightarrow> string list" where
  "replay_parents s x = map rel_source
     (filter (\<lambda>r. rel_derived r = x \<and> rel_type r = Failed_work_replay) (relationships s))"

definition replay_children :: "ledger \<Rightarrow> string \<Rightarrow> string list" where
  "replay_children s x = map rel_derived
     (filter (\<lambda>r. rel_source r = x \<and> rel_type r = Failed_work_replay) (relationships s))"

definition ancestors :: "ledger \<Rightarrow> string \<Rightarrow> string list" where
  "ancestors s x = closure_loop (replay_parents s) (Suc (length (relationships s))) [x] [x]"

definition lineage :: "ledger \<Rightarrow> string \<Rightarrow> string list" where
  "lineage s x = closure_loop (replay_children s) (Suc (length (relationships s))) [x] [x]"

definition lineage_root :: "ledger \<Rightarrow> string \<Rightarrow> string" where
  "lineage_root s source =
     (case find (\<lambda>x. replay_parents s x = []) (ancestors s source) of None \<Rightarrow> source | Some x \<Rightarrow> x)"

definition ARCHIVE_OUTCOME_OPEN :: "failure_category list" where
  "ARCHIVE_OUTCOME_OPEN = [Archive_storage_failed, Archive_execution_failed, Archive_outcome_unknown,
     Archive_handoff_failed, Archive_handoff_not_configured]"

text \<open>
  A member that still is, or may turn out to be, a replacement. A failed member without a category
  is not: \<open>NULL NOT IN (...)\<close> is \<open>NULL\<close>, and so is the whole condition, which selects no row.
\<close>

definition live_member :: "ledger \<Rightarrow> job_row \<Rightarrow> bool" where
  "live_member s m \<longleftrightarrow> j_status m \<noteq> Cancelled
     \<and> (j_status m = Failed \<longrightarrow>
          (case j_failure_category m of None \<Rightarrow> False | Some c \<Rightarrow> c \<in> set ARCHIVE_OUTCOME_OPEN)
          \<and> replay_children s (j_id m) = [])"

definition live_replacement :: "ledger \<Rightarrow> string \<Rightarrow> string \<Rightarrow> bool" where
  "live_replacement s root source \<longleftrightarrow>
     list_ex (\<lambda>m. j_id m \<in> set (lineage s root) \<and> j_id m \<noteq> source \<and> live_member s m) (jobs s)"

section \<open>The queue reaches everything\<close>

definition edges :: "('a \<Rightarrow> 'a list) \<Rightarrow> ('a \<times> 'a) set" where
  "edges step = {(x, y). y \<in> set (step x)}"

lemma closure_loop_sound:
  assumes "set queue \<subseteq> set seen" "set seen \<subseteq> (edges step)\<^sup>* `` {a}"
  shows "set (closure_loop step n queue seen) \<subseteq> (edges step)\<^sup>* `` {a}"
  using assms
proof (induction n arbitrary: queue seen)
  case (Suc n)
  show ?case
  proof (cases queue)
    case (Cons x rest)
    let ?new = "remdups (filter (\<lambda>y. y \<notin> set seen) (step x))"
    have "(a, x) \<in> (edges step)\<^sup>*" using Suc.prems Cons by auto
    then have "set ?new \<subseteq> (edges step)\<^sup>* `` {a}"
      by (auto simp: edges_def intro: rtrancl_into_rtrancl)
    then have "set (closure_loop step n (rest @ ?new) (seen @ ?new)) \<subseteq> (edges step)\<^sup>* `` {a}"
      using Suc.prems Cons by (intro Suc.IH) auto
    then show ?thesis using Cons by (simp add: Let_def)
  qed (use Suc.prems in simp)
qed simp

lemma closure_loop_closed:
  assumes "set queue \<subseteq> set seen" "distinct seen"
    and "\<And>x. x \<in> set seen - set queue \<Longrightarrow> set (step x) \<subseteq> set seen"
    and "set seen \<subseteq> U" "\<And>x. set (step x) \<subseteq> U" "finite U"
    and "length queue + (card U - length seen) \<le> n"
  shows "set seen \<subseteq> set (closure_loop step n queue seen)
    \<and> (\<forall>x \<in> set (closure_loop step n queue seen). set (step x) \<subseteq> set (closure_loop step n queue seen))"
  using assms
proof (induction n arbitrary: queue seen)
  case 0
  then show ?case by auto
next
  case (Suc n)
  show ?case
  proof (cases queue)
    case Nil
    then show ?thesis using Suc.prems(3) by simp
  next
    case (Cons x rest)
    let ?new = "remdups (filter (\<lambda>y. y \<notin> set seen) (step x))"
    have sub: "set (seen @ ?new) \<subseteq> U" using Suc.prems(4) Suc.prems(5) [of x] by auto
    have dis: "distinct (seen @ ?new)" using Suc.prems(2) by auto
    have "length (seen @ ?new) \<le> card U"
      using card_mono [OF Suc.prems(6) sub] distinct_card [OF dis] by simp
    then have "length (rest @ ?new) + (card U - length (seen @ ?new)) \<le> n"
      using Suc.prems(7) Cons by simp
    moreover have "set (step y) \<subseteq> set (seen @ ?new)" if "y \<in> set (seen @ ?new) - set (rest @ ?new)" for y
      using that Suc.prems(3) [of y] Cons by (cases "y = x") auto
    ultimately have "set (seen @ ?new) \<subseteq> set (closure_loop step n (rest @ ?new) (seen @ ?new))
      \<and> (\<forall>x \<in> set (closure_loop step n (rest @ ?new) (seen @ ?new)).
           set (step x) \<subseteq> set (closure_loop step n (rest @ ?new) (seen @ ?new)))"
      using Suc.prems Cons sub dis by (intro Suc.IH) auto
    then show ?thesis using Cons by (simp add: Let_def)
  qed
qed

text \<open>With fuel for every node, the queue computes exactly the reachable nodes.\<close>

lemma set_closure_loop:
  assumes "\<And>x. set (step x) \<subseteq> U" "finite U" "card (insert a U) \<le> n"
  shows "set (closure_loop step n [a] [a]) = (edges step)\<^sup>* `` {a}"
proof
  show "set (closure_loop step n [a] [a]) \<subseteq> (edges step)\<^sup>* `` {a}"
    by (rule closure_loop_sound) auto
  have "card (insert a U) \<noteq> 0" using assms(2) by simp
  then have n: "length [a] + (card (insert a U) - length [a]) \<le> n" using assms(3) by simp
  have U: "set (step x) \<subseteq> insert a U" for x using assms(1) [of x] by blast
  have c: "a \<in> set (closure_loop step n [a] [a])"
    "\<forall>x \<in> set (closure_loop step n [a] [a]). set (step x) \<subseteq> set (closure_loop step n [a] [a])"
    using closure_loop_closed [of "[a]" "[a]" step "insert a U" n, OF _ _ _ _ U _ n] assms(2) by simp_all
  have "y \<in> set (closure_loop step n [a] [a])" if "(a, y) \<in> (edges step)\<^sup>*" for y
    using that
  proof (induction rule: rtrancl_induct)
    case (step y z)
    then show ?case using c(2) by (auto simp: edges_def)
  qed (rule c(1))
  then show "(edges step)\<^sup>* `` {a} \<subseteq> set (closure_loop step n [a] [a])" by auto
qed

lemma card_insert_set: "card (insert a (set xs)) \<le> Suc (length xs)"
  using card_insert_le_m1 [of "Suc (length xs)" "set xs" a] card_length [of xs]
  by (simp add: card_insert_if)

lemma set_lineage: "set (lineage s a) = (edges (replay_children s))\<^sup>* `` {a}"
  unfolding lineage_def
  by (rule set_closure_loop [where U = "set (map rel_derived (relationships s))"])
     (use card_insert_set [of a "map rel_derived (relationships s)"] in \<open>auto simp: replay_children_def\<close>)

lemma set_ancestors: "set (ancestors s a) = (edges (replay_parents s))\<^sup>* `` {a}"
  unfolding ancestors_def
  by (rule set_closure_loop [where U = "set (map rel_source (relationships s))"])
     (use card_insert_set [of a "map rel_source (relationships s)"] in \<open>auto simp: replay_parents_def\<close>)

lemma edges_converse: "edges (replay_parents s) = (edges (replay_children s))\<inverse>"
  by (auto simp: edges_def replay_parents_def replay_children_def)

text \<open>The root is an ancestor of the source, so the source is in the lineage of the root.\<close>

lemma root_in_ancestors: "lineage_root s a \<in> set (ancestors s a)"
proof (cases "find (\<lambda>x. replay_parents s x = []) (ancestors s a)")
  case None
  then show ?thesis by (simp add: lineage_root_def set_ancestors)
next
  case (Some x)
  then have "x \<in> set (ancestors s a)" by (auto simp: find_Some_iff)
  then show ?thesis using Some by (simp add: lineage_root_def)
qed

lemma source_in_lineage: "a \<in> set (lineage s (lineage_root s a))"
  using root_in_ancestors [of s a]
  by (auto simp: set_ancestors set_lineage edges_converse rtrancl_converse)

lemma child_in_lineage: "x \<in> set (lineage s r) \<Longrightarrow> y \<in> set (replay_children s x) \<Longrightarrow> y \<in> set (lineage s r)"
  by (auto simp: set_lineage edges_def intro: rtrancl_into_rtrancl)

end
