(* ===== verification/Template_Resolution.thy ===== *)
theory Template_Resolution
  imports Custody
begin

text \<open>
  The document contract a job is accepted under: the report families of
  \<open>src/src/app/report_ordering_catalogue/definitions.py\<close> (their template and contract axes), the
  resolver of \<open>template_resolution.py\<close>, the document format rule of
  \<open>src/src/app/reporting_document_format.py\<close> and the contract minting of the ledger
  (\<open>resolve_job_accepted_contract\<close>, \<open>_apply_composite_contract\<close>, \<open>template_for_accepted_contract\<close>).
\<close>

definition document_output_format :: "string list \<Rightarrow> string option res" where
  "document_output_format output_formats =
     (let formats = remdups (filter (\<lambda>f. f \<in> {''pdf'', ''xlsx''}) output_formats) in
      if length formats > 1 then Inl (ValueError ''REPORT_MULTIPLE_DOCUMENT_FORMATS_NOT_SUPPORTED'')
      else Inr (case formats of [] \<Rightarrow> None | f # _ \<Rightarrow> Some f))"

record report_family =
  rf_report_family_id :: string
  rf_report_type :: string
  rf_template_id :: string
  rf_template_version :: string
  rf_report_data_contract_version :: string
  rf_standard_disclosure_ref :: string
  rf_input_snapshot_contract_version :: "string option"

definition REPORT_FAMILY_DEFINITIONS :: "report_family list" where
  "REPORT_FAMILY_DEFINITIONS = [
    \<lparr>rf_report_family_id = ''portfolio_review'', rf_report_type = ''portfolio_review'',
     rf_template_id = ''portfolio-review'', rf_template_version = ''v2'',
     rf_report_data_contract_version = ''portfolio_review.v1'',
     rf_standard_disclosure_ref = ''portfolio-review.standard-disclosures.v1'',
     rf_input_snapshot_contract_version = None\<rparr>,
    \<lparr>rf_report_family_id = ''proof_pack'', rf_report_type = ''proof_pack'',
     rf_template_id = ''proof-pack'', rf_template_version = ''v1'',
     rf_report_data_contract_version = ''dpm_proof_pack_report_input.v1'',
     rf_standard_disclosure_ref = ''proof-pack.standard-disclosures.v1'',
     rf_input_snapshot_contract_version = Some ''dpm_proof_pack_report_input.v1''\<rparr>,
    \<lparr>rf_report_family_id = ''rebalance_wave'', rf_report_type = ''rebalance_wave'',
     rf_template_id = ''rebalance-wave'', rf_template_version = ''v1'',
     rf_report_data_contract_version = ''dpm_wave_report_input.v1'',
     rf_standard_disclosure_ref = ''rebalance-wave.standard-disclosures.v1'',
     rf_input_snapshot_contract_version = Some ''dpm_wave_report_input.v1''\<rparr>,
    \<lparr>rf_report_family_id = ''outcome_review'', rf_report_type = ''outcome_review'',
     rf_template_id = ''outcome-review'', rf_template_version = ''v1'',
     rf_report_data_contract_version = ''dpm_outcome_report_input.v1'',
     rf_standard_disclosure_ref = ''outcome-review.standard-disclosures.v1'',
     rf_input_snapshot_contract_version = Some ''dpm_outcome_report_input.v1''\<rparr>,
    \<lparr>rf_report_family_id = ''composite_review'', rf_report_type = ''composite_review'',
     rf_template_id = ''composite-review'', rf_template_version = ''v1'',
     rf_report_data_contract_version = ''composite_review.v1'',
     rf_standard_disclosure_ref = ''composite-review.standard-disclosures.v1'',
     rf_input_snapshot_contract_version = Some ''composite_review.v1''\<rparr>]"

definition resolve_report_family :: "string \<Rightarrow> report_family res" where
  "resolve_report_family report_type =
     (case fetch (\<lambda>d. rf_report_type d = report_type) REPORT_FAMILY_DEFINITIONS of
        None \<Rightarrow> Inl (LookupError ''REPORT_TEMPLATE_UNRESOLVED'') | Some d \<Rightarrow> Inr d)"

definition resolve_report_template :: "string \<Rightarrow> (string \<times> string) res" where
  "resolve_report_template report_type =
     bindE (resolve_report_family report_type) (\<lambda>d. Inr (rf_template_id d, rf_template_version d))"

definition resolve_report_data_contract :: "string \<Rightarrow> string res" where
  "resolve_report_data_contract report_type =
     bindE (resolve_report_family report_type) (\<lambda>d. Inr (rf_report_data_contract_version d))"

type_synonym template_pair = "string option \<times> string option"

definition accepted_template_identity :: "string \<Rightarrow> string list \<Rightarrow> template_pair res" where
  "accepted_template_identity report_type output_formats =
     bindE (document_output_format output_formats) (\<lambda>format.
     case format of None \<Rightarrow> Inr (None, None)
     | Some _ \<Rightarrow> bindE (resolve_report_template report_type) (\<lambda>(i, v). Inr (Some i, Some v)))"

definition job_template_identity :: "string \<Rightarrow> string list \<Rightarrow> template_pair option \<Rightarrow> template_pair res" where
  "job_template_identity report_type output_formats inherited =
     (case inherited of Some pair \<Rightarrow> Inr pair
      | None \<Rightarrow> accepted_template_identity report_type output_formats)"

definition ACCEPTED_DOCUMENT_CONTRACT_VERSION :: string where
  "ACCEPTED_DOCUMENT_CONTRACT_VERSION = ''adc.v1''"
definition GOVERNED_LOCALE :: string where "GOVERNED_LOCALE = ''en-SG''"
definition GOVERNED_BRAND_VARIANT :: string where "GOVERNED_BRAND_VARIANT = ''private_banking''"
definition GOVERNED_RENDER_PACKAGE_VERSION :: string where
  "GOVERNED_RENDER_PACKAGE_VERSION = ''render_package.v1''"

definition accepted_document_contract ::
    "string \<Rightarrow> string list \<Rightarrow> string \<Rightarrow> template_pair option \<Rightarrow> jobj res" where
  "accepted_document_contract report_type output_formats snapshot_version inherited_template =
     bindE (resolve_report_family report_type) (\<lambda>d.
     bindE (job_template_identity report_type output_formats inherited_template) (\<lambda>(template_id, template_version).
     Inr [(''accepted_contract_version'', JStr ACCEPTED_DOCUMENT_CONTRACT_VERSION),
       (''report_family_id'', JStr (rf_report_family_id d)),
       (''report_type'', JStr (rf_report_type d)),
       (''input_snapshot_contract_version'',
          JStr (or_else (rf_input_snapshot_contract_version d) snapshot_version)),
       (''report_data_contract_version'', JStr (rf_report_data_contract_version d)),
       (''render_package_version'', JStr GOVERNED_RENDER_PACKAGE_VERSION),
       (''template_id'', jopt template_id),
       (''template_version'', jopt template_version),
       (''locale'', JStr GOVERNED_LOCALE),
       (''brand_variant'', JStr GOVERNED_BRAND_VARIANT),
       (''standard_disclosure_ref'', JStr (rf_standard_disclosure_ref d))]))"

text \<open>The composite product profiles, in the order in which later ones win.\<close>

definition composite_profiles :: "(string \<times> string) list" where
  "composite_profiles = [(''composite_source_products'', ''v2''), (''composite_linked_selection'', ''v3''),
     (''composite_eligibility_selection'', ''v4''), (''composite_pooled_selection'', ''v5''),
     (''composite_source_context'', ''v8''), (''composite_notice_selection'', ''v9'')]"

definition profile_version :: "string \<times> string \<Rightarrow> json \<Rightarrow> string res" where
  "profile_version profile value =
     (if fst profile = ''composite_eligibility_selection''
      then case value of
          JObj d \<Rightarrow> (let selected = jget d ''selection_version'' in
             if unhashable selected then Inl (PyTypeError ''unhashable'')
             else Inr (if selected = JStr ''v2'' then ''v6'' else if selected = JStr ''v3'' then ''v7'' else ''v4''))
        | _ \<Rightarrow> Inl (PyAttributeError ''get'')
      else Inr (snd profile))"

definition apply_profile :: "jobj \<Rightarrow> string \<times> string \<Rightarrow> jobj \<Rightarrow> jobj res" where
  "apply_profile options profile contract =
     (case dget options (fst profile) of None \<Rightarrow> Inr contract | Some value \<Rightarrow>
      bindE (profile_version profile value) (\<lambda>version.
      let c1 = dset contract ''report_data_contract_version'' (JStr (''composite_review.'' @ version));
          c2 = dset c1 ''input_snapshot_contract_version'' (JStr (''composite_review.'' @ version)) in
      Inr (if jget c2 ''template_id'' \<noteq> JNull then dset c2 ''template_version'' (JStr version) else c2)))"

definition apply_composite_contract :: "jobj \<Rightarrow> jobj \<Rightarrow> jobj res" where
  "apply_composite_contract contract options = foldE (apply_profile options) composite_profiles contract"

definition resolve_job_accepted_contract ::
    "string \<Rightarrow> string \<Rightarrow> string list \<Rightarrow> template_pair option \<Rightarrow> jobj option \<Rightarrow> jobj \<Rightarrow> jobj res" where
  "resolve_job_accepted_contract snapshot_version report_type output_formats inherited_template
       inherited_contract options =
     (case inherited_contract of Some c \<Rightarrow> Inr c | None \<Rightarrow>
      bindE (accepted_document_contract report_type output_formats snapshot_version inherited_template) (\<lambda>contract.
      if report_type = ''composite_review'' \<and> options \<noteq> []
      then apply_composite_contract contract options else Inr contract))"

definition composite_contract_versions :: "string list" where
  "composite_contract_versions = map (\<lambda>v. ''composite_review.'' @ v)
     [''v2'', ''v3'', ''v4'', ''v5'', ''v6'', ''v7'', ''v8'', ''v9'']"

definition template_for_accepted_contract :: "jobj \<Rightarrow> template_pair \<Rightarrow> template_pair res" where
  "template_for_accepted_contract contract resolved =
     (let version = jget contract ''report_data_contract_version'' in
      if unhashable version then Inl (PyTypeError ''unhashable'')
      else Inr (case version of
          JStr v \<Rightarrow> if v \<in> set composite_contract_versions
                    then (jstr (jget contract ''template_id''), jstr (jget contract ''template_version''))
                    else resolved
        | _ \<Rightarrow> resolved))"

section \<open>The stamped template is the contract's\<close>

definition contract_pair :: "jobj \<Rightarrow> template_pair" where
  "contract_pair c = (jstr (jget c ''template_id''), jstr (jget c ''template_version''))"

lemma jget_dset [simp]: "jget (dset d k v) k' = (if k' = k then v else jget d k')"
  by (simp add: jget_def)

lemma jstr_simps [simp]: "jstr (jopt v) = v" "jstr (JStr t) = Some t"
  by (cases v) (simp_all add: jstr_def)

lemma accepted_contract_pair:
  assumes "accepted_document_contract rt fmts sv inh = Inr c"
  shows "job_template_identity rt fmts inh = Inr (contract_pair c)
    \<and> (\<exists>d \<in> set REPORT_FAMILY_DEFINITIONS. rf_report_type d = rt
        \<and> jget c ''report_data_contract_version'' = JStr (rf_report_data_contract_version d))"
proof -
  obtain d i v where d: "resolve_report_family rt = Inr d" and p: "job_template_identity rt fmts inh = Inr (i, v)"
    and c: "jget c ''template_id'' = jopt i" "jget c ''template_version'' = jopt v"
      "jget c ''report_data_contract_version'' = JStr (rf_report_data_contract_version d)"
    using assms by (auto simp: accepted_document_contract_def jget_def dget_def)
  have "d \<in> set REPORT_FAMILY_DEFINITIONS" "rf_report_type d = rt"
    using d by (auto simp: resolve_report_family_def split: option.splits dest: fetch_SomeD)
  then show ?thesis using p c by (auto simp: contract_pair_def)
qed

text \<open>After a profile was applied the contract names a composite version with an override.\<close>

definition profiled :: "jobj \<Rightarrow> bool" where
  "profiled c \<longleftrightarrow> (\<exists>v \<in> set composite_contract_versions. jget c ''report_data_contract_version'' = JStr v)"

lemma profile_version_known:
  "p \<in> set composite_profiles \<Longrightarrow> profile_version p value = Inr v \<Longrightarrow>
   ''composite_review.'' @ v \<in> set composite_contract_versions"
  by (auto simp: profile_version_def composite_profiles_def composite_contract_versions_def Let_def
      split: json.splits if_splits)

lemma apply_profile_cases:
  assumes "p \<in> set composite_profiles" "apply_profile options p c = Inr c'"
  shows "c' = c \<or> profiled c'"
  using assms profile_version_known [OF assms(1)]
  by (auto simp: apply_profile_def profiled_def Let_def split: option.splits)

lemma apply_composite_cases:
  assumes "apply_composite_contract c options = Inr c'"
  shows "c' = c \<or> profiled c'"
proof -
  have "foldE (apply_profile options) ps c = Inr c' \<Longrightarrow> set ps \<subseteq> set composite_profiles \<Longrightarrow> c' = c \<or> profiled c'"
    for ps c
  proof (induction ps arbitrary: c)
    case (Cons p ps)
    then obtain c1 where c1: "apply_profile options p c = Inr c1" "foldE (apply_profile options) ps c1 = Inr c'"
      by auto
    then show ?case using Cons.IH [OF c1(2)] apply_profile_cases [of p options c c1] Cons.prems(2) by auto
  qed simp
  then show ?thesis using assms by (simp add: apply_composite_contract_def)
qed

lemma base_not_profiled: "d \<in> set REPORT_FAMILY_DEFINITIONS \<Longrightarrow>
    rf_report_data_contract_version d \<notin> set composite_contract_versions"
  by (auto simp: REPORT_FAMILY_DEFINITIONS_def composite_contract_versions_def)

text \<open>
  Acceptance stamps one presentation contract: for every acceptance that mints its contract,
  the template pair written on the job row is exactly the template id and version the persisted
  contract names, for every report type, output format, option set and inherited pair, the composite
  profiles that move the version included.
\<close>

theorem stamped_template_matches_contract:
  assumes contract: "resolve_job_accepted_contract sv rt fmts inh None options = Inr c"
    and pair: "job_template_identity rt fmts inh = Inr resolved"
  shows "template_for_accepted_contract c resolved = Inr (contract_pair c)"
proof -
  obtain c0 where c0: "accepted_document_contract rt fmts sv inh = Inr c0"
    and c: "c = c0 \<or> profiled c"
    using contract apply_composite_cases by (auto simp: resolve_job_accepted_contract_def split: if_splits)
  note base = accepted_contract_pair [OF c0]
  then have resolved: "resolved = contract_pair c0" using pair by simp
  show ?thesis
  proof (cases "profiled c")
    case True
    then show ?thesis by (auto simp: template_for_accepted_contract_def profiled_def contract_pair_def)
  next
    case False
    then have "c = c0" using c by blast
    moreover obtain d where "d \<in> set REPORT_FAMILY_DEFINITIONS"
      "jget c0 ''report_data_contract_version'' = JStr (rf_report_data_contract_version d)"
      using base by blast
    ultimately show ?thesis
      using resolved base_not_profiled by (simp add: template_for_accepted_contract_def)
  qed
qed

theorem stamped_template_matches_contract_witness:
  "\<exists>c. resolve_job_accepted_contract ''v1'' ''composite_review'' [''xlsx''] None None
        [(''composite_source_context'', JObj [])] = Inr c
     \<and> template_for_accepted_contract c (Some ''composite-review'', Some ''v1'')
         = Inr (Some ''composite-review'', Some ''v8'')"
proof -
  let ?run = "resolve_job_accepted_contract ''v1'' ''composite_review'' [''xlsx''] None None
        [(''composite_source_context'', JObj [])]"
  have "map_sum (\<lambda>_. ()) contract_pair ?run = Inr (Some ''composite-review'', Some ''v8'')" by code_simp
  then obtain c where c: "?run = Inr c" "contract_pair c = (Some ''composite-review'', Some ''v8'')"
    by (cases ?run) auto
  have "job_template_identity ''composite_review'' [''xlsx''] None = Inr (Some ''composite-review'', Some ''v1'')"
    by code_simp
  from stamped_template_matches_contract [OF c(1) this] c show ?thesis by auto
qed

end
