(* ===== verification/Job_Creation.thy ===== *)
theory Job_Creation
  imports Admission Replay_Lineage Template_Resolution Work_Ledger
begin

text \<open>
  Creating a report job (\<open>_create_report_job\<close> and the methods that call it in
  \<open>src/src/app/reporting_jobs/ledger.py\<close>, with \<open>src/src/app/reporting_jobs/replay_policy.py\<close>): the
  resolution of an idempotency key, the guard that lets a failed job have one replacement only, and
  the rows a new job is made of.

  \<open>deployment\<close> holds what the operation reads from outside the repository's own code: the
  configured snapshot contract version and the two Pydantic validations, of a stored binding and of a
  composite request rebuilt from stored options (\<open>None\<close> for a validation error).
\<close>

section \<open>Arguments\<close>

record deployment =
  dp_contract_version :: string
  dp_load_binding :: binding_loader
  dp_validate_composite :: "jobj \<Rightarrow> composite_request option"

text \<open>The keyword arguments of \<open>_create_report_job\<close>.\<close>

record creation =
  cx_report_type :: string
  cx_accepted_message :: string
  cx_request :: job_request
  cx_caller :: caller_context
  cx_idempotency_key :: "string option"
  cx_enqueue :: bool
  cx_replay_source :: "string option"
  cx_replay_reason :: string
  cx_inherited_template :: "template_pair option"
  cx_inherited_contract :: "jobj option"
  cx_admission :: "admission option"

text \<open>What is computed before the ledger is locked.\<close>

record preparation =
  pp_parts :: request_parts
  pp_template :: template_pair
  pp_contract :: jobj
  pp_key :: string
  pp_hash :: string

definition prepare_creation :: "deployment \<Rightarrow> env \<Rightarrow> creation \<Rightarrow> preparation res" where
  "prepare_creation dp e c =
     bindE (require (\<not> py_blank (cx_idempotency_key c))
              (MissingIdempotencyKeyError ''missing_idempotency_key'')) (\<lambda>_.
     bindE (request_parts_of (cx_request c)) (\<lambda>parts.
     bindE (require_internal_admission e (cx_request c) (rp_options parts)
              (cc_tenant_id (cx_caller c)) (cx_admission c)) (\<lambda>_.
     bindE (job_template_identity (cx_report_type c) (rp_output_formats parts)
              (cx_inherited_template c)) (\<lambda>identity.
     bindE (resolve_job_accepted_contract (dp_contract_version dp) (cx_report_type c)
              (rp_output_formats parts) (cx_inherited_template c) (cx_inherited_contract c)
              (rp_options parts)) (\<lambda>contract.
     bindE (template_for_accepted_contract contract identity) (\<lambda>pair.
     bindE (compute_request_hash e (cx_report_type c) (cx_request c) (cx_caller c) False) (\<lambda>hash.
     Inr \<lparr>pp_parts = parts, pp_template = pair, pp_contract = contract,
          pp_key = (case cx_idempotency_key c of None \<Rightarrow> [] | Some k \<Rightarrow> py_strip k),
          pp_hash = hash\<rparr>)))))))"

section \<open>An existing request\<close>

definition resolve_existing ::
    "deployment \<Rightarrow> env \<Rightarrow> creation \<Rightarrow> preparation \<Rightarrow> request_row \<Rightarrow> job_record ledger_tx" where
  "resolve_existing dp e c p existing =
     tx_bind (load_by_request_id (r_id existing)) (\<lambda>record.
     tx_bind (tx_require (\<not> (r_request_hash existing \<noteq> pp_hash p
                 \<and> pp_hash p \<noteq> client_identity_hash_from_record e record))
               (IdempotencyConflictError ''idempotency_key_reused_with_different_request'')) (\<lambda>_.
     tx_bind (tx_lift (require_same_admission (dp_load_binding dp) record (cx_admission c))) (\<lambda>_.
     tx_bind (if requires_work_item (cx_enqueue c) (lr_custody_policy record)
              then ensure_work_item (sub_env 0 e) record else tx_return ()) (\<lambda>_.
     tx_return record))))"

section \<open>The guard of a replay\<close>

text \<open>\<open>not_replayable\<close> is the error of every refused replay.\<close>

definition not_replayable :: err where
  "not_replayable = InvalidReportJobTransitionError ''report_job_cannot_be_replayed''"

definition replay_guard :: "string \<Rightarrow> job_row ledger_tx" where
  "replay_guard source_id =
     tx_bind (tx_get (\<lambda>s. lineage_root s source_id)) (\<lambda>root.
     tx_bind (tx_get (find_job source_id)) (\<lambda>source_row.
     case source_row of None \<Rightarrow> tx_raise (ReportJobNotFoundError ''report_job_not_found'')
     | Some source \<Rightarrow>
       tx_bind (tx_require (\<not> (j_status source \<noteq> Failed \<or> \<not> j_retry_eligible source
                   \<or> truthy (j_archive_document_id source))) not_replayable) (\<lambda>_.
       tx_bind (tx_get (\<lambda>s. live_replacement s root source_id)) (\<lambda>live.
       tx_bind (tx_require (\<not> live) not_replayable) (\<lambda>_.
       tx_return source)))))"

section \<open>The rows of a new job\<close>

definition new_request_row ::
    "creation \<Rightarrow> preparation \<Rightarrow> string \<Rightarrow> jobj \<Rightarrow> dt \<Rightarrow> request_row" where
  "new_request_row c p request_id options now =
     \<lparr>r_id = request_id, r_report_type = cx_report_type c,
      r_portfolio_scope = sorted_obj (rp_portfolio_scope (pp_parts p)),
      r_output_formats = sort (rp_output_formats (pp_parts p)),
      r_as_of_date = rp_as_of_date (pp_parts p),
      r_reporting_currency = rp_reporting_currency (pp_parts p),
      r_options = sorted_obj options,
      r_trigger_type = cc_trigger_type (cx_caller c), r_triggered_by = cc_triggered_by (cx_caller c),
      r_caller_application = cc_caller_application (cx_caller c),
      r_tenant_id = cc_tenant_id (cx_caller c), r_region = cc_region (cx_caller c),
      r_booking_center_code = cc_booking_center_code (cx_caller c), r_role = cc_role (cx_caller c),
      r_idempotency_key = pp_key p, r_request_hash = pp_hash p,
      r_correlation_id = cc_correlation_id (cx_caller c), r_trace_id = cc_trace_id (cx_caller c),
      r_created_at = dt_to_text now\<rparr>"

definition new_job_row ::
    "creation \<Rightarrow> preparation \<Rightarrow> string \<Rightarrow> string \<Rightarrow> dt \<Rightarrow> string option \<Rightarrow> job_row" where
  "new_job_row c p request_id job_id now policy =
     \<lparr>j_id = job_id, j_request_id = request_id, j_report_type = cx_report_type c,
      j_portfolio_scope = sorted_obj (rp_portfolio_scope (pp_parts p)), j_status = Accepted,
      j_failure_category = None, j_failure_message = None, j_current_step = ''accepted'',
      j_retry_eligible = False, j_cancel_requested = False, j_created_at = dt_to_text now,
      j_updated_at = dt_to_text now, j_started_at = None, j_completed_at = None,
      j_cancelled_at = None, j_render_job_id = None, j_render_output_format = None,
      j_render_template_id = fst (pp_template p), j_render_template_version = snd (pp_template p),
      j_render_template_publication = None, j_render_artifact_sha256 = None,
      j_render_fingerprint = None, j_render_runtime_engine = None,
      j_render_runtime_engine_version = None, j_render_duration_ms = None,
      j_archive_request_id = None, j_archive_document_id = None, j_archive_completed_at = None,
      j_accepted_contract = Some (sorted_obj (pp_contract p)), j_custody_policy = policy,
      j_offer_body = None, j_offer_sha256 = None, j_offer_size = None, j_offer_version = None,
      j_offer_generation = 0, j_custody_state = None, j_custody_epoch = 0,
      j_custody_initial_count = 0, j_custody_dispatch_count = 0, j_custody_poll_count = 0,
      j_custody_window_started_at = None, j_custody_next_attempt_at = None,
      j_custody_reason = None, j_custody_verification = None\<rparr>"

text \<open>The two inserts; the custody policy is asked between them, when the job's values are built.\<close>

definition insert_request_and_job ::
    "env \<Rightarrow> creation \<Rightarrow> request_row \<Rightarrow> (string option \<Rightarrow> job_row) \<Rightarrow> unit ledger_tx" where
  "insert_request_and_job e c r j =
     tx_bind (insert_request r) (\<lambda>_.
     tx_bind (tx_lift (acceptance_policy e (cx_report_type c) (cc_tenant_id (cx_caller c))
                (cc_region (cx_caller c)))) (\<lambda>policy.
     insert_job (j policy)))"

definition replay_relationship ::
    "creation \<Rightarrow> string \<Rightarrow> job_row \<Rightarrow> job_record \<Rightarrow> dt \<Rightarrow> relationship_row" where
  "replay_relationship c relationship_id source record now =
     \<lparr>rel_id = relationship_id, rel_source = j_id source, rel_derived = lr_job_id record,
      rel_type = Failed_work_replay, rel_source_status = j_status source,
      rel_derived_status = lr_status record, rel_source_failure = j_failure_category source,
      rel_derived_failure = None, rel_archive_consequence = None, rel_previous_document = None,
      rel_new_document = None, rel_actor = cc_triggered_by (cx_caller c),
      rel_reason = cx_replay_reason c, rel_created_at = dt_to_text now,
      rel_updated_at = dt_to_text now\<rparr>"

definition new_request_id :: "env \<Rightarrow> string" where "new_request_id e = ''rrq_'' @ uuid4_hex e 1"
definition new_job_id :: "env \<Rightarrow> string" where "new_job_id e = ''rjob_'' @ uuid4_hex e 2"

definition insert_new_job ::
    "env \<Rightarrow> creation \<Rightarrow> preparation \<Rightarrow> job_row option \<Rightarrow> job_record ledger_tx" where
  "insert_new_job e c p source =
     (let now = utc_now e 0; request_id = new_request_id e; job_id = new_job_id e;
          caller = cx_caller c in
      tx_bind (tx_lift (bind_admission (rp_options (pp_parts p)) (cx_admission c) request_id job_id
                 (cc_correlation_id caller) (cc_trace_id caller))) (\<lambda>options.
      tx_bind (insert_request_and_job e c (new_request_row c p request_id options now)
                 (new_job_row c p request_id job_id now)) (\<lambda>_.
      tx_bind (append_status_event (sub_env 3 e) job_id None Accepted ''job_accepted''
                 (Some (cx_accepted_message c)) (Some [(''report_type'', JStr (cx_report_type c))])
                 (Some (pp_key p)) (cc_triggered_by caller) (cc_correlation_id caller)
                 (cc_trace_id caller) now) (\<lambda>_.
      tx_bind (load_by_request_id request_id) (\<lambda>record.
      tx_bind (case source of None \<Rightarrow> tx_return ()
               | Some src \<Rightarrow> insert_relationship_or_nothing
                   (replay_relationship c (''rjr_'' @ uuid4_hex e 4) src record now)) (\<lambda>_.
      tx_bind (if requires_work_item (cx_enqueue c) (lr_custody_policy record)
               then ensure_work_item (sub_env 5 e) record else tx_return ()) (\<lambda>_.
      tx_return record)))))))"

definition create_report_job :: "deployment \<Rightarrow> env \<Rightarrow> creation \<Rightarrow> job_record ledger_tx" where
  "create_report_job dp e c =
     tx_bind (tx_lift (prepare_creation dp e c)) (\<lambda>p.
     tx_bind (tx_get (\<lambda>s. fetch (\<lambda>r. r_tenant_id r = cc_tenant_id (cx_caller c)
                                   \<and> r_idempotency_key r = pp_key p) (requests s))) (\<lambda>existing.
     case existing of Some r \<Rightarrow> resolve_existing dp e c p r
     | None \<Rightarrow>
       (case cx_replay_source c of None \<Rightarrow> insert_new_job e c p None
        | Some source_id \<Rightarrow> tx_bind (replay_guard source_id) (\<lambda>source.
            insert_new_job e c p (Some source)))))"

section \<open>The public methods\<close>

definition new_job ::
    "string \<Rightarrow> string \<Rightarrow> job_request \<Rightarrow> caller_context \<Rightarrow> string option \<Rightarrow> bool \<Rightarrow> creation" where
  "new_job report_type message request caller key enqueue =
     \<lparr>cx_report_type = report_type, cx_accepted_message = message, cx_request = request,
      cx_caller = caller, cx_idempotency_key = key, cx_enqueue = enqueue, cx_replay_source = None,
      cx_replay_reason = ''Replay of failed report work.'', cx_inherited_template = None,
      cx_inherited_contract = None, cx_admission = None\<rparr>"

definition submit_composite_review_job ::
    "deployment \<Rightarrow> env \<Rightarrow> composite_request \<Rightarrow> caller_context \<Rightarrow> string option \<Rightarrow> admission option
     \<Rightarrow> job_record ledger_tx" where
  "submit_composite_review_job dp e request caller key admission =
     tx_bind (tx_lift (primary_selection request)) (\<lambda>sel.
     tx_bind (tx_require (sel_tenant_id sel = cc_tenant_id caller)
                (ValueError ''COMPOSITE_REPORT_TENANT_MISMATCH'')) (\<lambda>_.
     create_report_job dp e ((new_job ''composite_review'' ''Composite review dataset job accepted.''
       (Composite_review request) caller key True)\<lparr>cx_admission := admission\<rparr>)))"

definition create_portfolio_review_job ::
    "deployment \<Rightarrow> env \<Rightarrow> portfolio_review_request \<Rightarrow> caller_context \<Rightarrow> string option
     \<Rightarrow> job_record ledger_tx" where
  "create_portfolio_review_job dp e request caller key =
     create_report_job dp e (new_job ''portfolio_review'' ''Portfolio review report job accepted.''
       (Portfolio_review request) caller key False)"

definition submit_portfolio_review_job ::
    "deployment \<Rightarrow> env \<Rightarrow> portfolio_review_request \<Rightarrow> caller_context \<Rightarrow> string option
     \<Rightarrow> job_record ledger_tx" where
  "submit_portfolio_review_job dp e request caller key =
     create_report_job dp e (new_job ''portfolio_review'' ''Portfolio review report job accepted.''
       (Portfolio_review request) caller key True)"

definition create_outcome_review_report_job ::
    "deployment \<Rightarrow> env \<Rightarrow> managed_request \<Rightarrow> caller_context \<Rightarrow> string option \<Rightarrow> job_record ledger_tx" where
  "create_outcome_review_report_job dp e request caller key =
     create_report_job dp e (new_job ''outcome_review'' ''Outcome review report job accepted.''
       (Outcome_review request) caller key False)"

definition create_proof_pack_report_job ::
    "deployment \<Rightarrow> env \<Rightarrow> managed_request \<Rightarrow> caller_context \<Rightarrow> string option \<Rightarrow> job_record ledger_tx" where
  "create_proof_pack_report_job dp e request caller key =
     create_report_job dp e (new_job ''proof_pack'' ''Proof-pack report job accepted.''
       (Proof_pack request) caller key False)"

definition create_wave_report_job ::
    "deployment \<Rightarrow> env \<Rightarrow> managed_request \<Rightarrow> caller_context \<Rightarrow> string option \<Rightarrow> job_record ledger_tx" where
  "create_wave_report_job dp e request caller key =
     create_report_job dp e (new_job ''rebalance_wave'' ''Rebalance wave report job accepted.''
       (Wave request) caller key False)"

section \<open>Replay\<close>

definition archive_absence_confirmed :: "jobj \<Rightarrow> bool" where
  "archive_absence_confirmed payload =
     (case jget payload ''error'' of JObj d \<Rightarrow> jget d ''code'' = JStr ''document_not_found'' | _ \<Rightarrow> False)"

definition resolution_replay_supported :: "job_record \<Rightarrow> bool" where
  "resolution_replay_supported job =
     (let contract = jget (case lr_accepted_contract job of None \<Rightarrow> [] | Some c \<Rightarrow> c) ''report_data_contract_version'';
          template = (if contract = JStr ''composite_review.v8'' then Some ''v8''
                      else if contract = JStr ''composite_review.v9'' then Some ''v9'' else None) in
      lr_report_type job = ''portfolio_review''
      \<or> (lr_report_type job = ''composite_review'' \<and> lr_requested_output_formats job = [''xlsx'']
         \<and> lr_accepted_contract job \<noteq> None \<and> template \<noteq> None
         \<and> lr_render_template_id job = Some ''composite-review''
         \<and> lr_render_template_version job = template))"

definition composite_replay_payload :: "job_record \<Rightarrow> jobj" where
  "composite_replay_payload job =
     (let options = lr_options job;
          rest = filter (\<lambda>kv. fst kv \<notin> {''composite_selection'', ''composite_source_context'',
            ''composite_source_products'', ''composite_notice_selection'', BINDING_OPTION}) options in
      [(''selection'', jget options ''composite_selection''),
       (''source_context'', jget options ''composite_source_context''),
       (''source_products'', jget options ''composite_source_products''),
       (''notice_selection'', jget options ''composite_notice_selection''),
       (''requested_output_formats'', JList (map JStr (lr_requested_output_formats job))),
       (''options'', JObj rest)])"

definition composite_replay_request :: "deployment \<Rightarrow> job_record \<Rightarrow> composite_request res" where
  "composite_replay_request dp job =
     (case dp_validate_composite dp (composite_replay_payload job) of
        None \<Rightarrow> Inl (ValueError ''ValidationError'') | Some q \<Rightarrow> Inr q)"

definition replay_request :: "deployment \<Rightarrow> job_record \<Rightarrow> job_request res" where
  "replay_request dp job =
     (if lr_report_type job = ''composite_review''
      then bindE (composite_replay_request dp job) (\<lambda>q. Inr (Composite_review q))
      else Inr (Portfolio_review \<lparr>pq_portfolio_scope = lr_portfolio_scope job,
        pq_as_of_date = lr_as_of_date job, pq_output_formats = lr_requested_output_formats job,
        pq_reporting_currency = lr_reporting_currency job, pq_options = lr_options job,
        pq_narrative_package = None, pq_memo_package = None\<rparr>))"

text \<open>The admission a replayed composite job inherits; the request must be the recorded one.\<close>

definition replay_admission :: "deployment \<Rightarrow> job_record \<Rightarrow> job_request \<Rightarrow> admission option res" where
  "replay_admission dp source request =
     (if lr_report_type source \<noteq> ''composite_review'' then Inr None
      else bindE (composite_replay_request dp source) (\<lambda>recorded.
        bindE (require (request = Composite_review recorded) not_replayable) (\<lambda>_.
        if jget (case lr_accepted_contract source of None \<Rightarrow> [] | Some c \<Rightarrow> c) ''report_data_contract_version''
             \<noteq> JStr ''composite_review.v9''
        then bindE (binding_for_job (dp_load_binding dp) source) (\<lambda>b. Inr (Some (tb_admission b)))
        else Inr None)))"

definition replay_creation ::
    "job_record \<Rightarrow> job_request \<Rightarrow> caller_context \<Rightarrow> string option \<Rightarrow> string \<Rightarrow> admission option \<Rightarrow> creation" where
  "replay_creation source request caller key reason admission =
     \<lparr>cx_report_type = lr_report_type source,
      cx_accepted_message = (if lr_report_type source = ''portfolio_review''
        then ''Portfolio review report job accepted.'' else ''Composite review recovery job accepted.''),
      cx_request = request, cx_caller = caller, cx_idempotency_key = key, cx_enqueue = False,
      cx_replay_source = Some (lr_job_id source), cx_replay_reason = reason,
      cx_inherited_template = Some (lr_render_template_id source, lr_render_template_version source),
      cx_inherited_contract = lr_accepted_contract source, cx_admission = admission\<rparr>"

text \<open>The source job is read in a transaction of its own, before the creating one.\<close>

definition create_replay_derived_job ::
    "deployment \<Rightarrow> env \<Rightarrow> job_record \<Rightarrow> job_request \<Rightarrow> caller_context \<Rightarrow> string option \<Rightarrow> string
     \<Rightarrow> job_record ledger_tx" where
  "create_replay_derived_job dp e source request caller key reason =
     tx_bind (tx_require (resolution_replay_supported source) not_replayable) (\<lambda>_.
     tx_bind (tx_lift (replay_admission dp source request)) (\<lambda>admission.
     create_report_job dp e (replay_creation source request caller key reason admission)))"

section \<open>What creation keeps\<close>

lemma keeps_insert_request_and_job [keeps_intros]:
  assumes "\<And>policy. j_request_id (j policy) = r_id r"
  shows "keeps ledger_rel (insert_request_and_job e c r j)"
proof (rule keepsI)
  fix s u s' assume "insert_request_and_job e c r j s = Inr (u, s')"
  then obtain policy where "tx_bind (insert_request r) (\<lambda>_. insert_job (j policy)) s = Inr (u, s')"
    unfolding insert_request_and_job_def tx_bind_eq by auto
  then show "ledger_rel s s'"
    using keepsD [OF ledger_insert_request_job [OF assms]] by blast
qed

lemma keeps_resolve_existing [keeps_intros]: "keeps ledger_rel (resolve_existing dp e c p r)"
  unfolding resolve_existing_def by (intro ledger_rules keeps_intros)

lemma keeps_replay_guard [keeps_intros]: "keeps ledger_rel (replay_guard source_id)"
  unfolding replay_guard_def by (intro ledger_rules keeps_intros)

lemma keeps_insert_new_job [keeps_intros]: "keeps ledger_rel (insert_new_job e c p source)"
  unfolding insert_new_job_def
  by (intro ledger_rules keeps_intros) (simp add: new_job_row_def new_request_row_def)

lemma keeps_create_report_job [keeps_intros]: "keeps ledger_rel (create_report_job dp e c)"
  unfolding create_report_job_def by (intro ledger_rules keeps_intros)

lemma keeps_create_methods [keeps_intros]:
  "keeps ledger_rel (submit_composite_review_job dp e q caller key a)"
  "keeps ledger_rel (create_portfolio_review_job dp e pq caller key)"
  "keeps ledger_rel (submit_portfolio_review_job dp e pq caller key)"
  "keeps ledger_rel (create_outcome_review_report_job dp e mq caller key)"
  "keeps ledger_rel (create_proof_pack_report_job dp e mq caller key)"
  "keeps ledger_rel (create_wave_report_job dp e mq caller key)"
  "keeps ledger_rel (create_replay_derived_job dp e source request caller key reason)"
  unfolding submit_composite_review_job_def create_portfolio_review_job_def submit_portfolio_review_job_def
    create_outcome_review_report_job_def create_proof_pack_report_job_def create_wave_report_job_def
    create_replay_derived_job_def
  by (intro ledger_rules keeps_intros)+

section \<open>What creation does\<close>

definition created_rows ::
    "env \<Rightarrow> creation \<Rightarrow> preparation \<Rightarrow> request_row \<Rightarrow> job_row \<Rightarrow> bool" where
  "created_rows e c p r j \<longleftrightarrow>
     (\<exists>options policy.
        bind_admission (rp_options (pp_parts p)) (cx_admission c) (new_request_id e) (new_job_id e)
          (cc_correlation_id (cx_caller c)) (cc_trace_id (cx_caller c)) = Inr options
      \<and> acceptance_policy e (cx_report_type c) (cc_tenant_id (cx_caller c)) (cc_region (cx_caller c)) = Inr policy
      \<and> r = new_request_row c p (new_request_id e) options (utc_now e 0)
      \<and> j = new_job_row c p (new_request_id e) (new_job_id e) (utc_now e 0) policy)"

lemma ensure_work_item_effect:
  "ensure_work_item e rec s = Inr (u, s') \<Longrightarrow>
   requests s' = requests s \<and> jobs s' = jobs s \<and> events s' = events s
   \<and> relationships s' = relationships s \<and> attempts s' = attempts s"
  by (auto simp: ensure_work_item_def insert_work_or_ignore_def Let_def split: if_splits)

lemma insert_request_and_job_effect:
  assumes "insert_request_and_job e c r j s = Inr (u, s')"
  obtains policy where
    "acceptance_policy e (cx_report_type c) (cc_tenant_id (cx_caller c)) (cc_region (cx_caller c)) = Inr policy"
    "s' = s\<lparr>requests := requests s @ [r], jobs := jobs s @ [j policy]\<rparr>"
    "r_id r \<notin> r_id ` set (requests s)" "j_id (j policy) \<notin> j_id ` set (jobs s)"
  using assms unfolding insert_request_and_job_def
  by (auto elim!: tx_bindE simp: insert_request_def insert_job_def split: if_splits)

lemma insert_new_job_effect:
  assumes inv: "schema_inv s" and run: "insert_new_job e c p source s = Inr (rec, s')"
  obtains r j where "created_rows e c p r j" "rec = record_from_row r j"
    "requests s' = requests s @ [r]" "jobs s' = jobs s @ [j]"
    "j_id j \<notin> set (job_ids s)" "r_id r \<notin> r_id ` set (requests s)"
    "relationships s' = relationships s @ (case source of None \<Rightarrow> [] | Some src \<Rightarrow>
       [replay_relationship c (''rjr_'' @ uuid4_hex e 4) src rec (utc_now e 0)])"
    "attempts s' = attempts s"
proof -
  let ?rid = "new_request_id e" and ?jid = "new_job_id e" and ?now = "utc_now e 0"
  obtain options s1 s2 s3 s4 where
    o: "bind_admission (rp_options (pp_parts p)) (cx_admission c) ?rid ?jid
          (cc_correlation_id (cx_caller c)) (cc_trace_id (cx_caller c)) = Inr options"
    and s1: "insert_request_and_job e c (new_request_row c p ?rid options ?now)
               (new_job_row c p ?rid ?jid ?now) s = Inr ((), s1)"
    and s2: "append_status_event (sub_env 3 e) ?jid None Accepted ''job_accepted''
               (Some (cx_accepted_message c)) (Some [(''report_type'', JStr (cx_report_type c))])
               (Some (pp_key p)) (cc_triggered_by (cx_caller c)) (cc_correlation_id (cx_caller c))
               (cc_trace_id (cx_caller c)) ?now s1 = Inr ((), s2)"
    and ld: "load_by_request_id ?rid s2 = Inr (rec, s2)"
    and s3: "(case source of None \<Rightarrow> tx_return () | Some src \<Rightarrow> insert_relationship_or_nothing
               (replay_relationship c (''rjr_'' @ uuid4_hex e 4) src rec ?now)) s2 = Inr ((), s3)"
    and s4: "(if requires_work_item (cx_enqueue c) (lr_custody_policy rec)
               then ensure_work_item (sub_env 5 e) rec else tx_return ()) s3 = Inr ((), s')"
    using run unfolding insert_new_job_def Let_def
    by (elim tx_bindE) (auto simp: load_by_request_id_def split: option.splits)
  obtain policy where pol: "acceptance_policy e (cx_report_type c) (cc_tenant_id (cx_caller c))
      (cc_region (cx_caller c)) = Inr policy"
    and s1': "s1 = s\<lparr>requests := requests s @ [new_request_row c p ?rid options ?now],
      jobs := jobs s @ [new_job_row c p ?rid ?jid ?now policy]\<rparr>"
    and fr: "r_id (new_request_row c p ?rid options ?now) \<notin> r_id ` set (requests s)"
      "j_id (new_job_row c p ?rid ?jid ?now policy) \<notin> j_id ` set (jobs s)"
    using s1 by (rule insert_request_and_job_effect)
  let ?r = "new_request_row c p ?rid options ?now" and ?j = "new_job_row c p ?rid ?jid ?now policy"
  have ids: "r_id ?r = ?rid" "j_id ?j = ?jid" "j_request_id ?j = ?rid"
    by (simp_all add: new_request_row_def new_job_row_def)
  obtain v where s2': "s2 = s1\<lparr>events := events s1 @ [v]\<rparr>" using s2 by (elim append_event_Inr) blast
  have "\<forall>j \<in> set (jobs s). j_request_id j \<noteq> ?rid"
    using inv fr(1) ids(1) unfolding schema_inv_def jobs_ok_def by metis
  then have none: "fetch (\<lambda>j. j_request_id j = ?rid) (jobs s) = None"
    "fetch (\<lambda>r. r_id r = ?rid) (requests s) = None"
    using fr(1) ids(1) unfolding fetch_None by (blast, metis imageI)
  then have rec: "rec = record_from_row ?r ?j"
    using ld ids by (simp add: load_by_request_id_def s2' s1' find_request_def fetch_append del: fetch_None)
  have jid: "lr_job_id rec = ?jid" using rec ids by (simp add: record_from_row_def)
  have "?jid \<notin> rel_derived ` set (relationships s)"
    using inv fr(2) ids by (force simp: schema_inv_def relationships_ok_def job_ids_def)
  then have "relationships s3 = relationships s @ (case source of None \<Rightarrow> [] | Some src \<Rightarrow>
       [replay_relationship c (''rjr_'' @ uuid4_hex e 4) src rec ?now])
      \<and> requests s3 = requests s2 \<and> jobs s3 = jobs s2 \<and> attempts s3 = attempts s2"
    using s3 jid
    by (cases source) (auto simp: insert_relationship_or_nothing_def s2' s1' rel_identity_def
        replay_relationship_def split: if_splits)
  moreover have "requests s' = requests s3 \<and> jobs s' = jobs s3 \<and> relationships s' = relationships s3
      \<and> attempts s' = attempts s3"
    using s4 ensure_work_item_effect [of "sub_env 5 e" rec s3 "()" s'] by (auto split: if_splits)
  ultimately show thesis
    using that [of ?r ?j] rec fr o pol ids s1' s2'
    by (auto simp: created_rows_def job_ids_def)
qed

section \<open>Retrying a creation\<close>

lemma map_of_filter: "map_of xs k = (case filter (\<lambda>kv. fst kv = k) xs of [] \<Rightarrow> None | kv # _ \<Rightarrow> Some (snd kv))"
  by (induction xs) auto

lemma dget_sorted_obj_any: "dget (sorted_obj d) k = map_option jsort (dget d k)"
proof -
  have "map_of (sort_key fst xs) k = map_of xs k" for xs :: jobj
    by (simp add: map_of_filter sort_key_stable)
  then show ?thesis using dget_map [of jsort d k] by (simp add: sorted_obj_def dget_def)
qed

lemma set_dkeys_sorted_obj [simp]: "set (dkeys (sorted_obj d)) = set (dkeys d)"
  by (simp add: sorted_obj_def dkeys_def image_image)

lemma prepare_env:
  assumes "env_sha256 e' = env_sha256 e"
  shows "prepare_creation dp e' c = prepare_creation dp e c"
proof -
  have d: "digest e' = digest e" using assms by (simp add: digest_def fun_eq_iff)
  have a: "require_admission e' = require_admission e"
    unfolding require_admission_def selector_set_for_def d ..
  have "require_internal_admission e' = require_internal_admission e"
    unfolding require_internal_admission_def a ..
  moreover have "compute_request_hash e' = compute_request_hash e"
    using assms by (simp add: compute_request_hash_def client_identity_hash_def fun_eq_iff)
  ultimately show ?thesis by (simp add: prepare_creation_def)
qed

lemma record_fields [simp]:
  "lr_options (record_from_row r j) = r_options r" "lr_job_id (record_from_row r j) = j_id j"
  "lr_request_id (record_from_row r j) = r_id r" "lr_tenant_id (record_from_row r j) = r_tenant_id r"
  "lr_correlation_id (record_from_row r j) = r_correlation_id r"
  "lr_trace_id (record_from_row r j) = r_trace_id r" "lr_status (record_from_row r j) = j_status j"
  "lr_custody_policy (record_from_row r j) = j_custody_policy j"
  "lr_report_type (record_from_row r j) = r_report_type r" "lr_region (record_from_row r j) = r_region r"
  by (simp_all add: record_from_row_def)

lemma record_hash_row: "client_identity_hash_from_record e (record_from_row r j)
    = client_identity_hash_from_record e (record_from_row r j')"
  by (simp add: client_identity_hash_from_record_def record_from_row_def record_parts_def)

lemma same_admission_row: "j_id j' = j_id j \<Longrightarrow>
    require_same_admission load (record_from_row r j') a = require_same_admission load (record_from_row r j) a"
  by (cases a; cases "load (jget (r_options r) BINDING_OPTION)")
    (simp_all add: require_same_admission_def binding_for_job_def)

lemma ensure_work_item_ok:
  assumes "lr_job_id rec \<in> j_id ` set (jobs s)"
  shows "\<exists>s'. ensure_work_item e rec s = Inr ((), s')"
  using assms by (simp add: ensure_work_item_def insert_work_or_ignore_def Let_def)

text \<open>A key whose request matches resolves to the job it has, and writes no request and no job.\<close>

lemma resolve_existing_ok:
  assumes inv: "schema_inv s" and r: "find_request (j_request_id j) s = Some r" and j: "find_job (j_id j) s = Some j"
    and hash: "r_request_hash r = pp_hash p
      \<or> pp_hash p = client_identity_hash_from_record e (record_from_row r j)"
    and adm: "require_same_admission (dp_load_binding dp) (record_from_row r j) (cx_admission c) = Inr ()"
  shows "\<exists>s'. resolve_existing dp e c p r s = Inr (record_from_row r j, s')
    \<and> requests s' = requests s \<and> jobs s' = jobs s"
proof -
  have id: "r_id r = j_request_id j" using find_request_SomeD [OF r] by simp
  have "j_id j \<in> j_id ` set (jobs s)" using find_job_SomeD [OF j] by blast
  then obtain s' where s': "ensure_work_item (sub_env 0 e) (record_from_row r j) s = Inr ((), s')"
    using ensure_work_item_ok [of "record_from_row r j" s "sub_env 0 e"] by auto
  show ?thesis
    unfolding resolve_existing_def id
    using load_unique [OF inv j r] hash adm s' ensure_work_item_effect [OF s']
    by (auto simp: tx_run)
qed

lemma find_request_iff:
  assumes "schema_inv s"
  shows "find_request rid s = Some r \<longleftrightarrow> r \<in> set (requests s) \<and> r_id r = rid"
  using keyed_fetch [OF schema_distinct(4) [OF assms]]
  by (auto simp: find_request_def dest!: fetch_SomeD)

lemma load_by_request_id_Inr:
  assumes "load_by_request_id i s = Inr (rec, s')"
  shows "\<exists>r j. find_request i s = Some r \<and> fetch (\<lambda>j. j_request_id j = i) (jobs s) = Some j
    \<and> rec = record_from_row r j \<and> s' = s"
  using assms by (simp add: load_by_request_id_def split: option.splits)

lemma resolve_existing_run:
  assumes inv: "schema_inv s" and mem: "r \<in> set (requests s)"
    and run: "resolve_existing dp e c p r s = Inr (rec, s')"
  obtains j where "find_job (j_id j) s = Some j" "find_request (j_request_id j) s = Some r"
    "rec = record_from_row r j" "r_request_hash r = pp_hash p
      \<or> pp_hash p = client_identity_hash_from_record e (record_from_row r j)"
    "require_same_admission (dp_load_binding dp) (record_from_row r j) (cx_admission c) = Inr ()"
    "requests s' = requests s" "jobs s' = jobs s"
proof -
  obtain s1 where ld: "load_by_request_id (r_id r) s = Inr (rec, s1)"
    and h: "r_request_hash r = pp_hash p \<or> pp_hash p = client_identity_hash_from_record e rec"
    and a: "require_same_admission (dp_load_binding dp) rec (cx_admission c) = Inr ()"
    and en: "(if requires_work_item (cx_enqueue c) (lr_custody_policy rec)
              then ensure_work_item (sub_env 0 e) rec else tx_return ()) s1 = Inr ((), s')"
    using run unfolding resolve_existing_def by (elim tx_bindE) (simp_all, metis)
  obtain r' j where rj: "find_request (r_id r) s = Some r'" "j \<in> set (jobs s)" "j_request_id j = r_id r"
    and rec: "rec = record_from_row r' j" and s1: "s1 = s"
    using load_by_request_id_Inr [OF ld] by (elim exE conjE) (drule fetch_SomeD, blast)
  have "r' = r"
    using rj(1) mem find_request_iff [OF inv, of "r_id r" r] by simp
  moreover have "find_job (j_id j) s = Some j" using rj(2) find_job_iff [OF inv] by blast
  moreover have "requests s' = requests s \<and> jobs s' = jobs s"
    using en s1 ensure_work_item_effect [of "sub_env 0 e" rec s "()" s'] by (auto split: if_splits)
  ultimately show thesis using that [of j] rj rec h a by auto
qed

end
