(* ===== verification/Creation_Laws.thy ===== *)
theory Creation_Laws
  imports Job_Creation Ledger_Samples
begin

text \<open>
  What the creation of report jobs guarantees: an idempotency key names one job for good, reusing
  it for another intent is refused, and a failed job has at most one live replacement.
\<close>

section \<open>The job a key stands for\<close>

text \<open>\<open>keyed_job\<close>: a creation prepared as \<open>p\<close> resolves to job \<open>j\<close> of request \<open>r\<close>.\<close>

abbreviation request_for :: "ledger \<Rightarrow> creation \<Rightarrow> preparation \<Rightarrow> request_row option" where
  "request_for s c p \<equiv> fetch (\<lambda>r. r_tenant_id r = cc_tenant_id (cx_caller c)
     \<and> r_idempotency_key r = pp_key p) (requests s)"

definition keyed_job ::
    "deployment \<Rightarrow> env \<Rightarrow> creation \<Rightarrow> preparation \<Rightarrow> ledger \<Rightarrow> request_row \<Rightarrow> job_row \<Rightarrow> bool" where
  "keyed_job dp e c p s r j \<longleftrightarrow>
     request_for s c p = Some r \<and> find_job (j_id j) s = Some j \<and> find_request (j_request_id j) s = Some r
     \<and> (r_request_hash r = pp_hash p \<or> pp_hash p = client_identity_hash_from_record e (record_from_row r j))
     \<and> require_same_admission (dp_load_binding dp) (record_from_row r j) (cx_admission c) = Inr ()"

text \<open>What a successful preparation computed.\<close>

lemma prepare_creation_Inr:
  assumes "prepare_creation dp e c = Inr p"
  shows "request_parts_of (cx_request c) = Inr (pp_parts p)"
    "require_internal_admission e (cx_request c) (rp_options (pp_parts p))
       (cc_tenant_id (cx_caller c)) (cx_admission c) = Inr ()"
    "\<exists>identity. job_template_identity (cx_report_type c) (rp_output_formats (pp_parts p))
         (cx_inherited_template c) = Inr identity
       \<and> template_for_accepted_contract (pp_contract p) identity = Inr (pp_template p)"
    "resolve_job_accepted_contract (dp_contract_version dp) (cx_report_type c)
       (rp_output_formats (pp_parts p)) (cx_inherited_template c) (cx_inherited_contract c)
       (rp_options (pp_parts p)) = Inr (pp_contract p)"
    "pp_hash p = client_identity_hash e (cx_report_type c) (pp_parts p) (cc_tenant_id (cx_caller c))
       (cc_region (cx_caller c)) True"
    "\<exists>key. cx_idempotency_key c = Some key \<and> pp_key p = py_strip key"
  using assms by (auto simp: prepare_creation_def compute_request_hash_def py_blank_def split: option.splits)

lemma prepare_admission_tenant:
  assumes "prepare_creation dp e c = Inr p" "cx_admission c = Some a"
  shows "ad_tenant_id a = cc_tenant_id (cx_caller c)"
  using prepare_creation_Inr(2) [OF assms(1)] assms(2)
  by (auto simp: require_internal_admission_def require_admission_def Let_def
      split: job_request.splits if_splits)

text \<open>Reading back the binding a job was created with.\<close>

definition binding_roundtrip :: "deployment \<Rightarrow> admission option \<Rightarrow> bool" where
  "binding_roundtrip dp admission \<longleftrightarrow>
     (\<forall>b. admission = Some (tb_admission b) \<longrightarrow> dp_load_binding dp (jsort (binding_dump b)) = Some b)"

lemma created_admission:
  assumes "created_rows e c p r j" and "binding_roundtrip dp (cx_admission c)"
    and "prepare_creation dp e c = Inr p"
  shows "require_same_admission (dp_load_binding dp) (record_from_row r j) (cx_admission c) = Inr ()"
proof -
  let ?caller = "cx_caller c"
  obtain options policy where o: "bind_admission (rp_options (pp_parts p)) (cx_admission c)
      (new_request_id e) (new_job_id e) (cc_correlation_id ?caller) (cc_trace_id ?caller) = Inr options"
    and r: "r = new_request_row c p (new_request_id e) options (utc_now e 0)"
    and j: "j = new_job_row c p (new_request_id e) (new_job_id e) (utc_now e 0) policy"
    using assms(1) unfolding created_rows_def by blast
  show ?thesis
  proof (cases "cx_admission c")
    case None
    then have "BINDING_OPTION \<notin> set (dkeys options)"
      using o by (auto simp: bind_admission_def)
    then show ?thesis using None r by (simp add: require_same_admission_def new_request_row_def)
  next
    case (Some a)
    let ?b = "\<lparr>tb_admission = a, tb_request_id = new_request_id e, tb_job_id = new_job_id e,
      tb_correlation_id = cc_correlation_id ?caller, tb_trace_id = cc_trace_id ?caller\<rparr>"
    have "options = dset (rp_options (pp_parts p)) BINDING_OPTION (binding_dump ?b)"
      using o Some by (auto simp: bind_admission_def)
    then have "jget (r_options r) BINDING_OPTION = jsort (binding_dump ?b)"
      using r by (simp add: new_request_row_def jget_def dget_sorted_obj_any)
    moreover have "dp_load_binding dp (jsort (binding_dump ?b)) = Some ?b"
      using assms(2) Some unfolding binding_roundtrip_def by simp
    moreover have "ad_tenant_id a = cc_tenant_id ?caller"
      by (rule prepare_admission_tenant [OF assms(3) Some])
    ultimately show ?thesis
      using Some r j by (simp add: require_same_admission_def binding_for_job_def new_request_row_def new_job_row_def)
  qed
qed

lemma created_key:
  assumes "created_rows e c p r j"
  shows "r_tenant_id r = cc_tenant_id (cx_caller c)" "r_idempotency_key r = pp_key p"
    "r_request_hash r = pp_hash p" "j_request_id j = r_id r"
  using assms by (auto simp: created_rows_def new_request_row_def new_job_row_def)

text \<open>After a creation, new or resolved, its key names the job it returned.\<close>

lemma replay_guard_state: "replay_guard i s = Inr (j, s') \<Longrightarrow> s' = s"
  by (auto simp: replay_guard_def elim!: tx_bindE split: option.splits)

lemma create_report_job_run:
  assumes "create_report_job dp e c s = Inr (rec, s')"
  obtains p r where "prepare_creation dp e c = Inr p" "request_for s c p = Some r"
      "resolve_existing dp e c p r s = Inr (rec, s')"
  | p source where "prepare_creation dp e c = Inr p" "request_for s c p = None"
      "case cx_replay_source c of None \<Rightarrow> source = None
       | Some i \<Rightarrow> \<exists>j. source = Some j \<and> replay_guard i s = Inr (j, s)"
      "insert_new_job e c p source s = Inr (rec, s')"
proof -
  obtain p where p: "prepare_creation dp e c = Inr p"
    and run: "(case request_for s c p of Some r \<Rightarrow> resolve_existing dp e c p r
       | None \<Rightarrow> (case cx_replay_source c of None \<Rightarrow> insert_new_job e c p None
           | Some i \<Rightarrow> tx_bind (replay_guard i) (\<lambda>source. insert_new_job e c p (Some source)))) s = Inr (rec, s')"
    using assms unfolding create_report_job_def by (auto elim!: tx_bindE)
  show thesis
  proof (cases "request_for s c p")
    case (Some r)
    then show thesis using that(1) [OF p Some] run by (simp only: option.case)
  next
    case None
    show thesis
    proof (cases "cx_replay_source c")
      case None
      then show thesis using that(2) [OF p \<open>request_for s c p = None\<close>, of None] run \<open>request_for s c p = None\<close>
        by (simp only: option.case)
    next
      case (Some i)
      then obtain j s1 where "replay_guard i s = Inr (j, s1)" "insert_new_job e c p (Some j) s1 = Inr (rec, s')"
        using run \<open>request_for s c p = None\<close> by (simp only: option.case) (elim tx_bindE)
      moreover from this(1) have "s1 = s" by (rule replay_guard_state)
      ultimately show thesis using that(2) [OF p \<open>request_for s c p = None\<close>, of "Some j"] Some by simp
    qed
  qed
qed

lemma create_novel_run:
  assumes "create_report_job dp e c s = Inr (rec, s')" "prepare_creation dp e c = Inr p" "request_for s c p = None"
  obtains source where "insert_new_job e c p source s = Inr (rec, s')"
    "case cx_replay_source c of None \<Rightarrow> source = None
     | Some i \<Rightarrow> \<exists>j. source = Some j \<and> replay_guard i s = Inr (j, s)"
  using assms(1)
proof (rule create_report_job_run)
  fix q r assume "prepare_creation dp e c = Inr q" "request_for s c q = Some r"
  then show thesis using assms(2,3) by (simp del: fetch_None)
next
  fix q source assume "prepare_creation dp e c = Inr q" "insert_new_job e c q source s = Inr (rec, s')"
    "case cx_replay_source c of None \<Rightarrow> source = None
     | Some i \<Rightarrow> \<exists>j. source = Some j \<and> replay_guard i s = Inr (j, s)"
  then show thesis using that [of source] assms(2) by (simp del: fetch_None)
qed

lemma create_keyed_job:
  assumes inv: "schema_inv s" and run: "create_report_job dp e c s = Inr (rec, s')"
    and load: "binding_roundtrip dp (cx_admission c)"
  obtains p r j where "prepare_creation dp e c = Inr p" "keyed_job dp e c p s' r j" "rec = record_from_row r j"
  using run
proof (rule create_report_job_run)
  fix p r assume p: "prepare_creation dp e c = Inr p" and r: "request_for s c p = Some r"
    and res: "resolve_existing dp e c p r s = Inr (rec, s')"
  have "r \<in> set (requests s)" using fetch_SomeD [OF r] by blast
  from resolve_existing_run [OF inv this res] obtain j where
    "find_job (j_id j) s = Some j" "find_request (j_request_id j) s = Some r" "rec = record_from_row r j"
    "r_request_hash r = pp_hash p \<or> pp_hash p = client_identity_hash_from_record e (record_from_row r j)"
    "require_same_admission (dp_load_binding dp) (record_from_row r j) (cx_admission c) = Inr ()"
    "requests s' = requests s" "jobs s' = jobs s" .
  then show thesis using that [OF p, of r j] r by (simp add: keyed_job_def find_job_def find_request_def)
next
  fix p source assume p: "prepare_creation dp e c = Inr p" and none: "request_for s c p = None"
    and ins: "insert_new_job e c p source s = Inr (rec, s')"
  from insert_new_job_effect [OF inv ins] obtain r j where cr: "created_rows e c p r j"
    and rec: "rec = record_from_row r j" and req: "requests s' = requests s @ [r]" and job: "jobs s' = jobs s @ [j]"
    and fr: "j_id j \<notin> set (job_ids s)" "r_id r \<notin> r_id ` set (requests s)" .
  have "schema_inv s'"
    using keepsD [OF keeps_insert_new_job ins] inv by (simp add: ledger_rel_def schema_rel_def)
  then have "find_job (j_id j) s' = Some j" "find_request (r_id r) s' = Some r"
    using req job find_job_iff [of s' "j_id j" j] find_request_iff [of s' "r_id r" r] by simp_all
  moreover have "request_for s' c p = Some r"
    using none created_key [OF cr] by (simp add: req fetch_append del: fetch_None)
  ultimately show thesis
    using that [OF p _ rec] created_key [OF cr] created_admission [OF cr load p] by (simp add: keyed_job_def)
qed


text \<open>The key keeps naming the job through every later operation, and for a caller of the same scope.\<close>

lemma prepare_caller:
  assumes "cc_tenant_id caller = cc_tenant_id (cx_caller c)" "cc_region caller = cc_region (cx_caller c)"
  shows "prepare_creation dp e (c\<lparr>cx_caller := caller\<rparr>) = prepare_creation dp e c"
  by (simp add: prepare_creation_def compute_request_hash_def assms)

lemma keyed_job_later:
  assumes k: "keyed_job dp e c p s r j" and rel: "history_rel s s'" and sha: "env_sha256 e' = env_sha256 e"
  obtains j' where "keyed_job dp e' c p s' r j'" "j_id j' = j_id j"
proof -
  obtain rs where "requests s' = requests s @ rs" using rel unfolding history_rel_def by blast
  then have "request_for s' c p = Some r" using k by (simp add: keyed_job_def fetch_append_Some)
  moreover have "find_request (j_request_id j) s' = Some r"
    using history_find_request [OF rel] k by (simp add: keyed_job_def)
  moreover obtain j' where j': "find_job (j_id j) s' = Some j'" "job_evolves j j'"
    using history_find_job [OF rel] k unfolding keyed_job_def by blast
  moreover have ids: "j_id j' = j_id j" "j_request_id j' = j_request_id j" using j'(2) by (simp_all add: job_evolves_def)
  moreover have "client_identity_hash_from_record e' (record_from_row r j')
      = client_identity_hash_from_record e (record_from_row r j)"
    using record_hash_row [of e r j' j] sha
    by (simp add: client_identity_hash_from_record_def client_identity_hash_def)
  ultimately have "keyed_job dp e' c p s' r j'"
    using k same_admission_row [OF ids(1)] by (simp add: keyed_job_def)
  then show thesis using that ids(1) by blast
qed

lemma create_existing:
  "prepare_creation dp e c = Inr p \<Longrightarrow> request_for s c p = Some r \<Longrightarrow>
   create_report_job dp e c s = resolve_existing dp e c p r s"
  unfolding create_report_job_def by (simp add: tx_run)

lemma create_new:
  "prepare_creation dp e c = Inr p \<Longrightarrow> request_for s c p = None \<Longrightarrow> cx_replay_source c = None \<Longrightarrow>
   create_report_job dp e c s = insert_new_job e c p None s"
  unfolding create_report_job_def by (simp add: tx_run del: fetch_None)

lemma create_replay:
  "prepare_creation dp e c = Inr p \<Longrightarrow> request_for s c p = None \<Longrightarrow> cx_replay_source c = Some i \<Longrightarrow>
   replay_guard i s = Inr (j, s') \<Longrightarrow>
   create_report_job dp e c s = insert_new_job e c p (Some j) s'"
  unfolding create_report_job_def by (simp add: tx_run del: fetch_None)

lemma keyed_job_create:
  assumes inv: "schema_inv s" and p: "prepare_creation dp e c = Inr p" and k: "keyed_job dp e c p s r j"
  shows "\<exists>s'. create_report_job dp e c s = Inr (record_from_row r j, s')
    \<and> requests s' = requests s \<and> jobs s' = jobs s"
proof -
  have "create_report_job dp e c s = resolve_existing dp e c p r s"
    using create_existing p k unfolding keyed_job_def by blast
  then show ?thesis using resolve_existing_ok [OF inv] k unfolding keyed_job_def by metis
qed

section \<open>The stored request\<close>

lemma float_texts_sorted_obj: "float_texts (JObj (sorted_obj d)) = float_texts (JObj d)"
  using float_texts_jsort [of "JObj d"] by (simp only: jsort_JObj)

lemma float_texts_dset: "float_texts (JObj d) \<Longrightarrow> float_texts v \<Longrightarrow> float_texts (JObj (dset d k v))"
  by (induction d k v rule: dset.induct) auto

lemma float_texts_jopt [simp]: "float_texts (jopt v)"
  by (cases v) simp_all

lemma float_texts_binding: "float_texts (binding_dump b)"
  by (simp add: binding_dump_def admission_dump_def security_identity_def)

lemma wf_stored_parts:
  assumes "wf_parts p" "\<And>b. binding = Some b \<Longrightarrow> float_texts b"
  shows "wf_parts (stored_parts p binding)"
  using assms unfolding wf_parts_def stored_parts_def
  by (auto simp: dkeys_sorted_obj float_texts_sorted_obj simp del: float_texts.simps
      split: option.split intro: float_texts_dset)

text \<open>The identity recomputed from a created record is the identity of its request.\<close>

definition plain_sets :: "request_parts \<Rightarrow> bool" where
  "plain_sets p \<longleftrightarrow> declared_scalars [''portfolio_ids''] (rp_portfolio_scope p)
     \<and> declared_scalars [''sections'', ''allocation_dimensions''] (rp_options p)"

lemma created_identity:
  assumes cr: "created_rows e c p r j" and wf: "wf_parts (pp_parts p)" "plain_sets (pp_parts p)"
  shows "client_identity_hash_from_record e' (record_from_row r j') =
    client_identity_hash e' (cx_report_type c) (pp_parts p) (cc_tenant_id (cx_caller c))
      (cc_region (cx_caller c)) True"
proof -
  let ?rec = "record_from_row r j'"
  obtain options where
    o: "bind_admission (rp_options (pp_parts p)) (cx_admission c) (new_request_id e) (new_job_id e)
      (cc_correlation_id (cx_caller c)) (cc_trace_id (cx_caller c)) = Inr options"
    and r: "r = new_request_row c p (new_request_id e) options (utc_now e 0)"
    using cr unfolding created_rows_def by blast
  obtain binding where b: "options = (case binding of None \<Rightarrow> rp_options (pp_parts p)
      | Some b \<Rightarrow> dset (rp_options (pp_parts p)) BINDING_OPTION b)" "\<And>b. binding = Some b \<Longrightarrow> float_texts b"
  proof (cases "cx_admission c")
    case None
    then show thesis using o that [of None] by (simp add: bind_admission_def)
  next
    case (Some a)
    then show thesis using o that [of "Some (binding_dump \<lparr>tb_admission = a, tb_request_id = new_request_id e,
        tb_job_id = new_job_id e, tb_correlation_id = cc_correlation_id (cx_caller c),
        tb_trace_id = cc_trace_id (cx_caller c)\<rparr>)"] float_texts_binding
      by (auto simp: bind_admission_def)
  qed
  have "record_parts ?rec = stored_parts (pp_parts p) binding"
    by (simp add: record_parts_def stored_parts_def record_from_row_def r new_request_row_def b(1))
  from stored_identity [OF wf(1) wf_stored_parts [OF wf(1) b(2)] _ _ this] wf(2)
  show ?thesis by (simp add: plain_sets_def r new_request_row_def)
qed

section \<open>Replays\<close>

lemma replay_guard_Inr:
  assumes "replay_guard i s = Inr (j, s')"
  shows "find_job i s = Some j \<and> j_status j = Failed \<and> j_retry_eligible j \<and> \<not> truthy (j_archive_document_id j)
    \<and> \<not> live_replacement s (lineage_root s i) i"
  using assms by (auto simp: replay_guard_def elim!: tx_bindE split: option.splits)

lemma create_replay_run:
  assumes "create_replay_derived_job dp e src request caller key reason s = Inr (rec, s')"
  obtains adm where "resolution_replay_supported src" "replay_admission dp src request = Inr adm"
    "create_report_job dp e (replay_creation src request caller key reason adm) s = Inr (rec, s')"
  using assms unfolding create_replay_derived_job_def by (elim tx_bindE) auto

lemma cx_replay_source_replay [simp]:
  "cx_replay_source (replay_creation src request caller key reason adm) = Some (lr_job_id src)"
  by (simp add: replay_creation_def)

text \<open>Every successful replay under a key the tenant has not used passed the guard.\<close>

definition novel_key :: "ledger \<Rightarrow> caller_context \<Rightarrow> string option \<Rightarrow> bool" where
  "novel_key s caller key \<longleftrightarrow>
     list_all (\<lambda>r. r_tenant_id r = cc_tenant_id caller \<longrightarrow> Some (r_idempotency_key r) \<noteq> map_option py_strip key) (requests s)"

lemma replay_novel_run:
  assumes run: "create_replay_derived_job dp e src request caller key reason s = Inr (rec, s')"
    and novel: "novel_key s caller key"
  obtains adm p j where "prepare_creation dp e (replay_creation src request caller key reason adm) = Inr p"
    "replay_guard (lr_job_id src) s = Inr (j, s)"
    "insert_new_job e (replay_creation src request caller key reason adm) p (Some j) s = Inr (rec, s')"
proof -
  obtain adm where cr: "create_report_job dp e (replay_creation src request caller key reason adm) s = Inr (rec, s')"
    using run by (rule create_replay_run)
  let ?c = "replay_creation src request caller key reason adm"
  obtain p where p: "prepare_creation dp e ?c = Inr p"
    using cr by (rule create_report_job_run) blast+
  have "request_for s ?c p = None"
    using prepare_creation_Inr(6) [OF p] novel
    by (auto simp: novel_key_def replay_creation_def list_all_iff)
  from create_novel_run [OF cr p this] obtain source where
    "insert_new_job e ?c p source s = Inr (rec, s')" "\<exists>j. source = Some j \<and> replay_guard (lr_job_id src) s = Inr (j, s)"
    unfolding cx_replay_source_replay option.case by blast
  then show thesis using that [OF p] by blast
qed

section \<open>Sample creations\<close>

definition sample_caller :: caller_context where
  "sample_caller = \<lparr>cc_trigger_type = ''manual'', cc_triggered_by = ''advisor'',
     cc_caller_application = ''gateway'', cc_tenant_id = ''t1'', cc_region = ''sg'',
     cc_booking_center_code = None, cc_role = None, cc_correlation_id = ''corr'', cc_trace_id = ''trace''\<rparr>"

definition sample_review :: "string \<Rightarrow> portfolio_review_request" where
  "sample_review section = \<lparr>pq_portfolio_scope = [(''portfolio_ids'', JList [JStr ''P1''])],
     pq_as_of_date = 739728, pq_output_formats = [''pdf''], pq_reporting_currency = Some ''USD'',
     pq_options = [(''sections'', JList [JStr section])], pq_narrative_package = None, pq_memo_package = None\<rparr>"

definition sample_deployment :: deployment where
  "sample_deployment = \<lparr>dp_contract_version = ''v1'', dp_load_binding = (\<lambda>_. None), dp_validate_composite = (\<lambda>_. None)\<rparr>"

definition sample_hash_env :: env where "sample_hash_env = sample_env\<lparr>env_sha256 := id\<rparr>"

definition sample_creation :: "string \<Rightarrow> creation" where
  "sample_creation section = new_job ''portfolio_review'' ''Portfolio review report job accepted.''
     (Portfolio_review (sample_review section)) sample_caller (Some '' k9 '') True"

definition sample_failed_job :: job_row where
  "sample_failed_job = sample_job\<lparr>j_status := Failed, j_retry_eligible := True,
     j_failure_category := Some Render_execution_failed,
     j_accepted_contract := Some [(''report_data_contract_version'', JStr ''portfolio_review.v1'')]\<rparr>"

definition sample_source :: job_record where
  "sample_source = record_from_row sample_request sample_failed_job"

abbreviation sample_replay :: "string \<Rightarrow> ledger \<Rightarrow> (job_record \<times> ledger) res" where
  "sample_replay key \<equiv> create_replay_derived_job sample_deployment sample_env sample_source
     (Portfolio_review (sample_review ''OVERVIEW'')) sample_caller (Some key) ''retry''"

lemma Inr_pairE:
  assumes "\<not> isl m" obtains x y where "m = Inr (x, y)"
  using assms by (cases m) auto

definition sample_prepared :: "string \<Rightarrow> string \<Rightarrow> template_pair \<Rightarrow> jobj \<Rightarrow> string \<Rightarrow> preparation" where
  "sample_prepared section key pair contract hash = \<lparr>pp_parts = portfolio_review_parts (sample_review section),
     pp_template = pair, pp_contract = contract, pp_key = key, pp_hash = hash\<rparr>"

abbreviation sample_identity :: "env \<Rightarrow> string \<Rightarrow> string" where
  "sample_identity e section \<equiv> client_identity_hash e ''portfolio_review''
     (portfolio_review_parts (sample_review section)) ''t1'' ''sg'' True"

text \<open>The identity text is left uncomputed, everything else is evaluated.\<close>

lemma sample_prepare:
  obtains contract where "prepare_creation sample_deployment e (sample_creation section)
    = Inr (sample_prepared section ''k9'' (Some ''portfolio-review'', Some ''v2'') contract (sample_identity e section))"
proof -
  let ?pair = "(Some ''portfolio-review'', Some ''v2'')"
  have "case resolve_job_accepted_contract ''v1'' ''portfolio_review'' [''pdf''] None None
      (rp_options (portfolio_review_parts (sample_review section))) of Inl _ \<Rightarrow> False
    | Inr c \<Rightarrow> template_for_accepted_contract c ?pair = Inr ?pair" by code_simp
  then obtain c where "resolve_job_accepted_contract ''v1'' ''portfolio_review'' [''pdf''] None None
      (rp_options (portfolio_review_parts (sample_review section))) = Inr c"
    "template_for_accepted_contract c ?pair = Inr ?pair" by (auto split: sum.splits)
  moreover have "job_template_identity ''portfolio_review'' [''pdf''] None = Inr ?pair"
    "require_internal_admission e (Portfolio_review (sample_review section))
       (rp_options (portfolio_review_parts (sample_review section))) ''t1'' None = Inr ()"
    "rp_output_formats (portfolio_review_parts (sample_review section)) = [''pdf'']"
    "\<not> py_blank (Some '' k9 '')" "py_strip '' k9 '' = ''k9''" by code_simp+
  ultimately show thesis
    using that [of c] by (simp add: prepare_creation_def sample_creation_def new_job_def sample_deployment_def
        compute_request_hash_def sample_caller_def sample_prepared_def)
qed


lemma sample_prepare_shape:
  obtains p where "prepare_creation sample_deployment e (sample_creation section) = Inr p"
    "\<exists>pair contract hash. p = sample_prepared section ''k9'' pair contract hash"
proof -
  obtain contract where "prepare_creation sample_deployment e (sample_creation section)
    = Inr (sample_prepared section ''k9'' (Some ''portfolio-review'', Some ''v2'') contract (sample_identity e section))"
    by (rule sample_prepare)
  then show thesis by (rule that) (intro exI, rule refl)
qed

lemma sample_create:
  obtains rec s1 where "create_report_job sample_deployment sample_hash_env (sample_creation ''OVERVIEW'')
    (sample_ledger sample_job) = Inr (rec, s1)"
proof -
  let ?c = "sample_creation ''OVERVIEW''" and ?s = "sample_ledger sample_job"
  obtain p where p: "prepare_creation sample_deployment sample_hash_env ?c = Inr p"
    and eq: "\<exists>pair contract hash. p = sample_prepared ''OVERVIEW'' ''k9'' pair contract hash"
    by (rule sample_prepare_shape)
  have "\<not> isl (insert_new_job sample_hash_env ?c (sample_prepared ''OVERVIEW'' ''k9'' pair contract hash) None ?s)"
    for pair contract hash by code_simp
  then have "\<not> isl (insert_new_job sample_hash_env ?c p None ?s)" using eq by blast
  moreover have "request_for ?s ?c p = None" using eq by (auto simp: samples sample_prepared_def)
  moreover have "cx_replay_source ?c = None" by (simp add: sample_creation_def new_job_def)
  ultimately have "\<not> isl (create_report_job sample_deployment sample_hash_env ?c ?s)"
    using create_new [OF p] by (simp del: fetch_None)
  then show thesis using that by (rule Inr_pairE)
qed

text \<open>A replay of the failed sample job, with the facts its single replacement rests on.\<close>

definition live_in :: "ledger \<Rightarrow> string \<Rightarrow> bool" where
  "live_in s i \<longleftrightarrow> (case find_job i s of None \<Rightarrow> False | Some m \<Rightarrow> live_member s m)"

lemma sample_replay_run:
  obtains rec s1 m where "sample_replay ''k2'' (sample_ledger sample_failed_job) = Inr (rec, s1)"
    "novel_key s1 sample_caller (Some ''k3'')" "find_job (lr_job_id rec) s1 = Some m" "live_member s1 m"
proof -
  let ?s = "sample_ledger sample_failed_job"
    and ?c = "replay_creation sample_source (Portfolio_review (sample_review ''OVERVIEW'')) sample_caller
      (Some ''k2'') ''retry'' None"
    and ?p = "sample_prepared ''OVERVIEW'' ''k2'' (Some ''tmpl'', Some ''v2'')
      [(''report_data_contract_version'', JStr ''portfolio_review.v1'')] (sample_identity sample_env ''OVERVIEW'')"
  have pre: "resolution_replay_supported sample_source"
    "replay_admission sample_deployment sample_source (Portfolio_review (sample_review ''OVERVIEW'')) = Inr None"
    by code_simp+
  have "template_for_accepted_contract [(''report_data_contract_version'', JStr ''portfolio_review.v1'')]
      (Some ''tmpl'', Some ''v2'') = Inr (Some ''tmpl'', Some ''v2'')"
    "require_internal_admission sample_env (Portfolio_review (sample_review ''OVERVIEW''))
       (rp_options (portfolio_review_parts (sample_review ''OVERVIEW''))) ''t1'' None = Inr ()"
    "\<not> py_blank (Some ''k2'')" "py_strip ''k2'' = ''k2''" by code_simp+
  then have p: "prepare_creation sample_deployment sample_env ?c = Inr ?p"
    by (simp add: prepare_creation_def replay_creation_def sample_source_def record_from_row_def samples
        sample_failed_job_def compute_request_hash_def sample_caller_def sample_prepared_def
        resolve_job_accepted_contract_def job_template_identity_def)
  have "case insert_new_job sample_env ?c (sample_prepared ''OVERVIEW'' ''k2'' pair contract hash)
      (Some sample_failed_job) ?s of Inl _ \<Rightarrow> False
    | Inr (rec, s1) \<Rightarrow> novel_key s1 sample_caller (Some ''k3'') \<and> live_in s1 (lr_job_id rec)" for pair contract hash
    by code_simp
  then obtain rec s1 where run: "insert_new_job sample_env ?c ?p (Some sample_failed_job) ?s = Inr (rec, s1)"
    and live: "novel_key s1 sample_caller (Some ''k3'')" "live_in s1 (lr_job_id rec)"
    by (fastforce split: sum.splits)
  have "map_sum (\<lambda>_. ()) fst (replay_guard ''rjb_1'' ?s) = Inr sample_failed_job" by code_simp
  then obtain s2 where g: "replay_guard ''rjb_1'' ?s = Inr (sample_failed_job, s2)"
    by (cases "replay_guard ''rjb_1'' ?s") auto
  have "request_for ?s ?c ?p = None" by (simp add: samples sample_prepared_def)
  moreover have "cx_replay_source ?c = Some ''rjb_1''" by code_simp
  ultimately have "create_report_job sample_deployment sample_env ?c ?s = Inr (rec, s1)"
    using create_replay [OF p _ _ g] replay_guard_state [OF g] run by (simp del: fetch_None)
  then have "sample_replay ''k2'' ?s = Inr (rec, s1)"
    unfolding create_replay_derived_job_def using pre by (simp add: tx_run)
  then show thesis using that live by (auto simp: live_in_def split: option.splits)
qed

section \<open>Properties\<close>

lemma create_again:
  assumes inv: "schema_inv s" and first: "create_report_job dp e c s = Inr (rec, s1)"
    and later: "ledger_rel s1 s2" and sha: "env_sha256 e' = env_sha256 e"
    and caller: "cc_tenant_id caller = cc_tenant_id (cx_caller c)" "cc_region caller = cc_region (cx_caller c)"
    and load: "binding_roundtrip dp (cx_admission c)"
  shows "\<exists>rec' s3. create_report_job dp e' (c\<lparr>cx_caller := caller\<rparr>) s2 = Inr (rec', s3)
    \<and> lr_job_id rec' = lr_job_id rec \<and> requests s3 = requests s2 \<and> jobs s3 = jobs s2"
proof -
  obtain p r j where p: "prepare_creation dp e c = Inr p" and k: "keyed_job dp e c p s1 r j"
    and rec: "rec = record_from_row r j"
    by (rule create_keyed_job [OF inv first load])
  have rel: "schema_inv s2" "history_rel s1 s2"
    using keepsD [OF keeps_create_report_job first] later inv by (simp_all add: ledger_rel_def schema_rel_def)
  obtain j' where k': "keyed_job dp e' c p s2 r j'" "j_id j' = j_id j"
    by (rule keyed_job_later [OF k rel(2) sha])
  let ?c = "c\<lparr>cx_caller := caller\<rparr>"
  have "prepare_creation dp e' ?c = Inr p"
    using p prepare_env [OF sha] prepare_caller [OF caller] by simp
  moreover have "keyed_job dp e' ?c p s2 r j'" using k'(1) caller(1) by (simp add: keyed_job_def)
  ultimately show ?thesis using keyed_job_create [OF rel(1)] k'(2) rec by fastforce
qed

lemma create_other_intent:
  assumes inv: "schema_inv s" and p: "prepare_creation dp e c = Inr p" and novel: "request_for s c p = None"
    and first: "create_report_job dp e c s = Inr (rec, s1)" and later: "ledger_rel s1 s2"
    and sha: "env_sha256 e' = env_sha256 e"
    and p': "prepare_creation dp e' c' = Inr p'" and key: "pp_key p' = pp_key p"
    and tenant: "cc_tenant_id (cx_caller c') = cc_tenant_id (cx_caller c)"
    and wf: "wf_parts (pp_parts p)" "wf_parts (pp_parts p')" "plain_sets (pp_parts p)"
    and other: "\<not> (cx_report_type c' = cx_report_type c \<and> cc_region (cx_caller c') = cc_region (cx_caller c)
      \<and> same_request (pp_parts p') (pp_parts p))"
    and collision: "inj_on (env_sha256 e)
      {identity_text (cx_report_type c) (pp_parts p) (cc_tenant_id (cx_caller c)) (cc_region (cx_caller c)),
       identity_text (cx_report_type c') (pp_parts p') (cc_tenant_id (cx_caller c')) (cc_region (cx_caller c'))}"
  shows "create_report_job dp e' c' s2
    = Inl (IdempotencyConflictError ''idempotency_key_reused_with_different_request'')"
proof -
  obtain source where ins: "insert_new_job e c p source s = Inr (rec, s1)"
    by (rule create_novel_run [OF first p novel])
  from insert_new_job_effect [OF inv ins] obtain r j where cr: "created_rows e c p r j"
    and req: "requests s1 = requests s @ [r]" and job: "jobs s1 = jobs s @ [j]" .
  have rel: "schema_inv s1" "schema_inv s2" "history_rel s1 s2"
    using keepsD [OF keeps_create_report_job first] later inv by (simp_all add: ledger_rel_def schema_rel_def)
  obtain rs where s2: "requests s2 = requests s1 @ rs" using rel(3) unfolding history_rel_def by blast
  have fetched: "request_for s2 c' p' = Some r"
    using novel created_key [OF cr] key tenant by (simp add: s2 req fetch_append del: fetch_None)
  obtain j' where j': "find_job (j_id j) s2 = Some j'" "job_evolves j j'"
    using history_find_job [OF rel(3), of "j_id j" j] find_job_iff [OF rel(1), of "j_id j" j] job by auto
  have "j_request_id j' = r_id r" using j'(2) created_key(4) [OF cr] by (simp add: job_evolves_def)
  then have ld: "load_by_request_id (r_id r) s2 = Inr (record_from_row r j', s2)"
    using load_unique [OF rel(2) j'(1), of r] find_request_iff [OF rel(2), of "r_id r" r] by (simp add: s2 req)
  let ?h = "\<lambda>c p. client_identity_hash e (cx_report_type c) (pp_parts p) (cc_tenant_id (cx_caller c))
      (cc_region (cx_caller c)) True"
  have hashes: "r_request_hash r = ?h c p" "pp_hash p' = ?h c' p'"
    "client_identity_hash_from_record e' (record_from_row r j') = ?h c p"
    using created_key(3) [OF cr] prepare_creation_Inr(5) [OF p] prepare_creation_Inr(5) [OF p']
      created_identity [OF cr wf(1,3)] sha by (simp_all add: client_identity_hash_def)
  have "?h c' p' \<noteq> ?h c p"
  proof
    assume "?h c' p' = ?h c p"
    then have "identity_text (cx_report_type c') (pp_parts p') (cc_tenant_id (cx_caller c')) (cc_region (cx_caller c'))
      = identity_text (cx_report_type c) (pp_parts p) (cc_tenant_id (cx_caller c)) (cc_region (cx_caller c))"
      unfolding client_identity_hash_def by (rule inj_onD [OF collision]) (rule insertI2, rule singletonI, rule insertI1)
    then show False using identity_text_eq_iff [OF wf(2,1)] other by blast
  qed
  then have "r_request_hash r \<noteq> pp_hash p'"
    "pp_hash p' \<noteq> client_identity_hash_from_record e' (record_from_row r j')" using hashes by simp_all
  then show ?thesis
    unfolding create_existing [OF p' fetched] resolve_existing_def using ld by (simp add: tx_run)
qed



lemma replay_again:
  assumes inv: "schema_inv s" and novel: "novel_key s caller key"
    and first: "create_replay_derived_job dp e src request caller key reason s = Inr (rec, s1)"
    and later: "ledger_rel s1 s2"
    and live: "find_job (lr_job_id rec) s2 = Some m" "live_member s2 m"
    and second: "lr_job_id src' = lr_job_id src" "novel_key s2 caller' key'"
  shows "create_replay_derived_job dp' e' src' request' caller' key' reason' s2 \<noteq> Inr (rec', s3)"
proof
  assume "create_replay_derived_job dp' e' src' request' caller' key' reason' s2 = Inr (rec', s3)"
  then obtain j where g: "replay_guard (lr_job_id src) s2 = Inr (j, s2)"
    using second by (elim replay_novel_run) auto
  obtain adm p j0 where g0: "replay_guard (lr_job_id src) s = Inr (j0, s)"
    and ins: "insert_new_job e (replay_creation src request caller key reason adm) p (Some j0) s = Inr (rec, s1)"
    by (rule replay_novel_run [OF first novel])
  let ?x = "replay_relationship (replay_creation src request caller key reason adm) (''rjr_'' @ uuid4_hex e 4)
      j0 rec (utc_now e 0)"
  from insert_new_job_effect [OF inv ins] obtain r k where rec: "rec = record_from_row r k"
    and rel: "relationships s1 = relationships s @ [?x]" and fresh: "j_id k \<notin> set (job_ids s)"
    by (simp only: option.case) blast
  have j0: "find_job (lr_job_id src) s = Some j0" using replay_guard_Inr [OF g0] by blast
  then have "lr_job_id src \<in> set (job_ids s)" using find_job_SomeD by (force simp: job_ids_def)
  then have ne: "lr_job_id rec \<noteq> lr_job_id src" using fresh rec by auto
  have "history_rel s1 s2" using later by (simp add: ledger_rel_def)
  then obtain y where y: "y \<in> set (relationships s2)" "rel_identity y = rel_identity ?x"
    using history_relationship rel by (metis in_set_conv_decomp)
  have "j_id j0 = lr_job_id src" using find_job_SomeD [OF j0] by blast
  then have "lr_job_id rec \<in> set (replay_children s2 (lr_job_id src))"
    using y by (force simp: replay_children_def rel_identity_def replay_relationship_def)
  then have "lr_job_id rec \<in> set (lineage s2 (lineage_root s2 (lr_job_id src)))"
    by (rule child_in_lineage [OF source_in_lineage])
  then have "live_replacement s2 (lineage_root s2 (lr_job_id src)) (lr_job_id src)"
    using live ne find_job_SomeD [OF live(1)] unfolding live_replacement_def list_ex_iff
    by (intro bexI [of _ m]) simp_all
  then show False using replay_guard_Inr [OF g] by blast
qed

end
