(* ===== verification/Rerender.thy ===== *)
theory Rerender
  imports Template_Resolution Work_Ledger
begin

text \<open>
  Rerender attempts (\<open>create_rerender_attempt\<close>, \<open>record_adopted_rerender_outcome\<close>,
  \<open>mark_rerender_*\<close>, \<open>_update_rerender_attempt\<close> and the two listings of
  \<open>src/src/app/reporting_jobs/ledger.py\<close>): corrections of an archived report, one attempt per job and
  idempotency key, each with a render job and possibly an archived correction document.

  The record a method returns has the fields of the row it read, so the model returns the row. The
  \<open>NOT NULL\<close> template columns are an \<open>IntegrityError\<close> of the insert.
\<close>

section \<open>Attempts\<close>

definition find_attempt :: "string \<Rightarrow> ledger \<Rightarrow> rerender_row option" where
  "find_attempt aid s = fetch (\<lambda>a. rr_id a = aid) (attempts s)"

definition attempt_for_key :: "string \<Rightarrow> string \<Rightarrow> ledger \<Rightarrow> rerender_row option" where
  "attempt_for_key job_id key s = fetch (\<lambda>a. rr_job_id a = job_id \<and> rr_key a = key) (attempts s)"

text \<open>\<open>SELECT * ... WHERE rerender_attempt_id = ?\<close> with \<open>assert row is not None\<close>.\<close>

definition read_attempt :: "string \<Rightarrow> rerender_row ledger_tx" where
  "read_attempt aid = tx_bind (tx_get (find_attempt aid)) (\<lambda>row.
     case row of None \<Rightarrow> tx_raise (RuntimeError ''AssertionError'') | Some a \<Rightarrow> tx_return a)"

definition required_key :: "string \<Rightarrow> string res" where
  "required_key idempotency_key =
     bindE (require (\<not> py_blank (Some idempotency_key)) (MissingIdempotencyKeyError ''missing_idempotency_key''))
       (\<lambda>_. Inr (py_strip idempotency_key))"

section \<open>A new attempt\<close>

definition new_attempt_row ::
    "job_record \<Rightarrow> dt \<Rightarrow> string \<Rightarrow> string \<Rightarrow> string \<times> string \<Rightarrow> string \<Rightarrow> string \<times> string
     \<Rightarrow> string \<Rightarrow> string \<Rightarrow> string \<Rightarrow> string \<Rightarrow> rerender_row" where
  "new_attempt_row job now attempt_id key snapshot output_format template actor reason correlation_id trace_id =
     \<lparr>rr_id = attempt_id, rr_job_id = lr_job_id job, rr_key = key, rr_status = Rr_rendering,
      rr_snapshot_id = fst snapshot, rr_snapshot_hash = snd snapshot,
      rr_previous_render_job_id = lr_render_job_id job, rr_previous_document = lr_archive_document_id job,
      rr_render_job_id = ''rdr_'' @ attempt_id @ ''_'' @ output_format,
      rr_output_format = output_format, rr_template_id = fst template, rr_template_version = snd template,
      rr_artifact_sha256 = None, rr_fingerprint = None, rr_runtime_engine = None,
      rr_runtime_engine_version = None, rr_duration_ms = None, rr_archive_request_id = None,
      rr_archive_document_id = None, rr_archive_completed_at = None, rr_failure_category = None,
      rr_failure_message = None, rr_retry_eligible = False, rr_requested_by = actor, rr_reason = reason,
      rr_correlation_id = correlation_id, rr_trace_id = trace_id, rr_created_at = dt_to_text now,
      rr_updated_at = dt_to_text now\<rparr>"

text \<open>\<open>a or b\<close> on optional strings, and the \<open>NOT NULL\<close> column it is written to.\<close>

definition str_or :: "string option \<Rightarrow> string option \<Rightarrow> string option" where
  "str_or a b = (if truthy a then a else b)"

definition not_null :: "string \<Rightarrow> string option \<Rightarrow> string ledger_tx" where
  "not_null column v = (case v of None \<Rightarrow> tx_raise (IntegrityError (''NOT NULL '' @ column)) | Some x \<Rightarrow> tx_return x)"

definition new_attempt_id :: "env \<Rightarrow> string" where "new_attempt_id e = ''rrnd_'' @ uuid4_hex e 1"

definition create_rerender_attempt ::
    "env \<Rightarrow> job_record \<Rightarrow> string \<Rightarrow> string \<Rightarrow> string \<Rightarrow> string \<Rightarrow> string \<Rightarrow> string \<Rightarrow> string
     \<Rightarrow> (rerender_row \<times> bool) ledger_tx" where
  "create_rerender_attempt e job snapshot_id snapshot_hash idempotency_key actor reason correlation_id trace_id =
     tx_bind (tx_lift (required_key idempotency_key)) (\<lambda>key.
     tx_bind (tx_get (attempt_for_key (lr_job_id job) key)) (\<lambda>existing.
     case existing of Some a \<Rightarrow> tx_return (a, False)
     | None \<Rightarrow>
       (let now = utc_now e 0; attempt_id = new_attempt_id e;
            output_format = or_else (lr_render_output_format job) ''pdf'' in
        tx_bind (tx_lift (job_template_identity (lr_report_type job) [output_format] None)) (\<lambda>identity.
        tx_bind (not_null ''render_template_id'' (str_or (lr_render_template_id job) (fst identity))) (\<lambda>template_id.
        tx_bind (not_null ''render_template_version'' (str_or (lr_render_template_version job) (snd identity))) (\<lambda>template_version.
        tx_bind (insert_attempt (new_attempt_row job now attempt_id key (snapshot_id, snapshot_hash) output_format
                   (template_id, template_version) actor reason correlation_id trace_id)) (\<lambda>_.
        tx_bind (append_status_event (sub_env 2 e) (lr_job_id job) (Some (lr_status job)) (lr_status job)
                   ''job_rerender_requested''
                   (Some (''Report rerender requested from snapshot '' @ snapshot_id @ ''.''))
                   (Some [(''snapshot_id'', JStr snapshot_id), (''snapshot_hash'', JStr snapshot_hash),
                          (''rerender_attempt_id'', JStr attempt_id)])
                   (Some key) actor correlation_id trace_id now) (\<lambda>_.
        tx_bind (read_attempt attempt_id) (\<lambda>a.
        tx_return (a, True))))))))))"

section \<open>Adopting a committed correction\<close>

definition adopted_attempt_row ::
    "job_record \<Rightarrow> string \<Rightarrow> string \<Rightarrow> rerender_row \<Rightarrow> string \<Rightarrow> string \<Rightarrow> string \<Rightarrow> string \<Rightarrow> string
     \<Rightarrow> dt \<Rightarrow> rerender_row" where
  "adopted_attempt_row job attempt_id key adopted archive_document_id actor reason correlation_id trace_id now =
     \<lparr>rr_id = attempt_id, rr_job_id = lr_job_id job, rr_key = key, rr_status = Rr_archived,
      rr_snapshot_id = rr_snapshot_id adopted, rr_snapshot_hash = rr_snapshot_hash adopted,
      rr_previous_render_job_id = rr_previous_render_job_id adopted,
      rr_previous_document = rr_previous_document adopted,
      rr_render_job_id = rr_render_job_id adopted, rr_output_format = ''pdf'',
      rr_template_id = ''portfolio-review'', rr_template_version = ''v1'',
      rr_artifact_sha256 = None, rr_fingerprint = None, rr_runtime_engine = None,
      rr_runtime_engine_version = None, rr_duration_ms = None,
      rr_archive_request_id = Some (''arch_'' @ rr_render_job_id adopted),
      rr_archive_document_id = Some archive_document_id, rr_archive_completed_at = Some (dt_to_text now),
      rr_failure_category = None, rr_failure_message = None, rr_retry_eligible = False,
      rr_requested_by = actor, rr_reason = reason, rr_correlation_id = correlation_id,
      rr_trace_id = trace_id, rr_created_at = dt_to_text now, rr_updated_at = dt_to_text now\<rparr>"

definition record_adopted_rerender_outcome ::
    "env \<Rightarrow> job_record \<Rightarrow> string \<Rightarrow> string \<Rightarrow> string \<Rightarrow> string \<Rightarrow> string \<Rightarrow> rerender_row \<Rightarrow> string
     \<Rightarrow> rerender_row ledger_tx" where
  "record_adopted_rerender_outcome e job idempotency_key actor reason correlation_id trace_id adopted
       archive_document_id =
     tx_bind (tx_lift (required_key idempotency_key)) (\<lambda>key.
     tx_bind (tx_get (attempt_for_key (lr_job_id job) key)) (\<lambda>existing.
     case existing of Some a \<Rightarrow> tx_return a
     | None \<Rightarrow>
       (let now = utc_now e 0; attempt_id = new_attempt_id e in
        tx_bind (insert_attempt (adopted_attempt_row job attempt_id key adopted archive_document_id actor
                   reason correlation_id trace_id now)) (\<lambda>_.
        tx_bind (append_status_event (sub_env 2 e) (lr_job_id job) (Some (lr_status job)) (lr_status job)
                   ''job_rerender_archived''
                   (Some (''Rerender adopted committed correction '' @ archive_document_id
                      @ '' from attempt '' @ rr_id adopted @ ''.''))
                   (Some [(''archive_document_id'', JStr archive_document_id),
                          (''rerender_attempt_id'', JStr attempt_id),
                          (''adopted_from_attempt_id'', JStr (rr_id adopted))])
                   (Some key) actor correlation_id trace_id now) (\<lambda>_.
        read_attempt attempt_id)))))"

section \<open>Progress of an attempt\<close>

text \<open>The optional arguments of \<open>_update_rerender_attempt\<close>.\<close>

record attempt_update =
  au_status :: rerender_status
  au_render_job_id :: "string option"
  au_artifact_sha256 :: "string option"
  au_fingerprint :: "string option"
  au_runtime_engine :: "string option"
  au_runtime_engine_version :: "string option"
  au_duration_ms :: "int option"
  au_archive_request_id :: "string option"
  au_archive_document_id :: "string option"
  au_archive_completed_at :: "dt option"
  au_failure_category :: "failure_category option"
  au_failure_message :: "string option"
  au_retry_eligible :: "bool option"
  au_clear_failure :: bool

definition plain_update :: "rerender_status \<Rightarrow> attempt_update" where
  "plain_update status = \<lparr>au_status = status, au_render_job_id = None, au_artifact_sha256 = None,
     au_fingerprint = None, au_runtime_engine = None, au_runtime_engine_version = None, au_duration_ms = None,
     au_archive_request_id = None, au_archive_document_id = None, au_archive_completed_at = None,
     au_failure_category = None, au_failure_message = None, au_retry_eligible = None,
     au_clear_failure = False\<rparr>"

text \<open>The \<open>SET\<close> clause.\<close>

definition set_attempt :: "attempt_update \<Rightarrow> dt \<Rightarrow> rerender_row \<Rightarrow> rerender_row" where
  "set_attempt u now a = a\<lparr>
     rr_status := au_status u,
     rr_render_job_id := (case au_render_job_id u of None \<Rightarrow> rr_render_job_id a | Some x \<Rightarrow> x),
     rr_artifact_sha256 := coalesce (au_artifact_sha256 u) (rr_artifact_sha256 a),
     rr_fingerprint := coalesce (au_fingerprint u) (rr_fingerprint a),
     rr_runtime_engine := coalesce (au_runtime_engine u) (rr_runtime_engine a),
     rr_runtime_engine_version := coalesce (au_runtime_engine_version u) (rr_runtime_engine_version a),
     rr_duration_ms := coalesce (au_duration_ms u) (rr_duration_ms a),
     rr_archive_request_id := coalesce (au_archive_request_id u) (rr_archive_request_id a),
     rr_archive_document_id := coalesce (au_archive_document_id u) (rr_archive_document_id a),
     rr_archive_completed_at := coalesce (map_option dt_to_text (au_archive_completed_at u)) (rr_archive_completed_at a),
     rr_failure_category := (if au_clear_failure u then None else coalesce (au_failure_category u) (rr_failure_category a)),
     rr_failure_message := (if au_clear_failure u then None else coalesce (au_failure_message u) (rr_failure_message a)),
     rr_retry_eligible := (if au_clear_failure u then False
       else case au_retry_eligible u of None \<Rightarrow> rr_retry_eligible a | Some b \<Rightarrow> b),
     rr_updated_at := dt_to_text now\<rparr>"

definition update_rerender_attempt :: "env \<Rightarrow> string \<Rightarrow> attempt_update \<Rightarrow> rerender_row ledger_tx" where
  "update_rerender_attempt e attempt_id u =
     tx_bind (tx_get (find_attempt attempt_id)) (\<lambda>existing.
     case existing of None \<Rightarrow> tx_raise (ReportJobNotFoundError ''report_rerender_attempt_not_found'')
     | Some _ \<Rightarrow>
       tx_bind (update_attempt (\<lambda>a. rr_id a = attempt_id) (set_attempt u (utc_now e 0))) (\<lambda>_.
       read_attempt attempt_id))"

definition mark_rerender_rendered ::
    "env \<Rightarrow> string \<Rightarrow> string \<Rightarrow> string option \<Rightarrow> string option \<Rightarrow> string option \<Rightarrow> string option \<Rightarrow> int option
     \<Rightarrow> rerender_row ledger_tx" where
  "mark_rerender_rendered e attempt_id render_job_id sha fingerprint engine engine_version duration =
     update_rerender_attempt (sub_env 0 e) attempt_id ((plain_update Rr_rendered)\<lparr>
       au_render_job_id := Some render_job_id, au_artifact_sha256 := sha, au_fingerprint := fingerprint,
       au_runtime_engine := engine, au_runtime_engine_version := engine_version, au_duration_ms := duration\<rparr>)"

definition mark_rerender_archiving :: "env \<Rightarrow> string \<Rightarrow> string \<Rightarrow> rerender_row ledger_tx" where
  "mark_rerender_archiving e attempt_id archive_request_id =
     update_rerender_attempt (sub_env 0 e) attempt_id ((plain_update Rr_archiving)\<lparr>
       au_archive_request_id := Some archive_request_id\<rparr>)"

definition mark_rerender_archived ::
    "env \<Rightarrow> string \<Rightarrow> string \<Rightarrow> string \<Rightarrow> string \<Rightarrow> string \<Rightarrow> rerender_row ledger_tx" where
  "mark_rerender_archived e attempt_id actor correlation_id trace_id archive_document_id =
     tx_bind (update_rerender_attempt (sub_env 1 e) attempt_id ((plain_update Rr_archived)\<lparr>
       au_archive_document_id := Some archive_document_id, au_archive_completed_at := Some (utc_now e 0),
       au_clear_failure := True\<rparr>)) (\<lambda>archived.
     tx_bind (append_status_event (sub_env 3 e) (rr_job_id archived) (Some Archived) Archived
                ''job_rerender_archived''
                (Some (''Report rerender archived as correction document '' @ archive_document_id @ ''.''))
                (Some [(''rerender_attempt_id'', JStr attempt_id),
                       (''render_job_id'', JStr (rr_render_job_id archived)),
                       (''archive_document_id'', JStr archive_document_id)])
                None actor correlation_id trace_id (utc_now e 2)) (\<lambda>_.
     tx_return archived))"

definition mark_rerender_failed ::
    "env \<Rightarrow> string \<Rightarrow> string \<Rightarrow> string \<Rightarrow> string \<Rightarrow> failure_category \<Rightarrow> string \<Rightarrow> bool \<Rightarrow> rerender_row ledger_tx" where
  "mark_rerender_failed e attempt_id actor correlation_id trace_id category message retry_eligible =
     tx_bind (update_rerender_attempt (sub_env 0 e) attempt_id ((plain_update Rr_failed)\<lparr>
       au_failure_category := Some category, au_failure_message := Some message,
       au_retry_eligible := Some retry_eligible\<rparr>)) (\<lambda>failed.
     tx_bind (append_status_event (sub_env 2 e) (rr_job_id failed) (Some Archived) Archived
                ''job_rerender_failed'' (Some message)
                (Some [(''rerender_attempt_id'', JStr attempt_id), (''failure_message'', JStr message)])
                None actor correlation_id trace_id (utc_now e 1)) (\<lambda>_.
     tx_return failed))"

section \<open>Listings\<close>

text \<open>\<open>ORDER BY updated_at DESC, created_at DESC, rerender_attempt_id DESC\<close>; identifiers are unique.\<close>

definition attempt_key :: "rerender_row \<Rightarrow> int \<times> int \<times> string" where
  "attempt_key a = (text_key (rr_updated_at a), text_key (rr_created_at a), rr_id a)"

definition newest_first :: "rerender_row list \<Rightarrow> rerender_row list" where
  "newest_first xs = rev (sort_key attempt_key xs)"

definition list_rerender_attempts :: "ledger \<Rightarrow> string \<Rightarrow> int \<Rightarrow> rerender_row list" where
  "list_rerender_attempts s job_id limit =
     take (nat (max 1 (min limit 100))) (newest_first (filter (\<lambda>a. rr_job_id a = job_id) (attempts s)))"

definition AMBIGUOUS_CATEGORIES :: "failure_category list" where
  "AMBIGUOUS_CATEGORIES = [Archive_storage_failed, Archive_execution_failed, Archive_outcome_unknown,
     Archive_handoff_failed]"

definition archive_ambiguous :: "rerender_row \<Rightarrow> bool" where
  "archive_ambiguous a \<longleftrightarrow> rr_status a = Rr_failed
     \<and> (case rr_failure_category a of None \<Rightarrow> False | Some c \<Rightarrow> c \<in> set AMBIGUOUS_CATEGORIES)
     \<and> rr_retry_eligible a"

definition list_unresolved_archive_ambiguous_attempts :: "ledger \<Rightarrow> string \<Rightarrow> rerender_row list" where
  "list_unresolved_archive_ambiguous_attempts s job_id =
     newest_first (filter (\<lambda>a. rr_job_id a = job_id \<and> archive_ambiguous a) (attempts s))"

section \<open>What the operations keep\<close>

lemma attempt_frame_set [simp]: "attempt_frame (set_attempt u now)"
  by (simp add: attempt_frame_def set_attempt_def)

lemma keeps_read_attempt [keeps_intros]: "keeps ledger_rel (read_attempt aid)"
  unfolding read_attempt_def by (intro ledger_rules keeps_intros)

lemma keeps_not_null [keeps_intros]: "keeps ledger_rel (not_null c v)"
  unfolding not_null_def by (intro ledger_rules keeps_intros)

lemma keeps_update_rerender_attempt [keeps_intros]: "keeps ledger_rel (update_rerender_attempt e aid u)"
  unfolding update_rerender_attempt_def by (intro ledger_rules keeps_intros) simp

lemma keeps_rerender [keeps_intros]:
  "keeps ledger_rel (create_rerender_attempt e job sid sh key actor reason c t)"
  "keeps ledger_rel (record_adopted_rerender_outcome e job key actor reason c t adopted doc)"
  "keeps ledger_rel (mark_rerender_rendered e aid rj sha fp en ev du)"
  "keeps ledger_rel (mark_rerender_archiving e aid ar)"
  "keeps ledger_rel (mark_rerender_archived e aid actor c t doc)"
  "keeps ledger_rel (mark_rerender_failed e aid actor c t cat msg re)"
  unfolding create_rerender_attempt_def record_adopted_rerender_outcome_def mark_rerender_rendered_def
    mark_rerender_archiving_def mark_rerender_archived_def mark_rerender_failed_def
  by (intro ledger_rules keeps_intros)+

section \<open>A key names one attempt\<close>

lemma find_attempt_iff:
  assumes "schema_inv s"
  shows "find_attempt aid s = Some a \<longleftrightarrow> a \<in> set (attempts s) \<and> rr_id a = aid"
  using keyed_fetch [OF schema_distinct(5) [OF assms]]
  by (auto simp: find_attempt_def dest!: fetch_SomeD)

lemma attempt_for_key_iff:
  assumes "schema_inv s"
  shows "attempt_for_key jid key s = Some a \<longleftrightarrow> a \<in> set (attempts s) \<and> rr_job_id a = jid \<and> rr_key a = key"
proof -
  have "distinct (map (\<lambda>x. (rr_job_id x, rr_key x)) (attempts s))"
    using assms by (simp add: schema_inv_def attempts_ok_def)
  from keyed_fetch [OF this] show ?thesis
    by (auto simp: attempt_for_key_def dest!: fetch_SomeD)
qed

lemma history_attempt:
  assumes "history_rel s s'" "a \<in> set (attempts s)"
  shows "\<exists>b \<in> set (attempts s'). attempt_identity b = attempt_identity a"
proof -
  have "attempt_identity ` set (attempts s) \<subseteq> attempt_identity ` set (attempts s')"
    using assms(1) by (simp only: history_rel_def)
  then have "attempt_identity a \<in> attempt_identity ` set (attempts s')" using assms(2) by blast
  then show ?thesis by force
qed

lemma insert_attempt_run:
  assumes "insert_attempt x s = Inr (u, s1)" "append_status_event e jid f t ty m p k a c tr now s1 = Inr (v, s2)"
    "read_attempt (rr_id x) s2 = Inr (b, s')"
  shows "b = x \<and> s' = s2 \<and> attempts s' = attempts s @ [x] \<and> jobs s' = jobs s \<and> relationships s' = relationships s"
proof -
  have s1: "s1 = s\<lparr>attempts := attempts s @ [x]\<rparr>" "rr_id x \<notin> rr_id ` set (attempts s)"
    using assms(1) by (auto simp: insert_attempt_def split: if_splits)
  obtain ev where s2: "s2 = s1\<lparr>events := events s1 @ [ev]\<rparr>" using assms(2) by (elim append_event_Inr) blast
  have "fetch (\<lambda>a. rr_id a = rr_id x) (attempts s) = None" using s1(2) unfolding fetch_None by (metis imageI)
  then have "find_attempt (rr_id x) s2 = Some x" by (simp add: find_attempt_def s2 s1(1) fetch_append del: fetch_None)
  then have "b = x" "s' = s2" using assms(3) by (auto simp: read_attempt_def tx_run)
  then show ?thesis by (simp add: s2 s1(1))
qed

text \<open>Both ways of opening an attempt leave it under the stripped key, new or found.\<close>

lemma create_rerender_run:
  assumes "create_rerender_attempt e job sid sh key actor reason c t s = Inr ((a, fresh), s')"
  shows "required_key key = Inr (py_strip key)
    \<and> (if fresh then attempt_for_key (lr_job_id job) (py_strip key) s = None
         \<and> (\<exists>tid tv. a = new_attempt_row job (utc_now e 0) (new_attempt_id e) (py_strip key) (sid, sh)
              (or_else (lr_render_output_format job) ''pdf'') (tid, tv) actor reason c t)
         \<and> attempts s' = attempts s @ [a] \<and> jobs s' = jobs s
       else attempt_for_key (lr_job_id job) (py_strip key) s = Some a \<and> s' = s)"
proof -
  have k: "required_key key = Inr (py_strip key)"
    using assms unfolding create_rerender_attempt_def by (elim tx_bindE) (simp add: required_key_def)
  show ?thesis
  proof (cases "attempt_for_key (lr_job_id job) (py_strip key) s")
    case (Some b)
    then show ?thesis using assms k by (simp add: create_rerender_attempt_def tx_run)
  next
    case None
    let ?fmt = "or_else (lr_render_output_format job) ''pdf''"
    let ?row = "\<lambda>tid tv. new_attempt_row job (utc_now e 0) (new_attempt_id e) (py_strip key) (sid, sh) ?fmt (tid, tv) actor reason c t"
    obtain tid tv s1 s2 s3 u v m p where
      ins: "insert_attempt (?row tid tv) s = Inr (u, s1)"
      and ev: "append_status_event (sub_env 2 e) (lr_job_id job) (Some (lr_status job)) (lr_status job)
          ''job_rerender_requested'' m p (Some (py_strip key)) actor c t (utc_now e 0) s1 = Inr (v, s2)"
      and rd: "read_attempt (new_attempt_id e) s2 = Inr (a, s3)" and r: "fresh" "s' = s3"
      using assms k None unfolding create_rerender_attempt_def Let_def not_null_def
      by (elim tx_bindE) (auto split: option.splits elim!: tx_bindE)
    have "rr_id (?row tid tv) = new_attempt_id e" by (simp add: new_attempt_row_def)
    then show ?thesis using insert_attempt_run [OF ins ev, of a s3] rd r k None by auto
  qed
qed

lemma record_adopted_run:
  assumes "record_adopted_rerender_outcome e job key actor reason c t adopted doc s = Inr (a, s')"
  shows "required_key key = Inr (py_strip key)
    \<and> (attempt_for_key (lr_job_id job) (py_strip key) s = Some a \<and> s' = s
       \<or> attempt_for_key (lr_job_id job) (py_strip key) s = None
         \<and> a = adopted_attempt_row job (new_attempt_id e) (py_strip key) adopted doc actor reason c t (utc_now e 0)
         \<and> attempts s' = attempts s @ [a] \<and> jobs s' = jobs s)"
proof -
  have k: "required_key key = Inr (py_strip key)"
    using assms unfolding record_adopted_rerender_outcome_def by (elim tx_bindE) (simp add: required_key_def)
  show ?thesis
  proof (cases "attempt_for_key (lr_job_id job) (py_strip key) s")
    case (Some b)
    then show ?thesis using assms k by (simp add: record_adopted_rerender_outcome_def tx_run)
  next
    case None
    let ?row = "adopted_attempt_row job (new_attempt_id e) (py_strip key) adopted doc actor reason c t (utc_now e 0)"
    obtain s1 s2 u v m p where
      ins: "insert_attempt ?row s = Inr (u, s1)"
      and ev: "append_status_event (sub_env 2 e) (lr_job_id job) (Some (lr_status job)) (lr_status job)
          ''job_rerender_archived'' m p (Some (py_strip key)) actor c t (utc_now e 0) s1 = Inr (v, s2)"
      and rd: "read_attempt (new_attempt_id e) s2 = Inr (a, s')"
      using assms k None unfolding record_adopted_rerender_outcome_def Let_def
      by (elim tx_bindE) (auto split: option.splits elim!: tx_bindE)
    have "rr_id ?row = new_attempt_id e" by (simp add: adopted_attempt_row_def)
    then show ?thesis using insert_attempt_run [OF ins ev, of a s'] rd k None by auto
  qed
qed

text \<open>An update by identifier changes that row only.\<close>

lemma update_rerender_run:
  assumes inv: "schema_inv s" and run: "update_rerender_attempt e aid u s = Inr (b, s')"
  obtains a where "find_attempt aid s = Some a" "b = set_attempt u (utc_now e 0) a"
    "s' = s\<lparr>attempts := update_where (\<lambda>a. rr_id a = aid) (set_attempt u (utc_now e 0)) (attempts s)\<rparr>"
proof -
  let ?s = "s\<lparr>attempts := update_where (\<lambda>a. rr_id a = aid) (set_attempt u (utc_now e 0)) (attempts s)\<rparr>"
  obtain a where a: "find_attempt aid s = Some a" and rd: "read_attempt aid ?s = Inr (b, s')"
    using run unfolding update_rerender_attempt_def update_attempt_def
    by (elim tx_bindE) (auto split: option.splits elim!: tx_bindE)
  have "schema_inv ?s"
    using keepsD [OF keeps_update_rerender_attempt run] rd inv
    by (auto simp: ledger_rel_def schema_rel_def read_attempt_def tx_run split: option.splits)
  moreover have "set_attempt u (utc_now e 0) a \<in> set (attempts ?s)" "rr_id (set_attempt u (utc_now e 0) a) = aid"
    using a find_attempt_iff [OF inv] by (auto simp: set_update_where set_attempt_def)
  ultimately have "find_attempt aid ?s = Some (set_attempt u (utc_now e 0) a)" by (simp add: find_attempt_iff)
  then have "b = set_attempt u (utc_now e 0) a" "s' = ?s" using rd by (auto simp: read_attempt_def tx_run)
  with a that show thesis by blast
qed

lemma set_newest_first [simp]: "set (newest_first xs) = set xs"
  by (simp add: newest_first_def)

section \<open>Samples\<close>

definition sample_archived_job :: job_row where
  "sample_archived_job = sample_job\<lparr>j_status := Archived, j_archive_document_id := Some ''doc_1''\<rparr>"

abbreviation sample_archived :: ledger where "sample_archived \<equiv> sample_ledger sample_archived_job"

abbreviation sample_rerender :: "string \<Rightarrow> (rerender_row \<times> bool) ledger_tx" where
  "sample_rerender key \<equiv> create_rerender_attempt sample_env (record_from_row sample_request sample_archived_job)
     ''snap'' ''hash'' key ''advisor'' ''typo'' ''corr'' ''trace''"

lemma sample_archived_inv: "schema_inv sample_archived"
  by (rule schema_inv_sample) (simp_all add: samples sample_archived_job_def custody_checks_def custody_scoped_def)

lemma sample_rerender_run:
  obtains a fresh s1 where "sample_rerender ''k1'' sample_archived = Inr ((a, fresh), s1)"
proof -
  have "\<not> isl (sample_rerender ''k1'' sample_archived)" by code_simp
  then show thesis using that by (cases "sample_rerender ''k1'' sample_archived") auto
qed

section \<open>Properties\<close>

lemma rerender_again:
  assumes inv: "schema_inv s"
    and opened: "create_rerender_attempt e job sid sh key actor reason c t s = Inr ((a, fresh), s1)
      \<or> record_adopted_rerender_outcome e job key actor reason c t adopted doc s = Inr (a, s1)"
    and later: "ledger_rel s1 s2"
    and retry: "py_strip key' = py_strip key" "lr_job_id job' = lr_job_id job"
  shows "\<exists>b. create_rerender_attempt e' job' sid' sh' key' actor' reason' c' t' s2 = Inr ((b, False), s2)
    \<and> rr_id b = rr_id a \<and> rr_job_id b = lr_job_id job \<and> rr_key b = py_strip key"
proof -
  have "ledger_rel s s1"
    using opened by (elim disjE) (erule keepsD [OF keeps_rerender(1)], erule keepsD [OF keeps_rerender(2)])
  then have rel: "schema_inv s1" "schema_inv s2" "history_rel s1 s2"
    using later inv by (auto simp: ledger_rel_def schema_rel_def)
  have a: "required_key key = Inr (py_strip key) \<and> a \<in> set (attempts s1)
      \<and> rr_job_id a = lr_job_id job \<and> rr_key a = py_strip key"
    using opened
  proof
    assume "create_rerender_attempt e job sid sh key actor reason c t s = Inr ((a, fresh), s1)"
    from create_rerender_run [OF this] show ?thesis
      using attempt_for_key_iff [OF rel(1)] by (auto simp: new_attempt_row_def split: if_splits)
  next
    assume "record_adopted_rerender_outcome e job key actor reason c t adopted doc s = Inr (a, s1)"
    from record_adopted_run [OF this] show ?thesis
      using attempt_for_key_iff [OF rel(1)] by (auto simp: adopted_attempt_row_def)
  qed
  then obtain b where b: "b \<in> set (attempts s2)" "attempt_identity b = attempt_identity a"
    using history_attempt [OF rel(3)] by blast
  then have "attempt_for_key (lr_job_id job') (py_strip key') s2 = Some b"
    using a retry attempt_for_key_iff [OF rel(2)] by (simp add: attempt_identity_def)
  moreover have "required_key key' = Inr (py_strip key')"
    using a retry by (auto simp: required_key_def py_blank_def)
  ultimately show ?thesis
    using a b(2) by (simp add: create_rerender_attempt_def tx_run attempt_identity_def)
qed

text \<open>
  The listing of unresolved attempts is complete and settles: it holds exactly the failed,
  retry-eligible attempts of the job whose archive outcome is ambiguous, without a page limit, newest
  update first. Archiving an attempt records its document, clears its failure and takes it, and
  nothing else, off the list of its job; no job row changes.
\<close>

theorem ambiguous_attempts_settle:
  assumes inv: "schema_inv s" and run: "mark_rerender_archived e aid actor c t doc s = Inr (b, s')"
  shows "rr_status b = Rr_archived \<and> rr_archive_document_id b = Some doc \<and> rr_failure_category b = None
      \<and> \<not> rr_retry_eligible b \<and> find_attempt aid s' = Some b \<and> jobs s' = jobs s
      \<and> set (list_unresolved_archive_ambiguous_attempts s' (rr_job_id b))
        = {a \<in> set (attempts s). rr_job_id a = rr_job_id b \<and> archive_ambiguous a \<and> rr_id a \<noteq> aid}"
proof -
  let ?u = "(plain_update Rr_archived)\<lparr>au_archive_document_id := Some doc,
      au_archive_completed_at := Some (utc_now e 0), au_clear_failure := True\<rparr>"
  let ?f = "set_attempt ?u (utc_now (sub_env 1 e) 0)"
  obtain s1 ev where up: "update_rerender_attempt (sub_env 1 e) aid ?u s = Inr (b, s1)"
    and s': "s' = s1\<lparr>events := events s1 @ [ev]\<rparr>"
    using run unfolding mark_rerender_archived_def by (elim tx_bindE) (auto elim!: append_event_Inr)
  obtain a where a: "find_attempt aid s = Some a" and b: "b = ?f a"
    and s1: "s1 = s\<lparr>attempts := update_where (\<lambda>a. rr_id a = aid) ?f (attempts s)\<rparr>"
    by (rule update_rerender_run [OF inv up])
  have "schema_inv s'"
    using keepsD [OF keeps_rerender(5) run] inv by (simp add: ledger_rel_def schema_rel_def)
  moreover have "b \<in> set (attempts s')" "rr_id b = aid"
    using a find_attempt_iff [OF inv] by (auto simp: s' s1 b set_update_where set_attempt_def)
  ultimately have "find_attempt aid s' = Some b" by (simp add: find_attempt_iff)
  moreover have "set (list_unresolved_archive_ambiguous_attempts s' (rr_job_id b))
      = {a \<in> set (attempts s). rr_job_id a = rr_job_id b \<and> archive_ambiguous a \<and> rr_id a \<noteq> aid}"
    by (auto simp: list_unresolved_archive_ambiguous_attempts_def s' s1 set_update_where archive_ambiguous_def
        set_attempt_def plain_update_def)
  ultimately show ?thesis
    by (simp add: b set_attempt_def plain_update_def coalesce_def s' s1)
qed

theorem ambiguous_attempts_settle_witness:
  "\<exists>s1 b s2. mark_rerender_archived (sub_env 7 sample_env) (new_attempt_id sample_env) ''advisor'' ''corr'' ''trace'' ''doc_2'' s1
       = Inr (b, s2) \<and> list_unresolved_archive_ambiguous_attempts s1 ''rjb_1'' \<noteq> []
     \<and> list_unresolved_archive_ambiguous_attempts s2 ''rjb_1'' = []"
proof -
  let ?aid = "new_attempt_id sample_env"
  let ?failed = "tx_bind (sample_rerender ''k1'') (\<lambda>_. mark_rerender_failed (sub_env 4 sample_env) ?aid ''advisor'' ''corr''
      ''trace'' Archive_outcome_unknown ''timeout'' True)"
  let ?ok = "\<lambda>s1. map rr_id (list_unresolved_archive_ambiguous_attempts s1 ''rjb_1'') = [?aid]
    \<and> (case mark_rerender_archived (sub_env 7 sample_env) ?aid ''advisor'' ''corr'' ''trace'' ''doc_2'' s1 of Inl _ \<Rightarrow> False
       | Inr (b, _) \<Rightarrow> rr_job_id b = ''rjb_1'')"
  have "case ?failed sample_archived of Inl _ \<Rightarrow> False | Inr (_, s1) \<Rightarrow> ?ok s1" by code_simp
  then obtain x s1 where run: "?failed sample_archived = Inr (x, s1)" and ok: "?ok s1"
    by (cases "?failed sample_archived") auto
  then obtain b s2 where ar: "mark_rerender_archived (sub_env 7 sample_env) ?aid ''advisor'' ''corr'' ''trace'' ''doc_2'' s1
      = Inr (b, s2)" and job: "rr_job_id b = ''rjb_1''"
    by (cases "mark_rerender_archived (sub_env 7 sample_env) ?aid ''advisor'' ''corr'' ''trace'' ''doc_2'' s1") auto
  have "keeps ledger_rel ?failed" by (intro led.keeps_bind keeps_rerender)
  from keepsD [OF this run] have inv: "schema_inv s1"
    using sample_archived_inv by (simp add: ledger_rel_def schema_rel_def)
  let ?open = "list_unresolved_archive_ambiguous_attempts"
  from ok have "map rr_id (?open s1 ''rjb_1'') = [?aid]" by (rule conjunct1)
  then have "rr_id ` set (?open s1 ''rjb_1'') = {?aid}" unfolding list.set_map [symmetric] by (simp only: list.set)
  then have ids: "rr_id a = ?aid" if "a \<in> set (?open s1 ''rjb_1'')" for a using that by blast
  have "set (?open s2 ''rjb_1'') \<subseteq> {a \<in> set (?open s1 ''rjb_1''). rr_id a \<noteq> ?aid}"
    using ambiguous_attempts_settle [OF inv ar] job
    by (auto simp: list_unresolved_archive_ambiguous_attempts_def)
  moreover have "{a \<in> set (?open s1 ''rjb_1''). rr_id a \<noteq> ?aid} = {}"
    by (rule equals0I, erule CollectE, erule conjE, erule notE, rule ids)
  ultimately have "?open s2 ''rjb_1'' = []" by (simp only: subset_empty set_empty)
  moreover have "?open s1 ''rjb_1'' \<noteq> []" using ok by auto
  ultimately show ?thesis using ar by blast
qed

end
