(* ===== verification/Job_Queries.thy ===== *)
theory Job_Queries
  imports Work_Ledger Request_Identity Ledger_Samples
begin

text \<open>
  The read side of the job ledger and its relationships (\<open>src/src/app/reporting_jobs/ledger.py\<close>):
  the archive-status projection of one tenant, the pending archive lineage, the event history of a
  job, relationships between jobs, and the filtered listing of jobs with its two filters, the SQL
  predicates and the Python matcher.

  Filter datetimes are aware ones. A listing returns the records of the rows it selected; the
  columns \<open>_list_job_rows\<close> does not select are read as absent by \<open>_optional_row_value\<close>.
\<close>

section \<open>Archive status of a tenant's jobs\<close>

record archive_status =
  as_job_id :: string
  as_status :: job_status
  as_document_id :: "string option"

definition status_of :: "job_row \<Rightarrow> archive_status" where
  "status_of j = \<lparr>as_job_id = j_id j, as_status = j_status j, as_document_id = j_archive_document_id j\<rparr>"

text \<open>The join of a job with its request, by the request's tenant.\<close>

definition job_tenant :: "ledger \<Rightarrow> job_row \<Rightarrow> string option" where
  "job_tenant s j = map_option r_tenant_id (find_request (j_request_id j) s)"

fun chunks :: "nat \<Rightarrow> 'a list \<Rightarrow> 'a list list" where
  "chunks n xs = (if xs = [] \<or> n = 0 then [] else take n xs # chunks n (drop n xs))"

declare chunks.simps [simp del]

definition select_statuses :: "ledger \<Rightarrow> string \<Rightarrow> string list \<Rightarrow> archive_status list" where
  "select_statuses s tenant_id ids =
     map status_of (sort_key j_id (filter (\<lambda>j. job_tenant s j = Some tenant_id \<and> j_id j \<in> set ids) (jobs s)))"

definition get_archive_statuses_by_job_ids :: "ledger \<Rightarrow> string list \<Rightarrow> string \<Rightarrow> archive_status list" where
  "get_archive_statuses_by_job_ids s requested tenant_id =
     (let unique = sorted_set (filter (\<lambda>i. i \<noteq> []) requested) in
      concat (map (select_statuses s tenant_id) (chunks 500 unique)))"

section \<open>Pending archive lineage\<close>

text \<open>\<open>substr(key, length(type) + 2)\<close>: what follows the event type and one separator.\<close>

definition pair_suffix :: "event_row \<Rightarrow> string option" where
  "pair_suffix v = map_option (drop (Suc (length (ev_type v)))) (ev_key v)"

definition settles :: "event_row \<Rightarrow> event_row \<Rightarrow> bool" where
  "settles r p \<longleftrightarrow> ev_job_id r = ev_job_id p
     \<and> ev_type r \<in> {''job_archive_lineage_recorded'', ''job_archive_lineage_refused''}
     \<and> ev_key r \<noteq> None \<and> pair_suffix r = pair_suffix p"

definition outstanding :: "event_row list \<Rightarrow> event_row \<Rightarrow> bool" where
  "outstanding evs p \<longleftrightarrow> ev_type p = ''job_archive_lineage_pending'' \<and> ev_key p \<noteq> None
     \<and> \<not> list_ex (\<lambda>r. settles r p) evs"

text \<open>One row per job with the least stored text of its outstanding events; equal oldest texts
  come in the order of the grouping, by job.\<close>

definition pending_of_job :: "event_row list \<Rightarrow> string \<Rightarrow> stamp option" where
  "pending_of_job evs job_id =
     (case sort_key text_key (map ev_created_at (filter (\<lambda>p. ev_job_id p = job_id \<and> outstanding evs p) evs)) of
        [] \<Rightarrow> None | t # _ \<Rightarrow> Some t)"

definition pending_rows :: "event_row list \<Rightarrow> (string \<times> stamp) list" where
  "pending_rows evs = List.map_filter (\<lambda>i. map_option (Pair i) (pending_of_job evs i))
     (sorted_set (map ev_job_id evs))"

definition list_pending_archive_lineage :: "ledger \<Rightarrow> int \<Rightarrow> (string \<times> dt) list" where
  "list_pending_archive_lineage s limit =
     map (\<lambda>(i, t). (i, stamp_dt t))
       (take (nat (max 0 limit)) (sort_key (\<lambda>(i, t). text_key t) (pending_rows (events s))))"

section \<open>Event history\<close>

text \<open>\<open>_event_from_row\<close>: a schema version or family stored empty is read as the legacy contract's.\<close>

definition event_from_row :: "event_row \<Rightarrow> event_row" where
  "event_from_row v =
     (let contract = legacy_report_status_event_contract (ev_type v) (ev_from v) (ev_to v) in
      v\<lparr>ev_schema_version := (if ev_schema_version v = [] then ec_schema_version contract else ev_schema_version v),
        ev_family := (if ev_family v = [] then ec_event_family contract else ev_family v)\<rparr>)"

definition list_status_events :: "ledger \<Rightarrow> string \<Rightarrow> event_row list" where
  "list_status_events s job_id = map event_from_row
     (sort_key (\<lambda>v. (text_key (ev_created_at v), ev_id v)) (filter (\<lambda>v. ev_job_id v = job_id) (events s)))"

section \<open>Relationships\<close>

definition bounded_relationship_reason :: "string \<Rightarrow> string" where
  "bounded_relationship_reason reason =
     (let normalized = py_join '' '' (py_split reason) in
      if normalized = [] then ''not_provided'' else take 240 normalized)"

definition relationship_update :: "relationship_row \<Rightarrow> relationship_row \<Rightarrow> relationship_row" where
  "relationship_update x y = y\<lparr>
     rel_source_status := rel_source_status x, rel_derived_status := rel_derived_status x,
     rel_source_failure := rel_source_failure x, rel_derived_failure := rel_derived_failure x,
     rel_archive_consequence := rel_archive_consequence x,
     rel_previous_document := rel_previous_document x, rel_new_document := rel_new_document x,
     rel_actor := rel_actor x, rel_reason := rel_reason x, rel_updated_at := rel_updated_at x\<rparr>"

definition upserted_row ::
    "env \<Rightarrow> job_record \<Rightarrow> job_record \<Rightarrow> relationship_type \<Rightarrow> string \<Rightarrow> string \<Rightarrow> string option
     \<Rightarrow> string option \<Rightarrow> string option \<Rightarrow> relationship_row option \<Rightarrow> relationship_row" where
  "upserted_row e source derived kind actor reason consequence previous_document new_document existing =
     (let now = utc_now e 0 in
      \<lparr>rel_id = (case existing of None \<Rightarrow> ''rjr_'' @ uuid4_hex e 1 | Some y \<Rightarrow> rel_id y),
       rel_source = lr_job_id source, rel_derived = lr_job_id derived, rel_type = kind,
       rel_source_status = lr_status source, rel_derived_status = lr_status derived,
       rel_source_failure = lr_failure_category source, rel_derived_failure = lr_failure_category derived,
       rel_archive_consequence = consequence, rel_previous_document = previous_document,
       rel_new_document = new_document, rel_actor = actor,
       rel_reason = bounded_relationship_reason reason,
       rel_created_at = dt_to_text (case existing of None \<Rightarrow> now | Some y \<Rightarrow> stamp_dt (rel_created_at y)),
       rel_updated_at = dt_to_text now\<rparr>)"

definition upsert_job_relationship ::
    "env \<Rightarrow> job_record \<Rightarrow> job_record \<Rightarrow> relationship_type \<Rightarrow> string \<Rightarrow> string \<Rightarrow> string option
     \<Rightarrow> string option \<Rightarrow> string option \<Rightarrow> relationship_row ledger_tx" where
  "upsert_job_relationship e source derived kind actor reason consequence previous_document new_document =
     tx_bind (tx_get (\<lambda>s. fetch (\<lambda>y. rel_identity y = (lr_job_id source, lr_job_id derived, kind)) (relationships s))) (\<lambda>existing.
     let x = upserted_row e source derived kind actor reason consequence previous_document new_document existing in
     tx_bind (insert_relationship_or_update x (relationship_update x)) (\<lambda>_.
     tx_bind (tx_get (\<lambda>s. fetch (\<lambda>y. rel_id y = rel_id x) (relationships s))) (\<lambda>row.
     case row of None \<Rightarrow> tx_raise (PyTypeError ''NoneType'') | Some y \<Rightarrow> tx_return y)))"

definition list_job_relationships :: "ledger \<Rightarrow> string \<Rightarrow> relationship_row list" where
  "list_job_relationships s job_id =
     sort_key (\<lambda>y. (text_key (rel_created_at y), rel_id y))
       (filter (\<lambda>y. rel_source y = job_id \<or> rel_derived y = job_id) (relationships s))"

section \<open>Filtered listing\<close>

record list_filters =
  lf_tenant_id :: "string option"
  lf_region :: "string option"
  lf_status :: "job_status option"
  lf_report_type :: "string option"
  lf_portfolio_id :: "string option"
  lf_as_of_date :: "date option"
  lf_idempotency_key :: "string option"
  lf_correlation_id :: "string option"
  lf_created_from :: "dt option"
  lf_created_to :: "dt option"
  lf_limit :: int

text \<open>A condition on an optional string filter applies when the filter is a non-empty string.\<close>

definition str_filter :: "string option \<Rightarrow> string \<Rightarrow> bool" where
  "str_filter f v \<longleftrightarrow> \<not> truthy f \<or> f = Some v"

definition opt_filter :: "'a option \<Rightarrow> ('a \<Rightarrow> bool) \<Rightarrow> bool" where
  "opt_filter f P \<longleftrightarrow> (case f of None \<Rightarrow> True | Some x \<Rightarrow> P x)"

text \<open>The rows of \<open>json_each(scope, '$.portfolio_ids')\<close> whose value is the text: the elements of a
  list, the values of an object, a scalar itself.\<close>

definition json_each_has :: "jobj \<Rightarrow> string \<Rightarrow> bool" where
  "json_each_has d pid =
     (case dget d ''portfolio_ids'' of None \<Rightarrow> False
      | Some (JList xs) \<Rightarrow> JStr pid \<in> set xs
      | Some (JObj o') \<Rightarrow> JStr pid \<in> set (map snd o')
      | Some v \<Rightarrow> v = JStr pid)"

definition list_jobs_predicates :: "list_filters \<Rightarrow> request_row \<Rightarrow> job_row \<Rightarrow> bool" where
  "list_jobs_predicates f r j \<longleftrightarrow>
     str_filter (lf_tenant_id f) (r_tenant_id r) \<and> str_filter (lf_region f) (r_region r)
     \<and> opt_filter (lf_status f) (\<lambda>x. j_status j = x)
     \<and> str_filter (lf_report_type f) (r_report_type r)
     \<and> opt_filter (lf_as_of_date f) (\<lambda>d. date_isoformat (r_as_of_date r) = date_isoformat d)
     \<and> str_filter (lf_idempotency_key f) (r_idempotency_key r)
     \<and> str_filter (lf_correlation_id f) (r_correlation_id r)
     \<and> (truthy (lf_portfolio_id f) \<longrightarrow> opt_filter (lf_portfolio_id f) (json_each_has (j_portfolio_scope j)))
     \<and> opt_filter (lf_created_from f) (\<lambda>t. stamp_le (dt_to_text t) (j_created_at j))
     \<and> opt_filter (lf_created_to f) (\<lambda>t. stamp_le (j_created_at j) (dt_to_text t))"

text \<open>\<open>x in y\<close> for a string and the scope entry: an element of a list, a key of an object, a
  substring of a string, otherwise a \<open>TypeError\<close>.\<close>

definition py_in :: "string \<Rightarrow> json \<Rightarrow> bool res" where
  "py_in x v =
     (case v of JList xs \<Rightarrow> Inr (JStr x \<in> set xs)
      | JObj d \<Rightarrow> Inr (x \<in> set (dkeys d))
      | JStr t \<Rightarrow> Inr (list_ex (\<lambda>i. take (length x) (drop i t) = x) [0..<Suc (length t)])
      | _ \<Rightarrow> Inl (PyTypeError ''argument is not iterable''))"

definition portfolio_filter :: "string option \<Rightarrow> jobj \<Rightarrow> bool res" where
  "portfolio_filter f d =
     (case f of None \<Rightarrow> Inr True | Some pid \<Rightarrow>
      if pid = [] then Inr True
      else py_in pid (case dget d ''portfolio_ids'' of None \<Rightarrow> JList [] | Some v \<Rightarrow> v))"

definition record_matches_filters :: "job_record \<Rightarrow> list_filters \<Rightarrow> bool res" where
  "record_matches_filters rec f =
     (if \<not> (str_filter (lf_tenant_id f) (lr_tenant_id rec) \<and> str_filter (lf_region f) (lr_region rec)
           \<and> opt_filter (lf_status f) (\<lambda>x. lr_status rec = x)
           \<and> str_filter (lf_report_type f) (lr_report_type rec)) then Inr False
      else bindE (portfolio_filter (lf_portfolio_id f) (lr_portfolio_scope rec)) (\<lambda>inside.
      Inr (inside \<and> opt_filter (lf_as_of_date f) (\<lambda>d. lr_as_of_date rec = d)
         \<and> str_filter (lf_idempotency_key f) (lr_idempotency_key rec)
         \<and> str_filter (lf_correlation_id f) (lr_correlation_id rec)
         \<and> opt_filter (lf_created_from f) (\<lambda>t. \<not> lr_created_at rec < t)
         \<and> opt_filter (lf_created_to f) (\<lambda>t. \<not> lr_created_at rec > t))))"

text \<open>\<open>ORDER BY job.created_at DESC, job.report_job_id DESC LIMIT ?\<close>; a negative limit is none.\<close>

definition job_rows :: "ledger \<Rightarrow> (request_row \<times> job_row) list" where
  "job_rows s = List.map_filter (\<lambda>j. map_option (\<lambda>r. (r, j)) (find_request (j_request_id j) s)) (jobs s)"

definition newest_jobs :: "(request_row \<times> job_row) list \<Rightarrow> (request_row \<times> job_row) list" where
  "newest_jobs rows = rev (sort_key (\<lambda>(r, j). (text_key (j_created_at j), j_id j)) rows)"

definition sql_limit :: "int \<Rightarrow> 'a list \<Rightarrow> 'a list" where
  "sql_limit n xs = (if n < 0 then xs else take (nat n) xs)"

definition list_job_rows :: "ledger \<Rightarrow> list_filters \<Rightarrow> (request_row \<times> job_row) list" where
  "list_job_rows s f = sql_limit (lf_limit f)
     (newest_jobs (filter (\<lambda>(r, j). list_jobs_predicates f r j) (job_rows s)))"

definition listed_record :: "request_row \<times> job_row \<Rightarrow> job_record" where
  "listed_record row = (record_from_row (fst row) (snd row))\<lparr>lr_custody_policy := None,
     lr_custody_state := None, lr_custody_epoch := 0, lr_render_template_publication := None\<rparr>"

fun filterE :: "('a \<Rightarrow> bool res) \<Rightarrow> 'a list \<Rightarrow> 'a list res" where
  "filterE p [] = Inr []"
| "filterE p (x # xs) = bindE (p x) (\<lambda>b. bindE (filterE p xs) (\<lambda>ys. Inr (if b then x # ys else ys)))"

definition list_jobs :: "ledger \<Rightarrow> list_filters \<Rightarrow> job_record list res" where
  "list_jobs s f = filterE (\<lambda>rec. record_matches_filters rec f) (map listed_record (list_job_rows s f))"

definition list_job_owner_snapshots :: "ledger \<Rightarrow> list_filters \<Rightarrow> (job_record \<times> nat) list res" where
  "list_job_owner_snapshots s f =
     filterE (\<lambda>(rec, _). record_matches_filters rec f)
       (map (\<lambda>row. (listed_record row, length (filter (\<lambda>v. ev_job_id v = j_id (snd row)) (events s))))
          (list_job_rows s f))"

section \<open>What the queries compute\<close>

lemma upserted_fields:
  "rel_identity (upserted_row e source derived kind actor reason c p n y) = (lr_job_id source, lr_job_id derived, kind)"
  "rel_source_status (upserted_row e source derived kind actor reason c p n y) = lr_status source"
  "rel_derived_status (upserted_row e source derived kind actor reason c p n y) = lr_status derived"
  "rel_reason (upserted_row e source derived kind actor reason c p n y) = bounded_relationship_reason reason"
  "rel_id (upserted_row e source derived kind actor reason c p n y)
     = (case y of None \<Rightarrow> ''rjr_'' @ uuid4_hex e 1 | Some y \<Rightarrow> rel_id y)"
  by (simp_all add: upserted_row_def rel_identity_def Let_def)

lemma keeps_upsert_job_relationship [keeps_intros]:
  "keeps ledger_rel (upsert_job_relationship e source derived kind actor reason c p n)"
  unfolding upsert_job_relationship_def
  by (intro ledger_rules keeps_intros) (simp add: relationship_frame_def relationship_update_def)

definition jobs_among :: "ledger \<Rightarrow> string \<Rightarrow> string list \<Rightarrow> job_row list" where
  "jobs_among s tenant ids = sort_key j_id (filter (\<lambda>j. job_tenant s j = Some tenant \<and> j_id j \<in> set ids) (jobs s))"

lemma jobs_among_append:
  assumes inv: "schema_inv s" and srt: "sorted (xs @ ys)" "distinct (xs @ ys)"
  shows "jobs_among s t (xs @ ys) = jobs_among s t xs @ jobs_among s t ys"
proof (rule map_sorted_distinct_set_unique [where f = j_id])
  have d: "distinct (map j_id (jobs s))" by (rule schema_distinct(1) [OF inv])
  have dk: "distinct (map j_id (sort_key j_id (filter P (jobs s))))" for P
    using d by (simp add: distinct_map inj_on_def)
  have lt: "j_id a \<le> j_id b" "j_id a \<noteq> j_id b"
    if "a \<in> set (jobs_among s t xs)" "b \<in> set (jobs_among s t ys)" for a b
    using that srt by (auto simp: jobs_among_def sorted_append)
  show "inj_on j_id (set (jobs_among s t (xs @ ys)) \<union> set (jobs_among s t xs @ jobs_among s t ys))"
    using d by (auto simp: distinct_map jobs_among_def intro: inj_on_subset)
  show "sorted (map j_id (jobs_among s t (xs @ ys)))" by (simp add: jobs_among_def)
  show "distinct (map j_id (jobs_among s t (xs @ ys)))" unfolding jobs_among_def by (rule dk)
  show "sorted (map j_id (jobs_among s t xs @ jobs_among s t ys))"
    using lt(1) by (auto simp: sorted_append) (simp_all add: jobs_among_def)
  have "j_id ` set (jobs_among s t xs) \<inter> j_id ` set (jobs_among s t ys) = {}" using lt(2) by blast
  then show "distinct (map j_id (jobs_among s t xs @ jobs_among s t ys))"
    using dk unfolding jobs_among_def map_append distinct_append set_map by blast
  show "set (jobs_among s t (xs @ ys)) = set (jobs_among s t xs @ jobs_among s t ys)"
    by (auto simp: jobs_among_def)
qed

lemma jobs_among_Nil [simp]: "jobs_among s t [] = []"
  by (simp add: jobs_among_def)

lemma concat_chunks:
  assumes inv: "schema_inv s" and n: "0 < n" and srt: "sorted ids" "distinct ids"
  shows "concat (map (jobs_among s t) (chunks n ids)) = jobs_among s t ids"
  using n srt
proof (induction n ids rule: chunks.induct)
  case (1 n ids)
  show ?case
  proof (cases "ids = []")
    case True
    then show ?thesis by (simp add: chunks.simps [of n "[]"])
  next
    case False
    have "concat (map (jobs_among s t) (chunks n (drop n ids))) = jobs_among s t (drop n ids)"
      using 1 False by (simp add: sorted_wrt_drop)
    moreover have "jobs_among s t (take n ids @ drop n ids) = jobs_among s t (take n ids) @ jobs_among s t (drop n ids)"
      by (rule jobs_among_append [OF inv]) (use 1 in simp_all)
    ultimately show ?thesis using 1 False by (simp add: chunks.simps [of n ids])
  qed
qed

text \<open>The two filters agree on rows with regular fields.\<close>

definition comparable :: "dt option \<Rightarrow> stamp \<Rightarrow> bool" where
  "comparable bound created = (case bound of None \<Rightarrow> True | Some t \<Rightarrow>
     (case created of Offset _ \<Rightarrow> False
      | Zulu u \<Rightarrow> \<not> (dt_second t = dt_second u \<and> (dt_micro t = 0) \<noteq> (dt_micro u = 0))))"

definition valid_date :: "date \<Rightarrow> bool" where
  "valid_date d \<longleftrightarrow> 1 \<le> d \<and> d \<le> MAX_ORDINAL"

definition regular_row :: "list_filters \<Rightarrow> request_row \<times> job_row \<Rightarrow> bool" where
  "regular_row f row = (case row of (r, j) \<Rightarrow> j_portfolio_scope j = r_portfolio_scope r
     \<and> (case dget (r_portfolio_scope r) ''portfolio_ids'' of None \<Rightarrow> True | Some (JList _) \<Rightarrow> True | _ \<Rightarrow> False)
     \<and> valid_date (r_as_of_date r) \<and> opt_filter (lf_as_of_date f) valid_date
     \<and> comparable (lf_created_from f) (j_created_at j) \<and> comparable (lf_created_to f) (j_created_at j))"

lemma comparable_bounds:
  assumes "comparable bound c"
  shows "opt_filter bound (\<lambda>t. stamp_le (dt_to_text t) c) \<longleftrightarrow> opt_filter bound (\<lambda>t. \<not> stamp_dt c < t)"
    "opt_filter bound (\<lambda>t. stamp_le c (dt_to_text t)) \<longleftrightarrow> opt_filter bound (\<lambda>t. \<not> stamp_dt c > t)"
proof -
  have "(opt_filter bound (\<lambda>t. stamp_le (dt_to_text t) c) \<longleftrightarrow> opt_filter bound (\<lambda>t. \<not> stamp_dt c < t))
    \<and> (opt_filter bound (\<lambda>t. stamp_le c (dt_to_text t)) \<longleftrightarrow> opt_filter bound (\<lambda>t. \<not> stamp_dt c > t))"
  proof (cases bound)
    case (Some t)
    then obtain u where c: "c = Zulu u"
      and n: "\<not> (dt_second t = dt_second u \<and> (dt_micro t = 0) \<noteq> (dt_micro u = 0))"
      using assms by (cases c) (simp_all add: comparable_def)
    then have n': "\<not> (dt_second u = dt_second t \<and> (dt_micro u = 0) \<noteq> (dt_micro t = 0))" by metis
    show ?thesis
      unfolding Some c opt_filter_def option.case dt_to_text_def stamp_le_Zulu if_not_P [OF n] if_not_P [OF n']
      by (simp add: not_less)
  qed (simp add: opt_filter_def)
  then show "opt_filter bound (\<lambda>t. stamp_le (dt_to_text t) c) \<longleftrightarrow> opt_filter bound (\<lambda>t. \<not> stamp_dt c < t)"
    "opt_filter bound (\<lambda>t. stamp_le c (dt_to_text t)) \<longleftrightarrow> opt_filter bound (\<lambda>t. \<not> stamp_dt c > t)" by blast+
qed

lemma listed_fields:
  "lr_tenant_id (listed_record (r, j)) = r_tenant_id r" "lr_region (listed_record (r, j)) = r_region r"
  "lr_status (listed_record (r, j)) = j_status j" "lr_report_type (listed_record (r, j)) = r_report_type r"
  "lr_portfolio_scope (listed_record (r, j)) = r_portfolio_scope r"
  "lr_as_of_date (listed_record (r, j)) = r_as_of_date r"
  "lr_idempotency_key (listed_record (r, j)) = r_idempotency_key r"
  "lr_correlation_id (listed_record (r, j)) = r_correlation_id r"
  "lr_created_at (listed_record (r, j)) = stamp_dt (j_created_at j)"
  by (simp_all add: listed_record_def record_from_row_def)

lemma filters_agree:
  assumes "regular_row f (r, j)"
  shows "record_matches_filters (listed_record (r, j)) f = Inr (list_jobs_predicates f r j)"
proof -
  have date: "opt_filter (lf_as_of_date f) (\<lambda>d. date_isoformat (r_as_of_date r) = date_isoformat d)
      \<longleftrightarrow> opt_filter (lf_as_of_date f) (\<lambda>d. r_as_of_date r = d)"
    using assms date_isoformat_inject
    by (auto simp: regular_row_def opt_filter_def valid_date_def split: option.splits)
  have created: "opt_filter (lf_created_from f) (\<lambda>t. stamp_le (dt_to_text t) (j_created_at j))
      \<longleftrightarrow> opt_filter (lf_created_from f) (\<lambda>t. \<not> stamp_dt (j_created_at j) < t)"
    "opt_filter (lf_created_to f) (\<lambda>t. stamp_le (j_created_at j) (dt_to_text t))
      \<longleftrightarrow> opt_filter (lf_created_to f) (\<lambda>t. \<not> stamp_dt (j_created_at j) > t)"
    using assms by (simp_all add: regular_row_def comparable_bounds)
  have scope: "portfolio_filter (lf_portfolio_id f) (r_portfolio_scope r)
      = Inr (truthy (lf_portfolio_id f) \<longrightarrow> opt_filter (lf_portfolio_id f) (json_each_has (j_portfolio_scope j)))"
    using assms
    by (auto simp: regular_row_def truthy_def opt_filter_def json_each_has_def py_in_def
        portfolio_filter_def split: option.splits json.splits)
  show ?thesis
    unfolding record_matches_filters_def list_jobs_predicates_def date created listed_fields scope bindE_simps by auto
qed

lemma filterE_map_const:
  "(\<And>x. x \<in> set xs \<Longrightarrow> p x = Inr True) \<Longrightarrow> filterE p xs = Inr xs"
  by (induction xs) auto

lemma in_set_list_job_rows: "row \<in> set (list_job_rows s f) \<Longrightarrow> row \<in> set (job_rows s) \<and> list_jobs_predicates f (fst row) (snd row)"
  by (cases row) (auto simp: list_job_rows_def sql_limit_def newest_jobs_def dest: in_set_takeD split: if_splits)

lemma pending_of_job_iff: "pending_of_job evs i = None \<longleftrightarrow> (\<forall>p \<in> set evs. ev_job_id p = i \<longrightarrow> \<not> outstanding evs p)"
proof -
  have "pending_of_job evs i = None \<longleftrightarrow> filter (\<lambda>p. ev_job_id p = i \<and> outstanding evs p) evs = []"
    unfolding pending_of_job_def
    by (metis (mono_tags, lifting) list.case(1) list.map_disc_iff list.simps(5) neq_Nil_conv option.distinct(1) set_empty set_sort)
  then show ?thesis by (auto simp: filter_empty_conv)
qed

lemma set_pending_rows: "fst ` set (pending_rows evs) = {ev_job_id p |p. p \<in> set evs \<and> outstanding evs p}"
proof -
  have "fst ` set (pending_rows evs) = {i \<in> ev_job_id ` set evs. pending_of_job evs i \<noteq> None}"
    by (force simp: pending_rows_def List.map_filter_def split: option.splits)
  also have "\<dots> = {ev_job_id p |p. p \<in> set evs \<and> outstanding evs p}"
    unfolding pending_of_job_iff by (auto, metis)
  finally show ?thesis .
qed

section \<open>Samples\<close>

definition sample_filters :: list_filters where
  "sample_filters = \<lparr>lf_tenant_id = Some ''t1'', lf_region = None, lf_status = None, lf_report_type = None,
     lf_portfolio_id = None, lf_as_of_date = None, lf_idempotency_key = None, lf_correlation_id = None,
     lf_created_from = Some 1000000, lf_created_to = None, lf_limit = 25\<rparr>"

definition sample_event :: "string \<Rightarrow> string \<Rightarrow> string \<Rightarrow> event_row" where
  "sample_event i kind pair = \<lparr>ev_id = i, ev_job_id = ''rjb_1'', ev_from = Some Archived, ev_to = Archived,
     ev_type = kind, ev_schema_version = [], ev_family = [], ev_payload = [],
     ev_key = Some (kind @ '':'' @ pair), ev_message = None, ev_actor = ''system'',
     ev_created_at = Zulu 1000000, ev_correlation_id = ''corr'', ev_trace_id = ''trace''\<rparr>"

definition sample_lineage :: ledger where
  "sample_lineage = (sample_ledger sample_job)\<lparr>events :=
     [sample_event ''e1'' ''job_archive_lineage_pending'' ''a:b'',
      sample_event ''e2'' ''job_archive_lineage_recorded'' ''a:b'',
      sample_event ''e3'' ''job_archive_lineage_pending'' ''b:c'']\<rparr>"

section \<open>Properties\<close>

text \<open>
  The archive-status projection is the query it stands for, and stays inside the tenant. Cutting
  the requested ids into chunks of 500 and concatenating the answers gives the statuses of exactly
  the tenant's jobs among the requested ids, each once and ordered by id, whatever duplicates, empty
  ids and ids of other tenants the request holds.
\<close>

theorem archive_statuses_chunked:
  assumes "schema_inv s"
  shows "get_archive_statuses_by_job_ids s ids tenant = map status_of (sort_key j_id
     (filter (\<lambda>j. job_tenant s j = Some tenant \<and> j_id j \<noteq> [] \<and> j_id j \<in> set ids) (jobs s)))"
proof -
  let ?u = "sorted_set (filter (\<lambda>i. i \<noteq> []) ids)"
  have "get_archive_statuses_by_job_ids s ids tenant = map status_of (concat (map (jobs_among s tenant) (chunks 500 ?u)))"
    by (simp add: get_archive_statuses_by_job_ids_def select_statuses_def [abs_def] jobs_among_def [abs_def] map_concat comp_def)
  also have "\<dots> = map status_of (jobs_among s tenant ?u)"
    using concat_chunks [OF assms, of 500 ?u] by (simp add: sorted_set_def)
  finally show ?thesis by (simp add: jobs_among_def conj_commute conj_left_commute)
qed

theorem archive_statuses_chunked_witness:
  "map as_job_id (get_archive_statuses_by_job_ids (sample_ledger sample_job) [''x'', ''rjb_1'', [], ''rjb_1''] ''t1'')
     = [''rjb_1'']
   \<and> get_archive_statuses_by_job_ids (sample_ledger sample_job) [''rjb_1''] ''t2'' = []"
proof -
  have inv: "schema_inv (sample_ledger sample_job)"
    by (rule schema_inv_sample) (simp_all add: samples custody_checks_def custody_scoped_def)
  show ?thesis
    unfolding archive_statuses_chunked [OF inv]
    by (simp add: samples job_tenant_def find_request_def status_of_def)
qed

text \<open>
  The limit of a job listing applies after the filters. When every row's stored scope, date and
  timestamps are regular (in particular no creation time shares its second with a bound while only
  one of the two has a fractional part), the SQL predicates select what the Python matcher accepts:
  the listing is the newest accepted jobs, up to the limit, and no accepted job is displaced by a row
  the matcher rejects.
\<close>

theorem list_jobs_limit_after_filter:
  assumes "list_all (regular_row f) (job_rows s)"
  shows "list_jobs s f = Inr (map listed_record (sql_limit (lf_limit f) (newest_jobs
     (filter (\<lambda>row. record_matches_filters (listed_record row) f = Inr True) (job_rows s)))))"
proof -
  have agree: "record_matches_filters (listed_record row) f = Inr (list_jobs_predicates f (fst row) (snd row))"
    if "row \<in> set (job_rows s)" for row
    using that assms filters_agree [of f "fst row" "snd row"] by (auto simp: list_all_iff)
  have "filter (\<lambda>(r, j). list_jobs_predicates f r j) (job_rows s)
      = filter (\<lambda>row. record_matches_filters (listed_record row) f = Inr True) (job_rows s)"
    by (rule filter_cong) (auto simp: agree split: prod.split)
  moreover have "filterE (\<lambda>rec. record_matches_filters rec f) (map listed_record (list_job_rows s f))
      = Inr (map listed_record (list_job_rows s f))"
    using agree in_set_list_job_rows by (intro filterE_map_const) force
  ultimately show ?thesis by (simp add: list_jobs_def list_job_rows_def)
qed

theorem list_jobs_limit_after_filter_witness:
  "\<exists>recs. list_jobs (sample_ledger sample_job) sample_filters = Inr recs \<and> map lr_job_id recs = [''rjb_1'']"
proof -
  have regular: "list_all (regular_row sample_filters) (job_rows (sample_ledger sample_job))" by code_simp
  have ids: "map lr_job_id (map listed_record (sql_limit (lf_limit sample_filters) (newest_jobs
     (filter (\<lambda>row. record_matches_filters (listed_record row) sample_filters = Inr True)
        (job_rows (sample_ledger sample_job)))))) = [''rjb_1'']" by code_simp
  show ?thesis by (rule exI, rule conjI [OF list_jobs_limit_after_filter [OF regular] ids])
qed

text \<open>
  A lower bound on a whole second hides the jobs of that second. With \<open>created_from\<close> on a whole
  second, every job created later within that second is rejected by the SQL predicate (its stored
  text, with a fraction, sorts before the bound's, which ends in \<open>Z\<close>), although the Python matcher
  accepts its creation time; no limit or other filter brings it back.
\<close>

theorem list_jobs_misses_first_second:
  assumes "lf_created_from f = Some t" and "dt_micro t = 0"
    and "j_created_at j = Zulu u" and "dt_second u = dt_second t" and "dt_micro u \<noteq> 0"
  shows "t < u \<and> (r, j) \<notin> set (list_job_rows s f)"
proof -
  have "\<not> stamp_le (Zulu t) (Zulu u)"
    using assms by (simp add: stamp_le_Zulu)
  then have "\<not> list_jobs_predicates f r j"
    using assms(1,3) by (simp add: list_jobs_predicates_def opt_filter_def dt_to_text_def)
  then show ?thesis
    using in_set_list_job_rows [of "(r, j)" s f] assms(2,4,5) dt_le_iff [of u t] dt_micro_range [of u] by force
qed

theorem list_jobs_misses_first_second_witness:
  "(sample_request, sample_job\<lparr>j_created_at := Zulu 1500000\<rparr>)
     \<notin> set (list_job_rows (sample_ledger (sample_job\<lparr>j_created_at := Zulu 1500000\<rparr>)) sample_filters)
   \<and> record_matches_filters (listed_record (sample_request, sample_job\<lparr>j_created_at := Zulu 1500000\<rparr>)) sample_filters = Inr True"
proof -
  have "lf_created_from sample_filters = Some 1000000" "j_created_at (sample_job\<lparr>j_created_at := Zulu 1500000\<rparr>) = Zulu 1500000"
    by (simp_all add: sample_filters_def)
  from list_jobs_misses_first_second [OF this(1) _ this(2)]
  have "(sample_request, sample_job\<lparr>j_created_at := Zulu 1500000\<rparr>)
     \<notin> set (list_job_rows (sample_ledger (sample_job\<lparr>j_created_at := Zulu 1500000\<rparr>)) sample_filters)"
    by (simp add: dt_micro_def dt_second_def)
  moreover have "record_matches_filters (listed_record (sample_request, sample_job\<lparr>j_created_at := Zulu 1500000\<rparr>))
      sample_filters = Inr True" by code_simp
  ultimately show ?thesis by blast
qed

lemma pending_lineage_later:
  assumes limit: "int (length (pending_rows (events s))) \<le> limit"
    and later: "ledger_rel s s'" and settled: "r \<in> set (events s)" "settles r p"
  shows "fst ` set (list_pending_archive_lineage s limit) = {ev_job_id p |p. p \<in> set (events s) \<and> outstanding (events s) p}
    \<and> \<not> outstanding (events s') p"
proof -
  have "take (nat (max 0 limit)) (sort_key (\<lambda>(i, t). text_key t) (pending_rows (events s)))
      = sort_key (\<lambda>(i, t). text_key t) (pending_rows (events s))"
    using limit by simp
  then have "fst ` set (list_pending_archive_lineage s limit) = fst ` set (pending_rows (events s))"
    by (force simp: list_pending_archive_lineage_def)
  moreover obtain vs where "events s' = events s @ vs"
    using later by (auto simp: ledger_rel_def history_rel_def)
  then have "list_ex (\<lambda>r. settles r p) (events s')" using settled by (auto simp: list_ex_iff)
  ultimately show ?thesis by (simp add: set_pending_rows outstanding_def)
qed

lemma relationship_update_keeps:
  "rel_id (relationship_update x z) = rel_id z" "rel_identity (relationship_update x z) = rel_identity z"
  "rel_created_at (relationship_update x z) = rel_created_at z"
  "rel_source_status (relationship_update x z) = rel_source_status x"
  "rel_derived_status (relationship_update x z) = rel_derived_status x"
  "rel_reason (relationship_update x z) = rel_reason x"
  by (simp_all add: relationship_update_def rel_identity_def)

text \<open>The two outcomes of the conflict clause: the row of the pair is refreshed, or a row is added.\<close>

lemma upsert_refreshes:
  assumes inv: "schema_inv s" and y: "y \<in> set (relationships s)" "rel_identity y = rel_identity x0"
    and id: "rel_id x0 = rel_id y"
    and ins: "insert_relationship_or_update x0 (relationship_update x0) s = Inr ((), s')"
    and x: "fetch (\<lambda>z. rel_id z = rel_id x0) (relationships s') = Some x"
  shows "x = relationship_update x0 y"
    "relationships s' = update_where (\<lambda>z. rel_identity z = rel_identity x0) (relationship_update x0) (relationships s)"
proof -
  let ?u = "update_where (\<lambda>z. rel_identity z = rel_identity x0) (relationship_update x0) (relationships s)"
  have mem: "rel_identity x0 \<in> rel_identity ` set (relationships s)" using y by (metis imageI)
  then show s': "relationships s' = ?u" using ins by (auto simp: insert_relationship_or_update_def)
  have u: "relationship_update x0 y \<in> set ?u" using y by (auto simp: set_update_where)
  have "distinct (map rel_id ?u)"
    using inv by (simp add: map_update_where relationship_update_keeps schema_inv_def relationships_ok_def)
  from keyed_fetch [OF this u] show "x = relationship_update x0 y"
    using x s' id by (simp add: relationship_update_keeps)
qed

lemma upsert_adds:
  assumes fresh: "rel_identity x0 \<notin> rel_identity ` set (relationships s)"
    and ins: "insert_relationship_or_update x0 (relationship_update x0) s = Inr ((), s')"
    and x: "fetch (\<lambda>z. rel_id z = rel_id x0) (relationships s') = Some x"
  shows "x = x0" "relationships s' = relationships s @ [x0]"
proof -
  show s': "relationships s' = relationships s @ [x0]"
    using ins fresh by (auto simp: insert_relationship_or_update_def split: if_splits)
  have "rel_id x0 \<notin> rel_id ` set (relationships s)"
    using ins fresh by (auto simp: insert_relationship_or_update_def split: if_splits)
  then have "fetch (\<lambda>y. rel_id y = rel_id x0) (relationships s) = None" unfolding fetch_None by (metis imageI)
  then show "x = x0" using s' x by (simp add: fetch_append del: fetch_None)
qed

text \<open>
  A relationship between two jobs is one row that keeps its identity: recording it again
  refreshes the statuses, the consequence, the actor and the reason, and keeps its id and its
  creation time; relationships of other pairs or kinds are untouched; the stored reason is never
  empty and has at most 240 characters.
\<close>

theorem upsert_relationship_identity:
  assumes inv: "schema_inv s"
    and run: "upsert_job_relationship e source derived kind actor reason c p n s = Inr (x, s')"
  shows "x \<in> set (relationships s') \<and> rel_identity x = (lr_job_id source, lr_job_id derived, kind)
    \<and> rel_source_status x = lr_status source \<and> rel_derived_status x = lr_status derived
    \<and> rel_reason x \<noteq> [] \<and> length (rel_reason x) \<le> 240
    \<and> (\<forall>y \<in> set (relationships s). if rel_identity y = rel_identity x
         then rel_id y = rel_id x \<and> rel_created_at y = rel_created_at x else y \<in> set (relationships s'))
    \<and> length (relationships s') = length (relationships s)
        + (if rel_identity x \<in> rel_identity ` set (relationships s) then 0 else 1)"
proof -
  let ?k = "(lr_job_id source, lr_job_id derived, kind)"
  let ?E = "fetch (\<lambda>y. rel_identity y = ?k) (relationships s)"
  obtain x0 where def: "x0 = upserted_row e source derived kind actor reason c p n ?E" by blast
  then have x0: "rel_identity x0 = ?k" "rel_source_status x0 = lr_status source"
      "rel_derived_status x0 = lr_status derived" "rel_reason x0 = bounded_relationship_reason reason"
      "rel_id x0 = (case ?E of None \<Rightarrow> ''rjr_'' @ uuid4_hex e 1 | Some y \<Rightarrow> rel_id y)"
    by (simp_all only: upserted_fields)
  have "insert_relationship_or_update x0 (relationship_update x0) s = Inr ((), s')
      \<and> fetch (\<lambda>y. rel_id y = rel_id x0) (relationships s') = Some x"
    using run unfolding upsert_job_relationship_def Let_def def
    by (elim tx_bindE) (auto split: option.splits)
  then have ins: "insert_relationship_or_update x0 (relationship_update x0) s = Inr ((), s')"
    and x: "fetch (\<lambda>y. rel_id y = rel_id x0) (relationships s') = Some x" by blast+
  have r: "rel_reason x0 \<noteq> [] \<and> length (rel_reason x0) \<le> 240"
    by (simp add: x0(4) bounded_relationship_reason_def Let_def)
  show ?thesis
  proof (cases ?E)
    case (Some y)
    then have y: "y \<in> set (relationships s)" "rel_identity y = rel_identity x0"
      using fetch_SomeD [OF Some] x0(1) by simp_all
    have id: "rel_id x0 = rel_id y" using Some x0(5) by simp
    note new = upsert_refreshes [OF inv y id ins x]
    have same: "z = y" if "z \<in> set (relationships s)" "rel_identity z = ?k" for z
      using that y x0(1) inv by (simp add: schema_inv_def relationships_ok_def distinct_map inj_on_def)
    have "length (relationships s') = length (relationships s)" unfolding new(2) by (simp add: update_where_def)
    moreover have "x \<in> set (relationships s')" using y by (auto simp: new set_update_where)
    moreover have "\<forall>z \<in> set (relationships s). if rel_identity z = ?k
        then rel_id z = rel_id x \<and> rel_created_at z = rel_created_at x else z \<in> set (relationships s')"
      using same x0(1) by (auto simp: new relationship_update_keeps set_update_where)
    moreover have "?k \<in> rel_identity ` set (relationships s)" using y x0(1) by (metis imageI)
    moreover have "rel_identity x = ?k \<and> rel_source_status x = lr_status source
        \<and> rel_derived_status x = lr_status derived \<and> rel_reason x = rel_reason x0"
      using y(2) x0(1,2,3) by (simp add: new(1) relationship_update_keeps)
    ultimately show ?thesis using r by simp
  next
    case None
    then have fresh: "rel_identity x0 \<notin> rel_identity ` set (relationships s)" using x0(1) by (auto simp: image_iff)
    show ?thesis using upsert_adds [OF fresh ins x] x0 r fresh by (auto simp: image_iff)
  qed
qed

theorem upsert_relationship_identity_witness:
  "\<exists>x s'. upsert_job_relationship sample_env (record_from_row sample_request sample_job)
       (record_from_row sample_request sample_job) Batch_item_replay ''ops'' '' '' None None None (sample_ledger sample_job)
     = Inr (x, s') \<and> rel_reason x \<noteq> [] \<and> length (relationships s') = 1"
proof -
  let ?run = "upsert_job_relationship sample_env (record_from_row sample_request sample_job)
       (record_from_row sample_request sample_job) Batch_item_replay ''ops'' '' '' None None None (sample_ledger sample_job)"
  have "\<not> isl ?run" by code_simp
  then obtain x s' where run: "?run = Inr (x, s')" by (cases ?run) auto
  have inv: "schema_inv (sample_ledger sample_job)"
    by (rule schema_inv_sample) (simp_all add: samples custody_checks_def custody_scoped_def)
  have "relationships (sample_ledger sample_job) = []" by (simp add: samples)
  then show ?thesis using upsert_relationship_identity [OF inv run] run by auto
qed

end
