(* ===== verification/Ledger_Runs.thy ===== *)
theory Ledger_Runs
  imports Creation_Laws Rerender Job_Queries
begin

text \<open>
  Runs of the job ledger: any interleaving of committed operations, one rule per operation of
  \<open>ReportJobLedger\<close> and of its custody store that changes state. Every operation is one transaction
  under the ledger's lock; one that raises is rolled back and is no step. The environment of each
  call (clock, identifiers, hash, custody bindings) and all its arguments are arbitrary.
\<close>

inductive ledger_step :: "ledger \<Rightarrow> ledger \<Rightarrow> bool" where
  create: "create_report_job dp e c s = Inr (rec, s') \<Longrightarrow> ledger_step s s'"
| submit_composite: "submit_composite_review_job dp e q caller key adm s = Inr (rec, s') \<Longrightarrow> ledger_step s s'"
| replay: "create_replay_derived_job dp e src request caller key reason s = Inr (rec, s') \<Longrightarrow> ledger_step s s'"
| claim: "claim_work_items e worker limit now policy duration s = Inr (items, s') \<Longrightarrow> ledger_step s s'"
| complete: "complete_work_item e wid tok now s = Inr (item, s') \<Longrightarrow> ledger_step s s'"
| defer_item: "defer_work_item e wid tok category delay now s = Inr (item, s') \<Longrightarrow> ledger_step s s'"
| fail_item: "fail_work_item e wid tok category summary policy now s = Inr (item, s') \<Longrightarrow> ledger_step s s'"
| collecting: "mark_collecting_data e jid actor corr trace s = Inr (rec, s') \<Longrightarrow> ledger_step s s'"
| data_ready: "mark_data_ready e jid actor corr trace s = Inr (rec, s') \<Longrightarrow> ledger_step s s'"
| rendering: "mark_rendering e jid actor corr trace rj fmt tid tv s = Inr (rec, s') \<Longrightarrow> ledger_step s s'"
| completed: "mark_completed e jid actor corr trace output s = Inr (rec, s') \<Longrightarrow> ledger_step s s'"
| archiving: "mark_archiving e jid actor corr trace ar s = Inr (rec, s') \<Longrightarrow> ledger_step s s'"
| archived: "mark_archived e jid actor corr trace ar doc s = Inr (rec, s') \<Longrightarrow> ledger_step s s'"
| failed: "mark_failed e jid actor corr trace category message retry s = Inr (rec, s') \<Longrightarrow> ledger_step s s'"
| cancel: "cancel_job e jid actor corr trace s = Inr (rec, s') \<Longrightarrow> ledger_step s s'"
| event: "append_job_event e jid kind message payload key actor corr trace skip s = Inr (appended, s') \<Longrightarrow> ledger_step s s'"
| relationship: "upsert_job_relationship e source derived rkind actor reason co pd nd s = Inr (rel, s') \<Longrightarrow> ledger_step s s'"
| rerender: "create_rerender_attempt e job sid sh key actor reason corr trace s = Inr (att, s') \<Longrightarrow> ledger_step s s'"
| adopt: "record_adopted_rerender_outcome e job key actor reason corr trace adopted doc s = Inr (att, s') \<Longrightarrow> ledger_step s s'"
| rerendered: "mark_rerender_rendered e aid rj sha fp en ev du s = Inr (att, s') \<Longrightarrow> ledger_step s s'"
| rerender_archiving: "mark_rerender_archiving e aid ar s = Inr (att, s') \<Longrightarrow> ledger_step s s'"
| rerender_archived: "mark_rerender_archived e aid actor corr trace doc s = Inr (att, s') \<Longrightarrow> ledger_step s s'"
| rerender_failed: "mark_rerender_failed e aid actor corr trace category message retry s = Inr (att, s') \<Longrightarrow> ledger_step s s'"
| offer: "commit_offer e jid tn rg fence payload now s = Inr (digest', s') \<Longrightarrow> ledger_step s s'"
| reserved: "reserve e jid tn rg fence op now s = Inr (res, s') \<Longrightarrow> ledger_step s s'"
| owner_due: "record_owner_due e jid tn rg fence due s = Inr (u, s') \<Longrightarrow> ledger_step s s'"
| disposed: "disposition e jid fence resp h tn rg s = Inr (u, s') \<Longrightarrow> ledger_step s s'"
| blocked: "block e jid tn rg fence s = Inr (u, s') \<Longrightarrow> ledger_step s s'"
| verify: "confirm_final_verify e jid tn rg fence resp s = Inr (ident, s') \<Longrightarrow> ledger_step s s'"
| confirm: "confirm_final_commit e jid tn rg fence ident s = Inr (u, s') \<Longrightarrow> ledger_step s s'"
| resumed: "resume e jid tn rg ep d now s = Inr (u, s') \<Longrightarrow> ledger_step s s'"

lemma step_rel: "ledger_step s s' \<Longrightarrow> ledger_rel s s'"
  by (induction rule: ledger_step.induct) (erule keepsD [rotated], rule keeps_intros)+

abbreviation ledger_run :: "ledger \<Rightarrow> ledger \<Rightarrow> bool" where
  "ledger_run \<equiv> ledger_step\<^sup>*\<^sup>*"

lemma run_rel: "ledger_run s s' \<Longrightarrow> ledger_rel s s'"
  by (induction rule: rtranclp_induct) (auto intro: led.R_refl led.R_trans step_rel)

lemma run_inv: "ledger_run s s' \<Longrightarrow> schema_inv s \<Longrightarrow> schema_inv s'"
  using run_rel ledger_rel_schema by blast

section \<open>Samples\<close>

definition sample_offer :: jobj where
  "sample_offer = [(''report_job_id'', JStr ''rjb_1''), (''report_type'', JStr ''portfolio_review''),
     (''render_job_id'', JStr ''rdr_rjb_1_pdf''), (''template_id'', JStr ''tmpl''),
     (''template_version'', JStr ''v2''), (''output_format'', JStr ''pdf''),
     (''render_context'', JObj [(''archive'', JObj [(''tenant_id'', JStr ''t1''), (''region'', JStr ''sg'')])])]"

definition sample_fence :: custody_fence where
  "sample_fence = \<lparr>cl_work_item_id = ''wi_1'', cl_token = Some ''tok'', cl_epoch = 0\<rparr>"

lemma sample_first_create:
  obtains rec s where "create_report_job sample_deployment sample_hash_env (sample_creation ''OVERVIEW'') empty_ledger = Inr (rec, s)"
proof -
  let ?c = "sample_creation ''OVERVIEW''"
  obtain p where p: "prepare_creation sample_deployment sample_hash_env ?c = Inr p"
    and eq: "\<exists>pair contract hash. p = sample_prepared ''OVERVIEW'' ''k9'' pair contract hash"
    by (rule sample_prepare_shape)
  have "\<not> isl (insert_new_job sample_hash_env ?c (sample_prepared ''OVERVIEW'' ''k9'' pair contract hash) None empty_ledger)"
    for pair contract hash by code_simp
  then have "\<not> isl (insert_new_job sample_hash_env ?c p None empty_ledger)" using eq by blast
  moreover have "request_for empty_ledger ?c p = None" by (simp add: empty_ledger_def)
  moreover have "cx_replay_source ?c = None" by (simp add: sample_creation_def new_job_def)
  ultimately have "\<not> isl (create_report_job sample_deployment sample_hash_env ?c empty_ledger)"
    using create_new [OF p] by (simp del: fetch_None)
  then show thesis using that by (rule Inr_pairE)
qed

section \<open>Properties\<close>

text \<open>
  (C6) Creating a report job is idempotent in its key. Once a creation succeeded, new or itself a
  retry, whatever the ledger does afterwards and whatever became of the job, the same request under
  the same key, from a caller of the same tenant and region with other correlation ids, returns the
  same job and writes no request and no job. The binding of a composite job is read back by
  Pydantic, which is assumed to accept its own dump.
\<close>

theorem create_idempotent:
  assumes inv: "schema_inv s" and first: "create_report_job dp e c s = Inr (rec, s1)"
    and later: "ledger_run s1 s2" and sha: "env_sha256 e' = env_sha256 e"
    and caller: "cc_tenant_id caller = cc_tenant_id (cx_caller c)" "cc_region caller = cc_region (cx_caller c)"
    and load: "binding_roundtrip dp (cx_admission c)"
  shows "\<exists>rec' s3. create_report_job dp e' (c\<lparr>cx_caller := caller\<rparr>) s2 = Inr (rec', s3)
    \<and> lr_job_id rec' = lr_job_id rec \<and> requests s3 = requests s2 \<and> jobs s3 = jobs s2"
  by (rule create_again [OF inv first run_rel [OF later] sha caller load])

theorem create_idempotent_witness:
  "\<exists>rec s1 rec' s2. create_report_job sample_deployment sample_hash_env (sample_creation ''OVERVIEW'')
       (sample_ledger sample_job) = Inr (rec, s1)
     \<and> create_report_job sample_deployment sample_hash_env
         ((sample_creation ''OVERVIEW'')\<lparr>cx_caller := sample_caller\<lparr>cc_correlation_id := ''retry''\<rparr>\<rparr>) s1 = Inr (rec', s2)
     \<and> lr_job_id rec' = lr_job_id rec"
proof -
  obtain rec s1 where first: "create_report_job sample_deployment sample_hash_env (sample_creation ''OVERVIEW'')
      (sample_ledger sample_job) = Inr (rec, s1)" by (rule sample_create)
  have "schema_inv (sample_ledger sample_job)"
    by (rule schema_inv_sample) (simp_all add: samples custody_checks_def custody_scoped_def)
  from create_idempotent [OF this first rtranclp.rtrancl_refl refl, of "sample_caller\<lparr>cc_correlation_id := ''retry''\<rparr>"] first
  show ?thesis by (auto simp: sample_creation_def new_job_def sample_caller_def binding_roundtrip_def)
qed

text \<open>
  (C7) A key is never reused for another intent. After a key was used for a new job, in every later
  ledger a creation under the same tenant and key, by whatever entry point, whose report type, region
  or request differs (in the sense of the identity, so up to the order of keys and sets and without
  what the server derives) is refused as an idempotency conflict, provided SHA-256 does not collide on
  the two identity texts.
\<close>

theorem create_conflict:
  assumes inv: "schema_inv s" and p: "prepare_creation dp e c = Inr p" and novel: "request_for s c p = None"
    and first: "create_report_job dp e c s = Inr (rec, s1)" and later: "ledger_run s1 s2"
    and sha: "env_sha256 e' = env_sha256 e"
    and p': "prepare_creation dp e' c' = Inr p'" and key: "pp_key p' = pp_key p"
    and tenant: "cc_tenant_id (cx_caller c') = cc_tenant_id (cx_caller c)"
    and wf: "wf_parts (pp_parts p)" "wf_parts (pp_parts p')" "plain_sets (pp_parts p)"
    and other: "\<not> (cx_report_type c' = cx_report_type c \<and> cc_region (cx_caller c') = cc_region (cx_caller c)
      \<and> same_request (pp_parts p') (pp_parts p))"
    and collision: "inj_on (env_sha256 e)
      {identity_text (cx_report_type c) (pp_parts p) (cc_tenant_id (cx_caller c)) (cc_region (cx_caller c)),
       identity_text (cx_report_type c') (pp_parts p') (cc_tenant_id (cx_caller c')) (cc_region (cx_caller c'))}"
  shows "create_report_job dp e' c' s2
    = Inl (IdempotencyConflictError ''idempotency_key_reused_with_different_request'')"
  by (rule create_other_intent [OF inv p novel first run_rel [OF later] sha p' key tenant wf other collision])

theorem create_conflict_witness:
  "\<exists>rec s1. create_report_job sample_deployment sample_hash_env (sample_creation ''OVERVIEW'')
       (sample_ledger sample_job) = Inr (rec, s1)
     \<and> create_report_job sample_deployment sample_hash_env (sample_creation ''RISK'') s1
       = Inl (IdempotencyConflictError ''idempotency_key_reused_with_different_request'')"
proof -
  let ?c = "sample_creation ''OVERVIEW''" and ?c' = "sample_creation ''RISK''"
    and ?e = sample_hash_env and ?dp = sample_deployment
  obtain rec s1 where first: "create_report_job ?dp ?e ?c (sample_ledger sample_job) = Inr (rec, s1)"
    by (rule sample_create)
  obtain p where p: "prepare_creation ?dp ?e ?c = Inr p"
    and eq: "\<exists>pair contract hash. p = sample_prepared ''OVERVIEW'' ''k9'' pair contract hash"
    by (rule sample_prepare_shape)
  obtain p' where p': "prepare_creation ?dp ?e ?c' = Inr p'"
    and eq': "\<exists>pair contract hash. p' = sample_prepared ''RISK'' ''k9'' pair contract hash"
    by (rule sample_prepare_shape)
  let ?ps = "\<lambda>section. portfolio_review_parts (sample_review section)"
  have "wf_parts (?ps ''OVERVIEW'')" "wf_parts (?ps ''RISK'')" "plain_sets (?ps ''OVERVIEW'')"
    "\<not> same_request (?ps ''RISK'') (?ps ''OVERVIEW'')" by code_simp+
  with eq eq' have facts: "request_for (sample_ledger sample_job) ?c p = None" "pp_key p' = pp_key p"
      "wf_parts (pp_parts p)" "wf_parts (pp_parts p')" "plain_sets (pp_parts p)"
      "\<not> same_request (pp_parts p') (pp_parts p)"
    by (auto simp: sample_prepared_def samples)
  have inv: "schema_inv (sample_ledger sample_job)"
    by (rule schema_inv_sample) (simp_all add: samples custody_checks_def custody_scoped_def)
  have "inj_on (env_sha256 ?e) A" for A by (simp add: sample_hash_env_def)
  moreover have "cx_caller ?c' = cx_caller ?c" by (simp add: sample_creation_def new_job_def)
  ultimately have "create_report_job ?dp ?e ?c' s1
      = Inl (IdempotencyConflictError ''idempotency_key_reused_with_different_request'')"
    using facts(6) by (intro create_conflict [OF inv p facts(1) first rtranclp.rtrancl_refl refl p' facts(2) _ facts(3,4,5)])
      (simp_all del: inj_on_insert)
  with first show ?thesis by blast
qed

text \<open>
  (C8) A failed job has one live replacement. After a replay of a job under a new key, in every
  later ledger in which the replacement is neither cancelled nor failed for good (in flight,
  archived, or failed with the archive outcome still open), no replay of the same job under another
  key succeeds, whoever asks and whatever record of the source the caller read before: a second
  client document for the same failed work is never minted.
\<close>

theorem replay_single_replacement:
  assumes inv: "schema_inv s" and novel: "novel_key s caller key"
    and first: "create_replay_derived_job dp e src request caller key reason s = Inr (rec, s1)"
    and later: "ledger_run s1 s2"
    and live: "find_job (lr_job_id rec) s2 = Some m" "live_member s2 m"
    and second: "lr_job_id src' = lr_job_id src" "novel_key s2 caller' key'"
  shows "create_replay_derived_job dp' e' src' request' caller' key' reason' s2 \<noteq> Inr (rec', s3)"
  by (rule replay_again [OF inv novel first run_rel [OF later] live second])

theorem replay_single_replacement_witness:
  "\<exists>rec s1. sample_replay ''k2'' (sample_ledger sample_failed_job) = Inr (rec, s1)
     \<and> (\<forall>rec' s2. sample_replay ''k3'' s1 \<noteq> Inr (rec', s2))"
proof -
  obtain rec s1 m where run: "sample_replay ''k2'' (sample_ledger sample_failed_job) = Inr (rec, s1)"
    and n2: "novel_key s1 sample_caller (Some ''k3'')"
    and m: "find_job (lr_job_id rec) s1 = Some m" "live_member s1 m" by (rule sample_replay_run)
  have inv: "schema_inv (sample_ledger sample_failed_job)"
    by (rule schema_inv_sample) (simp_all add: samples sample_failed_job_def custody_checks_def custody_scoped_def)
  have n1: "novel_key (sample_ledger sample_failed_job) sample_caller (Some ''k2'')" by code_simp
  from replay_single_replacement [OF inv n1 run rtranclp.rtrancl_refl m refl n2] run show ?thesis by blast
qed

text \<open>
  A rerender key is bound to one attempt for good. Whichever operation used the key of a job
  first, a new rerender or the adoption of a correction already committed by the archive, every
  later request for a rerender under the same key (up to surrounding blanks) returns that attempt,
  says that it is not new, and changes nothing: a retry after a lost response never mints a second
  correction.
\<close>

theorem rerender_key_bound:
  assumes inv: "schema_inv s"
    and opened: "create_rerender_attempt e job sid sh key actor reason c t s = Inr ((a, fresh), s1)
      \<or> record_adopted_rerender_outcome e job key actor reason c t adopted doc s = Inr (a, s1)"
    and later: "ledger_run s1 s2"
    and retry: "py_strip key' = py_strip key" "lr_job_id job' = lr_job_id job"
  shows "\<exists>b. create_rerender_attempt e' job' sid' sh' key' actor' reason' c' t' s2 = Inr ((b, False), s2)
    \<and> rr_id b = rr_id a \<and> rr_job_id b = lr_job_id job \<and> rr_key b = py_strip key"
  by (rule rerender_again [OF inv opened run_rel [OF later] retry])

theorem rerender_key_bound_witness:
  "\<exists>a fresh s1 b. sample_rerender ''k1'' sample_archived = Inr ((a, fresh), s1)
     \<and> sample_rerender '' k1'' s1 = Inr ((b, False), s1) \<and> rr_id b = rr_id a"
proof -
  obtain a fresh s1 where run: "sample_rerender ''k1'' sample_archived = Inr ((a, fresh), s1)"
    by (rule sample_rerender_run)
  have "py_strip '' k1'' = py_strip ''k1''" by code_simp
  from rerender_key_bound [OF sample_archived_inv disjI1 [OF run] rtranclp.rtrancl_refl this refl] run show ?thesis by blast
qed

text \<open>
  Reconciliation of archive lineage sees every unsettled pair and never a settled one again.
  With enough limit a job is listed exactly when one of its pending events has no recorded or
  refused event for the same pair; and once a pair is settled, no later ledger has it outstanding.
\<close>

theorem pending_lineage_exact:
  assumes limit: "int (length (pending_rows (events s))) \<le> limit"
    and later: "ledger_run s s'" and settled: "r \<in> set (events s)" "settles r p"
  shows "fst ` set (list_pending_archive_lineage s limit) = {ev_job_id p |p. p \<in> set (events s) \<and> outstanding (events s) p}
    \<and> \<not> outstanding (events s') p"
  by (rule pending_lineage_later [OF limit run_rel [OF later] settled])

theorem pending_lineage_exact_witness:
  "fst ` set (list_pending_archive_lineage sample_lineage 10) = {''rjb_1''}"
proof -
  have "int (length (pending_rows (events sample_lineage))) \<le> 10" by code_simp
  moreover have "sample_event ''e2'' ''job_archive_lineage_recorded'' ''a:b'' \<in> set (events sample_lineage)"
    by (simp add: sample_lineage_def)
  moreover have "settles (sample_event ''e2'' ''job_archive_lineage_recorded'' ''a:b'')
      (sample_event ''e1'' ''job_archive_lineage_pending'' ''a:b'')" by code_simp
  ultimately have "fst ` set (list_pending_archive_lineage sample_lineage 10)
      = {ev_job_id p |p. p \<in> set (events sample_lineage) \<and> outstanding (events sample_lineage) p}"
    using pending_lineage_exact [OF _ rtranclp.rtrancl_refl] by blast
  also have "\<dots> = ev_job_id ` set (filter (outstanding (events sample_lineage)) (events sample_lineage))" by auto
  also have "\<dots> = {''rjb_1''}" by code_simp
  finally show ?thesis .
qed




text \<open>
  (C11) A retained offer is never lost or altered. Once a render offer is retained for a job that
  had none, the digest returned is the SHA-256 of its canonical bytes, and whatever operations follow,
  reading the offer under the same scope returns exactly those bytes.
\<close>

theorem retained_offer_durable:
  assumes inv: "schema_inv s" and new: "\<And>j. find_job jid s = Some j \<Longrightarrow> \<not> truthy (j_offer_sha256 j)"
    and retained: "commit_offer e jid tn rg fence payload now s = Inr (digest', s1)"
    and later: "ledger_run s1 s2"
    and auth: "authorize e' ''read_offer'' jid tn rg = Inr ()" and sha: "env_sha256 e' = env_sha256 e"
  shows "digest' = env_sha256 e (compact_json_utf8 (JObj payload))
    \<and> load_offer e' jid tn rg s2 = Inr (compact_json_utf8 (JObj payload), s2)"
  by (rule offer_survives [OF inv new retained run_rel [OF later] auth sha])

theorem retained_offer_durable_witness:
  "\<exists>d s1. commit_offer sample_custody_env ''rjb_1'' ''t1'' ''sg'' sample_fence sample_offer None
        (sample_ledger sample_custody_job) = Inr (d, s1)
     \<and> load_offer sample_custody_env ''rjb_1'' ''t1'' ''sg'' s1 = Inr (compact_json_utf8 (JObj sample_offer), s1)"
proof -
  let ?s = "sample_ledger sample_custody_job"
  let ?run = "commit_offer sample_custody_env ''rjb_1'' ''t1'' ''sg'' sample_fence sample_offer None ?s"
  have "\<not> isl ?run" by code_simp
  then obtain d s1 where run: "?run = Inr (d, s1)" by (rule Inr_pairE)
  have inv: "schema_inv ?s"
    by (rule schema_inv_sample) (simp_all add: samples custody_checks_def custody_scoped_def)
  have new: "\<not> truthy (j_offer_sha256 j)" if "find_job ''rjb_1'' ?s = Some j" for j
    using that by (auto simp: samples find_job_def truthy_def)
  have "authorize sample_custody_env ''read_offer'' ''rjb_1'' ''t1'' ''sg'' = Inr ()" by code_simp
  from retained_offer_durable [OF inv new run rtranclp.rtrancl_refl this refl] run show ?thesis by blast
qed

text \<open>
  (C12) The ledger is append-only where it has to be. Along every run the requests and the events
  only grow at the end, every job stays under its id, and its request, report type, accepted
  document contract, custody policy, scope and creation time never change; a job whose custody was
  verified stays verified, with the same archived document, and is archived or as it was.
\<close>

theorem ledger_history_kept:
  assumes run: "ledger_run s s'" and j: "find_job jid s = Some j"
  shows "(\<exists>rs. requests s' = requests s @ rs) \<and> (\<exists>vs. events s' = events s @ vs)
    \<and> (\<exists>j'. find_job jid s' = Some j' \<and> j_request_id j' = j_request_id j
        \<and> j_report_type j' = j_report_type j \<and> j_accepted_contract j' = j_accepted_contract j
        \<and> j_custody_policy j' = j_custody_policy j \<and> j_portfolio_scope j' = j_portfolio_scope j
        \<and> j_created_at j' = j_created_at j
        \<and> (j_custody_state j = Some Verified \<longrightarrow> j_custody_state j' = Some Verified
             \<and> j_archive_document_id j' = j_archive_document_id j \<and> j_status j' \<in> {j_status j, Archived}))"
proof -
  have h: "history_rel s s'" using run_rel [OF run] by (simp add: ledger_rel_def)
  obtain j' where "find_job jid s' = Some j'" "job_evolves j j'" using history_find_job [OF h j] by blast
  then show ?thesis using h unfolding history_rel_def job_evolves_def by blast
qed


theorem ledger_history_kept_witness:
  "\<exists>rec s'. cancel_job sample_env ''rjb_1'' ''advisor'' ''corr'' ''trace'' (sample_ledger sample_job) = Inr (rec, s')
     \<and> (\<exists>j'. find_job ''rjb_1'' s' = Some j' \<and> j_created_at j' = Zulu 1000000)"
proof -
  let ?run = "cancel_job sample_env ''rjb_1'' ''advisor'' ''corr'' ''trace'' (sample_ledger sample_job)"
  have "\<not> isl ?run" by code_simp
  then obtain rec s' where run: "?run = Inr (rec, s')" by (rule Inr_pairE)
  from ledger_step.cancel [OF run] have steps: "ledger_run (sample_ledger sample_job) s'" ..
  have j: "find_job ''rjb_1'' (sample_ledger sample_job) = Some sample_job" by (simp add: samples find_job_def)
  have "j_created_at sample_job = Zulu 1000000" by (simp add: samples)
  with ledger_history_kept [OF steps j] run show ?thesis by auto
qed

end
