(* ===== verification/Worker.thy ===== *)
theory Worker
  imports Ledger_Runs
begin

text \<open>
  The durable worker (\<open>src/src/app/reporting_jobs/worker.py\<close>) and the execution service it drives
  (\<open>src/src/app/reporting_jobs/execution.py\<close>). A pass claims work items one at a time, executes the
  job under the lease, and settles the item by the outcome, within a deadline read from a monotonic
  clock.

  The capture and render services are parameters: an action reads and writes the ledger and ends with
  a value, an exception, or the cancellation \<open>asyncio.timeout\<close> delivers at an \<open>await\<close>. Unlike a
  transaction, an action keeps what it has written when it ends with an exception.
\<close>

section \<open>Actions\<close>

datatype 'a ending = Done 'a | Raised err | Cancelled_by_timeout

type_synonym ('s, 'a) action = "'s \<Rightarrow> 'a ending \<times> 's"

type_synonym 'a io = "(ledger, 'a) action"

definition io_return :: "'a \<Rightarrow> ('s, 'a) action" where
  "io_return a s = (Done a, s)"

definition io_raise :: "err \<Rightarrow> ('s, 'a) action" where
  "io_raise e s = (Raised e, s)"

definition io_bind :: "('s, 'a) action \<Rightarrow> ('a \<Rightarrow> ('s, 'b) action) \<Rightarrow> ('s, 'b) action" where
  "io_bind m f s = (case m s of (Done a, s') \<Rightarrow> f a s' | (Raised e, s') \<Rightarrow> (Raised e, s')
     | (Cancelled_by_timeout, s') \<Rightarrow> (Cancelled_by_timeout, s'))"

text \<open>One committed transaction.\<close>

definition io_tx :: "('s, 'a) tx \<Rightarrow> ('s, 'a) action" where
  "io_tx m s = (case commit m s of (Inl e, s') \<Rightarrow> (Raised e, s') | (Inr a, s') \<Rightarrow> (Done a, s'))"

definition io_lift :: "'a res \<Rightarrow> ('s, 'a) action" where
  "io_lift r s = (case r of Inl e \<Rightarrow> (Raised e, s) | Inr a \<Rightarrow> (Done a, s))"

section \<open>Execution of a job\<close>

datatype render_result = Rendered job_record | Render_waiting job_record

record services =
  sv_capture :: "env \<Rightarrow> job_record \<Rightarrow> job_record io"
  sv_render :: "env \<Rightarrow> job_record \<Rightarrow> render_result io"

record execution_result =
  ex_job :: job_record
  ex_waiting_on_owner :: bool

definition execute_admitted_job :: "services \<Rightarrow> env \<Rightarrow> job_record \<Rightarrow> execution_result io" where
  "execute_admitted_job sv e job =
     io_bind (if lr_status job \<in> {Accepted, Collecting_data} then sv_capture sv (sub_env 0 e) job else io_return job) (\<lambda>job.
     let stop = io_return \<lparr>ex_job = job, ex_waiting_on_owner = False\<rparr> in
     if lr_status job \<notin> {Data_ready, Rendering, Completed, Archiving} then stop
     else io_bind (io_lift (document_output_format (lr_requested_output_formats job))) (\<lambda>format.
       if format = None then stop
       else io_bind (sv_render sv (sub_env 1 e) job) (\<lambda>rendered.
         case rendered of Render_waiting j \<Rightarrow> io_return \<lparr>ex_job = j, ex_waiting_on_owner = True\<rparr>
         | Rendered j \<Rightarrow> io_return \<lparr>ex_job = j, ex_waiting_on_owner = False\<rparr>)))"

definition execute_job :: "services \<Rightarrow> env \<Rightarrow> string \<Rightarrow> execution_result io" where
  "execute_job sv e job_id = io_bind (io_tx (get_job job_id)) (execute_admitted_job sv e)"

section \<open>One work item\<close>

definition TERMINAL_JOB_STATUSES :: "job_status list" where
  "TERMINAL_JOB_STATUSES = [Completed, Completed_with_warnings, Archived, Failed, Cancelled]"

definition WORK_ITEM_SECONDS :: int where "WORK_ITEM_SECONDS = seconds 60"
definition WORK_PASS_SECONDS :: int where "WORK_PASS_SECONDS = seconds 120"

definition is_terminal_job :: "job_record \<Rightarrow> bool res" where
  "is_terminal_job job =
     (if lr_status job \<in> set TERMINAL_JOB_STATUSES then Inr True
      else if lr_status job = Data_ready
      then bindE (document_output_format (lr_requested_output_formats job)) (\<lambda>format. Inr (format = None))
      else Inr False)"

text \<open>\<open>str(exc) or exc.__class__.__name__\<close>.\<close>

fun err_summary :: "err \<Rightarrow> string" where
  "err_summary (MissingIdempotencyKeyError m) = (if m = [] then ''MissingIdempotencyKeyError'' else m)"
| "err_summary (IdempotencyConflictError m) = (if m = [] then ''IdempotencyConflictError'' else m)"
| "err_summary (ReportJobNotFoundError m) = (if m = [] then ''ReportJobNotFoundError'' else m)"
| "err_summary (InvalidReportJobTransitionError m) = (if m = [] then ''InvalidReportJobTransitionError'' else m)"
| "err_summary (InvalidReportJobWorkTransitionError m) = (if m = [] then ''InvalidReportJobWorkTransitionError'' else m)"
| "err_summary (CustodyRecoveryError m) = (if m = [] then ''CustodyRecoveryError'' else m)"
| "err_summary (TwrAuthorityRefused m) = (if m = [] then ''TwrAuthorityRefused'' else m)"
| "err_summary (ValueError m) = (if m = [] then ''ValueError'' else m)"
| "err_summary (LookupError m) = (if m = [] then ''LookupError'' else m)"
| "err_summary (IntegrityError m) = (if m = [] then ''IntegrityError'' else m)"
| "err_summary (RuntimeError m) = (if m = [] then ''RuntimeError'' else m)"
| "err_summary (PyTimeoutError m) = (if m = [] then ''TimeoutError'' else m)"
| "err_summary (PyTypeError m) = (if m = [] then ''TypeError'' else m)"
| "err_summary (PyKeyError m) = repr_string m"
| "err_summary (PyAttributeError m) = (if m = [] then ''AttributeError'' else m)"
| "err_summary (ValidationError m) = (if m = [] then ''ValidationError'' else m)"
| "err_summary (MissingBatchIdempotencyKeyError m) = (if m = [] then ''MissingBatchIdempotencyKeyError'' else m)"
| "err_summary (BatchIdempotencyConflictError m) = (if m = [] then ''BatchIdempotencyConflictError'' else m)"
| "err_summary (BatchSelectorValidationError m _) = (if m = [] then ''BatchSelectorValidationError'' else m)"
| "err_summary (BatchScheduleValidationError m _) = (if m = [] then ''BatchScheduleValidationError'' else m)"
| "err_summary (SchedulerTenantAdmissionError m) = (if m = [] then ''SchedulerTenantAdmissionError'' else m)"
| "err_summary (DuplicateScheduleDefinition m) = (if m = [] then ''DuplicateScheduleDefinition'' else m)"
| "err_summary (StaleScheduleRevision m) = (if m = [] then ''StaleScheduleRevision'' else m)"
| "err_summary (ScheduleDefinitionError _ m) = (if m = [] then ''ScheduleDefinitionError'' else m)"
| "err_summary (BatchScheduleConfigError m _) = (if m = [] then ''BatchScheduleConfigError'' else m)"

text \<open>The work and job statuses of an outcome are \<open>None\<close> where the code reports \<open>unknown\<close>.\<close>

record work_outcome =
  wo_work_item_id :: string
  wo_report_job_id :: string
  wo_work_status :: "work_status option"
  wo_job_status :: "job_status option"
  wo_failure :: "string option"

definition outcome_for :: "work_record \<Rightarrow> work_status option \<Rightarrow> job_status option \<Rightarrow> string option \<Rightarrow> work_outcome" where
  "outcome_for work work_status job_status failure =
     \<lparr>wo_work_item_id = wr_work_item_id work, wo_report_job_id = wr_report_job_id work,
      wo_work_status = work_status, wo_job_status = job_status, wo_failure = failure\<rparr>"

text \<open>The worker: its execution service and retry policy, and the monotonic clock by call path.\<close>

record worker =
  wk_services :: services
  wk_policy :: retry_policy
  wk_monotonic :: "nat list \<Rightarrow> int"

definition check_deadline :: "worker \<Rightarrow> nat list \<Rightarrow> int \<Rightarrow> unit io" where
  "check_deadline wk path deadline =
     (if wk_monotonic wk path \<ge> deadline then io_raise (PyTimeoutError ''report_job_worker_deadline_expired'')
      else io_return ())"

definition execute_with_lease :: "worker \<Rightarrow> env \<Rightarrow> work_record \<Rightarrow> string \<Rightarrow> execution_result io" where
  "execute_with_lease wk e work token =
     execute_job (wk_services wk) (e\<lparr>env_work_lease := Some (wr_work_item_id work, token)\<rparr>) (wr_report_job_id work)"

definition fail_outcome :: "worker \<Rightarrow> env \<Rightarrow> work_record \<Rightarrow> string \<Rightarrow> string \<Rightarrow> string \<Rightarrow> job_status option \<Rightarrow> work_outcome io" where
  "fail_outcome wk e work token category summary job_status =
     io_bind (io_tx (fail_work_item e (wr_work_item_id work) token category summary (Some (wk_policy wk)) None)) (\<lambda>failed.
     io_return (outcome_for work (Some (wr_status failed)) job_status (wr_last_error_category failed)))"

definition settle_execution :: "worker \<Rightarrow> env \<Rightarrow> work_record \<Rightarrow> string \<Rightarrow> execution_result \<Rightarrow> work_outcome io" where
  "settle_execution wk e work token execution =
     (let job = ex_job execution; wid = wr_work_item_id work; status = Some (lr_status job) in
      if lr_custody_policy job = Some REQUIRED_POLICY \<and> lr_custody_state job \<in> {Some Blocked, Some Refused}
      then io_return (outcome_for work (Some Work_failed) status (Some ''custody_parked''))
      else if ex_waiting_on_owner execution
      then io_bind (io_tx (defer_work_item e wid token ''waiting_on_render'' (base_delay_seconds (wk_policy wk)) None)) (\<lambda>deferred.
        io_return (outcome_for work (Some (wr_status deferred)) status (Some ''waiting_on_render'')))
      else io_bind (io_lift (is_terminal_job job)) (\<lambda>terminal.
        if \<not> terminal
        then fail_outcome wk e work token ''report_job_worker_incomplete''
               (''Report job remained in non-terminal state '' @ status_text (lr_status job) @ ''.'') status
        else io_bind (io_tx (complete_work_item e wid token None)) (\<lambda>completed.
          io_return (outcome_for work (Some (wr_status completed)) status
            (map_option category_text (lr_failure_category job))))))"

definition execute_work_item :: "worker \<Rightarrow> env \<Rightarrow> nat list \<Rightarrow> work_record \<Rightarrow> int \<Rightarrow> work_outcome io" where
  "execute_work_item wk e path work deadline =
     (case wr_lease_token work of None \<Rightarrow> io_raise (RuntimeError ''report_job_work_item_missing_lease_token'')
      | Some token \<Rightarrow>
        if token = [] then io_raise (RuntimeError ''report_job_work_item_missing_lease_token'')
        else (\<lambda>s. case execute_with_lease wk (sub_env 1 e) work token s of
            (Done execution, s1) \<Rightarrow>
              io_bind (check_deadline wk (path @ [2]) deadline) (\<lambda>_.
                settle_execution wk (sub_env 2 e) work token execution) s1
          | (Raised exc, s1) \<Rightarrow>
              io_bind (check_deadline wk (path @ [2]) deadline) (\<lambda>_.
                fail_outcome wk (sub_env 2 e) work token ''report_job_worker_execution_failed'' (err_summary exc) None) s1
          | (Cancelled_by_timeout, s1) \<Rightarrow> (Cancelled_by_timeout, s1)))"

text \<open>
  A timeout before the claim returned an item ends the pass, one after it leaves the row to the
  recovery of expired leases. Every other exception leaves \<open>_run_item\<close>.
\<close>

definition run_item :: "worker \<Rightarrow> env \<Rightarrow> nat list \<Rightarrow> string \<Rightarrow> int \<Rightarrow> int \<Rightarrow> work_outcome option io" where
  "run_item wk e path worker_id lease_seconds deadline s =
     (case io_bind (check_deadline wk (path @ [0]) deadline) (\<lambda>_.
             io_tx (claim_work_items (sub_env 0 e) worker_id 1 lease_seconds (Some (wk_policy wk)) None)) s of
        (Done [], s1) \<Rightarrow> (Done None, s1)
      | (Done (work # _), s1) \<Rightarrow>
          (case io_bind (check_deadline wk (path @ [1]) deadline) (\<lambda>_. execute_work_item wk e path work deadline) s1 of
             (Done outcome, s2) \<Rightarrow> (Done (Some outcome), s2)
           | (Raised (PyTimeoutError _), s2) \<Rightarrow>
               (Done (Some (outcome_for work None None (Some ''report_job_worker_deadline_expired''))), s2)
           | (Cancelled_by_timeout, s2) \<Rightarrow>
               (Done (Some (outcome_for work None None (Some ''report_job_worker_deadline_expired''))), s2)
           | (Raised exc, s2) \<Rightarrow> (Raised exc, s2))
      | (Raised (PyTimeoutError _), s1) \<Rightarrow> (Done None, s1)
      | (Cancelled_by_timeout, s1) \<Rightarrow> (Done None, s1)
      | (Raised exc, s1) \<Rightarrow> (Raised exc, s1))"

section \<open>A pass\<close>

record worker_run_result =
  rn_worker_id :: string
  rn_claimed_count :: nat
  rn_completed_count :: nat
  rn_retry_pending_count :: nat
  rn_failed_count :: nat
  rn_outcomes :: "work_outcome list"

fun run_items ::
    "worker \<Rightarrow> env \<Rightarrow> string \<Rightarrow> int \<Rightarrow> int \<Rightarrow> nat list \<Rightarrow> work_outcome list \<Rightarrow> work_outcome list io" where
  "run_items wk e worker_id lease_seconds deadline [] outcomes = io_return outcomes"
| "run_items wk e worker_id lease_seconds deadline (i # is) outcomes =
     (let started_at = wk_monotonic wk [Suc i] in
      if deadline - started_at < WORK_ITEM_SECONDS then io_return outcomes
      else io_bind (run_item wk (sub_env i e) [Suc i] worker_id lease_seconds
                      (min deadline (started_at + WORK_ITEM_SECONDS))) (\<lambda>outcome.
        case outcome of None \<Rightarrow> io_return outcomes
        | Some oc \<Rightarrow> run_items wk e worker_id lease_seconds deadline is (outcomes @ [oc])))"

definition count_status :: "work_status \<Rightarrow> work_outcome list \<Rightarrow> nat" where
  "count_status st ocs = length (filter (\<lambda>oc. wo_work_status oc = Some st) ocs)"

definition run_once :: "worker \<Rightarrow> env \<Rightarrow> string \<Rightarrow> int \<Rightarrow> int \<Rightarrow> worker_run_result io" where
  "run_once wk e worker_id max_items lease_seconds =
     io_bind (run_items wk e worker_id lease_seconds (wk_monotonic wk [0] + WORK_PASS_SECONDS)
                [0..<nat (min 5 (max 0 max_items))] []) (\<lambda>outcomes.
     io_return \<lparr>rn_worker_id = worker_id, rn_claimed_count = length outcomes,
       rn_completed_count = count_status Work_completed outcomes,
       rn_retry_pending_count = count_status Retry_pending outcomes,
       rn_failed_count = count_status Work_failed outcomes, rn_outcomes = outcomes\<rparr>)"

section \<open>A pass is a run of the ledger\<close>

text \<open>\<open>within R m\<close>: whatever way \<open>m\<close> ends, what it wrote is a change allowed by \<open>R\<close>.\<close>

definition within :: "('s \<Rightarrow> 's \<Rightarrow> bool) \<Rightarrow> ('s, 'a) action \<Rightarrow> bool" where
  "within R m \<longleftrightarrow> (\<forall>s. R s (snd (m s)))"

locale effects =
  fixes R :: "'s \<Rightarrow> 's \<Rightarrow> bool"
  assumes effect_refl: "R s s"
    and effect_trans: "R s t \<Longrightarrow> R t u \<Longrightarrow> R s u"
begin

lemma within_return: "within R (io_return a)" "within R (io_raise e)" "within R (io_lift r)"
  by (auto simp: within_def io_return_def io_raise_def io_lift_def effect_refl split: sum.split)

lemma within_bind:
  assumes "within R m" "\<And>a. within R (f a)"
  shows "within R (io_bind m f)"
proof -
  have "R s (snd (io_bind m f s))" for s
  proof -
    obtain x s1 where x: "m s = (x, s1)" by (cases "m s")
    then have run: "R s s1" using assms(1) by (metis within_def snd_conv)
    show ?thesis
    proof (cases x)
      case (Done a)
      have "R s1 (snd (f a s1))" using assms(2) [of a] by (simp add: within_def)
      with run show ?thesis using x Done by (simp add: io_bind_def effect_trans [OF run])
    qed (use x run in \<open>simp_all add: io_bind_def\<close>)
  qed
  then show ?thesis by (simp add: within_def)
qed

lemma within_tx:
  assumes "\<And>s a s'. m s = Inr (a, s') \<Longrightarrow> R s s'"
  shows "within R (io_tx m)"
  using assms by (auto simp: within_def io_tx_def commit_def effect_refl split: sum.split prod.split)

end

interpretation job_effects: effects ledger_run
  by unfold_locales auto

abbreviation runs :: "'a io \<Rightarrow> bool" where
  "runs \<equiv> within ledger_run"

lemmas runs_def = within_def [of ledger_run]
lemmas runs_return [simp] = job_effects.within_return
lemmas runs_bind = job_effects.within_bind

lemma runs_if: "(c \<Longrightarrow> runs m) \<Longrightarrow> (\<not> c \<Longrightarrow> runs n) \<Longrightarrow> runs (if c then m else n)"
  by simp

lemma runs_tx:
  assumes "\<And>s a s'. m s = Inr (a, s') \<Longrightarrow> ledger_step s s'"
  shows "runs (io_tx m)"
  using assms by (intro job_effects.within_tx) blast

lemma get_job_same: "get_job jid s = Inr (rec, s') \<Longrightarrow> s' = s"
  by (auto simp: get_job_def load_by_request_id_def elim!: tx_bindE split: option.splits)

lemma runs_get_job [simp]: "runs (io_tx (get_job jid))"
  using get_job_same by (force simp: runs_def io_tx_def commit_def split: sum.split prod.split)

lemma runs_work [simp]:
  "runs (io_tx (claim_work_items e w l n p t))" "runs (io_tx (complete_work_item e wid tok now))"
  "runs (io_tx (defer_work_item e wid tok c d now))" "runs (io_tx (fail_work_item e wid tok c m p now))"
  by (rule runs_tx, erule ledger_step.intros)+

lemma runs_check [simp]: "runs (check_deadline wk path d)"
  by (simp add: check_deadline_def)

definition services_run :: "services \<Rightarrow> bool" where
  "services_run sv \<longleftrightarrow> (\<forall>e job. runs (sv_capture sv e job) \<and> runs (sv_render sv e job))"

lemma runs_execute_job:
  assumes "services_run sv"
  shows "runs (execute_job sv e jid)"
proof -
  have sv: "runs (sv_capture sv e' job)" "runs (sv_render sv e' job)" for e' job
    using assms by (simp_all add: services_run_def)
  have "runs (execute_admitted_job sv e job)" for job
    unfolding execute_admitted_job_def Let_def
    by (intro runs_bind runs_if sv runs_return) (simp_all split: render_result.split)
  then show ?thesis unfolding execute_job_def by (intro runs_bind runs_get_job)
qed

lemma runs_settle [simp]: "runs (fail_outcome wk e work tok c m st)" "runs (settle_execution wk e work tok ex)"
  unfolding settle_execution_def Let_def fail_outcome_def
  by (intro runs_bind runs_if runs_work runs_return)+

lemma runs_execute_work_item:
  assumes "services_run (wk_services wk)"
  shows "runs (execute_work_item wk e path work deadline)"
proof -
  have ex: "runs (execute_with_lease wk e' work tok)" for e' tok
    unfolding execute_with_lease_def by (rule runs_execute_job [OF assms])
  have after: "runs (io_bind (check_deadline wk path' d) (\<lambda>_. m))" if "runs m" for path' d and m :: "work_outcome io"
    using that by (intro runs_bind runs_check)
  have "ledger_run s (snd (execute_work_item wk e path work deadline s))" for s
  proof (cases "wr_lease_token work")
    case (Some tok)
    obtain x s1 where x: "execute_with_lease wk (sub_env 1 e) work tok s = (x, s1)" by fastforce
    then have "ledger_run s s1" using ex [of "sub_env 1 e" tok] by (metis runs_def snd_conv)
    moreover have "ledger_run s1 (snd (execute_work_item wk e path work deadline s))" if "tok \<noteq> []"
      using x Some that after [OF runs_settle(1)] after [OF runs_settle(2)]
      by (cases x) (auto simp: execute_work_item_def runs_def)
    ultimately show ?thesis
      using Some by (cases "tok = []") (auto simp: execute_work_item_def io_raise_def intro: rtranclp_trans)
  qed (simp add: execute_work_item_def io_raise_def)
  then show ?thesis by (simp add: runs_def)
qed

lemma runs_run_item:
  assumes "services_run (wk_services wk)"
  shows "runs (run_item wk e path wid secs deadline)"
proof -
  let ?claim = "io_bind (check_deadline wk (path @ [0]) deadline) (\<lambda>_.
      io_tx (claim_work_items (sub_env 0 e) wid 1 secs (Some (wk_policy wk)) None))"
  let ?exec = "\<lambda>work. io_bind (check_deadline wk (path @ [1]) deadline) (\<lambda>_. execute_work_item wk e path work deadline)"
  have rc: "runs ?claim" by (intro runs_bind runs_check runs_work)
  have re: "runs (?exec work)" for work by (intro runs_bind runs_check runs_execute_work_item assms)
  have "ledger_run s (snd (run_item wk e path wid secs deadline s))" for s
  proof -
    obtain c s1 where c: "?claim s = (c, s1)" by fastforce
    then have 1: "ledger_run s s1" using rc by (metis runs_def snd_conv)
    have 2: "ledger_run s1 s2" if "?exec work s1 = (y, s2)" for work y s2
      using re [of work] that by (metis runs_def snd_conv)
    show ?thesis
      using 1 2 c unfolding run_item_def
      by (auto split: ending.split list.split err.split prod.split intro: rtranclp_trans)
  qed
  then show ?thesis by (simp add: runs_def)
qed

lemma runs_run_items:
  assumes "services_run (wk_services wk)"
  shows "runs (run_items wk e wid secs deadline is outcomes)"
proof (induction "is" arbitrary: outcomes)
  case (Cons i "is")
  then show ?case
    by (auto simp: Let_def intro!: runs_bind runs_run_item [OF assms] split: option.split)
qed simp

section \<open>Samples\<close>

definition sample_services :: services where
  "sample_services = \<lparr>
     sv_capture = (\<lambda>e job. io_tx (mark_collecting_data e (lr_job_id job) ''report-job-worker'' (lr_correlation_id job) (lr_trace_id job))),
     sv_render = (\<lambda>e job. io_return (Rendered job))\<rparr>"

text \<open>The monotonic clock stands still, or jumps past every deadline at the check after execution.\<close>

definition sample_worker :: "bool \<Rightarrow> worker" where
  "sample_worker late = \<lparr>wk_services = sample_services, wk_policy = default_retry_policy,
     wk_monotonic = (\<lambda>path. if late \<and> path = [1, 2] then seconds 300 else 0)\<rparr>"

lemma sample_services_run: "services_run sample_services"
  unfolding services_run_def sample_services_def
  by (auto intro!: runs_tx ledger_step.collecting)

section \<open>Properties\<close>



lemma run_items_length:
  "run_items wk e wid secs deadline is ocs s = (Done r, s') \<Longrightarrow>
   (\<exists>new. r = ocs @ new \<and> length new \<le> length is)"
proof (induction "is" arbitrary: ocs s)
  case (Cons i "is")
  let ?d = "min deadline (wk_monotonic wk [Suc i] + WORK_ITEM_SECONDS)"
  show ?case
  proof (cases "deadline - wk_monotonic wk [Suc i] < WORK_ITEM_SECONDS")
    case False
    obtain x s1 where x: "run_item wk (sub_env i e) [Suc i] wid secs ?d s = (x, s1)" by fastforce
    show ?thesis
    proof (cases "\<exists>oc. x = Done (Some oc)")
      case True
      then obtain oc where "run_items wk e wid secs deadline is (ocs @ [oc]) s1 = (Done r, s')"
        using Cons.prems False x by (auto simp: Let_def io_bind_def)
      from Cons.IH [OF this] show ?thesis by auto
    next
      case no: False
      then show ?thesis
        using Cons.prems False x by (auto simp: Let_def io_bind_def io_return_def split: ending.splits option.splits)
    qed
  qed (use Cons.prems in \<open>simp add: Let_def io_return_def\<close>)
qed (simp add: io_return_def)

text \<open>
  A pass is bounded and its report adds up: it reports at most \<open>max_items\<close>, never more than
  five, items; the counts are those of its outcomes, and an item counts at most once.
\<close>

theorem worker_pass_bounded:
  assumes "run_once wk e wid max_items secs s = (Done r, s')"
  shows "int (rn_claimed_count r) \<le> min 5 (max 0 max_items)
    \<and> rn_claimed_count r = length (rn_outcomes r)
    \<and> rn_completed_count r + rn_retry_pending_count r + rn_failed_count r \<le> rn_claimed_count r"
proof -
  let ?is = "[0..<nat (min 5 (max 0 max_items))]"
  obtain ocs s1 where run: "run_items wk e wid secs (wk_monotonic wk [0] + WORK_PASS_SECONDS) ?is [] s = (Done ocs, s1)"
    and r: "rn_claimed_count r = length ocs" "rn_outcomes r = ocs" "rn_completed_count r = count_status Work_completed ocs"
      "rn_retry_pending_count r = count_status Retry_pending ocs" "rn_failed_count r = count_status Work_failed ocs"
    using assms unfolding run_once_def by (auto simp: io_bind_def io_return_def split: prod.splits ending.splits)
  have "length ocs \<le> nat (min 5 (max 0 max_items))" using run_items_length [OF run] by auto
  moreover have "count_status Work_completed xs + count_status Retry_pending xs + count_status Work_failed xs \<le> length xs" for xs
    by (induction xs) (auto simp: count_status_def)
  ultimately show ?thesis using r by (simp add: le_nat_iff)
qed

theorem worker_pass_bounded_witness:
  "\<exists>r s'. run_once (sample_worker False) sample_env ''w'' 9 60 sample_queue = (Done r, s')
     \<and> rn_claimed_count r = 1 \<and> length (rn_outcomes r) \<le> 5"
proof -
  let ?run = "run_once (sample_worker False) sample_env ''w'' 9 60 sample_queue"
  have "case fst ?run of Done r \<Rightarrow> rn_claimed_count r = 1 | _ \<Rightarrow> False" by code_simp
  then obtain r where r: "fst ?run = Done r" "rn_claimed_count r = 1" by (auto split: ending.splits)
  then have run: "?run = (Done r, snd ?run)" by (metis prod.collapse)
  from worker_pass_bounded [OF run] r run show ?thesis by auto
qed

text \<open>
  After the deadline the worker starts no transaction. When the execution of a claimed item
  ends, normally or by an exception, at or after the deadline, the item is reported as unknown with
  the deadline category, and the ledger is exactly as the execution left it: the lease stays and the
  recovery of expired leases owns the row.
\<close>

theorem expired_item_not_settled:
  assumes claimed: "claim_work_items (sub_env 0 e) wid 1 secs (Some (wk_policy wk)) None s = Inr (work # rest, s1)"
    and early: "wk_monotonic wk (path @ [0]) < deadline" "wk_monotonic wk (path @ [1]) < deadline"
    and tok: "wr_lease_token work = Some tok" "tok \<noteq> []"
    and executed: "execute_with_lease wk (sub_env 1 e) work tok s1 = (x, s2)"
    and late: "deadline \<le> wk_monotonic wk (path @ [2])"
  shows "run_item wk e path wid secs deadline s
    = (Done (Some (outcome_for work None None (Some ''report_job_worker_deadline_expired''))), s2)"
proof -
  have "execute_work_item wk e path work deadline s1 = (Cancelled_by_timeout, s2)
      \<or> (\<exists>m. execute_work_item wk e path work deadline s1 = (Raised (PyTimeoutError m), s2))"
    using tok executed late
    by (cases x) (simp_all add: execute_work_item_def check_deadline_def io_bind_def io_raise_def)
  moreover have "check_deadline wk (path @ [i]) deadline s' = (Done (), s')" if "i \<in> {0, 1}" for i s'
    using that early by (auto simp: check_deadline_def io_return_def)
  ultimately show ?thesis
    using claimed unfolding run_item_def by (auto simp: io_bind_def io_tx_def commit_def)
qed

theorem expired_item_not_settled_witness:
  "\<exists>oc s'. run_item (sample_worker True) sample_env [1] ''w'' 60 (seconds 60) sample_queue = (Done (Some oc), s')
     \<and> wo_work_status oc = None \<and> wo_failure oc = Some ''report_job_worker_deadline_expired''"
proof -
  let ?claim = "claim_work_items (sub_env 0 sample_env) ''w'' 1 60 (Some default_retry_policy) None sample_queue"
  have "case ?claim of Inr (work # _, s1) \<Rightarrow> truthy (wr_lease_token work) | _ \<Rightarrow> False" by code_simp
  then obtain work rest s1 tok where c: "?claim = Inr (work # rest, s1)" "wr_lease_token work = Some tok" "tok \<noteq> []"
    by (auto simp: truthy_def split: sum.splits list.splits option.splits)
  obtain x s2 where x: "execute_with_lease (sample_worker True) (sub_env 1 sample_env) work tok s1 = (x, s2)" by fastforce
  have clock: "wk_monotonic (sample_worker True) ([1] @ [0]) < seconds 60"
    "wk_monotonic (sample_worker True) ([1] @ [1]) < seconds 60" "seconds 60 \<le> wk_monotonic (sample_worker True) ([1] @ [2])"
    by (simp_all add: sample_worker_def seconds_def)
  have "claim_work_items (sub_env 0 sample_env) ''w'' 1 60 (Some (wk_policy (sample_worker True))) None sample_queue
      = Inr (work # rest, s1)" using c by (simp add: sample_worker_def)
  from expired_item_not_settled [OF this clock(1,2) c(2,3) x clock(3)] show ?thesis by (simp add: outcome_for_def)
qed

end
