(* ===== verification/Batch_Worker.thy ===== *)
theory Batch_Worker
  imports Batch_Runs Worker
begin

text \<open>
  The batch worker over both ledgers: tenant admission
  (\<open>src/src/app/report_batch_orchestrator/tenant_admission.py\<close>), dispatch of leased items into report jobs
  under back pressure (\<open>dispatch.py\<close>), execution of waiting items through the report-job pipeline
  (\<open>execution.py\<close>), the run over one batch (\<open>worker.py\<close>) and the pass over the runnable batches
  (\<open>runtime.py\<close>).

  The two ledgers are separate databases: every call on one of them is a transaction of its own, and
  what a pass has written stays written when it ends with an exception. Logging is not modelled.
\<close>

section \<open>Both ledgers\<close>

record world =
  w_jobs :: ledger
  w_batches :: batch_ledger

type_synonym 'a wio = "(world, 'a) action"

definition on_jobs :: "'a io \<Rightarrow> 'a wio" where
  "on_jobs m w = (case m (w_jobs w) of (r, s) \<Rightarrow> (r, w\<lparr>w_jobs := s\<rparr>))"

definition on_batches :: "'a batch_tx \<Rightarrow> 'a wio" where
  "on_batches m w = (case io_tx m (w_batches w) of (r, s) \<Rightarrow> (r, w\<lparr>w_batches := s\<rparr>))"

text \<open>\<open>try: m; except Exception as exc: h(exc)\<close>. A cancellation is no \<open>Exception\<close>.\<close>

definition io_try :: "('s, 'a) action \<Rightarrow> ('a \<Rightarrow> ('s, 'b) action) \<Rightarrow> (err \<Rightarrow> ('s, 'b) action) \<Rightarrow> ('s, 'b) action" where
  "io_try m f h s = (case m s of (Done a, s') \<Rightarrow> f a s' | (Raised e, s') \<Rightarrow> h e s'
     | (Cancelled_by_timeout, s') \<Rightarrow> (Cancelled_by_timeout, s'))"

section \<open>Tenant admission\<close>

definition BATCH_NOT_FOUND :: string where "BATCH_NOT_FOUND = ''report_batch_not_found''"
definition SCHEDULER_NOT_FOUND :: string where "SCHEDULER_NOT_FOUND = ''batch_scheduler_not_found''"

definition admit_scheduler :: "string \<Rightarrow> string \<Rightarrow> string option \<Rightarrow> caller_context \<Rightarrow> unit res" where
  "admit_scheduler tenant_id region booking_center_code caller =
     (if py_strip tenant_id = [] \<or> py_strip region = [] \<or> tenant_id \<noteq> cc_tenant_id caller
         \<or> region \<noteq> cc_region caller \<or> booking_center_code \<noteq> cc_booking_center_code caller
      then Inl (SchedulerTenantAdmissionError SCHEDULER_NOT_FOUND) else Inr ())"

definition admit_batch :: "batch_record \<Rightarrow> caller_context \<Rightarrow> batch_record res" where
  "admit_batch record caller =
     (if b_tenant_id (br_batch record) \<noteq> cc_tenant_id caller then Inl (ValueError BATCH_NOT_FOUND)
      else Inr record)"

definition load_admitted_batch :: "string \<Rightarrow> caller_context \<Rightarrow> batch_record wio" where
  "load_admitted_batch bid caller =
     io_bind (on_batches (get_batch bid)) (\<lambda>record. io_lift (admit_batch record caller))"

section \<open>Dispatch\<close>

record runtime_load =
  ld_active_batches :: int
  ld_active_items :: int
  ld_active_upstream_jobs :: int
  ld_active_render_jobs :: int
  ld_active_archive_jobs :: int

definition no_load :: runtime_load where
  "no_load = \<lparr>ld_active_batches = 0, ld_active_items = 0, ld_active_upstream_jobs = 0, ld_active_render_jobs = 0,
     ld_active_archive_jobs = 0\<rparr>"

record dispatch_policy =
  dq_max_active_batches :: int
  dq_max_active_items :: int
  dq_max_active_upstream_jobs :: int
  dq_max_active_render_jobs :: int
  dq_max_active_archive_jobs :: int
  dq_lease_seconds :: int

definition default_dispatch_policy :: dispatch_policy where
  "default_dispatch_policy = \<lparr>dq_max_active_batches = 1, dq_max_active_items = 5, dq_max_active_upstream_jobs = 3,
     dq_max_active_render_jobs = 2, dq_max_active_archive_jobs = 2, dq_lease_seconds = 300\<rparr>"

definition evaluate_back_pressure :: "runtime_load \<Rightarrow> dispatch_policy \<Rightarrow> string list" where
  "evaluate_back_pressure ld policy =
     (if dq_max_active_batches policy \<le> ld_active_batches ld then [''max_active_batches_reached''] else [])
     @ (if dq_max_active_items policy \<le> ld_active_items ld then [''max_active_items_reached''] else [])
     @ (if dq_max_active_upstream_jobs policy \<le> ld_active_upstream_jobs ld then [''max_active_upstream_jobs_reached''] else [])
     @ (if dq_max_active_render_jobs policy \<le> ld_active_render_jobs ld then [''max_active_render_jobs_reached''] else [])
     @ (if dq_max_active_archive_jobs policy \<le> ld_active_archive_jobs ld then [''max_active_archive_jobs_reached''] else [])"

definition runtime_load_for_batch :: "batch_record \<Rightarrow> runtime_load option \<Rightarrow> runtime_load wio" where
  "runtime_load_for_batch batch ld =
     (let external = (case ld of None \<Rightarrow> no_load | Some l \<Rightarrow> l) in
      io_bind (on_batches count_active_batches) (\<lambda>n.
      let durable = (if b_status (br_batch batch) = Batch_running then max 0 (int n - 1) else int n) in
      io_bind (on_batches count_active_items) (\<lambda>m.
      io_return \<lparr>ld_active_batches = durable + ld_active_batches external,
        ld_active_items = int m + ld_active_items external,
        ld_active_upstream_jobs = ld_active_upstream_jobs external,
        ld_active_render_jobs = ld_active_render_jobs external,
        ld_active_archive_jobs = ld_active_archive_jobs external\<rparr>)))"

text \<open>
  \<open>PortfolioReviewJobRequest(...)\<close>: the columns of a batch have the types of the fields, so the one
  validation that can fail is \<open>_advisor_commentary_requires_run_id\<close>; the message of a \<open>ValueError\<close> in a
  validator is prefixed by \<open>Value error, \<close>.
\<close>

definition advisor_commentary_requires_run_id :: "jobj \<Rightarrow> bool" where
  "advisor_commentary_requires_run_id options =
     (let section_requested = (case dget options ''sections'' of
            Some (JList items) \<Rightarrow> list_ex (\<lambda>v. case v of JStr t \<Rightarrow> py_upper t = ''ADVISOR_COMMENTARY'' | _ \<Rightarrow> False) items
          | _ \<Rightarrow> False);
          has_run_id = (case dget options ''advisor_brief_run_id'' of Some (JStr t) \<Rightarrow> py_strip t \<noteq> [] | _ \<Rightarrow> False)
      in section_requested \<and> \<not> has_run_id)"

definition advisor_commentary_message :: string where
  "advisor_commentary_message = ''Value error, options.advisor_brief_run_id is required when the ADVISOR_COMMENTARY ''
     @ ''section is requested: the section is sourced only from an accepted ''
     @ ''Advisor Brief run and lotus-report never chooses one implicitly.''"

definition request_for_item :: "batch_row \<Rightarrow> item_row \<Rightarrow> portfolio_review_request res" where
  "request_for_item b i =
     (if advisor_commentary_requires_run_id (b_options b) then Inl (ValidationError advisor_commentary_message)
      else Inr \<lparr>pq_portfolio_scope = [(''portfolio_ids'', JList [JStr (i_portfolio_id i)])],
        pq_as_of_date = b_as_of_date b, pq_output_formats = b_output_formats b,
        pq_reporting_currency = b_reporting_currency b, pq_options = b_options b,
        pq_narrative_package = None, pq_memo_package = None\<rparr>)"

text \<open>\<open>exc.errors()[0]['msg']\<close>.\<close>

fun first_error_message :: "err \<Rightarrow> string" where
  "first_error_message (ValidationError m) = m"
| "first_error_message _ = []"

definition dispatch_item :: "deployment \<Rightarrow> env \<Rightarrow> batch_row \<Rightarrow> caller_context \<Rightarrow> item_row \<Rightarrow> string option wio" where
  "dispatch_item dp e b caller i =
     (case i_lease_token i of None \<Rightarrow> io_raise (RuntimeError ''batch_item_missing_lease_token'')
      | Some token \<Rightarrow>
        (case request_for_item b i of
           Inl exc \<Rightarrow>
             io_bind (on_batches (mark_item_failed (sub_env 0 e) (i_id i) ''validation_failed''
               (take 500 (''Report job request rejected: '' @ first_error_message exc)) False None None None)) (\<lambda>_.
             io_return None)
         | Inr request \<Rightarrow>
             io_bind (on_jobs (io_tx (create_portfolio_review_job dp (sub_env 1 e) request caller (Some (i_key i))))) (\<lambda>record.
             io_bind (on_batches (mark_item_waiting_on_report_job (sub_env 2 e) (i_id i) token (lr_job_id record) None)) (\<lambda>_.
             io_return (Some (lr_job_id record))))))"

fun dispatch_items ::
    "deployment \<Rightarrow> env \<Rightarrow> batch_row \<Rightarrow> caller_context \<Rightarrow> nat \<Rightarrow> item_row list \<Rightarrow> string list wio" where
  "dispatch_items dp e b caller n [] = io_return []"
| "dispatch_items dp e b caller n (i # is) =
     io_bind (dispatch_item dp (sub_env n e) b caller i) (\<lambda>job_id.
     io_bind (dispatch_items dp e b caller (Suc n) is) (\<lambda>job_ids.
     io_return (case job_id of None \<Rightarrow> job_ids | Some j \<Rightarrow> j # job_ids)))"

record dispatch_result =
  dr_batch_id :: string
  dr_leased_count :: nat
  dr_dispatched_count :: nat
  dr_report_job_ids :: "string list"
  dr_back_pressure_reasons :: "string list"

definition dispatch_batch ::
    "deployment \<Rightarrow> env \<Rightarrow> dispatch_policy \<Rightarrow> string \<Rightarrow> caller_context \<Rightarrow> string \<Rightarrow> runtime_load option \<Rightarrow> dispatch_result wio" where
  "dispatch_batch dp e policy bid caller worker_id ld =
     io_bind (on_batches (get_batch bid)) (\<lambda>batch.
     io_bind (runtime_load_for_batch batch ld) (\<lambda>current.
     let reasons = evaluate_back_pressure current policy in
     if reasons \<noteq> []
     then io_return \<lparr>dr_batch_id = bid, dr_leased_count = 0, dr_dispatched_count = 0, dr_report_job_ids = [],
            dr_back_pressure_reasons = reasons\<rparr>
     else let capacity = dq_max_active_items policy - ld_active_items current in
       io_bind (on_batches (acquire_dispatch_items (sub_env 0 e) bid worker_id (dq_lease_seconds policy)
                  (min (dq_max_active_items policy) capacity) None)) (\<lambda>leased.
       io_bind (dispatch_items dp e (br_batch batch) caller 1 leased) (\<lambda>job_ids.
       io_return \<lparr>dr_batch_id = bid, dr_leased_count = length leased, dr_dispatched_count = length job_ids,
         dr_report_job_ids = job_ids, dr_back_pressure_reasons = []\<rparr>))))"

section \<open>Execution of a waiting item\<close>

definition TENANT_MISMATCH_CATEGORY :: string where "TENANT_MISMATCH_CATEGORY = ''batch_item_tenant_mismatch''"
definition MISSING_LINKED_JOB_CATEGORY :: string where "MISSING_LINKED_JOB_CATEGORY = ''batch_item_report_job_missing''"

record item_execution =
  ie_batch_id :: string
  ie_item_id :: string
  ie_report_job_id :: string
  ie_item_status :: item_status
  ie_report_job_status :: string
  ie_failure_category :: "string option"
  ie_retry_eligible :: bool

definition is_successful_job :: "job_record \<Rightarrow> bool" where
  "is_successful_job job \<longleftrightarrow> lr_status job \<in> {Completed, Completed_with_warnings, Archived}
     \<or> (lr_status job = Data_ready \<and> ''pdf'' \<notin> set (lr_requested_output_formats job))"

definition load_waiting_item :: "string \<Rightarrow> string \<Rightarrow> (batch_record \<times> item_row) wio" where
  "load_waiting_item bid iid =
     io_bind (on_batches (get_batch bid)) (\<lambda>batch.
     case find (\<lambda>i. i_id i = iid) (br_items batch) of
       None \<Rightarrow> io_raise (ValueError ''report_batch_item_not_found'')
     | Some i \<Rightarrow> if i_status i \<noteq> Item_waiting then io_raise (ValueError ''batch_item_not_waiting_on_report_job'')
                 else io_return (batch, i))"

text \<open>A failure recorded on the item, and the result that reports it under a given job status.\<close>

definition record_failure ::
    "env \<Rightarrow> int \<Rightarrow> string \<Rightarrow> item_row \<Rightarrow> string \<Rightarrow> string \<Rightarrow> string \<Rightarrow> bool \<Rightarrow> string \<Rightarrow> item_execution wio" where
  "record_failure e policy bid i job_id category summary retryable job_status =
     io_bind (on_batches (mark_item_failed e (i_id i) category summary retryable (Some policy) None None)) (\<lambda>failed.
     io_return \<lparr>ie_batch_id = bid, ie_item_id = i_id i, ie_report_job_id = job_id, ie_item_status = i_status failed,
       ie_report_job_status = job_status, ie_failure_category = i_last_error_category failed,
       ie_retry_eligible = i_retry_eligible failed\<rparr>)"

definition retryable_failure :: "env \<Rightarrow> int \<Rightarrow> string \<Rightarrow> item_row \<Rightarrow> string \<Rightarrow> string \<Rightarrow> item_execution wio" where
  "retryable_failure e policy bid i job_id summary =
     record_failure e policy bid i job_id ''batch_execution_failed'' summary True ''unknown''"

definition quarantine :: "env \<Rightarrow> int \<Rightarrow> string \<Rightarrow> item_row \<Rightarrow> string \<Rightarrow> string \<Rightarrow> string \<Rightarrow> item_execution wio" where
  "quarantine e policy bid i job_id category summary =
     record_failure e policy bid i job_id category summary False ''not_executed''"

definition quarantine_unusable_linked_job ::
    "env \<Rightarrow> int \<Rightarrow> batch_row \<Rightarrow> item_row \<Rightarrow> string \<Rightarrow> item_execution option wio" where
  "quarantine_unusable_linked_job e policy b i job_id =
     io_try (on_jobs (io_tx (get_job job_id)))
       (\<lambda>job. if lr_tenant_id job = b_tenant_id b then io_return None
          else io_bind (quarantine e policy (b_id b) i job_id TENANT_MISMATCH_CATEGORY
            (''Linked report job belongs to a different tenant than its batch; ''
             @ ''execution refused and the item quarantined for operator review.'')) (\<lambda>r. io_return (Some r)))
       (\<lambda>exc. case exc of
            ReportJobNotFoundError _ \<Rightarrow>
              io_bind (quarantine e policy (b_id b) i job_id MISSING_LINKED_JOB_CATEGORY
                (''Linked report job does not exist; execution refused and the item ''
                 @ ''quarantined for operator review.'')) (\<lambda>r. io_return (Some r))
          | _ \<Rightarrow> io_bind (retryable_failure e policy (b_id b) i job_id (err_summary exc)) (\<lambda>r. io_return (Some r)))"

definition execute_item :: "services \<Rightarrow> env \<Rightarrow> int \<Rightarrow> string \<Rightarrow> string \<Rightarrow> item_execution wio" where
  "execute_item sv e policy bid iid =
     io_bind (load_waiting_item bid iid) (\<lambda>(batch, i).
     case i_report_job_id i of None \<Rightarrow> io_raise (ValueError ''batch_item_report_job_missing'')
     | Some job_id \<Rightarrow>
       io_bind (quarantine_unusable_linked_job (sub_env 0 e) policy (br_batch batch) i job_id) (\<lambda>quarantined.
       case quarantined of Some r \<Rightarrow> io_return r
       | None \<Rightarrow>
         io_try (on_jobs (execute_job sv (sub_env 1 e) job_id))
           (\<lambda>execution. let job = ex_job execution in
              if is_successful_job job
              then io_bind (on_batches (mark_item_succeeded (sub_env 2 e) (i_id i) (lr_job_id job) None)) (\<lambda>done.
                io_return \<lparr>ie_batch_id = bid, ie_item_id = iid, ie_report_job_id = lr_job_id job,
                  ie_item_status = i_status done, ie_report_job_status = status_text (lr_status job),
                  ie_failure_category = None, ie_retry_eligible = False\<rparr>)
              else if lr_status job = Failed
              then record_failure (sub_env 2 e) policy bid i (lr_job_id job)
                (case lr_failure_category job of None \<Rightarrow> ''report_job_failed'' | Some c \<Rightarrow> category_text c)
                (or_else (lr_failure_message job) ''Report job failed.'') (lr_retry_eligible job) (status_text (lr_status job))
              else io_return \<lparr>ie_batch_id = bid, ie_item_id = iid, ie_report_job_id = lr_job_id job,
                  ie_item_status = i_status i, ie_report_job_status = status_text (lr_status job),
                  ie_failure_category = None, ie_retry_eligible = False\<rparr>)
           (\<lambda>exc. retryable_failure (sub_env 2 e) policy bid i job_id (err_summary exc))))"

section \<open>A run over one batch\<close>

fun batch_status_text :: "batch_status \<Rightarrow> string" where
  "batch_status_text Batch_materialized = ''materialized''"
| "batch_status_text Batch_running = ''running''"
| "batch_status_text Batch_paused = ''paused''"
| "batch_status_text Batch_cancelled = ''cancelled''"
| "batch_status_text Batch_completed = ''completed''"
| "batch_status_text Batch_completed_with_failures = ''completed_with_failures''"
| "batch_status_text Batch_failed = ''failed''"

record batch_run_result =
  bw_batch_id :: string
  bw_status_before :: batch_status
  bw_status_after :: batch_status
  bw_recovered_count :: nat
  bw_leased_count :: nat
  bw_dispatched_count :: nat
  bw_executed_count :: nat
  bw_report_job_ids :: "string list"
  bw_back_pressure_reasons :: "string list"
  bw_skipped_reason :: "string option"
  bw_execution_results :: "item_execution list"

definition waiting_item_ids :: "item_row list \<Rightarrow> string list" where
  "waiting_item_ids is = map i_id (filter (\<lambda>i. i_status i = Item_waiting \<and> i_report_job_id i \<noteq> None) is)"

fun execute_items :: "services \<Rightarrow> env \<Rightarrow> int \<Rightarrow> string \<Rightarrow> nat \<Rightarrow> string list \<Rightarrow> item_execution list wio" where
  "execute_items sv e policy bid n [] = io_return []"
| "execute_items sv e policy bid n (iid # iids) =
     io_bind (execute_item sv (sub_env n e) policy bid iid) (\<lambda>r.
     io_bind (execute_items sv e policy bid (Suc n) iids) (\<lambda>rs. io_return (r # rs)))"

definition execute_waiting_items :: "services \<Rightarrow> env \<Rightarrow> int \<Rightarrow> string \<Rightarrow> item_execution list wio" where
  "execute_waiting_items sv e policy bid =
     io_bind (on_batches (get_batch bid)) (\<lambda>batch.
     execute_items sv e policy bid 0 (waiting_item_ids (br_items batch)))"

text \<open>The worker: its services, its retry and dispatch policies.\<close>

record batch_worker =
  bk_deployment :: deployment
  bk_services :: services
  bk_max_attempts :: int
  bk_dispatch_policy :: dispatch_policy

definition batch_run_once ::
    "batch_worker \<Rightarrow> env \<Rightarrow> string \<Rightarrow> caller_context \<Rightarrow> string \<Rightarrow> runtime_load option \<Rightarrow> dispatch_policy option \<Rightarrow> bool
     \<Rightarrow> batch_run_result wio" where
  "batch_run_once k e bid caller worker_id ld policy recover =
     io_bind (load_admitted_batch bid caller) (\<lambda>before.
     let status = b_status (br_batch before) in
     if status \<notin> {Batch_materialized, Batch_running}
     then io_return \<lparr>bw_batch_id = bid, bw_status_before = status, bw_status_after = status, bw_recovered_count = 0,
       bw_leased_count = 0, bw_dispatched_count = 0, bw_executed_count = 0, bw_report_job_ids = [],
       bw_back_pressure_reasons = [], bw_skipped_reason = Some (''batch_not_runnable:'' @ batch_status_text status),
       bw_execution_results = []\<rparr>
     else
       io_bind (if recover then on_batches (recover_expired_leases (sub_env 0 e) bid None)
          else io_return \<lparr>rc_batch_id = bid, rc_recovered_count = 0, rc_item_ids = []\<rparr>) (\<lambda>recovery.
       io_bind (dispatch_batch (bk_deployment k) (sub_env 1 e)
          (case policy of None \<Rightarrow> bk_dispatch_policy k | Some p \<Rightarrow> p) bid caller worker_id ld) (\<lambda>dispatch.
       io_bind (execute_waiting_items (bk_services k) (sub_env 2 e) (bk_max_attempts k) bid) (\<lambda>results.
       io_bind (on_batches (get_batch bid)) (\<lambda>after.
       io_return \<lparr>bw_batch_id = bid, bw_status_before = status, bw_status_after = b_status (br_batch after),
         bw_recovered_count = rc_recovered_count recovery, bw_leased_count = dr_leased_count dispatch,
         bw_dispatched_count = dr_dispatched_count dispatch, bw_executed_count = length results,
         bw_report_job_ids = dr_report_job_ids dispatch, bw_back_pressure_reasons = dr_back_pressure_reasons dispatch,
         bw_skipped_reason = None, bw_execution_results = results\<rparr>)))))"

section \<open>A pass over the runnable batches\<close>

record pass_result =
  pr_worker_id :: string
  pr_scanned_batch_ids :: "string list"
  pr_batch_results :: "batch_run_result list"
  pr_recovered_count :: nat
  pr_leased_count :: nat
  pr_dispatched_count :: nat
  pr_executed_count :: nat
  pr_pressure :: pressure_snapshot
  pr_back_pressure_stopped :: bool
  pr_back_pressure_reasons :: "string list"

definition derived_context :: "caller_context \<Rightarrow> batch_row \<Rightarrow> caller_context" where
  "derived_context caller b = caller\<lparr>cc_tenant_id := b_tenant_id b, cc_region := b_region b,
     cc_booking_center_code := b_booking_center_code b\<rparr>"

definition stalled_by_pressure :: "batch_run_result \<Rightarrow> bool" where
  "stalled_by_pressure r \<longleftrightarrow> bw_back_pressure_reasons r \<noteq> [] \<and> bw_dispatched_count r = 0 \<and> bw_executed_count r = 0"

fun pass_batches ::
    "batch_worker \<Rightarrow> env \<Rightarrow> caller_context \<Rightarrow> string list \<Rightarrow> string \<Rightarrow> runtime_load option \<Rightarrow> dispatch_policy option \<Rightarrow> bool
     \<Rightarrow> nat \<Rightarrow> string list \<Rightarrow> batch_run_result list wio" where
  "pass_batches k e caller authorized worker_id ld policy recover n [] = io_return []"
| "pass_batches k e caller authorized worker_id ld policy recover n (bid # bids) =
     io_bind (on_batches (get_batch bid)) (\<lambda>batch.
     if b_tenant_id (br_batch batch) \<notin> set authorized
     then pass_batches k e caller authorized worker_id ld policy recover (Suc n) bids
     else io_bind (batch_run_once k (sub_env n e) bid (derived_context caller (br_batch batch)) worker_id ld policy recover) (\<lambda>r.
       if stalled_by_pressure r then io_return [r]
       else io_bind (pass_batches k e caller authorized worker_id ld policy recover (Suc n) bids) (\<lambda>rs.
         io_return (r # rs))))"

text \<open>The pass stops early exactly when its last result is stalled, with that result's reasons.\<close>

definition run_pass ::
    "batch_worker \<Rightarrow> env \<Rightarrow> (string \<Rightarrow> int) \<Rightarrow> caller_context \<Rightarrow> string \<Rightarrow> string list option \<Rightarrow> int \<Rightarrow> runtime_load option
     \<Rightarrow> dispatch_policy option \<Rightarrow> bool \<Rightarrow> dt option \<Rightarrow> pass_result wio" where
  "run_pass k e rnd caller worker_id authorized max_batches ld policy recover now =
     (if max_batches < 1
      then io_return \<lparr>pr_worker_id = worker_id, pr_scanned_batch_ids = [], pr_batch_results = [], pr_recovered_count = 0,
        pr_leased_count = 0, pr_dispatched_count = 0, pr_executed_count = 0,
        pr_pressure = \<lparr>ps_runnable_batches = 0, ps_active_batches = 0, ps_active_items = 0, ps_dispatch_ready_items = 0,
          ps_retry_ready_items = 0, ps_recovery_pending_items = 0\<rparr>,
        pr_back_pressure_stopped = False, pr_back_pressure_reasons = []\<rparr>
      else
        let tenants = (case authorized of None \<Rightarrow> [cc_tenant_id caller] | Some ts \<Rightarrow> ts) in
        io_bind (on_batches (list_runnable_batch_ids (sub_env 0 e) rnd tenants max_batches now)) (\<lambda>bids.
        io_bind (pass_batches k (sub_env 1 e) caller tenants worker_id ld policy recover 0 bids) (\<lambda>rs.
        io_bind (on_batches (batch_pressure_snapshot (sub_env 2 e) now)) (\<lambda>pressure.
        let stopped = rs \<noteq> [] \<and> stalled_by_pressure (last rs) in
        io_return \<lparr>pr_worker_id = worker_id, pr_scanned_batch_ids = bids, pr_batch_results = rs,
          pr_recovered_count = sum_list (map bw_recovered_count rs), pr_leased_count = sum_list (map bw_leased_count rs),
          pr_dispatched_count = sum_list (map bw_dispatched_count rs),
          pr_executed_count = sum_list (map bw_executed_count rs), pr_pressure = pressure,
          pr_back_pressure_stopped = stopped,
          pr_back_pressure_reasons = (if stopped then bw_back_pressure_reasons (last rs) else [])\<rparr>))))"

end
