(* ===== verification/Batch_Worker_Laws.thy ===== *)
theory Batch_Worker_Laws
  imports Batch_Worker
begin

text \<open>
  What the batch worker does to the two ledgers: whatever way a pass ends, it is a run of committed
  operations of each; another tenant's caller changes nothing; an item whose report job is missing or
  foreign is set aside without executing it; a dispatch repeated after a crash finds the same report
  job; the items in flight stay within the policy's bound.
\<close>

section \<open>Effects of a pass\<close>

definition world_run :: "world \<Rightarrow> world \<Rightarrow> bool" where
  "world_run w w' \<longleftrightarrow> ledger_run (w_jobs w) (w_jobs w') \<and> batch_run (w_batches w) (w_batches w')"

interpretation world_effects: effects world_run
  by unfold_locales (auto simp: world_run_def)

abbreviation wruns :: "'a wio \<Rightarrow> bool" where
  "wruns \<equiv> within world_run"

named_theorems wruns_intros \<open>actions that are runs of both ledgers\<close>

lemmas wruns_return [wruns_intros] = world_effects.within_return
lemmas wruns_bind = world_effects.within_bind

lemma wruns_try:
  assumes "wruns m" "\<And>a. wruns (f a)" "\<And>x. wruns (h x)"
  shows "wruns (io_try m f h)"
proof -
  have "world_run w (snd (io_try m f h w))" for w
  proof -
    obtain x w1 where x: "m w = (x, w1)" by (cases "m w")
    then have "world_run w w1" using assms(1) by (metis within_def snd_conv)
    moreover have "world_run w1 (snd (f a w1))" "world_run w1 (snd (h y w1))" for a y
      using assms(2) [of a] assms(3) [of y] by (simp_all add: within_def)
    ultimately show ?thesis using x
      by (cases x) (auto simp: io_try_def intro: world_effects.effect_trans)
  qed
  then show ?thesis by (simp add: within_def)
qed

lemma wruns_on_jobs: "runs m \<Longrightarrow> wruns (on_jobs m)"
  by (auto simp: within_def on_jobs_def world_run_def split: prod.split) (metis snd_conv)

lemma wruns_on_batches:
  assumes "\<And>s a s'. m s = Inr (a, s') \<Longrightarrow> batch_run s s'"
  shows "wruns (on_batches m)"
  using assms by (auto simp: within_def on_batches_def io_tx_def commit_def world_run_def split: prod.split sum.split)

lemma wruns_read:
  assumes "\<And>s a s'. m s = Inr (a, s') \<Longrightarrow> s' = s"
  shows "wruns (on_batches m)"
  using assms by (intro wruns_on_batches) auto

lemma wruns_reads [wruns_intros]:
  "wruns (on_batches (get_batch bid))" "wruns (on_batches count_active_batches)" "wruns (on_batches count_active_items)"
  "wruns (on_batches (list_runnable_batch_ids e rnd ts l now))" "wruns (on_batches (batch_pressure_snapshot e now))"
  by (rule wruns_read, auto simp: get_batch_def load_batch_Inr count_active_batches_def count_active_items_def
      list_runnable_batch_ids_def batch_pressure_snapshot_def Let_def tx_get_def tx_return_def split: if_splits)+

lemma wruns_ops [wruns_intros]:
  "wruns (on_batches (acquire_dispatch_items e bid wk n l now))"
  "wruns (on_batches (mark_item_waiting_on_report_job e iid tok rj now))"
  "wruns (on_batches (mark_item_succeeded e iid rj now))"
  "wruns (on_batches (mark_item_failed e iid cat sm retryable policy next now))"
  "wruns (on_batches (recover_expired_leases e bid now))"
  "wruns (on_batches (relink_failed_item_for_replay e bid iid rj policy now))"
  by (rule wruns_on_batches, rule r_into_rtranclp, erule batch_step.intros)+

lemma wruns_jobs [wruns_intros]:
  "wruns (on_jobs (io_tx (get_job jid)))" "wruns (on_jobs (io_tx (create_portfolio_review_job dp e q c k)))"
  by (rule wruns_on_jobs, simp)
     (rule wruns_on_jobs, rule runs_tx, simp add: create_portfolio_review_job_def, erule ledger_step.create)

lemma wruns_dispatch_items [wruns_intros]: "wruns (dispatch_items dp e b caller n is)"
proof (induction "is" arbitrary: n)
  case (Cons i "is")
  have "wruns (dispatch_item dp e' b caller i)" for e'
    unfolding dispatch_item_def
    by (auto intro!: wruns_bind wruns_intros split: option.split sum.split)
  then show ?case using Cons by (auto intro!: wruns_bind wruns_intros)
qed (simp add: wruns_intros)

lemma wruns_dispatch_batch [wruns_intros]: "wruns (dispatch_batch dp e policy bid caller wk ld)"
proof -
  have "wruns (runtime_load_for_batch batch ld)" for batch
    unfolding runtime_load_for_batch_def Let_def by (intro wruns_bind wruns_intros)
  then show ?thesis
    unfolding dispatch_batch_def Let_def by (auto intro!: wruns_bind wruns_intros)
qed

lemma wruns_record_failure [wruns_intros]: "wruns (record_failure e policy bid i jid cat sm retryable st)"
  unfolding record_failure_def by (intro wruns_bind wruns_intros)

lemma wruns_execute_item:
  assumes "services_run sv"
  shows "wruns (execute_item sv e policy bid iid)"
proof -
  have 1: "wruns (load_waiting_item bid iid)"
    unfolding load_waiting_item_def by (auto intro!: wruns_bind wruns_intros split: option.split)
  have 2: "wruns (quarantine_unusable_linked_job e' policy b i jid)" for e' b i jid
    unfolding quarantine_unusable_linked_job_def quarantine_def retryable_failure_def
    by (auto intro!: wruns_try wruns_bind wruns_intros split: err.split)
  have 3: "wruns (on_jobs (execute_job sv e' jid))" for e' jid
    by (rule wruns_on_jobs) (rule runs_execute_job [OF assms])
  show ?thesis
    unfolding execute_item_def retryable_failure_def Let_def
    by (auto intro!: wruns_bind wruns_try wruns_intros 1 2 3 split: option.split prod.split)
qed

lemma wruns_batch_run_once:
  assumes "services_run (bk_services k)"
  shows "wruns (batch_run_once k e bid caller wk ld policy recover)"
proof -
  have "wruns (execute_items (bk_services k) e' m bid n iids)" for e' m n iids
    by (induction iids arbitrary: n) (auto intro!: wruns_bind wruns_intros wruns_execute_item [OF assms])
  then have "wruns (execute_waiting_items (bk_services k) e' m bid)" for e' m
    unfolding execute_waiting_items_def by (intro wruns_bind wruns_intros)
  moreover have "wruns (load_admitted_batch bid caller)"
    unfolding load_admitted_batch_def by (intro wruns_bind wruns_intros)
  ultimately show ?thesis
    unfolding batch_run_once_def Let_def by (auto intro!: wruns_bind wruns_intros)
qed

lemma wruns_run_pass:
  assumes "services_run (bk_services k)"
  shows "wruns (run_pass k e rnd caller wk authorized n ld policy recover now)"
proof -
  have "wruns (pass_batches k e' caller ts wk ld policy recover j bids)" for e' ts j bids
    by (induction bids arbitrary: j) (auto intro!: wruns_bind wruns_intros wruns_batch_run_once [OF assms])
  then show ?thesis
    unfolding run_pass_def Let_def by (auto intro!: wruns_bind wruns_intros)
qed

section \<open>Samples\<close>

definition sample_batch_worker :: batch_worker where
  "sample_batch_worker = \<lparr>bk_deployment = sample_deployment, bk_services = sample_services, bk_max_attempts = 3,
     bk_dispatch_policy = default_dispatch_policy\<rparr>"

definition sample_world :: world where
  "sample_world = \<lparr>w_jobs = sample_ledger sample_job, w_batches = sample_batches\<rparr>"

lemma sample_jobs_inv: "schema_inv (sample_ledger sample_job)"
  by (rule schema_inv_sample) (simp_all add: samples custody_checks_def custody_scoped_def)

section \<open>Properties\<close>

text \<open>
  A pass of the batch worker leaves both ledgers consistent, whatever way it ends: with a result,
  with an exception raised half way, or cancelled; whatever the capture and render services do through
  the job ledger's operations. And it respects the history of both.
\<close>

theorem batch_pass_consistent:
  assumes "services_run (bk_services k)" "schema_inv (w_jobs w)" "batch_inv (w_batches w)"
    and "run_pass k e rnd caller wk authorized n ld policy recover now w = (ending, w')"
  shows "schema_inv (w_jobs w') \<and> history_rel (w_jobs w) (w_jobs w')
    \<and> batch_inv (w_batches w') \<and> batch_rel (w_batches w) (w_batches w')"
proof -
  have "world_run w w'"
    using wruns_run_pass [OF assms(1)] assms(4) by (metis within_def snd_conv)
  then show ?thesis
    using run_inv run_rel batch_run_inv assms(2,3) unfolding world_run_def
    by (metis ledger_rel_def)
qed

theorem batch_pass_consistent_witness:
  "\<exists>ending w'. run_pass sample_batch_worker sample_env (\<lambda>_. 0) sample_batch_caller ''w1'' (Some [''t1'']) 5 None None True None
      sample_world = (ending, w') \<and> batch_inv (w_batches w')"
proof -
  obtain x w' where run: "run_pass sample_batch_worker sample_env (\<lambda>_. 0) sample_batch_caller ''w1'' (Some [''t1'']) 5
      None None True None sample_world = (x, w')" by fastforce
  have "services_run (bk_services sample_batch_worker)" using sample_services_run by (simp add: sample_batch_worker_def)
  from batch_pass_consistent [OF this _ _ run] show ?thesis
    using run sample_jobs_inv sample_batches_inv by (auto simp: sample_world_def)
qed

lemma on_batches_read: "m (w_batches w) = Inr (a, w_batches w) \<Longrightarrow> on_batches m w = (Done a, w)"
  by (simp add: on_batches_def io_tx_def commit_def)

lemma on_batches_error: "m (w_batches w) = Inl x \<Longrightarrow> on_batches m w = (Raised x, w)"
  by (simp add: on_batches_def io_tx_def commit_def)

lemma on_batches_run: "m (w_batches w) = Inr (a, s') \<Longrightarrow> on_batches m w = (Done a, w\<lparr>w_batches := s'\<rparr>)"
  by (simp add: on_batches_def io_tx_def commit_def)

lemmas act_run = io_bind_def io_return_def io_raise_def io_lift_def

lemma get_batch_find:
  "get_batch bid s = (case find_batch bid s of None \<Rightarrow> Inl (ValueError ''report_batch_not_found'')
     | Some b \<Rightarrow> Inr (\<lparr>br_batch = b, br_items = sort_key i_position (items_of bid s)\<rparr>, s))"
  by (simp add: get_batch_def load_batch_def tx_bind_def tx_get_def tx_raise_def tx_return_def split: option.split)

lemma get_batch_act:
  "find_batch bid (w_batches w) = Some b \<Longrightarrow> on_batches (get_batch bid) w
     = (Done \<lparr>br_batch = b, br_items = sort_key i_position (items_of bid (w_batches w))\<rparr>, w)"
  by (intro on_batches_read) (simp add: get_batch_find)

lemma load_admitted_find:
  "load_admitted_batch bid caller w =
     (case find_batch bid (w_batches w) of
        Some b \<Rightarrow> if b_tenant_id b = cc_tenant_id caller
           then (Done \<lparr>br_batch = b, br_items = sort_key i_position (items_of bid (w_batches w))\<rparr>, w)
           else (Raised (ValueError BATCH_NOT_FOUND), w)
      | None \<Rightarrow> (Raised (ValueError BATCH_NOT_FOUND), w))"
proof (cases "find_batch bid (w_batches w)")
  case None
  then show ?thesis
    by (simp add: load_admitted_batch_def io_bind_def on_batches_error get_batch_find BATCH_NOT_FOUND_def)
next
  case (Some b)
  then show ?thesis using get_batch_act [OF Some] by (simp add: load_admitted_batch_def io_bind_def admit_batch_def io_lift_def)
qed

text \<open>
  A batch of another tenant cannot be told from one that does not exist, and is not touched: a
  caller who does not own the batch gets the not-found error, from a run of the worker as from a plain
  load, both ledgers unchanged. The owner's load returns the stored batch.
\<close>

theorem foreign_batch_hidden:
  assumes "\<forall>b. find_batch bid (w_batches w) = Some b \<longrightarrow> b_tenant_id b \<noteq> cc_tenant_id caller"
  shows "load_admitted_batch bid caller w = (Raised (ValueError BATCH_NOT_FOUND), w)
    \<and> batch_run_once k e bid caller wk ld policy recover w = (Raised (ValueError BATCH_NOT_FOUND), w)"
proof -
  have "load_admitted_batch bid caller w = (Raised (ValueError BATCH_NOT_FOUND), w)"
    using assms by (auto simp: load_admitted_find split: option.split)
  then show ?thesis by (simp add: batch_run_once_def io_bind_def)
qed

theorem foreign_batch_hidden_witness:
  "batch_run_once sample_batch_worker sample_env ''rbch_b'' (sample_batch_caller\<lparr>cc_tenant_id := ''t2''\<rparr>) ''w1'' None None True
      sample_world = (Raised (ValueError BATCH_NOT_FOUND), sample_world)
   \<and> find_batch ''rbch_b'' (w_batches sample_world) \<noteq> None"
proof -
  have f: "find_batch ''rbch_b'' (w_batches sample_world) = Some sample_batch_row"
    by (simp add: find_batch_def sample_world_def sample_batches_def sample_batch_row_def new_batch_row_def)
  have "b_tenant_id sample_batch_row = ''t1''"
    by (simp add: sample_batch_row_def new_batch_row_def sample_batch_caller_def)
  then show ?thesis
    using foreign_batch_hidden [of "''rbch_b''" sample_world "sample_batch_caller\<lparr>cc_tenant_id := ''t2''\<rparr>"] f by simp
qed

section \<open>Settling an item\<close>

lemma refresh_total:
  obtains s' where "refresh_batch_status bid now s = Inr ((), s')" "batch_items s' = batch_items s"
  by (cases "items_of bid s = []"; cases "reconciled_batch_status (map i_status (items_of bid s))")
     (auto simp: refresh_batch_status_def tx_bind_def tx_get_def tx_return_def update_batches_def)

lemma items_update_one:
  assumes "batch_inv s" "i \<in> set (batch_items s)"
  shows "filter (\<lambda>x. i_id x = i_id i) (batch_items s) = [i]"
proof -
  have "x = i" if "x \<in> set (batch_items s)" "i_id x = i_id i" for x
    using find_item_iff [OF assms(1)] that assms(2) by (metis option.inject)
  then have "set (filter (\<lambda>x. i_id x = i_id i) (batch_items s)) = {i}" using assms(2) by auto
  moreover have "distinct (filter (\<lambda>x. i_id x = i_id i) (batch_items s))"
    using batch_inv_distinct(3) [OF assms(1)] by (simp add: distinct_map)
  moreover have "xs = [i]" if "distinct xs" "set xs = {i}" for xs
    using that by (cases xs; cases "tl xs") auto
  ultimately show ?thesis by blast
qed

text \<open>Recording a failure always succeeds on an item of the ledger; only that item changes.\<close>

lemma mark_item_failed_run:
  fixes retryable :: bool and policy :: "int option" and due now :: "dt option" and cat sm :: string and e :: env
  assumes "batch_inv s" "i \<in> set (batch_items s)"
  defines "outcome \<equiv> batch_item_failure_outcome retryable (i_attempt_count i + 1)
     (case policy of None \<Rightarrow> default_batch_max_attempts | Some m \<Rightarrow> m)"
  defines "f \<equiv> fail_item (fst outcome) (i_attempt_count i + 1) (snd outcome) due cat sm (dt_to_text (given_or_now e now))"
  obtains s' where "mark_item_failed e (i_id i) cat sm retryable policy due now s = Inr (f i, s')"
    "batch_items s' = update_where (\<lambda>x. i_id x = i_id i) f (batch_items s)"
proof -
  have found: "find_item (i_id i) s = Some i" using find_item_iff [OF assms(1)] assms(2) by simp
  let ?s = "s\<lparr>batch_items := update_where (\<lambda>x. i_id x = i_id i) f (batch_items s)\<rparr>"
  obtain s' where s': "refresh_batch_status (i_batch_id (f i)) (given_or_now e now) ?s = Inr ((), s')"
    "batch_items s' = batch_items ?s" by (rule refresh_total)
  then show thesis
    using that [of s'] found items_update_one [OF assms(1,2)]
    by (simp add: mark_item_failed_def Let_def tx_bind_def tx_get_def tx_return_def update_items_returning_def
        settle_returned_def outcome_def f_def)
qed

lemma record_failure_run:
  assumes "batch_inv (w_batches w)" "i \<in> set (batch_items (w_batches w))"
  obtains r s' where "record_failure e policy bid i jid cat sm False st w = (Done r, w\<lparr>w_batches := s'\<rparr>)"
    "ie_report_job_status r = st" "ie_item_status r = Item_failed_terminal" "\<not> ie_retry_eligible r"
    "ie_failure_category r = Some cat"
    "\<exists>i' \<in> set (batch_items s'). i_id i' = i_id i \<and> i_status i' = Item_failed_terminal
       \<and> \<not> i_retry_eligible i' \<and> i_report_job_id i' = i_report_job_id i"
proof -
  let ?f = "fail_item Item_failed_terminal (i_attempt_count i + 1) False None cat sm (dt_to_text (given_or_now e None))"
  obtain s' where run: "mark_item_failed e (i_id i) cat sm False (Some policy) None None (w_batches w) = Inr (?f i, s')"
    and items: "batch_items s' = update_where (\<lambda>x. i_id x = i_id i) ?f (batch_items (w_batches w))"
    using mark_item_failed_run [OF assms, where retryable = False and policy = "Some policy" and due = None
        and cat = cat and sm = sm and e = e and now = None]
    by (auto simp: batch_item_failure_outcome_def Let_def)
  have "?f i \<in> set (batch_items s')" using assms(2) by (auto simp: items set_update_where)
  then have "\<exists>i' \<in> set (batch_items s'). i_id i' = i_id i \<and> i_status i' = Item_failed_terminal
       \<and> \<not> i_retry_eligible i' \<and> i_report_job_id i' = i_report_job_id i"
    by (rule rev_bexI) (simp add: fail_item_def clear_lease_def)
  then show thesis
    using that run by (simp add: record_failure_def io_bind_def io_return_def on_batches_run fail_item_def clear_lease_def)
qed

lemma find_unique:
  assumes "x \<in> set xs" "P x" "\<And>y. y \<in> set xs \<Longrightarrow> P y \<Longrightarrow> y = x"
  shows "find P xs = Some x"
proof (cases "find P xs")
  case None
  then show ?thesis using assms(1,2) by (metis find_None_iff)
next
  case (Some y)
  then show ?thesis using assms(3) [of y] by (metis find_Some_iff nth_mem)
qed

lemma load_waiting_run:
  assumes inv: "batch_inv (w_batches w)" and b: "b \<in> set (batches (w_batches w))"
    and i: "i \<in> set (batch_items (w_batches w))" "i_batch_id i = b_id b" "i_status i = Item_waiting"
  obtains batch where "load_waiting_item (b_id b) (i_id i) w = (Done (batch, i), w)" "br_batch batch = b"
proof -
  let ?items = "sort_key i_position (items_of (b_id b) (w_batches w))"
  have "find_batch (b_id b) (w_batches w) = Some b" using find_batch_iff [OF inv] b by blast
  note got = get_batch_act [OF this]
  have only: "x = i" if "x \<in> set ?items" "i_id x = i_id i" for x
    using that find_item_iff [OF inv] i(1) by (metis (no_types, lifting) filter_is_subset items_of_def option.inject set_sort subsetD)
  have "i \<in> set ?items" using i by (simp add: items_of_def)
  then have "find (\<lambda>x. i_id x = i_id i) ?items = Some i" using only by (intro find_unique) simp_all
  then show thesis using that got i(3) by (simp add: load_waiting_item_def io_bind_def io_return_def)
qed

text \<open>
  (C35) A waiting item whose report job does not exist, or belongs to another tenant than the batch, is
  quarantined: nothing of the job ledger is read further or written, in particular neither capture nor
  render is called, and the item is failed for good, not retry eligible, keeping the link for an
  operator to see.
\<close>

theorem unusable_link_quarantined:
  assumes inv: "batch_inv (w_batches w)" and b: "b \<in> set (batches (w_batches w))"
    and i: "i \<in> set (batch_items (w_batches w))" "i_batch_id i = b_id b" "i_status i = Item_waiting"
    and link: "i_report_job_id i = Some jid"
    and unusable: "(case get_job jid (w_jobs w) of Inl x \<Rightarrow> x = ReportJobNotFoundError ''report_job_not_found''
      | Inr (job, _) \<Rightarrow> lr_tenant_id job \<noteq> b_tenant_id b)"
  shows "\<exists>r s'. execute_item sv e policy (b_id b) (i_id i) w = (Done r, w\<lparr>w_batches := s'\<rparr>)
    \<and> ie_report_job_status r = ''not_executed'' \<and> ie_item_status r = Item_failed_terminal \<and> \<not> ie_retry_eligible r
    \<and> ie_failure_category r \<in> {Some MISSING_LINKED_JOB_CATEGORY, Some TENANT_MISMATCH_CATEGORY}
    \<and> (\<exists>i' \<in> set (batch_items s'). i_id i' = i_id i \<and> i_status i' = Item_failed_terminal
         \<and> \<not> i_retry_eligible i' \<and> i_report_job_id i' = Some jid)"
proof -
  obtain batch where load: "load_waiting_item (b_id b) (i_id i) w = (Done (batch, i), w)" "br_batch batch = b"
    using load_waiting_run [OF inv b i] .
  obtain cat sm where q: "quarantine_unusable_linked_job (sub_env 0 e) policy b i jid w
      = io_bind (record_failure (sub_env 0 e) policy (b_id b) i jid cat sm False ''not_executed'') (\<lambda>r. io_return (Some r)) w"
    and cat: "cat \<in> {MISSING_LINKED_JOB_CATEGORY, TENANT_MISMATCH_CATEGORY}"
  proof (cases "get_job jid (w_jobs w)")
    case (Inl x)
    then show thesis using that [of MISSING_LINKED_JOB_CATEGORY] unusable
      by (simp add: quarantine_unusable_linked_job_def io_try_def on_jobs_def io_tx_def commit_def quarantine_def)
  next
    case (Inr p)
    obtain job s where p: "p = (job, s)" by fastforce
    then have "s = w_jobs w" using get_job_same Inr by blast
    then show thesis using that [of TENANT_MISMATCH_CATEGORY] unusable Inr p
      by (simp add: quarantine_unusable_linked_job_def io_try_def on_jobs_def io_tx_def commit_def quarantine_def)
  qed
  obtain r s' where fail: "record_failure (sub_env 0 e) policy (b_id b) i jid cat sm False ''not_executed'' w = (Done r, w\<lparr>w_batches := s'\<rparr>)"
    and r: "ie_report_job_status r = ''not_executed''" "ie_item_status r = Item_failed_terminal" "\<not> ie_retry_eligible r"
      "ie_failure_category r = Some cat"
    and i': "\<exists>i' \<in> set (batch_items s'). i_id i' = i_id i \<and> i_status i' = Item_failed_terminal
       \<and> \<not> i_retry_eligible i' \<and> i_report_job_id i' = i_report_job_id i"
    using record_failure_run [OF inv i(1)] .
  have "execute_item sv e policy (b_id b) (i_id i) w = (Done r, w\<lparr>w_batches := s'\<rparr>)"
    using load q fail link by (simp add: execute_item_def io_bind_def io_return_def)
  then show ?thesis using r i' cat link by auto
qed

definition sample_waiting_item :: "string \<Rightarrow> item_row" where
  "sample_waiting_item jid = sample_leased_item\<lparr>i_status := Item_waiting, i_report_job_id := Some jid,
     i_dispatched_at := Some (Zulu 5000000)\<rparr>"

definition sample_waiting :: "string \<Rightarrow> batch_ledger" where
  "sample_waiting jid = sample_leased\<lparr>batch_items := [sample_waiting_item jid, sample_item_row ''rbit_cc'' 2 ''p1'']\<rparr>"

lemma sample_fields:
  "i_id (sample_item_row iid n p) = iid" "i_lease_token (sample_item_row iid n p) = None"
  "i_status (sample_item_row iid n p) = Item_materialized" "i_report_job_id (sample_item_row iid n p) = None"
  "i_batch_id (sample_item_row iid n p) = ''rbch_b''" "i_portfolio_id (sample_item_row iid n p) = p"
  "i_status sample_leased_item = Item_leased" "i_lease_token sample_leased_item = Some ''lease_b''"
  "i_batch_id sample_leased_item = ''rbch_b''" "i_id sample_leased_item = ''rbit_cb''"
  "b_id sample_batch_row = ''rbch_b''" "b_tenant_id sample_batch_row = ''t1''"
  by (simp_all add: sample_item_row_def new_item_row_def sample_leased_item_def lease_item_def materialized_from_def
      sample_candidate_def sample_batch_row_def new_batch_row_def sample_batch_caller_def)

lemma sample_waiting_marked:
  "mark_item_waiting_on_report_job sample_env ''rbit_cb'' ''lease_b'' jid None sample_leased
     = Inr (sample_waiting_item jid, sample_waiting jid)"
  by (simp add: mark_item_waiting_on_report_job_def update_items_def tx_bind_def reread_item_def tx_require_def tx_get_def
      tx_return_def find_item_def sample_leased_def sample_waiting_def sample_waiting_item_def item_lease_held_def
      sample_fields rowcount_def given_or_now_def utc_now_def sample_env_def dt_to_text_def)

lemma sample_waiting_inv: "batch_inv (sample_waiting jid)"
  using keepsD [OF bkeeps_waiting sample_waiting_marked] sample_leased_inv by (simp add: bl_rel_def)

theorem unusable_link_quarantined_witness:
  "\<exists>r s'. execute_item sample_services sample_env 3 ''rbch_b'' ''rbit_cb'' (sample_world\<lparr>w_batches := sample_waiting ''gone''\<rparr>)
      = (Done r, sample_world\<lparr>w_batches := s'\<rparr>) \<and> ie_report_job_status r = ''not_executed''"
proof -
  let ?w = "sample_world\<lparr>w_batches := sample_waiting ''gone''\<rparr>"
  let ?b = "start_batch (Zulu 5000000) sample_batch_row"
  have b: "?b \<in> set (batches (w_batches ?w))" "b_id ?b = ''rbch_b''"
    by (simp_all add: sample_waiting_def sample_leased_def start_batch_def sample_fields)
  have missing: "get_job ''gone'' (w_jobs ?w) = Inl (ReportJobNotFoundError ''report_job_not_found'')"
    by (simp add: get_job_def tx_bind_def tx_get_def tx_raise_def find_job_def sample_world_def samples)
  have inv: "batch_inv (w_batches ?w)" by (simp add: sample_waiting_inv)
  have i: "sample_waiting_item ''gone'' \<in> set (batch_items (w_batches ?w))"
    "i_batch_id (sample_waiting_item ''gone'') = b_id ?b" "i_status (sample_waiting_item ''gone'') = Item_waiting"
    "i_report_job_id (sample_waiting_item ''gone'') = Some ''gone''" "i_id (sample_waiting_item ''gone'') = ''rbit_cb''"
    by (simp_all add: sample_waiting_def sample_waiting_item_def sample_fields b)
  from unusable_link_quarantined [OF inv b(1) i(1-4), of sample_services sample_env 3] missing
  show ?thesis unfolding b(2) i(5) by auto
qed

section \<open>Dispatch\<close>

lemma mark_waiting_run:
  assumes "batch_inv s" "i \<in> set (batch_items s)" "i_status i = Item_leased" "i_lease_token i = Some tok"
  obtains i' s' where "mark_item_waiting_on_report_job e (i_id i) tok rj now s = Inr (i', s')"
    "i' \<in> set (batch_items s')" "i_id i' = i_id i" "i_status i' = Item_waiting" "i_report_job_id i' = Some rj"
proof -
  let ?f = "\<lambda>i. i\<lparr>i_status := Item_waiting, i_report_job_id := Some rj, i_dispatched_at := Some (dt_to_text (given_or_now e now))\<rparr>"
  let ?s = "s\<lparr>batch_items := update_where (item_lease_held (i_id i) tok) ?f (batch_items s)\<rparr>"
  have held: "item_lease_held (i_id i) tok x \<longleftrightarrow> x = i" if "x \<in> set (batch_items s)" for x
    using that find_item_iff [OF assms(1)] assms(2-4) by (metis item_lease_held_def option.inject)
  then have "filter (item_lease_held (i_id i) tok) (batch_items s) = filter (\<lambda>x. i_id x = i_id i) (batch_items s)"
    using find_item_iff [OF assms(1)] assms(2) by (intro filter_cong) (simp, metis option.inject)
  then have one: "rowcount (item_lease_held (i_id i) tok) (batch_items s) = 1"
    using items_update_one [OF assms(1,2)] by (simp add: rowcount_def)
  have mem: "?f i \<in> set (batch_items ?s)" using assms(2) held by (force simp: set_update_where)
  have "batch_inv ?s"
    using keepsD [OF update_items_keeps, of "item_lease_held (i_id i) tok" ?f s] assms(1)
    by (auto simp: update_items_def bl_rel_def row_defs item_lease_held_def intro!: spec_moves)
  then have "find_item (i_id i) ?s = Some (?f i)" using find_item_iff mem by simp
  then show thesis using that [of "?f i" ?s] mem one
    by (simp add: mark_item_waiting_on_report_job_def tx_bind_def update_items_def reread_item_def tx_require_def
        tx_get_def tx_return_def)
qed

text \<open>
  (C36) A dispatch that is repeated after a crash between the creation of the report job and the link
  to it makes no second job: when a job was once created under the item's key for the item's request,
  then in any later job ledger a dispatch of the item, leased again, by a caller of the same tenant and
  region returns that job, adds no request and no job, and links the item to it.
\<close>

theorem redispatch_finds_same_job:
  assumes jobs: "schema_inv s" "create_portfolio_review_job dp e q caller (Some (i_key i)) s = Inr (rec, s1)"
      "ledger_run s1 (w_jobs w)"
    and request: "request_for_item b i = Inr q"
    and item: "batch_inv (w_batches w)" "i \<in> set (batch_items (w_batches w))" "i_status i = Item_leased"
      "i_lease_token i = Some tok"
    and caller: "cc_tenant_id caller' = cc_tenant_id caller" "cc_region caller' = cc_region caller"
    and sha: "env_sha256 e' = env_sha256 e"
  shows "\<exists>w'. dispatch_item dp e' b caller' i w = (Done (Some (lr_job_id rec)), w')
    \<and> requests (w_jobs w') = requests (w_jobs w) \<and> jobs (w_jobs w') = jobs (w_jobs w)
    \<and> (\<exists>i' \<in> set (batch_items (w_batches w')). i_id i' = i_id i \<and> i_status i' = Item_waiting
         \<and> i_report_job_id i' = Some (lr_job_id rec))"
proof -
  let ?c = "new_job ''portfolio_review'' ''Portfolio review report job accepted.'' (Portfolio_review q) caller (Some (i_key i)) False"
  have "create_report_job dp e ?c s = Inr (rec, s1)" using jobs(2) by (simp add: create_portfolio_review_job_def)
  moreover have "ledger_rel s1 (w_jobs w)" by (rule run_rel [OF jobs(3)])
  moreover have "binding_roundtrip dp (cx_admission ?c)" by (simp add: binding_roundtrip_def new_job_def)
  moreover have "env_sha256 (sub_env 1 e') = env_sha256 e" using sha by (simp add: sub_env_def)
  ultimately obtain rec' s3 where "create_report_job dp (sub_env 1 e') (?c\<lparr>cx_caller := caller'\<rparr>) (w_jobs w) = Inr (rec', s3)"
    "lr_job_id rec' = lr_job_id rec" "requests s3 = requests (w_jobs w)" "jobs s3 = jobs (w_jobs w)"
    using create_again [OF jobs(1), of dp e ?c rec s1 "w_jobs w" "sub_env 1 e'" caller'] caller
    by (auto simp: new_job_def)
  then have again: "create_portfolio_review_job dp (sub_env 1 e') q caller' (Some (i_key i)) (w_jobs w) = Inr (rec', s3)"
    "lr_job_id rec' = lr_job_id rec" "requests s3 = requests (w_jobs w)" "jobs s3 = jobs (w_jobs w)"
    by (simp_all add: create_portfolio_review_job_def new_job_def)
  obtain i' bs where mark: "mark_item_waiting_on_report_job (sub_env 2 e') (i_id i) tok (lr_job_id rec) None (w_batches w) = Inr (i', bs)"
    and i': "i' \<in> set (batch_items bs)" "i_id i' = i_id i" "i_status i' = Item_waiting" "i_report_job_id i' = Some (lr_job_id rec)"
    using mark_waiting_run [OF item] .
  have "dispatch_item dp e' b caller' i w = (Done (Some (lr_job_id rec)), w\<lparr>w_jobs := s3, w_batches := bs\<rparr>)"
    using item(4) request again(1,2) mark
    by (simp add: dispatch_item_def io_bind_def on_jobs_def io_tx_def commit_def on_batches_run io_return_def)
  then show ?thesis using again(3,4) i' by auto
qed

definition sample_item_request :: portfolio_review_request where
  "sample_item_request = \<lparr>pq_portfolio_scope = [(''portfolio_ids'', JList [JStr ''p2''])], pq_as_of_date = 739728,
     pq_output_formats = [''pdf''], pq_reporting_currency = None, pq_options = [], pq_narrative_package = None,
     pq_memo_package = None\<rparr>"

lemma sample_item_key: "i_key sample_leased_item = ''k:2026-04-22:1:p2''"
  by code_simp

lemma sample_item_request_for: "request_for_item (start_batch t sample_batch_row) sample_leased_item = Inr sample_item_request"
proof -
  have fields: "b_options sample_batch_row = []" "b_as_of_date sample_batch_row = 739728"
    "b_output_formats sample_batch_row = [''pdf'']" "b_reporting_currency sample_batch_row = None"
    "i_portfolio_id sample_leased_item = ''p2''" by code_simp+
  then show ?thesis
    by (simp add: request_for_item_def start_batch_def sample_item_request_def advisor_commentary_requires_run_id_def dget_def)
qed

definition sample_item_creation :: creation where
  "sample_item_creation = new_job ''portfolio_review'' ''Portfolio review report job accepted.''
     (Portfolio_review sample_item_request) sample_batch_caller (Some ''k:2026-04-22:1:p2'') False"

definition sample_item_prepared :: "template_pair \<Rightarrow> jobj \<Rightarrow> string \<Rightarrow> preparation" where
  "sample_item_prepared pair contract hash = \<lparr>pp_parts = portfolio_review_parts sample_item_request,
     pp_template = pair, pp_contract = contract, pp_key = ''k:2026-04-22:1:p2'', pp_hash = hash\<rparr>"

lemma sample_item_prepare:
  obtains pair contract hash where "prepare_creation sample_deployment e sample_item_creation
    = Inr (sample_item_prepared pair contract hash)"
proof -
  let ?pair = "(Some ''portfolio-review'', Some ''v2'')" and ?parts = "portfolio_review_parts sample_item_request"
  have "case resolve_job_accepted_contract ''v1'' ''portfolio_review'' [''pdf''] None None (rp_options ?parts) of
      Inl _ \<Rightarrow> False | Inr c \<Rightarrow> template_for_accepted_contract c ?pair = Inr ?pair" by code_simp
  then obtain c where "resolve_job_accepted_contract ''v1'' ''portfolio_review'' [''pdf''] None None (rp_options ?parts) = Inr c"
    "template_for_accepted_contract c ?pair = Inr ?pair" by (auto split: sum.splits)
  moreover have "job_template_identity ''portfolio_review'' [''pdf''] None = Inr ?pair"
    "require_internal_admission e (Portfolio_review sample_item_request) (rp_options ?parts) ''t1'' None = Inr ()"
    "rp_output_formats ?parts = [''pdf'']" "\<not> py_blank (Some ''k:2026-04-22:1:p2'')"
    "py_strip ''k:2026-04-22:1:p2'' = ''k:2026-04-22:1:p2''" by code_simp+
  ultimately show thesis
    using that [of ?pair c] by (simp add: prepare_creation_def sample_item_creation_def new_job_def sample_deployment_def
        compute_request_hash_def sample_batch_caller_def sample_item_prepared_def)
qed

lemma sample_item_job:
  obtains rec s1 where "create_portfolio_review_job sample_deployment sample_env sample_item_request sample_batch_caller
    (Some ''k:2026-04-22:1:p2'') (sample_ledger sample_job) = Inr (rec, s1)"
proof -
  let ?c = sample_item_creation and ?s = "sample_ledger sample_job"
  obtain pair contract hash where p: "prepare_creation sample_deployment sample_env ?c
      = Inr (sample_item_prepared pair contract hash)" (is "_ = Inr ?p") by (rule sample_item_prepare)
  have "\<not> isl (insert_new_job sample_env ?c ?p None ?s)" by code_simp
  moreover have "request_for ?s ?c ?p = None" by (auto simp: samples sample_item_prepared_def)
  moreover have "cx_replay_source ?c = None" by (simp add: sample_item_creation_def new_job_def)
  ultimately have "\<not> isl (create_report_job sample_deployment sample_env ?c ?s)"
    using create_new [OF p] by (simp del: fetch_None)
  then show thesis using that unfolding create_portfolio_review_job_def sample_item_creation_def by (rule Inr_pairE)
qed

theorem redispatch_finds_same_job_witness:
  "\<exists>rec s1 w'. create_portfolio_review_job sample_deployment sample_env sample_item_request sample_batch_caller
      (Some (i_key sample_leased_item)) (sample_ledger sample_job) = Inr (rec, s1)
    \<and> dispatch_item sample_deployment sample_env (start_batch (Zulu 5000000) sample_batch_row)
        (sample_batch_caller\<lparr>cc_correlation_id := ''c2''\<rparr>) sample_leased_item
        \<lparr>w_jobs = s1, w_batches = sample_leased\<rparr> = (Done (Some (lr_job_id rec)), w')
    \<and> jobs (w_jobs w') = jobs s1"
proof -
  let ?caller = "sample_batch_caller\<lparr>cc_correlation_id := ''c2''\<rparr>"
  obtain rec s1 where run: "create_portfolio_review_job sample_deployment sample_env sample_item_request sample_batch_caller
    (Some (i_key sample_leased_item)) (sample_ledger sample_job) = Inr (rec, s1)"
    using sample_item_job unfolding sample_item_key by blast
  let ?w = "\<lparr>w_jobs = s1, w_batches = sample_leased\<rparr>"
  have "ledger_run s1 (w_jobs ?w)" "batch_inv (w_batches ?w)" "sample_leased_item \<in> set (batch_items (w_batches ?w))"
    "cc_tenant_id ?caller = cc_tenant_id sample_batch_caller" "cc_region ?caller = cc_region sample_batch_caller"
    using sample_leased_inv by (simp_all add: sample_leased_def)
  from redispatch_finds_same_job [OF sample_jobs_inv run this(1) sample_item_request_for this(2,3) sample_fields(7,8) this(4,5) refl]
  show ?thesis using run by (metis world.select_convs(1))
qed

section \<open>Back pressure\<close>

text \<open>The items in flight: what \<open>count_active_items\<close> counts.\<close>

definition in_flight :: "world \<Rightarrow> nat" where
  "in_flight w = rowcount (\<lambda>i. i_status i \<in> {Item_leased, Item_waiting}) (batch_items (w_batches w))"

interpretation shrinking: effects "\<lambda>w w'. in_flight w' \<le> in_flight w"
  by unfold_locales auto

abbreviation shrinks :: "'a wio \<Rightarrow> bool" where
  "shrinks \<equiv> within (\<lambda>w w'. in_flight w' \<le> in_flight w)"

lemma rowcount_update_le:
  "(\<And>x. x \<in> set xs \<Longrightarrow> Q x \<Longrightarrow> P (f x) \<Longrightarrow> P x) \<Longrightarrow> rowcount P (update_where Q f xs) \<le> rowcount P xs"
  unfolding rowcount_def by (induction xs) (auto simp: le_SucI)

lemma rowcount_update_add: "rowcount P (update_where Q f xs) \<le> rowcount P xs + rowcount Q xs"
  unfolding rowcount_def by (induction xs) auto

lemma shrinks_on_batches:
  assumes "\<And>s a s'. m s = Inr (a, s') \<Longrightarrow> rowcount (\<lambda>i. i_status i \<in> {Item_leased, Item_waiting}) (batch_items s')
      \<le> rowcount (\<lambda>i. i_status i \<in> {Item_leased, Item_waiting}) (batch_items s)"
  shows "shrinks (on_batches m)"
  using assms by (auto simp: within_def in_flight_def on_batches_def io_tx_def commit_def split: prod.split sum.split)

lemma refresh_items: "refresh_batch_status bid now s = Inr (u, s') \<Longrightarrow> batch_items s' = batch_items s"
  using refresh_total [of bid now s] by (metis Inr_inject prod.inject)

lemma shrinks_failed: "shrinks (on_batches (mark_item_failed e iid cat sm retryable policy due now))"
proof (rule shrinks_on_batches)
  fix s a s' assume run: "mark_item_failed e iid cat sm retryable policy due now s = Inr (a, s')"
  then obtain i where i: "find_item iid s = Some i"
    by (cases "find_item iid s") (auto simp: mark_item_failed_def Let_def tx_bind_eq)
  let ?o = "batch_item_failure_outcome retryable (i_attempt_count i + 1)
      (case policy of None \<Rightarrow> default_batch_max_attempts | Some m \<Rightarrow> m)"
  let ?f = "fail_item (fst ?o) (i_attempt_count i + 1) (snd ?o) due cat sm (dt_to_text (given_or_now e now))"
  have "batch_items s' = update_where (\<lambda>x. i_id x = iid) ?f (batch_items s)"
    using run i by (auto simp: mark_item_failed_def Let_def tx_bind_eq update_items_returning_def settle_returned_def
        split: list.splits dest!: refresh_items)
  moreover have "i_status (?f x) \<notin> {Item_leased, Item_waiting}" for x
    by (simp add: fail_item_def batch_item_failure_outcome_def Let_def)
  ultimately show "rowcount (\<lambda>i. i_status i \<in> {Item_leased, Item_waiting}) (batch_items s')
      \<le> rowcount (\<lambda>i. i_status i \<in> {Item_leased, Item_waiting}) (batch_items s)"
    by (simp only:) (rule rowcount_update_le, blast)
qed

lemma shrinks_waiting: "shrinks (on_batches (mark_item_waiting_on_report_job e iid tok rj now))"
proof (rule shrinks_on_batches)
  fix s a s' assume "mark_item_waiting_on_report_job e iid tok rj now s = Inr (a, s')"
  then have "batch_items s' = update_where (item_lease_held iid tok) (\<lambda>i. i\<lparr>i_status := Item_waiting,
        i_report_job_id := Some rj, i_dispatched_at := Some (dt_to_text (given_or_now e now))\<rparr>) (batch_items s)"
    by (auto simp: mark_item_waiting_on_report_job_def tx_bind_eq update_items_def reread_item_def split: option.splits)
  then show "rowcount (\<lambda>i. i_status i \<in> {Item_leased, Item_waiting}) (batch_items s')
      \<le> rowcount (\<lambda>i. i_status i \<in> {Item_leased, Item_waiting}) (batch_items s)"
    by (simp only:) (rule rowcount_update_le, simp add: item_lease_held_def)
qed

lemma shrinks_dispatch_items: "shrinks (dispatch_items dp e b caller n is)"
proof (induction "is" arbitrary: n)
  case (Cons i "is")
  have jobs: "shrinks (on_jobs m)" for m :: "'b io"
    by (simp add: within_def on_jobs_def in_flight_def split: prod.split)
  have "shrinks (dispatch_item dp e' b caller i)" for e'
    unfolding dispatch_item_def
    by (auto intro!: shrinking.within_bind shrinking.within_return shrinks_failed shrinks_waiting jobs
        split: option.split sum.split)
  then show ?case using Cons by (auto intro!: shrinking.within_bind shrinking.within_return)
qed (simp add: shrinking.within_return)

lemma acquire_in_flight:
  assumes "batch_inv (w_batches w)" "on_batches (acquire_dispatch_items e bid wk n limit now) w = (Done rows, w')"
  shows "in_flight w' \<le> in_flight w + nat limit"
proof -
  have run: "acquire_dispatch_items e bid wk n limit now (w_batches w) = Inr (rows, w_batches w')"
    using assms(2) by (auto simp: on_batches_def io_tx_def commit_def split: sum.splits prod.splits)
  let ?taken = "dispatch_rows bid (dt_to_text (given_or_now e now)) limit (w_batches w)"
  have "in_flight w' \<le> in_flight w + rowcount (\<lambda>i. i \<in> set ?taken) (batch_items (w_batches w))"
    unfolding in_flight_def acquire_effect(1) [OF assms(1) run] by (rule rowcount_update_add)
  also have "rowcount (\<lambda>i. i \<in> set ?taken) (batch_items (w_batches w)) \<le> length ?taken"
  proof -
    have "distinct (filter (\<lambda>i. i \<in> set ?taken) (batch_items (w_batches w)))"
      using batch_inv_distinct(3) [OF assms(1)] by (simp add: distinct_map)
    then have "length (filter (\<lambda>i. i \<in> set ?taken) (batch_items (w_batches w))) \<le> card (set ?taken)"
      by (simp add: distinct_card [symmetric]) (auto intro!: card_mono)
    also have "\<dots> \<le> length ?taken" by (rule card_length)
    finally show ?thesis by (simp add: rowcount_def)
  qed
  also have "length ?taken \<le> nat limit" by (simp add: dispatch_rows_def)
  finally show ?thesis by simp
qed

lemma io_bind_Done: "m w = (Done a, w1) \<Longrightarrow> io_bind m f w = f a w1"
  by (simp add: io_bind_def)

text \<open>The load a dispatch sees: the batch and item counts of the ledger, plus the load passed in.\<close>

lemma runtime_load_run:
  obtains current where "runtime_load_for_batch batch ld w = (Done current, w)"
    "ld_active_items current = int (in_flight w) + ld_active_items (case ld of None \<Rightarrow> no_load | Some l \<Rightarrow> l)"
proof -
  have "on_batches count_active_batches w = (Done (rowcount (\<lambda>b. b_status b = Batch_running) (batches (w_batches w))), w)"
    "on_batches count_active_items w = (Done (in_flight w), w)"
    by (rule on_batches_read, simp add: count_active_batches_def count_active_items_def in_flight_def tx_get_def)+
  then show thesis using that by (simp add: runtime_load_for_batch_def io_bind_def io_return_def Let_def)
qed

abbreviation loaded :: "string \<Rightarrow> world \<Rightarrow> batch_row \<Rightarrow> batch_record" where
  "loaded bid w b \<equiv> \<lparr>br_batch = b, br_items = sort_key i_position (items_of bid (w_batches w))\<rparr>"

abbreviation capacity :: "dispatch_policy \<Rightarrow> runtime_load \<Rightarrow> int" where
  "capacity policy current \<equiv> min (dq_max_active_items policy) (dq_max_active_items policy - ld_active_items current)"

text \<open>The part of a dispatch below the back-pressure check.\<close>

definition dispatch_leased ::
    "deployment \<Rightarrow> env \<Rightarrow> string \<Rightarrow> batch_row \<Rightarrow> caller_context \<Rightarrow> item_row list \<Rightarrow> dispatch_result wio" where
  "dispatch_leased dp e bid b caller leased =
     io_bind (dispatch_items dp e b caller 1 leased) (\<lambda>job_ids.
     io_return \<lparr>dr_batch_id = bid, dr_leased_count = length leased, dr_dispatched_count = length job_ids,
       dr_report_job_ids = job_ids, dr_back_pressure_reasons = []\<rparr>)"

lemma dispatch_unpressed:
  assumes "find_batch bid (w_batches w) = Some b" "runtime_load_for_batch (loaded bid w b) ld w = (Done current, w)"
    "evaluate_back_pressure current policy = []"
  shows "dispatch_batch dp e policy bid caller wk ld w
    = io_bind (on_batches (acquire_dispatch_items (sub_env 0 e) bid wk (dq_lease_seconds policy) (capacity policy current) None))
        (dispatch_leased dp e bid b caller) w"
  using get_batch_act [OF assms(1)] assms(2,3)
  by (simp add: dispatch_batch_def io_bind_def Let_def dispatch_leased_def [abs_def])

lemma dispatch_leased_effect:
  assumes "dispatch_leased dp e bid b caller leased w = (ending, w')"
  shows "in_flight w' \<le> in_flight w" "ending = Done r \<Longrightarrow> dr_back_pressure_reasons r = []"
proof -
  have "shrinks (dispatch_leased dp e bid b caller leased)"
    unfolding dispatch_leased_def by (intro shrinking.within_bind shrinking.within_return shrinks_dispatch_items)
  then show "in_flight w' \<le> in_flight w" using assms unfolding within_def by (metis snd_conv)
  show "ending = Done r \<Longrightarrow> dr_back_pressure_reasons r = []"
    using assms by (auto simp: dispatch_leased_def io_bind_def io_return_def split: prod.splits ending.splits)
qed

text \<open>
  Dispatch respects back pressure: when the load passed in counts no negative number of items,
  then however a dispatch ends, the items leased or waiting afterwards are at most the policy's maximum
  or no more than they were before; and when any limit of the policy is reached, it returns the reasons
  and changes nothing.
\<close>

theorem dispatch_bounded:
  assumes inv: "batch_inv (w_batches w)"
    and ext: "0 \<le> ld_active_items (case ld of None \<Rightarrow> no_load | Some l \<Rightarrow> l)"
    and run: "dispatch_batch dp e policy bid caller wk ld w = (ending, w')"
  shows "int (in_flight w') \<le> max (int (in_flight w)) (dq_max_active_items policy)
    \<and> (\<forall>r. ending = Done r \<and> dr_back_pressure_reasons r \<noteq> [] \<longrightarrow> w' = w)"
proof (cases "find_batch bid (w_batches w)")
  case None
  then show ?thesis using run
    by (simp add: dispatch_batch_def io_bind_def on_batches_error get_batch_find)
next
  case (Some b)
  obtain current where load: "runtime_load_for_batch (loaded bid w b) ld w = (Done current, w)"
    and items: "ld_active_items current = int (in_flight w) + ld_active_items (case ld of None \<Rightarrow> no_load | Some l \<Rightarrow> l)"
    by (rule runtime_load_run)
  let ?acq = "on_batches (acquire_dispatch_items (sub_env 0 e) bid wk (dq_lease_seconds policy) (capacity policy current) None)"
  show ?thesis
  proof (cases "evaluate_back_pressure current policy = []")
    case False
    then show ?thesis using run get_batch_act [OF Some] load by (auto simp: dispatch_batch_def io_bind_def io_return_def)
  next
    case True
    note rest = dispatch_unpressed [OF Some load True]
    obtain x w1 where acq: "?acq w = (x, w1)" by fastforce
    show ?thesis
    proof (cases x)
      case (Done leased)
      have tail: "dispatch_leased dp e bid b caller leased w1 = (ending, w')"
        using run unfolding rest io_bind_Done [of ?acq, OF acq [unfolded Done]] .
      have "in_flight w1 \<le> in_flight w + nat (capacity policy current)"
        using acquire_in_flight [OF inv] acq Done by blast
      moreover have "int (nat (capacity policy current)) \<le> dq_max_active_items policy - int (in_flight w)"
        using True items ext by (simp add: evaluate_back_pressure_def min_def split: if_splits)
      ultimately have "int (in_flight w') \<le> dq_max_active_items policy"
        using dispatch_leased_effect(1) [OF tail] by linarith
      then show ?thesis using dispatch_leased_effect(2) [OF tail] by auto
    qed (use run acq in \<open>auto simp: rest io_bind_def on_batches_def io_tx_def commit_def in_flight_def
          split: sum.splits prod.splits\<close>)
  qed
qed

theorem dispatch_bounded_witness:
  "\<exists>ending w'. dispatch_batch sample_deployment sample_env default_dispatch_policy ''rbch_b'' sample_batch_caller ''w1'' None
      sample_world = (ending, w') \<and> int (in_flight w') \<le> max (int (in_flight sample_world)) 5"
proof -
  obtain x w' where run: "dispatch_batch sample_deployment sample_env default_dispatch_policy ''rbch_b'' sample_batch_caller
      ''w1'' None sample_world = (x, w')" by fastforce
  have "batch_inv (w_batches sample_world)" using sample_batches_inv by (simp add: sample_world_def)
  from dispatch_bounded [OF this _ run] run show ?thesis by (auto simp: no_load_def default_dispatch_policy_def)
qed

section \<open>A job the ledger refuses\<close>


definition sample_mixed :: batch_ledger where
  "sample_mixed = sample_batches\<lparr>batches := [sample_batch_row\<lparr>b_output_formats := [''pdf'', ''xlsx'']\<rparr>]\<rparr>"

text \<open>A batch asking for both document formats is accepted, each of its jobs is refused.\<close>

lemma sample_mixed_created:
  "create_batch sample_env (sample_batch_request\<lparr>bq_requested_output_formats := [''pdf'', ''xlsx'']\<rparr>) sample_batch_caller
     (Some ''k'') empty_batches = Inr (\<lparr>br_batch = hd (batches sample_mixed), br_items = batch_items sample_mixed\<rparr>, sample_mixed)"
  by code_simp

lemma sample_mixed_refused:
  "create_portfolio_review_job sample_deployment e (sample_item_request\<lparr>pq_output_formats := [''pdf'', ''xlsx'']\<rparr>) sample_batch_caller
     (Some ''k:2026-04-22:1:p2'') s = Inl (ValueError ''REPORT_MULTIPLE_DOCUMENT_FORMATS_NOT_SUPPORTED'')"
proof -
  let ?q = "sample_item_request\<lparr>pq_output_formats := [''pdf'', ''xlsx'']\<rparr>"
  have "job_template_identity ''portfolio_review'' [''pdf'', ''xlsx''] None
      = Inl (ValueError ''REPORT_MULTIPLE_DOCUMENT_FORMATS_NOT_SUPPORTED'')"
    "require_internal_admission e (Portfolio_review ?q) (rp_options (portfolio_review_parts ?q)) ''t1'' None = Inr ()"
    "rp_output_formats (portfolio_review_parts ?q) = [''pdf'', ''xlsx'']" "\<not> py_blank (Some ''k:2026-04-22:1:p2'')"
    by code_simp+
  then have "prepare_creation sample_deployment e (new_job ''portfolio_review'' ''Portfolio review report job accepted.''
      (Portfolio_review ?q) sample_batch_caller (Some ''k:2026-04-22:1:p2'') False)
      = Inl (ValueError ''REPORT_MULTIPLE_DOCUMENT_FORMATS_NOT_SUPPORTED'')"
    by (simp add: prepare_creation_def new_job_def sample_batch_caller_def)
  then show ?thesis by (simp add: create_portfolio_review_job_def create_report_job_def tx_bind_def tx_lift_def)
qed


section \<open>A closed batch in the worker\<close>


text \<open>Both items of the sample failed: the first after its job, the second before.\<close>

definition sample_half_failed :: batch_ledger where
  "sample_half_failed = \<lparr>batches = [start_batch (Zulu 5000000) sample_batch_row],
     batch_items = [fail_item Item_failed_retryable 1 True None ''render'' ''m'' (Zulu 5000000) (sample_waiting_item ''rjb_1''),
       sample_item_row ''rbit_cc'' 2 ''p1'']\<rparr>"

definition sample_failed_batch :: batch_ledger where
  "sample_failed_batch = \<lparr>batches = [reconcile_row Batch_failed (Zulu 5000000) (start_batch (Zulu 5000000) sample_batch_row)],
     batch_items = [fail_item Item_failed_retryable 1 True None ''render'' ''m'' (Zulu 5000000) (sample_waiting_item ''rjb_1''),
       fail_item Item_failed_retryable 1 True None ''render'' ''m'' (Zulu 5000000) (sample_item_row ''rbit_cc'' 2 ''p1'')]\<rparr>"

lemma sample_failing:
  "mark_item_failed sample_env ''rbit_cb'' ''render'' ''m'' True (Some 3) None None (sample_waiting ''rjb_1'')
     = Inr (hd (batch_items sample_half_failed), sample_half_failed)"
  "mark_item_failed sample_env ''rbit_cc'' ''render'' ''m'' True (Some 3) None None sample_half_failed
     = Inr (last (batch_items sample_failed_batch), sample_failed_batch)"
  by code_simp+

lemma sample_failed_batch_inv: "batch_inv sample_failed_batch"
  using keepsD [OF bkeeps_failed sample_failing(1)] keepsD [OF bkeeps_failed sample_failing(2)] sample_waiting_inv
  by (simp add: bl_rel_def)


end
