(* ===== verification/Batch_Replay.thy ===== *)
theory Batch_Replay
  imports Batch_Worker_Laws
begin

text \<open>
  Replay of a failed batch item, \<open>src/src/app/report_batch_orchestrator/replay.py\<close>, with the two helpers it
  takes from \<open>src/src/app/reporting_render/replay_service.py\<close>. Nothing is written before the request is
  known to be well formed; a link that is foreign or dangling is refused, and the item set aside only
  when replay would have acted on it.
\<close>

section \<open>Helpers of the replay service\<close>

definition assert_replay_eligible :: "job_record \<Rightarrow> unit res" where
  "assert_replay_eligible job =
     (let refuse = Inl (InvalidReportJobTransitionError ''report_job_cannot_be_replayed'') in
      if \<not> resolution_replay_supported job then refuse
      else if lr_report_type job = ''composite_review''
         \<and> lr_failure_category job \<notin> {Some Archive_outcome_unknown, Some Archive_handoff_failed, Some Archive_handoff_not_configured}
      then refuse
      else if lr_status job \<noteq> Failed \<or> \<not> lr_retry_eligible job then refuse
      else if truthy (lr_archive_document_id job) then refuse
      else Inr ())"

definition read_status_events :: "string \<Rightarrow> event_row list wio" where
  "read_status_events job_id = on_jobs (io_tx (tx_get (\<lambda>s. list_status_events s job_id)))"

definition append_source_event_once ::
    "env \<Rightarrow> string \<Rightarrow> string \<Rightarrow> string \<Rightarrow> job_status \<Rightarrow> string \<Rightarrow> jobj \<Rightarrow> caller_context \<Rightarrow> unit wio" where
  "append_source_event_once e job_id event_type replayed_job_id replayed_status message event_payload caller =
     io_bind (read_status_events job_id) (\<lambda>evs.
     if list_ex (\<lambda>v. ev_type v = event_type \<and> dget (ev_payload v) ''replayed_job_id'' = Some (JStr replayed_job_id)) evs
     then io_return ()
     else
       let payload = fold (\<lambda>kv d. dset d (fst kv) (snd kv)) event_payload
             [(''replayed_job_id'', JStr replayed_job_id), (''replayed_status'', JStr (status_text replayed_status))] in
       io_bind (on_jobs (io_tx (append_job_event e job_id event_type message (Some payload)
          (Some (event_type @ '':'' @ job_id @ '':'' @ replayed_job_id)) (cc_triggered_by caller)
          (cc_correlation_id caller) (cc_trace_id caller) False))) (\<lambda>_. io_return ()))"

section \<open>Replaying an item\<close>

definition DANGLING_LINK_CATEGORY :: string where "DANGLING_LINK_CATEGORY = ''batch_item_link_dangling''"

datatype replay_branch = Idempotent_replay | New_replay

definition replay_branch_for :: "item_row \<Rightarrow> replay_branch option" where
  "replay_branch_for i =
     (if \<not> truthy (i_report_job_id i) then None
      else if i_status i = Item_waiting then Some Idempotent_replay
      else if i_status i = Item_failed_retryable \<and> i_retry_eligible i then Some New_replay
      else None)"

definition item_not_replayable :: err where
  "item_not_replayable = InvalidReportJobTransitionError ''report_batch_item_cannot_be_replayed''"

text \<open>\<open>_observe_terminal_item_link\<close>: a lookup that is logged and never raises.\<close>

definition observe_terminal_item_link :: "string \<Rightarrow> unit wio" where
  "observe_terminal_item_link job_id =
     io_try (on_jobs (io_tx (get_job job_id))) (\<lambda>_. io_return ()) (\<lambda>_. io_return ())"

definition refuse_foreign_linked_job ::
    "env \<Rightarrow> batch_row \<Rightarrow> item_row \<Rightarrow> replay_branch option \<Rightarrow> unit wio" where
  "refuse_foreign_linked_job e b i branch =
     (case i_report_job_id i of None \<Rightarrow> io_return ()
      | Some job_id \<Rightarrow>
        if branch = None
        then io_bind (observe_terminal_item_link job_id) (\<lambda>_. io_raise item_not_replayable)
        else io_try (on_jobs (io_tx (get_job job_id)))
          (\<lambda>job. if lr_tenant_id job = b_tenant_id b then io_return ()
             else io_bind (on_batches (mark_item_failed e (i_id i) TENANT_MISMATCH_CATEGORY
               (''Linked report job belongs to a different tenant than its batch; ''
                @ ''replay refused and the item quarantined for operator review.'') False None None None)) (\<lambda>_.
               io_raise item_not_replayable))
          (\<lambda>exc. case exc of
               ReportJobNotFoundError _ \<Rightarrow>
                 io_bind (on_batches (mark_item_failed e (i_id i) DANGLING_LINK_CATEGORY
                   (''Linked report job no longer exists; replay refused and the item ''
                    @ ''quarantined as a dangling link for operator review.'') False None None None)) (\<lambda>_.
                 io_raise item_not_replayable)
             | _ \<Rightarrow> io_raise exc))"

definition source_job_for_item :: "item_row \<Rightarrow> job_record wio" where
  "source_job_for_item i =
     (if replay_branch_for i \<noteq> Some New_replay then io_raise item_not_replayable
      else on_jobs (io_tx (get_job (the (i_report_job_id i)))))"

text \<open>The first lineage event of the replayed job names its source.\<close>

definition source_job_for_replayed_job :: "batch_row \<Rightarrow> job_record \<Rightarrow> job_record wio" where
  "source_job_for_replayed_job b replayed =
     io_bind (read_status_events (lr_job_id replayed)) (\<lambda>evs.
     case find (\<lambda>v. ev_type v = ''batch_item_replay_lineage_bound''
         \<and> (case dget (ev_payload v) ''source_job_id'' of Some (JStr _) \<Rightarrow> True | _ \<Rightarrow> False)) evs of
       None \<Rightarrow> io_raise item_not_replayable
     | Some v \<Rightarrow> (case dget (ev_payload v) ''source_job_id'' of
         Some (JStr source_id) \<Rightarrow>
           io_bind (on_jobs (io_tx (get_job source_id))) (\<lambda>source.
           if lr_tenant_id source \<noteq> b_tenant_id b then io_raise item_not_replayable else io_return source)
       | _ \<Rightarrow> io_raise item_not_replayable))"

definition batch_item_replay_idempotency_key :: "string \<Rightarrow> string option \<Rightarrow> string res" where
  "batch_item_replay_idempotency_key iid key =
     (if py_blank key then Inl (MissingIdempotencyKeyError ''missing_idempotency_key'')
      else Inr (''batch-item-replay:'' @ iid @ '':'' @ py_strip (the key)))"

record replay_result =
  rr_batch_id :: string
  rr_item :: item_row
  rr_source_job :: job_record
  rr_replayed_job :: job_record
  rr_idempotency_key :: string

definition create_replayed_job ::
    "deployment \<Rightarrow> env \<Rightarrow> batch_row \<Rightarrow> item_row \<Rightarrow> string \<Rightarrow> caller_context \<Rightarrow> string \<Rightarrow> (job_record \<times> job_record) wio" where
  "create_replayed_job dp e b i reason caller replay_key =
     io_bind (source_job_for_item i) (\<lambda>source.
     io_bind (io_lift (assert_replay_eligible source)) (\<lambda>_.
     io_bind (io_lift (request_for_item b i)) (\<lambda>request.
     io_bind (on_jobs (io_tx (create_portfolio_review_job dp (sub_env 0 e) request caller (Some replay_key)))) (\<lambda>replayed.
     io_bind (on_jobs (io_tx (upsert_job_relationship (sub_env 1 e) source replayed Batch_item_replay
        (cc_triggered_by caller) reason None None (lr_archive_document_id replayed)))) (\<lambda>_.
     io_return (source, replayed))))))"

definition record_replay_events ::
    "env \<Rightarrow> string \<Rightarrow> string \<Rightarrow> caller_context \<Rightarrow> job_record \<Rightarrow> job_record \<Rightarrow> unit wio" where
  "record_replay_events e iid reason caller source replayed =
     io_bind (append_source_event_once (sub_env 0 e) (lr_job_id source) ''batch_item_replay_requested'' (lr_job_id replayed)
        (lr_status replayed) (''Batch item '' @ iid @ '' replay requested as '' @ lr_job_id replayed @ '': '' @ reason)
        [(''batch_item_id'', JStr iid)] caller) (\<lambda>_.
     append_source_event_once (sub_env 1 e) (lr_job_id replayed) ''batch_item_replay_lineage_bound'' (lr_job_id source)
        (lr_status source) (''Batch item replay source job '' @ lr_job_id source @ ''.'')
        [(''batch_item_id'', JStr iid), (''source_job_id'', JStr (lr_job_id source))] caller)"

definition replay_item ::
    "deployment \<Rightarrow> env \<Rightarrow> string \<Rightarrow> string \<Rightarrow> string \<Rightarrow> caller_context \<Rightarrow> string option \<Rightarrow> replay_result wio" where
  "replay_item dp e bid iid reason caller key =
     io_bind (load_admitted_batch bid caller) (\<lambda>record.
     let b = br_batch record in
     io_bind (on_batches (get_batch_item bid iid)) (\<lambda>i.
     io_bind (io_lift (batch_item_replay_idempotency_key iid key)) (\<lambda>replay_key.
     let branch = replay_branch_for i in
     io_bind (refuse_foreign_linked_job (sub_env 0 e) b i branch) (\<lambda>_.
     if branch = Some Idempotent_replay
     then io_bind (on_jobs (io_tx (get_job (the (i_report_job_id i))))) (\<lambda>replayed.
       if lr_idempotency_key replayed \<noteq> replay_key then io_raise item_not_replayable
       else io_bind (source_job_for_replayed_job b replayed) (\<lambda>source.
         io_return \<lparr>rr_batch_id = bid, rr_item = i, rr_source_job = source, rr_replayed_job = replayed,
           rr_idempotency_key = or_else key []\<rparr>))
     else io_bind (create_replayed_job dp (sub_env 1 e) b i reason caller replay_key) (\<lambda>(source, replayed).
       io_bind (on_batches (relink_failed_item_for_replay (sub_env 2 e) bid iid (lr_job_id replayed) None None)) (\<lambda>item.
       io_bind (record_replay_events (sub_env 3 e) iid reason caller source replayed) (\<lambda>_.
       io_return \<lparr>rr_batch_id = bid, rr_item = item, rr_source_job = source, rr_replayed_job = replayed,
         rr_idempotency_key = or_else key []\<rparr>)))))))"

section \<open>What a replay can write\<close>

lemma wruns_job_tx:
  assumes "\<And>s a s'. m s = Inr (a, s') \<Longrightarrow> ledger_step s s'"
  shows "wruns (on_jobs (io_tx m))"
  using assms by (intro wruns_on_jobs runs_tx)

lemma wruns_replay_ops [wruns_intros]:
  "wruns (on_jobs (io_tx (upsert_job_relationship e src der kd actor reason co pd nd)))"
  "wruns (on_jobs (io_tx (append_job_event e jid et ms pl k actor corr tr skip)))"
  by (rule wruns_job_tx, erule ledger_step.intros)+

lemma wruns_events [wruns_intros]: "wruns (read_status_events jid)"
  unfolding read_status_events_def by (rule wruns_on_jobs) (simp add: within_def io_tx_def commit_def tx_get_def)

lemma wruns_get_batch_item [wruns_intros]: "wruns (on_batches (get_batch_item bid iid))"
  by (rule wruns_read) (auto simp: get_batch_item_def tx_bind_eq load_batch_Inr split: option.splits)

lemma wruns_replay_item: "wruns (replay_item dp e bid iid reason caller key)"
proof -
  have load: "wruns (load_admitted_batch bid caller)"
    unfolding load_admitted_batch_def by (intro wruns_bind wruns_intros)
  have once: "wruns (append_source_event_once e' jid et rj st ms pl c)" for e' jid et rj st ms pl c
    unfolding append_source_event_once_def Let_def by (auto intro!: wruns_bind wruns_intros)
  have refuse: "wruns (refuse_foreign_linked_job e' b i branch)" for e' b i branch
    unfolding refuse_foreign_linked_job_def observe_terminal_item_link_def
    by (auto intro!: wruns_bind wruns_try wruns_intros split: option.split err.split)
  have src: "wruns (source_job_for_replayed_job b r)" for b r
    unfolding source_job_for_replayed_job_def
    by (auto intro!: wruns_bind wruns_intros split: option.split json.split)
  have new: "wruns (create_replayed_job dp e' b i reason caller k)" for e' b i k
    unfolding create_replayed_job_def source_job_for_item_def by (auto intro!: wruns_bind wruns_intros)
  have evs: "wruns (record_replay_events e' iid reason caller s r)" for e' s r
    unfolding record_replay_events_def by (intro wruns_bind once)
  show ?thesis
    unfolding replay_item_def Let_def
    by (auto intro!: wruns_bind wruns_intros load refuse src new evs split: prod.split)
qed

section \<open>What a refused replay leaves behind\<close>

lemma replay_loads:
  assumes inv: "batch_inv (w_batches w)" and b: "b \<in> set (batches (w_batches w))"
    and i: "i \<in> set (batch_items (w_batches w))" "i_batch_id i = b_id b"
    and tenant: "cc_tenant_id caller = b_tenant_id b"
  obtains br where "load_admitted_batch (b_id b) caller w = (Done br, w)" "br_batch br = b"
    "on_batches (get_batch_item (b_id b) (i_id i)) w = (Done i, w)"
proof -
  have found: "find_batch (b_id b) (w_batches w) = Some b" using find_batch_iff [OF inv] b by blast
  have "fetch (\<lambda>x. i_batch_id x = b_id b \<and> i_id x = i_id i) (batch_items (w_batches w)) = Some i"
    unfolding fetch_def using i find_item_iff [OF inv] by (intro find_unique) (simp_all, metis option.inject)
  then have "get_batch_item (b_id b) (i_id i) (w_batches w) = Inr (i, w_batches w)"
    using get_batch_find [of "b_id b" "w_batches w"] found
    by (simp add: get_batch_item_def tx_bind_def tx_get_def tx_return_def get_batch_def)
  then show thesis using that get_batch_act [OF found] tenant
    by (simp add: on_batches_read load_admitted_batch_def io_bind_def io_lift_def admit_batch_def)
qed

lemma observe_same: "observe_terminal_item_link jid w = (Done (), w)"
  by (auto simp: observe_terminal_item_link_def io_try_def on_jobs_def io_tx_def commit_def io_return_def
      split: sum.split dest: get_job_same)

lemma io_bind_Raised:
  "m w = (Raised x, w') \<Longrightarrow> io_bind m f w = (Raised x, w')"
  by (simp add: io_bind_def)

lemma refuse_idle:
  assumes "replay_branch_for i = None"
  shows "refuse_foreign_linked_job e b i None w = (if i_report_job_id i = None then (Done (), w) else (Raised item_not_replayable, w))"
    "create_replayed_job dp e b i reason caller k w = (Raised item_not_replayable, w)"
  using assms by (simp_all add: refuse_foreign_linked_job_def create_replayed_job_def source_job_for_item_def io_return_def
      io_raise_def observe_same io_bind_def split: option.split)

lemma refuse_unusable:
  assumes inv: "batch_inv (w_batches w)" and i: "i \<in> set (batch_items (w_batches w))"
    and link: "i_report_job_id i = Some jid" "branch \<noteq> None"
    and unusable: "(case get_job jid (w_jobs w) of Inl x \<Rightarrow> x = ReportJobNotFoundError ''report_job_not_found''
      | Inr (job, _) \<Rightarrow> lr_tenant_id job \<noteq> b_tenant_id b)"
  obtains s' where "refuse_foreign_linked_job e b i branch w = (Raised item_not_replayable, w\<lparr>w_batches := s'\<rparr>)"
    "\<exists>i' \<in> set (batch_items s'). i_id i' = i_id i \<and> i_status i' = Item_failed_terminal \<and> \<not> i_retry_eligible i'
       \<and> i_report_job_id i' = Some jid"
proof -
  obtain cat sm where q: "refuse_foreign_linked_job e b i branch w
      = io_bind (on_batches (mark_item_failed e (i_id i) cat sm False None None None)) (\<lambda>_. io_raise item_not_replayable) w"
    using unusable link get_job_same
    by (cases "get_job jid (w_jobs w)") (fastforce simp: refuse_foreign_linked_job_def io_try_def on_jobs_def io_tx_def commit_def)+
  obtain s' where run: "mark_item_failed e (i_id i) cat sm False None None None (w_batches w)
      = Inr (fail_item Item_failed_terminal (i_attempt_count i + 1) False None cat sm (dt_to_text (given_or_now e None)) i, s')"
    and items: "batch_items s' = update_where (\<lambda>x. i_id x = i_id i) (fail_item Item_failed_terminal (i_attempt_count i + 1)
        False None cat sm (dt_to_text (given_or_now e None))) (batch_items (w_batches w))"
    using mark_item_failed_run [OF inv i, where retryable = False and policy = None and due = None
        and cat = cat and sm = sm and e = e and now = None]
    by (auto simp: batch_item_failure_outcome_def Let_def)
  let ?f = "fail_item Item_failed_terminal (i_attempt_count i + 1) False None cat sm (dt_to_text (given_or_now e None))"
  have "?f i \<in> set (batch_items s')" using i by (auto simp: items set_update_where)
  then have "\<exists>i' \<in> set (batch_items s'). i_id i' = i_id i \<and> i_status i' = Item_failed_terminal \<and> \<not> i_retry_eligible i'
       \<and> i_report_job_id i' = Some jid"
    by (rule rev_bexI) (simp add: fail_item_def clear_lease_def link)
  then show thesis using that [of s'] q run by (simp add: io_bind_def io_raise_def on_batches_run)
qed



end
