(* ===== verification/Ordering_Catalogue.thy ===== *)
theory Ordering_Catalogue
  imports Template_Resolution Request_Identity
begin

text \<open>
  The report-ordering catalogue, \<open>src/src/app/report_ordering_catalogue/\<close>: the published report families
  (\<open>definitions.py\<close>), the validation of an order against them (\<open>validation.py\<close>), and the catalogue response
  with its supportability evidence (\<open>service.py\<close>). The render service's two answers, a status code and a
  JSON payload each, are arguments.
\<close>

section \<open>Definitions\<close>

record section_definition =
  sd_section_id :: string
  sd_response_section_id :: string
  sd_response_title :: string
  sd_business_label :: string
  sd_description :: string
  sd_response_key :: string
  sd_display_order :: int
  sd_selection_posture :: string
  sd_default_selected :: bool
  sd_dependency_field_ids :: "string list"

record mode_definition =
  om_mode_id :: string
  om_business_label :: string
  om_description :: string
  om_default_output_format :: string
  om_interactive :: bool

text \<open>The options of a field are pairs of a value and its label.\<close>

record field_definition =
  fl_field_id :: string
  fl_business_label :: string
  fl_description :: string
  fl_input_type :: string
  fl_requirement :: string
  fl_defaulting_policy :: string
  fl_value_source :: string
  fl_options :: "(string \<times> string) list"

text \<open>A family: the template and contract axes, which \<open>Template_Resolution\<close> models, and the ordering data.\<close>

record family_definition =
  fd_axes :: report_family
  fd_business_label :: string
  fd_description :: string
  fd_intended_use :: string
  fd_audience_roles :: "string list"
  fd_client_release_posture :: string
  fd_ordering_modes :: "mode_definition list"
  fd_supported_output_formats :: "string list"
  fd_configuration_fields :: "field_definition list"
  fd_sections :: "section_definition list"

definition PORTFOLIO_REVIEW_SECTION_DEFINITIONS :: "section_definition list" where
  "PORTFOLIO_REVIEW_SECTION_DEFINITIONS = [
    \<lparr>sd_section_id = ''CLIENT_PROFILE'', sd_response_section_id = ''client_profile'',
      sd_response_title = ''Client And Mandate Profile'', sd_business_label = ''Client and mandate profile'',
      sd_description = ''Client, relationship, booking centre, portfolio, and mandate context.'',
      sd_response_key = ''clientProfile'', sd_display_order = 10, sd_selection_posture = ''required'',
      sd_default_selected = True, sd_dependency_field_ids = []\<rparr>,
    \<lparr>sd_section_id = ''OVERVIEW'', sd_response_section_id = ''executive_summary'',
      sd_response_title = ''Executive Review Summary'', sd_business_label = ''Portfolio overview'',
      sd_description = ''Headline portfolio value, cash, investment, and review context.'',
      sd_response_key = ''overview'', sd_display_order = 20, sd_selection_posture = ''optional'',
      sd_default_selected = True, sd_dependency_field_ids = []\<rparr>,
    \<lparr>sd_section_id = ''ADVISOR_COMMENTARY'', sd_response_section_id = ''advisor_commentary'',
      sd_response_title = ''Advisor Commentary'', sd_business_label = ''Advisor commentary'',
      sd_description = (''Reviewed advisor narrative from an accepted Performance Advisor '' @ ''Brief, with the accepting reviewer, run identity, and AI-assistance '' @ ''disclosure. Requires the accepted brief run id; the section is '' @ ''truthfully omitted when the named run is not accepted or its context '' @ ''does not match the report.''),
      sd_response_key = ''advisorCommentary'', sd_display_order = 25, sd_selection_posture = ''optional'',
      sd_default_selected = False, sd_dependency_field_ids = [''advisor_brief_run_id'']\<rparr>,
    \<lparr>sd_section_id = ''ALLOCATION'', sd_response_section_id = ''asset_allocation'',
      sd_response_title = ''Asset Allocation And Portfolio Construction'',
      sd_business_label = ''Allocation and portfolio construction'',
      sd_description = ''Portfolio allocation across the selected business dimensions.'',
      sd_response_key = ''allocation'', sd_display_order = 30, sd_selection_posture = ''optional'',
      sd_default_selected = True, sd_dependency_field_ids = [''allocation_dimensions'']\<rparr>,
    \<lparr>sd_section_id = ''PERFORMANCE'', sd_response_section_id = ''performance_review'',
      sd_response_title = ''Performance Review'', sd_business_label = ''Performance review'',
      sd_description = ''Portfolio returns, benchmark comparison, and performance contribution.'',
      sd_response_key = ''performance'', sd_display_order = 40, sd_selection_posture = ''optional'',
      sd_default_selected = True, sd_dependency_field_ids = [''benchmark_code'']\<rparr>,
    \<lparr>sd_section_id = ''PERFORMANCE_ATTRIBUTION'', sd_response_section_id = ''performance_attribution'',
      sd_response_title = ''Performance Attribution'', sd_business_label = ''Performance attribution'',
      sd_description = (''Benchmark-relative return attribution: allocation, selection, and '' @ ''interaction effects by asset class.''),
      sd_response_key = ''attribution'', sd_display_order = 45, sd_selection_posture = ''optional'',
      sd_default_selected = False, sd_dependency_field_ids = [''benchmark_code'']\<rparr>,
    \<lparr>sd_section_id = ''RISK_ANALYTICS'', sd_response_section_id = ''risk_review'',
      sd_response_title = ''Risk Review'', sd_business_label = ''Risk review'',
      sd_description = ''Portfolio risk, drawdown, tail risk, and benchmark-relative measures.'',
      sd_response_key = ''riskAnalytics'', sd_display_order = 50, sd_selection_posture = ''optional'',
      sd_default_selected = True, sd_dependency_field_ids = [''benchmark_code'']\<rparr>,
    \<lparr>sd_section_id = ''RISK_ATTRIBUTION'', sd_response_section_id = ''risk_attribution'',
      sd_response_title = ''Risk Attribution'', sd_business_label = ''Risk attribution'',
      sd_description = (''What risk was taken for the result: total and benchmark-relative risk '' @ ''decomposed by sector, reconciled with a visible residual.''),
      sd_response_key = ''riskAttribution'', sd_display_order = 55, sd_selection_posture = ''optional'',
      sd_default_selected = False, sd_dependency_field_ids = [''benchmark_code'']\<rparr>,
    \<lparr>sd_section_id = ''INCOME_AND_ACTIVITY'', sd_response_section_id = ''income_cash_activity'',
      sd_response_title = ''Income, Cash, And Activity'', sd_business_label = ''Income, cash and activity'',
      sd_description = ''Income, fees, cash flow, realised results, and portfolio activity.'',
      sd_response_key = ''incomeAndActivity'', sd_display_order = 60, sd_selection_posture = ''optional'',
      sd_default_selected = True, sd_dependency_field_ids = []\<rparr>,
    \<lparr>sd_section_id = ''HOLDINGS'', sd_response_section_id = ''holdings_appendix'',
      sd_response_title = ''Holdings Appendix'', sd_business_label = ''Holdings detail'',
      sd_description = (''Position-level holdings, weights, valuation, and source-backed '' @ ''results.''),
      sd_response_key = ''holdings'', sd_display_order = 70, sd_selection_posture = ''optional'',
      sd_default_selected = True, sd_dependency_field_ids = []\<rparr>,
    \<lparr>sd_section_id = ''TRANSACTIONS'', sd_response_section_id = ''transactions_appendix'',
      sd_response_title = ''Transactions Appendix'', sd_business_label = ''Transaction activity'',
      sd_description = (''Transaction history, settlement context, and realised activity '' @ ''evidence.''),
      sd_response_key = ''transactions'', sd_display_order = 80, sd_selection_posture = ''optional'',
      sd_default_selected = True, sd_dependency_field_ids = []\<rparr>]"

definition PORTFOLIO_REVIEW_FIELDS :: "field_definition list" where
  "PORTFOLIO_REVIEW_FIELDS = [
    \<lparr>fl_field_id = ''as_of_date'', fl_business_label = ''Report date'',
      fl_description = (''Business date used for holdings, activity, performance, and risk '' @ ''evidence.''),
      fl_input_type = ''business_date'', fl_requirement = ''required'',
      fl_defaulting_policy = ''caller_required'', fl_value_source = ''caller'', fl_options = []\<rparr>,
    \<lparr>fl_field_id = ''advisor_brief_run_id'', fl_business_label = ''Accepted Advisor Brief run'',
      fl_description = (''Identity of the accepted Performance Advisor Brief run whose reviewed '' @ ''narrative the Advisor commentary section reproduces. Required when '' @ ''that section is selected; lotus-report never chooses a brief '' @ ''implicitly.''),
      fl_input_type = ''text'', fl_requirement = ''conditional'', fl_defaulting_policy = ''caller_required'',
      fl_value_source = ''caller'', fl_options = []\<rparr>,
    \<lparr>fl_field_id = ''reporting_currency'', fl_business_label = ''Reporting currency'',
      fl_description = ''Currency used for portfolio-level monetary values.'', fl_input_type = ''currency'',
      fl_requirement = ''optional'', fl_defaulting_policy = ''portfolio_currency_when_omitted'',
      fl_value_source = ''portfolio_context_or_caller'', fl_options = []\<rparr>,
    \<lparr>fl_field_id = ''benchmark_code'', fl_business_label = ''Comparison benchmark'',
      fl_description = ''Approved benchmark used for relative performance and risk measures.'',
      fl_input_type = ''benchmark'', fl_requirement = ''optional'',
      fl_defaulting_policy = ''portfolio_benchmark_when_omitted'',
      fl_value_source = ''gateway_eligible_benchmark'', fl_options = []\<rparr>,
    \<lparr>fl_field_id = ''allocation_dimensions'', fl_business_label = ''Allocation views'',
      fl_description = ''Business dimensions used to group portfolio allocation.'',
      fl_input_type = ''multi_select'', fl_requirement = ''optional'',
      fl_defaulting_policy = ''asset_class_when_omitted'', fl_value_source = ''report_catalogue'',
      fl_options = [(''asset_class'', ''Asset class''),
        (''currency'', ''Currency''),
        (''sector'', ''Sector''),
        (''country'', ''Country''),
        (''region'', ''Region''),
        (''product_type'', ''Product type''),
        (''rating'', ''Credit rating'')]\<rparr>]"

definition portfolio_review_family :: family_definition where
  "portfolio_review_family = \<lparr>fd_axes = REPORT_FAMILY_DEFINITIONS ! 0, fd_business_label = ''Portfolio review report'',
     fd_description = ''Advisor review pack for a client portfolio and selected business date.'',
     fd_intended_use = ''advisor_client_portfolio_review'',
     fd_audience_roles = [''client_advisor'', ''portfolio_manager''],
     fd_client_release_posture = ''advisor_review_required_distribution_not_supported'',
     fd_ordering_modes = [
      \<lparr>om_mode_id = ''single_portfolio'', om_business_label = ''Single portfolio'',
        om_description = ''Create one report for the selected portfolio.'', om_default_output_format = ''json'',
        om_interactive = True\<rparr>,
      \<lparr>om_mode_id = ''explicit_portfolio_batch'', om_business_label = ''Selected portfolio batch'',
        om_description = ''Create the same report for an explicit portfolio list.'',
        om_default_output_format = ''pdf'', om_interactive = False\<rparr>,
      \<lparr>om_mode_id = ''governed_schedule'', om_business_label = ''Governed reporting schedule'',
        om_description = ''Create reports from an operations-managed reporting schedule.'',
        om_default_output_format = ''pdf'', om_interactive = False\<rparr>],
     fd_supported_output_formats = [''json'', ''pdf''], fd_configuration_fields = PORTFOLIO_REVIEW_FIELDS,
     fd_sections = PORTFOLIO_REVIEW_SECTION_DEFINITIONS\<rparr>"

definition proof_pack_family :: family_definition where
  "proof_pack_family = \<lparr>fd_axes = REPORT_FAMILY_DEFINITIONS ! 1, fd_business_label = ''Pre-trade decision evidence'',
     fd_description = (''Governed evidence pack created from an approved portfolio-management '' @ ''review.''),
     fd_intended_use = ''portfolio_management_pre_trade_control'',
     fd_audience_roles = [''portfolio_manager'', ''investment_control'', ''audit''],
     fd_client_release_posture = ''internal_control_only'',
     fd_ordering_modes = [
      \<lparr>om_mode_id = ''source_workflow'', om_business_label = ''Portfolio-management workflow'',
        om_description = ''Created from a source-owned pre-trade decision workflow.'',
        om_default_output_format = ''pdf'', om_interactive = False\<rparr>],
     fd_supported_output_formats = [''json'', ''pdf''], fd_configuration_fields = [], fd_sections = []\<rparr>"

definition rebalance_wave_family :: family_definition where
  "rebalance_wave_family = \<lparr>fd_axes = REPORT_FAMILY_DEFINITIONS ! 2, fd_business_label = ''Rebalance wave evidence'',
     fd_description = ''Governed evidence for a managed portfolio rebalance wave.'',
     fd_intended_use = ''portfolio_management_rebalance_control'',
     fd_audience_roles = [''portfolio_manager'', ''operations'', ''audit''],
     fd_client_release_posture = ''internal_control_only'',
     fd_ordering_modes = [
      \<lparr>om_mode_id = ''source_workflow'', om_business_label = ''Portfolio-management workflow'',
        om_description = ''Created from a source-owned rebalance-wave workflow.'',
        om_default_output_format = ''pdf'', om_interactive = False\<rparr>],
     fd_supported_output_formats = [''json'', ''pdf''], fd_configuration_fields = [], fd_sections = []\<rparr>"

definition outcome_review_family :: family_definition where
  "outcome_review_family = \<lparr>fd_axes = REPORT_FAMILY_DEFINITIONS ! 3, fd_business_label = ''Post-trade outcome review'',
     fd_description = (''Governed review of realised outcomes against approved pre-trade '' @ ''evidence.''),
     fd_intended_use = ''portfolio_management_post_trade_control'',
     fd_audience_roles = [''portfolio_manager'', ''investment_control'', ''audit''],
     fd_client_release_posture = ''internal_control_only'',
     fd_ordering_modes = [
      \<lparr>om_mode_id = ''source_workflow'', om_business_label = ''Portfolio-management workflow'',
        om_description = ''Created from a source-owned post-trade outcome workflow.'',
        om_default_output_format = ''pdf'', om_interactive = False\<rparr>],
     fd_supported_output_formats = [''json'', ''pdf''], fd_configuration_fields = [], fd_sections = []\<rparr>"

definition COMPOSITE_REVIEW_FIELDS :: "field_definition list" where
  "COMPOSITE_REVIEW_FIELDS = [
    \<lparr>fl_field_id = ''composite_selection'', fl_business_label = ''Pinned calculated source'',
      fl_description = ''Exact composite vector, fee, currency, method and response identity.'',
      fl_input_type = ''pinned_source_selection'', fl_requirement = ''conditional'',
      fl_defaulting_policy = ''caller_required'', fl_value_source = ''caller'', fl_options = []\<rparr>,
    \<lparr>fl_field_id = ''composite_linked_selection'', fl_business_label = ''Pinned linked member analysis'',
      fl_description = (''Exact source-owned linked contribution; select instead of the TWR '' @ ''primary and calendar/trailing products. Official authority remains '' @ ''unavailable.''),
      fl_input_type = ''pinned_source_selection'', fl_requirement = ''conditional'',
      fl_defaulting_policy = ''omitted_preserves_legacy_contract'', fl_value_source = ''caller'', fl_options = []\<rparr>,
    \<lparr>fl_field_id = ''composite_source_products'', fl_business_label = ''Pinned calendar and trailing sources'',
      fl_description = ''Optional exact source products bound to the primary version vector.'',
      fl_input_type = ''pinned_source_selection'', fl_requirement = ''optional'',
      fl_defaulting_policy = ''omitted_preserves_legacy_contract'', fl_value_source = ''caller'', fl_options = []\<rparr>,
    \<lparr>fl_field_id = ''composite_source_context'', fl_business_label = ''Pinned composite source context'',
      fl_description = (''Exact Manage v1 definition joined to the primary TWR vector; Optional '' @ ''SI and explicit supplied membership histories; no approval inference.''),
      fl_input_type = ''pinned_source_selection'', fl_requirement = ''optional'',
      fl_defaulting_policy = ''omitted_preserves_legacy_contract'', fl_value_source = ''caller'', fl_options = []\<rparr>,
    \<lparr>fl_field_id = ''composite_eligibility_selection'',
      fl_business_label = ''Pinned monthly eligibility evidence'',
      fl_description = (''Exact published or evaluated-only sources; NOT_ATTESTED. Select as '' @ ''the exclusive primary.''),
      fl_input_type = ''pinned_source_selection'', fl_requirement = ''conditional'',
      fl_defaulting_policy = ''omitted_preserves_legacy_contract'', fl_value_source = ''caller'', fl_options = []\<rparr>,
    \<lparr>fl_field_id = ''composite_pooled_selection'', fl_business_label = ''Pinned pooled money-weighted analysis'',
      fl_description = (''Exact retained outcome, source vector and correction lineage; '' @ ''NOT_ATTESTED.''),
      fl_input_type = ''pinned_source_selection'', fl_requirement = ''conditional'',
      fl_defaulting_policy = ''omitted_preserves_legacy_contract'', fl_value_source = ''caller'', fl_options = []\<rparr>,
    \<lparr>fl_field_id = ''composite_notice_selection'', fl_business_label = ''Retained same-scope correction notice'',
      fl_description = (''Exact ordered v8 source captures and acknowledged correction path; '' @ ''exclusive XLSX primary, PARTIAL and NOT_ATTESTED. Delivery requires '' @ ''compatible receivers and privileged historical relationship reads.''),
      fl_input_type = ''pinned_source_selection'', fl_requirement = ''conditional'',
      fl_defaulting_policy = ''omitted_preserves_legacy_contract'', fl_value_source = ''caller'', fl_options = []\<rparr>]"

definition composite_review_family :: family_definition where
  "composite_review_family = \<lparr>fd_axes = REPORT_FAMILY_DEFINITIONS ! 4, fd_business_label = ''Composite calculated review'',
     fd_description = (''Exact retained composite calculation with unavailable source products '' @ ''declared.''),
     fd_intended_use = ''internal_composite_calculated_review'',
     fd_audience_roles = [''portfolio_manager'', ''investment_control'', ''audit''],
     fd_client_release_posture = ''internal_control_only'',
     fd_ordering_modes = [
      \<lparr>om_mode_id = ''single_composite'', om_business_label = ''Exact composite selection'',
        om_description = ''Capture one exact retained composite calculation vector.'',
        om_default_output_format = ''json'', om_interactive = False\<rparr>],
     fd_supported_output_formats = [''json'', ''xlsx''], fd_configuration_fields = COMPOSITE_REVIEW_FIELDS,
     fd_sections = []\<rparr>"

definition FAMILY_DEFINITIONS :: "family_definition list" where
  "FAMILY_DEFINITIONS = [portfolio_review_family, proof_pack_family, rebalance_wave_family, outcome_review_family, composite_review_family]"

abbreviation fd_family_id :: "family_definition \<Rightarrow> string" where
  "fd_family_id d \<equiv> rf_report_family_id (fd_axes d)"

section \<open>Validation of an order\<close>

definition OPERATIONAL_OPTION_KEYS :: "string list" where
  "OPERATIONAL_OPTION_KEYS = [''retention_policy_id'', ''retain_until_date'']"

definition TOP_LEVEL_CONFIGURATION_FIELDS :: "string list" where
  "TOP_LEVEL_CONFIGURATION_FIELDS = [''as_of_date'', ''reporting_currency'']"

definition MODE_OPTION_KEYS :: "string \<Rightarrow> string list" where
  "MODE_OPTION_KEYS mode = (if mode = ''explicit_portfolio_batch''
     then [''batch_manifest_source'', ''batch_manifest_version'', ''batch_manifest_hash''] else [])"

definition family_of :: "string \<Rightarrow> family_definition list \<Rightarrow> family_definition res" where
  "family_of report_family_id definitions =
     (case fetch (\<lambda>d. fd_family_id d = report_family_id) definitions of
        Some d \<Rightarrow> Inr d
      | None \<Rightarrow> Inl (ReportOrderingSubmissionError ''unknown_report_family''
          ''The selected report family is not published by the report ordering catalogue.''))"

definition validate_output_formats :: "family_definition \<Rightarrow> string list \<Rightarrow> unit res" where
  "validate_output_formats d formats =
     (if formats = [] then Inl (ReportOrderingSubmissionError ''report_output_format_required''
        ''Select at least one available report output format.'')
      else if \<not> distinct formats then Inl (ReportOrderingSubmissionError ''duplicate_report_output_format''
        ''Each report output format may be selected only once.'')
      else if \<not> set formats \<subseteq> set (fd_supported_output_formats d)
      then Inl (ReportOrderingSubmissionError ''unsupported_report_output_format''
        ''One or more selected output formats are not available for this report family.'')
      else Inr ())"

text \<open>A string that is not blank, the test of several fields.\<close>

fun is_text :: "json \<Rightarrow> bool" where
  "is_text (JStr s) = (py_strip s \<noteq> [])"
| "is_text _ = False"

fun strings_of :: "json list \<Rightarrow> string list" where
  "strings_of [] = []"
| "strings_of (JStr s # vs) = s # strings_of vs"
| "strings_of (v # vs) = strings_of vs"

definition validate_string_selection ::
    "json \<Rightarrow> string list \<Rightarrow> string \<Rightarrow> string \<Rightarrow> string \<Rightarrow> string \<Rightarrow> unit res" where
  "validate_string_selection v allowed required_code invalid_code duplicate_code label =
     (let items = (case v of JList vs \<Rightarrow> vs | _ \<Rightarrow> []) in
      if items = [] then Inl (ReportOrderingSubmissionError required_code (''Select at least one '' @ label @ ''.''))
      else if \<not> list_all is_text items
      then Inl (ReportOrderingSubmissionError invalid_code (''One or more selected '' @ label @ '' values are invalid.''))
      else if \<not> distinct (strings_of items)
      then Inl (ReportOrderingSubmissionError duplicate_code (''Each '' @ label @ '' may be selected only once.''))
      else if \<not> set (strings_of items) \<subseteq> set allowed
      then Inl (ReportOrderingSubmissionError invalid_code (''One or more selected '' @ label @ '' values are not available.''))
      else Inr ())"

definition validate_nonempty_string :: "json \<Rightarrow> string \<Rightarrow> unit res" where
  "validate_nonempty_string v label =
     require (is_text v) (ReportOrderingSubmissionError ''invalid_report_configuration''
       (''The selected '' @ label @ '' value is invalid.''))"

definition validate_business_date :: "json \<Rightarrow> unit res" where
  "validate_business_date v =
     (let refuse = Inl (ReportOrderingSubmissionError ''invalid_retain_until_date''
        ''The retain-until date must be a valid business date.'') in
      case v of JStr s \<Rightarrow> (case date_fromisoformat s of Inl _ \<Rightarrow> refuse | Inr _ \<Rightarrow> Inr ())
      | _ \<Rightarrow> refuse)"

text \<open>\<open>{field.field_id: field for field in ...}\<close>: of fields with one identifier the last stays.\<close>

definition field_by_id :: "family_definition \<Rightarrow> string \<Rightarrow> field_definition option" where
  "field_by_id d fid = fetch (\<lambda>f. fl_field_id f = fid) (rev (fd_configuration_fields d))"

definition selected_sections :: "jobj \<Rightarrow> string list" where
  "selected_sections options = (case dget options ''sections'' of
     Some (JList vs) \<Rightarrow> map py_upper (strings_of vs) | _ \<Rightarrow> [])"

definition validate_dependency ::
    "family_definition \<Rightarrow> jobj \<Rightarrow> section_definition \<Rightarrow> string \<Rightarrow> unit \<Rightarrow> unit res" where
  "validate_dependency d options sec dependency_id _ =
     (case field_by_id d dependency_id of None \<Rightarrow> Inr ()
      | Some f \<Rightarrow>
        if fl_requirement f \<noteq> ''conditional'' then Inr ()
        else require (case dget options dependency_id of Some v \<Rightarrow> is_text v | None \<Rightarrow> False)
          (ReportOrderingSubmissionError ''missing_conditional_report_field''
            (''The '' @ sd_business_label sec @ '' section requires the '' @ fl_business_label f @ '' field.'')))"

definition validate_section_dependencies :: "family_definition \<Rightarrow> jobj \<Rightarrow> unit res" where
  "validate_section_dependencies d options =
     (let selected = selected_sections options in
      if selected = [] then Inr ()
      else foldE (\<lambda>sec u. if sd_section_id sec \<notin> set selected then Inr ()
             else foldE (validate_dependency d options sec) (sd_dependency_field_ids sec) ()) (fd_sections d) ())"

definition allowed_option_keys :: "family_definition \<Rightarrow> string \<Rightarrow> string list" where
  "allowed_option_keys d mode =
     filter (\<lambda>k. k \<notin> set TOP_LEVEL_CONFIGURATION_FIELDS) (map fl_field_id (fd_configuration_fields d))
     @ OPERATIONAL_OPTION_KEYS @ MODE_OPTION_KEYS mode @ (if fd_sections d \<noteq> [] then [''sections''] else [])"

text \<open>\<open>if key in options: check(options[key])\<close>.\<close>

definition when_given :: "jobj \<Rightarrow> string \<Rightarrow> (json \<Rightarrow> unit res) \<Rightarrow> unit res" where
  "when_given options k check = (case dget options k of None \<Rightarrow> Inr () | Some v \<Rightarrow> check v)"

definition validate_options :: "family_definition \<Rightarrow> string \<Rightarrow> jobj \<Rightarrow> unit res" where
  "validate_options d mode options =
     bindE (require (set (dkeys options) \<subseteq> set (allowed_option_keys d mode))
       (ReportOrderingSubmissionError ''unsupported_report_configuration''
         ''One or more report configuration fields are not available for this report family.'')) (\<lambda>_.
     bindE (when_given options ''sections'' (\<lambda>v. validate_string_selection v (map sd_section_id (fd_sections d))
       ''report_section_required'' ''unsupported_report_section'' ''duplicate_report_section'' ''report section'')) (\<lambda>_.
     bindE (validate_section_dependencies d options) (\<lambda>_.
     bindE (when_given options ''allocation_dimensions'' (\<lambda>v.
       case field_by_id d ''allocation_dimensions'' of None \<Rightarrow> Inl (PyKeyError ''allocation_dimensions'')
       | Some f \<Rightarrow> validate_string_selection v (map fst (fl_options f))
           ''allocation_dimension_required'' ''unsupported_allocation_dimension'' ''duplicate_allocation_dimension''
           ''allocation view'')) (\<lambda>_.
     bindE (when_given options ''benchmark_code'' (\<lambda>v. validate_nonempty_string v ''benchmark'')) (\<lambda>_.
     bindE (when_given options ''retention_policy_id'' (\<lambda>v. validate_nonempty_string v ''retention policy'')) (\<lambda>_.
     bindE (when_given options ''retain_until_date'' validate_business_date) (\<lambda>_.
     foldE (\<lambda>k u. when_given options k (\<lambda>v. validate_nonempty_string v ''batch manifest provenance''))
       [''batch_manifest_source'', ''batch_manifest_version'', ''batch_manifest_hash''] ())))))))"

definition validate_report_ordering_submission ::
    "family_definition list \<Rightarrow> string \<Rightarrow> string \<Rightarrow> string list \<Rightarrow> jobj \<Rightarrow> unit res" where
  "validate_report_ordering_submission definitions report_family_id mode formats options =
     bindE (family_of report_family_id definitions) (\<lambda>d.
     bindE (require (mode \<in> set (map om_mode_id (fd_ordering_modes d)))
       (ReportOrderingSubmissionError ''unsupported_report_ordering_mode''
         ''The selected ordering mode is not available for this report family.'')) (\<lambda>_.
     bindE (validate_output_formats d formats) (\<lambda>_.
     validate_options d mode options)))"

section \<open>Well-formed definitions\<close>

definition validate_sections :: "family_definition \<Rightarrow> unit res" where
  "validate_sections d =
     bindE (require (distinct (map sd_section_id (fd_sections d)))
       (ReportCatalogueDefinitionError (''report catalogue family '' @ fd_family_id d @ '' has duplicate sections''))) (\<lambda>_.
     foldE (\<lambda>sec u. require (set (sd_dependency_field_ids sec) \<subseteq> set (map fl_field_id (fd_configuration_fields d)))
       (ReportCatalogueDefinitionError
         (''report catalogue section '' @ sd_section_id sec @ '' has an unknown field dependency''))) (fd_sections d) ())"

definition validate_definition :: "family_definition \<Rightarrow> unit \<Rightarrow> unit res" where
  "validate_definition d _ =
     (let family = ''report catalogue family '' @ fd_family_id d in
      bindE (require (fd_ordering_modes d \<noteq> []) (ReportCatalogueDefinitionError (family @ '' has no ordering mode''))) (\<lambda>_.
      bindE (require (fd_supported_output_formats d \<noteq> [])
        (ReportCatalogueDefinitionError (family @ '' has no output format''))) (\<lambda>_.
      bindE (require (set (fd_supported_output_formats d) \<subseteq> {''json'', ''pdf'', ''xlsx''})
        (ReportCatalogueDefinitionError (family @ '' has unknown output formats''))) (\<lambda>_.
      bindE (foldE (\<lambda>m u. require (om_default_output_format m \<in> set (fd_supported_output_formats d))
        (ReportCatalogueDefinitionError (family @ '' has an invalid mode default''))) (fd_ordering_modes d) ()) (\<lambda>_.
      validate_sections d)))))"

definition validate_definitions :: "family_definition list \<Rightarrow> unit res" where
  "validate_definitions ds =
     bindE (require (ds \<noteq> []) (ReportCatalogueDefinitionError ''report catalogue must define at least one family'')) (\<lambda>_.
     bindE (require (distinct (map fd_family_id ds))
       (ReportCatalogueDefinitionError ''report catalogue family ids must be unique'')) (\<lambda>_.
     foldE validate_definition ds ()))"

section \<open>Supportability\<close>

record supportability =
  su_state :: string
  su_reason_code :: string
  su_message :: string

definition support :: "string \<Rightarrow> string \<Rightarrow> string \<Rightarrow> supportability" where
  "support state reason message = \<lparr>su_state = state, su_reason_code = reason, su_message = message\<rparr>"

text \<open>\<open>str(value or fallback)\<close> of a JSON value that may be absent.\<close>

definition str_or :: "json option \<Rightarrow> string \<Rightarrow> string" where
  "str_or v fallback = (case v of None \<Rightarrow> fallback | Some x \<Rightarrow> if jtrue x then py_str x else fallback)"

text \<open>A list of strings, and membership of a string in a JSON value that must be a list.\<close>

fun is_string :: "json \<Rightarrow> bool" where
  "is_string (JStr _) = True"
| "is_string _ = False"

definition lists_string :: "json option \<Rightarrow> string \<Rightarrow> bool" where
  "lists_string v s = (case v of Some (JList vs) \<Rightarrow> JStr s \<in> set vs | _ \<Rightarrow> False)"

definition string_list :: "json option \<Rightarrow> bool" where
  "string_list v = (case v of Some (JList vs) \<Rightarrow> list_all is_string vs | _ \<Rightarrow> False)"

definition document_supportability :: "int \<Rightarrow> jobj \<Rightarrow> string \<Rightarrow> supportability" where
  "document_supportability status_code answer format_id =
     (if status_code \<noteq> 200 then support ''unavailable'' ''render_metadata_unavailable''
        ''Document creation is unavailable because rendering evidence could not be read.''
      else case dget answer ''supportability'' of
        Some (JObj evidence) \<Rightarrow>
          (let state = py_lower (str_or (dget evidence ''state'') []);
               reason = str_or (dget evidence ''reason'') ''render_supportability_invalid'';
               formats = dget answer ''supportedOutputFormats'' in
           if \<not> string_list formats then support ''unavailable'' ''render_output_formats_invalid''
             ''Document creation is unavailable because output-format evidence is incomplete.''
           else if \<not> lists_string formats format_id then support ''unavailable'' ''render_output_format_not_supported''
             (''The renderer does not declare '' @ format_id @ '' support.'')
           else if state = ''ready'' \<and> dget evidence ''deterministicOutputSupported'' = Some (JBool True)
              \<and> dget evidence ''templateRegistryReady'' = Some (JBool True)
              \<and> dget evidence ''runtimeAvailable'' = Some (JBool True)
           then support ''ready'' ''render_supportability_ready'' ''Document creation is available.''
           else if state = ''degraded'' then support ''partial'' reason ''Document creation is temporarily degraded.''
           else support ''unavailable'' reason ''Document creation is unavailable.'')
      | _ \<Rightarrow> support ''unavailable'' ''render_supportability_invalid''
          ''Document creation is unavailable because rendering evidence is incomplete.'')"

text \<open>The index of the template projection; of entries with one identity the last stays.\<close>

type_synonym template_index = "((string \<times> string) \<times> jobj) list"

fun index_entry :: "json \<Rightarrow> template_index \<Rightarrow> template_index" where
  "index_entry (JObj entry) index =
     (let template_id = str_or (dget entry ''template_id'') []; template_version = str_or (dget entry ''template_version'') []
      in if template_id \<noteq> [] \<and> template_version \<noteq> [] then ((template_id, template_version), entry) # index else index)"
| "index_entry _ index = index"

definition template_projection_index :: "int \<Rightarrow> jobj \<Rightarrow> template_index option" where
  "template_projection_index status_code payload =
     (if status_code \<noteq> 200 then None
      else case dget payload ''templates'' of Some (JList entries) \<Rightarrow> Some (fold index_entry entries []) | _ \<Rightarrow> None)"

definition family_document_supportability ::
    "report_family \<Rightarrow> string \<Rightarrow> supportability \<Rightarrow> template_index option \<Rightarrow> supportability" where
  "family_document_supportability d format_id runtime templates =
     (let template = rf_template_id d @ ''/'' @ rf_template_version d;
          because = ''Document creation is unavailable because template '' @ template in
      if su_state runtime \<noteq> ''ready'' then runtime
      else case templates of
        None \<Rightarrow> support ''unavailable'' ''render_templates_unavailable''
          ''Document creation is unavailable because template evidence could not be read.''
      | Some index \<Rightarrow>
        (case map_of index (rf_template_id d, rf_template_version d) of
           None \<Rightarrow> support ''unavailable'' ''template_version_not_registered''
             (because @ '' is not registered with the renderer.'')
         | Some entry \<Rightarrow>
             if str_or (dget entry ''status'') [] \<noteq> ''active'' then support ''unavailable'' ''template_not_renderable''
               (because @ '' is '' @ str_or (dget entry ''status'') ''in an unstated status'' @ '' for new renders.'')
             else if \<not> lists_string (dget entry ''supported_report_types'') (rf_report_type d)
             then support ''unavailable'' ''report_type_not_supported''
               (because @ '' does not support report type '' @ rf_report_type d @ ''.'')
             else if \<not> lists_string (dget entry ''supported_report_data_contract_versions'') (rf_report_data_contract_version d)
             then support ''unavailable'' ''report_data_contract_not_supported''
               (because @ '' does not accept contract '' @ rf_report_data_contract_version d @ ''.'')
             else let formats = dget entry ''supported_output_formats'' in
               if (formats = None \<or> formats = Some JNull) \<and> format_id = ''pdf'' then runtime
               else if \<not> string_list formats \<or> \<not> lists_string formats format_id
               then support ''unavailable'' ''template_output_format_not_supported''
                 (''Template '' @ template @ '' does not declare '' @ format_id @ '' support.'')
               else runtime))"

section \<open>The catalogue response\<close>

record output_format =
  of_format_id :: string
  of_business_label :: string
  of_use_posture :: string
  of_state :: string
  of_reason_code :: string

definition output_format_item :: "string \<Rightarrow> supportability option \<Rightarrow> output_format res" where
  "output_format_item format_id evidence =
     (if format_id = ''json''
      then Inr \<lparr>of_format_id = ''json'', of_business_label = ''Structured data package'',
        of_use_posture = ''system_integration'', of_state = ''ready'', of_reason_code = ''report_data_ready''\<rparr>
      else case evidence of
        None \<Rightarrow> Inl (ReportCatalogueDefinitionError ''Document format has no supportability evidence'')
      | Some su \<Rightarrow> Inr \<lparr>of_format_id = (if format_id = ''xlsx'' then ''xlsx'' else ''pdf''),
          of_business_label = (if format_id = ''xlsx'' then ''Calculated review workbook'' else ''Governed PDF document''),
          of_use_posture = ''governed_document'', of_state = su_state su, of_reason_code = su_reason_code su\<rparr>)"

definition family_supportability :: "output_format list \<Rightarrow> supportability" where
  "family_supportability formats =
     (if list_all (\<lambda>f. of_state f = ''ready'') formats
      then support ''ready'' ''report_family_ready'' ''Available within its supported reporting workflow.''
      else if list_ex (\<lambda>f. of_state f = ''ready'') formats
      then support ''partial'' ''report_family_output_partial''
        ''Structured data remains available; governed document creation is not ready.''
      else support ''unavailable'' ''report_family_unavailable'' ''This report is currently unavailable.'')"

record section_item =
  si_section_id :: string
  si_business_label :: string
  si_description :: string
  si_display_order :: int
  si_selection_posture :: string
  si_default_selected :: bool
  si_dependency_field_ids :: "string list"

definition section_item_of :: "section_definition \<Rightarrow> section_item" where
  "section_item_of sec = \<lparr>si_section_id = sd_section_id sec, si_business_label = sd_business_label sec,
     si_description = sd_description sec, si_display_order = sd_display_order sec,
     si_selection_posture = sd_selection_posture sec, si_default_selected = sd_default_selected sec,
     si_dependency_field_ids = sd_dependency_field_ids sec\<rparr>"

text \<open>Modes and fields are published with all their attributes, so the item carries the definitions.\<close>

record family_item =
  fi_report_family_id :: string
  fi_business_label :: string
  fi_description :: string
  fi_intended_use :: string
  fi_audience_roles :: "string list"
  fi_client_release_posture :: string
  fi_ordering_modes :: "mode_definition list"
  fi_output_formats :: "output_format list"
  fi_configuration_fields :: "field_definition list"
  fi_sections :: "section_item list"
  fi_supportability :: supportability

definition family_item_of :: "family_definition \<Rightarrow> (string \<Rightarrow> supportability option) \<Rightarrow> family_item res" where
  "family_item_of d evidence =
     bindE (mapE (\<lambda>f. output_format_item f (evidence f)) (fd_supported_output_formats d)) (\<lambda>formats.
     Inr \<lparr>fi_report_family_id = fd_family_id d, fi_business_label = fd_business_label d, fi_description = fd_description d,
       fi_intended_use = fd_intended_use d, fi_audience_roles = fd_audience_roles d,
       fi_client_release_posture = fd_client_release_posture d, fi_ordering_modes = fd_ordering_modes d,
       fi_output_formats = formats, fi_configuration_fields = fd_configuration_fields d,
       fi_sections = map section_item_of (fd_sections d), fi_supportability = family_supportability formats\<rparr>)"

definition catalogue_supportability :: "family_item list \<Rightarrow> supportability" where
  "catalogue_supportability families =
     (if list_all (\<lambda>f. su_state (fi_supportability f) = ''ready'') families
      then support ''ready'' ''report_catalogue_ready''
        ''All published report families are available in their supported workflows.''
      else if list_ex (\<lambda>f. su_state (fi_supportability f) \<noteq> ''unavailable'') families
      then support ''partial'' ''report_catalogue_partial''
        ''Some report outputs are temporarily unavailable or degraded.''
      else support ''unavailable'' ''report_catalogue_unavailable''
        ''No published report family is currently available.'')"

text \<open>The two answers of the render service: metadata and template projection.\<close>

record render_answers =
  ra_metadata :: "int \<times> jobj"
  ra_templates :: "int \<times> jobj"

definition format_evidence :: "render_answers \<Rightarrow> report_family \<Rightarrow> string \<Rightarrow> supportability" where
  "format_evidence ra d format_id = family_document_supportability d format_id
     (document_supportability (fst (ra_metadata ra)) (snd (ra_metadata ra)) format_id)
     (template_projection_index (fst (ra_templates ra)) (snd (ra_templates ra)))"

definition catalogue_item :: "render_answers \<Rightarrow> family_definition \<Rightarrow> family_item res" where
  "catalogue_item ra d = family_item_of d (\<lambda>f. if f \<in> set (fd_supported_output_formats d) \<and> f \<noteq> ''json''
     then Some (format_evidence ra (fd_axes d) f) else None)"

definition get_catalogue :: "family_definition list \<Rightarrow> render_answers \<Rightarrow> (family_item list \<times> supportability) res" where
  "get_catalogue definitions ra =
     bindE (validate_definitions definitions) (\<lambda>_.
     bindE (mapE (catalogue_item ra) definitions) (\<lambda>families.
     Inr (families, catalogue_supportability families)))"

text \<open>No family of the report type: \<open>next\<close> finds nothing and raises, which is \<open>None\<close> here.\<close>

definition document_contract_supportability ::
    "family_definition list \<Rightarrow> render_answers \<Rightarrow> string \<Rightarrow> string \<Rightarrow> string \<Rightarrow> string \<Rightarrow> supportability option" where
  "document_contract_supportability definitions ra report_type format_id contract_version template_version =
     map_option (\<lambda>d. format_evidence ra ((fd_axes d)\<lparr>rf_report_data_contract_version := contract_version,
         rf_template_version := template_version\<rparr>) format_id)
       (fetch (\<lambda>d. rf_report_type (fd_axes d) = report_type) definitions)"

section \<open>What an accepted order guarantees\<close>

lemma is_text_JStr: "is_text v \<Longrightarrow> \<exists>t. v = JStr t \<and> py_strip t \<noteq> []"
  by (cases v) auto

lemma set_strings_of: "s \<in> set (strings_of vs) \<longleftrightarrow> JStr s \<in> set vs"
  by (induction vs rule: strings_of.induct) auto

lemma accepted_order:
  assumes "validate_report_ordering_submission ds fam mode formats options = Inr ()"
  obtains d where "fetch (\<lambda>d. fd_family_id d = fam) ds = Some d" "mode \<in> om_mode_id ` set (fd_ordering_modes d)"
    "formats \<noteq> []" "distinct formats" "set formats \<subseteq> set (fd_supported_output_formats d)"
    "validate_options d mode options = Inr ()"
  using assms
  by (auto simp: validate_report_ordering_submission_def family_of_def validate_output_formats_def require_def
      split: option.splits if_splits)

lemma family_ids: "map fd_family_id FAMILY_DEFINITIONS
   = [''portfolio_review'', ''proof_pack'', ''rebalance_wave'', ''outcome_review'', ''composite_review'']"
  by code_simp

text \<open>No published family offers two document formats.\<close>

lemma one_document_format:
  "list_all (\<lambda>d. length (remdups (filter (\<lambda>f. f = ''pdf'' \<or> f = ''xlsx'') (fd_supported_output_formats d))) \<le> 1) FAMILY_DEFINITIONS"
  by code_simp

lemma validate_FAMILY_DEFINITIONS: "validate_definitions FAMILY_DEFINITIONS = Inr ()"
  by code_simp

lemma accepted_document_format:
  assumes "validate_report_ordering_submission FAMILY_DEFINITIONS fam mode formats options = Inr ()"
  shows "\<exists>f. document_output_format formats = Inr f"
proof -
  let ?P = "\<lambda>f. f = ''pdf'' \<or> f = ''xlsx''"
  obtain d where d: "fetch (\<lambda>d. fd_family_id d = fam) FAMILY_DEFINITIONS = Some d"
    and formats: "distinct formats" "set formats \<subseteq> set (fd_supported_output_formats d)"
    using accepted_order [OF assms] by metis
  have "d \<in> set FAMILY_DEFINITIONS" using d unfolding fetch_def by (metis find_Some_iff nth_mem)
  then have one: "length (remdups (filter ?P (fd_supported_output_formats d))) \<le> 1"
    using one_document_format by (auto simp: list_all_iff)
  have "length (remdups (filter ?P formats)) = card (set (filter ?P formats))" by (rule length_remdups_card_conv)
  also have "\<dots> \<le> card (set (filter ?P (fd_supported_output_formats d)))" using formats(2) by (intro card_mono) auto
  also have "\<dots> = length (remdups (filter ?P (fd_supported_output_formats d)))" by (rule length_remdups_card_conv [symmetric])
  finally have "length (remdups (filter ?P formats)) \<le> 1" using one by linarith
  then show ?thesis by (simp add: document_output_format_def Let_def)
qed

lemma portfolio_review_found:
  "fetch (\<lambda>d. fd_family_id d = ''portfolio_review'') FAMILY_DEFINITIONS = Some portfolio_review_family"
  by (simp add: fetch_def FAMILY_DEFINITIONS_def portfolio_review_family_def REPORT_FAMILY_DEFINITIONS_def)

lemma commentary_dependency:
  "list_ex (\<lambda>sec. sd_section_id sec = ''ADVISOR_COMMENTARY'' \<and> ''advisor_brief_run_id'' \<in> set (sd_dependency_field_ids sec))
     (fd_sections portfolio_review_family)"
  "map_option fl_requirement (field_by_id portfolio_review_family ''advisor_brief_run_id'') = Some ''conditional''"
  by code_simp+

lemma accepted_commentary:
  assumes ok: "validate_report_ordering_submission FAMILY_DEFINITIONS ''portfolio_review'' mode formats options = Inr ()"
    and chosen: "''ADVISOR_COMMENTARY'' \<in> set (selected_sections options)"
  shows "\<exists>t. dget options ''advisor_brief_run_id'' = Some (JStr t) \<and> py_strip t \<noteq> []"
proof -
  let ?d = portfolio_review_family
  have "validate_section_dependencies ?d options = Inr ()"
    using accepted_order [OF ok] portfolio_review_found by (auto simp: validate_options_def)
  moreover obtain sec where sec: "sec \<in> set (fd_sections ?d)" "sd_section_id sec = ''ADVISOR_COMMENTARY''"
    "''advisor_brief_run_id'' \<in> set (sd_dependency_field_ids sec)"
    using commentary_dependency(1) by (auto simp: list_ex_iff)
  ultimately have "validate_dependency ?d options sec ''advisor_brief_run_id'' () = Inr ()"
    using chosen by (auto simp: validate_section_dependencies_def foldE_unit Let_def split: if_splits)
  then show ?thesis
    using commentary_dependency(2) by (auto simp: validate_dependency_def require_def dest!: is_text_JStr split: option.splits if_splits)
qed

section \<open>What the catalogue publishes\<close>

lemma mapE_total:
  assumes "\<And>x. x \<in> set xs \<Longrightarrow> \<exists>y. f x = Inr y \<and> P x y"
  shows "\<exists>ys. mapE f xs = Inr ys \<and> list_all2 P xs ys"
  using assms by (induction xs) (auto, fastforce)

text \<open>The evidence that makes a document format of a family orderable.\<close>

definition proven_document :: "render_answers \<Rightarrow> report_family \<Rightarrow> string \<Rightarrow> bool" where
  "proven_document ra d f \<longleftrightarrow>
     fst (ra_metadata ra) = 200 \<and> lists_string (dget (snd (ra_metadata ra)) ''supportedOutputFormats'') f
     \<and> (\<exists>evidence. dget (snd (ra_metadata ra)) ''supportability'' = Some (JObj evidence)
          \<and> py_lower (str_or (dget evidence ''state'') []) = ''ready''
          \<and> dget evidence ''deterministicOutputSupported'' = Some (JBool True)
          \<and> dget evidence ''templateRegistryReady'' = Some (JBool True)
          \<and> dget evidence ''runtimeAvailable'' = Some (JBool True))
     \<and> (\<exists>index entry. template_projection_index (fst (ra_templates ra)) (snd (ra_templates ra)) = Some index
          \<and> map_of index (rf_template_id d, rf_template_version d) = Some entry
          \<and> str_or (dget entry ''status'') [] = ''active''
          \<and> lists_string (dget entry ''supported_report_types'') (rf_report_type d)
          \<and> lists_string (dget entry ''supported_report_data_contract_versions'') (rf_report_data_contract_version d)
          \<and> (f \<noteq> ''pdf'' \<longrightarrow> lists_string (dget entry ''supported_output_formats'') f))"

lemma document_supportability_ready:
  assumes "su_state (document_supportability sc md f) = ''ready''"
  shows "sc = 200" "lists_string (dget md ''supportedOutputFormats'') f"
    "\<exists>evidence. dget md ''supportability'' = Some (JObj evidence) \<and> py_lower (str_or (dget evidence ''state'') []) = ''ready''
       \<and> dget evidence ''deterministicOutputSupported'' = Some (JBool True)
       \<and> dget evidence ''templateRegistryReady'' = Some (JBool True) \<and> dget evidence ''runtimeAvailable'' = Some (JBool True)"
  using assms
  by (auto simp: document_supportability_def support_def Let_def split: if_splits option.splits json.splits)

lemma ready_proven: "su_state (format_evidence ra d f) = ''ready'' \<Longrightarrow> proven_document ra d f"
  unfolding format_evidence_def proven_document_def
  by (auto simp: family_document_supportability_def support_def Let_def document_supportability_ready
      split: if_splits option.splits intro: document_supportability_ready)

lemma catalogue_item_total:
  assumes "set (fd_supported_output_formats d) \<subseteq> {''json'', ''pdf'', ''xlsx''}"
  shows "\<exists>item. catalogue_item ra d = Inr item \<and> fi_report_family_id item = fd_family_id d
    \<and> list_all2 (\<lambda>fid f. of_format_id f = fid \<and> (fid = ''json'' \<longrightarrow> of_state f = ''ready'')
        \<and> (fid \<noteq> ''json'' \<and> of_state f = ''ready'' \<longrightarrow> proven_document ra (fd_axes d) fid))
        (fd_supported_output_formats d) (fi_output_formats item)"
proof -
  let ?ev = "\<lambda>f. if f \<in> set (fd_supported_output_formats d) \<and> f \<noteq> ''json'' then Some (format_evidence ra (fd_axes d) f) else None"
  have "\<exists>fs. mapE (\<lambda>f. output_format_item f (?ev f)) (fd_supported_output_formats d) = Inr fs
     \<and> list_all2 (\<lambda>fid f. of_format_id f = fid \<and> (fid = ''json'' \<longrightarrow> of_state f = ''ready'')
        \<and> (fid \<noteq> ''json'' \<and> of_state f = ''ready'' \<longrightarrow> proven_document ra (fd_axes d) fid)) (fd_supported_output_formats d) fs"
  proof (rule mapE_total)
    fix f assume f: "f \<in> set (fd_supported_output_formats d)"
    then have "f = ''json'' \<or> f = ''pdf'' \<or> f = ''xlsx''" using assms by auto
    then show "\<exists>y. output_format_item f (?ev f) = Inr y \<and> of_format_id y = f \<and> (f = ''json'' \<longrightarrow> of_state y = ''ready'')
        \<and> (f \<noteq> ''json'' \<and> of_state y = ''ready'' \<longrightarrow> proven_document ra (fd_axes d) f)"
      using f ready_proven by (auto simp: output_format_item_def)
  qed
  then show ?thesis by (auto simp: catalogue_item_def family_item_of_def)
qed

lemma published_formats:
  "list_all (\<lambda>d. set (fd_supported_output_formats d) \<subseteq> {''json'', ''pdf'', ''xlsx''}) FAMILY_DEFINITIONS"
  by code_simp

text \<open>
  (C40) The catalogue never fails on the published definitions, whatever the render service answers, and
  publishes every family with its formats, in order. The structured-data format is always offered as ready; a
  document format is offered as ready only when the renderer answered, declares the format and reports a
  ready, deterministic runtime with its template registry, and its projection lists the exact template and
  version of the family as active for the family's report type and data contract, and, for any format but
  PDF, for the format.
\<close>

theorem catalogue_offers_only_proven_documents:
  "\<exists>families su. get_catalogue FAMILY_DEFINITIONS ra = Inr (families, su)
     \<and> list_all2 (\<lambda>d item. fi_report_family_id item = fd_family_id d
         \<and> list_all2 (\<lambda>fid f. of_format_id f = fid \<and> (fid = ''json'' \<longrightarrow> of_state f = ''ready'')
             \<and> (fid \<noteq> ''json'' \<and> of_state f = ''ready'' \<longrightarrow> proven_document ra (fd_axes d) fid))
             (fd_supported_output_formats d) (fi_output_formats item)) FAMILY_DEFINITIONS families"
proof -
  have "\<exists>families. mapE (catalogue_item ra) FAMILY_DEFINITIONS = Inr families
     \<and> list_all2 (\<lambda>d item. fi_report_family_id item = fd_family_id d
         \<and> list_all2 (\<lambda>fid f. of_format_id f = fid \<and> (fid = ''json'' \<longrightarrow> of_state f = ''ready'')
             \<and> (fid \<noteq> ''json'' \<and> of_state f = ''ready'' \<longrightarrow> proven_document ra (fd_axes d) fid))
             (fd_supported_output_formats d) (fi_output_formats item)) FAMILY_DEFINITIONS families"
    using published_formats by (intro mapE_total catalogue_item_total) (auto simp: list_all_iff)
  then show ?thesis using validate_FAMILY_DEFINITIONS by (auto simp: get_catalogue_def)
qed

definition sample_answers :: render_answers where
  "sample_answers = \<lparr>ra_metadata = (200, [(''supportedOutputFormats'', JList [JStr ''pdf'']),
       (''supportability'', JObj [(''state'', JStr ''READY''), (''deterministicOutputSupported'', JBool True),
          (''templateRegistryReady'', JBool True), (''runtimeAvailable'', JBool True)])]),
     ra_templates = (200, [(''templates'', JList [JObj [(''template_id'', JStr ''portfolio-review''),
        (''template_version'', JStr ''v2''), (''status'', JStr ''active''),
        (''supported_report_types'', JList [JStr ''portfolio_review'']),
        (''supported_report_data_contract_versions'', JList [JStr ''portfolio_review.v1''])]])])\<rparr>"

theorem catalogue_offers_only_proven_documents_witness:
  "proven_document sample_answers (fd_axes portfolio_review_family) ''pdf''
   \<and> (case get_catalogue FAMILY_DEFINITIONS sample_answers of Inl _ \<Rightarrow> False
      | Inr (families, su) \<Rightarrow> of_state (fi_output_formats (hd families) ! 1) = ''ready'' \<and> su_state su = ''partial'')"
proof -
  have run: "case get_catalogue FAMILY_DEFINITIONS sample_answers of Inl _ \<Rightarrow> False
      | Inr (families, su) \<Rightarrow> of_state (fi_output_formats (hd families) ! 1) = ''ready'' \<and> su_state su = ''partial''"
    by code_simp
  obtain ds where head: "FAMILY_DEFINITIONS = portfolio_review_family # ds" by (simp add: FAMILY_DEFINITIONS_def)
  have pdf: "fd_supported_output_formats portfolio_review_family = [''json'', ''pdf'']" by (simp add: portfolio_review_family_def)
  obtain families su where got: "get_catalogue FAMILY_DEFINITIONS sample_answers = Inr (families, su)"
    and all: "list_all2 (\<lambda>d item. fi_report_family_id item = fd_family_id d
         \<and> list_all2 (\<lambda>fid f. of_format_id f = fid \<and> (fid = ''json'' \<longrightarrow> of_state f = ''ready'')
             \<and> (fid \<noteq> ''json'' \<and> of_state f = ''ready'' \<longrightarrow> proven_document sample_answers (fd_axes d) fid))
             (fd_supported_output_formats d) (fi_output_formats item)) FAMILY_DEFINITIONS families"
    using catalogue_offers_only_proven_documents [of sample_answers] by blast
  from all obtain item items where families: "families = item # items" and
    formats: "list_all2 (\<lambda>fid f. of_format_id f = fid \<and> (fid = ''json'' \<longrightarrow> of_state f = ''ready'')
       \<and> (fid \<noteq> ''json'' \<and> of_state f = ''ready'' \<longrightarrow> proven_document sample_answers (fd_axes portfolio_review_family) fid))
       [''json'', ''pdf''] (fi_output_formats item)"
    unfolding head list_all2_Cons1 pdf by blast
  have "of_state (fi_output_formats item ! 1) = ''ready''" using run by (simp add: got families)
  then have "proven_document sample_answers (fd_axes portfolio_review_family) ''pdf''"
    using list_all2_nthD [OF formats, of 1] by simp
  then show ?thesis using run by blast
qed

end
