(* ===== verification/Schedule_Dates.thy ===== *)
theory Schedule_Dates
  imports Batch_Selection
begin

text \<open>
  The calendar of stored schedules, \<open>src/src/app/report_batch_orchestrator/schedule_definitions.py\<close>: period
  ends of the two cadences, the period ends a schedule owes, and the next one. The calendar is read off
  the months: \<open>month_first\<close> and \<open>month_index\<close> form a Galois connection, so each function is determined by the
  period it lands in.
\<close>

section \<open>Definitions\<close>

datatype cadence = Monthly_end | Quarter_end

definition month_end :: "date \<Rightarrow> date" where
  "month_end day = (case ord2ymd day of (year, month, _) \<Rightarrow> ymd2ord year month (days_in_month year month))"

definition quarter_end :: "date \<Rightarrow> date" where
  "quarter_end day = (case ord2ymd day of (year, month, _) \<Rightarrow>
     let end_month = ((month - 1) div 3) * 3 + 3 in ymd2ord year end_month (days_in_month year end_month))"

definition period_end_on_or_after :: "cadence \<Rightarrow> date \<Rightarrow> date" where
  "period_end_on_or_after c day = (if c = Monthly_end then month_end day else quarter_end day)"

text \<open>\<open>date(year - 1, 12, 31)\<close> raises in the first year of the calendar.\<close>

definition day_before_period :: "int \<Rightarrow> int \<Rightarrow> date res" where
  "day_before_period year month =
     (if month = 1 then if year - 1 < 1 then Inl (ValueError ''year 0 is out of range'') else Inr (ymd2ord (year - 1) 12 31)
      else Inr (month_end (ymd2ord year (month - 1) 1)))"

definition previous_period_end :: "cadence \<Rightarrow> date \<Rightarrow> date res" where
  "previous_period_end c day =
     (let candidate = period_end_on_or_after c day in
      if candidate \<le> day then Inr candidate
      else case ord2ymd day of (year, month, _) \<Rightarrow>
        let first_month = (if c = Quarter_end then ((month - 1) div 3) * 3 + 1 else month) in
        bindE (day_before_period year first_month) (\<lambda>before.
        Inr (if c = Quarter_end then quarter_end before else month_end before)))"

definition due_as_of_date :: "cadence \<Rightarrow> date \<Rightarrow> date \<Rightarrow> date option res" where
  "due_as_of_date c today created_on =
     bindE (previous_period_end c today) (\<lambda>latest.
     Inr (if latest < created_on then None else Some latest))"

definition STORED_SCHEDULE_BACKFILL_LIMIT :: nat where "STORED_SCHEDULE_BACKFILL_LIMIT = 12"

text \<open>The loop of \<open>due_as_of_dates\<close>: the cursor and how many periods may still be appended.\<close>

fun owed_from :: "cadence \<Rightarrow> date \<Rightarrow> date option \<Rightarrow> nat \<Rightarrow> date list res" where
  "owed_from c created_on None n = Inr []"
| "owed_from c created_on (Some cursor) 0 = Inr []"
| "owed_from c created_on (Some cursor) (Suc n) =
     bindE (due_as_of_date c (cursor - 1) created_on) (\<lambda>earlier.
     bindE (owed_from c created_on earlier n) (\<lambda>owed. Inr (cursor # owed)))"

definition due_as_of_dates :: "cadence \<Rightarrow> date \<Rightarrow> date \<Rightarrow> nat \<Rightarrow> date list res" where
  "due_as_of_dates c today created_on limit =
     bindE (due_as_of_date c today created_on) (\<lambda>cursor.
     bindE (owed_from c created_on cursor limit) (\<lambda>owed. Inr (sort owed)))"

definition next_run_at :: "cadence \<Rightarrow> date \<Rightarrow> date \<Rightarrow> date" where
  "next_run_at c today created_on = period_end_on_or_after c (max today created_on)"

section \<open>Periods\<close>

definition months_of :: "cadence \<Rightarrow> int" where
  "months_of c = (if c = Monthly_end then 1 else 3)"

definition month_first :: "int \<Rightarrow> date" where
  "month_first i = ymd2ord (i div 12) (i mod 12 + 1) 1"

definition period_of :: "cadence \<Rightarrow> date \<Rightarrow> int" where
  "period_of c n = month_index n div months_of c"

definition period_first :: "cadence \<Rightarrow> int \<Rightarrow> date" where
  "period_first c k = month_first (months_of c * k)"

text \<open>A day that closes a month, or a quarter: the next day lies in another one.\<close>

definition closes_period :: "cadence \<Rightarrow> date \<Rightarrow> bool" where
  "closes_period c n \<longleftrightarrow> period_of c (n + 1) \<noteq> period_of c n"

lemma months_of_pos: "0 < months_of c" by (simp add: months_of_def)

lemma month_first_le:
  assumes "12 \<le> i" "1 \<le> n"
  shows "month_first i \<le> n \<longleftrightarrow> i \<le> month_index n"
proof -
  have "1 \<le> i div 12" using assms by (simp add: zdiv_mono1 [of 12 i 12, simplified])
  then have "month_first i \<le> n \<longleftrightarrow> 12 * (i div 12) + (i mod 12 + 1 - 1) \<le> month_index n"
    unfolding month_first_def using assms by (intro month_start_iff) auto
  then show ?thesis by simp
qed

lemma month_index_ge: "1 \<le> n \<Longrightarrow> 12 \<le> month_index n"
  using month_first_le [of 12 n] by (simp add: month_first_def ymd2ord_def days_before_year_def days_before_month_def)

lemma period_first_le:
  assumes "12 \<le> months_of c * k" "1 \<le> n"
  shows "period_first c k \<le> n \<longleftrightarrow> k \<le> period_of c n"
  unfolding period_first_def period_of_def month_first_le [OF assms] by (rule mult_le_iff_le_div [OF months_of_pos])

lemma period_of_mono: "1 \<le> n \<Longrightarrow> n \<le> n' \<Longrightarrow> period_of c n \<le> period_of c n'"
  unfolding period_of_def by (intro zdiv_mono1 month_index_mono months_of_pos)

lemma month_last:
  assumes "1 \<le> y" "1 \<le> m" "m \<le> 12"
  shows "ymd2ord y m (days_in_month y m) = month_first (12 * y + m) - 1"
proof (cases "m = 12")
  case True
  have "days_before_year (y + 1) = days_before_year y + days_before_month y 13"
    unfolding days_before_year_Suc days_in_year_def by (simp add: days_before_month_def)
  moreover have "(12 * y + 12) div 12 = y + 1" by simp
  ultimately show ?thesis
    using True by (simp add: month_first_def ymd2ord_def days_in_month_def days_before_month_def)
next
  case False
  then have "(12 * y + m) div 12 = y" "(12 * y + m) mod 12 = m" using assms by simp_all
  then show ?thesis by (simp add: month_first_def ymd2ord_def days_in_month_def)
qed

lemma period_end_eq:
  assumes "1 \<le> n"
  shows "period_end_on_or_after c n = period_first c (period_of c n + 1) - 1"
proof -
  obtain y m d where o: "ord2ymd n = (y, m, d)" by (cases "ord2ymd n") auto
  note b = ord2ymd_month(1-3) [OF assms o]
  have i: "month_index n = 12 * y + (m - 1)" by (simp add: month_index_def o)
  let ?q = "(m - 1) div 3 * 3 + 3"
  have q: "1 \<le> ?q" "?q \<le> 12" using b by presburger+
  have "3 * ((12 * y + (m - 1)) div 3 + 1) = 12 * y + ?q" by presburger
  then show ?thesis
    using month_last [OF b] month_last [OF b(1) q]
    by (cases c) (simp_all add: period_end_on_or_after_def month_end_def quarter_end_def o Let_def period_first_def
        period_of_def months_of_def i algebra_simps)
qed

lemma month_first_less:
  assumes "12 \<le> i"
  shows "month_first i < month_first (i + 1)"
proof -
  let ?y = "i div 12" and ?m = "i mod 12 + 1"
  have y: "1 \<le> ?y" using assms by (simp add: zdiv_mono1 [of 12 i 12, simplified])
  have m: "1 \<le> ?m" "?m \<le> 12" by simp_all
  have "12 * ?y + ?m = i + 1" by simp
  then have "month_first (i + 1) = ymd2ord ?y ?m (days_in_month ?y ?m) + 1" using month_last [OF y m] by simp
  moreover have "0 < days_in_month ?y ?m"
    using month_cases [OF m] unfolding days_in_month_def
    by (elim insertE; cases "is_leap ?y") (simp_all add: days_before_month_simps)
  ultimately show ?thesis by (simp add: month_first_def ymd2ord_def)
qed

lemma month_first_pos: "12 \<le> i \<Longrightarrow> 1 \<le> month_first i"
proof (induction i rule: int_ge_induct)
  case base
  then show ?case by (simp add: month_first_def ymd2ord_def days_before_year_def days_before_month_def)
next
  case (step i)
  then show ?case using month_first_less [of i] by simp
qed

lemma month_index_first:
  assumes "12 \<le> i"
  shows "month_index (month_first i) = i"
proof -
  note pos = month_first_pos [OF assms]
  have "i \<le> month_index (month_first i)" using month_first_le [OF assms pos] by simp
  moreover have "\<not> i + 1 \<le> month_index (month_first i)"
    using month_first_le [of "i + 1", OF _ pos] month_first_less [OF assms] assms by simp
  ultimately show ?thesis by simp
qed

lemma month_index_before:
  assumes "13 \<le> i"
  shows "1 \<le> month_first i - 1" "month_index (month_first i - 1) = i - 1"
proof -
  have less: "month_first (i - 1) < month_first i" using month_first_less [of "i - 1"] assms by simp
  then show pos: "1 \<le> month_first i - 1" using month_first_pos [of "i - 1"] assms by simp
  have "i - 1 \<le> month_index (month_first i - 1)" using month_first_le [of "i - 1", OF _ pos] less assms by simp
  moreover have "\<not> i \<le> month_index (month_first i - 1)" using month_first_le [of i, OF _ pos] assms by simp
  ultimately show "month_index (month_first i - 1) = i - 1" by simp
qed

lemma month_end_eq: "1 \<le> n \<Longrightarrow> month_end n = month_first (month_index n + 1) - 1"
  using period_end_eq [of n Monthly_end]
  by (simp add: period_end_on_or_after_def period_first_def period_of_def months_of_def)

lemma day_before_period_eq:
  assumes "2 \<le> y" "1 \<le> m" "m \<le> 12"
  shows "day_before_period y m = Inr (month_first (12 * y + (m - 1)) - 1)"
proof (cases "m = 1")
  case True
  have "days_in_month (y - 1) 12 = 31" by (simp add: days_in_month_def days_before_month_simps)
  then show ?thesis using True assms month_last [of "y - 1" 12] by (simp add: day_before_period_def)
next
  case False
  have "ymd2ord y (m - 1) 1 = month_first (12 * y + (m - 2))"
    using assms False by (simp add: month_first_def)
  moreover have "12 \<le> 12 * y + (m - 2)" using assms False by simp
  ultimately have "month_end (ymd2ord y (m - 1) 1) = month_first (12 * y + (m - 2) + 1) - 1"
    using month_end_eq month_first_pos month_index_first by simp
  then show ?thesis using False by (simp add: day_before_period_def algebra_simps)
qed

lemma period_lower: "1 \<le> n \<Longrightarrow> 12 \<le> months_of c * period_of c n"
  using month_index_ge [of n] unfolding period_of_def months_of_def by (cases c) simp_all

lemma period_first_less:
  assumes "12 \<le> months_of c * k"
  shows "period_first c k < period_first c (k + 1)"
proof (cases c)
  case Monthly_end
  then show ?thesis using month_first_less [of k] assms by (simp add: period_first_def months_of_def)
next
  case Quarter_end
  have "12 \<le> 3 * k" using assms Quarter_end by (simp add: months_of_def)
  then have "month_first (3 * k) < month_first (3 * k + 1)" "month_first (3 * k + 1) < month_first (3 * k + 1 + 1)"
    "month_first (3 * k + 1 + 1) < month_first (3 * k + 1 + 1 + 1)"
    by (simp_all only: month_first_less)
  then show ?thesis using Quarter_end by (simp add: period_first_def months_of_def algebra_simps)
qed

lemma month_first_24: "month_first 24 = ymd2ord 2 1 1"
  by (simp add: month_first_def)

text \<open>The last day of the first year closes a period of either cadence; later days lie in a later year.\<close>

lemma open_day_year:
  assumes n: "ymd2ord 2 1 1 - 1 \<le> n" and same: "period_of c (n + 1) = period_of c n" and o: "ord2ymd n = (y, m, d)"
  shows "2 \<le> y"
proof (rule ccontr)
  assume "\<not> 2 \<le> y"
  have n1: "1 \<le> n" using n by (simp add: ymd2ord_def days_before_year_def days_before_month_def)
  have "month_index n < 24" using \<open>\<not> 2 \<le> y\<close> ord2ymd_month [OF n1 o] by (simp add: month_index_def o)
  then have "n + 1 = month_first 24" using month_first_le [of 24 n] n n1 by (simp add: month_first_24)
  then have "month_index (n + 1) = 24" "month_index n = 23"
    using month_index_first [of 24] month_index_before(2) [of 24] by (simp_all, metis add_diff_cancel_right')
  then show False using same by (cases c) (simp_all add: period_of_def months_of_def)
qed

text \<open>The period end on or before a day closes the period before the one of the next day.\<close>

lemma previous_period_end_eq:
  assumes n: "ymd2ord 2 1 1 - 1 \<le> n"
  shows "previous_period_end c n = Inr (period_first c (period_of c (n + 1)) - 1)"
proof -
  have n1: "1 \<le> n" using n by (simp add: ymd2ord_def days_before_year_def days_before_month_def)
  let ?k = "period_of c n"
  have k: "12 \<le> months_of c * ?k" "12 \<le> months_of c * (?k + 1)" "12 \<le> months_of c * (?k + 2)"
    using period_lower [OF n1, of c] months_of_pos [of c] by (simp_all add: algebra_simps)
  have end_le: "period_end_on_or_after c n \<le> n \<longleftrightarrow> ?k + 1 \<le> period_of c (n + 1)"
    unfolding period_end_eq [OF n1] using period_first_le [OF k(2), of "n + 1"] n1 by auto
  show ?thesis
  proof (cases "period_end_on_or_after c n \<le> n")
    case True
    have "\<not> ?k + 2 \<le> period_of c (n + 1)"
      using period_first_le [OF k(3), of "n + 1"] period_first_less [OF k(2)] period_first_le [OF k(2) n1] n1
      by (auto simp: algebra_simps)
    then have "period_of c (n + 1) = ?k + 1" using True end_le by simp
    then show ?thesis using True period_end_eq [OF n1] by (simp add: previous_period_end_def)
  next
    case False
    then have same: "period_of c (n + 1) = ?k"
      using end_le period_of_mono [OF n1, of "n + 1" c] by simp
    obtain y m d where o: "ord2ymd n = (y, m, d)" by (cases "ord2ymd n") auto
    note b = ord2ymd_month(1-3) [OF n1 o] and y = open_day_year [OF n same o]
    define fm where "fm = (if c = Quarter_end then (m - 1) div 3 * 3 + 1 else m)"
    have fm: "1 \<le> fm" "fm \<le> 12" using b by (simp_all add: fm_def, presburger+)
    have i: "12 * y + (fm - 1) = months_of c * ?k"
      by (cases c) (simp_all add: fm_def period_of_def months_of_def month_index_def o, presburger)
    let ?before = "period_first c ?k - 1"
    have "13 \<le> months_of c * ?k" using i y fm by simp
    note before = month_index_before [OF this, folded period_first_def]
    have "(months_of c * ?k - 1) div months_of c = ?k - 1"
      using months_of_pos [of c] by (intro int_div_pos_eq [of _ _ _ "months_of c - 1"]) (simp_all add: algebra_simps)
    then have "period_of c ?before = ?k - 1" by (simp add: period_of_def [of c ?before] before(2))
    then have "period_end_on_or_after c ?before = ?before" using period_end_eq [OF before(1), of c] by simp
    moreover have "day_before_period y fm = Inr ?before"
      using day_before_period_eq [OF y fm] by (simp add: i period_first_def)
    ultimately show ?thesis
      using False same by (cases c) (simp_all add: previous_period_end_def period_end_on_or_after_def o Let_def fm_def)
  qed
qed

section \<open>The period ends a schedule owes\<close>

lemma first_ordinals: "ymd2ord 2 1 1 = 366"
  by (simp add: ymd2ord_def days_before_year_def days_before_month_def)

lemma upto_closing:
  fixes c :: cadence
  assumes n: "365 \<le> n" and a: "1 \<le> a"
  defines "e \<equiv> period_first c (period_of c (n + 1)) - 1"
  shows "filter (closes_period c) [a..n] = (if a \<le> e then filter (closes_period c) [a..e - 1] @ [e] else [])"
proof -
  let ?k = "period_of c (n + 1)"
  have k: "12 \<le> months_of c * ?k" using period_lower [of "n + 1" c] n by simp
  have le: "period_first c ?k \<le> x \<longleftrightarrow> ?k \<le> period_of c x" if "1 \<le> x" for x using period_first_le [OF k that] .
  have "e \<le> n" using le [of "n + 1"] n by (simp add: e_def)
  have idle: "\<not> closes_period c x" if "max a (e + 1) \<le> x" "x \<le> n" for x
  proof -
    have "?k \<le> period_of c x" using le [of x] that a by (simp add: e_def)
    moreover have "period_of c x \<le> period_of c (x + 1)" "period_of c (x + 1) \<le> ?k"
      using period_of_mono [of x "x + 1" c] period_of_mono [of "x + 1" "n + 1" c] that a by simp_all
    ultimately show ?thesis by (simp add: closes_period_def)
  qed
  show ?thesis
  proof (cases "a \<le> e")
    case True
    have "?k \<le> period_of c (e + 1)" "\<not> ?k \<le> period_of c e" using le [of "e + 1"] le [of e] True a by (simp_all add: e_def)
    then have closes: "closes_period c e" by (simp add: closes_period_def)
    have "[a..n] = [a..e - 1] @ [e] @ [e + 1..n]"
      using True \<open>e \<le> n\<close> upto_split2 [of a e n] upto_rec2 [of a e] by simp
    moreover have "filter (closes_period c) [e + 1..n] = []"
      using idle True by (auto simp: filter_empty_conv)
    ultimately show ?thesis using True closes by simp
  next
    case False
    then show ?thesis using idle by (auto simp: filter_empty_conv)
  qed
qed

lemma owed_closing:
  assumes "365 \<le> n" and a: "366 \<le> created_on"
  shows "bindE (due_as_of_date c n created_on) (\<lambda>cursor. owed_from c created_on cursor limit)
    = Inr (take limit (rev (filter (closes_period c) [created_on..n])))"
  using assms(1)
proof (induction limit arbitrary: n)
  case 0
  then show ?case
    using previous_period_end_eq [of n c] by (simp add: due_as_of_date_def first_ordinals)
next
  case (Suc limit)
  let ?e = "period_first c (period_of c (n + 1)) - 1"
  have due: "due_as_of_date c n created_on = Inr (if ?e < created_on then None else Some ?e)"
    using previous_period_end_eq [of n c] Suc.prems by (simp add: due_as_of_date_def first_ordinals)
  note split = upto_closing [OF Suc.prems, of created_on c]
  show ?case
  proof (cases "?e < created_on")
    case True
    then show ?thesis using split a by (simp add: due)
  next
    case False
    then have "bindE (due_as_of_date c (?e - 1) created_on) (\<lambda>cursor. owed_from c created_on cursor limit)
      = Inr (take limit (rev (filter (closes_period c) [created_on..?e - 1])))"
      using Suc.IH [of "?e - 1"] a by simp
    then obtain cur where "due_as_of_date c (?e - 1) created_on = Inr cur"
      "owed_from c created_on cur limit = Inr (take limit (rev (filter (closes_period c) [created_on..?e - 1])))" by auto
    then show ?thesis using False split a by (simp add: due)
  qed
qed

lemma sort_take_rev: "sorted xs \<Longrightarrow> sort (take n (rev xs)) = drop (length xs - n) xs"
proof -
  assume "sorted xs"
  have "take n (rev xs) = rev (drop (length xs - n) xs)" by (simp add: take_rev)
  then show ?thesis using \<open>sorted xs\<close> by (intro properties_for_sort) (simp_all add: sorted_wrt_drop)
qed

text \<open>
  (C34) What a stored schedule owes. A pass evaluated on any day, for a cadence in effect since any date of
  the second year of the calendar or later, owes exactly the last days of the months (quarters) from that date up to the day,
  in ascending order, the most recent ones when there are more than the back-fill limit; none is skipped
  however many periods passed since the last pass, none before the cadence took effect is owed, and the
  loop ends. The next run shown is the first such period end on or after the day.
\<close>

theorem due_dates_exact:
  fixes c :: cadence
  assumes "ymd2ord 2 1 1 \<le> created_on" "ymd2ord 2 1 1 \<le> today"
  defines "ends \<equiv> filter (closes_period c) [created_on..today]"
  shows "due_as_of_dates c today created_on limit = Inr (drop (length ends - limit) ends)
    \<and> closes_period c (next_run_at c today created_on) \<and> max today created_on \<le> next_run_at c today created_on
    \<and> (\<forall>d. max today created_on \<le> d \<and> d < next_run_at c today created_on \<longrightarrow> \<not> closes_period c d)"
proof -
  have "bindE (due_as_of_date c today created_on) (\<lambda>cursor. owed_from c created_on cursor limit)
    = Inr (take limit (rev ends))"
    unfolding ends_def by (rule owed_closing) (use assms in \<open>simp_all add: first_ordinals\<close>)
  then have "due_as_of_dates c today created_on limit = Inr (sort (take limit (rev ends)))"
    by (auto simp: due_as_of_dates_def)
  also have "sort (take limit (rev ends)) = drop (length ends - limit) ends"
    unfolding ends_def by (intro sort_take_rev sorted_wrt_filter) simp
  finally have owed: "due_as_of_dates c today created_on limit = Inr (drop (length ends - limit) ends)" .
  define a where "a = max today created_on"
  have pos: "1 \<le> a" using assms by (simp add: a_def first_ordinals)
  let ?k = "period_of c a + 1"
  have k: "12 \<le> months_of c * ?k" using period_lower [OF pos, of c] months_of_pos [of c] by (simp add: algebra_simps)
  have e: "next_run_at c today created_on = period_first c ?k - 1" by (simp add: next_run_at_def a_def [symmetric] period_end_eq [OF pos])
  note le = period_first_le [OF k]
  have after: "a < period_first c ?k" using le [OF pos] by simp
  have "\<not> closes_period c d" if "a \<le> d" "d < period_first c ?k - 1" for d
  proof -
    have "\<not> ?k \<le> period_of c (d + 1)" using le [of "d + 1"] that pos by simp
    then show ?thesis
      using period_of_mono [OF pos that(1), of c] period_of_mono [of d "d + 1" c] that(1) pos by (simp add: closes_period_def)
  qed
  moreover have "closes_period c (period_first c ?k - 1)"
    using le [of "period_first c ?k - 1"] le [of "period_first c ?k"] after pos by (simp add: closes_period_def)
  ultimately show ?thesis using owed after unfolding e a_def [symmetric] by auto
qed

theorem due_dates_exact_witness:
  "due_as_of_dates Monthly_end (ymd2ord 2026 9 1) (ymd2ord 2026 7 2) 12 = Inr [ymd2ord 2026 7 31, ymd2ord 2026 8 31]
   \<and> next_run_at Quarter_end (ymd2ord 2026 9 1) (ymd2ord 2026 7 2) = ymd2ord 2026 9 30"
proof -
  have h: "ymd2ord 2 1 1 \<le> ymd2ord 2026 7 2" "ymd2ord 2 1 1 \<le> ymd2ord 2026 9 1" by code_simp+
  have "filter (closes_period Monthly_end) [ymd2ord 2026 7 2..ymd2ord 2026 9 1] = [ymd2ord 2026 7 31, ymd2ord 2026 8 31]"
    by code_simp
  moreover have "next_run_at Quarter_end (ymd2ord 2026 9 1) (ymd2ord 2026 7 2) = ymd2ord 2026 9 30" by code_simp
  ultimately show ?thesis using due_dates_exact [OF h, of Monthly_end 12] by simp
qed

end
