(* ===== verification/Schedule_Service.thy ===== *)
theory Schedule_Service
  imports Batch_Worker Ordering_Catalogue Schedule_Dates
begin

text \<open>
  Stored schedules, \<open>src/src/app/report_batch_orchestrator/schedule_definitions.py\<close>, with their tables in
  \<open>ledger.py\<close> of the same package: the definition table with its partial unique index on the fingerprints of
  enabled rows, the audit table, and the service that creates, reads and updates schedules under the
  caller's scope. The date and JSON columns hold the values themselves; \<open>fromisoformat\<close> and \<open>loads\<close> read
  back what \<open>isoformat\<close> and \<open>dumps\<close> wrote. Requests are the validated Pydantic models.
\<close>

section \<open>Equality of JSON values\<close>

text \<open>
  Python's \<open>==\<close>: objects compare by key whatever their order, \<open>True == 1\<close>, and a float equals an integer when
  it denotes it; floats are those \<open>repr\<close> prints without an exponent.
\<close>

fun num_text :: "json \<Rightarrow> string option" where
  "num_text (JBool b) = Some (if b then ''1.0'' else ''0.0'')"
| "num_text (JInt i) = Some (int_text i @ ''.0'')"
| "num_text (JFloat s) = Some (if s = ''-0.0'' then ''0.0'' else s)"
| "num_text _ = None"

function json_eq :: "json \<Rightarrow> json \<Rightarrow> bool" where
  "json_eq (JList xs) w = (case w of JList ys \<Rightarrow> length xs = length ys \<and> list_all (\<lambda>(x, y). json_eq x y) (zip xs ys) | _ \<Rightarrow> False)"
| "json_eq (JObj d) w = (case w of JObj e \<Rightarrow> length d = length e
     \<and> list_all (\<lambda>kv. case dget e (fst kv) of None \<Rightarrow> False | Some y \<Rightarrow> json_eq (snd kv) y) d | _ \<Rightarrow> False)"
| "json_eq (JStr s) w = (w = JStr s)"
| "json_eq JNull w = (w = JNull)"
| "json_eq (JBool b) w = (num_text w = num_text (JBool b))"
| "json_eq (JInt i) w = (num_text w = num_text (JInt i))"
| "json_eq (JFloat s) w = (s \<noteq> ''nan'' \<and> num_text w = num_text (JFloat s))"
  by pat_completeness auto
termination
  by (relation "measure (size \<circ> fst)") (auto simp: size_json_elem intro: size_json_pair dest: set_zip_leftD)

section \<open>Records\<close>

record stored_schedule =
  ss_schedule_id :: string
  ss_tenant_id :: string
  ss_region :: string
  ss_booking_center_code :: "string option"
  ss_owner_actor :: string
  ss_enabled :: bool
  ss_cadence :: cadence
  ss_portfolio_ids :: "string list"
  ss_output_formats :: "string list"
  ss_reporting_currency :: "string option"
  ss_options :: jobj
  ss_max_batch_size :: int
  ss_cadence_effective_on :: date
  ss_revision :: int
  ss_created_at :: dt
  ss_updated_at :: "dt option"

record schedule_audit =
  sa_audit_id :: string
  sa_schedule_id :: string
  sa_action :: string
  sa_actor :: string
  sa_correlation_id :: string
  sa_changes :: jobj
  sa_created_at :: dt

record schedule_create_request =
  sq_cadence :: cadence
  sq_portfolio_ids :: "string list"
  sq_output_formats :: "string list"
  sq_reporting_currency :: "string option"
  sq_options :: jobj
  sq_max_batch_size :: int

text \<open>A field that was omitted is \<open>None\<close>; the currency may also be given as null.\<close>

record schedule_update_request =
  uq_cadence :: "cadence option"
  uq_portfolio_ids :: "string list option"
  uq_output_formats :: "string list option"
  uq_reporting_currency :: "string option option"
  uq_options :: "jobj option"
  uq_max_batch_size :: "int option"
  uq_enabled :: "bool option"

fun cadence_text :: "cadence \<Rightarrow> string" where
  "cadence_text Monthly_end = ''monthly_end''"
| "cadence_text Quarter_end = ''quarter_end''"

fun SCHEDULE_CADENCE_FREQUENCY :: "cadence \<Rightarrow> string" where
  "SCHEDULE_CADENCE_FREQUENCY Monthly_end = ''monthly''"
| "SCHEDULE_CADENCE_FREQUENCY Quarter_end = ''quarterly''"

definition json_opt :: "string option \<Rightarrow> json" where
  "json_opt v = (case v of None \<Rightarrow> JNull | Some s \<Rightarrow> JStr s)"

abbreviation json_strs :: "string list \<Rightarrow> json" where
  "json_strs ss \<equiv> JList (map JStr ss)"

definition definition_fingerprint ::
    "env \<Rightarrow> string \<Rightarrow> string \<Rightarrow> string option \<Rightarrow> cadence \<Rightarrow> string list \<Rightarrow> string list \<Rightarrow> string option \<Rightarrow> jobj \<Rightarrow> int \<Rightarrow> string" where
  "definition_fingerprint e tenant_id region center cad portfolio_ids formats currency options max_size =
     take 32 (env_sha256 e (canonical_json (JObj [(''tenant_id'', JStr tenant_id), (''region'', JStr region),
       (''booking_center_code'', json_opt center), (''cadence'', JStr (cadence_text cad)),
       (''portfolio_ids'', json_strs portfolio_ids), (''requested_output_formats'', json_strs formats),
       (''reporting_currency'', json_opt currency), (''options'', JObj options), (''max_batch_size'', JInt max_size)])))"

definition fingerprint :: "env \<Rightarrow> stored_schedule \<Rightarrow> string" where
  "fingerprint e s = definition_fingerprint e (ss_tenant_id s) (ss_region s) (ss_booking_center_code s) (ss_cadence s)
     (ss_portfolio_ids s) (ss_output_formats s) (ss_reporting_currency s) (ss_options s) (ss_max_batch_size s)"

section \<open>The store\<close>

text \<open>A row is a schedule and its \<open>fingerprint\<close> column.\<close>

record schedule_store =
  schedules :: "(stored_schedule \<times> string) list"
  schedule_audits :: "schedule_audit list"

type_synonym 'a schedule_tx = "(schedule_store, 'a) tx"

text \<open>An enabled row has the fingerprint: the unique index refuses another one.\<close>

definition index_conflict :: "stored_schedule \<Rightarrow> string \<Rightarrow> (stored_schedule \<times> string) list \<Rightarrow> bool" where
  "index_conflict sch fp rows \<longleftrightarrow> ss_enabled sch \<and> list_ex (\<lambda>(x, g). ss_enabled x \<and> g = fp) rows"

definition insert_schedule :: "stored_schedule \<Rightarrow> string \<Rightarrow> unit schedule_tx" where
  "insert_schedule sch fp s =
     (if index_conflict sch fp (schedules s) then Inl (DuplicateScheduleDefinition [])
      else if ss_schedule_id sch \<in> (ss_schedule_id \<circ> fst) ` set (schedules s)
      then Inl (IntegrityError ''report_batch_schedule_definition.schedule_id'')
      else Inr ((), s\<lparr>schedules := schedules s @ [(sch, fp)]\<rparr>))"

text \<open>The columns of the \<open>UPDATE\<close>; identity, scope, owner and creation stay as stored.\<close>

definition overwrite :: "stored_schedule \<Rightarrow> stored_schedule \<Rightarrow> stored_schedule" where
  "overwrite sch x = x\<lparr>ss_enabled := ss_enabled sch, ss_cadence := ss_cadence sch, ss_portfolio_ids := ss_portfolio_ids sch,
     ss_output_formats := ss_output_formats sch, ss_reporting_currency := ss_reporting_currency sch,
     ss_options := ss_options sch, ss_max_batch_size := ss_max_batch_size sch,
     ss_cadence_effective_on := ss_cadence_effective_on sch, ss_revision := ss_revision sch,
     ss_updated_at := ss_updated_at sch\<rparr>"

definition at_revision :: "stored_schedule \<Rightarrow> stored_schedule \<times> string \<Rightarrow> bool" where
  "at_revision sch r \<longleftrightarrow> ss_schedule_id (fst r) = ss_schedule_id sch \<and> ss_revision (fst r) = ss_revision sch - 1"

definition write_schedule_definition :: "env \<Rightarrow> stored_schedule \<Rightarrow> unit schedule_tx" where
  "write_schedule_definition e sch s =
     (let fp = fingerprint e sch; stale = Inl (StaleScheduleRevision (ss_schedule_id sch)) in
      if ss_revision sch = 1 then insert_schedule sch fp s
      else if \<not> list_ex (at_revision sch) (schedules s) then stale
      else if index_conflict sch fp (filter (\<lambda>r. \<not> at_revision sch r) (schedules s))
      then Inl (DuplicateScheduleDefinition (ss_schedule_id sch))
      else Inr ((), s\<lparr>schedules := update_where (at_revision sch) (\<lambda>r. (overwrite sch (fst r), fp)) (schedules s)\<rparr>))"

definition write_schedule_audit :: "schedule_audit \<Rightarrow> unit schedule_tx" where
  "write_schedule_audit a s =
     (if sa_audit_id a \<in> sa_audit_id ` set (schedule_audits s)
      then Inl (IntegrityError ''report_batch_schedule_audit.audit_id'')
      else Inr ((), s\<lparr>schedule_audits := schedule_audits s @ [a]\<rparr>))"

definition resolved_duplicate :: "env \<Rightarrow> string \<Rightarrow> stored_schedule \<Rightarrow> schedule_store \<Rightarrow> err" where
  "resolved_duplicate e existing sch s =
     (if existing \<noteq> [] then DuplicateScheduleDefinition existing
      else case fetch (\<lambda>(x, g). g = fingerprint e sch \<and> ss_enabled x) (schedules s) of
        None \<Rightarrow> DuplicateScheduleDefinition (ss_schedule_id sch)
      | Some (x, _) \<Rightarrow> DuplicateScheduleDefinition (ss_schedule_id x))"

text \<open>The failed transaction is rolled back; the winner is looked up in the table as it was.\<close>

definition resolving :: "env \<Rightarrow> stored_schedule \<Rightarrow> unit schedule_tx \<Rightarrow> stored_schedule schedule_tx" where
  "resolving e sch m s = (case m s of
       Inl (DuplicateScheduleDefinition existing) \<Rightarrow> Inl (resolved_duplicate e existing sch s)
     | Inl x \<Rightarrow> Inl x
     | Inr (_, s') \<Rightarrow> Inr (sch, s'))"

definition save_schedule_definition :: "env \<Rightarrow> stored_schedule \<Rightarrow> stored_schedule schedule_tx" where
  "save_schedule_definition e sch = resolving e sch (write_schedule_definition e sch)"

definition save_schedule_definition_with_audit ::
    "env \<Rightarrow> stored_schedule \<Rightarrow> schedule_audit \<Rightarrow> stored_schedule schedule_tx" where
  "save_schedule_definition_with_audit e sch a =
     resolving e sch (tx_bind (write_schedule_definition e sch) (\<lambda>_. write_schedule_audit a))"

definition get_schedule_definition :: "string \<Rightarrow> schedule_store \<Rightarrow> stored_schedule option" where
  "get_schedule_definition sid s = map_option fst (fetch (\<lambda>r. ss_schedule_id (fst r) = sid) (schedules s))"

text \<open>\<open>ORDER BY created_at, schedule_id\<close> on the stored text, which is the order of the instants.\<close>

definition list_schedule_definitions :: "string \<Rightarrow> schedule_store \<Rightarrow> stored_schedule list" where
  "list_schedule_definitions tenant_id s =
     sort_key (\<lambda>x. text_key (Offset (ss_created_at x))) (sort_key ss_schedule_id
       (filter (\<lambda>x. ss_tenant_id x = tenant_id) (map fst (schedules s))))"

definition append_schedule_audit :: "schedule_audit \<Rightarrow> schedule_audit schedule_tx" where
  "append_schedule_audit a = tx_bind (write_schedule_audit a) (\<lambda>_. tx_return a)"

definition read_schedule_audit :: "string \<Rightarrow> schedule_store \<Rightarrow> schedule_audit list" where
  "read_schedule_audit sid s = filter (\<lambda>a. sa_schedule_id a = sid) (schedule_audits s)"

definition get_schedule_definition_with_audit ::
    "string \<Rightarrow> schedule_store \<Rightarrow> stored_schedule option \<times> schedule_audit list" where
  "get_schedule_definition_with_audit sid s = (case get_schedule_definition sid s of
     None \<Rightarrow> (None, []) | Some x \<Rightarrow> (Some x, read_schedule_audit sid s))"

section \<open>The service\<close>

type_synonym 'a sio = "(schedule_store, 'a) action"

definition read_store :: "(schedule_store \<Rightarrow> 'a) \<Rightarrow> 'a sio" where
  "read_store f = io_tx (tx_get f)"

definition schedule_not_found :: err where
  "schedule_not_found = ScheduleDefinitionError ''batch_schedule_not_found'' ''Batch schedule was not found.''"

definition caller_owns_scope :: "stored_schedule \<Rightarrow> caller_context \<Rightarrow> bool" where
  "caller_owns_scope sch caller \<longleftrightarrow> ss_tenant_id sch = cc_tenant_id caller \<and> ss_region sch = cc_region caller
     \<and> ss_booking_center_code sch = cc_booking_center_code caller"

definition require_scoped_caller :: "caller_context \<Rightarrow> unit res" where
  "require_scoped_caller caller = require (cc_tenant_id caller \<noteq> [] \<and> cc_region caller \<noteq> [])
     (ScheduleDefinitionError ''schedule_scope_unresolved''
       ''Schedule definition requires a caller context with tenant and region.'')"

definition validate_portfolio_bound :: "stored_schedule \<Rightarrow> unit res" where
  "validate_portfolio_bound sch = require (int (length (ss_portfolio_ids sch)) \<le> ss_max_batch_size sch)
     (ScheduleDefinitionError ''schedule_exceeds_max_batch_size''
       (''The schedule lists more portfolios than max_batch_size allows; it would ''
        @ ''fail with batch_size_exceeded on every due date.''))"

definition validate_ordering :: "stored_schedule \<Rightarrow> unit res" where
  "validate_ordering sch =
     (case validate_report_ordering_submission FAMILY_DEFINITIONS ''portfolio_review'' ''governed_schedule''
         (ss_output_formats sch) (ss_options sch) of
       Inl (ReportOrderingSubmissionError code message) \<Rightarrow> Inl (ScheduleDefinitionError code message)
     | r \<Rightarrow> r)"

text \<open>\<open>list(dict.fromkeys(ids))\<close>: the first occurrence of each.\<close>

definition dedupe :: "string list \<Rightarrow> string list" where
  "dedupe xs = rev (remdups (rev xs))"

definition dump_schedule :: "stored_schedule \<Rightarrow> json" where
  "dump_schedule sch = JObj [(''schedule_id'', JStr (ss_schedule_id sch)), (''tenant_id'', JStr (ss_tenant_id sch)),
     (''region'', JStr (ss_region sch)), (''booking_center_code'', json_opt (ss_booking_center_code sch)),
     (''owner_actor'', JStr (ss_owner_actor sch)), (''enabled'', JBool (ss_enabled sch)),
     (''cadence'', JStr (cadence_text (ss_cadence sch))), (''portfolio_ids'', json_strs (ss_portfolio_ids sch)),
     (''requested_output_formats'', json_strs (ss_output_formats sch)),
     (''reporting_currency'', json_opt (ss_reporting_currency sch)), (''options'', JObj (ss_options sch)),
     (''max_batch_size'', JInt (ss_max_batch_size sch)),
     (''cadence_effective_on'', JStr (date_isoformat (ss_cadence_effective_on sch))),
     (''revision'', JInt (ss_revision sch)), (''created_at'', JStr (stamp_text (Zulu (ss_created_at sch)))),
     (''updated_at'', json_opt (map_option (\<lambda>t. stamp_text (Zulu t)) (ss_updated_at sch)))]"

definition new_schedule :: "env \<Rightarrow> schedule_create_request \<Rightarrow> caller_context \<Rightarrow> dt \<Rightarrow> stored_schedule" where
  "new_schedule e q caller now = \<lparr>ss_schedule_id = ''rbsc_'' @ uuid4_hex e 0, ss_tenant_id = cc_tenant_id caller,
     ss_region = cc_region caller, ss_booking_center_code = cc_booking_center_code caller,
     ss_owner_actor = cc_triggered_by caller, ss_enabled = True, ss_cadence = sq_cadence q,
     ss_portfolio_ids = dedupe (sq_portfolio_ids q), ss_output_formats = sq_output_formats q,
     ss_reporting_currency = sq_reporting_currency q, ss_options = sq_options q, ss_max_batch_size = sq_max_batch_size q,
     ss_cadence_effective_on = dt_day now, ss_revision = 1, ss_created_at = now, ss_updated_at = None\<rparr>"

definition audit_record :: "env \<Rightarrow> string \<Rightarrow> string \<Rightarrow> caller_context \<Rightarrow> jobj \<Rightarrow> dt \<Rightarrow> schedule_audit" where
  "audit_record e sid action caller changes now = \<lparr>sa_audit_id = ''rbsa_'' @ uuid4_hex e 1, sa_schedule_id = sid,
     sa_action = action, sa_actor = cc_triggered_by caller, sa_correlation_id = cc_correlation_id caller,
     sa_changes = changes, sa_created_at = now\<rparr>"

definition create_schedule :: "env \<Rightarrow> schedule_create_request \<Rightarrow> caller_context \<Rightarrow> dt \<Rightarrow> stored_schedule sio" where
  "create_schedule e q caller now =
     io_bind (io_lift (require_scoped_caller caller)) (\<lambda>_.
     let sch = new_schedule e q caller now; target = fingerprint e sch in
     io_bind (read_store (list_schedule_definitions (cc_tenant_id caller))) (\<lambda>existing.
     case fetch (\<lambda>x. ss_enabled x \<and> fingerprint e x = target) existing of
       Some x \<Rightarrow> io_return x
     | None \<Rightarrow>
       io_bind (io_lift (bindE (validate_ordering sch) (\<lambda>_. validate_portfolio_bound sch))) (\<lambda>_.
       io_try (io_tx (save_schedule_definition_with_audit e sch
           (audit_record e (ss_schedule_id sch) ''created'' caller [(''definition'', dump_schedule sch)] now)))
         io_return
         (\<lambda>exc. case exc of
            DuplicateScheduleDefinition winner_id \<Rightarrow>
              io_bind (read_store (get_schedule_definition winner_id)) (\<lambda>winner.
              case winner of
                Some x \<Rightarrow> if ss_tenant_id x = cc_tenant_id caller then io_return x
                  else io_raise (ScheduleDefinitionError ''batch_schedule_conflict''
                    ''The schedule could not be created; retry the request.'')
              | None \<Rightarrow> io_raise (ScheduleDefinitionError ''batch_schedule_conflict''
                  ''The schedule could not be created; retry the request.''))
          | x \<Rightarrow> io_raise x))))"

definition get_schedule :: "string \<Rightarrow> caller_context \<Rightarrow> stored_schedule sio" where
  "get_schedule sid caller =
     io_bind (io_lift (require_scoped_caller caller)) (\<lambda>_.
     io_bind (read_store (get_schedule_definition sid)) (\<lambda>found.
     case found of None \<Rightarrow> io_raise schedule_not_found
     | Some sch \<Rightarrow> if caller_owns_scope sch caller then io_return sch else io_raise schedule_not_found))"

definition list_schedules :: "caller_context \<Rightarrow> stored_schedule list sio" where
  "list_schedules caller =
     io_bind (io_lift (require_scoped_caller caller)) (\<lambda>_.
     io_bind (read_store (list_schedule_definitions (cc_tenant_id caller))) (\<lambda>all.
     io_return (filter (\<lambda>x. caller_owns_scope x caller) all)))"

definition get_schedule_with_audit :: "string \<Rightarrow> caller_context \<Rightarrow> (stored_schedule \<times> schedule_audit list) sio" where
  "get_schedule_with_audit sid caller =
     io_bind (io_lift (require_scoped_caller caller)) (\<lambda>_.
     io_bind (read_store (get_schedule_definition_with_audit sid)) (\<lambda>(found, audit).
     case found of None \<Rightarrow> io_raise schedule_not_found
     | Some sch \<Rightarrow> if caller_owns_scope sch caller then io_return (sch, audit) else io_raise schedule_not_found))"

definition list_audit :: "string \<Rightarrow> caller_context \<Rightarrow> schedule_audit list sio" where
  "list_audit sid caller = io_bind (get_schedule_with_audit sid caller) (\<lambda>p. io_return (snd p))"

text \<open>One changed field: its name, the two values as the audit shows them, and the assignment.\<close>

record field_change =
  fc_field :: string
  fc_from :: json
  fc_to :: json
  fc_assign :: "stored_schedule \<Rightarrow> stored_schedule"

definition field_change_of ::
    "string \<Rightarrow> 'v option \<Rightarrow> ('v \<Rightarrow> 'v \<Rightarrow> bool) \<Rightarrow> 'v \<Rightarrow> ('v \<Rightarrow> json) \<Rightarrow> ('v \<Rightarrow> stored_schedule \<Rightarrow> stored_schedule) \<Rightarrow> field_change list" where
  "field_change_of name given same old js assign = (case given of None \<Rightarrow> []
     | Some v \<Rightarrow> if same v old then []
         else [\<lparr>fc_field = name, fc_from = js old, fc_to = js v, fc_assign = assign v\<rparr>])"

definition schedule_changes :: "schedule_update_request \<Rightarrow> stored_schedule \<Rightarrow> field_change list" where
  "schedule_changes q x =
     field_change_of ''cadence'' (uq_cadence q) (=) (ss_cadence x) (\<lambda>v. JStr (cadence_text v)) (\<lambda>v y. y\<lparr>ss_cadence := v\<rparr>)
     @ field_change_of ''portfolio_ids'' (map_option dedupe (uq_portfolio_ids q)) (=) (ss_portfolio_ids x) json_strs
         (\<lambda>v y. y\<lparr>ss_portfolio_ids := v\<rparr>)
     @ field_change_of ''requested_output_formats'' (uq_output_formats q) (=) (ss_output_formats x) json_strs
         (\<lambda>v y. y\<lparr>ss_output_formats := v\<rparr>)
     @ field_change_of ''reporting_currency'' (uq_reporting_currency q) (=) (ss_reporting_currency x) json_opt
         (\<lambda>v y. y\<lparr>ss_reporting_currency := v\<rparr>)
     @ field_change_of ''options'' (uq_options q) (\<lambda>v w. json_eq (JObj v) (JObj w)) (ss_options x) JObj
         (\<lambda>v y. y\<lparr>ss_options := v\<rparr>)
     @ field_change_of ''max_batch_size'' (uq_max_batch_size q) (=) (ss_max_batch_size x) JInt
         (\<lambda>v y. y\<lparr>ss_max_batch_size := v\<rparr>)
     @ field_change_of ''enabled'' (uq_enabled q) (=) (ss_enabled x) JBool (\<lambda>v y. y\<lparr>ss_enabled := v\<rparr>)"

definition updated_schedule :: "field_change list \<Rightarrow> stored_schedule \<Rightarrow> dt \<Rightarrow> stored_schedule" where
  "updated_schedule changes x now =
     (let y = fold fc_assign changes x;
          y = (if ''cadence'' \<in> set (map fc_field changes) then y\<lparr>ss_cadence_effective_on := dt_day now\<rparr> else y)
      in y\<lparr>ss_updated_at := Some now, ss_revision := ss_revision x + 1\<rparr>)"

definition audit_action :: "field_change list \<Rightarrow> stored_schedule \<Rightarrow> string" where
  "audit_action changes y =
     (if set (map fc_field changes) = {''enabled''} then if ss_enabled y then ''enabled'' else ''disabled'' else ''updated'')"

definition audit_changes :: "field_change list \<Rightarrow> jobj" where
  "audit_changes changes = map (\<lambda>c. (fc_field c, JObj [(''from'', fc_from c), (''to'', fc_to c)])) changes"

text \<open>The part of \<open>update_schedule\<close> after the schedule was read, on whatever the store holds by then.\<close>

definition apply_update ::
    "env \<Rightarrow> stored_schedule \<Rightarrow> schedule_update_request \<Rightarrow> caller_context \<Rightarrow> dt \<Rightarrow> stored_schedule sio" where
  "apply_update e x q caller now =
     (let changes = schedule_changes q x in
      if changes = [] then io_return x
      else let y = updated_schedule changes x now in
        io_bind (io_lift (bindE (validate_ordering y) (\<lambda>_. validate_portfolio_bound y))) (\<lambda>_.
        io_try (io_tx (save_schedule_definition_with_audit e y
            (audit_record e (ss_schedule_id y) (audit_action changes y) caller (audit_changes changes) now)))
          io_return
          (\<lambda>exc. case exc of
             StaleScheduleRevision _ \<Rightarrow> io_raise (ScheduleDefinitionError ''batch_schedule_update_conflict''
               ''The schedule changed concurrently; reload it and retry the update.'')
           | DuplicateScheduleDefinition _ \<Rightarrow> io_raise (ScheduleDefinitionError ''batch_schedule_duplicate_definition''
               (''The change would make this schedule identical to another enabled ''
                @ ''schedule in the same scope.''))
           | z \<Rightarrow> io_raise z)))"

definition update_schedule ::
    "env \<Rightarrow> string \<Rightarrow> schedule_update_request \<Rightarrow> caller_context \<Rightarrow> dt \<Rightarrow> stored_schedule sio" where
  "update_schedule e sid q caller now =
     io_bind (get_schedule sid caller) (\<lambda>x. apply_update e x q caller now)"

end
