(* ===== verification/Schedule_Laws.thy ===== *)
theory Schedule_Laws
  imports Schedule_Service
begin

text \<open>
  What the schedule service guarantees: every store it can reach is consistent, whatever the interleaving
  of creates and updates; an update planned on an outdated reading is refused; repeating a create returns
  the schedule it made.
\<close>

section \<open>Runs of the service\<close>

text \<open>
  A run: creates, and updates that write in a later store than the one they read the schedule from.
\<close>

inductive schedule_run :: "(string \<Rightarrow> string) \<Rightarrow> schedule_store \<Rightarrow> schedule_store \<Rightarrow> bool" for sha where
  start: "schedule_run sha s s"
| create: "schedule_run sha s t \<Longrightarrow> env_sha256 e = sha \<Longrightarrow> schedule_run sha s (snd (create_schedule e q caller now t))"
| update: "schedule_run sha s u \<Longrightarrow> get_schedule_definition sid u = Some x \<Longrightarrow> schedule_run sha u t \<Longrightarrow> env_sha256 e = sha
    \<Longrightarrow> schedule_run sha s (snd (apply_update e x q caller now t))"

definition no_schedules :: schedule_store where
  "no_schedules = \<lparr>schedules = [], schedule_audits = []\<rparr>"

definition fingerprint_by :: "(string \<Rightarrow> string) \<Rightarrow> stored_schedule \<Rightarrow> string" where
  "fingerprint_by sha x = take 32 (sha (canonical_json (JObj [(''tenant_id'', JStr (ss_tenant_id x)),
     (''region'', JStr (ss_region x)), (''booking_center_code'', json_opt (ss_booking_center_code x)),
     (''cadence'', JStr (cadence_text (ss_cadence x))), (''portfolio_ids'', json_strs (ss_portfolio_ids x)),
     (''requested_output_formats'', json_strs (ss_output_formats x)),
     (''reporting_currency'', json_opt (ss_reporting_currency x)), (''options'', JObj (ss_options x)),
     (''max_batch_size'', JInt (ss_max_batch_size x))])))"

lemma fingerprint_sha: "fingerprint e x = fingerprint_by (env_sha256 e) x"
  by (simp add: fingerprint_def definition_fingerprint_def fingerprint_by_def)

section \<open>Writing\<close>

text \<open>What a committed save did to the two tables.\<close>

definition inserted :: "(string \<Rightarrow> string) \<Rightarrow> stored_schedule \<Rightarrow> schedule_audit \<Rightarrow> schedule_store \<Rightarrow> schedule_store \<Rightarrow> bool" where
  "inserted sha y a s s' \<longleftrightarrow> ss_revision y = 1 \<and> ss_schedule_id y \<notin> (ss_schedule_id \<circ> fst) ` set (schedules s)
     \<and> (ss_enabled y \<longrightarrow> (\<forall>(x, g) \<in> set (schedules s). ss_enabled x \<longrightarrow> g \<noteq> fingerprint_by sha y))
     \<and> sa_audit_id a \<notin> sa_audit_id ` set (schedule_audits s)
     \<and> s' = s\<lparr>schedules := schedules s @ [(y, fingerprint_by sha y)], schedule_audits := schedule_audits s @ [a]\<rparr>"

definition replaced :: "(string \<Rightarrow> string) \<Rightarrow> stored_schedule \<Rightarrow> schedule_audit \<Rightarrow> schedule_store \<Rightarrow> schedule_store \<Rightarrow> bool" where
  "replaced sha y a s s' \<longleftrightarrow> ss_revision y \<noteq> 1 \<and> (\<exists>r \<in> set (schedules s). at_revision y r)
     \<and> (ss_enabled y \<longrightarrow> (\<forall>r \<in> set (schedules s). \<not> at_revision y r \<and> ss_enabled (fst r) \<longrightarrow> snd r \<noteq> fingerprint_by sha y))
     \<and> sa_audit_id a \<notin> sa_audit_id ` set (schedule_audits s)
     \<and> s' = s\<lparr>schedules := update_where (at_revision y) (\<lambda>r. (overwrite y (fst r), fingerprint_by sha y)) (schedules s),
           schedule_audits := schedule_audits s @ [a]\<rparr>"

lemma save_Inr:
  "save_schedule_definition_with_audit e y a s = Inr (r, s') \<longleftrightarrow>
     r = y \<and> (inserted (env_sha256 e) y a s s' \<or> replaced (env_sha256 e) y a s s')"
  by (auto simp: save_schedule_definition_with_audit_def resolving_def tx_bind_def write_schedule_definition_def
      write_schedule_audit_def insert_schedule_def index_conflict_def fingerprint_sha inserted_def replaced_def
      list_ex_iff Let_def split: sum.splits err.splits if_splits)

definition identity_of :: "stored_schedule \<Rightarrow> string \<times> string \<times> string \<times> string option \<times> string \<times> dt" where
  "identity_of x = (ss_schedule_id x, ss_tenant_id x, ss_region x, ss_booking_center_code x, ss_owner_actor x, ss_created_at x)"

lemma overwrite_frame [simp]: "identity_of (overwrite y x) = identity_of x" "ss_revision (overwrite y x) = ss_revision y"
  "ss_schedule_id (overwrite y x) = ss_schedule_id x"
  by (simp_all add: overwrite_def identity_of_def)

lemma overwrite_same: "identity_of y = identity_of x \<Longrightarrow> overwrite y x = y"
  by (simp add: overwrite_def identity_of_def)

lemma change_frame:
  assumes "c \<in> set (schedule_changes q x)"
  shows "identity_of (fc_assign c y) = identity_of y" "ss_revision (fc_assign c y) = ss_revision y"
  using assms
  by (auto simp: schedule_changes_def field_change_of_def identity_of_def split: option.splits if_splits)

lemma fold_frame:
  assumes "\<forall>c \<in> set cs. \<forall>y. identity_of (fc_assign c y) = identity_of y \<and> ss_revision (fc_assign c y) = ss_revision y"
  shows "identity_of (fold fc_assign cs x) = identity_of x"
  using assms by (induction cs arbitrary: x) auto

lemma updated_frame:
  "identity_of (updated_schedule (schedule_changes q x) x now) = identity_of x"
  "ss_schedule_id (updated_schedule (schedule_changes q x) x now) = ss_schedule_id x"
  "ss_revision (updated_schedule (schedule_changes q x) x now) = ss_revision x + 1"
proof -
  have "identity_of (fold fc_assign (schedule_changes q x) x) = identity_of x"
    by (rule fold_frame) (simp add: change_frame)
  then show "identity_of (updated_schedule (schedule_changes q x) x now) = identity_of x"
    by (simp add: updated_schedule_def Let_def identity_of_def)
  then show "ss_schedule_id (updated_schedule (schedule_changes q x) x now) = ss_schedule_id x"
    by (simp add: identity_of_def)
qed (simp add: updated_schedule_def Let_def)

abbreviation schedule_valid :: "stored_schedule \<Rightarrow> bool" where
  "schedule_valid y \<equiv> validate_ordering y = Inr () \<and> validate_portfolio_bound y = Inr ()"

lemma create_effect:
  "snd (create_schedule e q caller now t) = t
   \<or> (\<exists>a. sa_schedule_id a = ss_schedule_id (new_schedule e q caller now) \<and> schedule_valid (new_schedule e q caller now)
        \<and> inserted (env_sha256 e) (new_schedule e q caller now) a t (snd (create_schedule e q caller now t)))"
proof -
  let ?y = "new_schedule e q caller now"
  let ?a = "audit_record e (ss_schedule_id ?y) ''created'' caller [(''definition'', dump_schedule ?y)] now"
  have one: "ss_revision ?y = 1" by (simp add: new_schedule_def)
  have a: "sa_schedule_id ?a = ss_schedule_id ?y" by (simp add: audit_record_def)
  show ?thesis
  proof (cases "save_schedule_definition_with_audit e ?y ?a t")
    case (Inl x)
    then have "snd (create_schedule e q caller now t) = t"
      by (auto simp: create_schedule_def io_bind_def io_lift_def read_store_def io_tx_def commit_def tx_get_def io_return_def
          io_raise_def io_try_def Let_def split: sum.splits option.splits err.splits)
    then show ?thesis ..
  next
    case (Inr p)
    then obtain s' where p: "p = (?y, s')" and ins: "inserted (env_sha256 e) ?y ?a t s'"
      using save_Inr [of e ?y ?a t] one by (cases p) (auto simp: replaced_def)
    have "snd (create_schedule e q caller now t) = t
        \<or> schedule_valid ?y \<and> snd (create_schedule e q caller now t) = s'"
      using Inr unfolding p
      by (auto simp: create_schedule_def io_bind_def io_lift_def read_store_def io_tx_def commit_def tx_get_def io_return_def
          io_raise_def io_try_def Let_def split: sum.splits option.splits)
    then show ?thesis using ins a by metis
  qed
qed

lemma update_effect:
  fixes e :: env and now :: dt and x :: stored_schedule and q :: schedule_update_request
  defines "y \<equiv> updated_schedule (schedule_changes q x) x now"
  shows "snd (apply_update e x q caller now t) = t
   \<or> (\<exists>a. schedule_changes q x \<noteq> [] \<and> sa_schedule_id a = ss_schedule_id x \<and> schedule_valid y
        \<and> apply_update e x q caller now t = (Done y, snd (apply_update e x q caller now t))
        \<and> (inserted (env_sha256 e) y a t (snd (apply_update e x q caller now t))
           \<or> replaced (env_sha256 e) y a t (snd (apply_update e x q caller now t))))"
proof -
  let ?cs = "schedule_changes q x"
  let ?a = "audit_record e (ss_schedule_id y) (audit_action ?cs y) caller (audit_changes ?cs) now"
  have a: "sa_schedule_id ?a = ss_schedule_id x" by (simp add: audit_record_def y_def updated_frame)
  show ?thesis
  proof (cases "save_schedule_definition_with_audit e y ?a t")
    case (Inl z)
    then have "snd (apply_update e x q caller now t) = t"
      by (auto simp: apply_update_def y_def [symmetric] io_bind_def io_lift_def io_tx_def commit_def io_return_def
          io_raise_def io_try_def Let_def split: sum.splits err.splits)
    then show ?thesis ..
  next
    case (Inr p)
    then obtain s' where p: "p = (y, s')" and w: "inserted (env_sha256 e) y ?a t s' \<or> replaced (env_sha256 e) y ?a t s'"
      using save_Inr [of e y ?a t] by (cases p) auto
    have "snd (apply_update e x q caller now t) = t
        \<or> ?cs \<noteq> [] \<and> schedule_valid y \<and> apply_update e x q caller now t = (Done y, s')"
      using Inr unfolding p
      by (auto simp: apply_update_def y_def [symmetric] io_bind_def io_lift_def io_tx_def commit_def io_return_def
          io_raise_def io_try_def Let_def split: sum.splits)
    then show ?thesis using w a by (metis snd_conv)
  qed
qed

section \<open>How a store grows\<close>

definition schedule_evolves :: "stored_schedule \<Rightarrow> stored_schedule \<Rightarrow> bool" where
  "schedule_evolves x x' \<longleftrightarrow> x' = x \<or> ss_revision x < ss_revision x' \<and> identity_of x' = identity_of x"

definition store_grows :: "schedule_store \<Rightarrow> schedule_store \<Rightarrow> bool" where
  "store_grows s t \<longleftrightarrow> (\<forall>x \<in> fst ` set (schedules s). \<exists>x' \<in> fst ` set (schedules t). schedule_evolves x x')
     \<and> (\<exists>as. schedule_audits t = schedule_audits s @ as)"

lemma store_grows_refl: "store_grows s s"
  by (auto simp: store_grows_def schedule_evolves_def)

lemma store_grows_trans: "store_grows s t \<Longrightarrow> store_grows t u \<Longrightarrow> store_grows s u"
proof -
  assume st: "store_grows s t" and tu: "store_grows t u"
  have "\<exists>x'' \<in> fst ` set (schedules u). schedule_evolves x x''" if x: "x \<in> fst ` set (schedules s)" for x
  proof -
    obtain x' where x': "x' \<in> fst ` set (schedules t)" "schedule_evolves x x'"
      using st x unfolding store_grows_def by blast
    obtain x'' where "x'' \<in> fst ` set (schedules u)" "schedule_evolves x' x''"
      using tu x'(1) unfolding store_grows_def by blast
    then show ?thesis using x'(2) by (auto simp: schedule_evolves_def intro: rev_bexI)
  qed
  moreover have "\<exists>as. schedule_audits u = schedule_audits s @ as" using st tu by (auto simp: store_grows_def)
  ultimately show ?thesis by (simp add: store_grows_def)
qed

interpretation schedule_effects: effects store_grows
  by unfold_locales (rule store_grows_refl, rule store_grows_trans)

lemma written_grows: "inserted sha y a s s' \<or> replaced sha y a s s' \<Longrightarrow> store_grows s s'"
proof (elim disjE)
  assume "inserted sha y a s s'"
  then show ?thesis by (auto simp: inserted_def store_grows_def schedule_evolves_def)
next
  assume r: "replaced sha y a s s'"
  let ?f = "\<lambda>r. if at_revision y r then (overwrite y (fst r), fingerprint_by sha y) else r"
  have "schedule_evolves (fst r) (fst (?f r))" for r
    by (auto simp: schedule_evolves_def at_revision_def)
  then have "\<exists>x' \<in> fst ` ?f ` set (schedules s). schedule_evolves x x'" if "x \<in> fst ` set (schedules s)" for x
    using that by blast
  then show ?thesis using r by (auto simp: replaced_def store_grows_def set_update_where simp del: image_iff)
qed

lemma grows_create: "within store_grows (create_schedule e q caller now)"
  unfolding within_def using create_effect written_grows store_grows_refl by metis

lemma store_grows_update: "within store_grows (apply_update e x q caller now)"
  unfolding within_def using update_effect written_grows store_grows_refl by metis

lemma run_grows: "schedule_run sha s t \<Longrightarrow> store_grows s t"
proof (induction rule: schedule_run.induct)
  case (create s t e q caller now)
  show ?case using create.IH grows_create [of e q caller now] unfolding within_def by (blast intro: store_grows_trans)
next
  case (update s u sid x t e q caller now)
  show ?case using update.IH store_grows_update [of e x q caller now] unfolding within_def by (blast intro: store_grows_trans)
qed (rule store_grows_refl)

lemma get_schedule_rows: "get_schedule_definition sid s = Some x \<Longrightarrow> x \<in> fst ` set (schedules s) \<and> ss_schedule_id x = sid"
  by (auto simp: get_schedule_definition_def dest!: fetch_SomeD intro: rev_image_eqI)

section \<open>The invariant\<close>

definition row_ok :: "(string \<Rightarrow> string) \<Rightarrow> schedule_store \<Rightarrow> stored_schedule \<times> string \<Rightarrow> bool" where
  "row_ok sha s r \<longleftrightarrow> snd r = fingerprint_by sha (fst r) \<and> 1 \<le> ss_revision (fst r)
     \<and> ss_revision (fst r) = int (length (read_schedule_audit (ss_schedule_id (fst r)) s)) \<and> schedule_valid (fst r)"

definition index_ok :: "(stored_schedule \<times> string) set \<Rightarrow> bool" where
  "index_ok rows \<longleftrightarrow> (\<forall>r \<in> rows. \<forall>r' \<in> rows. ss_enabled (fst r) \<and> ss_enabled (fst r') \<and> snd r = snd r' \<longrightarrow> r = r')"

lemma index_ok_insert:
  "index_ok rows \<Longrightarrow> (\<And>r. r \<in> rows \<Longrightarrow> ss_enabled (fst n) \<Longrightarrow> ss_enabled (fst r) \<Longrightarrow> snd r \<noteq> snd n) \<Longrightarrow> index_ok (insert n rows)"
  unfolding index_ok_def by (metis insert_iff)

lemma index_ok_subset: "index_ok rows \<Longrightarrow> rows' \<subseteq> rows \<Longrightarrow> index_ok rows'"
  unfolding index_ok_def by blast

definition store_ok :: "(string \<Rightarrow> string) \<Rightarrow> schedule_store \<Rightarrow> bool" where
  "store_ok sha s \<longleftrightarrow> distinct (map (ss_schedule_id \<circ> fst) (schedules s))
     \<and> (\<forall>r \<in> set (schedules s). row_ok sha s r)
     \<and> index_ok (set (schedules s))
     \<and> (\<forall>a \<in> set (schedule_audits s). \<exists>r \<in> set (schedules s). ss_schedule_id (fst r) = sa_schedule_id a)
     \<and> distinct (map sa_audit_id (schedule_audits s))"

lemma same_row:
  "store_ok sha s \<Longrightarrow> r \<in> set (schedules s) \<Longrightarrow> r' \<in> set (schedules s)
    \<Longrightarrow> ss_schedule_id (fst r) = ss_schedule_id (fst r') \<Longrightarrow> r = r'"
  unfolding store_ok_def distinct_map by (metis comp_apply inj_onD)

lemma ok_inserted:
  assumes ok: "store_ok sha s" and w: "inserted sha y a s s'" and a: "sa_schedule_id a = ss_schedule_id y"
    and v: "schedule_valid y"
  shows "store_ok sha s'"
proof -
  let ?r = "(y, fingerprint_by sha y)"
  have s': "s' = s\<lparr>schedules := schedules s @ [?r], schedule_audits := schedule_audits s @ [a]\<rparr>"
    and fresh: "\<forall>r \<in> set (schedules s). ss_schedule_id (fst r) \<noteq> ss_schedule_id y" and one: "ss_revision y = 1"
    and index: "ss_enabled y \<Longrightarrow> r \<in> set (schedules s) \<Longrightarrow> ss_enabled (fst r) \<Longrightarrow> snd r \<noteq> fingerprint_by sha y"
    and audit: "sa_audit_id a \<notin> sa_audit_id ` set (schedule_audits s)" for r
    using w by (auto simp: inserted_def rev_image_eqI)
  have none: "read_schedule_audit (ss_schedule_id y) s = []"
    using ok fresh by (fastforce simp: store_ok_def read_schedule_audit_def filter_empty_conv)
  have new: "row_ok sha s' ?r" using none a one v by (simp add: row_ok_def s' read_schedule_audit_def)
  have old: "row_ok sha s' r" if "r \<in> set (schedules s)" for r
    using ok fresh that a by (auto simp: store_ok_def row_ok_def s' read_schedule_audit_def)
  have "distinct (map (ss_schedule_id \<circ> fst) (schedules s'))" using ok fresh by (auto simp: store_ok_def s')
  moreover have "\<forall>r \<in> set (schedules s'). row_ok sha s' r" using new old by (auto simp: s')
  moreover have "index_ok (insert ?r (set (schedules s)))"
    using ok index by (intro index_ok_insert) (simp_all add: store_ok_def)
  moreover have "\<forall>b \<in> set (schedule_audits s'). \<exists>r \<in> set (schedules s'). ss_schedule_id (fst r) = sa_schedule_id b"
    using ok a by (auto simp: store_ok_def s')
  moreover have "distinct (map sa_audit_id (schedule_audits s'))" using ok audit by (auto simp: store_ok_def s')
  ultimately show ?thesis by (simp add: store_ok_def s')
qed

lemma ok_replaced:
  assumes ok: "store_ok sha s" and w: "replaced sha y a s s'" and a: "sa_schedule_id a = ss_schedule_id y"
    and v: "schedule_valid y" and x: "\<And>r. r \<in> set (schedules s) \<Longrightarrow> at_revision y r \<Longrightarrow> identity_of (fst r) = identity_of y"
  shows "store_ok sha s'"
proof -
  let ?n = "(y, fingerprint_by sha y)"
  let ?f = "\<lambda>r. if at_revision y r then ?n else r"
  obtain r0 where r0: "r0 \<in> set (schedules s)" "at_revision y r0" using w by (auto simp: replaced_def)
  have only: "at_revision y r \<longleftrightarrow> r = r0" if "r \<in> set (schedules s)" for r
    using same_row [OF ok that r0(1)] r0(2) by (auto simp: at_revision_def)
  have id0: "ss_schedule_id (fst r0) = ss_schedule_id y" "ss_revision (fst r0) = ss_revision y - 1"
    using r0(2) by (simp_all add: at_revision_def)
  have rows: "schedules s' = map ?f (schedules s)" and audits: "schedule_audits s' = schedule_audits s @ [a]"
    and audit: "sa_audit_id a \<notin> sa_audit_id ` set (schedule_audits s)"
    and index: "ss_enabled y \<Longrightarrow> r \<in> set (schedules s) \<Longrightarrow> r \<noteq> r0 \<Longrightarrow> ss_enabled (fst r) \<Longrightarrow> snd r \<noteq> fingerprint_by sha y" for r
    using w only x overwrite_same by (auto simp: replaced_def update_where_def)
  have ids: "map (ss_schedule_id \<circ> fst) (schedules s') = map (ss_schedule_id \<circ> fst) (schedules s)"
    using only id0 by (auto simp: rows)
  have set': "set (schedules s') = insert ?n (set (schedules s) - {r0})" using only r0 by (auto simp: rows)
  have old: "row_ok sha s' r" if "r \<in> set (schedules s)" "r \<noteq> r0" for r
    using ok that same_row [OF ok that(1) r0(1)] a id0 by (auto simp: store_ok_def row_ok_def audits read_schedule_audit_def)
  have "row_ok sha s r0" using ok r0 by (simp add: store_ok_def)
  then have new: "row_ok sha s' ?n" using v a id0 by (simp add: row_ok_def audits read_schedule_audit_def)
  have "distinct (map (ss_schedule_id \<circ> fst) (schedules s'))" using ok by (simp only: ids store_ok_def)
  moreover have "\<forall>r \<in> set (schedules s'). row_ok sha s' r" using new old by (auto simp: set')
  moreover have "index_ok (set (schedules s))" using ok by (simp add: store_ok_def)
  then have "index_ok (insert ?n (set (schedules s) - {r0}))"
    by (intro index_ok_insert) (erule index_ok_subset, blast, use index in simp)
  moreover have "\<forall>b \<in> set (schedule_audits s'). \<exists>r \<in> set (schedules s'). ss_schedule_id (fst r) = sa_schedule_id b"
    unfolding set' audits using ok a id0 by (fastforce simp: store_ok_def)
  moreover have "distinct (map sa_audit_id (schedule_audits s'))" using ok audit by (auto simp: store_ok_def audits)
  ultimately show ?thesis unfolding store_ok_def set' by blast
qed

lemma evolves_row:
  assumes ok: "store_ok sha t" and grows: "store_grows u t" and x: "x \<in> fst ` set (schedules u)"
    and r: "r \<in> set (schedules t)" "ss_schedule_id (fst r) = ss_schedule_id x"
  shows "schedule_evolves x (fst r)"
proof -
  obtain r' where r': "r' \<in> set (schedules t)" "schedule_evolves x (fst r')" using grows x by (auto simp: store_grows_def)
  then have "ss_schedule_id (fst r') = ss_schedule_id x" by (auto simp: schedule_evolves_def identity_of_def)
  then have "r' = r" using same_row [OF ok r'(1) r(1)] r(2) by simp
  then show ?thesis using r' by simp
qed

text \<open>A committed update overwrote exactly the reading it was planned on.\<close>

lemma update_current:
  assumes ok: "store_ok sha t" and grows: "store_grows u t" and x: "x \<in> fst ` set (schedules u)"
    and r: "r \<in> set (schedules t)" "at_revision (updated_schedule (schedule_changes q x) x now) r"
  shows "fst r = x"
  using evolves_row [OF ok grows x r(1)] r(2) by (auto simp: at_revision_def updated_frame schedule_evolves_def)

lemma update_replaced:
  assumes ok: "store_ok sha u" and x: "x \<in> fst ` set (schedules u)"
    and moved: "snd (apply_update e x q caller now t) \<noteq> t" and sha: "env_sha256 e = sha"
  defines "y \<equiv> updated_schedule (schedule_changes q x) x now"
  obtains a where "replaced sha y a t (snd (apply_update e x q caller now t))" "sa_schedule_id a = ss_schedule_id x"
    "schedule_valid y" "apply_update e x q caller now t = (Done y, snd (apply_update e x q caller now t))"
proof -
  have "1 \<le> ss_revision x" using ok x by (auto simp: store_ok_def row_ok_def)
  then have "ss_revision y \<noteq> 1" by (simp add: y_def updated_frame)
  then show thesis using that update_effect [of e x q caller now t] moved sha unfolding y_def by (auto simp: inserted_def)
qed

lemma run_ok: "schedule_run sha s t \<Longrightarrow> store_ok sha s \<Longrightarrow> store_ok sha t"
proof (induction rule: schedule_run.induct)
  case (create s t e q caller now)
  then show ?case using create_effect [of e q caller now t] ok_inserted by metis
next
  case (update s u sid x t e q caller now)
  note ok = update.IH(1) [OF update.prems]
  note okt = update.IH(2) [OF ok]
  have x: "x \<in> fst ` set (schedules u)" using get_schedule_rows update.hyps(2) by blast
  let ?y = "updated_schedule (schedule_changes q x) x now" and ?t' = "snd (apply_update e x q caller now t)"
  show ?case
  proof (cases "?t' = t")
    case False
    then obtain a where w: "replaced sha ?y a t ?t'" "sa_schedule_id a = ss_schedule_id x" "schedule_valid ?y"
      using update_replaced [OF ok x _ update.hyps(4)] by metis
    have "identity_of (fst r) = identity_of ?y" if "r \<in> set (schedules t)" "at_revision ?y r" for r
      using update_current [OF okt run_grows [OF update.hyps(3)] x that] by (simp add: updated_frame)
    then show ?thesis using ok_replaced [OF okt w(1)] w(2,3) by (simp add: updated_frame)
  qed (use okt in simp)
qed

lemma no_schedules_ok: "store_ok sha no_schedules"
  by (simp add: store_ok_def no_schedules_def index_ok_def)

text \<open>
  (C33) Every store the schedule service can reach, under any interleaving of creates and of updates that were
  planned on earlier readings, is consistent: identifiers are unique; each schedule passed the ordering
  catalogue and lists no more portfolios than its batches may hold; its revision counts its audit records,
  so every version is explained by exactly one; and no two enabled schedules have one fingerprint.
\<close>

theorem reachable_schedules_consistent:
  assumes "schedule_run sha no_schedules s"
  shows "distinct (map (ss_schedule_id \<circ> fst) (schedules s))
    \<and> (\<forall>x \<in> fst ` set (schedules s).
         ss_revision x = int (length (read_schedule_audit (ss_schedule_id x) s)) \<and> 1 \<le> ss_revision x
         \<and> int (length (ss_portfolio_ids x)) \<le> ss_max_batch_size x
         \<and> validate_report_ordering_submission FAMILY_DEFINITIONS ''portfolio_review'' ''governed_schedule''
             (ss_output_formats x) (ss_options x) = Inr ())
    \<and> (\<forall>x \<in> fst ` set (schedules s). \<forall>y \<in> fst ` set (schedules s).
         ss_enabled x \<and> ss_enabled y \<and> fingerprint_by sha x = fingerprint_by sha y \<longrightarrow> x = y)"
proof -
  have ok: "store_ok sha s" by (rule run_ok [OF assms no_schedules_ok])
  have rows: "row_ok sha s r" if "r \<in> set (schedules s)" for r using ok that by (simp add: store_ok_def)
  have valid: "int (length (ss_portfolio_ids x)) \<le> ss_max_batch_size x
      \<and> validate_report_ordering_submission FAMILY_DEFINITIONS ''portfolio_review'' ''governed_schedule''
             (ss_output_formats x) (ss_options x) = Inr ()" if "schedule_valid x" for x
    using that by (auto simp: validate_portfolio_bound_def validate_ordering_def require_def split: if_splits sum.splits err.splits)
  have "x = y" if "(x, g) \<in> set (schedules s)" "(y, h) \<in> set (schedules s)" "ss_enabled x" "ss_enabled y"
      "fingerprint_by sha x = fingerprint_by sha y" for x y g h
  proof -
    have "index_ok (set (schedules s))" using ok by (simp add: store_ok_def)
    moreover have "g = h" using rows [OF that(1)] rows [OF that(2)] that(5) by (simp add: row_ok_def)
    ultimately show ?thesis using that(1-4) by (fastforce simp: index_ok_def)
  qed
  then show ?thesis using ok rows valid by (fastforce simp: store_ok_def row_ok_def)
qed

section \<open>Samples\<close>

definition sample_schedule_request :: schedule_create_request where
  "sample_schedule_request = \<lparr>sq_cadence = Monthly_end, sq_portfolio_ids = [''p1'', ''p2'', ''p1''], sq_output_formats = [''pdf''],
     sq_reporting_currency = None, sq_options = [], sq_max_batch_size = 250\<rparr>"

definition sample_schedule :: stored_schedule where
  "sample_schedule = new_schedule sample_env sample_schedule_request sample_batch_caller 1776816000000000"

definition sample_audit :: schedule_audit where
  "sample_audit = audit_record sample_env ''rbsc_a'' ''created'' sample_batch_caller
     [(''definition'', dump_schedule sample_schedule)] 1776816000000000"

definition sample_schedules :: schedule_store where
  "sample_schedules = \<lparr>schedules = [(sample_schedule, fingerprint sample_env sample_schedule)], schedule_audits = [sample_audit]\<rparr>"

lemma sample_char: "char_of (97 :: nat) = CHR ''a''"
  by code_simp

lemma sample_char2: "char_of (102 :: nat) = CHR ''f''" "char_of (98 :: nat) = CHR ''b''"
  by code_simp+

lemma sample_schedule_fields:
  "ss_schedule_id sample_schedule = ''rbsc_a''" "ss_portfolio_ids sample_schedule = [''p1'', ''p2'']" "ss_revision sample_schedule = 1"
  "ss_enabled sample_schedule" "ss_cadence sample_schedule = Monthly_end" "ss_options sample_schedule = []"
  "ss_output_formats sample_schedule = [''pdf'']" "ss_max_batch_size sample_schedule = 250" "ss_tenant_id sample_schedule = ''t1''"
  by (simp_all add: sample_schedule_def new_schedule_def sample_schedule_request_def sample_env_def uuid4_hex_def dedupe_def
      sample_batch_caller_def sample_char)

lemma sample_order_valid:
  "validate_report_ordering_submission FAMILY_DEFINITIONS ''portfolio_review'' ''governed_schedule'' [''pdf''] [] = Inr ()"
  by code_simp

lemma sample_schedule_valid: "schedule_valid sample_schedule"
  by (simp add: validate_ordering_def validate_portfolio_bound_def require_def sample_schedule_fields sample_order_valid)

lemma sample_created:
  "create_schedule sample_env sample_schedule_request sample_batch_caller 1776816000000000 no_schedules
     = (Done sample_schedule, sample_schedules)"
  "get_schedule_definition ''rbsc_a'' sample_schedules = Some sample_schedule"
proof -
  have "inserted (env_sha256 sample_env) sample_schedule sample_audit no_schedules sample_schedules"
    by (simp add: inserted_def no_schedules_def sample_schedules_def sample_schedule_fields fingerprint_sha)
  then have save: "save_schedule_definition_with_audit sample_env sample_schedule sample_audit no_schedules
      = Inr (sample_schedule, sample_schedules)" by (simp add: save_Inr)
  have scope: "require_scoped_caller sample_batch_caller = Inr ()"
    by (simp add: require_scoped_caller_def require_def sample_batch_caller_def)
  show "create_schedule sample_env sample_schedule_request sample_batch_caller 1776816000000000 no_schedules
     = (Done sample_schedule, sample_schedules)"
    using save sample_schedule_valid scope
    by (simp add: create_schedule_def sample_schedule_def [symmetric] sample_schedule_fields sample_audit_def [symmetric]
        io_bind_def io_lift_def read_store_def io_tx_def commit_def tx_get_def list_schedule_definitions_def no_schedules_def
        io_try_def io_return_def Let_def)
qed (simp add: get_schedule_definition_def sample_schedules_def sample_schedule_fields)

lemma sample_schedules_run: "schedule_run (env_sha256 sample_env) no_schedules sample_schedules"
  using schedule_run.create [OF schedule_run.start refl, of sample_env no_schedules sample_schedule_request sample_batch_caller
    1776816000000000] by (simp add: sample_created)

theorem reachable_schedules_consistent_witness:
  "sample_schedule \<in> fst ` set (schedules sample_schedules)
   \<and> int (length (read_schedule_audit ''rbsc_a'' sample_schedules)) = 1"
proof -
  have "sample_schedule \<in> fst ` set (schedules sample_schedules)" using get_schedule_rows [OF sample_created(2)] by simp
  then show ?thesis using reachable_schedules_consistent [OF sample_schedules_run] sample_schedule_fields(1,3) by metis
qed

section \<open>Updates\<close>

lemma get_row:
  assumes "store_ok sha s" "r \<in> set (schedules s)"
  shows "get_schedule_definition (ss_schedule_id (fst r)) s = Some (fst r)"
proof -
  have "distinct (map (\<lambda>r. ss_schedule_id (fst r)) (schedules s))" using assms(1) by (simp add: store_ok_def comp_def)
  then show ?thesis using keyed_fetch [of "\<lambda>r. ss_schedule_id (fst r)", OF _ assms(2)] by (simp add: get_schedule_definition_def)
qed

lemma outdated_save:
  assumes "ss_revision y \<noteq> 1" "\<forall>r \<in> set (schedules s). \<not> at_revision y r"
  shows "save_schedule_definition_with_audit e y a s = Inl (StaleScheduleRevision (ss_schedule_id y))"
  using assms by (simp add: save_schedule_definition_with_audit_def resolving_def tx_bind_def write_schedule_definition_def
      list_ex_iff Let_def)

text \<open>
  (C32) No update is lost. An update planned on a reading of the schedule that is no longer current, because
  another update was committed since, raises and leaves the store as it is; when the new version is valid the
  error is the conflict that tells the caller to reload. An update whose reading is current and that
  returns has stored exactly the version it returns, one revision further under the same identity,
  appended one audit record, and changed no other schedule.
\<close>

theorem schedule_update_not_lost:
  fixes now :: dt
  assumes u: "schedule_run sha no_schedules u" "get_schedule_definition sid u = Some x"
    and t: "schedule_run sha u t" and sha: "env_sha256 e = sha" and changes: "schedule_changes q x \<noteq> []"
  defines "y \<equiv> updated_schedule (schedule_changes q x) x now"
  shows "(get_schedule_definition sid t \<noteq> Some x \<longrightarrow>
        (\<exists>err. apply_update e x q caller now t = (Raised err, t)
          \<and> (schedule_valid y \<longrightarrow> err = ScheduleDefinitionError ''batch_schedule_update_conflict''
               ''The schedule changed concurrently; reload it and retry the update.'')))
    \<and> (\<forall>z t'. apply_update e x q caller now t = (Done z, t') \<longrightarrow>
        z = y \<and> get_schedule_definition sid t' = Some y \<and> ss_revision y = ss_revision x + 1 \<and> identity_of y = identity_of x
        \<and> (\<exists>a. read_schedule_audit sid t' = read_schedule_audit sid t @ [a])
        \<and> (\<forall>other. other \<noteq> sid \<longrightarrow> get_schedule_definition other t' = get_schedule_definition other t))"
proof -
  have oku: "store_ok sha u" by (rule run_ok [OF u(1) no_schedules_ok])
  have okt: "store_ok sha t" by (rule run_ok [OF t oku])
  have x: "x \<in> fst ` set (schedules u)" "ss_schedule_id x = sid" using get_schedule_rows [OF u(2)] by simp_all
  have rev: "ss_revision y \<noteq> 1" using oku x(1) by (auto simp: y_def updated_frame store_ok_def row_ok_def)
  note current = update_current [OF okt run_grows [OF t] x(1), of _ q now, folded y_def]
  have stale: "\<exists>err. apply_update e x q caller now t = (Raised err, t)
      \<and> (schedule_valid y \<longrightarrow> err = ScheduleDefinitionError ''batch_schedule_update_conflict''
               ''The schedule changed concurrently; reload it and retry the update.'')"
    if moved: "get_schedule_definition sid t \<noteq> Some x"
  proof -
    have "\<not> at_revision y r" if "r \<in> set (schedules t)" for r
      using current [OF that] get_row [OF okt that] moved x(2) by auto
    then have "save_schedule_definition_with_audit e y a t = Inl (StaleScheduleRevision (ss_schedule_id y))" for a
      using outdated_save [OF rev] by blast
    then show ?thesis using changes
      by (auto simp: apply_update_def y_def [symmetric] io_bind_def io_lift_def io_tx_def commit_def io_raise_def io_try_def
          Let_def split: sum.split)
  qed
  moreover have "z = y \<and> get_schedule_definition sid t' = Some y \<and> ss_revision y = ss_revision x + 1 \<and> identity_of y = identity_of x
        \<and> (\<exists>a. read_schedule_audit sid t' = read_schedule_audit sid t @ [a])
        \<and> (\<forall>other. other \<noteq> sid \<longrightarrow> get_schedule_definition other t' = get_schedule_definition other t)"
    if run: "apply_update e x q caller now t = (Done z, t')" for z t'
  proof -
    let ?cs = "schedule_changes q x"
    let ?a = "audit_record e (ss_schedule_id y) (audit_action ?cs y) caller (audit_changes ?cs) now"
    have "save_schedule_definition_with_audit e y ?a t = Inr (z, t')"
      using run changes by (auto simp: apply_update_def y_def [symmetric] io_bind_def io_lift_def io_tx_def commit_def
          io_raise_def io_return_def io_try_def Let_def split: sum.splits err.splits)
    then have w: "replaced sha y ?a t t'" and z: "z = y" using rev sha by (auto simp: save_Inr inserted_def)
    have frame: "identity_of y = identity_of x" "ss_schedule_id y = sid" "ss_revision y = ss_revision x + 1"
      by (simp_all add: y_def updated_frame x(2))
    obtain r where r: "r \<in> set (schedules t)" "at_revision y r" using w by (auto simp: replaced_def)
    have rows: "schedules t' = update_where (at_revision y) (\<lambda>r. (overwrite y (fst r), fingerprint_by sha y)) (schedules t)"
      and audits: "schedule_audits t' = schedule_audits t @ [?a]" using w by (simp_all add: replaced_def)
    have at: "at_revision y r' \<Longrightarrow> ss_schedule_id (fst r') = sid" for r' by (simp add: at_revision_def frame)
    have keys: "distinct (map (\<lambda>r. ss_schedule_id (fst r)) (schedules t))" using okt by (simp add: store_ok_def comp_def)
    have "overwrite y (fst r) = y" using current [OF r] frame by (intro overwrite_same) simp
    then have "fetch (\<lambda>r. ss_schedule_id (fst r) = b) (schedules t')
        = (if b = sid then Some (y, fingerprint_by sha y) else fetch (\<lambda>r. ss_schedule_id (fst r) = b) (schedules t))" for b
      unfolding rows using keyed_fetch_update [OF keys, of sid r "at_revision y" "\<lambda>r. (overwrite y (fst r), fingerprint_by sha y)" b]
        keyed_fetch [OF keys r(1)] r at frame by auto
    then have "get_schedule_definition b t' = (if b = sid then Some y else get_schedule_definition b t)" for b
      by (simp add: get_schedule_definition_def)
    moreover have "read_schedule_audit sid t' = read_schedule_audit sid t @ [?a]"
      by (simp add: read_schedule_audit_def audits audit_record_def frame)
    ultimately show ?thesis using z frame by simp
  qed
  ultimately show ?thesis by blast
qed

definition sample_update :: schedule_update_request where
  "sample_update = \<lparr>uq_cadence = None, uq_portfolio_ids = None, uq_output_formats = None, uq_reporting_currency = None,
     uq_options = None, uq_max_batch_size = Some 10, uq_enabled = None\<rparr>"

definition sample_updated :: stored_schedule where
  "sample_updated = sample_schedule\<lparr>ss_max_batch_size := 10, ss_updated_at := Some 1776816000500000, ss_revision := 2\<rparr>"

lemma sample_update_changes:
  "schedule_changes sample_update sample_schedule \<noteq> []"
  "updated_schedule (schedule_changes sample_update sample_schedule) sample_schedule 1776816000500000 = sample_updated"
  by (simp_all add: schedule_changes_def field_change_of_def sample_update_def sample_schedule_fields updated_schedule_def
      sample_updated_def)

lemma sample_update_runs:
  "\<exists>t. apply_update (sub_env 5 sample_env) sample_schedule sample_update sample_batch_caller 1776816000500000 sample_schedules
     = (Done sample_updated, t)"
proof -
  let ?e = "sub_env 5 sample_env"
  have valid: "schedule_valid sample_updated"
    using sample_schedule_valid by (simp add: validate_ordering_def validate_portfolio_bound_def require_def sample_updated_def
        sample_schedule_fields)
  have "\<exists>t. save_schedule_definition_with_audit ?e sample_updated a sample_schedules = Inr (sample_updated, t)"
    if "sa_audit_id a = ''rbsa_fb''" for a
    using that by (auto simp: save_Inr replaced_def sample_schedules_def at_revision_def sample_updated_def sample_schedule_fields
        sample_audit_def audit_record_def sample_env_def uuid4_hex_def sub_env_def sample_char2 index_conflict_def)
  moreover have "sa_audit_id (audit_record ?e sid act sample_batch_caller cs 1776816000500000) = ''rbsa_fb''" for sid act cs
    by (simp add: audit_record_def sample_env_def uuid4_hex_def sub_env_def sample_char2)
  ultimately obtain t where "save_schedule_definition_with_audit ?e sample_updated (audit_record ?e (ss_schedule_id sample_updated)
      (audit_action (schedule_changes sample_update sample_schedule) sample_updated) sample_batch_caller
      (audit_changes (schedule_changes sample_update sample_schedule)) 1776816000500000) sample_schedules = Inr (sample_updated, t)"
    by blast
  then show ?thesis
    using valid sample_update_changes
    by (simp add: apply_update_def Let_def io_bind_def io_lift_def io_tx_def commit_def io_try_def io_return_def)
qed

theorem schedule_update_not_lost_witness:
  "\<exists>t. apply_update (sub_env 5 sample_env) sample_schedule sample_update sample_batch_caller 1776816000500000 sample_schedules
       = (Done sample_updated, t)
     \<and> get_schedule_definition ''rbsc_a'' t = Some sample_updated
     \<and> (\<exists>err. apply_update (sub_env 6 sample_env) sample_schedule sample_update sample_batch_caller 1776816000500000 t = (Raised err, t))"
proof -
  obtain t where t: "apply_update (sub_env 5 sample_env) sample_schedule sample_update sample_batch_caller 1776816000500000
      sample_schedules = (Done sample_updated, t)" using sample_update_runs by blast
  have sha: "env_sha256 (sub_env n sample_env) = env_sha256 sample_env" for n by (simp add: sub_env_def)
  note first = schedule_update_not_lost [OF sample_schedules_run sample_created(2) schedule_run.start sha sample_update_changes(1)]
  have stored: "get_schedule_definition ''rbsc_a'' t = Some sample_updated"
    using conjunct2 [OF first, rule_format, OF t] by (simp add: sample_update_changes(2))
  have "schedule_run (env_sha256 sample_env) sample_schedules t"
    using schedule_run.update [OF schedule_run.start sample_created(2) schedule_run.start sha, of 5 sample_update sample_batch_caller
      1776816000500000] t by simp
  note second = schedule_update_not_lost [OF sample_schedules_run sample_created(2) this sha sample_update_changes(1)]
  have "get_schedule_definition ''rbsc_a'' t \<noteq> Some sample_schedule"
    using stored sample_schedule_fields(3) by (auto simp: sample_updated_def dest: arg_cong [where f = ss_revision])
  from conjunct1 [OF second, rule_format, OF this] t stored show ?thesis by blast
qed

section \<open>Creates\<close>

lemma list_definitions_iff:
  "x \<in> set (list_schedule_definitions tenant s) \<longleftrightarrow> x \<in> fst ` set (schedules s) \<and> ss_tenant_id x = tenant"
  by (auto simp: list_schedule_definitions_def)

lemma save_duplicate:
  assumes "ss_revision y = 1" "save_schedule_definition_with_audit e y a s = Inl (DuplicateScheduleDefinition w)"
  shows "\<exists>r \<in> set (schedules s). ss_enabled (fst r) \<and> snd r = fingerprint e y \<and> ss_schedule_id (fst r) = w"
proof -
  have w: "index_conflict y (fingerprint e y) (schedules s) \<and> resolved_duplicate e [] y s = DuplicateScheduleDefinition w"
  proof (cases "index_conflict y (fingerprint e y) (schedules s)")
    case True
    then show ?thesis using assms by (simp add: save_schedule_definition_with_audit_def resolving_def tx_bind_def
        write_schedule_definition_def insert_schedule_def Let_def)
  next
    case False
    then show ?thesis using assms by (simp add: save_schedule_definition_with_audit_def resolving_def tx_bind_def
        write_schedule_definition_def insert_schedule_def write_schedule_audit_def Let_def split: if_splits)
  qed
  then have "fetch (\<lambda>(x, g). g = fingerprint e y \<and> ss_enabled x) (schedules s) \<noteq> None"
    by (auto simp: index_conflict_def list_ex_iff)
  then obtain r where "fetch (\<lambda>(x, g). g = fingerprint e y \<and> ss_enabled x) (schedules s) = Some r" by blast
  with fetch_SomeD [OF this] w show ?thesis by (intro bexI [of _ r]) (auto simp: resolved_duplicate_def split: prod.splits)
qed

text \<open>A create that found no schedule to converge on, as one case distinction.\<close>

lemma create_eval:
  assumes "require_scoped_caller caller = Inr ()"
    and "fetch (\<lambda>x. ss_enabled x \<and> fingerprint e x = fingerprint e (new_schedule e q caller now))
      (list_schedule_definitions (cc_tenant_id caller) s) = None"
  defines "y \<equiv> new_schedule e q caller now"
  defines "a \<equiv> audit_record e (ss_schedule_id y) ''created'' caller [(''definition'', dump_schedule y)] now"
  shows "create_schedule e q caller now s =
    (case bindE (validate_ordering y) (\<lambda>_. validate_portfolio_bound y) of Inl x \<Rightarrow> (Raised x, s)
     | Inr _ \<Rightarrow> (case save_schedule_definition_with_audit e y a s of Inr (x, s') \<Rightarrow> (Done x, s')
       | Inl x \<Rightarrow> (case (case x of DuplicateScheduleDefinition w \<Rightarrow> get_schedule_definition w s | _ \<Rightarrow> None) of
           Some z \<Rightarrow> if ss_tenant_id z = cc_tenant_id caller then (Done z, s)
             else (Raised (ScheduleDefinitionError ''batch_schedule_conflict''
               ''The schedule could not be created; retry the request.''), s)
         | None \<Rightarrow> (Raised (case x of DuplicateScheduleDefinition w \<Rightarrow> ScheduleDefinitionError ''batch_schedule_conflict''
               ''The schedule could not be created; retry the request.'' | _ \<Rightarrow> x), s))))"
proof -
  have scope: "io_bind (io_lift (require_scoped_caller caller)) f s = f () s" for f by (simp add: io_bind_def io_lift_def assms(1))
  have read: "io_bind (read_store g) f s = f (g s) s" for g f
    by (simp add: io_bind_def read_store_def io_tx_def commit_def tx_get_def)
  show ?thesis
    unfolding create_schedule_def Let_def scope read y_def [symmetric] assms(2) [folded y_def] option.case a_def [symmetric]
    by (auto simp: io_bind_def [of "io_lift _"] io_lift_def io_try_def io_tx_def commit_def io_return_def io_raise_def
        read split: sum.split err.split option.split)
qed

text \<open>A create that returns hands out an enabled schedule of the tenant with the fingerprint asked for.\<close>

lemma create_Done:
  assumes ok: "store_ok (env_sha256 e) s" and run: "create_schedule e q caller now s = (Done x, s')"
  shows "ss_enabled x" "fingerprint e x = fingerprint e (new_schedule e q caller now)" "ss_tenant_id x = cc_tenant_id caller"
    "require_scoped_caller caller = Inr ()"
proof -
  let ?y = "new_schedule e q caller now"
  let ?a = "audit_record e (ss_schedule_id ?y) ''created'' caller [(''definition'', dump_schedule ?y)] now"
  show scope: "require_scoped_caller caller = Inr ()"
    using run by (auto simp: create_schedule_def io_bind_def io_lift_def split: sum.splits)
  have "ss_enabled x \<and> fingerprint e x = fingerprint e ?y \<and> ss_tenant_id x = cc_tenant_id caller"
  proof (cases "fetch (\<lambda>x. ss_enabled x \<and> fingerprint e x = fingerprint e ?y) (list_schedule_definitions (cc_tenant_id caller) s)")
    case (Some z)
    then have "z = x" using run scope
      by (simp add: create_schedule_def io_bind_def io_lift_def read_store_def io_tx_def commit_def tx_get_def io_return_def Let_def)
    then show ?thesis using fetch_SomeD [OF Some] list_definitions_iff by auto
  next
    case None
    show ?thesis
    proof (cases "save_schedule_definition_with_audit e ?y ?a s")
      case (Inr p)
      then have "fst p = ?y" by (cases p) (simp add: save_Inr)
      then have "x = ?y" using run Inr unfolding create_eval [OF scope None] by (auto split: sum.splits prod.splits)
      then show ?thesis by (simp add: new_schedule_def)
    next
      case (Inl z)
      then obtain w where z: "z = DuplicateScheduleDefinition w" and w: "get_schedule_definition w s = Some x"
        and tenant: "ss_tenant_id x = cc_tenant_id caller"
        using run unfolding create_eval [OF scope None] by (auto split: sum.splits err.splits option.splits if_splits)
      obtain r where r: "r \<in> set (schedules s)" "ss_enabled (fst r)" "snd r = fingerprint e ?y" "ss_schedule_id (fst r) = w"
        using save_duplicate [of ?y e ?a s w] Inl z by (auto simp: new_schedule_def)
      have "x = fst r" using get_row [OF ok r(1)] w r(4) by simp
      moreover have "fingerprint e (fst r) = snd r" using ok r(1) by (simp add: store_ok_def row_ok_def fingerprint_sha)
      ultimately show ?thesis using r tenant by simp
    qed
  qed
  then show "ss_enabled x" "fingerprint e x = fingerprint e ?y" "ss_tenant_id x = cc_tenant_id caller" by auto
qed

text \<open>
  A create can be repeated. When a create returned a schedule, then in any later store that still holds
  that version, a create of the same definition in the same scope, by whatever actor and at whatever time,
  returns the same schedule and writes nothing: neither a second definition nor an audit record.
\<close>

theorem create_schedule_idempotent:
  assumes s: "schedule_run sha no_schedules s" and e: "env_sha256 e = sha" "env_sha256 e' = sha"
    and first: "create_schedule e q caller now s = (Done x, s1)"
    and later: "schedule_run sha s1 t" "get_schedule_definition (ss_schedule_id x) t = Some x"
    and scope: "cc_tenant_id caller' = cc_tenant_id caller" "cc_region caller' = cc_region caller"
      "cc_booking_center_code caller' = cc_booking_center_code caller"
  shows "create_schedule e' q caller' now' t = (Done x, t)"
proof -
  have oks: "store_ok sha s" by (rule run_ok [OF s no_schedules_ok])
  have "schedule_run sha s s1" using schedule_run.create [OF schedule_run.start e(1), of s q caller now] first by simp
  then have okt: "store_ok sha t" using run_ok oks later(1) by blast
  note x = create_Done [OF oks [folded e(1)] first]
  let ?y = "new_schedule e' q caller' now'"
  have target: "fingerprint e' ?y = fingerprint e' x"
    using x(2) e scope by (simp add: fingerprint_sha fingerprint_by_def new_schedule_def)
  obtain r where r: "r \<in> set (schedules t)" "fst r = x" using get_schedule_rows [OF later(2)] by auto
  have "x \<in> set (list_schedule_definitions (cc_tenant_id caller') t)"
    using r x(3) scope by (auto simp: list_definitions_iff)
  then have "fetch (\<lambda>z. ss_enabled z \<and> fingerprint e' z = fingerprint e' ?y) (list_schedule_definitions (cc_tenant_id caller') t) \<noteq> None"
    using x(1) target by auto
  then obtain z where z: "fetch (\<lambda>z. ss_enabled z \<and> fingerprint e' z = fingerprint e' ?y)
      (list_schedule_definitions (cc_tenant_id caller') t) = Some z" by blast
  obtain r' where r': "r' \<in> set (schedules t)" "fst r' = z" "ss_enabled z" "fingerprint e' z = fingerprint e' x"
    using fetch_SomeD [OF z] target by (auto simp: list_definitions_iff)
  have "snd r = snd r'" using okt r r' e(2) by (simp add: store_ok_def row_ok_def fingerprint_sha)
  then have "r = r'" using okt r r' x(1) unfolding store_ok_def index_ok_def by blast
  then have "z = x" using r r' by simp
  moreover have "require_scoped_caller caller' = Inr ()" using x(4) scope by (simp add: require_scoped_caller_def)
  ultimately show ?thesis using z
    by (simp add: create_schedule_def io_bind_def io_lift_def read_store_def io_tx_def commit_def tx_get_def io_return_def Let_def)
qed

theorem create_schedule_idempotent_witness:
  "create_schedule (sub_env 3 sample_env) sample_schedule_request sample_batch_caller 1776816000500000 sample_schedules
     = (Done sample_schedule, sample_schedules)"
  by (rule create_schedule_idempotent [OF schedule_run.start [of "env_sha256 sample_env"] refl _ sample_created(1)])
     (simp_all add: sub_env_def schedule_run.start sample_created(2) sample_schedule_fields)

end
