(* ===== verification/Scheduler.thy ===== *)
theory Scheduler
  imports Schedule_Laws Batch_Runs
begin

text \<open>
  The batch scheduler (\<open>report_batch_orchestrator/scheduler.py\<close>, and the functions of
  \<open>schedule_definitions.py\<close> that hand it the stored schedules): the schedules due in a pass, resolution of
  their portfolios against the portfolio source, the key of each cycle and the creation of its batch.

  The portfolio source is an argument: its answer to the \<open>j\<close>-th question of the \<open>i\<close>-th schedule of the pass
  may depend on both numbers, so it can change during a pass. A pass reads the stored schedules once,
  before the first schedule, and then only the two batch tables; its state is the batch ledger. Log
  records (\<open>_log_candidates_dropped\<close>, \<open>_log_backfill_truncation\<close>) are not part of the model.
\<close>

section \<open>Definitions the scheduler runs\<close>

record manifest_entry =
  me_portfolio_id :: string
  me_source_system :: string
  me_source_object :: string

record schedule_definition =
  sf_schedule_id :: string
  sf_enabled :: bool
  sf_stable_cycle_identity :: bool
  sf_selector_mode :: string
  sf_frequency :: string
  sf_as_of_date :: date
  sf_portfolio_ids :: "string list"
  sf_manifest_entries :: "manifest_entry list"
  sf_manifest_source :: "string option"
  sf_manifest_version :: "string option"
  sf_manifest_hash :: "string option"
  sf_output_formats :: "string list"
  sf_reporting_currency :: "string option"
  sf_options :: jobj
  sf_max_batch_size :: int
  sf_explicit_period_start :: "date option"
  sf_explicit_period_end :: "date option"

record scheduler_config =
  sc_scheduler_id :: string
  sc_tenant_id :: string
  sc_region :: string
  sc_booking_center_code :: "string option"
  sc_role :: string
  sc_schedules :: "schedule_definition list"

record materialization =
  mz_schedule_id :: string
  mz_batch_id :: string
  mz_idempotency_key :: string
  mz_item_count :: int
  mz_status :: batch_status

record scheduler_result =
  sr_scheduler_id :: string
  sr_attempted_count :: nat
  sr_materialized :: "materialization list"
  sr_skipped_schedule_ids :: "string list"
  sr_refused_schedule_ids :: "string list"

text \<open>The constraints of the fields, then \<open>_validate_selector_source\<close>, as the model validates itself.\<close>

definition validate_selector_source :: "schedule_definition \<Rightarrow> unit res" where
  "validate_selector_source d =
     bindE (require (sf_schedule_id d \<noteq> []) (ValidationError ''String should have at least 1 character'')) (\<lambda>_.
     bindE (require (1 \<le> sf_max_batch_size d) (ValidationError ''Input should be greater than or equal to 1'')) (\<lambda>_.
     bindE (require (\<not> (sf_selector_mode d = ''explicit_portfolio_list'' \<and> sf_portfolio_ids d = []))
       (ValidationError ''Value error, explicit_portfolio_list schedule requires portfolio_ids.'')) (\<lambda>_.
     bindE (require (\<not> (sf_selector_mode d = ''batch_manifest'' \<and> sf_manifest_entries d = []))
       (ValidationError ''Value error, batch_manifest schedule requires manifest_entries.'')) (\<lambda>_.
     bindE (require (distinct (map me_portfolio_id (sf_manifest_entries d)))
       (ValidationError ''Value error, batch_manifest schedule contains duplicate manifest portfolio ids.'')) (\<lambda>_.
     bindE (require (sf_selector_mode d \<noteq> ''selected_subset'')
       (ValidationError ''Value error, selected_subset schedules require a governed subset source.'')) (\<lambda>_.
     case validate_report_ordering_submission FAMILY_DEFINITIONS ''portfolio_review'' ''governed_schedule''
            (sf_output_formats d) (sf_options d) of
       Inr u \<Rightarrow> Inr u
     | Inl (ReportOrderingSubmissionError code message) \<Rightarrow>
         Inl (ValidationError (''Value error, '' @ code @ '': '' @ message))
     | Inl x \<Rightarrow> Inl x))))))"

definition stored_schedule_to_definition :: "stored_schedule \<Rightarrow> date \<Rightarrow> schedule_definition res" where
  "stored_schedule_to_definition x as_of =
     (let d = \<lparr>sf_schedule_id = ss_schedule_id x, sf_enabled = ss_enabled x, sf_stable_cycle_identity = True,
        sf_selector_mode = ''explicit_portfolio_list'', sf_frequency = SCHEDULE_CADENCE_FREQUENCY (ss_cadence x),
        sf_as_of_date = as_of, sf_portfolio_ids = ss_portfolio_ids x, sf_manifest_entries = [],
        sf_manifest_source = None, sf_manifest_version = None, sf_manifest_hash = None,
        sf_output_formats = ss_output_formats x, sf_reporting_currency = ss_reporting_currency x,
        sf_options = ss_options x, sf_max_batch_size = ss_max_batch_size x,
        sf_explicit_period_start = None, sf_explicit_period_end = None\<rparr>
      in bindE (validate_selector_source d) (\<lambda>_. Inr d))"

definition due_definitions_for_scheduler ::
    "string \<Rightarrow> string \<Rightarrow> string option \<Rightarrow> date \<Rightarrow> schedule_store \<Rightarrow> schedule_definition list res" where
  "due_definitions_for_scheduler tenant_id region booking_center_code today store =
     bindE (mapE (\<lambda>x.
         bindE (due_as_of_dates (ss_cadence x) today (ss_cadence_effective_on x) STORED_SCHEDULE_BACKFILL_LIMIT)
           (mapE (stored_schedule_to_definition x)))
       (filter (\<lambda>x. ss_enabled x \<and> ss_region x = region \<and> ss_booking_center_code x = booking_center_code)
         (list_schedule_definitions tenant_id store)))
     (\<lambda>ds. Inr (concat ds))"

section \<open>Identity of a cycle\<close>

definition stable_short_hash :: "env \<Rightarrow> jobj \<Rightarrow> nat \<Rightarrow> string" where
  "stable_short_hash e payload n = take n (env_sha256 e (canonical_json (JObj payload)))"

text \<open>\<open>value or fallback\<close> of an optional text.\<close>

definition text_or :: "string option \<Rightarrow> string \<Rightarrow> string" where
  "text_or v fallback = (case v of None \<Rightarrow> fallback | Some t \<Rightarrow> if t = [] then fallback else t)"

definition manifest_hash :: "env \<Rightarrow> schedule_definition \<Rightarrow> string" where
  "manifest_hash e d = text_or (sf_manifest_hash d) (stable_short_hash e
     [(''manifest_source'', JStr (text_or (sf_manifest_source d) ''inline-schedule-manifest'')),
      (''manifest_version'', JStr (text_or (sf_manifest_version d) ''v1'')),
      (''entries'', JList (map (\<lambda>m. JObj [(''portfolio_id'', JStr (me_portfolio_id m)),
          (''source_system'', JStr (me_source_system m)), (''source_object'', JStr (me_source_object m))])
        (sf_manifest_entries d)))] 32)"

definition cycle_request_of :: "schedule_definition \<Rightarrow> cycle_request" where
  "cycle_request_of d = \<lparr>cq_frequency = sf_frequency d, cq_as_of_date = sf_as_of_date d,
     cq_explicit_period_start = sf_explicit_period_start d, cq_explicit_period_end = sf_explicit_period_end d\<rparr>"

definition batch_options :: "env \<Rightarrow> schedule_definition \<Rightarrow> batch_cycle \<Rightarrow> jobj" where
  "batch_options e d cycle =
     (let stamped = dset (dset (dset (dset (dset (sf_options d)
            ''batch_schedule_id'' (JStr (sf_schedule_id d)))
            ''batch_selector_mode'' (JStr (sf_selector_mode d)))
            ''batch_frequency'' (JStr (bc_frequency cycle)))
            ''batch_period_start'' (JStr (date_isoformat (bc_period_start cycle))))
            ''batch_period_end'' (JStr (date_isoformat (bc_period_end cycle)))
      in if sf_selector_mode d = ''batch_manifest''
         then dset (dset (dset stamped
            ''batch_manifest_source'' (JStr (text_or (sf_manifest_source d) ''inline-schedule-manifest'')))
            ''batch_manifest_version'' (JStr (text_or (sf_manifest_version d) ''v1'')))
            ''batch_manifest_hash'' (JStr (manifest_hash e d))
         else stamped)"

definition stored_schedule_cycle_idempotency_key :: "env \<Rightarrow> string \<Rightarrow> date \<Rightarrow> string" where
  "stored_schedule_cycle_idempotency_key e schedule_id as_of =
     ''scheduled-batch-'' @ stable_short_hash e
       [(''schedule_id'', JStr schedule_id), (''as_of_date'', JStr (date_isoformat as_of))] 32"

definition selector_identity :: "env \<Rightarrow> schedule_definition \<Rightarrow> string list \<Rightarrow> string" where
  "selector_identity e d portfolio_ids = stable_short_hash e
     [(''schedule_id'', JStr (sf_schedule_id d)), (''selector_mode'', JStr (sf_selector_mode d)),
      (''portfolio_ids'', json_strs portfolio_ids),
      (''manifest_hash'', if sf_selector_mode d = ''batch_manifest'' then JStr (manifest_hash e d) else JNull),
      (''requested_output_formats'', json_strs (sort (sf_output_formats d))),
      (''reporting_currency'', json_opt (sf_reporting_currency d)), (''options'', JObj (sf_options d)),
      (''max_batch_size'', JInt (sf_max_batch_size d))] 32"

definition batch_scheduler_caller_context :: "env \<Rightarrow> scheduler_config \<Rightarrow> int \<Rightarrow> caller_context" where
  "batch_scheduler_caller_context e cfg pass_sequence =
     (let suffix = stable_short_hash e [(''scheduler_id'', JStr (sc_scheduler_id cfg)),
            (''pass_sequence'', JInt pass_sequence),
            (''schedule_ids'', json_strs (map sf_schedule_id (sc_schedules cfg)))] 12;
          trace_id = stable_short_hash e [(''scheduler_id'', JStr (sc_scheduler_id cfg)),
            (''pass_sequence'', JInt pass_sequence), (''tenant_id'', JStr (sc_tenant_id cfg)),
            (''region'', JStr (sc_region cfg))] 32
      in \<lparr>cc_trigger_type = ''system'', cc_triggered_by = sc_scheduler_id cfg,
          cc_caller_application = ''lotus-report-batch-scheduler'', cc_tenant_id = sc_tenant_id cfg,
          cc_region = sc_region cfg, cc_booking_center_code = sc_booking_center_code cfg,
          cc_role = Some (sc_role cfg),
          cc_correlation_id = ''corr-batch-scheduler-'' @ int_text pass_sequence @ ''-'' @ suffix,
          cc_trace_id = trace_id\<rparr>)"

section \<open>Resolving portfolios\<close>

type_synonym portfolio_source = "nat \<Rightarrow> nat \<Rightarrow> string \<Rightarrow> string \<Rightarrow> string \<Rightarrow> (int \<times> jobj) res"

text \<open>
  \<open>get_portfolio_detail(portfolio_id, correlation_id, admitted_tenant_id)\<close> for the portfolio \<open>j\<close> of the
  schedule \<open>i\<close> is \<open>source i j portfolio_id correlation_id admitted_tenant_id\<close>.
\<close>

definition tenant_attribution_is_a_stamp :: "schedule_definition \<Rightarrow> bool" where
  "tenant_attribution_is_a_stamp d \<longleftrightarrow> sf_selector_mode d = ''all_active_portfolios''"

definition SOURCE_TENANT_MISMATCH :: string where "SOURCE_TENANT_MISMATCH = ''source_tenant_mismatch''"
definition SOURCE_TENANT_ABSENT :: string where "SOURCE_TENANT_ABSENT = ''source_tenant_absent''"

text \<open>The projected tenant, or the reason for refusing the candidate.\<close>

definition projected_tenant :: "jobj \<Rightarrow> string \<Rightarrow> string + string" where
  "projected_tenant payload expected_tenant_id =
     (let projected = py_strip (str_or (dget payload ''tenant_id'') []) in
      if projected = [] then Inl SOURCE_TENANT_ABSENT
      else if projected \<noteq> expected_tenant_id then Inl SOURCE_TENANT_MISMATCH
      else Inr projected)"

text \<open>What both loops decide about an answer: the status and reason of a drop, or the tenant.\<close>

definition judge_answer :: "string \<Rightarrow> string \<Rightarrow> int \<times> jobj \<Rightarrow> int \<times> string + string" where
  "judge_answer portfolio_id tenant_id answer = (case answer of (status_code, payload) \<Rightarrow>
     if status_code \<noteq> 200 then Inl (status_code, ''source_refused'')
     else if str_or (dget payload ''portfolio_id'') [] \<noteq> portfolio_id then Inl (status_code, ''source_identity_mismatch'')
     else case projected_tenant payload tenant_id of
       Inl reason \<Rightarrow> Inl (status_code, reason) | Inr projected \<Rightarrow> Inr projected)"

definition payload_active :: "jobj \<Rightarrow> bool" where
  "payload_active payload \<longleftrightarrow> py_lower (str_or (dget payload ''status'') []) = ''active''"

text \<open>The constructor \<open>PortfolioBatchCandidate(...)\<close>: its text fields must not be empty.\<close>

definition portfolio_batch_candidate :: "portfolio_candidate \<Rightarrow> portfolio_candidate res" where
  "portfolio_batch_candidate c =
     bindE (require ([] \<notin> set [pc_portfolio_id c, pc_tenant_id c, pc_region c, pc_source_system c, pc_source_object c])
       (ValidationError ''String should have at least 1 character'')) (\<lambda>_. Inr c)"

definition candidate_from_portfolio_payload ::
    "jobj \<Rightarrow> string \<Rightarrow> string \<Rightarrow> bool \<Rightarrow> string \<Rightarrow> string \<Rightarrow> portfolio_candidate res" where
  "candidate_from_portfolio_payload payload tenant_id region selected source_system source_object =
     portfolio_batch_candidate \<lparr>pc_portfolio_id = py_strip (str_or (dget payload ''portfolio_id'') []),
       pc_tenant_id = tenant_id, pc_region = region, pc_active = payload_active payload, pc_selected = selected,
       pc_source_system = source_system, pc_source_object = source_object\<rparr>"

text \<open>The loop over the portfolios: ask, judge, build the candidate.\<close>

definition resolve_each ::
    "(nat \<Rightarrow> string \<Rightarrow> (int \<times> jobj) res) \<Rightarrow> string \<Rightarrow> (string \<Rightarrow> jobj \<Rightarrow> string \<Rightarrow> portfolio_candidate res)
     \<Rightarrow> string list \<Rightarrow> portfolio_candidate list res" where
  "resolve_each ask tenant_id build ids =
     bindE (mapE (\<lambda>(j, p). bindE (ask j p) (\<lambda>answer.
         case judge_answer p tenant_id answer of
           Inl _ \<Rightarrow> Inr []
         | Inr projected \<Rightarrow> bindE (build p (snd answer) projected) (\<lambda>c. Inr [c]))) (enumerate 0 ids))
     (\<lambda>css. Inr (concat css))"

definition manifest_by_id :: "schedule_definition \<Rightarrow> (string \<times> manifest_entry) list" where
  "manifest_by_id d = fold (\<lambda>m acc. dset acc (me_portfolio_id m) m) (sf_manifest_entries d) []"

definition resolve_manifest_candidates ::
    "(nat \<Rightarrow> string \<Rightarrow> (int \<times> jobj) res) \<Rightarrow> schedule_definition \<Rightarrow> string \<Rightarrow> string \<Rightarrow> portfolio_candidate list res" where
  "resolve_manifest_candidates ask d tenant_id region =
     resolve_each ask tenant_id
       (\<lambda>p payload projected. case dget (manifest_by_id d) p of
          None \<Rightarrow> Inl (PyKeyError p)
        | Some entry \<Rightarrow> candidate_from_portfolio_payload payload projected region True
            (me_source_system entry) (me_source_object entry))
       (dkeys (manifest_by_id d))"

definition resolve_candidates ::
    "(nat \<Rightarrow> string \<Rightarrow> (int \<times> jobj) res) \<Rightarrow> schedule_definition \<Rightarrow> string \<Rightarrow> string \<Rightarrow> portfolio_candidate list res" where
  "resolve_candidates ask d tenant_id region =
     (if sf_selector_mode d = ''batch_manifest'' then resolve_manifest_candidates ask d tenant_id region
      else resolve_each ask tenant_id
        (\<lambda>p payload projected. portfolio_batch_candidate \<lparr>pc_portfolio_id = p, pc_tenant_id = projected,
           pc_region = region, pc_active = payload_active payload, pc_selected = True,
           pc_source_system = ''lotus-core'', pc_source_object = ''Portfolio''\<rparr>)
        (sf_portfolio_ids d))"

section \<open>A pass\<close>

type_synonym 'a bio = "(batch_ledger, 'a) action"

text \<open>The subclasses of Python's \<open>ValueError\<close>.\<close>

fun is_value_error :: "err \<Rightarrow> bool" where
  "is_value_error (LookupError _) = False"
| "is_value_error (IntegrityError _) = False"
| "is_value_error (RuntimeError _) = False"
| "is_value_error (PyTimeoutError _) = False"
| "is_value_error (PyTypeError _) = False"
| "is_value_error (PyKeyError _) = False"
| "is_value_error (PyAttributeError _) = False"
| "is_value_error (DuplicateScheduleDefinition _) = False"
| "is_value_error (StaleScheduleRevision _) = False"
| "is_value_error (ReportInputSnapshotNotFoundError _) = False"
| "is_value_error (ReportInputSnapshotAlreadyCapturedError _) = False"
| "is_value_error (ReportInputSnapshotLineageConflictError _) = False"
| "is_value_error (IdeaEvidenceIntakeMigrationError _) = False"
| "is_value_error (IntakeTransferError _) = False"
| "is_value_error (IdeaMaterializationNotFoundError _) = False"
| "is_value_error (HTTPException _ _) = False"
| "is_value_error _ = True"

datatype schedule_outcome = Materialized materialization | Skipped string | Refused string

text \<open>The constructor \<open>BatchCreateRequest(...)\<close>, which bounds the batch size.\<close>

definition batch_create_request ::
    "env \<Rightarrow> schedule_definition \<Rightarrow> portfolio_candidate list \<Rightarrow> batch_cycle \<Rightarrow> batch_request res" where
  "batch_create_request e d candidates cycle =
     bindE (require (1 \<le> sf_max_batch_size d) (ValidationError ''Input should be greater than or equal to 1'')) (\<lambda>_.
     bindE (require (sf_max_batch_size d \<le> 1000) (ValidationError ''Input should be less than or equal to 1000'')) (\<lambda>_.
     Inr \<lparr>bq_selector_mode = sf_selector_mode d, bq_portfolio_ids = map pc_portfolio_id candidates,
       bq_source_candidates = candidates, bq_as_of_date = bc_as_of_date cycle,
       bq_requested_output_formats = sf_output_formats d, bq_reporting_currency = sf_reporting_currency d,
       bq_options = batch_options e d cycle, bq_max_batch_size = sf_max_batch_size d\<rparr>))"

definition materialization_of :: "schedule_definition \<Rightarrow> batch_record \<Rightarrow> string \<Rightarrow> materialization" where
  "materialization_of d r key = \<lparr>mz_schedule_id = sf_schedule_id d, mz_batch_id = b_id (br_batch r),
     mz_idempotency_key = key, mz_item_count = b_item_count (br_batch r), mz_status = b_status (br_batch r)\<rparr>"

definition create_scheduled_batch ::
    "env \<Rightarrow> schedule_definition \<Rightarrow> batch_request \<Rightarrow> caller_context \<Rightarrow> string \<Rightarrow> schedule_outcome bio" where
  "create_scheduled_batch e d request caller key =
     io_try (io_tx (create_batch e request caller (Some key)))
       (\<lambda>r. io_return (Materialized (materialization_of d r key)))
       (\<lambda>x. case x of
          BatchIdempotencyConflictError _ \<Rightarrow> io_return (Skipped (sf_schedule_id d))
        | _ \<Rightarrow> if is_value_error x \<and> sf_stable_cycle_identity d then io_return (Skipped (sf_schedule_id d)) else io_raise x)"

text \<open>The part of the loop body after the candidates were resolved.\<close>

definition materialize_schedule ::
    "env \<Rightarrow> schedule_definition \<Rightarrow> portfolio_candidate list \<Rightarrow> caller_context \<Rightarrow> schedule_outcome bio" where
  "materialize_schedule e d candidates caller =
     io_bind (io_lift (materialize_cycle e (cycle_request_of d))) (\<lambda>cycle.
     io_bind (io_lift (batch_create_request e d candidates cycle)) (\<lambda>request.
     if sf_stable_cycle_identity d
     then create_scheduled_batch e d request caller
       (stored_schedule_cycle_idempotency_key e (sf_schedule_id d) (bc_as_of_date cycle))
     else
       let key = scheduled_batch_idempotency_key e caller (bq_selector_mode request) cycle
             (Some (selector_identity e d (map pc_portfolio_id candidates))) in
       io_bind (io_tx (has_batch_for_schedule_cycle (cc_tenant_id caller) (cc_region caller) (sf_schedule_id d)
         (date_isoformat (bc_period_start cycle)) (date_isoformat (bc_period_end cycle))
         (date_isoformat (bc_as_of_date cycle)))) (\<lambda>present.
       if present then io_return (Skipped (sf_schedule_id d))
       else create_scheduled_batch e d request caller key)))"

definition run_schedule ::
    "env \<Rightarrow> (nat \<Rightarrow> string \<Rightarrow> (int \<times> jobj) res) \<Rightarrow> scheduler_config \<Rightarrow> caller_context \<Rightarrow> schedule_definition
     \<Rightarrow> schedule_outcome bio" where
  "run_schedule e ask cfg caller d =
     (if tenant_attribution_is_a_stamp d then io_return (Refused (sf_schedule_id d))
      else io_bind (io_lift (resolve_candidates ask d (sc_tenant_id cfg) (sc_region cfg))) (\<lambda>candidates.
        if candidates = [] then io_return (Skipped (sf_schedule_id d))
        else if sf_stable_cycle_identity d \<and> length candidates \<noteq> length (sf_portfolio_ids d)
        then io_return (Skipped (sf_schedule_id d))
        else materialize_schedule e d candidates caller))"

fun run_schedules ::
    "env \<Rightarrow> portfolio_source \<Rightarrow> scheduler_config \<Rightarrow> caller_context \<Rightarrow> nat \<Rightarrow> schedule_definition list
     \<Rightarrow> schedule_outcome list bio" where
  "run_schedules e source cfg caller i [] = io_return []"
| "run_schedules e source cfg caller i (d # ds) =
     io_bind (run_schedule (sub_env i e)
       (\<lambda>j p. source i j p (cc_correlation_id caller) (cc_tenant_id caller)) cfg caller d) (\<lambda>outcome.
     io_bind (run_schedules e source cfg caller (Suc i) ds) (\<lambda>outcomes. io_return (outcome # outcomes)))"

text \<open>The schedules of a pass: the enabled configured ones, then the stored ones due (when a store is given).\<close>

definition enabled_schedules :: "scheduler_config \<Rightarrow> schedule_store option \<Rightarrow> date \<Rightarrow> schedule_definition list res" where
  "enabled_schedules cfg store today =
     bindE (case store of None \<Rightarrow> Inr []
        | Some s \<Rightarrow> due_definitions_for_scheduler (sc_tenant_id cfg) (sc_region cfg) (sc_booking_center_code cfg) today s)
     (\<lambda>stored. Inr (filter sf_enabled (sc_schedules cfg) @ stored))"

definition scheduler_result_of :: "scheduler_config \<Rightarrow> schedule_definition list \<Rightarrow> schedule_outcome list \<Rightarrow> scheduler_result" where
  "scheduler_result_of cfg ds outcomes = \<lparr>sr_scheduler_id = sc_scheduler_id cfg, sr_attempted_count = length ds,
     sr_materialized = concat (map (\<lambda>x. case x of Materialized m \<Rightarrow> [m] | _ \<Rightarrow> []) outcomes),
     sr_skipped_schedule_ids = concat (map (\<lambda>x. case x of Skipped i \<Rightarrow> [i] | _ \<Rightarrow> []) outcomes),
     sr_refused_schedule_ids = concat (map (\<lambda>x. case x of Refused i \<Rightarrow> [i] | _ \<Rightarrow> []) outcomes)\<rparr>"

definition run_due_schedules ::
    "env \<Rightarrow> portfolio_source \<Rightarrow> schedule_store option \<Rightarrow> scheduler_config \<Rightarrow> caller_context \<Rightarrow> date
     \<Rightarrow> scheduler_result bio" where
  "run_due_schedules e source store cfg caller today =
     io_bind (io_lift (admit_scheduler (sc_tenant_id cfg) (sc_region cfg) (sc_booking_center_code cfg) caller)) (\<lambda>_.
     io_bind (io_lift (enabled_schedules cfg store today)) (\<lambda>ds.
     io_bind (run_schedules e source cfg caller 0 ds) (\<lambda>outcomes.
     io_return (scheduler_result_of cfg ds outcomes))))"

end
