(* ===== verification/Scheduler_Laws.thy ===== *)
theory Scheduler_Laws
  imports Scheduler
begin

text \<open>
  What the scheduler guarantees: every batch of a pass consists of portfolios the source attributed to the
  scheduler's tenant, and a cycle that has its batch never gets a second one, whatever happened to the
  ledger, the source or the content of the schedule in between.
\<close>

section \<open>One schedule\<close>

text \<open>The key under which a schedule creates its batch.\<close>

definition cycle_key :: "env \<Rightarrow> caller_context \<Rightarrow> schedule_definition \<Rightarrow> portfolio_candidate list \<Rightarrow> batch_cycle \<Rightarrow> string" where
  "cycle_key e caller d candidates cycle =
     (if sf_stable_cycle_identity d then stored_schedule_cycle_idempotency_key e (sf_schedule_id d) (bc_as_of_date cycle)
      else scheduled_batch_idempotency_key e caller (sf_selector_mode d) cycle
        (Some (selector_identity e d (map pc_portfolio_id candidates))))"

lemma create_scheduled_batch_run:
  "create_scheduled_batch e d q caller key s =
     (case create_batch e q caller (Some key) s of
        Inr (r, s') \<Rightarrow> (Done (Materialized (materialization_of d r key)), s')
      | Inl x \<Rightarrow> (if (\<exists>m. x = BatchIdempotencyConflictError m) \<or> is_value_error x \<and> sf_stable_cycle_identity d
                 then (Done (Skipped (sf_schedule_id d)), s) else (Raised x, s)))"
  by (auto simp: create_scheduled_batch_def io_try_def io_tx_def commit_def io_return_def io_raise_def
      split: sum.split err.split)

lemma create_scheduled_batch_effect:
  "snd (create_scheduled_batch e d q caller key s) = s
     \<and> (\<forall>m. fst (create_scheduled_batch e d q caller key s) \<noteq> Done (Materialized m))
   \<or> (\<exists>r. create_batch e q caller (Some key) s = Inr (r, snd (create_scheduled_batch e d q caller key s))
        \<and> fst (create_scheduled_batch e d q caller key s) = Done (Materialized (materialization_of d r key)))"
  by (auto simp: create_scheduled_batch_run split: sum.split prod.split)

text \<open>Whatever a schedule does, it leaves the ledger alone or creates one batch.\<close>

lemma has_cycle_run:
  "has_batch_for_schedule_cycle t r i a b c s = Inr (list_ex (\<lambda>x. date_isoformat (b_as_of_date x) = c \<and> b_tenant_id x = t
     \<and> b_region x = r \<and> dget (b_options x) ''batch_schedule_id'' = Some (JStr i)
     \<and> dget (b_options x) ''batch_period_start'' = Some (JStr a)
     \<and> dget (b_options x) ''batch_period_end'' = Some (JStr b)) (batches s), s)"
  by (auto simp: has_batch_for_schedule_cycle_def tx_get_def list_ex_iff fetch_def find_None_iff)

lemma materialize_schedule_cases:
  obtains (none) "snd (materialize_schedule e d cs caller s) = s"
      "\<And>m. fst (materialize_schedule e d cs caller s) \<noteq> Done (Materialized m)"
  | (batch) cycle q r where "materialize_cycle e (cycle_request_of d) = Inr cycle" "batch_create_request e d cs cycle = Inr q"
      "create_batch e q caller (Some (cycle_key e caller d cs cycle)) s = Inr (r, snd (materialize_schedule e d cs caller s))"
      "fst (materialize_schedule e d cs caller s) = Done (Materialized (materialization_of d r (cycle_key e caller d cs cycle)))"
      "sf_stable_cycle_identity d \<or> \<not> list_ex (\<lambda>x. date_isoformat (b_as_of_date x) = date_isoformat (bc_as_of_date cycle)
         \<and> b_tenant_id x = cc_tenant_id caller \<and> b_region x = cc_region caller
         \<and> dget (b_options x) ''batch_schedule_id'' = Some (JStr (sf_schedule_id d))
         \<and> dget (b_options x) ''batch_period_start'' = Some (JStr (date_isoformat (bc_period_start cycle)))
         \<and> dget (b_options x) ''batch_period_end'' = Some (JStr (date_isoformat (bc_period_end cycle)))) (batches s)"
proof (cases "materialize_cycle e (cycle_request_of d)")
  case (Inl x)
  then show thesis by (intro none) (simp_all add: materialize_schedule_def io_bind_def io_lift_def)
next
  case cycle: (Inr cycle)
  show thesis
  proof (cases "batch_create_request e d cs cycle")
    case (Inl x)
    then show thesis using cycle by (intro none) (simp_all add: materialize_schedule_def io_bind_def io_lift_def)
  next
    case request: (Inr q)
    have mode: "bq_selector_mode q = sf_selector_mode d"
      using request by (auto simp: batch_create_request_def require_def split: if_splits)
    let ?create = "create_scheduled_batch e d q caller (cycle_key e caller d cs cycle) s"
    let ?has = "has_batch_for_schedule_cycle (cc_tenant_id caller) (cc_region caller) (sf_schedule_id d)
       (date_isoformat (bc_period_start cycle)) (date_isoformat (bc_period_end cycle)) (date_isoformat (bc_as_of_date cycle)) s"
    show thesis
    proof (cases "\<not> sf_stable_cycle_identity d \<and> ?has = Inr (True, s)")
      case True
      then have "materialize_schedule e d cs caller s = (Done (Skipped (sf_schedule_id d)), s)"
        using cycle request by (simp add: materialize_schedule_def io_bind_def io_lift_def io_tx_def commit_def io_return_def Let_def)
      then show thesis by (intro none) simp_all
    next
      case False
      then have free: "sf_stable_cycle_identity d \<or> ?has = Inr (False, s)" by (auto simp: has_cycle_run)
      then have "materialize_schedule e d cs caller s = ?create"
        using cycle request mode
        by (auto simp: materialize_schedule_def cycle_key_def io_bind_def io_lift_def io_tx_def commit_def Let_def)
      then show thesis
        using create_scheduled_batch_effect [of e d q caller "cycle_key e caller d cs cycle" s] free none batch [OF cycle request]
        by (fastforce simp: has_cycle_run)
    qed
  qed
qed

lemma run_schedule_cases:
  obtains (none) "snd (run_schedule e ask cfg caller d s) = s"
      "\<And>m. fst (run_schedule e ask cfg caller d s) \<noteq> Done (Materialized m)"
  | (run) cs where "resolve_candidates ask d (sc_tenant_id cfg) (sc_region cfg) = Inr cs"
      "run_schedule e ask cfg caller d s = materialize_schedule e d cs caller s"
proof (cases "tenant_attribution_is_a_stamp d")
  case False
  show thesis
  proof (cases "resolve_candidates ask d (sc_tenant_id cfg) (sc_region cfg)")
    case (Inl x)
    then show thesis using False by (intro none) (simp_all add: run_schedule_def io_bind_def io_lift_def)
  next
    case (Inr cs)
    show thesis
    proof (cases "cs = [] \<or> sf_stable_cycle_identity d \<and> length cs \<noteq> length (sf_portfolio_ids d)")
      case True
      then show thesis using False Inr
        by (intro none) (auto simp: run_schedule_def io_bind_def io_lift_def io_return_def)
    next
      case full: False
      then show thesis using False Inr by (intro run) (auto simp: run_schedule_def io_bind_def io_lift_def)
    qed
  qed
qed (intro none; simp add: run_schedule_def io_return_def)

section \<open>Evidence for every portfolio\<close>

text \<open>An answer that attributes the active portfolio \<open>p\<close> to the tenant.\<close>

definition source_proves :: "string \<Rightarrow> string \<Rightarrow> int \<times> jobj \<Rightarrow> bool" where
  "source_proves tenant p answer \<longleftrightarrow> fst answer = 200
     \<and> py_strip (str_or (dget (snd answer) ''portfolio_id'') []) = py_strip p
     \<and> py_strip (str_or (dget (snd answer) ''tenant_id'') []) = tenant \<and> payload_active (snd answer)"

lemma judge_answer_Inr:
  "judge_answer p tenant answer = Inr t \<longleftrightarrow> fst answer = 200 \<and> str_or (dget (snd answer) ''portfolio_id'') [] = p
     \<and> py_strip (str_or (dget (snd answer) ''tenant_id'') []) = tenant \<and> tenant \<noteq> [] \<and> t = tenant"
  by (cases answer) (auto simp: judge_answer_def projected_tenant_def Let_def)

lemma portfolio_batch_candidate_Inr [simp]:
  "portfolio_batch_candidate c = Inr c' \<longleftrightarrow> c' = c
     \<and> [] \<notin> set [pc_portfolio_id c, pc_tenant_id c, pc_region c, pc_source_system c, pc_source_object c]"
  by (auto simp: portfolio_batch_candidate_def require_def)

lemma mapE_member: "mapE f xs = Inr ys \<Longrightarrow> y \<in> set ys \<Longrightarrow> \<exists>x. f x = Inr y"
  by (induction xs arbitrary: ys) auto

lemma resolve_each_answer:
  assumes "resolve_each ask tenant build ids = Inr cs" "c \<in> set cs"
  obtains j p answer where "ask j p = Inr answer" "judge_answer p tenant answer = Inr tenant"
    "build p (snd answer) tenant = Inr c"
proof -
  let ?F = "\<lambda>jp. bindE (ask (fst jp) (snd jp)) (\<lambda>answer. case judge_answer (snd jp) tenant answer of
        Inl _ \<Rightarrow> Inr [] | Inr projected \<Rightarrow> bindE (build (snd jp) (snd answer) projected) (\<lambda>c. Inr [c]))"
  obtain css where css: "mapE ?F (enumerate 0 ids) = Inr css" "cs = concat css"
    using assms(1) unfolding resolve_each_def split_def bindE_eq_Inr by blast
  then obtain y where y: "y \<in> set css" "c \<in> set y" using assms(2) by auto
  then obtain jp where "?F jp = Inr y" using mapE_member [OF css(1)] by blast
  then obtain answer where a: "ask (fst jp) (snd jp) = Inr answer"
    and y': "(case judge_answer (snd jp) tenant answer of Inl _ \<Rightarrow> Inr []
        | Inr projected \<Rightarrow> bindE (build (snd jp) (snd answer) projected) (\<lambda>c. Inr [c])) = Inr y"
    by (cases "ask (fst jp) (snd jp)") auto
  obtain t where t: "judge_answer (snd jp) tenant answer = Inr t"
    using y' y(2) by (cases "judge_answer (snd jp) tenant answer") auto
  then have "build (snd jp) (snd answer) t = Inr c" using y' y(2) by (cases "build (snd jp) (snd answer) t") auto
  moreover have "t = tenant" using t by (simp add: judge_answer_Inr)
  ultimately show thesis using that [OF a] t by simp
qed

lemma resolved_candidate:
  assumes "resolve_candidates ask d tenant region = Inr cs" "c \<in> set cs" "pc_active c"
  obtains j p answer where "ask j p = Inr answer" "source_proves tenant (pc_portfolio_id c) answer"
proof (cases "sf_selector_mode d = ''batch_manifest''")
  case True
  have "resolve_each ask tenant
       (\<lambda>p payload projected. case dget (manifest_by_id d) p of
          None \<Rightarrow> Inl (PyKeyError p)
        | Some entry \<Rightarrow> candidate_from_portfolio_payload payload projected region True
            (me_source_system entry) (me_source_object entry))
       (dkeys (manifest_by_id d)) = Inr cs"
    using assms(1) True by (simp add: resolve_candidates_def resolve_manifest_candidates_def)
  from resolve_each_answer [OF this assms(2)]
  obtain j p answer where a: "ask j p = Inr answer" "judge_answer p tenant answer = Inr tenant"
    and c: "(case dget (manifest_by_id d) p of None \<Rightarrow> Inl (PyKeyError p)
        | Some entry \<Rightarrow> candidate_from_portfolio_payload (snd answer) tenant region True
            (me_source_system entry) (me_source_object entry)) = Inr c"
    .
  have "source_proves tenant (pc_portfolio_id c) answer"
    using a(2) c assms(3)
    by (auto simp: judge_answer_Inr source_proves_def candidate_from_portfolio_payload_def split: option.splits)
  then show thesis using that a(1) by blast
next
  case False
  have "resolve_each ask tenant
        (\<lambda>p payload projected. portfolio_batch_candidate \<lparr>pc_portfolio_id = p, pc_tenant_id = projected,
           pc_region = region, pc_active = payload_active payload, pc_selected = True,
           pc_source_system = ''lotus-core'', pc_source_object = ''Portfolio''\<rparr>)
        (sf_portfolio_ids d) = Inr cs"
    using assms(1) False by (simp add: resolve_candidates_def)
  from resolve_each_answer [OF this assms(2)]
  obtain j p answer where a: "ask j p = Inr answer" "judge_answer p tenant answer = Inr tenant"
    and c: "portfolio_batch_candidate \<lparr>pc_portfolio_id = p, pc_tenant_id = tenant, pc_region = region,
       pc_active = payload_active (snd answer), pc_selected = True, pc_source_system = ''lotus-core'',
       pc_source_object = ''Portfolio''\<rparr> = Inr c"
    .
  have "source_proves tenant (pc_portfolio_id c) answer"
    using a(2) c assms(3) by (auto simp: judge_answer_Inr source_proves_def)
  then show thesis using that a(1) by blast
qed

text \<open>A fresh batch is appended, with the materialized portfolios.\<close>

lemma create_batch_appends:
  assumes "create_batch e q caller key s = Inr (r, s')" "s' \<noteq> s"
  obtains ms now bid where "materialize_portfolios q caller = Inr ms"
    "batches s' = batches s @ [new_batch_row q caller ms now bid (py_strip (the key)) (compute_batch_request_hash e q caller ms)]"
    "br_batch r = new_batch_row q caller ms now bid (py_strip (the key)) (compute_batch_request_hash e q caller ms)"
  using assms(1)
proof (cases rule: create_batch_cases)
  case (existing ms b)
  then show thesis using assms(2) by simp
next
  case (fresh ms)
  let ?b = "new_batch_row q caller ms (dt_to_text (utc_now e 0)) (''rbch_'' @ uuid4_hex e 1) (py_strip (the key))
     (compute_batch_request_hash e q caller ms)"
  obtain s1 where s1: "insert_batch ?b s = Inr ((), s1)"
    and loop: "tx_foreach (enumerate 1 ms) () (\<lambda>p _. insert_item (new_item_row (sub_env 2 e) (''rbch_'' @ uuid4_hex e 1)
       (py_strip (the key)) (bq_as_of_date q) (dt_to_text (utc_now e 0)) p)) s1 = Inr ((), s')"
    and load: "load_batch (''rbch_'' @ uuid4_hex e 1) s' = Inr (r, s')"
    using insert_new_batch_run [OF fresh(4)] .
  have rows: "batches s' = batches s @ [?b]" and new: "b_id ?b \<notin> b_id ` set (batches s)"
    using insert_items_effect [OF loop] s1 by (auto simp: insert_batch_def split: if_splits)
  have id: "b_id ?b = ''rbch_'' @ uuid4_hex e 1" by (simp add: new_batch_row_def)
  have "fetch (\<lambda>b. b_id b = b_id ?b) (batches s) = None" using new unfolding fetch_def find_None_iff by (metis image_eqI)
  then have "find_batch (b_id ?b) s' = Some ?b"
    unfolding find_batch_def rows fetch_append by (simp add: fetch_def)
  moreover have "load_batch (b_id ?b) s' = Inr (r, s')" using load by (simp only: id)
  ultimately have "br_batch r = ?b" by (simp add: load_batch_Inr)
  then show thesis using that fresh(2) rows by blast
qed

lemma fresh_batch_evidence:
  assumes cs: "resolve_candidates ask d tenant region = Inr cs" and q: "batch_create_request e d cs cycle = Inr q"
    and ms: "materialize_portfolios q caller = Inr ms" and p: "p \<in> mp_portfolio_id ` set ms"
  shows "\<exists>j w answer. ask j w = Inr answer \<and> source_proves tenant p answer"
proof -
  have q': "bq_source_candidates q = cs"
    using q by (auto simp: batch_create_request_def require_def split: if_splits)
  obtain sel where sel: "map pc_portfolio_id sel = wanted_ids q" "set sel \<subseteq> set cs" "\<forall>c \<in> set sel. eligible caller c"
    "ms = map materialized_from sel"
    using ms q' by (auto simp: materialize_portfolios_Inr)
  then obtain c where c: "c \<in> set sel" "pc_portfolio_id c = p" using p by (auto simp: materialized_from_def)
  then show ?thesis
    using resolved_candidate [OF cs, of c] sel(2,3) c by (metis eligible_def subsetD)
qed

section \<open>A pass\<close>

text \<open>Batches are only added, and those added satisfy \<open>good\<close>.\<close>

definition adds :: "(batch_row \<Rightarrow> bool) \<Rightarrow> batch_ledger \<Rightarrow> batch_ledger \<Rightarrow> bool" where
  "adds good s s' \<longleftrightarrow> (\<exists>new. batches s' = batches s @ new \<and> list_all good new)"

interpretation additions: effects "adds good" for good
proof unfold_locales
  show "adds good s s" for s by (simp add: adds_def)
  show "adds good s t \<Longrightarrow> adds good t u \<Longrightarrow> adds good s u" for s t u by (auto simp: adds_def)
qed

lemma within_lift:
  assumes "\<And>a. r = Inr a \<Longrightarrow> within (adds good) (f a)"
  shows "within (adds good) (io_bind (io_lift r) f)"
  using assms by (cases r) (auto simp: within_def io_bind_def io_lift_def additions.effect_refl)

text \<open>A batch of the tenant all of whose portfolios the source attributed to the tenant.\<close>

definition evidenced :: "(nat \<Rightarrow> nat \<Rightarrow> string \<Rightarrow> (int \<times> jobj) res) \<Rightarrow> scheduler_config \<Rightarrow> batch_row \<Rightarrow> bool" where
  "evidenced ask cfg b \<longleftrightarrow> b_tenant_id b = sc_tenant_id cfg \<and> b_region b = sc_region cfg
     \<and> b_booking_center_code b = sc_booking_center_code cfg
     \<and> (\<forall>p \<in> set (b_portfolio_ids b). \<exists>i j w answer. ask i j w = Inr answer \<and> source_proves (sc_tenant_id cfg) p answer)"

lemma within_run_schedule:
  assumes "admit_scheduler (sc_tenant_id cfg) (sc_region cfg) (sc_booking_center_code cfg) caller = Inr ()"
  shows "within (adds (evidenced ask cfg)) (run_schedule e (ask i) cfg caller d)"
  unfolding within_def
proof
  fix s
  show "adds (evidenced ask cfg) s (snd (run_schedule e (ask i) cfg caller d s))"
  proof (cases rule: run_schedule_cases [of e "ask i" cfg caller d s])
    case none
    then show ?thesis by (simp add: additions.effect_refl)
  next
    case (run cs)
    show ?thesis unfolding run(2)
    proof (cases rule: materialize_schedule_cases [of e d cs caller s])
      case none
      then show "adds (evidenced ask cfg) s (snd (materialize_schedule e d cs caller s))" by (simp add: additions.effect_refl)
    next
      case (batch cycle q r)
      show "adds (evidenced ask cfg) s (snd (materialize_schedule e d cs caller s))" (is "adds ?g s ?s'")
      proof (cases "?s' = s")
        case False
        then obtain ms now bid where ms: "materialize_portfolios q caller = Inr ms"
          and rows: "batches ?s' = batches s @ [new_batch_row q caller ms now bid
             (py_strip (the (Some (cycle_key e caller d cs cycle)))) (compute_batch_request_hash e q caller ms)]"
          using create_batch_appends [OF batch(3)] by metis
        have "\<exists>i j w answer. ask i j w = Inr answer \<and> source_proves (sc_tenant_id cfg) p answer"
          if "p \<in> mp_portfolio_id ` set ms" for p
          using fresh_batch_evidence [OF run(1) batch(2) ms that] by blast
        then show ?thesis using rows assms
          by (auto simp: adds_def evidenced_def new_batch_row_def admit_scheduler_def split: if_splits)
      qed (simp add: additions.effect_refl)
    qed
  qed
qed

lemma within_run_schedules:
  assumes "admit_scheduler (sc_tenant_id cfg) (sc_region cfg) (sc_booking_center_code cfg) caller = Inr ()"
  shows "within (adds (evidenced (\<lambda>i j p. source i j p (cc_correlation_id caller) (cc_tenant_id caller)) cfg))
    (run_schedules e source cfg caller i ds)"
proof (induction ds arbitrary: i)
  case (Cons d ds)
  show ?case unfolding run_schedules.simps
    by (intro additions.within_bind additions.within_return Cons
        within_run_schedule [OF assms, of "\<lambda>i j p. source i j p (cc_correlation_id caller) (cc_tenant_id caller)"])
qed (simp add: additions.within_return)

text \<open>
  (C24) Every batch a scheduler pass creates is attributed on evidence: however the pass ends, it only
  appends batches; each carries the tenant, region and booking centre of the scheduler, and for each of
  its portfolios the source was asked under that tenant and answered 200 with that portfolio's id, the
  scheduler's own tenant as the owner and an active status. A caller outside the scheduler's scope
  creates nothing.
\<close>

theorem scheduled_batches_evidenced:
  assumes "run_due_schedules e source store cfg caller today s = (outcome, s')"
  shows "\<exists>new. batches s' = batches s @ new \<and> (\<forall>b \<in> set new.
     b_tenant_id b = sc_tenant_id cfg \<and> b_region b = sc_region cfg \<and> b_booking_center_code b = sc_booking_center_code cfg
     \<and> cc_tenant_id caller = sc_tenant_id cfg
     \<and> (\<forall>p \<in> set (b_portfolio_ids b). \<exists>i j w payload.
          source i j w (cc_correlation_id caller) (sc_tenant_id cfg) = Inr (200, payload)
          \<and> py_strip (str_or (dget payload ''portfolio_id'') []) = py_strip p
          \<and> py_strip (str_or (dget payload ''tenant_id'') []) = sc_tenant_id cfg
          \<and> py_lower (str_or (dget payload ''status'') []) = ''active''))"
proof (cases "admit_scheduler (sc_tenant_id cfg) (sc_region cfg) (sc_booking_center_code cfg) caller")
  case (Inl x)
  then show ?thesis using assms by (auto simp: run_due_schedules_def io_bind_def io_lift_def)
next
  case (Inr u)
  let ?ask = "\<lambda>i j p. source i j p (cc_correlation_id caller) (cc_tenant_id caller)"
  have "within (adds (evidenced ?ask cfg)) (run_due_schedules e source store cfg caller today)"
    unfolding run_due_schedules_def
    by (intro additions.within_bind additions.within_return within_run_schedules) (use Inr in simp)
  then have "adds (evidenced ?ask cfg) s (snd (run_due_schedules e source store cfg caller today s))"
    unfolding within_def by blast
  then have "adds (evidenced ?ask cfg) s s'" using assms by simp
  moreover have "cc_tenant_id caller = sc_tenant_id cfg" using Inr by (auto simp: admit_scheduler_def split: if_splits)
  ultimately obtain new where "batches s' = batches s @ new" "\<forall>b \<in> set new. evidenced ?ask cfg b"
    "cc_tenant_id caller = sc_tenant_id cfg"
    by (auto simp: adds_def list_all_iff)
  then show ?thesis unfolding evidenced_def source_proves_def payload_active_def by (intro exI [of _ new]) fastforce
qed

definition sample_portfolio_source :: portfolio_source where
  "sample_portfolio_source i j p correlation_id tenant_id = Inr (200, [(''portfolio_id'', JStr p), (''tenant_id'', JStr tenant_id),
     (''status'', JStr ''ACTIVE'')])"

definition sample_due :: schedule_definition where
  "sample_due = \<lparr>sf_schedule_id = ''rbsc_a'', sf_enabled = True, sf_stable_cycle_identity = True,
     sf_selector_mode = ''explicit_portfolio_list'', sf_frequency = ''monthly'', sf_as_of_date = 739736,
     sf_portfolio_ids = [''p1''], sf_manifest_entries = [], sf_manifest_source = None,
     sf_manifest_version = None, sf_manifest_hash = None, sf_output_formats = [''pdf''],
     sf_reporting_currency = None, sf_options = [], sf_max_batch_size = 250,
     sf_explicit_period_start = None, sf_explicit_period_end = None\<rparr>"

definition sample_config :: scheduler_config where
  "sample_config = \<lparr>sc_scheduler_id = ''scheduler-1'', sc_tenant_id = ''t1'', sc_region = ''sg'',
     sc_booking_center_code = None, sc_role = ''system'', sc_schedules = [sample_due]\<rparr>"

definition sample_cycle :: "env \<Rightarrow> batch_cycle" where
  "sample_cycle e = \<lparr>bc_frequency = ''monthly'', bc_period_start = 739707, bc_period_end = 739736, bc_as_of_date = 739736,
     bc_idempotency_scope = cycle_scope e ''monthly'' 739707 739736 739736\<rparr>"

definition sample_resolved :: portfolio_candidate where
  "sample_resolved = \<lparr>pc_portfolio_id = ''p1'', pc_tenant_id = ''t1'', pc_region = ''sg'', pc_active = True, pc_selected = True,
     pc_source_system = ''lotus-core'', pc_source_object = ''Portfolio''\<rparr>"

definition sample_cycle_request :: "env \<Rightarrow> batch_request" where
  "sample_cycle_request e = \<lparr>bq_selector_mode = ''explicit_portfolio_list'', bq_portfolio_ids = [''p1''],
     bq_source_candidates = [sample_resolved], bq_as_of_date = 739736, bq_requested_output_formats = [''pdf''],
     bq_reporting_currency = None, bq_options = batch_options e sample_due (sample_cycle e), bq_max_batch_size = 250\<rparr>"

abbreviation sample_ask :: "nat \<Rightarrow> string \<Rightarrow> (int \<times> jobj) res" where
  "sample_ask \<equiv> \<lambda>j p. sample_portfolio_source 0 j p ''c1'' ''t1''"

lemma sample_resolution: "resolve_candidates sample_ask sample_due ''t1'' ''sg'' = Inr [sample_resolved]"
  by code_simp

lemma sample_cycle_materialized: "materialize_cycle e (cycle_request_of sample_due) = Inr (sample_cycle e)"
proof -
  have "period_start_of ''monthly'' 739736 = Some 739707" by code_simp
  then show ?thesis
    by (simp add: materialize_cycle_def cycle_request_of_def sample_due_def BATCH_FREQUENCIES_def sample_cycle_def)
qed

lemma sample_request_built:
  "batch_create_request e sample_due [sample_resolved] (sample_cycle e) = Inr (sample_cycle_request e)"
  by (simp add: batch_create_request_def sample_cycle_request_def sample_resolved_def sample_cycle_def)
    (simp add: sample_due_def)

lemma sample_selected: "materialize_portfolios (sample_cycle_request e) sample_batch_caller = Inr [materialized_from sample_resolved]"
  unfolding materialize_portfolios_Inr
  by (intro conjI exI [of _ "[sample_resolved]"])
    (simp_all add: sample_cycle_request_def wanted_ids_def SUPPORTED_MATERIALIZATION_SELECTORS_def
      eligible_def sample_resolved_def sample_batch_caller_def py_strip_def py_isspace_def)

lemma stored_key_not_blank: "\<not> py_blank (Some (stored_schedule_cycle_idempotency_key e i t))"
  by (simp add: py_blank_def stored_schedule_cycle_idempotency_key_def py_strip_def py_isspace_def dropWhile_append)

lemma sample_created_in_empty:
  assumes "\<not> py_blank (Some key)"
  shows "\<exists>r s1. create_batch e (sample_cycle_request e) sample_batch_caller (Some key) empty_batches = Inr (r, s1)
    \<and> map b_portfolio_ids (batches s1) = [[''p1'']]"
  using assms
  by (simp add: create_batch_def sample_selected Let_def insert_new_batch_def insert_batch_def insert_item_def
      empty_batches_def load_batch_def find_batch_def new_batch_row_def tx_run fetch_def materialized_from_def sample_resolved_def)

lemma sample_minted:
  obtains m s1 where "run_schedule e sample_ask sample_config sample_batch_caller sample_due empty_batches
    = (Done (Materialized m), s1)" "map b_portfolio_ids (batches s1) = [[''p1'']]"
proof -
  let ?key = "stored_schedule_cycle_idempotency_key e ''rbsc_a'' 739736"
  have d: "sf_schedule_id sample_due = ''rbsc_a''" "sf_stable_cycle_identity sample_due" "sf_portfolio_ids sample_due = [''p1'']"
    "\<not> tenant_attribution_is_a_stamp sample_due" "bc_as_of_date (sample_cycle e) = 739736"
    "sc_tenant_id sample_config = ''t1''" "sc_region sample_config = ''sg''"
    by (simp_all add: sample_due_def sample_config_def sample_cycle_def tenant_attribution_is_a_stamp_def)
  have "\<not> py_blank (Some ?key)" by (rule stored_key_not_blank)
  from sample_created_in_empty [OF this, of e]
  obtain r s1 where r: "create_batch e (sample_cycle_request e) sample_batch_caller (Some ?key) empty_batches = Inr (r, s1)"
    "map b_portfolio_ids (batches s1) = [[''p1'']]"
    by (elim exE conjE)
  have "run_schedule e sample_ask sample_config sample_batch_caller sample_due empty_batches
      = create_scheduled_batch e sample_due (sample_cycle_request e) sample_batch_caller ?key empty_batches"
    using d sample_resolution sample_cycle_materialized [of e] sample_request_built [of e]
    by (simp add: run_schedule_def materialize_schedule_def io_bind_def io_lift_def)
  then show thesis using that r by (simp add: create_scheduled_batch_run)
qed

lemma sample_pass:
  obtains result s1 where "run_due_schedules sample_env sample_portfolio_source None sample_config sample_batch_caller 739737 empty_batches
    = (Done result, s1)" "map b_portfolio_ids (batches s1) = [[''p1'']]"
proof -
  obtain m s1 where "run_schedule (sub_env 0 sample_env) sample_ask sample_config sample_batch_caller sample_due empty_batches
      = (Done (Materialized m), s1)" "map b_portfolio_ids (batches s1) = [[''p1'']]"
    by (rule sample_minted)
  moreover have "admit_scheduler (sc_tenant_id sample_config) (sc_region sample_config) (sc_booking_center_code sample_config)
      sample_batch_caller = Inr ()" by code_simp
  moreover have "enabled_schedules sample_config None 739737 = Inr [sample_due]"
    by (simp add: enabled_schedules_def sample_config_def sample_due_def)
  moreover have "cc_correlation_id sample_batch_caller = ''c1''" "cc_tenant_id sample_batch_caller = ''t1''"
    by (simp_all add: sample_batch_caller_def)
  ultimately show thesis using that by (simp add: run_due_schedules_def io_bind_def io_lift_def io_return_def)
qed

theorem scheduled_batches_evidenced_witness:
  "\<exists>s1. map b_portfolio_ids (batches s1) = [[''p1'']]
     \<and> (\<exists>result. run_due_schedules sample_env sample_portfolio_source None sample_config sample_batch_caller 739737 empty_batches
          = (Done result, s1))
     \<and> (\<exists>i j w payload. sample_portfolio_source i j w ''c1'' ''t1'' = Inr (200, payload)
          \<and> py_strip (str_or (dget payload ''tenant_id'') []) = ''t1'')"
proof -
  obtain result s1 where pass: "run_due_schedules sample_env sample_portfolio_source None sample_config sample_batch_caller 739737
      empty_batches = (Done result, s1)" and ids: "map b_portfolio_ids (batches s1) = [[''p1'']]"
    by (rule sample_pass)
  then obtain b where b: "batches s1 = [b]" "b_portfolio_ids b = [''p1'']" by auto
  have cfg: "sc_tenant_id sample_config = ''t1''" "cc_correlation_id sample_batch_caller = ''c1''" "batches empty_batches = []"
    by (simp_all add: sample_config_def sample_batch_caller_def empty_batches_def)
  have "\<exists>i j w payload. sample_portfolio_source i j w ''c1'' ''t1'' = Inr (200, payload)
      \<and> py_strip (str_or (dget payload ''tenant_id'') []) = ''t1''"
    using scheduled_batches_evidenced [OF pass] b unfolding cfg by fastforce
  then show ?thesis using pass ids by (intro exI [of _ s1]) simp
qed

section \<open>One batch per cycle\<close>

lemma materialize_cycle_sha: "env_sha256 e' = env_sha256 e \<Longrightarrow> materialize_cycle e' q = materialize_cycle e q"
  by (simp add: materialize_cycle_def cycle_scope_def Let_def)

lemma materialize_cycle_as_of: "materialize_cycle e (cycle_request_of d) = Inr cycle \<Longrightarrow> bc_as_of_date cycle = sf_as_of_date d"
  by (auto simp: materialize_cycle_def cycle_request_of_def Let_def split: if_splits prod.splits option.splits sum.splits)

lemma stored_key_sha:
  "env_sha256 e' = env_sha256 e
    \<Longrightarrow> stored_schedule_cycle_idempotency_key e' i t = stored_schedule_cycle_idempotency_key e i t"
  by (simp add: stored_schedule_cycle_idempotency_key_def stable_short_hash_def)

text \<open>What a schedule that reports a batch did.\<close>

lemma materialized_run:
  assumes "run_schedule e ask cfg caller d s = (Done (Materialized m), s1)"
  obtains cs cycle q r where "materialize_cycle e (cycle_request_of d) = Inr cycle"
    "batch_create_request e d cs cycle = Inr q"
    "create_batch e q caller (Some (cycle_key e caller d cs cycle)) s = Inr (r, s1)"
    "mz_batch_id m = b_id (br_batch r)"
proof (cases rule: run_schedule_cases [of e ask cfg caller d s])
  case none
  then show thesis using assms by auto
next
  case (run cs)
  show thesis
  proof (cases rule: materialize_schedule_cases [of e d cs caller s])
    case none
    then show thesis using assms run(2) by auto
  next
    case (batch cycle q r)
    then show thesis using that assms run(2) by (auto simp: materialization_of_def)
  qed
qed

lemma create_batch_taken:
  assumes "batch_inv s" "b \<in> set (batches s)" "b_idempotency_key b = py_strip (the key)"
    and "create_batch e q caller key s = Inr (r, s')"
  shows "s' = s \<and> br_batch r = b"
  using assms(4)
proof (cases rule: create_batch_cases)
  case (existing ms x)
  have "x = b" using fetch_SomeD [OF existing(3)] keyed_fetch_iff [OF batch_inv_distinct(2) [OF assms(1)]] existing(3) assms(2,3)
    by (metis option.inject)
  moreover have "find_batch (b_id b) s = Some b" using find_batch_iff [OF assms(1)] assms(2) by simp
  ultimately show ?thesis using existing by (simp add: load_batch_Inr)
next
  case (fresh ms)
  then show ?thesis using assms(2,3) by auto
qed

lemma core_options:
  assumes "batch_core x = batch_core y"
  shows "b_options x = b_options y" "b_region x = b_region y" "b_tenant_id x = b_tenant_id y" "b_as_of_date x = b_as_of_date y"
    "b_idempotency_key x = b_idempotency_key y"
proof -
  have core: "b_options (batch_core z) = b_options z" "b_region (batch_core z) = b_region z" for z
    by (simp_all add: batch_core_def)
  show "b_options x = b_options y" "b_region x = b_region y" using assms core by metis+
  show "b_tenant_id x = b_tenant_id y" "b_as_of_date x = b_as_of_date y" "b_idempotency_key x = b_idempotency_key y"
    using assms core_fields by metis+
qed

lemma batch_options_stamp:
  "dget (batch_options e d cycle) ''batch_schedule_id'' = Some (JStr (sf_schedule_id d))"
  "dget (batch_options e d cycle) ''batch_period_start'' = Some (JStr (date_isoformat (bc_period_start cycle)))"
  "dget (batch_options e d cycle) ''batch_period_end'' = Some (JStr (date_isoformat (bc_period_end cycle)))"
  by (simp_all add: batch_options_def Let_def)

text \<open>The columns by which a cycle is recognised.\<close>

definition records_cycle :: "caller_context \<Rightarrow> schedule_definition \<Rightarrow> batch_cycle \<Rightarrow> batch_row \<Rightarrow> bool" where
  "records_cycle caller d cycle x \<longleftrightarrow> date_isoformat (b_as_of_date x) = date_isoformat (bc_as_of_date cycle)
     \<and> b_tenant_id x = cc_tenant_id caller \<and> b_region x = cc_region caller
     \<and> dget (b_options x) ''batch_schedule_id'' = Some (JStr (sf_schedule_id d))
     \<and> dget (b_options x) ''batch_period_start'' = Some (JStr (date_isoformat (bc_period_start cycle)))
     \<and> dget (b_options x) ''batch_period_end'' = Some (JStr (date_isoformat (bc_period_end cycle)))"

lemma fresh_batch_records:
  assumes "batch_inv s" "batch_create_request e d cs cycle = Inr q" "create_batch e q caller key s = Inr (r, s1)"
    and "b_id (br_batch r) \<notin> b_id ` set (batches s)"
  shows "records_cycle caller d cycle (br_batch r)"
proof -
  have "br_batch r \<in> set (batches s1)" using created_batch_row [OF assms(1,3)] by metis
  then have "s1 \<noteq> s" using assms(4) by auto
  then obtain ms now bid where r: "br_batch r
      = new_batch_row q caller ms now bid (py_strip (the key)) (compute_batch_request_hash e q caller ms)"
    using create_batch_appends [OF assms(3)] by metis
  have "bq_options q = batch_options e d cycle" "bq_as_of_date q = bc_as_of_date cycle"
    using assms(2) by (auto simp: batch_create_request_def require_def split: if_splits)
  then show ?thesis
    by (simp add: r records_cycle_def new_batch_row_def dget_sorted_obj_any batch_options_stamp)
qed

lemma recorded_cycle_kept:
  assumes "b \<in> set (batches s)" "records_cycle caller d cycle b" "\<not> sf_stable_cycle_identity d"
    and "materialize_cycle e (cycle_request_of d) = Inr cycle"
  shows "snd (run_schedule e ask cfg caller d s) = s \<and> fst (run_schedule e ask cfg caller d s) \<noteq> Done (Materialized m)"
proof (cases rule: run_schedule_cases [of e ask cfg caller d s])
  case (run cs)
  have "list_ex (records_cycle caller d cycle) (batches s)" using assms(1,2) by (auto simp: list_ex_iff)
  then show ?thesis
    unfolding run(2)
    by (cases rule: materialize_schedule_cases [of e d cs caller s]) (use assms(3,4) in \<open>auto simp: records_cycle_def [abs_def]\<close>)
qed simp

text \<open>
  (C23) A cycle gets one batch. Once a schedule has reported a batch for a cycle (for a configured schedule:
  a batch that was new), then after any further operations on the batch ledger, running that
  schedule again for the same cycle changes nothing, whatever the source answers and however the content
  of the schedule was edited in between. A stored schedule is identified by its id and as-of date alone,
  so its cadence may have changed too, and a repeated run that reports a batch reports the same one.
\<close>

theorem cycle_minted_once:
  assumes inv: "batch_inv s" and first: "run_schedule e ask cfg caller d s = (Done (Materialized m), s1)"
    and new: "sf_stable_cycle_identity d \<or> mz_batch_id m \<notin> b_id ` set (batches s)"
    and later: "batch_run s1 s2"
    and same: "sf_schedule_id d' = sf_schedule_id d" "sf_stable_cycle_identity d' = sf_stable_cycle_identity d"
      "sf_as_of_date d' = sf_as_of_date d" "sf_stable_cycle_identity d \<or> cycle_request_of d' = cycle_request_of d"
    and env: "env_sha256 e' = env_sha256 e"
    and scope: "cc_tenant_id caller' = cc_tenant_id caller" "cc_region caller' = cc_region caller"
  shows "snd (run_schedule e' ask' cfg' caller' d' s2) = s2
    \<and> (fst (run_schedule e' ask' cfg' caller' d' s2) = Done (Materialized m')
         \<longrightarrow> sf_stable_cycle_identity d \<and> mz_batch_id m' = mz_batch_id m)"
proof -
  obtain cs cycle q r where cycle: "materialize_cycle e (cycle_request_of d) = Inr cycle"
    and q: "batch_create_request e d cs cycle = Inr q"
    and create: "create_batch e q caller (Some (cycle_key e caller d cs cycle)) s = Inr (r, s1)"
    and m: "mz_batch_id m = b_id (br_batch r)"
    using materialized_run [OF first] .
  have row: "br_batch r \<in> set (batches s1)" "b_idempotency_key (br_batch r) = py_strip (cycle_key e caller d cs cycle)"
    using created_batch_row [OF inv create] by (metis, metis option.sel)
  have inv1: "batch_inv s1" using keepsD [OF bkeeps_create create] inv by (simp add: bl_rel_def)
  then have inv2: "batch_inv s2" using batch_run_inv later by blast
  obtain b where b: "b \<in> set (batches s2)" "b_id b = b_id (br_batch r)" "batch_core b = batch_core (br_batch r)"
    using batch_later [OF later inv1 row(1)] by (metis batch_evolves_def)
  show ?thesis
  proof (cases "sf_stable_cycle_identity d")
    case True
    have key: "b_idempotency_key b = py_strip (stored_schedule_cycle_idempotency_key e (sf_schedule_id d) (sf_as_of_date d))"
      using row(2) core_options(5) [OF b(3)] True materialize_cycle_as_of [OF cycle] by (simp add: cycle_key_def)
    show ?thesis
    proof (cases rule: run_schedule_cases [of e' ask' cfg' caller' d' s2])
      case (run cs')
      show ?thesis unfolding run(2)
      proof (cases rule: materialize_schedule_cases [of e' d' cs' caller' s2])
        case (batch cycle' q' r')
        have "cycle_key e' caller' d' cs' cycle'
            = stored_schedule_cycle_idempotency_key e (sf_schedule_id d) (sf_as_of_date d)"
          using True same materialize_cycle_as_of [OF batch(1)] stored_key_sha [OF env] by (simp add: cycle_key_def)
        then have "snd (materialize_schedule e' d' cs' caller' s2) = s2 \<and> br_batch r' = b"
          using create_batch_taken [OF inv2 b(1) _ batch(3)] key by simp
        then show "snd (materialize_schedule e' d' cs' caller' s2) = s2
            \<and> (fst (materialize_schedule e' d' cs' caller' s2) = Done (Materialized m')
                 \<longrightarrow> sf_stable_cycle_identity d \<and> mz_batch_id m' = mz_batch_id m)"
          using batch(4) b(2) m True by (auto simp: materialization_of_def)
      qed simp
    qed simp
  next
    case False
    have "records_cycle caller d cycle (br_batch r)" using fresh_batch_records [OF inv q create] new False m by simp
    then have "records_cycle caller' d' cycle b"
      using core_options [OF b(3)] same scope by (simp add: records_cycle_def)
    moreover have "materialize_cycle e' (cycle_request_of d') = Inr cycle"
      using cycle same(4) False materialize_cycle_sha [OF env] by simp
    ultimately show ?thesis using recorded_cycle_kept [OF b(1)] same(2) False by blast
  qed
qed

theorem cycle_minted_once_witness:
  "\<exists>s1. map b_portfolio_ids (batches s1) = [[''p1'']]
     \<and> snd (run_schedule sample_env sample_ask sample_config sample_batch_caller
       (sample_due\<lparr>sf_frequency := ''quarterly'', sf_portfolio_ids := [''p3'']\<rparr>) s1) = s1"
proof -
  obtain m s1 where run: "run_schedule sample_env sample_ask sample_config sample_batch_caller sample_due empty_batches
      = (Done (Materialized m), s1)" and ids: "map b_portfolio_ids (batches s1) = [[''p1'']]"
    by (rule sample_minted)
  have "sf_stable_cycle_identity sample_due" by (simp add: sample_due_def)
  then have "snd (run_schedule sample_env sample_ask sample_config sample_batch_caller
       (sample_due\<lparr>sf_frequency := ''quarterly'', sf_portfolio_ids := [''p3'']\<rparr>) s1) = s1"
    using cycle_minted_once [OF empty_batches_inv run, of s1 "sample_due\<lparr>sf_frequency := ''quarterly'', sf_portfolio_ids := [''p3'']\<rparr>"]
    by simp
  then show ?thesis using ids by (intro exI [of _ s1]) simp
qed

end
