(* ===== verification/Archive_Lineage.thy ===== *)
theory Archive_Lineage
  imports Worker Ordering_Catalogue
begin

text \<open>
  Correction and replacement lineage in Archive (\<open>reporting_render/archive_lineage.py\<close>): recording one
  pair of documents, settling the pending pairs of a job, and the reconciliation pass over all jobs.
  The durable outcome of every attempt is an event of the job.

  Archive is an argument: its answer to a request may depend on the position of the call, and a raised
  exception is an error value. \<open>Archive_Lineage_Laws\<close> shows what makes the flow correct.
\<close>

section \<open>Recording a pair\<close>

definition LINEAGE_RECORDED_EVENT :: string where "LINEAGE_RECORDED_EVENT = ''job_archive_lineage_recorded''"
definition LINEAGE_PENDING_EVENT :: string where "LINEAGE_PENDING_EVENT = ''job_archive_lineage_pending''"
definition LINEAGE_REFUSED_EVENT :: string where "LINEAGE_REFUSED_EVENT = ''job_archive_lineage_refused''"

record lineage_pair =
  lp_source_document_id :: string
  lp_target_document_id :: string
  lp_transition_type :: string

type_synonym lineage_client = "nat list \<Rightarrow> lineage_pair \<Rightarrow> string \<Rightarrow> caller_context \<Rightarrow> (int \<times> jobj) res"

definition pair_key :: "lineage_pair \<Rightarrow> string" where
  "pair_key q = lp_transition_type q @ '':'' @ lp_source_document_id q @ ''->'' @ lp_target_document_id q"

text \<open>\<open>payload.get(key) == text\<close>: a JSON value equals a text only when it is that string.\<close>

definition acknowledged_relationship_id :: "jobj \<Rightarrow> lineage_pair \<Rightarrow> string option" where
  "acknowledged_relationship_id payload q =
     (case dget payload ''lifecycle_relationship_id'' of
        Some (JStr relationship_id) \<Rightarrow>
          if py_strip relationship_id = [] then None
          else if length relationship_id > 256 then None
          else if dget payload ''source_document_id'' \<noteq> Some (JStr (lp_source_document_id q))
            \<or> dget payload ''target_document_id'' \<noteq> Some (JStr (lp_target_document_id q))
            \<or> dget payload ''transition_type'' \<noteq> Some (JStr (lp_transition_type q)) then None
          else Some relationship_id
      | _ \<Rightarrow> None)"

abbreviation pair_fields :: "lineage_pair \<Rightarrow> jobj" where
  "pair_fields q \<equiv> [(''source_document_id'', JStr (lp_source_document_id q)),
     (''target_document_id'', JStr (lp_target_document_id q)), (''transition_type'', JStr (lp_transition_type q))]"

definition append_lineage_event ::
    "env \<Rightarrow> string \<Rightarrow> string \<Rightarrow> string \<Rightarrow> jobj \<Rightarrow> lineage_pair \<Rightarrow> caller_context \<Rightarrow> bool io" where
  "append_lineage_event e event_job_id event_type message details q caller =
     io_tx (append_job_event e event_job_id event_type message (Some (pair_fields q @ details))
       (Some (event_type @ '':'' @ pair_key q)) (cc_triggered_by caller) (cc_correlation_id caller) (cc_trace_id caller) True)"

definition record_archive_lineage ::
    "lineage_client \<Rightarrow> nat list \<Rightarrow> env \<Rightarrow> string \<Rightarrow> lineage_pair \<Rightarrow> string \<Rightarrow> caller_context \<Rightarrow> bool io" where
  "record_archive_lineage archive path e event_job_id q reason caller =
     (let (status_code, payload) = (case archive path q reason caller of Inl _ \<Rightarrow> (0, []) | Inr answer \<Rightarrow> answer);
          relationship_id = (if status_code \<in> {200, 201} then acknowledged_relationship_id payload q else None) in
      case relationship_id of
        Some r \<Rightarrow>
          io_bind (append_lineage_event e event_job_id LINEAGE_RECORDED_EVENT
            (''Archive lifecycle records '' @ lp_source_document_id q @ '' ''
             @ lp_transition_type q @ ''d by '' @ lp_target_document_id q @ ''.'')
            [(''lifecycle_relationship_id'', JStr r)] q caller) (\<lambda>_. io_return True)
      | None \<Rightarrow>
          if 400 \<le> status_code \<and> status_code < 500 then
            io_bind (append_lineage_event e event_job_id LINEAGE_REFUSED_EVENT
              (''Archive REFUSED lifecycle linkage '' @ lp_source_document_id q @ '' -> ''
               @ lp_target_document_id q @ '' ('' @ lp_transition_type q @ '') with status ''
               @ int_text status_code @ ''. This pair will not be retried; operator ''
               @ ''attention is required.'')
              [(''status_code'', JInt status_code)] q caller) (\<lambda>_. io_return False)
          else
            io_bind (append_lineage_event e event_job_id LINEAGE_PENDING_EVENT
              (''Archive lifecycle linkage '' @ lp_source_document_id q @ '' -> ''
               @ lp_target_document_id q @ '' ('' @ lp_transition_type q @ '') is PENDING: the ''
               @ ''requested pair has no validated acknowledgement. The stored document stands; ''
               @ ''the linkage is re-attempted on the next correction-flow entry.'')
              [(''transition_reason'', JStr reason), (''status_code'', JInt status_code),
               (''reason_code'', JStr (if status_code \<in> {200, 201} then ''archive_lineage_acknowledgement_invalid''
                                     else ''archive_lineage_call_unconfirmed''))] q caller) (\<lambda>_. io_return False))"

section \<open>Settlement\<close>

text \<open>The pair an event names, when the three fields are present and not empty.\<close>

definition event_pair :: "jobj \<Rightarrow> lineage_pair option" where
  "event_pair payload =
     (case (dget payload ''source_document_id'', dget payload ''target_document_id'', dget payload ''transition_type'') of
        (Some a, Some b, Some t) \<Rightarrow>
          if jtrue a \<and> jtrue b \<and> jtrue t
          then Some \<lparr>lp_source_document_id = py_str a, lp_target_document_id = py_str b, lp_transition_type = py_str t\<rparr>
          else None
      | _ \<Rightarrow> None)"

text \<open>The loop over the events: the settled pairs, and the last payload of every pending pair.\<close>

definition settlement_step ::
    "event_row \<Rightarrow> string list \<times> (string \<times> jobj) list \<Rightarrow> string list \<times> (string \<times> jobj) list" where
  "settlement_step v acc = (case (event_pair (ev_payload v), acc) of
     (None, _) \<Rightarrow> acc
   | (Some q, (recorded, pending)) \<Rightarrow>
       if ev_type v \<in> {LINEAGE_RECORDED_EVENT, LINEAGE_REFUSED_EVENT} then (pair_key q # recorded, pending)
       else if ev_type v = LINEAGE_PENDING_EVENT then (recorded, dset pending (pair_key q) (ev_payload v))
       else acc)"

fun settle_pairs ::
    "lineage_client \<Rightarrow> nat list \<Rightarrow> env \<Rightarrow> string \<Rightarrow> caller_context \<Rightarrow> nat \<Rightarrow> (lineage_pair \<times> string) list \<Rightarrow> unit io" where
  "settle_pairs archive path e event_job_id caller i [] = io_return ()"
| "settle_pairs archive path e event_job_id caller i ((q, reason) # rest) =
     io_bind (record_archive_lineage archive (i # path) (sub_env i e) event_job_id q reason caller) (\<lambda>_.
     settle_pairs archive path e event_job_id caller (Suc i) rest)"

definition unsettled_pairs :: "event_row list \<Rightarrow> (lineage_pair \<times> string) list" where
  "unsettled_pairs evs =
     (case fold settlement_step evs ([], []) of (recorded, pending) \<Rightarrow>
        map (\<lambda>(pair, payload). (the (event_pair payload), str_or (dget payload ''transition_reason'') ''lineage settlement''))
          (filter (\<lambda>(pair, payload). pair \<notin> set recorded) pending))"

definition settle_pending_archive_lineage ::
    "lineage_client \<Rightarrow> nat list \<Rightarrow> env \<Rightarrow> string \<Rightarrow> caller_context \<Rightarrow> unit io" where
  "settle_pending_archive_lineage archive path e event_job_id caller s =
     settle_pairs archive path e event_job_id caller 0 (unsettled_pairs (list_status_events s event_job_id)) s"

section \<open>Reconciliation\<close>

record reconciliation =
  rc_outstanding_jobs :: nat
  rc_attempted_jobs :: nat
  rc_oldest_age :: "int option"

text \<open>The greatest age, in microseconds.\<close>

definition oldest_age :: "dt \<Rightarrow> (string \<times> dt) list \<Rightarrow> int option" where
  "oldest_age now rows = fold (\<lambda>(i, created) oldest. case oldest of
       None \<Rightarrow> Some (now - created) | Some a \<Rightarrow> if now - created > a then Some (now - created) else Some a) rows None"

definition reconciler_context :: "job_record \<Rightarrow> caller_context" where
  "reconciler_context job = \<lparr>cc_trigger_type = ''system'', cc_triggered_by = ''archive-lineage-reconciler'',
     cc_caller_application = ''lotus-report'', cc_tenant_id = lr_tenant_id job, cc_region = lr_region job,
     cc_booking_center_code = None, cc_role = None, cc_correlation_id = lr_correlation_id job,
     cc_trace_id = lr_trace_id job\<rparr>"

fun reconcile_jobs :: "lineage_client \<Rightarrow> env \<Rightarrow> nat \<Rightarrow> string list \<Rightarrow> nat io" where
  "reconcile_jobs archive e i [] = io_return 0"
| "reconcile_jobs archive e i (job_id # rest) =
     io_bind (io_tx (get_job job_id)) (\<lambda>job.
     io_bind (settle_pending_archive_lineage archive [i] (sub_env i e) (lr_job_id job) (reconciler_context job)) (\<lambda>_.
     io_bind (reconcile_jobs archive e (Suc i) rest) (\<lambda>n. io_return (Suc n))))"

definition reconcile_pending_archive_lineage :: "lineage_client \<Rightarrow> env \<Rightarrow> int \<Rightarrow> reconciliation io" where
  "reconcile_pending_archive_lineage archive e limit s =
     (let outstanding_jobs = list_pending_archive_lineage s limit in
      io_bind (reconcile_jobs archive (sub_env 1 e) 0 (map fst outstanding_jobs)) (\<lambda>n.
      io_return \<lparr>rc_outstanding_jobs = length outstanding_jobs, rc_attempted_jobs = n,
        rc_oldest_age = oldest_age (utc_now e 0) outstanding_jobs\<rparr>) s)"

end
