(* ===== verification/Archive_Lineage_Laws.thy ===== *)
theory Archive_Lineage_Laws
  imports Archive_Lineage
begin

text \<open>
  Settlement of archive lineage converges: once Archive acknowledges the pairs it is sent, a settlement
  leaves its job without a pending pair, and a reconciliation pass leaves no job it reached pending.
\<close>

section \<open>Keys\<close>

definition rstrip :: "string \<Rightarrow> string" where
  "rstrip p = rev (dropWhile py_isspace (rev p))"

lemmas lineage_types = LINEAGE_RECORDED_EVENT_def LINEAGE_PENDING_EVENT_def LINEAGE_REFUSED_EVENT_def

abbreviation lineage_type :: "string \<Rightarrow> bool" where
  "lineage_type t \<equiv> t \<in> {LINEAGE_RECORDED_EVENT, LINEAGE_PENDING_EVENT, LINEAGE_REFUSED_EVENT}"

abbreviation event_key :: "string \<Rightarrow> lineage_pair \<Rightarrow> string" where
  "event_key t q \<equiv> t @ '':'' @ pair_key q"

lemma strip_key:
  assumes "lineage_type t"
  shows "py_strip (t @ CHR '':'' # p) = t @ CHR '':'' # rstrip p"
proof -
  have colon: "\<not> py_isspace CHR '':''" and j: "\<not> py_isspace CHR ''j''" by code_simp+
  obtain r where t: "t = CHR ''j'' # r" using assms by (auto simp: lineage_types)
  have "dropWhile py_isspace (rev (t @ CHR '':'' # p)) = dropWhile py_isspace (rev p) @ CHR '':'' # rev t"
    using colon by (auto simp: dropWhile_append dropWhile_eq_Nil_conv)
  then show ?thesis using j by (simp add: py_strip_def rstrip_def t)
qed

lemma strip_key_not_blank: "lineage_type t \<Longrightarrow> py_strip (t @ CHR '':'' # p) \<noteq> []"
  using strip_key by simp

text \<open>An event of the flow: it names its pair in the payload and in the key.\<close>

definition written_as :: "lineage_pair \<Rightarrow> event_row \<Rightarrow> bool" where
  "written_as q v \<longleftrightarrow> lp_source_document_id q \<noteq> [] \<and> lp_target_document_id q \<noteq> [] \<and> lp_transition_type q \<noteq> []
     \<and> dget (ev_payload v) ''source_document_id'' = Some (JStr (lp_source_document_id q))
     \<and> dget (ev_payload v) ''target_document_id'' = Some (JStr (lp_target_document_id q))
     \<and> dget (ev_payload v) ''transition_type'' = Some (JStr (lp_transition_type q))
     \<and> ev_key v = Some (py_strip (event_key (ev_type v) q))"

text \<open>The events of a job that look like lineage events were written by this flow.\<close>

definition lineage_event_ok :: "event_row \<Rightarrow> bool" where
  "lineage_event_ok v \<longleftrightarrow> (lineage_type (ev_type v) \<longrightarrow> (\<exists>q. written_as q v))
     \<and> (\<forall>p. ev_key v = Some (LINEAGE_RECORDED_EVENT @ '':'' @ p) \<longrightarrow> ev_type v = LINEAGE_RECORDED_EVENT)"

definition lineage_events :: "string \<Rightarrow> event_row list \<Rightarrow> bool" where
  "lineage_events jid evs \<longleftrightarrow> (\<forall>v \<in> set evs. ev_job_id v = jid \<longrightarrow> lineage_event_ok v)"

lemma written_pair: "written_as q v \<Longrightarrow> event_pair (ev_payload v) = Some q"
  by (auto simp: written_as_def event_pair_def)

lemma written_suffix: "written_as q v \<Longrightarrow> lineage_type (ev_type v) \<Longrightarrow> pair_suffix v = Some (rstrip (pair_key q))"
  using strip_key [of "ev_type v" "pair_key q"] by (simp add: written_as_def pair_suffix_def)

text \<open>The event that settles a pair.\<close>

definition settled_by :: "string \<Rightarrow> lineage_pair \<Rightarrow> event_row \<Rightarrow> bool" where
  "settled_by jid q v \<longleftrightarrow> ev_job_id v = jid \<and> ev_type v = LINEAGE_RECORDED_EVENT
     \<and> pair_suffix v = Some (rstrip (pair_key q)) \<and> ev_key v \<noteq> None"

lemma settled_not_outstanding:
  assumes "r \<in> set evs" "ev_job_id r = ev_job_id p" "ev_type r \<in> {LINEAGE_RECORDED_EVENT, LINEAGE_REFUSED_EVENT}"
    "ev_key r \<noteq> None" "pair_suffix r = pair_suffix p"
  shows "\<not> outstanding evs p"
  using assms by (auto simp: outstanding_def settles_def list_ex_iff lineage_types)

section \<open>Recording an acknowledged pair\<close>

definition acknowledges :: "lineage_client \<Rightarrow> bool" where
  "acknowledges archive \<longleftrightarrow> (\<forall>path q reason caller. \<exists>code payload r. archive path q reason caller = Inr (code, payload)
     \<and> code \<in> {200, 201} \<and> acknowledged_relationship_id payload q = Some r)"

lemma acknowledged_run:
  assumes "acknowledges archive"
  obtains r where "record_archive_lineage archive path e jid q reason caller =
    io_bind (append_lineage_event e jid LINEAGE_RECORDED_EVENT
            (''Archive lifecycle records '' @ lp_source_document_id q @ '' ''
             @ lp_transition_type q @ ''d by '' @ lp_target_document_id q @ ''.'')
            [(''lifecycle_relationship_id'', JStr r)] q caller) (\<lambda>_. io_return True)"
proof -
  obtain code payload r where "archive path q reason caller = Inr (code, payload)" "code \<in> {200, 201}"
    "acknowledged_relationship_id payload q = Some r" using assms unfolding acknowledges_def by meson
  then show thesis using that [of r] by (simp add: record_archive_lineage_def Let_def)
qed

lemma recorded_contract:
  obtains c where "build_report_status_event_contract LINEAGE_RECORDED_EVENT f t
      (Some (pair_fields q @ [(''lifecycle_relationship_id'', JStr r)])) (Some (event_key LINEAGE_RECORDED_EVENT q)) = Inr c"
    "ec_event_idempotency_key c = Some (py_strip (event_key LINEAGE_RECORDED_EVENT q))"
    "dget (ec_event_payload c) ''source_document_id'' = Some (JStr (lp_source_document_id q))"
    "dget (ec_event_payload c) ''target_document_id'' = Some (JStr (lp_target_document_id q))"
    "dget (ec_event_payload c) ''transition_type'' = Some (JStr (lp_transition_type q))"
proof -
  let ?p = "pair_fields q @ [(''lifecycle_relationship_id'', JStr r)]"
  have "set (dkeys (event_payload_of LINEAGE_RECORDED_EVENT f t ?p)) \<inter> set SENSITIVE_PAYLOAD_KEYS = {}"
    unfolding dkeys_event_payload_of by (simp add: dkeys_def SENSITIVE_PAYLOAD_KEYS_def)
  moreover have "required_payload_fields LINEAGE_RECORDED_EVENT = []"
    by (simp add: required_payload_fields_def REQUIRED_PAYLOAD_FIELDS_BY_EVENT_TYPE_def dget_def lineage_types)
  moreover have "\<not> py_blank (Some (event_key LINEAGE_RECORDED_EVENT q))"
    using strip_key_not_blank [of LINEAGE_RECORDED_EVENT "pair_key q"] by (simp add: py_blank_def)
  ultimately obtain c where c: "build_report_status_event_contract LINEAGE_RECORDED_EVENT f t (Some ?p)
      (Some (event_key LINEAGE_RECORDED_EVENT q)) = Inr c"
    "ec_event_idempotency_key c = Some (py_strip (event_key LINEAGE_RECORDED_EVENT q))"
    "ec_event_payload c = event_payload_of LINEAGE_RECORDED_EVENT f t ?p"
    by (simp add: build_contract_Inr Let_def normalized_event_idempotency_key_def)
  show thesis by (rule that [OF c(1,2)]) (unfold c(3), (rule dget_event_payload_of, simp add: dget_def)+)
qed

text \<open>What settling adds to the ledger: recorded events.\<close>

definition records_only :: "ledger \<Rightarrow> ledger \<Rightarrow> bool" where
  "records_only s s' \<longleftrightarrow> (\<exists>new. s' = s\<lparr>events := events s @ new\<rparr>
     \<and> (\<forall>v \<in> set new. ev_type v = LINEAGE_RECORDED_EVENT \<and> lineage_event_ok v))"

interpretation recording: effects records_only
proof unfold_locales
  show "records_only s s" for s by (auto simp: records_only_def intro: exI [of _ "[]"])
  show "records_only s u" if st: "records_only s t" and tu: "records_only t u" for s t u
  proof -
    obtain a where "t = s\<lparr>events := events s @ a\<rparr>"
      "\<forall>v \<in> set a. ev_type v = LINEAGE_RECORDED_EVENT \<and> lineage_event_ok v"
      using st by (auto simp: records_only_def)
    moreover obtain b where "u = t\<lparr>events := events t @ b\<rparr>"
      "\<forall>v \<in> set b. ev_type v = LINEAGE_RECORDED_EVENT \<and> lineage_event_ok v"
      using tu by (auto simp: records_only_def)
    ultimately show ?thesis unfolding records_only_def by (intro exI [of _ "a @ b"]) auto
  qed
qed

lemma records_only_frame:
  assumes "records_only s s'"
  shows "find_job i s' = find_job i s" "set (events s) \<subseteq> set (events s')" "get_job i s' = map_sum id (\<lambda>(r, _). (r, s')) (get_job i s)"
    "lineage_events i (events s) \<Longrightarrow> lineage_events i (events s')"
    "p \<in> set (events s') \<Longrightarrow> ev_type p = LINEAGE_PENDING_EVENT \<Longrightarrow> p \<in> set (events s)"
proof -
  obtain new where s': "s' = s\<lparr>events := events s @ new\<rparr>"
    and new: "\<forall>v \<in> set new. ev_type v = LINEAGE_RECORDED_EVENT \<and> lineage_event_ok v"
    using assms by (auto simp: records_only_def)
  show "find_job i s' = find_job i s" "set (events s) \<subseteq> set (events s')" by (simp_all add: s' find_job_def)
  show "get_job i s' = map_sum id (\<lambda>(r, _). (r, s')) (get_job i s)"
    by (auto simp: get_job_def load_by_request_id_def find_job_def s' tx_run simp del: fetch_None split: option.splits)
  show "lineage_events i (events s')" if "lineage_events i (events s)"
    using that new by (auto simp: lineage_events_def s')
  show "p \<in> set (events s)" if "p \<in> set (events s')" "ev_type p = LINEAGE_PENDING_EVENT"
    using that new by (auto simp: s' lineage_types)
qed

lemma recorded_event_ok:
  assumes "ev_type v = LINEAGE_RECORDED_EVENT" "written_as q v"
  shows "lineage_event_ok v" "ev_job_id v = jid \<Longrightarrow> settled_by jid q v"
  using assms written_suffix [OF assms(2)] by (auto simp: lineage_event_ok_def settled_by_def written_as_def)

lemma record_acknowledged:
  assumes ack: "acknowledges archive" and job: "find_job jid s = Some j" and ok: "lineage_events jid (events s)"
    and q: "lp_source_document_id q \<noteq> []" "lp_target_document_id q \<noteq> []" "lp_transition_type q \<noteq> []"
  obtains (collision) "record_archive_lineage archive path e jid q reason caller s
      = (Raised (IntegrityError ''report_status_event.status_event_id''), s)"
  | (recorded) s' where "record_archive_lineage archive path e jid q reason caller s = (Done True, s')"
      "records_only s s'" "\<exists>v \<in> set (events s'). settled_by jid q v"
proof -
  let ?key = "event_key LINEAGE_RECORDED_EVENT q"
  obtain r where run: "record_archive_lineage archive path e jid q reason caller =
    io_bind (append_lineage_event e jid LINEAGE_RECORDED_EVENT
            (''Archive lifecycle records '' @ lp_source_document_id q @ '' ''
             @ lp_transition_type q @ ''d by '' @ lp_target_document_id q @ ''.'')
            [(''lifecycle_relationship_id'', JStr r)] q caller) (\<lambda>_. io_return True)"
    using acknowledged_run [OF ack] by metis
  obtain c where c: "build_report_status_event_contract LINEAGE_RECORDED_EVENT (Some (j_status j)) (j_status j)
      (Some (pair_fields q @ [(''lifecycle_relationship_id'', JStr r)])) (Some ?key) = Inr c"
    "ec_event_idempotency_key c = Some (py_strip ?key)"
    "dget (ec_event_payload c) ''source_document_id'' = Some (JStr (lp_source_document_id q))"
    "dget (ec_event_payload c) ''target_document_id'' = Some (JStr (lp_target_document_id q))"
    "dget (ec_event_payload c) ''transition_type'' = Some (JStr (lp_transition_type q))"
    by (rule recorded_contract)
  have here: "jid \<in> j_id ` set (jobs s)" using job by (auto simp: find_job_def dest!: fetch_SomeD)
  have key: "truthy (Some ?key)" by (simp add: truthy_def lineage_types)
  show thesis
  proof (cases "\<exists>v \<in> set (events s). ev_job_id v = jid \<and> ev_key v = Some ?key")
    case True
    then obtain v where v: "v \<in> set (events s)" "ev_job_id v = jid" "ev_key v = Some ?key" by blast
    then have type: "ev_type v = LINEAGE_RECORDED_EVENT" and "lineage_event_ok v"
      using ok by (auto simp: lineage_events_def lineage_event_ok_def)
    then obtain q' where w: "written_as q' v" by (auto simp: lineage_event_ok_def)
    have "?key = py_strip (event_key LINEAGE_RECORDED_EVENT q')" using w v(3) type by (simp add: written_as_def)
    then have "py_strip ?key = ?key" by simp
    then have "pair_suffix v = Some (rstrip (pair_key q))"
      using v(3) type strip_key [of LINEAGE_RECORDED_EVENT "pair_key q"] by (simp add: pair_suffix_def)
    then have "settled_by jid q v" using v type by (simp add: settled_by_def)
    moreover have "record_archive_lineage archive path e jid q reason caller s = (Done True, s)"
      using job True key unfolding run
      by (simp add: append_lineage_event_def append_job_event_def tx_run io_tx_def commit_def io_bind_def io_return_def)
    ultimately show thesis using recorded [of s] recording.effect_refl v(1) by blast
  next
    case False
    define v where "v = \<lparr>ev_id = ''rse_'' @ uuid4_hex (sub_env 1 e) 0, ev_job_id = jid, ev_from = Some (j_status j),
       ev_to = j_status j, ev_type = LINEAGE_RECORDED_EVENT,
       ev_schema_version = ec_schema_version c, ev_family = ec_event_family c,
       ev_payload = ec_event_payload c, ev_key = ec_event_idempotency_key c,
       ev_message = Some (''Archive lifecycle records '' @ lp_source_document_id q @ '' ''
             @ lp_transition_type q @ ''d by '' @ lp_target_document_id q @ ''.''),
       ev_actor = cc_triggered_by caller, ev_created_at = dt_to_text (utc_now e 0),
       ev_correlation_id = cc_correlation_id caller, ev_trace_id = cc_trace_id caller\<rparr>"
    have step: "record_archive_lineage archive path e jid q reason caller s =
        (case insert_event v s of Inl x \<Rightarrow> (Raised x, s) | Inr (u, s') \<Rightarrow> (Done True, s'))"
      using job False key c(1) unfolding run v_def
      by (auto simp: append_lineage_event_def append_job_event_def append_status_event_def tx_run io_tx_def commit_def
          io_bind_def io_return_def split: sum.split)
    have w: "written_as q v" "ev_type v = LINEAGE_RECORDED_EVENT" "ev_job_id v = jid"
      using c(2-5) q by (simp_all add: v_def written_as_def)
    show thesis
    proof (cases "ev_id v \<in> ev_id ` set (events s)")
      case True
      then show thesis using collision step by (simp add: insert_event_def)
    next
      case new: False
      let ?s' = "s\<lparr>events := events s @ [v]\<rparr>"
      have "record_archive_lineage archive path e jid q reason caller s = (Done True, ?s')"
        using step new here w(3) by (simp add: insert_event_def)
      moreover have "records_only s ?s'"
        using recorded_event_ok(1) [OF w(2,1)] w by (auto simp: records_only_def)
      moreover have "settled_by jid q v" using recorded_event_ok(2) [OF w(2,1)] w(3) by simp
      ultimately show thesis using recorded [of ?s'] by auto
    qed
  qed
qed

section \<open>Settling the pairs of a job\<close>

definition names_pair :: "string set \<Rightarrow> event_row \<Rightarrow> string \<Rightarrow> bool" where
  "names_pair types v k \<longleftrightarrow> ev_type v \<in> types \<and> (\<exists>q. event_pair (ev_payload v) = Some q \<and> pair_key q = k)"

abbreviation settled_types :: "string set" where
  "settled_types \<equiv> {LINEAGE_RECORDED_EVENT, LINEAGE_REFUSED_EVENT}"

lemma set_dset: "(k', y) \<in> set (dset d k v) \<Longrightarrow> (k', y) \<in> set d \<or> k' = k \<and> y = v"
  by (induction d k v rule: dset.induct) (auto split: if_splits)

lemma settlement_step_effect:
  "k \<in> set (fst (settlement_step v acc)) \<longleftrightarrow> k \<in> set (fst acc) \<or> names_pair settled_types v k"
  "k \<in> set (dkeys (snd (settlement_step v acc))) \<longleftrightarrow> k \<in> set (dkeys (snd acc)) \<or> names_pair {LINEAGE_PENDING_EVENT} v k"
  "(k, y) \<in> set (snd (settlement_step v acc))
    \<Longrightarrow> (k, y) \<in> set (snd acc) \<or> names_pair {LINEAGE_PENDING_EVENT} v k \<and> y = ev_payload v"
proof -
  have types: "LINEAGE_PENDING_EVENT \<noteq> LINEAGE_RECORDED_EVENT" "LINEAGE_PENDING_EVENT \<noteq> LINEAGE_REFUSED_EVENT"
    by (simp_all add: lineage_types)
  obtain r p where acc: "acc = (r, p)" by (cases acc)
  show "k \<in> set (fst (settlement_step v acc)) \<longleftrightarrow> k \<in> set (fst acc) \<or> names_pair settled_types v k"
    by (cases "event_pair (ev_payload v)") (auto simp: acc settlement_step_def names_pair_def)
  show "k \<in> set (dkeys (snd (settlement_step v acc))) \<longleftrightarrow> k \<in> set (dkeys (snd acc)) \<or> names_pair {LINEAGE_PENDING_EVENT} v k"
    using types by (cases "event_pair (ev_payload v)") (auto simp: acc settlement_step_def names_pair_def)
  show "(k, y) \<in> set (snd acc) \<or> names_pair {LINEAGE_PENDING_EVENT} v k \<and> y = ev_payload v"
    if "(k, y) \<in> set (snd (settlement_step v acc))"
    using that by (cases "event_pair (ev_payload v)")
      (auto simp: acc settlement_step_def names_pair_def split: if_splits dest: set_dset)
qed

lemma settlement_fold:
  "k \<in> set (fst (fold settlement_step evs acc)) \<longleftrightarrow> k \<in> set (fst acc) \<or> (\<exists>v \<in> set evs. names_pair settled_types v k)"
  "k \<in> set (dkeys (snd (fold settlement_step evs acc)))
    \<longleftrightarrow> k \<in> set (dkeys (snd acc)) \<or> (\<exists>v \<in> set evs. names_pair {LINEAGE_PENDING_EVENT} v k)"
  "(k, y) \<in> set (snd (fold settlement_step evs acc))
    \<Longrightarrow> (k, y) \<in> set (snd acc) \<or> (\<exists>v \<in> set evs. names_pair {LINEAGE_PENDING_EVENT} v k \<and> y = ev_payload v)"
proof (induction evs arbitrary: acc)
  case (Cons v evs)
  { case 1 then show ?case using Cons.IH(1) settlement_step_effect(1) by simp }
  { case 2 then show ?case using Cons.IH(2) settlement_step_effect(2) by simp }
  { case 3 then show ?case using Cons.IH(3) [of "settlement_step v acc"] settlement_step_effect(3) by fastforce }
qed simp_all

lemma unsettled_iff:
  "(q, reason) \<in> set (unsettled_pairs evs) \<longleftrightarrow>
     (\<exists>k payload. (k, payload) \<in> set (snd (fold settlement_step evs ([], []))) \<and> k \<notin> set (fst (fold settlement_step evs ([], [])))
        \<and> q = the (event_pair payload) \<and> reason = str_or (dget payload ''transition_reason'') ''lineage settlement'')"
  by (cases "fold settlement_step evs ([], [])") (force simp: unsettled_pairs_def)

lemma unsettled_pending:
  assumes "(q, reason) \<in> set (unsettled_pairs evs)"
  obtains v where "v \<in> set evs" "ev_type v = LINEAGE_PENDING_EVENT" "event_pair (ev_payload v) = Some q"
proof -
  obtain k payload where "(k, payload) \<in> set (snd (fold settlement_step evs ([], [])))" "q = the (event_pair payload)"
    using assms unfolding unsettled_iff by blast
  then show thesis using that settlement_fold(3) [of k payload evs "([], [])"] by (auto simp: names_pair_def)
qed

lemma pending_settled_or_unsettled:
  assumes "v \<in> set evs" "names_pair {LINEAGE_PENDING_EVENT} v k"
  shows "(\<exists>r \<in> set evs. names_pair settled_types r k) \<or> (\<exists>q reason. (q, reason) \<in> set (unsettled_pairs evs) \<and> pair_key q = k)"
proof -
  let ?acc = "fold settlement_step evs ([], [])"
  have "k \<in> set (dkeys (snd ?acc))" using assms settlement_fold(2) [of k evs "([], [])"] by blast
  then obtain payload where p: "(k, payload) \<in> set (snd ?acc)" by (auto simp: dkeys_def)
  then obtain q where q: "event_pair payload = Some q" "pair_key q = k"
    using settlement_fold(3) [of k payload evs "([], [])"] by (auto simp: names_pair_def)
  show ?thesis
  proof (cases "k \<in> set (fst ?acc)")
    case True
    then show ?thesis using settlement_fold(1) [of k evs "([], [])"] by simp
  next
    case False
    then have "(q, str_or (dget payload ''transition_reason'') ''lineage settlement'') \<in> set (unsettled_pairs evs)"
      unfolding unsettled_iff using p q(1) by (intro exI [of _ k] exI [of _ payload]) simp
    then show ?thesis using q(2) by blast
  qed
qed

abbreviation proper_pair :: "lineage_pair \<Rightarrow> bool" where
  "proper_pair q \<equiv> lp_source_document_id q \<noteq> [] \<and> lp_target_document_id q \<noteq> [] \<and> lp_transition_type q \<noteq> []"

lemma settle_pairs_acknowledged:
  assumes "acknowledges archive" "find_job jid s = Some j" "lineage_events jid (events s)" "\<forall>(q, r) \<in> set qs. proper_pair q"
  obtains (collision) s' where "settle_pairs archive path e jid caller i qs s
      = (Raised (IntegrityError ''report_status_event.status_event_id''), s')" "records_only s s'"
  | (settled) s' where "settle_pairs archive path e jid caller i qs s = (Done (), s')" "records_only s s'"
      "\<forall>(q, r) \<in> set qs. \<exists>v \<in> set (events s'). settled_by jid q v"
  using assms(2-4)
proof (induction qs arbitrary: i s thesis)
  case Nil
  then show thesis using recording.effect_refl by (auto simp: io_return_def)
next
  case (Cons x qs)
  obtain q reason where x: "x = (q, reason)" by (cases x)
  have q: "lp_source_document_id q \<noteq> []" "lp_target_document_id q \<noteq> []" "lp_transition_type q \<noteq> []"
    using Cons.prems(5) x by auto
  show thesis
  proof (cases rule: record_acknowledged [OF assms(1) Cons.prems(3,4) q, of "i # path" "sub_env i e" reason caller,
        case_names collision recorded])
    case collision
    then show thesis using Cons.prems(1) [of s] recording.effect_refl by (simp add: x io_bind_def)
  next
    case (recorded s1)
    note frame = records_only_frame [OF recorded(2)]
    have tail: "settle_pairs archive path e jid caller i (x # qs) s = settle_pairs archive path e jid caller (Suc i) qs s1"
      using recorded(1) by (simp add: x io_bind_def)
    have job: "find_job jid s1 = Some j" and ok: "lineage_events jid (events s1)"
      using frame Cons.prems(3,4) by simp_all
    show thesis
    proof (rule Cons.IH [OF _ _ job ok, of "Suc i"])
      show "\<forall>(q, r) \<in> set qs. proper_pair q" using Cons.prems(5) by simp
      show thesis if "settle_pairs archive path e jid caller (Suc i) qs s1
          = (Raised (IntegrityError ''report_status_event.status_event_id''), s')" "records_only s1 s'" for s'
        using Cons.prems(1) [of s'] tail that recording.effect_trans [OF recorded(2)] by simp
      show thesis if "settle_pairs archive path e jid caller (Suc i) qs s1 = (Done (), s')" "records_only s1 s'"
          "\<forall>(q, r) \<in> set qs. \<exists>v \<in> set (events s'). settled_by jid q v" for s'
        using Cons.prems(2) [of s'] tail that recording.effect_trans [OF recorded(2)] recorded(3) x
          records_only_frame(2) [OF that(2)] by auto
    qed
  qed
qed

lemma settle_acknowledged:
  assumes ack: "acknowledges archive" and job: "find_job jid s = Some j" and ok: "lineage_events jid (events s)"
  obtains (collision) s' where "settle_pending_archive_lineage archive path e jid caller s
      = (Raised (IntegrityError ''report_status_event.status_event_id''), s')" "records_only s s'"
  | (settled) s' where "settle_pending_archive_lineage archive path e jid caller s = (Done (), s')" "records_only s s'"
      "\<And>p. p \<in> set (events s') \<Longrightarrow> ev_job_id p = jid \<Longrightarrow> \<not> outstanding (events s') p"
proof -
  let ?evs = "list_status_events s jid"
  have evs: "\<exists>u \<in> set (events s). ev_job_id u = jid \<and> v = event_from_row u" if "v \<in> set ?evs" for v
    using that by (auto simp: list_status_events_def)
  have row: "ev_type (event_from_row u) = ev_type u" "ev_payload (event_from_row u) = ev_payload u" for u
    by (simp_all add: event_from_row_def Let_def)
  have lineage: "\<exists>q. written_as q u" if "u \<in> set (events s)" "ev_job_id u = jid" "lineage_type (ev_type u)" for u
    using ok that by (auto simp: lineage_events_def lineage_event_ok_def)
  have proper: "\<forall>(q, r) \<in> set (unsettled_pairs ?evs). proper_pair q"
  proof clarify
    fix q r assume "(q, r) \<in> set (unsettled_pairs ?evs)"
    then obtain v where v: "v \<in> set ?evs" "ev_type v = LINEAGE_PENDING_EVENT" "event_pair (ev_payload v) = Some q"
      by (rule unsettled_pending)
    then obtain u q' where u: "v = event_from_row u" "written_as q' u"
      using evs [OF v(1)] lineage row by fastforce
    then have "q' = q" using written_pair [OF u(2)] v(3) row by simp
    then show "proper_pair q" using u(2) by (simp add: written_as_def)
  qed
  have final: "\<not> outstanding (events s') p"
    if grown: "records_only s s'" and all: "\<forall>(q, r) \<in> set (unsettled_pairs ?evs). \<exists>v \<in> set (events s'). settled_by jid q v"
      and p: "p \<in> set (events s')" "ev_job_id p = jid" for s' p
  proof (cases "ev_type p = LINEAGE_PENDING_EVENT")
    case True
    then have old: "p \<in> set (events s)" using records_only_frame(5) [OF grown p(1)] by simp
    then obtain q where q: "written_as q p" using lineage p(2) True by auto
    have suffix: "pair_suffix p = Some (rstrip (pair_key q))" using written_suffix [OF q] True by simp
    have "event_from_row p \<in> set ?evs" using old p(2) by (auto simp: list_status_events_def)
    moreover have "names_pair {LINEAGE_PENDING_EVENT} (event_from_row p) (pair_key q)"
      using True written_pair [OF q] row by (auto simp: names_pair_def)
    ultimately consider r where "r \<in> set ?evs" "names_pair settled_types r (pair_key q)"
      | q' reason where "(q', reason) \<in> set (unsettled_pairs ?evs)" "pair_key q' = pair_key q"
      using pending_settled_or_unsettled by blast
    then show ?thesis
    proof cases
      case 1
      obtain u where u: "u \<in> set (events s)" "ev_job_id u = jid" "ev_type u \<in> settled_types"
        "\<exists>q'. event_pair (ev_payload u) = Some q' \<and> pair_key q' = pair_key q"
        using evs [OF 1(1)] 1(2) row by (auto simp: names_pair_def)
      obtain q' where "written_as q' u" "pair_key q' = pair_key q" using lineage [OF u(1,2)] u(3,4) written_pair by fastforce
      then have "pair_suffix u = pair_suffix p" "ev_key u \<noteq> None"
        using written_suffix [of q' u] u(3) suffix by (auto simp: written_as_def)
      then show ?thesis
        using settled_not_outstanding [of u "events s'" p] u records_only_frame(2) [OF grown] p(2) by auto
    next
      case 2
      then obtain v where "v \<in> set (events s')" "settled_by jid q' v" using all by blast
      then show ?thesis
        using settled_not_outstanding [of v "events s'" p] 2(2) suffix p(2) by (auto simp: settled_by_def)
    qed
  qed (simp add: outstanding_def lineage_types)
  show thesis
  proof (rule settle_pairs_acknowledged [OF ack job ok proper, of path e caller 0])
    show thesis if "settle_pairs archive path e jid caller 0 (unsettled_pairs ?evs) s
        = (Raised (IntegrityError ''report_status_event.status_event_id''), s')" "records_only s s'" for s'
      using collision that by (simp add: settle_pending_archive_lineage_def)
    show thesis if "settle_pairs archive path e jid caller 0 (unsettled_pairs ?evs) s = (Done (), s')" "records_only s s'"
        "\<forall>(q, r) \<in> set (unsettled_pairs ?evs). \<exists>v \<in> set (events s'). settled_by jid q v" for s'
      using settled [of s'] that final [OF that(2,3)] by (simp add: settle_pending_archive_lineage_def)
  qed
qed

section \<open>Reconciliation\<close>

lemma get_job_found:
  assumes "schema_inv s" "find_job jid s = Some j"
  obtains job where "get_job jid s = Inr (job, s)" "lr_job_id job = jid"
proof -
  have j: "j \<in> set (jobs s)" "j_id j = jid" using find_job_SomeD [OF assms(2)] by simp_all
  have reqs: "distinct (map j_request_id (jobs s))" "j_request_id j \<in> r_id ` set (requests s)"
    using assms(1) j(1) by (auto simp: schema_inv_def jobs_ok_def)
  have "fetch (\<lambda>x. j_request_id x = j_request_id j) (jobs s) = Some j"
    using keyed_fetch [OF reqs(1) j(1)] by simp
  moreover obtain r where "find_request (j_request_id j) s = Some r"
    using reqs(2) by (cases "find_request (j_request_id j) s") (auto simp: find_request_def)
  ultimately show thesis
    using that assms(2) j(2) by (simp add: get_job_def load_by_request_id_def tx_run record_from_row_def)
qed

text \<open>The jobs with an outstanding event.\<close>

definition pending_jobs :: "event_row list \<Rightarrow> string set" where
  "pending_jobs evs = {ev_job_id p |p. p \<in> set evs \<and> outstanding evs p}"

lemma pending_jobs_shrink:
  assumes "records_only s s'"
  shows "pending_jobs (events s') \<subseteq> pending_jobs (events s)"
proof
  fix i assume "i \<in> pending_jobs (events s')"
  then obtain p where p: "i = ev_job_id p" "p \<in> set (events s')" "outstanding (events s') p" by (auto simp: pending_jobs_def)
  have "p \<in> set (events s)" using records_only_frame(5) [OF assms p(2)] p(3) by (simp add: outstanding_def lineage_types)
  moreover have "outstanding (events s) p"
    using p(3) records_only_frame(2) [OF assms] by (auto simp: outstanding_def list_ex_iff)
  ultimately show "i \<in> pending_jobs (events s)" using p(1) by (auto simp: pending_jobs_def)
qed

lemma reconcile_acknowledged:
  assumes ack: "acknowledges archive"
    and jobs: "\<And>i. i \<in> set ids \<Longrightarrow> lineage_events i (events s)"
      "\<And>i. i \<in> set ids \<Longrightarrow> \<exists>job. get_job i s = Inr (job, s) \<and> lr_job_id job = i"
      "\<And>i. i \<in> set ids \<Longrightarrow> \<exists>j. find_job i s = Some j"
  obtains (collision) s' where "reconcile_jobs archive e n ids s
      = (Raised (IntegrityError ''report_status_event.status_event_id''), s')" "records_only s s'"
  | (settled) s' where "reconcile_jobs archive e n ids s = (Done (length ids), s')" "records_only s s'"
      "pending_jobs (events s') \<inter> set ids = {}"
  using jobs
proof (induction ids arbitrary: n s thesis)
  case Nil
  then show thesis using recording.effect_refl by (auto simp: io_return_def)
next
  case (Cons i ids)
  obtain job where job: "get_job i s = Inr (job, s)" "lr_job_id job = i" using Cons.prems(4) by auto
  obtain j where j: "find_job i s = Some j" using Cons.prems(5) by auto
  have ok: "lineage_events i (events s)" using Cons.prems(3) by simp
  show thesis
  proof (cases rule: settle_acknowledged [OF ack j ok, of "[n]" "sub_env n e" "reconciler_context job",
        case_names collision settled])
    case (collision s')
    then show thesis using Cons.prems(1) [of s'] job by (simp add: io_bind_def io_tx_def commit_def)
  next
    case (settled s1)
    note frame = records_only_frame [OF settled(2)]
    have tail: "reconcile_jobs archive e n (i # ids) s
        = io_bind (reconcile_jobs archive e (Suc n) ids) (\<lambda>m. io_return (Suc m)) s1"
      using settled(1) job by (simp add: io_bind_def io_tx_def commit_def)
    have quiet: "i \<notin> pending_jobs (events s1)" using settled(3) by (auto simp: pending_jobs_def)
    show thesis
    proof (rule Cons.IH [of "Suc n" s1])
      show "lineage_events k (events s1)" if "k \<in> set ids" for k using frame(4) Cons.prems(3) that by simp
      show "\<exists>job. get_job k s1 = Inr (job, s1) \<and> lr_job_id job = k" if "k \<in> set ids" for k
        using frame(3) [of k] Cons.prems(4) [of k] that by auto
      show "\<exists>j. find_job k s1 = Some j" if "k \<in> set ids" for k using frame(1) [of k] Cons.prems(5) [of k] that by auto
      show thesis if "reconcile_jobs archive e (Suc n) ids s1
          = (Raised (IntegrityError ''report_status_event.status_event_id''), s')" "records_only s1 s'" for s'
        using Cons.prems(1) [of s'] tail that recording.effect_trans [OF settled(2)] by (simp add: io_bind_def)
      show thesis if "reconcile_jobs archive e (Suc n) ids s1 = (Done (length ids), s')" "records_only s1 s'"
          "pending_jobs (events s') \<inter> set ids = {}" for s'
        using Cons.prems(2) [of s'] tail that recording.effect_trans [OF settled(2)] quiet pending_jobs_shrink [OF that(2)]
        by (auto simp: io_bind_def io_return_def)
    qed
  qed
qed

lemma listed_jobs:
  "fst ` set (list_pending_archive_lineage s limit) \<subseteq> pending_jobs (events s)"
  "int (length (pending_rows (events s))) \<le> limit \<Longrightarrow> fst ` set (list_pending_archive_lineage s limit) = pending_jobs (events s)"
proof -
  have rows: "fst ` set (pending_rows (events s)) = pending_jobs (events s)" by (simp add: set_pending_rows pending_jobs_def)
  have fst: "fst ` set (list_pending_archive_lineage s limit)
      = fst ` set (take (nat (max 0 limit)) (sort_key (\<lambda>(i, t). text_key t) (pending_rows (events s))))"
    by (force simp: list_pending_archive_lineage_def)
  show "fst ` set (list_pending_archive_lineage s limit) \<subseteq> pending_jobs (events s)"
    unfolding fst rows [symmetric] by (intro image_mono) (metis set_sort set_take_subset)
  assume "int (length (pending_rows (events s))) \<le> limit"
  then have "take (nat (max 0 limit)) (sort_key (\<lambda>(i, t). text_key t) (pending_rows (events s)))
      = sort_key (\<lambda>(i, t). text_key t) (pending_rows (events s))" by simp
  then show "fst ` set (list_pending_archive_lineage s limit) = pending_jobs (events s)" unfolding fst by (simp add: rows)
qed

text \<open>
  (C26) Archive lineage heals. When Archive acknowledges the pairs it is sent and the lineage events of the
  pending jobs are those this flow writes, a reconciliation pass with room for every pending job attempts
  all of them and leaves none pending, for any later listing, and it changes nothing but appending
  events. The only way a pass can fail is an event id that is already taken.
\<close>

theorem lineage_reconciliation_converges:
  assumes "acknowledges archive" "schema_inv s" "\<forall>i \<in> pending_jobs (events s). lineage_events i (events s)"
    and "int (length (pending_rows (events s))) \<le> limit"
  shows "case reconcile_pending_archive_lineage archive e limit s of
     (Done r, s') \<Rightarrow> rc_attempted_jobs r = rc_outstanding_jobs r \<and> (\<forall>n. list_pending_archive_lineage s' n = [])
       \<and> (\<exists>new. s' = s\<lparr>events := events s @ new\<rparr>)
   | (Raised x, s') \<Rightarrow> x = IntegrityError ''report_status_event.status_event_id''
   | (Cancelled_by_timeout, s') \<Rightarrow> False"
proof -
  let ?ids = "map fst (list_pending_archive_lineage s limit)"
  have ids: "set ?ids = pending_jobs (events s)" using listed_jobs(2) [OF assms(4)] by simp
  have found: "\<exists>j. find_job i s = Some j" if i: "i \<in> set ?ids" for i
  proof -
    obtain p where "p \<in> set (events s)" "ev_job_id p = i" using i unfolding ids pending_jobs_def by blast
    then have "i \<in> j_id ` set (jobs s)" using assms(2) by (auto simp: schema_inv_def events_ok_def job_ids_def)
    then show ?thesis using find_job_iff [OF assms(2)] by auto
  qed
  have loaded: "\<exists>job. get_job i s = Inr (job, s) \<and> lr_job_id job = i" if "i \<in> set ?ids" for i
    using found [OF that] get_job_found [OF assms(2)] by metis
  have ok: "lineage_events i (events s)" if "i \<in> set ?ids" for i using that assms(3) unfolding ids by blast
  show ?thesis
  proof (cases rule: reconcile_acknowledged [OF assms(1) ok loaded found, of ?ids "sub_env 1 e" 0, case_names _ _ _ collision settled])
    case (collision s')
    then show ?thesis by (simp add: reconcile_pending_archive_lineage_def io_bind_def)
  next
    case (settled s')
    have "pending_jobs (events s') = {}" using settled(2,3) pending_jobs_shrink ids by blast
    then have "list_pending_archive_lineage s' n = []" for n using listed_jobs(1) [of s' n] by auto
    moreover have "\<exists>new. s' = s\<lparr>events := events s @ new\<rparr>" using settled(2) by (auto simp: records_only_def)
    ultimately show ?thesis
      using settled(1) by (simp add: reconcile_pending_archive_lineage_def io_bind_def io_return_def Let_def)
  qed simp_all
qed

definition sample_archive :: lineage_client where
  "sample_archive path q reason caller = Inr (201, pair_fields q @ [(''lifecycle_relationship_id'', JStr ''rel-1'')])"

definition sample_pair :: lineage_pair where
  "sample_pair = \<lparr>lp_source_document_id = ''doc-1'', lp_target_document_id = ''doc-2'', lp_transition_type = ''supersede''\<rparr>"

definition sample_pending_event :: event_row where
  "sample_pending_event = (sample_event ''e1'' LINEAGE_PENDING_EVENT (pair_key sample_pair))\<lparr>ev_payload := pair_fields sample_pair\<rparr>"

definition sample_pending_ledger :: ledger where
  "sample_pending_ledger = (sample_ledger sample_job)\<lparr>events := [sample_pending_event]\<rparr>"

theorem lineage_reconciliation_converges_witness:
  "list_pending_archive_lineage sample_pending_ledger 10 = [(''rjb_1'', 1000000)]
   \<and> (\<exists>r s'. reconcile_pending_archive_lineage sample_archive sample_env 10 sample_pending_ledger = (Done r, s')
        \<and> list_pending_archive_lineage s' 10 = [])"
proof -
  have listed: "list_pending_archive_lineage sample_pending_ledger 10 = [(''rjb_1'', 1000000)]" by code_simp
  have ack: "acknowledges sample_archive"
    by (simp add: acknowledges_def sample_archive_def acknowledged_relationship_id_def dget_def py_strip_def py_isspace_def)
  have inv: "schema_inv sample_pending_ledger"
    by (simp add: schema_inv_def table_oks sample_pending_ledger_def sample_pending_event_def sample_event_def samples custody_checks_def custody_scoped_def)
  have w: "written_as sample_pair sample_pending_event"
  proof -
    have "ev_key sample_pending_event = Some (py_strip (event_key (ev_type sample_pending_event) sample_pair))" by code_simp
    then show ?thesis by (simp add: written_as_def sample_pair_def sample_pending_event_def dget_def)
  qed
  have type: "ev_type sample_pending_event = LINEAGE_PENDING_EVENT"
    "ev_key sample_pending_event = Some (event_key LINEAGE_PENDING_EVENT sample_pair)"
    by (simp_all add: sample_pending_event_def sample_event_def)
  have "lineage_event_ok sample_pending_event"
    using w type by (auto simp: lineage_event_ok_def lineage_types)
  then have ok: "\<forall>i \<in> pending_jobs (events sample_pending_ledger). lineage_events i (events sample_pending_ledger)"
    by (simp add: lineage_events_def sample_pending_ledger_def)
  have rows: "int (length (pending_rows (events sample_pending_ledger))) \<le> 10" by code_simp
  have "\<exists>r s'. reconcile_pending_archive_lineage sample_archive sample_env 10 sample_pending_ledger = (Done r, s')"
  proof -
    have "(case fst (reconcile_pending_archive_lineage sample_archive sample_env 10 sample_pending_ledger) of
       Done r \<Rightarrow> True | _ \<Rightarrow> False)" by code_simp
    then show ?thesis
      by (cases "reconcile_pending_archive_lineage sample_archive sample_env 10 sample_pending_ledger") (auto split: ending.splits)
  qed
  then show ?thesis using lineage_reconciliation_converges [OF ack inv ok rows, of sample_env] listed by auto
qed

end
