(* ===== verification/Snapshot_Store.thy ===== *)
theory Snapshot_Store
  imports Job_Creation
begin

text \<open>
  The store of report input snapshots (\<open>reporting_lineage/store.py\<close>, class \<open>ReportInputSnapshotStore\<close>, and the
  lifecycle vocabulary of \<open>reporting_identity/snapshot_lifecycle.py\<close>): one snapshot per job with the ledger
  of the upstream calls it was captured from, and what a later capture may change.

  Each operation is one transaction, and transactions follow one another (\<open>list_upstream_calls_by_job\<close> reads
  twice). A request's JSON values are taken as \<open>_normalize_json_value\<close> leaves them. A JSON column holds the canonical
  text, so it is read back with sorted keys.
\<close>

section \<open>Lifecycle vocabulary\<close>

definition read_reproduction_availability :: "json option \<Rightarrow> string option" where
  "read_reproduction_availability stored =
     (case stored of
        Some (JStr t) \<Rightarrow> Some (if t = ''rerender_from_snapshot'' then ''snapshot_recomposition'' else t)
      | _ \<Rightarrow> None)"

definition read_lifecycle :: "jobj option \<Rightarrow> jobj option" where
  "read_lifecycle stored =
     (case stored of None \<Rightarrow> None
      | Some d \<Rightarrow>
          (case read_reproduction_availability (dget d ''reproduction_availability'') of
             None \<Rightarrow> Some d
           | Some availability \<Rightarrow>
               if Some (JStr availability) = dget d ''reproduction_availability'' then Some d
               else Some (dset d ''reproduction_availability'' (JStr availability))))"

section \<open>Rows\<close>

definition SNAPSHOT_POSTURES :: "string list" where
  "SNAPSHOT_POSTURES = [''complete'', ''partial'', ''unavailable'', ''not_supported'', ''redacted'', ''error'']"

definition UPSTREAM_FAILURE_CATEGORIES :: "string list" where
  "UPSTREAM_FAILURE_CATEGORIES = [''none'', ''partial_data'', ''unsupported_input'', ''upstream_unavailable'',
     ''upstream_error'', ''timeout'', ''redacted'']"

record snapshot_request =
  sn_report_job_id :: string
  sn_report_type :: string
  sn_report_data_contract_version :: string
  sn_portfolio_scope :: jobj
  sn_as_of_date :: date
  sn_payload :: jobj
  sn_storage_ref :: "string option"
  sn_report_revision_id :: "string option"
  sn_series_digest :: "string option"
  sn_source_revision_digest :: "string option"
  sn_factual_content_digest :: "string option"
  sn_factual_boundary_version :: "string option"
  sn_source_revision_vector :: "jobj option"
  sn_source_cut_coherence :: "jobj option"
  sn_lifecycle :: "jobj option"
  sn_supportability_status :: string
  sn_completeness_status :: string
  sn_lineage_summary :: jobj
  sn_captured_at :: dt
  sn_correlation_id :: string
  sn_trace_id :: string

text \<open>A row: the columns of the request, with the id, the hash and the time of insertion.\<close>

record snapshot_row =
  sr_snapshot_id :: string
  sr_columns :: snapshot_request
  sr_snapshot_hash :: string
  sr_created_at :: dt

record call_request =
  uc_service_name :: string
  uc_endpoint :: string
  uc_method :: string
  uc_contract_version :: string
  uc_request_hash :: string
  uc_response_hash :: "string option"
  uc_response_ref :: "string option"
  uc_status_code :: int
  uc_latency_ms :: int
  uc_supportability_status :: string
  uc_completeness_status :: string
  uc_failure_category :: string
  uc_failure_message :: "string option"
  uc_captured_at :: dt
  uc_correlation_id :: string
  uc_trace_id :: string

record call_row =
  cr_upstream_call_id :: string
  cr_snapshot_id :: string
  cr_call :: call_request
  cr_created_at :: stamp

record snapshot_store =
  snapshots :: "snapshot_row list"
  upstream_calls :: "call_row list"

type_synonym 'a snapshot_tx = "(snapshot_store, 'a) tx"

text \<open>\<open>str(value) if value else None\<close>.\<close>

definition text_or_none :: "string option \<Rightarrow> string option" where
  "text_or_none v = (if v = Some [] then None else v)"

definition literal_value :: "string \<Rightarrow> string list \<Rightarrow> string \<Rightarrow> unit res" where
  "literal_value value allowed field = require (value \<in> set allowed)
     (ValueError (field @ '' has unsupported value '' @ repr_string value
        @ ''; expected one of ('' @ py_join '', '' (map repr_string allowed) @ '')''))"

definition record_from_snapshot_row :: "snapshot_row \<Rightarrow> snapshot_row res" where
  "record_from_snapshot_row r =
     (let q = sr_columns r in
      bindE (literal_value (sn_supportability_status q) SNAPSHOT_POSTURES ''supportability_status'') (\<lambda>_.
      bindE (literal_value (sn_completeness_status q) SNAPSHOT_POSTURES ''completeness_status'') (\<lambda>_.
      Inr (r\<lparr>sr_columns := q\<lparr>sn_storage_ref := text_or_none (sn_storage_ref q),
        sn_report_revision_id := text_or_none (sn_report_revision_id q),
        sn_series_digest := text_or_none (sn_series_digest q),
        sn_source_revision_digest := text_or_none (sn_source_revision_digest q),
        sn_factual_content_digest := text_or_none (sn_factual_content_digest q),
        sn_factual_boundary_version := text_or_none (sn_factual_boundary_version q),
        sn_lifecycle := read_lifecycle (sn_lifecycle q)\<rparr>\<rparr>))))"

definition upstream_call_from_row :: "call_row \<Rightarrow> call_row res" where
  "upstream_call_from_row r =
     (let c = cr_call r in
      bindE (literal_value (uc_supportability_status c) SNAPSHOT_POSTURES ''supportability_status'') (\<lambda>_.
      bindE (literal_value (uc_completeness_status c) SNAPSHOT_POSTURES ''completeness_status'') (\<lambda>_.
      bindE (literal_value (uc_failure_category c) UPSTREAM_FAILURE_CATEGORIES ''failure_category'') (\<lambda>_.
      Inr (r\<lparr>cr_call := c\<lparr>uc_response_hash := text_or_none (uc_response_hash c),
        uc_response_ref := text_or_none (uc_response_ref c),
        uc_failure_message := text_or_none (uc_failure_message c)\<rparr>\<rparr>)))))"

text \<open>The business identity of a call: everything but the latency and the capture time.\<close>

definition upstream_call_signature :: "call_request \<Rightarrow> call_request" where
  "upstream_call_signature c = c\<lparr>uc_latency_ms := 0, uc_captured_at := 0\<rparr>"

text \<open>\<open>Counter(xs) == Counter(ys)\<close>.\<close>

definition counters_equal :: "'x list \<Rightarrow> 'x list \<Rightarrow> bool" where
  "counters_equal xs ys \<longleftrightarrow> list_all (\<lambda>x. count_list xs x = count_list ys x) (xs @ ys)"

definition upstream_calls_match :: "call_row list \<Rightarrow> call_request list \<Rightarrow> bool" where
  "upstream_calls_match existing requested \<longleftrightarrow>
     counters_equal (map (upstream_call_signature \<circ> cr_call) existing) (map upstream_call_signature requested)"

definition snapshot_lineage_matches :: "snapshot_row \<Rightarrow> snapshot_request \<Rightarrow> bool" where
  "snapshot_lineage_matches existing requested \<longleftrightarrow>
     sn_supportability_status (sr_columns existing) = sn_supportability_status requested
     \<and> sn_completeness_status (sr_columns existing) = sn_completeness_status requested
     \<and> canonical_json (JObj (sn_lineage_summary (sr_columns existing))) = canonical_json (JObj (sn_lineage_summary requested))"

section \<open>Operations\<close>

definition compute_snapshot_hash :: "env \<Rightarrow> jobj \<Rightarrow> string" where
  "compute_snapshot_hash e payload = ''sha256:'' @ env_sha256 e (canonical_json (JObj payload))"

text \<open>The columns as they are stored.\<close>

definition stored_columns :: "snapshot_request \<Rightarrow> snapshot_request" where
  "stored_columns q = q\<lparr>sn_portfolio_scope := sorted_obj (sn_portfolio_scope q), sn_payload := sorted_obj (sn_payload q),
     sn_source_revision_vector := map_option sorted_obj (sn_source_revision_vector q),
     sn_source_cut_coherence := map_option sorted_obj (sn_source_cut_coherence q),
     sn_lifecycle := map_option sorted_obj (sn_lifecycle q), sn_lineage_summary := sorted_obj (sn_lineage_summary q)\<rparr>"

definition insert_snapshot :: "snapshot_row \<Rightarrow> unit snapshot_tx" where
  "insert_snapshot r s =
     (if sr_snapshot_id r \<in> sr_snapshot_id ` set (snapshots s)
         \<or> sn_report_job_id (sr_columns r) \<in> (sn_report_job_id \<circ> sr_columns) ` set (snapshots s)
      then Inl (IntegrityError ''UNIQUE'') else Inr ((), s\<lparr>snapshots := snapshots s @ [r]\<rparr>))"

definition snapshot_of_job :: "string \<Rightarrow> snapshot_store \<Rightarrow> snapshot_row option" where
  "snapshot_of_job job_id s = fetch (\<lambda>r. sn_report_job_id (sr_columns r) = job_id) (snapshots s)"

definition find_snapshot :: "string \<Rightarrow> snapshot_store \<Rightarrow> snapshot_row option" where
  "find_snapshot snapshot_id s = fetch (\<lambda>r. sr_snapshot_id r = snapshot_id) (snapshots s)"

definition get_or_create_snapshot :: "env \<Rightarrow> snapshot_request \<Rightarrow> snapshot_row snapshot_tx" where
  "get_or_create_snapshot e q =
     (let snapshot_hash = compute_snapshot_hash e (sn_payload q) in
      tx_bind (tx_get (snapshot_of_job (sn_report_job_id q))) (\<lambda>existing_row.
      case existing_row of
        Some row \<Rightarrow>
          tx_bind (tx_lift (record_from_snapshot_row row)) (\<lambda>existing.
          if sr_snapshot_hash existing = snapshot_hash then tx_return existing
          else tx_raise (ReportInputSnapshotAlreadyCapturedError ''report_input_snapshot_already_captured''))
      | None \<Rightarrow>
          let row = \<lparr>sr_snapshot_id = ''rsnap_'' @ uuid4_hex e 1, sr_columns = stored_columns q,
                sr_snapshot_hash = snapshot_hash, sr_created_at = utc_now e 0\<rparr> in
          tx_bind (insert_snapshot row) (\<lambda>_. tx_lift (record_from_snapshot_row row))))"

definition create_snapshot :: "env \<Rightarrow> snapshot_request \<Rightarrow> snapshot_row snapshot_tx" where
  "create_snapshot = get_or_create_snapshot"

text \<open>The new lineage metadata of a snapshot.\<close>

definition repaired :: "snapshot_request \<Rightarrow> snapshot_row \<Rightarrow> snapshot_row" where
  "repaired q r = r\<lparr>sr_columns := (sr_columns r)\<lparr>sn_supportability_status := sn_supportability_status q,
     sn_completeness_status := sn_completeness_status q, sn_lineage_summary := sorted_obj (sn_lineage_summary q)\<rparr>\<rparr>"

definition repair_snapshot_lineage_metadata :: "string \<Rightarrow> snapshot_request \<Rightarrow> snapshot_row snapshot_tx" where
  "repair_snapshot_lineage_metadata snapshot_id q =
     tx_bind (\<lambda>s. Inr ((), s\<lparr>snapshots := update_where (\<lambda>r. sr_snapshot_id r = snapshot_id) (repaired q) (snapshots s)\<rparr>)) (\<lambda>_.
     tx_bind (tx_get (find_snapshot snapshot_id)) (\<lambda>row.
     case row of None \<Rightarrow> tx_raise (RuntimeError ''AssertionError'') | Some r \<Rightarrow> tx_lift (record_from_snapshot_row r)))"

definition calls_of :: "string \<Rightarrow> snapshot_store \<Rightarrow> call_row list" where
  "calls_of snapshot_id s = sort_key (\<lambda>c. (text_key (cr_created_at c), cr_upstream_call_id c))
     (filter (\<lambda>c. cr_snapshot_id c = snapshot_id) (upstream_calls s))"

definition list_upstream_calls :: "string \<Rightarrow> call_row list snapshot_tx" where
  "list_upstream_calls snapshot_id =
     tx_bind (tx_get (calls_of snapshot_id)) (\<lambda>rows. tx_lift (mapE upstream_call_from_row rows))"

definition insert_call :: "call_row \<Rightarrow> unit snapshot_tx" where
  "insert_call c s =
     (if uc_supportability_status (cr_call c) \<notin> set SNAPSHOT_POSTURES
        \<or> uc_completeness_status (cr_call c) \<notin> set SNAPSHOT_POSTURES then Inl (IntegrityError ''CHECK'')
      else if cr_upstream_call_id c \<in> cr_upstream_call_id ` set (upstream_calls s) then Inl (IntegrityError ''UNIQUE'')
      else Inr ((), s\<lparr>upstream_calls := upstream_calls s @ [c]\<rparr>))"

definition insert_upstream_calls :: "env \<Rightarrow> string \<Rightarrow> call_request list \<Rightarrow> unit snapshot_tx" where
  "insert_upstream_calls e snapshot_id calls =
     (let created_at = dt_to_text (utc_now e 0) in
      tx_foreach (enumerate 1 calls) () (\<lambda>(n, c) _. insert_call \<lparr>cr_upstream_call_id = ''ruc_'' @ uuid4_hex e n,
        cr_snapshot_id = snapshot_id, cr_call = c, cr_created_at = created_at\<rparr>))"

definition get_or_create_upstream_calls :: "env \<Rightarrow> string \<Rightarrow> call_request list \<Rightarrow> call_row list snapshot_tx" where
  "get_or_create_upstream_calls e snapshot_id calls =
     tx_bind (list_upstream_calls snapshot_id) (\<lambda>existing.
     if existing \<noteq> [] then
       (if \<not> upstream_calls_match existing calls
        then tx_raise (ReportInputSnapshotLineageConflictError ''report_input_snapshot_lineage_conflict'')
        else tx_return existing)
     else if calls = [] then tx_return []
     else tx_bind (insert_upstream_calls e snapshot_id calls) (\<lambda>_. list_upstream_calls snapshot_id))"

definition create_capture ::
    "env \<Rightarrow> snapshot_request \<Rightarrow> call_request list \<Rightarrow> (snapshot_row \<times> call_row list) snapshot_tx" where
  "create_capture e q calls =
     tx_bind (get_or_create_snapshot (sub_env 0 e) q) (\<lambda>snapshot_record.
     tx_bind (list_upstream_calls (sr_snapshot_id snapshot_record)) (\<lambda>existing_calls.
     if existing_calls \<noteq> [] \<and> \<not> snapshot_lineage_matches snapshot_record q
     then tx_raise (ReportInputSnapshotLineageConflictError ''report_input_snapshot_lineage_summary_conflict'')
     else
       tx_bind (if existing_calls = [] \<and> calls \<noteq> [] \<and> \<not> snapshot_lineage_matches snapshot_record q
         then repair_snapshot_lineage_metadata (sr_snapshot_id snapshot_record) q
         else tx_return snapshot_record) (\<lambda>current.
       tx_bind (get_or_create_upstream_calls (sub_env 1 e) (sr_snapshot_id current) calls) (\<lambda>call_records.
       tx_return (current, call_records)))))"

definition snapshot_not_found :: err where
  "snapshot_not_found = ReportInputSnapshotNotFoundError ''report_input_snapshot_not_found''"

definition create_upstream_calls :: "env \<Rightarrow> string \<Rightarrow> call_request list \<Rightarrow> call_row list snapshot_tx" where
  "create_upstream_calls e snapshot_id calls =
     (if calls = [] then tx_return []
      else tx_bind (tx_get (find_snapshot snapshot_id)) (\<lambda>present.
        if present = None then tx_raise snapshot_not_found
        else get_or_create_upstream_calls e snapshot_id calls))"

definition get_stored_lifecycle :: "string \<Rightarrow> jobj option snapshot_tx" where
  "get_stored_lifecycle snapshot_id =
     tx_bind (tx_get (find_snapshot snapshot_id)) (\<lambda>row.
     case row of None \<Rightarrow> tx_raise snapshot_not_found | Some r \<Rightarrow> tx_return (sn_lifecycle (sr_columns r)))"

definition get_snapshot :: "string \<Rightarrow> snapshot_row snapshot_tx" where
  "get_snapshot snapshot_id =
     tx_bind (tx_get (find_snapshot snapshot_id)) (\<lambda>row.
     case row of None \<Rightarrow> tx_raise snapshot_not_found | Some r \<Rightarrow> tx_lift (record_from_snapshot_row r))"

definition get_snapshot_by_job :: "string \<Rightarrow> snapshot_row snapshot_tx" where
  "get_snapshot_by_job report_job_id =
     tx_bind (tx_get (snapshot_of_job report_job_id)) (\<lambda>row.
     case row of None \<Rightarrow> tx_raise snapshot_not_found | Some r \<Rightarrow> tx_lift (record_from_snapshot_row r))"

definition list_upstream_calls_by_job :: "string \<Rightarrow> call_row list snapshot_tx" where
  "list_upstream_calls_by_job report_job_id =
     tx_bind (get_snapshot_by_job report_job_id) (\<lambda>snapshot. list_upstream_calls (sr_snapshot_id snapshot))"

end
