(* ===== verification/Snapshot_Laws.thy ===== *)
theory Snapshot_Laws
  imports Snapshot_Store Ledger_Samples
begin

text \<open>
  What the snapshot store guarantees: captured evidence is immutable. The columns of a snapshot other than
  its lineage metadata never change; once its upstream calls are recorded, neither the metadata nor the
  calls change any more, and a further capture for the job returns exactly what is stored or is refused.
\<close>

section \<open>Runs\<close>

inductive snapshot_step :: "(string \<Rightarrow> string) \<Rightarrow> snapshot_store \<Rightarrow> snapshot_store \<Rightarrow> bool" for sha where
  snapshot: "create_snapshot e q s = Inr (r, s') \<Longrightarrow> env_sha256 e = sha \<Longrightarrow> snapshot_step sha s s'"
| capture: "create_capture e q calls s = Inr (r, s') \<Longrightarrow> env_sha256 e = sha \<Longrightarrow> snapshot_step sha s s'"
| calls: "create_upstream_calls e sid calls s = Inr (r, s') \<Longrightarrow> env_sha256 e = sha \<Longrightarrow> snapshot_step sha s s'"

abbreviation snapshot_run :: "(string \<Rightarrow> string) \<Rightarrow> snapshot_store \<Rightarrow> snapshot_store \<Rightarrow> bool" where
  "snapshot_run sha \<equiv> (snapshot_step sha)\<^sup>*\<^sup>*"

text \<open>The columns a repair may write are blanked.\<close>

definition evidence :: "snapshot_row \<Rightarrow> snapshot_row" where
  "evidence r = r\<lparr>sr_columns := (sr_columns r)\<lparr>sn_supportability_status := [], sn_completeness_status := [],
     sn_lineage_summary := []\<rparr>\<rparr>"

text \<open>How the store may change.\<close>

definition keeps_evidence :: "snapshot_store \<Rightarrow> snapshot_store \<Rightarrow> bool" where
  "keeps_evidence s s' \<longleftrightarrow> (\<forall>r \<in> set (snapshots s). \<exists>r' \<in> set (snapshots s'). evidence r' = evidence r
     \<and> (calls_of (sr_snapshot_id r) s \<noteq> [] \<longrightarrow> r' = r \<and> calls_of (sr_snapshot_id r) s' = calls_of (sr_snapshot_id r) s))"

lemma evidence_fields:
  "sr_snapshot_id (evidence r) = sr_snapshot_id r" "sr_snapshot_hash (evidence r) = sr_snapshot_hash r"
  "sn_report_job_id (sr_columns (evidence r)) = sn_report_job_id (sr_columns r)"
  "sn_payload (sr_columns (evidence r)) = sn_payload (sr_columns r)"
  by (simp_all add: evidence_def)

lemma evidence_repaired [simp]: "evidence (repaired q r) = evidence r"
  by (simp add: evidence_def repaired_def)

interpretation evidence: tx_relation keeps_evidence
proof unfold_locales
  show "keeps_evidence s s" for s by (auto simp: keeps_evidence_def)
  show "keeps_evidence s u" if st: "keeps_evidence s t" and tu: "keeps_evidence t u" for s t u
    unfolding keeps_evidence_def
  proof
    fix r assume "r \<in> set (snapshots s)"
    then obtain r1 where r1: "r1 \<in> set (snapshots t)" "evidence r1 = evidence r"
      "calls_of (sr_snapshot_id r) s \<noteq> [] \<longrightarrow> r1 = r \<and> calls_of (sr_snapshot_id r) t = calls_of (sr_snapshot_id r) s"
      using bspec [OF st [unfolded keeps_evidence_def]] by blast
    then obtain r2 where r2: "r2 \<in> set (snapshots u)" "evidence r2 = evidence r1"
      "calls_of (sr_snapshot_id r1) t \<noteq> [] \<longrightarrow> r2 = r1 \<and> calls_of (sr_snapshot_id r1) u = calls_of (sr_snapshot_id r1) t"
      using bspec [OF tu [unfolded keeps_evidence_def]] by blast
    moreover have "sr_snapshot_id r1 = sr_snapshot_id r" using r1(2) by (metis evidence_fields(1))
    ultimately show "\<exists>r' \<in> set (snapshots u). evidence r' = evidence r
        \<and> (calls_of (sr_snapshot_id r) s \<noteq> [] \<longrightarrow> r' = r \<and> calls_of (sr_snapshot_id r) u = calls_of (sr_snapshot_id r) s)"
      using r1 by (intro bexI [of _ r2]) auto
  qed
qed

text \<open>Every row has its own id and job, and the hash of its payload.\<close>

definition hash_of :: "(string \<Rightarrow> string) \<Rightarrow> jobj \<Rightarrow> string" where
  "hash_of sha payload = ''sha256:'' @ sha (canonical_json (JObj payload))"

definition snapshots_ok :: "(string \<Rightarrow> string) \<Rightarrow> snapshot_store \<Rightarrow> bool" where
  "snapshots_ok sha s \<longleftrightarrow> distinct (map sr_snapshot_id (snapshots s)) \<and> distinct (map (sn_report_job_id \<circ> sr_columns) (snapshots s))
     \<and> (\<forall>r \<in> set (snapshots s). sr_snapshot_hash r = hash_of sha (sn_payload (sr_columns r)))"

definition snapshot_rel :: "(string \<Rightarrow> string) \<Rightarrow> snapshot_store \<Rightarrow> snapshot_store \<Rightarrow> bool" where
  "snapshot_rel sha s s' \<longleftrightarrow> keeps_evidence s s' \<and> (snapshots_ok sha s \<longrightarrow> snapshots_ok sha s')"

interpretation snap: tx_relation "snapshot_rel sha" for sha
  by unfold_locales (auto simp: snapshot_rel_def evidence.R_refl intro: evidence.R_trans)

section \<open>What each statement keeps\<close>

lemma hash_of_sorted [simp]: "hash_of sha (sorted_obj d) = hash_of sha d"
proof -
  have "jsort (JObj (sorted_obj d)) = jsort (JObj d)" by (metis jsort_JObj jsort_idem)
  then show ?thesis unfolding hash_of_def canonical_json_def by (simp only:)
qed

lemma compute_hash: "compute_snapshot_hash e d = hash_of (env_sha256 e) d"
  by (simp add: compute_snapshot_hash_def hash_of_def)

lemma keeps_insert_snapshot:
  assumes "sr_snapshot_hash r = hash_of sha (sn_payload (sr_columns r))"
  shows "keeps (snapshot_rel sha) (insert_snapshot r)"
  by (rule keepsI) (use assms in \<open>auto simp: insert_snapshot_def snapshot_rel_def keeps_evidence_def calls_of_def snapshots_ok_def
      split: if_splits\<close>)

lemma keeps_get_or_create_snapshot: "keeps (snapshot_rel (env_sha256 e)) (get_or_create_snapshot e q)"
  unfolding get_or_create_snapshot_def Let_def
  by (intro snap.keeps_bind snap.keeps_get snap.keeps_option snap.keeps_lift snap.keeps_if snap.keeps_return snap.keeps_raise
      keeps_insert_snapshot) (simp add: stored_columns_def compute_hash)

lemma repair_rel:
  assumes "repair_snapshot_lineage_metadata sid q s = Inr (r, s')" "calls_of sid s = []"
  shows "snapshot_rel sha s s'" "upstream_calls s' = upstream_calls s"
proof -
  have s': "s' = s\<lparr>snapshots := update_where (\<lambda>r. sr_snapshot_id r = sid) (repaired q) (snapshots s)\<rparr>"
    using assms(1) by (auto simp: repair_snapshot_lineage_metadata_def tx_run split: option.splits sum.splits)
  have fields: "sr_snapshot_id (repaired q x) = sr_snapshot_id x" "sr_snapshot_hash (repaired q x) = sr_snapshot_hash x"
    "sn_report_job_id (sr_columns (repaired q x)) = sn_report_job_id (sr_columns x)"
    "sn_payload (sr_columns (repaired q x)) = sn_payload (sr_columns x)" for x
    by (simp_all add: repaired_def)
  have maps: "map sr_snapshot_id (snapshots s') = map sr_snapshot_id (snapshots s)"
    "map (sn_report_job_id \<circ> sr_columns) (snapshots s') = map (sn_report_job_id \<circ> sr_columns) (snapshots s)"
    by (simp_all add: s' update_where_def fields)
  have "keeps_evidence s s'"
    unfolding keeps_evidence_def
  proof
    fix x assume x: "x \<in> set (snapshots s)"
    let ?y = "if sr_snapshot_id x = sid then repaired q x else x"
    have "?y \<in> set (snapshots s')" using x by (force simp: s' update_where_def)
    then show "\<exists>r' \<in> set (snapshots s'). evidence r' = evidence x
        \<and> (calls_of (sr_snapshot_id x) s \<noteq> [] \<longrightarrow> r' = x \<and> calls_of (sr_snapshot_id x) s' = calls_of (sr_snapshot_id x) s)"
      using assms(2) by (intro bexI [of _ ?y]) (auto simp: s' calls_of_def)
  qed
  moreover have "\<forall>r \<in> set (snapshots s'). sr_snapshot_hash r = hash_of sha (sn_payload (sr_columns r))"
    if "\<forall>r \<in> set (snapshots s). sr_snapshot_hash r = hash_of sha (sn_payload (sr_columns r))"
    using that by (auto simp: s' update_where_def fields)
  ultimately show "snapshot_rel sha s s'"
    unfolding snapshot_rel_def snapshots_ok_def maps by simp
  show "upstream_calls s' = upstream_calls s" by (simp add: s')
qed


section \<open>The ledger of upstream calls\<close>

lemma insert_calls_effect:
  assumes "tx_foreach xs () (\<lambda>(n, c) _. insert_call (f n c)) s = Inr (u, s')" "\<And>n c. cr_snapshot_id (f n c) = sid"
  shows "\<exists>new. s' = s\<lparr>upstream_calls := upstream_calls s @ new\<rparr> \<and> length new = length xs \<and> (\<forall>c \<in> set new. cr_snapshot_id c = sid)"
  using assms(1)
proof (induction xs arbitrary: s)
  case Nil
  then show ?case by simp
next
  case (Cons x xs)
  obtain n c where x: "x = (n, c)" by (cases x)
  obtain t where t: "insert_call (f n c) s = Inr ((), t)"
    "tx_foreach xs () (\<lambda>(n, c) _. insert_call (f n c)) t = Inr (u, s')"
    using Cons.prems by (auto simp: x elim: tx_bindE)
  then have "t = s\<lparr>upstream_calls := upstream_calls s @ [f n c]\<rparr>" by (auto simp: insert_call_def split: if_splits)
  moreover from Cons.IH [OF t(2)] obtain new where "s' = t\<lparr>upstream_calls := upstream_calls t @ new\<rparr>"
    "length new = length xs" "\<forall>c \<in> set new. cr_snapshot_id c = sid" by blast
  ultimately show ?case using assms(2) by (intro exI [of _ "f n c # new"]) simp
qed

lemma insert_upstream_calls_effect:
  assumes "insert_upstream_calls e sid cs s = Inr (u, s')"
  obtains new where "s' = s\<lparr>upstream_calls := upstream_calls s @ new\<rparr>" "length new = length cs"
    "\<forall>c \<in> set new. cr_snapshot_id c = sid"
  using insert_calls_effect [OF assms [unfolded insert_upstream_calls_def Let_def], of sid] by auto

lemma calls_of_append:
  assumes "\<forall>c \<in> set new. cr_snapshot_id c = sid"
  shows "calls_of sid' (s\<lparr>upstream_calls := upstream_calls s @ new\<rparr>) = (if sid' = sid
    then sort_key (\<lambda>c. (text_key (cr_created_at c), cr_upstream_call_id c)) (filter (\<lambda>c. cr_snapshot_id c = sid) (upstream_calls s) @ new)
    else calls_of sid' s)"
proof -
  have "filter (\<lambda>c. cr_snapshot_id c = sid') new = (if sid' = sid then new else [])"
    using assms by (auto simp: filter_id_conv filter_empty_conv)
  then show ?thesis by (simp add: calls_of_def)
qed

lemma insert_upstream_calls_rel:
  assumes "insert_upstream_calls e sid cs s = Inr (u, s')" "calls_of sid s = []"
  shows "snapshot_rel sha s s'" "cs \<noteq> [] \<Longrightarrow> calls_of sid s' \<noteq> []"
proof -
  obtain new where new: "s' = s\<lparr>upstream_calls := upstream_calls s @ new\<rparr>" "length new = length cs"
    "\<forall>c \<in> set new. cr_snapshot_id c = sid"
    using assms(1) by (rule insert_upstream_calls_effect)
  show "snapshot_rel sha s s'"
    using assms(2) new(3)
    by (auto simp: snapshot_rel_def snapshots_ok_def keeps_evidence_def new(1) calls_of_append [OF new(3)] intro!: bexI)
  show "calls_of sid s' \<noteq> []" if "cs \<noteq> []"
  proof -
    have "new \<noteq> []" using that new(2) by auto
    then have "length (calls_of sid s') \<noteq> 0" unfolding new(1) calls_of_append [OF new(3)] by simp
    then show ?thesis by auto
  qed
qed

lemma list_upstream_calls_run:
  "list_upstream_calls sid s = Inr (cs, s') \<longleftrightarrow> s' = s \<and> mapE upstream_call_from_row (calls_of sid s) = Inr cs"
  by (auto simp: list_upstream_calls_def tx_bind_eq)

lemma mapE_Nil_iff: "mapE f xs = Inr ys \<Longrightarrow> ys = [] \<longleftrightarrow> xs = []"
  by (auto simp: mapE_Inr)

text \<open>What the get-or-create of the calls leaves behind.\<close>

lemma get_or_create_upstream_calls_effect:
  assumes "get_or_create_upstream_calls e sid cs s = Inr (calls, s')"
  shows "snapshot_rel sha s s'" "snapshots s' = snapshots s"
    "cs \<noteq> [] \<Longrightarrow> list_upstream_calls sid s' = Inr (calls, s') \<and> calls \<noteq> []"
proof -
  obtain existing where ex: "mapE upstream_call_from_row (calls_of sid s) = Inr existing"
    and rest: "(if existing \<noteq> [] then (if \<not> upstream_calls_match existing cs
          then tx_raise (ReportInputSnapshotLineageConflictError ''report_input_snapshot_lineage_conflict'') else tx_return existing)
       else if cs = [] then tx_return []
       else tx_bind (insert_upstream_calls e sid cs) (\<lambda>_. list_upstream_calls sid)) s = Inr (calls, s')"
    using assms unfolding get_or_create_upstream_calls_def by (auto elim!: tx_bindE simp: list_upstream_calls_run)
  consider (kept) "existing \<noteq> []" "calls = existing" "s' = s" | (none) "existing = []" "cs = []" "s' = s"
    | (new) u t where "existing = []" "cs \<noteq> []" "insert_upstream_calls e sid cs s = Inr (u, t)"
        "list_upstream_calls sid t = Inr (calls, s')"
    using rest by (auto split: if_splits elim!: tx_bindE)
  then have "snapshot_rel sha s s' \<and> snapshots s' = snapshots s
    \<and> (cs \<noteq> [] \<longrightarrow> list_upstream_calls sid s' = Inr (calls, s') \<and> calls \<noteq> [])"
  proof cases
    case kept
    then show ?thesis using ex by (simp add: snap.R_refl list_upstream_calls_run)
  next
    case none
    then show ?thesis by (simp add: snap.R_refl)
  next
    case new
    have empty: "calls_of sid s = []" using mapE_Nil_iff [OF ex] new(1) by simp
    have s': "s' = t" and calls: "mapE upstream_call_from_row (calls_of sid t) = Inr calls"
      using new(4) by (simp_all add: list_upstream_calls_run)
    have "snapshots t = snapshots s" using new(3) by (rule insert_upstream_calls_effect) simp
    then show ?thesis
      using insert_upstream_calls_rel(1) [OF new(3) empty, of sha] insert_upstream_calls_rel(2) [OF new(3) empty] new(2,4) mapE_Nil_iff [OF calls] s' by simp
  qed
  then show "snapshot_rel sha s s'" "snapshots s' = snapshots s"
    "cs \<noteq> [] \<Longrightarrow> list_upstream_calls sid s' = Inr (calls, s') \<and> calls \<noteq> []" by auto
qed

lemma keeps_create_upstream_calls: "keeps (snapshot_rel sha) (create_upstream_calls e sid cs)"
proof -
  have "keeps (snapshot_rel sha) (get_or_create_upstream_calls e sid cs)"
    by (rule keepsI) (rule get_or_create_upstream_calls_effect(1))
  then show ?thesis unfolding create_upstream_calls_def
    by (intro snap.keeps_if snap.keeps_bind snap.keeps_get snap.keeps_return snap.keeps_raise)
qed

section \<open>Captures\<close>

lemma snapshot_of_job_unique:
  assumes "snapshots_ok sha s" "r \<in> set (snapshots s)"
  shows "snapshot_of_job (sn_report_job_id (sr_columns r)) s = Some r"
proof -
  obtain r' where r': "snapshot_of_job (sn_report_job_id (sr_columns r)) s = Some r'"
    using assms(2) by (cases "snapshot_of_job (sn_report_job_id (sr_columns r)) s") (auto simp: snapshot_of_job_def)
  then have "r' \<in> set (snapshots s)" "sn_report_job_id (sr_columns r') = sn_report_job_id (sr_columns r)"
    unfolding snapshot_of_job_def by (auto dest: fetch_SomeD)
  moreover have "inj_on (sn_report_job_id \<circ> sr_columns) (set (snapshots s))"
    using assms(1) by (simp add: snapshots_ok_def distinct_map)
  ultimately have "r' = r" using assms(2) unfolding inj_on_def comp_def by blast
  then show ?thesis using r' by simp
qed

lemma record_from_snapshot_row_fields:
  assumes "record_from_snapshot_row r = Inr rec"
  shows "sr_snapshot_id rec = sr_snapshot_id r" "sr_snapshot_hash rec = sr_snapshot_hash r"
    "sn_report_job_id (sr_columns rec) = sn_report_job_id (sr_columns r)"
  using assms by (auto simp: record_from_snapshot_row_def Let_def bindE_eq_Inr)

text \<open>The get-or-create of a snapshot reads back the row of the job.\<close>

lemma get_or_create_snapshot_effect:
  assumes "get_or_create_snapshot e q s = Inr (rec, s')" "env_sha256 e = sha"
  obtains row where "row \<in> set (snapshots s')" "record_from_snapshot_row row = Inr rec"
    "sn_report_job_id (sr_columns row) = sn_report_job_id q" "sr_snapshot_hash row = hash_of sha (sn_payload q)"
proof (cases "snapshot_of_job (sn_report_job_id q) s")
  case None
  then show ?thesis using assms
    by (intro that [of "\<lparr>sr_snapshot_id = ''rsnap_'' @ uuid4_hex e 1, sr_columns = stored_columns q,
      sr_snapshot_hash = compute_snapshot_hash e (sn_payload q), sr_created_at = utc_now e 0\<rparr>"])
      (auto simp: get_or_create_snapshot_def Let_def insert_snapshot_def stored_columns_def compute_hash elim!: tx_bindE split: if_splits)
next
  case (Some row)
  then have "row \<in> set (snapshots s)" "sn_report_job_id (sr_columns row) = sn_report_job_id q"
    unfolding snapshot_of_job_def by (auto dest: fetch_SomeD)
  then show ?thesis using assms Some record_from_snapshot_row_fields(2) [of row rec]
    by (intro that [of row]) (auto simp: get_or_create_snapshot_def Let_def compute_hash elim!: tx_bindE split: if_splits)
qed

text \<open>A repair changes the metadata of the row only.\<close>

lemma repair_effect:
  assumes rep: "repair_snapshot_lineage_metadata sid q s = Inr (rec, s')" "calls_of sid s = []"
    and ok: "snapshots_ok sha s" "row0 \<in> set (snapshots s)" "sr_snapshot_id row0 = sid"
  obtains row where "row \<in> set (snapshots s')" "record_from_snapshot_row row = Inr rec" "evidence row = evidence row0"
proof -
  have row: "\<exists>row \<in> set (snapshots s'). record_from_snapshot_row row = Inr rec \<and> sr_snapshot_id row = sid"
    using rep(1)
    by (auto simp: repair_snapshot_lineage_metadata_def find_snapshot_def tx_run dest!: fetch_SomeD split: option.splits sum.splits)
  have rel: "snapshot_rel sha s s'" using repair_rel(1) [OF rep] .
  then obtain row' where row': "row' \<in> set (snapshots s')" "evidence row' = evidence row0"
    using ok(2) by (auto simp: snapshot_rel_def keeps_evidence_def)
  have "inj_on sr_snapshot_id (set (snapshots s'))"
    using ok(1) rel by (simp add: snapshot_rel_def snapshots_ok_def distinct_map)
  moreover have "sr_snapshot_id row' = sid" using row'(2) ok(3) by (metis evidence_fields(1))
  ultimately show ?thesis using row row' by (metis inj_onD that)
qed

definition captured :: "(string \<Rightarrow> string) \<Rightarrow> snapshot_request \<Rightarrow> snapshot_row \<Rightarrow> snapshot_store \<Rightarrow> snapshot_row \<Rightarrow> bool" where
  "captured sha q rec s row \<longleftrightarrow> row \<in> set (snapshots s) \<and> record_from_snapshot_row row = Inr rec
     \<and> sn_report_job_id (sr_columns row) = sn_report_job_id q \<and> sr_snapshot_hash row = hash_of sha (sn_payload q)"

text \<open>The record a capture goes on with: the row as it was, or repaired when no call was recorded yet.\<close>

lemma current_effect:
  assumes m: "(if existing = [] \<and> b then repair_snapshot_lineage_metadata (sr_snapshot_id rec0) q else tx_return rec0) s = Inr (rec, s')"
    and ex: "mapE upstream_call_from_row (calls_of (sr_snapshot_id rec0) s) = Inr existing"
    and c: "captured sha q rec0 s row0"
  shows "snapshot_rel sha s s'" "snapshots_ok sha s \<Longrightarrow> \<exists>row. captured sha q rec s' row"
proof -
  consider (same) "rec = rec0" "s' = s"
    | (repair) "existing = []" "repair_snapshot_lineage_metadata (sr_snapshot_id rec0) q s = Inr (rec, s')"
    using m by (auto split: if_splits)
  then have "snapshot_rel sha s s' \<and> (snapshots_ok sha s \<longrightarrow> (\<exists>row. captured sha q rec s' row))"
  proof cases
    case same
    then show ?thesis using c by (auto simp: snap.R_refl)
  next
    case repair
    have none: "calls_of (sr_snapshot_id rec0) s = []" using mapE_Nil_iff [OF ex] repair(1) by simp
    have row0: "row0 \<in> set (snapshots s)" "sr_snapshot_id row0 = sr_snapshot_id rec0"
      using c record_from_snapshot_row_fields(1) [of row0 rec0] by (simp_all add: captured_def)
    have "\<exists>row. captured sha q rec s' row" if ok: "snapshots_ok sha s"
    proof -
      obtain row where row: "row \<in> set (snapshots s')" "record_from_snapshot_row row = Inr rec" "evidence row = evidence row0"
        using repair(2) none ok row0 by (rule repair_effect)
      then have "sn_report_job_id (sr_columns row) = sn_report_job_id (sr_columns row0)" "sr_snapshot_hash row = sr_snapshot_hash row0"
        by (metis evidence_fields(3), metis evidence_fields(2))
      then show ?thesis using row(1,2) c by (auto simp: captured_def)
    qed
    then show ?thesis using repair_rel(1) [OF repair(2) none] by simp
  qed
  then show "snapshot_rel sha s s'" "snapshots_ok sha s \<Longrightarrow> \<exists>row. captured sha q rec s' row" by auto
qed

lemma create_capture_effect:
  assumes run: "create_capture e q cs s = Inr ((rec, calls), s')" and sha: "env_sha256 e = sha"
  shows "snapshot_rel sha s s'"
    "snapshots_ok sha s \<Longrightarrow> cs \<noteq> [] \<Longrightarrow> \<exists>row. captured sha q rec s' row
      \<and> list_upstream_calls (sr_snapshot_id row) s' = Inr (calls, s') \<and> calls \<noteq> []"
proof -
  obtain rec0 s0 existing s1 where g: "get_or_create_snapshot (sub_env 0 e) q s = Inr (rec0, s0)"
    and ex: "mapE upstream_call_from_row (calls_of (sr_snapshot_id rec0) s0) = Inr existing"
    and m: "(if existing = [] \<and> cs \<noteq> [] \<and> \<not> snapshot_lineage_matches rec0 q
         then repair_snapshot_lineage_metadata (sr_snapshot_id rec0) q else tx_return rec0) s0 = Inr (rec, s1)"
    and u: "get_or_create_upstream_calls (sub_env 1 e) (sr_snapshot_id rec) cs s1 = Inr (calls, s')"
    using run unfolding create_capture_def
    by (auto simp: list_upstream_calls_run elim!: tx_bindE split: if_splits)
  have r0: "snapshot_rel sha s s0" using keepsD [OF keeps_get_or_create_snapshot g] sha by simp
  have "env_sha256 (sub_env 0 e) = sha" using sha by simp
  with g obtain row0 where c0: "captured sha q rec0 s0 row0"
    by (rule get_or_create_snapshot_effect) (simp add: captured_def)
  note current = current_effect [OF m ex c0]
  note calls = get_or_create_upstream_calls_effect [OF u]
  show "snapshot_rel sha s s'" using r0 current(1) calls(1) by (meson snap.R_trans)
  assume ok: "snapshots_ok sha s" and cs: "cs \<noteq> []"
  obtain row where row: "captured sha q rec s1 row" using current(2) r0 ok by (auto simp: snapshot_rel_def)
  then have "sr_snapshot_id rec = sr_snapshot_id row" by (simp add: captured_def record_from_snapshot_row_fields(1))
  then show "\<exists>row. captured sha q rec s' row \<and> list_upstream_calls (sr_snapshot_id row) s' = Inr (calls, s') \<and> calls \<noteq> []"
    using row calls(2,3) cs by (intro exI [of _ row]) (simp add: captured_def)
qed

lemma snapshot_step_rel: "snapshot_step sha s s' \<Longrightarrow> snapshot_rel sha s s'"
proof (induction rule: snapshot_step.induct)
  case (snapshot e q s r s')
  then show ?case using keepsD [OF keeps_get_or_create_snapshot, of e q s r s'] by (simp add: create_snapshot_def)
next
  case (capture e q calls s r s')
  then show ?case using create_capture_effect(1) by (metis prod.collapse)
next
  case (calls e sid calls s r s')
  then show ?case by (auto intro: keepsD [OF keeps_create_upstream_calls])
qed

lemma snapshot_run_rel: "snapshot_run sha s s' \<Longrightarrow> snapshot_rel sha s s'"
  by (induction rule: rtranclp_induct) (auto intro: snap.R_refl snap.R_trans snapshot_step_rel)

text \<open>A capture on a store that holds the job's snapshot and its calls.\<close>

lemma create_capture_on_recorded:
  assumes row: "captured sha q rec s row" "snapshots_ok sha s" "list_upstream_calls (sr_snapshot_id row) s = Inr (calls, s)" "calls \<noteq> []"
    and q': "sn_report_job_id q' = sn_report_job_id q" "env_sha256 e = sha"
  shows "create_capture e q' cs s =
    (if hash_of sha (sn_payload q') \<noteq> hash_of sha (sn_payload q)
     then Inl (ReportInputSnapshotAlreadyCapturedError ''report_input_snapshot_already_captured'')
     else if \<not> snapshot_lineage_matches rec q'
     then Inl (ReportInputSnapshotLineageConflictError ''report_input_snapshot_lineage_summary_conflict'')
     else if \<not> upstream_calls_match calls cs
     then Inl (ReportInputSnapshotLineageConflictError ''report_input_snapshot_lineage_conflict'')
     else Inr ((rec, calls), s))"
proof -
  have "snapshot_of_job (sn_report_job_id q') s = Some row"
    using snapshot_of_job_unique [OF row(2), of row] row(1) q'(1) by (auto simp: captured_def)
  moreover have "sr_snapshot_hash rec = hash_of sha (sn_payload q)" "sr_snapshot_id rec = sr_snapshot_id row"
    using row(1) by (auto simp: captured_def record_from_snapshot_row_fields)
  moreover have "record_from_snapshot_row row = Inr rec" using row(1) by (simp add: captured_def)
  ultimately show ?thesis using row(3,4) q'(2)
    by (simp add: create_capture_def get_or_create_snapshot_def get_or_create_upstream_calls_def compute_hash Let_def tx_run)
qed

section \<open>Property\<close>

text \<open>
  (C27) The evidence of a capture is written once. Once a capture with upstream calls has committed, then
  whatever captures, snapshot writes and call writes follow, for this job or others, a capture for the job
  has exactly one outcome: a different payload hash, different lineage metadata or a different multiset of calls
  (up to latency and capture time) is refused with the error of its kind, and otherwise the record and the
  calls of the first capture are returned, and the store is unchanged.
\<close>

theorem capture_written_once:
  assumes first: "create_capture e q cs s = Inr ((rec, calls), s1)" "cs \<noteq> []" "snapshots_ok (env_sha256 e) s"
    and run: "snapshot_run (env_sha256 e) s1 s2"
    and later: "sn_report_job_id q' = sn_report_job_id q" "env_sha256 e' = env_sha256 e"
  shows "create_capture e' q' cs' s2 =
    (if compute_snapshot_hash e' (sn_payload q') \<noteq> compute_snapshot_hash e (sn_payload q)
     then Inl (ReportInputSnapshotAlreadyCapturedError ''report_input_snapshot_already_captured'')
     else if \<not> snapshot_lineage_matches rec q'
     then Inl (ReportInputSnapshotLineageConflictError ''report_input_snapshot_lineage_summary_conflict'')
     else if \<not> upstream_calls_match calls cs'
     then Inl (ReportInputSnapshotLineageConflictError ''report_input_snapshot_lineage_conflict'')
     else Inr ((rec, calls), s2))"
proof -
  obtain row where row: "captured (env_sha256 e) q rec s1 row"
    and calls: "list_upstream_calls (sr_snapshot_id row) s1 = Inr (calls, s1)" "calls \<noteq> []"
    using create_capture_effect(2) [OF first(1) refl first(3,2)] by blast
  have rel: "snapshot_rel (env_sha256 e) s s1" "snapshot_rel (env_sha256 e) s1 s2"
    using create_capture_effect(1) [OF first(1)] snapshot_run_rel [OF run] by auto
  then have ok: "snapshots_ok (env_sha256 e) s2" using first(3) by (simp add: snapshot_rel_def)
  have m: "mapE upstream_call_from_row (calls_of (sr_snapshot_id row) s1) = Inr calls"
    using calls(1) by (simp add: list_upstream_calls_run)
  then have ne: "calls_of (sr_snapshot_id row) s1 \<noteq> []" using mapE_Nil_iff [OF m] calls(2) by simp
  have "row \<in> set (snapshots s1)" using row by (simp add: captured_def)
  then have "row \<in> set (snapshots s2)" "calls_of (sr_snapshot_id row) s2 = calls_of (sr_snapshot_id row) s1"
    using rel(2) ne unfolding snapshot_rel_def keeps_evidence_def by blast+
  then have "captured (env_sha256 e) q rec s2 row" "list_upstream_calls (sr_snapshot_id row) s2 = Inr (calls, s2)"
    using row m by (simp_all add: captured_def list_upstream_calls_run)
  from create_capture_on_recorded [OF this(1) ok this(2) calls(2) later] show ?thesis
    by (simp only: compute_hash later(2))
qed

definition sample_snapshot :: "string \<Rightarrow> string \<Rightarrow> snapshot_request" where
  "sample_snapshot job_id amount = \<lparr>sn_report_job_id = job_id, sn_report_type = ''portfolio_review'',
     sn_report_data_contract_version = ''1.0.0'', sn_portfolio_scope = [(''portfolio_id'', JStr ''PB-1'')], sn_as_of_date = 20000,
     sn_payload = [(''total'', JStr amount)], sn_storage_ref = None, sn_report_revision_id = None, sn_series_digest = None,
     sn_source_revision_digest = None, sn_factual_content_digest = None, sn_factual_boundary_version = None,
     sn_source_revision_vector = None, sn_source_cut_coherence = None,
     sn_lifecycle = Some [(''reproduction_availability'', JStr ''rerender_from_snapshot'')],
     sn_supportability_status = ''complete'', sn_completeness_status = ''complete'', sn_lineage_summary = [],
     sn_captured_at = 5, sn_correlation_id = ''c'', sn_trace_id = ''t''\<rparr>"

definition sample_call :: "string \<Rightarrow> int \<Rightarrow> call_request" where
  "sample_call endpoint latency = \<lparr>uc_service_name = ''lotus-core'', uc_endpoint = endpoint, uc_method = ''POST'',
     uc_contract_version = ''v1'', uc_request_hash = ''h'', uc_response_hash = Some ''r'', uc_response_ref = None,
     uc_status_code = 200, uc_latency_ms = latency, uc_supportability_status = ''complete'',
     uc_completeness_status = ''complete'', uc_failure_category = ''none'', uc_failure_message = None,
     uc_captured_at = 5, uc_correlation_id = ''c'', uc_trace_id = ''t''\<rparr>"

definition sample_capture :: "nat \<Rightarrow> string \<Rightarrow> string \<Rightarrow> int \<Rightarrow> (snapshot_row \<times> call_row list) snapshot_tx" where
  "sample_capture i job_id amount latency = create_capture (sub_env i sample_env) (sample_snapshot job_id amount)
     [sample_call ''/summary'' latency, sample_call ''/holdings'' latency]"

definition no_snapshots :: snapshot_store where
  "no_snapshots = \<lparr>snapshots = [], upstream_calls = []\<rparr>"

lemma sample_captures:
  "(case sample_capture 0 ''j1'' ''10'' 7 no_snapshots of Inl _ \<Rightarrow> False
    | Inr ((rec, calls), s1) \<Rightarrow> snapshot_lineage_matches rec (sample_snapshot ''j1'' ''10'')
        \<and> upstream_calls_match calls [sample_call ''/summary'' 9, sample_call ''/holdings'' 9]
        \<and> (case sample_capture 1 ''j2'' ''20'' 7 s1 of Inl _ \<Rightarrow> False
            | Inr (_, s2) \<Rightarrow> length (snapshots s2) \<noteq> length (snapshots s1)))"
  by code_simp

theorem capture_written_once_witness:
  "\<exists>rec calls s1 s2. sample_capture 0 ''j1'' ''10'' 7 no_snapshots = Inr ((rec, calls), s1)
    \<and> snapshot_run (env_sha256 sample_env) s1 s2 \<and> s2 \<noteq> s1
    \<and> sample_capture 2 ''j1'' ''10'' 9 s2 = Inr ((rec, calls), s2)"
proof -
  obtain rec calls s1 where c1: "sample_capture 0 ''j1'' ''10'' 7 no_snapshots = Inr ((rec, calls), s1)"
    using sample_captures by (cases "sample_capture 0 ''j1'' ''10'' 7 no_snapshots") auto
  note sample = sample_captures [unfolded c1 sum.case prod.case]
  obtain x s2 where c2: "sample_capture 1 ''j2'' ''20'' 7 s1 = Inr (x, s2)"
    using sample by (cases "sample_capture 1 ''j2'' ''20'' 7 s1") auto
  have c: "snapshot_lineage_matches rec (sample_snapshot ''j1'' ''10'')"
    "upstream_calls_match calls [sample_call ''/summary'' 9, sample_call ''/holdings'' 9]" "s2 \<noteq> s1"
    using sample [unfolded c2 sum.case prod.case] by auto
  have run: "snapshot_run (env_sha256 sample_env) s1 s2"
    using snapshot_step.capture [OF c2 [unfolded sample_capture_def], of "env_sha256 sample_env"] by auto
  have ok: "snapshots_ok sha no_snapshots" for sha by (simp add: snapshots_ok_def no_snapshots_def)
  have "sample_capture 2 ''j1'' ''10'' 9 s2 = Inr ((rec, calls), s2)"
    using capture_written_once [OF c1 [unfolded sample_capture_def] _ ok, of s2 "sample_snapshot ''j1'' ''10''" "sub_env 2 sample_env"
        "[sample_call ''/summary'' 9, sample_call ''/holdings'' 9]"] run c(1,2)
    by (simp add: sample_capture_def compute_snapshot_hash_def)
  then show ?thesis using c1 c(3) run by blast
qed

end
