(* ===== verification/Idea_Intake.thy ===== *)
theory Idea_Intake
  imports Worker
begin

text \<open>
  The intake of evidence packs from lotus-idea (\<open>src/src/app/idea_evidence_intake/\<close>): the retention policies
  (\<open>retention_policy.py\<close>) and the intake ledger with its two stores, memory and a file (\<open>service.py\<close>). What
  moves a file to a new schema or database is in \<open>Idea_Transfer\<close>.

  A request is a validated model; its instants are the texts of its JSON dump, and the fields with a single
  legal value are written out where it is dumped. A table is a list of rows. The context column of an old
  or foreign file may hold any text: JSON, malformed or blank.
\<close>

section \<open>Retention policies\<close>

record retention_policy =
  rt_policy_ref :: string
  rt_policy_version :: string
  rt_purpose :: string
  rt_retention_start_event :: string
  rt_retention_duration_days :: int
  rt_approval_authority :: string
  rt_residency_region :: string
  rt_authorized_tenants :: "string list"
  rt_authorized_producers :: "string list"
  rt_legal_hold_active :: bool
  rt_erasure_action :: string
  rt_archive_handoff_policy :: string
  rt_effective_from :: dt
  rt_effective_until :: "dt option"

text \<open>Midnight UTC of a date.\<close>

definition midnight :: "date \<Rightarrow> dt" where
  "midnight d = (d - 719163) * 86400000000"

definition policy_of :: "string \<Rightarrow> bool \<Rightarrow> retention_policy" where
  "policy_of policy_ref legal_hold_active =
     \<lparr>rt_policy_ref = policy_ref, rt_policy_version = ''1.0.0'', rt_purpose = ''GOVERNED_CLIENT_REPORT_EVIDENCE'',
      rt_retention_start_event = ''REPORT_ARCHIVED'', rt_retention_duration_days = 2557,
      rt_approval_authority = ''lotus-report-information-governance'', rt_residency_region = ''APAC'',
      rt_authorized_tenants = [''tenant-sg''], rt_authorized_producers = [''lotus-idea''],
      rt_legal_hold_active = legal_hold_active, rt_erasure_action = ''REDACT_EVIDENCE_REFERENCES_AFTER_APPROVAL'',
      rt_archive_handoff_policy = ''lotus-archive:idea-evidence-retention:v1'',
      rt_effective_from = midnight (ymd2ord 2026 1 1), rt_effective_until = None\<rparr>"

definition default_policies :: "(string \<times> retention_policy) list" where
  "default_policies = [(''generated-report-standard'', policy_of ''generated-report-standard'' False),
     (''generated-report-legal-hold'', policy_of ''generated-report-legal-hold'' True)]"

definition resolve_retention_policy ::
    "(string \<times> retention_policy) list \<Rightarrow> string \<Rightarrow> string \<Rightarrow> string \<Rightarrow> dt \<Rightarrow> retention_policy res" where
  "resolve_retention_policy policies policy_ref tenant_id producer effective_at =
     (case dget policies policy_ref of
        None \<Rightarrow> Inl (RetentionPolicyError ''unknown_retention_policy''
          ''The retention policy reference is not recognized by lotus-report.'')
      | Some policy \<Rightarrow>
          if effective_at < rt_effective_from policy
             \<or> (case rt_effective_until policy of None \<Rightarrow> False | Some u \<Rightarrow> u \<le> effective_at)
          then Inl (RetentionPolicyError ''inactive_retention_policy''
            ''The retention policy is not effective at the requested time.'')
          else if producer \<notin> set (rt_authorized_producers policy)
          then Inl (RetentionPolicyError ''unauthorized_retention_policy_producer''
            ''The producer is not authorized to use the retention policy.'')
          else if tenant_id \<notin> set (rt_authorized_tenants policy)
          then Inl (RetentionPolicyError ''retention_policy_tenant_mismatch''
            ''The retention policy is not authorized for the caller tenant.'')
          else Inr policy)"

section \<open>Requests\<close>

record source_summary =
  ss_product_id :: string
  ss_source_system :: string
  ss_product_version :: string
  ss_as_of_date :: string
  ss_generated_at :: string
  ss_data_quality_status :: string
  ss_freshness :: string

record intake_request =
  iq_report_evidence_pack_id :: string
  iq_conversion_intent_id :: string
  iq_candidate_id :: string
  iq_purpose :: string
  iq_evidence_packet_id :: string
  iq_evidence_content_fingerprint :: string
  iq_source_signal_ids :: "string list"
  iq_source_summaries :: "source_summary list"
  iq_reason_codes :: "string list"
  iq_retention_policy_ref :: string
  iq_requested_at :: string

definition summary_dump :: "source_summary \<Rightarrow> json" where
  "summary_dump x = JObj [(''product_id'', JStr (ss_product_id x)), (''source_system'', JStr (ss_source_system x)),
     (''product_version'', JStr (ss_product_version x)), (''as_of_date'', JStr (ss_as_of_date x)),
     (''generated_at_utc'', JStr (ss_generated_at x)), (''data_quality_status'', JStr (ss_data_quality_status x)),
     (''freshness'', JStr (ss_freshness x))]"

definition intake_dump :: "intake_request \<Rightarrow> jobj" where
  "intake_dump q =
     [(''report_evidence_pack_id'', JStr (iq_report_evidence_pack_id q)),
      (''conversion_intent_id'', JStr (iq_conversion_intent_id q)), (''candidate_id'', JStr (iq_candidate_id q)),
      (''purpose'', JStr (iq_purpose q)), (''evidence_packet_id'', JStr (iq_evidence_packet_id q)),
      (''evidence_content_fingerprint'', JStr (iq_evidence_content_fingerprint q)),
      (''source_signal_ids'', JList (map JStr (iq_source_signal_ids q))),
      (''source_summaries'', JList (map summary_dump (iq_source_summaries q))),
      (''reason_codes'', JList (map JStr (iq_reason_codes q))),
      (''report_source_authority'', JStr ''lotus-report''), (''render_source_authority'', JStr ''lotus-render''),
      (''archive_source_authority'', JStr ''lotus-archive''), (''boundary'', JStr ''REPORT_INTAKE_ONLY''),
      (''retention_policy_ref'', JStr (iq_retention_policy_ref q)), (''requested_at_utc'', JStr (iq_requested_at q)),
      (''grants_client_publication_authority'', JBool False), (''creates_rendered_output'', JBool False),
      (''creates_archive_record'', JBool False), (''producer'', JStr ''lotus-idea''),
      (''supportability_status'', JStr ''not_certified'')]"

definition payload_fingerprint_of :: "env \<Rightarrow> intake_request \<Rightarrow> string" where
  "payload_fingerprint_of e q = ''sha256:'' @ env_sha256 e (canonical_json (JObj (intake_dump q)))"

text \<open>The identity of an intake: every component is prefixed with its length.\<close>

definition intake_preimage :: "string \<Rightarrow> string \<Rightarrow> string \<Rightarrow> string" where
  "intake_preimage tenant_id idempotency_key payload_fingerprint =
     concat (map (\<lambda>part. int_text (int (length part)) @ '':'' @ part) [tenant_id, idempotency_key, payload_fingerprint])"

definition intake_id_of :: "env \<Rightarrow> string \<Rightarrow> string \<Rightarrow> string \<Rightarrow> string" where
  "intake_id_of e tenant_id idempotency_key payload_fingerprint =
     ''idea_intake_'' @ take 24 (env_sha256 e (intake_preimage tenant_id idempotency_key payload_fingerprint))"

section \<open>Records and rows\<close>

definition REPORT_IDEA_EVIDENCE_INTAKE_BLOCKERS :: "string list" where
  "REPORT_IDEA_EVIDENCE_INTAKE_BLOCKERS = [''report_evidence_pack_live_materialization_proof_missing'',
     ''rendered_output_creation_missing'', ''archive_record_creation_missing'', ''client_publication_authority_blocked'']"

definition REPORT_IDEA_EVIDENCE_INTAKE_EVIDENCE_REFS :: "string list" where
  "REPORT_IDEA_EVIDENCE_INTAKE_EVIDENCE_REFS = [''POST /reports/idea-evidence-packs'',
     ''contracts/idea-evidence-intake/lotus-report-idea-evidence-pack-intake.v1.json'',
     ''src/app/idea_evidence_intake/service.py'', ''src/app/routers/idea_evidence_intake.py'',
     ''tests/unit/test_idea_evidence_intake_service.py'', ''tests/integration/test_idea_evidence_intake_api.py'']"

record intake_response =
  is_intake_id :: string
  is_intake_status :: string
  is_report_evidence_pack_id :: string
  is_conversion_intent_id :: string
  is_candidate_id :: string
  is_producer :: string
  is_owned_product :: string
  is_supportability_status :: string
  is_route_existence_proven :: bool
  is_materialization_proven :: bool
  is_creates_report_job :: bool
  is_creates_rendered_output :: bool
  is_creates_archive_record :: bool
  is_grants_client_publication_authority :: bool
  is_remaining_blockers :: "string list"
  is_evidence_refs :: "string list"
  is_accepted_at :: dt
  is_correlation_id :: "string option"

record intake_record =
  ik_tenant_id :: string
  ik_intake_id :: string
  ik_idempotency_key :: string
  ik_payload_fingerprint :: string
  ik_response :: intake_response
  ik_caller_context :: json
  ik_accepted_at :: dt
  ik_created_at :: dt

datatype context_column = Context_json json | Context_malformed | Context_blank

record intake_row =
  it_tenant_id :: string
  it_idempotency_key :: string
  it_intake_id :: string
  it_payload_fingerprint :: string
  it_response :: intake_response
  it_caller_context :: context_column
  it_report_evidence_pack_id :: string
  it_conversion_intent_id :: string
  it_candidate_id :: string
  it_evidence_packet_id :: string
  it_evidence_content_fingerprint :: string
  it_producer :: string
  it_supportability_status :: string
  it_accepted_at :: stamp
  it_created_at :: stamp
  it_correlation_id :: "string option"
  it_trace_id :: "string option"

text \<open>The store: a dictionary of records, or the table of a file.\<close>

datatype intake_ledger = Memory "((string \<times> string) \<times> intake_record) list" | Database "intake_row list"

type_synonym 'a intake_tx = "(intake_ledger, 'a) tx"

definition caller_dump :: "caller_context \<Rightarrow> jobj" where
  "caller_dump c = [(''trigger_type'', JStr (cc_trigger_type c)), (''triggered_by'', JStr (cc_triggered_by c)),
     (''caller_application'', JStr (cc_caller_application c)), (''tenant_id'', JStr (cc_tenant_id c)),
     (''region'', JStr (cc_region c)), (''booking_center_code'', jopt (cc_booking_center_code c)),
     (''role'', jopt (cc_role c)), (''correlation_id'', JStr (cc_correlation_id c)), (''trace_id'', JStr (cc_trace_id c))]"

definition build_intake_record ::
    "env \<Rightarrow> intake_request \<Rightarrow> string \<Rightarrow> string \<Rightarrow> string \<Rightarrow> dt option \<Rightarrow> string option \<Rightarrow> caller_context option
     \<Rightarrow> intake_record" where
  "build_intake_record e q tenant_id idempotency_key payload_fingerprint accepted_at correlation_id caller =
     (let accepted = (case accepted_at of None \<Rightarrow> utc_now e 0 | Some t \<Rightarrow> t);
          intake_id = intake_id_of e tenant_id idempotency_key payload_fingerprint;
          response = \<lparr>is_intake_id = intake_id, is_intake_status = ''accepted'',
            is_report_evidence_pack_id = iq_report_evidence_pack_id q,
            is_conversion_intent_id = iq_conversion_intent_id q, is_candidate_id = iq_candidate_id q,
            is_producer = ''lotus-idea'', is_owned_product = ''lotus-report:ClientReportEvidencePack:v1'',
            is_supportability_status = ''not_certified'', is_route_existence_proven = True,
            is_materialization_proven = False, is_creates_report_job = False, is_creates_rendered_output = False,
            is_creates_archive_record = False, is_grants_client_publication_authority = False,
            is_remaining_blockers = REPORT_IDEA_EVIDENCE_INTAKE_BLOCKERS,
            is_evidence_refs = REPORT_IDEA_EVIDENCE_INTAKE_EVIDENCE_REFS, is_accepted_at = accepted,
            is_correlation_id = correlation_id\<rparr> in
      \<lparr>ik_tenant_id = tenant_id, ik_intake_id = intake_id, ik_idempotency_key = idempotency_key,
       ik_payload_fingerprint = payload_fingerprint, ik_response = response,
       ik_caller_context = JObj (case caller of None \<Rightarrow> [] | Some c \<Rightarrow> caller_dump c),
       ik_accepted_at = accepted, ik_created_at = utc_now e 1\<rparr>)"

definition json_loads :: "context_column \<Rightarrow> json res" where
  "json_loads c = (case c of Context_json v \<Rightarrow> Inr v | _ \<Rightarrow> Inl (ValueError ''JSONDecodeError''))"

definition record_from_intake_row :: "intake_row \<Rightarrow> intake_record res" where
  "record_from_intake_row r =
     bindE (json_loads (it_caller_context r)) (\<lambda>context.
     Inr \<lparr>ik_tenant_id = it_tenant_id r, ik_intake_id = it_intake_id r, ik_idempotency_key = it_idempotency_key r,
       ik_payload_fingerprint = it_payload_fingerprint r, ik_response = it_response r, ik_caller_context = context,
       ik_accepted_at = stamp_dt (it_accepted_at r), ik_created_at = stamp_dt (it_created_at r)\<rparr>)"

section \<open>The ledger\<close>

definition row_key :: "intake_row \<Rightarrow> string \<times> string" where
  "row_key r = (it_tenant_id r, it_idempotency_key r)"

definition get_intake_record :: "string \<Rightarrow> string \<Rightarrow> intake_record option intake_tx" where
  "get_intake_record tenant_id idempotency_key L =
     (case L of
        Memory m \<Rightarrow> Inr (map_of m (tenant_id, idempotency_key), L)
      | Database rows \<Rightarrow>
          (case fetch (\<lambda>r. row_key r = (tenant_id, idempotency_key)) rows of
             None \<Rightarrow> Inr (None, L)
           | Some r \<Rightarrow> tx_lift (bindE (record_from_intake_row r) (\<lambda>x. Inr (Some x))) L))"

definition row_of_record :: "intake_record \<Rightarrow> intake_request \<Rightarrow> string option \<Rightarrow> string option \<Rightarrow> intake_row" where
  "row_of_record r q correlation_id trace_id =
     \<lparr>it_tenant_id = ik_tenant_id r, it_idempotency_key = ik_idempotency_key r, it_intake_id = ik_intake_id r,
      it_payload_fingerprint = ik_payload_fingerprint r, it_response = ik_response r,
      it_caller_context = Context_json (jsort (ik_caller_context r)),
      it_report_evidence_pack_id = iq_report_evidence_pack_id q, it_conversion_intent_id = iq_conversion_intent_id q,
      it_candidate_id = iq_candidate_id q, it_evidence_packet_id = iq_evidence_packet_id q,
      it_evidence_content_fingerprint = iq_evidence_content_fingerprint q, it_producer = ''lotus-idea'',
      it_supportability_status = ''not_certified'', it_accepted_at = dt_to_text (ik_accepted_at r),
      it_created_at = dt_to_text (ik_created_at r), it_correlation_id = correlation_id, it_trace_id = trace_id\<rparr>"

definition intake_conflict :: err where
  "intake_conflict = IdeaEvidenceIntakeConflictError ''idea evidence intake payload changed''"

text \<open>A dictionary entry is replaced in place; a row whose key is taken decides the race.\<close>

definition store_record ::
    "intake_record \<Rightarrow> intake_request \<Rightarrow> string option \<Rightarrow> string option \<Rightarrow> intake_record intake_tx" where
  "store_record r q correlation_id trace_id L =
     (let key = (ik_tenant_id r, ik_idempotency_key r) in
      case L of
        Memory m \<Rightarrow> Inr (r, Memory (if key \<in> fst ` set m
          then map (\<lambda>kv. if fst kv = key then (key, r) else kv) m else m @ [(key, r)]))
      | Database rows \<Rightarrow>
          if key \<in> row_key ` set rows
          then tx_bind (get_intake_record (ik_tenant_id r) (ik_idempotency_key r)) (\<lambda>existing.
            case existing of
              Some x \<Rightarrow> if ik_payload_fingerprint x = ik_payload_fingerprint r then tx_return x else tx_raise intake_conflict
            | None \<Rightarrow> tx_raise intake_conflict) L
          else Inr (r, Database (rows @ [row_of_record r q correlation_id trace_id])))"

definition accept ::
    "env \<Rightarrow> intake_request \<Rightarrow> string \<Rightarrow> string \<Rightarrow> dt option \<Rightarrow> string option \<Rightarrow> string option \<Rightarrow> caller_context option
     \<Rightarrow> intake_response intake_tx" where
  "accept e q tenant_id idempotency_key accepted_at correlation_id trace_id caller =
     (let payload_fingerprint = payload_fingerprint_of e q in
      tx_bind (get_intake_record tenant_id idempotency_key) (\<lambda>existing.
      case existing of
        Some x \<Rightarrow> if ik_payload_fingerprint x \<noteq> payload_fingerprint then tx_raise intake_conflict
                  else tx_return (ik_response x)
      | None \<Rightarrow>
          tx_bind (store_record (build_intake_record e q tenant_id idempotency_key payload_fingerprint accepted_at
            correlation_id caller) q correlation_id trace_id) (\<lambda>stored. tx_return (ik_response stored))))"

definition has_record :: "string \<Rightarrow> string \<Rightarrow> bool intake_tx" where
  "has_record tenant_id idempotency_key =
     tx_bind (get_intake_record tenant_id idempotency_key) (\<lambda>existing. tx_return (existing \<noteq> None))"

definition intake_snapshot :: "((string \<times> string) \<times> intake_record) list intake_tx" where
  "intake_snapshot L =
     (case L of Memory m \<Rightarrow> Inr (m, L)
      | Database rows \<Rightarrow> tx_lift (mapE (\<lambda>r. bindE (record_from_intake_row r) (\<lambda>x. Inr (row_key r, x)))
          (sort_key (\<lambda>r. (text_key (it_created_at r), row_key r)) rows)) L)"

end
