(* ===== verification/Idea_Materialization.thy ===== *)
theory Idea_Materialization
  imports Idea_Intake Ordering_Catalogue
begin

text \<open>
  Turning an evidence pack of lotus-idea into a report job, and recovering the receipt of a lost response:
  the request built from a pack (\<open>build_proof_pack_report_job_request_from_idea_evidence\<close> of
  \<open>idea_evidence_intake/service.py\<close>), \<open>recovery.py\<close>, and the handlers of \<open>routers/idea_evidence_intake.py\<close>, which use
  the intake ledger and the job ledger.

  The caller's headers are taken as the context they were admitted to. The capture and render services are
  arguments. A report input is what its Pydantic model dumps: the date and the instant of the request are taken
  as the date and the text of that dump. A response error is its status and code.
\<close>

section \<open>The job request of a pack\<close>

record materialization_request =
  mz_idea_evidence_pack :: intake_request
  mz_portfolio_id :: string
  mz_mandate_id :: "string option"
  mz_as_of_date :: date
  mz_output_formats :: "string list"
  mz_reporting_currency :: "string option"
  mz_options :: jobj

record recovery_identity =
  rd_report_evidence_pack_id :: string
  rd_conversion_intent_id :: string
  rd_candidate_id :: string
  rd_evidence_packet_id :: string
  rd_evidence_content_fingerprint :: string
  rd_portfolio_id :: string

definition SOURCE_CONTRACT :: string where "SOURCE_CONTRACT = ''lotus_idea_evidence_pack_report_input.v1''"
definition OWNED_PRODUCT :: string where "OWNED_PRODUCT = ''lotus-report:ClientReportEvidencePack:v1''"
definition IDEA_MATERIALIZATION_RECOVERY_IDENTITY_OPTION :: string where
  "IDEA_MATERIALIZATION_RECOVERY_IDENTITY_OPTION = ''idea_materialization_recovery_identity''"

definition recovery_identity_from_request :: "materialization_request \<Rightarrow> recovery_identity" where
  "recovery_identity_from_request q =
     (let pack = mz_idea_evidence_pack q in
      \<lparr>rd_report_evidence_pack_id = iq_report_evidence_pack_id pack,
       rd_conversion_intent_id = iq_conversion_intent_id pack, rd_candidate_id = iq_candidate_id pack,
       rd_evidence_packet_id = iq_evidence_packet_id pack,
       rd_evidence_content_fingerprint = iq_evidence_content_fingerprint pack, rd_portfolio_id = mz_portfolio_id q\<rparr>)"

definition identity_dump :: "recovery_identity \<Rightarrow> jobj" where
  "identity_dump i =
     [(''report_evidence_pack_id'', JStr (rd_report_evidence_pack_id i)),
      (''conversion_intent_id'', JStr (rd_conversion_intent_id i)), (''candidate_id'', JStr (rd_candidate_id i)),
      (''evidence_packet_id'', JStr (rd_evidence_packet_id i)),
      (''evidence_content_fingerprint'', JStr (rd_evidence_content_fingerprint i)),
      (''source_contract_version'', JStr SOURCE_CONTRACT), (''owned_product'', JStr OWNED_PRODUCT),
      (''portfolio_id'', JStr (rd_portfolio_id i))]"

definition source_summary_section :: "intake_request \<Rightarrow> nat \<Rightarrow> source_summary \<Rightarrow> json" where
  "source_summary_section pack index x = JObj
     [(''section_id'', JStr (''idea_source_'' @ int_text (int index))), (''section_type'', JStr ''IDEA_SOURCE_EVIDENCE''),
      (''state'', JStr ''READY''), (''title'', JStr (ss_source_system x @ '' evidence summary'')),
      (''summary'', JStr (ss_product_id x @ '' '' @ ss_product_version x @ '' as of '' @ ss_as_of_date x @ '': ''
         @ ss_data_quality_status x @ '', '' @ ss_freshness x @ ''.'')),
      (''reason_codes'', JList (map JStr (iq_reason_codes pack))), (''facts'', JObj []), (''metrics'', JObj []),
      (''evidence_refs'', JList [JObj [(''source_system'', JStr (ss_source_system x)), (''product_id'', JStr (ss_product_id x)),
         (''product_version'', JStr (ss_product_version x)), (''as_of_date'', JStr (ss_as_of_date x))]]),
      (''source_refs'', JList [JObj [(''source_system'', JStr (ss_source_system x)), (''product_id'', JStr (ss_product_id x))]]),
      (''content_hash'', JStr (iq_evidence_content_fingerprint pack))]"

definition source_summary_sections :: "intake_request \<Rightarrow> json" where
  "source_summary_sections pack = JList (map (\<lambda>(i, x). source_summary_section pack i x) (enumerate 1 (iq_source_summaries pack)))"

definition markdown_summary :: "intake_request \<Rightarrow> string" where
  "markdown_summary pack =
     ''# Idea Evidence Pack'' @ [CHR 0x0A, CHR 0x0A]
     @ ''- Report evidence pack: '' @ iq_report_evidence_pack_id pack @ [CHR 0x0A]
     @ ''- Evidence packet: '' @ iq_evidence_packet_id pack @ [CHR 0x0A]
     @ ''- Source summary count: '' @ int_text (int (length (iq_source_summaries pack))) @ [CHR 0x0A]
     @ ''- Reason codes: '' @ py_join '', '' (iq_reason_codes pack) @ [CHR 0x0A]
     @ ''- Client publication authority: blocked'' @ [CHR 0x0A]"

definition proof_pack_input :: "materialization_request \<Rightarrow> jobj" where
  "proof_pack_input q =
     (let pack = mz_idea_evidence_pack q; fingerprint = JStr (iq_evidence_content_fingerprint pack) in
      [(''contract_version'', JStr ''1.0''), (''source_contract_version'', JStr SOURCE_CONTRACT),
       (''proof_pack_id'', JStr (iq_report_evidence_pack_id pack)), (''proof_pack_content_hash'', fingerprint),
       (''portfolio_id'', JStr (mz_portfolio_id q)),
       (''mandate_id'', JStr (case mz_mandate_id q of None \<Rightarrow> ''not_available'' | Some m \<Rightarrow> if m = [] then ''not_available'' else m)),
       (''as_of_date'', JStr (date_isoformat (mz_as_of_date q))), (''generated_at'', JStr (iq_requested_at pack)),
       (''report_title'', JStr (''Idea Evidence Pack - '' @ iq_report_evidence_pack_id pack)),
       (''report_audience'', JList [JStr ''advisor'', JStr ''investment_control'', JStr ''audit'']),
       (''state'', JStr ''READY_FOR_REPORT_MATERIALIZATION''),
       (''decision_summary'', JObj [(''recommended_action'', JStr ''review_opportunity_evidence''),
          (''rationale'', JStr (py_join '', '' (iq_reason_codes pack)))]),
       (''supportability'', JObj [(''status'', JStr ''READY''), (''reason_codes'', JList (map JStr (iq_reason_codes pack)))]),
       (''sections'', source_summary_sections pack), (''markdown_summary'', JStr (markdown_summary pack)),
       (''source_hashes'', JObj [(''idea_evidence_packet'', fingerprint)]), (''redaction_policy'', JStr ''NO_RAW_PAYLOADS''),
       (''retention_policy'', JStr (iq_retention_policy_ref pack)),
       (''evidence_ref'', JObj [(''source_system'', JStr ''lotus-idea''),
          (''source_type'', JStr ''LOTUS_IDEA_EVIDENCE_PACK_REPORT_INPUT''), (''ref_type'', JNull),
          (''source_id'', JStr (iq_report_evidence_pack_id pack @ '':lotus_idea_evidence_pack_report_input'')),
          (''ref_id'', JNull), (''content_hash'', fingerprint)]),
       (''content_hash'', fingerprint),
       (''source_lineage'', JList [JObj [(''source_system'', JStr ''lotus-idea''), (''source_type'', JStr ''IdeaEvidencePacket''),
          (''source_id'', JStr (iq_evidence_packet_id pack)), (''content_hash'', fingerprint)]]),
       (''client_publication_authority_granted'', JBool False)])"

definition retention_option :: "retention_policy \<Rightarrow> json" where
  "retention_option p = JObj [(''policy_ref'', JStr (rt_policy_ref p)), (''policy_version'', JStr (rt_policy_version p)),
     (''retention_start_event'', JStr (rt_retention_start_event p)),
     (''retention_duration_days'', JInt (rt_retention_duration_days p)),
     (''approval_authority'', JStr (rt_approval_authority p)), (''residency_region'', JStr (rt_residency_region p)),
     (''legal_hold_active'', JBool (rt_legal_hold_active p)), (''erasure_action'', JStr (rt_erasure_action p)),
     (''archive_handoff_policy'', JStr (rt_archive_handoff_policy p))]"

text \<open>A caller's value under the reserved key is replaced.\<close>

definition build_proof_pack_report_job_request ::
    "materialization_request \<Rightarrow> retention_policy option \<Rightarrow> managed_request" where
  "build_proof_pack_report_job_request q policy =
     (let options = dset (mz_options q) IDEA_MATERIALIZATION_RECOVERY_IDENTITY_OPTION
            (JObj (identity_dump (recovery_identity_from_request q))) in
      \<lparr>mq_key = mz_portfolio_id q, mq_input = proof_pack_input q, mq_output_formats = mz_output_formats q,
       mq_reporting_currency = mz_reporting_currency q,
       mq_options = (case policy of None \<Rightarrow> options | Some p \<Rightarrow> dset options ''retention_policy'' (retention_option p))\<rparr>)"

section \<open>Recovery\<close>

definition IDEA_EVIDENCE_MATERIALIZATION_REMAINING_BLOCKERS :: "string list" where
  "IDEA_EVIDENCE_MATERIALIZATION_REMAINING_BLOCKERS =
     [''client_publication_authority_blocked'', ''supported_feature_promotion_missing'']"

definition IDEA_EVIDENCE_MATERIALIZATION_EVIDENCE_REFS :: "string list" where
  "IDEA_EVIDENCE_MATERIALIZATION_EVIDENCE_REFS = [''POST /reports/idea-evidence-packs/materializations'',
     ''GET /reports/idea-evidence-packs/materializations'',
     ''contracts/idea-evidence-materialization/lotus-report-idea-evidence-pack-materialization.v1.json'',
     ''src/app/idea_evidence_intake/recovery.py'', ''src/app/routers/idea_evidence_intake.py'',
     ''src/app/reporting_lineage/capture_service.py'', ''src/app/reporting_render/package_builder.py'',
     ''tests/unit/test_idea_evidence_materialization_contract.py'', ''tests/unit/test_idea_evidence_recovery.py'',
     ''tests/integration/test_idea_evidence_intake_api.py'']"

text \<open>The response; the package identity is that of the pack without the portfolio.\<close>

record materialization_response =
  mp_report_request_id :: string
  mp_report_job_id :: string
  mp_status :: job_status
  mp_source_event_version :: nat
  mp_status_url :: string
  mp_idempotency_key :: string
  mp_package_identity :: jobj
  mp_creates_rendered_output :: bool
  mp_creates_archive_record :: bool
  mp_remaining_blockers :: "string list"
  mp_evidence_refs :: "string list"
  mp_render_job_id :: "string option"
  mp_archive_document_id :: "string option"

definition identity_conflict :: "string \<Rightarrow> err" where
  "identity_conflict reason = IdeaMaterializationIdentityConflictError (''idea_materialization_'' @ reason)"

text \<open>The validation of a stored identity: the fields, their lengths and the pattern of the fingerprint.\<close>

definition fingerprint_char :: "char \<Rightarrow> bool" where
  "fingerprint_char c \<longleftrightarrow> (CHR ''a'' \<le> c \<and> c \<le> CHR ''z'') \<or> (CHR ''A'' \<le> c \<and> c \<le> CHR ''Z'')
     \<or> (CHR ''0'' \<le> c \<and> c \<le> CHR ''9'') \<or> c \<in> {CHR ''_'', CHR ''.'', CHR '':'', CHR ''-''}"

definition valid_fingerprint :: "string \<Rightarrow> bool" where
  "valid_fingerprint s \<longleftrightarrow> py_startswith s ''sha256:'' \<and> drop 7 s \<noteq> [] \<and> list_all fingerprint_char (drop 7 s)"

definition identity_field :: "jobj \<Rightarrow> string \<Rightarrow> string option" where
  "identity_field d k = (case dget d k of Some (JStr t) \<Rightarrow> Some t | _ \<Rightarrow> None)"

definition valid_identity :: "recovery_identity \<Rightarrow> bool" where
  "valid_identity i \<longleftrightarrow> 3 \<le> length (rd_report_evidence_pack_id i) \<and> 3 \<le> length (rd_conversion_intent_id i)
     \<and> 3 \<le> length (rd_candidate_id i) \<and> 3 \<le> length (rd_evidence_packet_id i)
     \<and> valid_fingerprint (rd_evidence_content_fingerprint i) \<and> 3 \<le> length (rd_portfolio_id i)"

definition validate_identity :: "json \<Rightarrow> recovery_identity option" where
  "validate_identity v =
     (case v of
        JObj d \<Rightarrow>
          (case (identity_field d ''report_evidence_pack_id'', identity_field d ''conversion_intent_id'', identity_field d ''candidate_id'',
              identity_field d ''evidence_packet_id'', identity_field d ''evidence_content_fingerprint'', identity_field d ''portfolio_id'') of
             (Some a, Some b, Some c, Some p, Some f, Some t) \<Rightarrow>
               let i = \<lparr>rd_report_evidence_pack_id = a, rd_conversion_intent_id = b, rd_candidate_id = c,
                     rd_evidence_packet_id = p, rd_evidence_content_fingerprint = f, rd_portfolio_id = t\<rparr> in
               if valid_identity i \<and> set (dkeys d) \<subseteq> set (dkeys (identity_dump i))
                  \<and> dget d ''source_contract_version'' \<in> {None, Some (JStr SOURCE_CONTRACT)}
                  \<and> dget d ''owned_product'' \<in> {None, Some (JStr OWNED_PRODUCT)} then Some i else None
           | _ \<Rightarrow> None)
      | _ \<Rightarrow> None)"

definition stored_recovery_identity :: "job_record \<Rightarrow> recovery_identity res" where
  "stored_recovery_identity job =
     (case jget (lr_options job) IDEA_MATERIALIZATION_RECOVERY_IDENTITY_OPTION of
        JNull \<Rightarrow> Inl (IdeaMaterializationRecoveryIdentityMissingError ''idea_materialization_recovery_identity_missing'')
      | raw \<Rightarrow> (case validate_identity raw of
          Some i \<Rightarrow> Inr i | None \<Rightarrow> Inl (identity_conflict ''identity_invalid'')))"

definition validate_record_binding :: "job_record \<Rightarrow> recovery_identity \<Rightarrow> unit res" where
  "validate_record_binding job i =
     (let proof_pack = (case jget (lr_options job) ''proof_pack_report_input'' of JObj d \<Rightarrow> Some d | _ \<Rightarrow> None) in
      require (lr_report_type job = ''proof_pack'' \<and> lr_caller_application job = ''lotus-idea''
        \<and> jget (lr_portfolio_scope job) ''portfolio_ids'' = JList [JStr (rd_portfolio_id i)]
        \<and> (case proof_pack of None \<Rightarrow> False | Some d \<Rightarrow>
             jget d ''proof_pack_id'' = JStr (rd_report_evidence_pack_id i)
             \<and> jget d ''proof_pack_content_hash'' = JStr (rd_evidence_content_fingerprint i)
             \<and> jget d ''source_contract_version'' = JStr SOURCE_CONTRACT))
        (identity_conflict ''record_inconsistent''))"

definition receipt :: "job_record \<Rightarrow> nat \<Rightarrow> recovery_identity \<Rightarrow> string \<Rightarrow> materialization_response" where
  "receipt job version i idempotency_key =
     \<lparr>mp_report_request_id = lr_request_id job, mp_report_job_id = lr_job_id job, mp_status = lr_status job,
      mp_source_event_version = version, mp_status_url = ''/reports/jobs/'' @ lr_job_id job,
      mp_idempotency_key = idempotency_key,
      mp_package_identity = filter (\<lambda>kv. fst kv \<noteq> ''portfolio_id'') (identity_dump i),
      mp_creates_rendered_output = (lr_render_job_id job \<noteq> None),
      mp_creates_archive_record = (lr_archive_document_id job \<noteq> None),
      mp_remaining_blockers = IDEA_EVIDENCE_MATERIALIZATION_REMAINING_BLOCKERS,
      mp_evidence_refs = IDEA_EVIDENCE_MATERIALIZATION_EVIDENCE_REFS, mp_render_job_id = lr_render_job_id job,
      mp_archive_document_id = lr_archive_document_id job\<rparr>"

definition materialization_response_of ::
    "job_record \<Rightarrow> nat \<Rightarrow> recovery_identity \<Rightarrow> string \<Rightarrow> materialization_response res" where
  "materialization_response_of job version i idempotency_key =
     bindE (validate_record_binding job i) (\<lambda>_.
     bindE (require (0 < version) (ValidationError ''Input should be greater than 0'')) (\<lambda>_.
     Inr (receipt job version i idempotency_key)))"

definition recovery_filters :: "string \<Rightarrow> string \<Rightarrow> list_filters" where
  "recovery_filters tenant_id idempotency_key =
     \<lparr>lf_tenant_id = Some tenant_id, lf_region = None, lf_status = None, lf_report_type = None, lf_portfolio_id = None,
      lf_as_of_date = None, lf_idempotency_key = Some idempotency_key, lf_correlation_id = None,
      lf_created_from = None, lf_created_to = None, lf_limit = 2\<rparr>"

definition read_idea_materialization_owner_snapshot :: "ledger \<Rightarrow> string \<Rightarrow> string \<Rightarrow> (job_record \<times> nat) res" where
  "read_idea_materialization_owner_snapshot s tenant_id idempotency_key =
     bindE (list_job_owner_snapshots s (recovery_filters tenant_id idempotency_key)) (\<lambda>snapshots.
     case snapshots of
       [] \<Rightarrow> Inl (IdeaMaterializationNotFoundError ''idea_materialization_not_found'')
     | [x] \<Rightarrow> Inr x
     | _ \<Rightarrow> Inl (identity_conflict ''ambiguous''))"

definition recover_idea_materialization ::
    "ledger \<Rightarrow> string \<Rightarrow> string \<Rightarrow> recovery_identity \<Rightarrow> materialization_response res" where
  "recover_idea_materialization s tenant_id idempotency_key expected =
     bindE (read_idea_materialization_owner_snapshot s tenant_id idempotency_key) (\<lambda>(job, version).
     bindE (stored_recovery_identity job) (\<lambda>stored.
     bindE (require (stored = expected) (identity_conflict ''identity_changed'')) (\<lambda>_.
     materialization_response_of job version stored idempotency_key)))"

section \<open>The handlers\<close>

record idea_world =
  iw_jobs :: ledger
  iw_intake :: intake_ledger

type_synonym 'a idea_io = "(idea_world, 'a) action"

definition on_job_ledger :: "'a io \<Rightarrow> 'a idea_io" where
  "on_job_ledger m w = (case m (iw_jobs w) of (r, s) \<Rightarrow> (r, w\<lparr>iw_jobs := s\<rparr>))"

definition on_intake :: "'a intake_tx \<Rightarrow> 'a idea_io" where
  "on_intake m w = (case io_tx m (iw_intake w) of (r, s) \<Rightarrow> (r, w\<lparr>iw_intake := s\<rparr>))"

text \<open>\<open>except\<close> clauses that turn an error into another one.\<close>

definition io_except :: "(err \<Rightarrow> err) \<Rightarrow> ('s, 'a) action \<Rightarrow> ('s, 'a) action" where
  "io_except h m s = (case m s of (Raised x, s') \<Rightarrow> (Raised (h x), s') | r \<Rightarrow> r)"

definition retention_http_error :: "err \<Rightarrow> err" where
  "retention_http_error x = (case x of RetentionPolicyError code _ \<Rightarrow> HTTPException 422 code | _ \<Rightarrow> x)"

definition ordering_http_error :: "err \<Rightarrow> err" where
  "ordering_http_error x = (case x of ReportOrderingSubmissionError code _ \<Rightarrow> HTTPException 422 code | _ \<Rightarrow> x)"

definition identity_http_error :: "err \<Rightarrow> err" where
  "identity_http_error x = (case x of
       IdeaMaterializationIdentityConflictError _ \<Rightarrow> HTTPException 409 ''idea_materialization_identity_conflict''
     | IdeaMaterializationRecoveryIdentityMissingError _ \<Rightarrow> HTTPException 409 ''idea_materialization_identity_conflict''
     | _ \<Rightarrow> x)"

definition creation_http_error :: "err \<Rightarrow> err" where
  "creation_http_error x = (case x of
       IdeaEvidenceIntakeConflictError _ \<Rightarrow> HTTPException 409 ''idempotency_conflict''
     | IdempotencyConflictError _ \<Rightarrow> HTTPException 409 ''idempotency_conflict''
     | MissingIdempotencyKeyError _ \<Rightarrow> HTTPException 400 ''missing_idempotency_key'' | _ \<Rightarrow> x)"

definition intake_http_error :: "err \<Rightarrow> err" where
  "intake_http_error x = (case x of
       IdeaEvidenceIntakeConflictError _ \<Rightarrow> HTTPException 409 ''idea_evidence_intake_conflict'' | _ \<Rightarrow> x)"

definition accept_idea_evidence_pack ::
    "(string \<times> retention_policy) list \<Rightarrow> env \<Rightarrow> intake_request \<Rightarrow> caller_context \<Rightarrow> string option \<Rightarrow> string option \<Rightarrow> string option
     \<Rightarrow> intake_response idea_io" where
  "accept_idea_evidence_pack policies e q caller idempotency_key correlation_id trace_id =
     (if py_blank idempotency_key then io_raise (HTTPException 400 ''missing_idempotency_key'')
      else
        io_bind (io_except retention_http_error (io_lift (resolve_retention_policy policies (iq_retention_policy_ref q)
          (cc_tenant_id caller) ''lotus-idea'' (utc_now e 0)))) (\<lambda>_.
        io_except intake_http_error (on_intake (accept (sub_env 1 e) q (cc_tenant_id caller) (py_strip (the idempotency_key)) None
          correlation_id trace_id (Some caller)))))"

definition refuse_unverifiable_legacy_replay ::
    "string \<Rightarrow> materialization_request \<Rightarrow> string \<Rightarrow> unit idea_io" where
  "refuse_unverifiable_legacy_replay tenant_id q idempotency_key =
     io_bind (on_intake (has_record tenant_id idempotency_key)) (\<lambda>known.
     if known then io_return ()
     else (\<lambda>w. (case recover_idea_materialization (iw_jobs w) tenant_id idempotency_key (recovery_identity_from_request q) of
         Inl (IdeaMaterializationNotFoundError _) \<Rightarrow> io_return ()
       | Inl (IdeaMaterializationRecoveryIdentityMissingError _) \<Rightarrow> io_raise (identity_conflict ''legacy_replay_unverifiable'')
       | Inl x \<Rightarrow> io_raise x
       | Inr _ \<Rightarrow> io_return ()) w))"

definition materialization_receipt ::
    "job_record \<Rightarrow> materialization_request \<Rightarrow> string \<Rightarrow> ledger \<Rightarrow> materialization_response res" where
  "materialization_receipt job q idempotency_key s =
     (let expected = recovery_identity_from_request q in
      case recover_idea_materialization s (lr_tenant_id job) idempotency_key expected of
        Inl (IdeaMaterializationRecoveryIdentityMissingError _) \<Rightarrow>
          bindE (read_idea_materialization_owner_snapshot s (lr_tenant_id job) idempotency_key) (\<lambda>(record, version).
          bindE (require (lr_job_id record = lr_job_id job) (identity_conflict ''replay_record_changed'')) (\<lambda>_.
          materialization_response_of record version expected idempotency_key))
      | r \<Rightarrow> r)"

definition materialize_idea_evidence_pack ::
    "(string \<times> retention_policy) list \<Rightarrow> (env \<Rightarrow> job_record \<Rightarrow> job_record io) \<Rightarrow> (env \<Rightarrow> job_record \<Rightarrow> job_record io)
     \<Rightarrow> deployment \<Rightarrow> env \<Rightarrow> materialization_request \<Rightarrow> caller_context \<Rightarrow> string option \<Rightarrow> string option \<Rightarrow> string option
     \<Rightarrow> materialization_response idea_io" where
  "materialize_idea_evidence_pack policies capture_for_job render_for_job dp e q caller idempotency_key correlation_id trace_id =
     (if cc_caller_application caller \<noteq> ''lotus-idea'' then io_raise (HTTPException 403 ''idea_materialization_forbidden'')
      else if py_blank idempotency_key then io_raise (HTTPException 400 ''missing_idempotency_key'')
      else
        let key = py_strip (the idempotency_key); pack = mz_idea_evidence_pack q; tenant_id = cc_tenant_id caller in
        io_bind (io_except ordering_http_error (io_lift (validate_report_ordering_submission FAMILY_DEFINITIONS ''proof_pack''
          ''source_workflow'' (mz_output_formats q) (mz_options q)))) (\<lambda>_.
        io_bind (io_except retention_http_error (io_lift (resolve_retention_policy policies (iq_retention_policy_ref pack)
          tenant_id ''lotus-idea'' (utc_now e 0)))) (\<lambda>policy.
        io_bind (io_except identity_http_error (refuse_unverifiable_legacy_replay tenant_id q key)) (\<lambda>_.
        io_bind (io_except creation_http_error
          (io_bind (on_intake (accept (sub_env 1 e) pack tenant_id key None correlation_id trace_id (Some caller))) (\<lambda>_.
           on_job_ledger (io_tx (create_proof_pack_report_job dp (sub_env 2 e)
             (build_proof_pack_report_job_request q (Some policy)) caller (Some key)))))) (\<lambda>job.
        io_except identity_http_error
          (io_bind (if lr_status job = Accepted then on_job_ledger (capture_for_job (sub_env 3 e) job) else io_return job) (\<lambda>job.
           io_bind (if lr_status job = Data_ready \<and> ''pdf'' \<in> set (mz_output_formats q)
             then on_job_ledger (render_for_job (sub_env 4 e) job) else io_return job) (\<lambda>job.
           (\<lambda>w. io_lift (materialization_receipt job q (lr_idempotency_key job) (iw_jobs w)) w)))))))))"

definition recover_idea_evidence_pack_materialization ::
    "ledger \<Rightarrow> caller_context \<Rightarrow> string list \<Rightarrow> string \<Rightarrow> recovery_identity \<Rightarrow> materialization_response res" where
  "recover_idea_evidence_pack_materialization s caller capabilities idempotency_key expected =
     (if cc_caller_application caller \<noteq> ''lotus-idea''
         \<or> ''report.idea-materialization.recover'' \<notin> set (filter (\<lambda>c. c \<noteq> []) (map py_strip capabilities))
      then Inl (HTTPException 403 ''idea_materialization_recovery_forbidden'')
      else case recover_idea_materialization s (cc_tenant_id caller) idempotency_key expected of
        Inl (IdeaMaterializationNotFoundError _) \<Rightarrow> Inl (HTTPException 404 ''idea_materialization_not_found'')
      | Inl x \<Rightarrow> Inl (identity_http_error x)
      | Inr r \<Rightarrow> Inr r)"

end
