(* ===== verification/Idea_Transfer.thy ===== *)
theory Idea_Transfer
  imports Idea_Intake
begin

text \<open>
  Moving an intake ledger: the upgrade of a file from before the tenant column
  (\<open>_refuse_unattributable_rows\<close> and \<open>_migrate_to_tenant_identity\<close> of \<open>idea_evidence_intake/service.py\<close>), and the transfer of
  a file into PostgreSQL (\<open>transfer.py\<close>).

  A row of the target holds the parsed context with its keys in no particular order (sorted here) and instants
  in place of texts. The transfer commits every row on its own, so it is an action on the target table, and an
  interrupted transfer leaves the rows of a prefix.
\<close>

section \<open>Upgrade of an old file\<close>

text \<open>\<open>json_type(context, '$.tenant_id')\<close>, SQL \<open>NULL\<close> as \<open>None\<close>.\<close>

fun sqlite_json_type :: "json \<Rightarrow> string" where
  "sqlite_json_type JNull = ''null''"
| "sqlite_json_type (JBool b) = (if b then ''true'' else ''false'')"
| "sqlite_json_type (JInt _) = ''integer''"
| "sqlite_json_type (JFloat _) = ''real''"
| "sqlite_json_type (JStr _) = ''text''"
| "sqlite_json_type (JList _) = ''array''"
| "sqlite_json_type (JObj _) = ''object''"

definition context_tenant :: "json \<Rightarrow> json option" where
  "context_tenant context = (case context of JObj d \<Rightarrow> dget d ''tenant_id'' | _ \<Rightarrow> None)"

datatype attribution = Malformed | Wrong_type string | Absent | Owned string

definition attribution_of :: "context_column \<Rightarrow> attribution" where
  "attribution_of c =
     (case c of
        Context_json context \<Rightarrow>
          (case context_tenant context of
             None \<Rightarrow> Absent
           | Some JNull \<Rightarrow> Absent
           | Some (JStr t) \<Rightarrow> if py_strip t = [] then Absent else Owned t
           | Some v \<Rightarrow> Wrong_type (sqlite_json_type v))
      | _ \<Rightarrow> Malformed)"

definition DIAGNOSTIC_SAMPLE :: nat where "DIAGNOSTIC_SAMPLE = 5"

definition sample_keys :: "string list \<Rightarrow> string" where
  "sample_keys keys = py_join '', '' (map repr_string (take DIAGNOSTIC_SAMPLE keys))"

abbreviation count_text :: "'x list \<Rightarrow> string" where
  "count_text xs \<equiv> int_text (int (length xs))"

definition refuse_unattributable_rows :: "intake_row list \<Rightarrow> unit res" where
  "refuse_unattributable_rows rows =
     (let found = map (\<lambda>r. (it_idempotency_key r, attribution_of (it_caller_context r))) (sort_key it_idempotency_key rows);
          malformed = map fst (filter (\<lambda>(k, a). a = Malformed) found);
          wrong_type = List.map_filter (\<lambda>(k, a). case a of Wrong_type t \<Rightarrow> Some (k, t) | _ \<Rightarrow> None) found;
          missing = map fst (filter (\<lambda>(k, a). a = Absent) found) in
      if malformed = [] \<and> wrong_type = [] \<and> missing = [] then Inr ()
      else Inl (IdeaEvidenceIntakeMigrationError (py_join ''; ''
        ((if malformed \<noteq> [] then [count_text malformed @ '' row(s) hold a caller_context_json that is not valid JSON ''
            @ ''(for example '' @ sample_keys malformed @ '')''] else [])
         @ (if wrong_type \<noteq> [] then [count_text wrong_type @ '' row(s) hold a tenant that is not a JSON string ''
            @ ''(for example '' @ py_join '', '' (map (\<lambda>(k, t). repr_string k @ '' (JSON '' @ t @ '')'')
                (take DIAGNOSTIC_SAMPLE wrong_type)) @ '')''] else [])
         @ (if missing \<noteq> [] then [count_text missing @ '' row(s) have no tenant in caller_context_json ''
            @ ''(for example '' @ sample_keys missing @ '')''] else []))
        @ ''. Attribute them deliberately before starting with the tenant-scoped schema; ''
        @ ''this migration will not default, coerce or discard them (report#344, report#360). ''
        @ ''The retained rows are untouched and the original table is intact.'')))"

text \<open>SQL \<open>TRIM\<close> removes blanks only, unlike \<open>str.strip\<close>.\<close>

definition sql_trim :: "string \<Rightarrow> string" where
  "sql_trim s = rev (dropWhile (\<lambda>c. c = CHR '' '') (rev (dropWhile (\<lambda>c. c = CHR '' '') s)))"

definition tenant_column :: "intake_row \<Rightarrow> string" where
  "tenant_column r = (case attribution_of (it_caller_context r) of Owned t \<Rightarrow> sql_trim t | _ \<Rightarrow> [])"

text \<open>
  The rows of the old table (their tenant column is not read) become the rows of the new one, in one
  transaction: a refused upgrade leaves the file as it was.
\<close>

definition migrate_to_tenant_identity :: "intake_row list \<Rightarrow> intake_row list res" where
  "migrate_to_tenant_identity old =
     bindE (refuse_unattributable_rows old) (\<lambda>_.
     let new = map (\<lambda>r. r\<lparr>it_tenant_id := tenant_column r\<rparr>) old in
     bindE (require (distinct (map row_key new)) (IntegrityError ''UNIQUE'')) (\<lambda>_.
     bindE (require (length new = length old) (IdeaEvidenceIntakeMigrationError
       (''carried '' @ count_text new @ '' of '' @ count_text old @ '' intake row(s); refusing to drop the original''))) (\<lambda>_.
     Inr new)))"

section \<open>Source rows\<close>

text \<open>A row of the source file; \<open>None\<close> when it has no tenant column.\<close>

type_synonym source_row = "string option \<times> intake_row"

definition tenant_from_context :: "intake_row \<Rightarrow> string res" where
  "tenant_from_context row =
     (let key = repr_string (it_idempotency_key row);
          no_tenant = IntakeTransferError (key @ '': no tenant in caller_context_json. ''
            @ ''Attribute this row deliberately before transferring it; the transfer ''
            @ ''will not default or discard it (report#344).'') in
      case it_caller_context row of
        Context_json (JObj d) \<Rightarrow>
          (case dget d ''tenant_id'' of
             Some (JStr t) \<Rightarrow> if py_strip t = [] then Inl no_tenant else Inr (py_strip t)
           | _ \<Rightarrow> Inl no_tenant)
      | Context_json _ \<Rightarrow> Inl (PyAttributeError ''get'')
      | Context_malformed \<Rightarrow> Inl (IntakeTransferError (key @ '': caller_context_json is not valid JSON''))
      | Context_blank \<Rightarrow> Inl no_tenant)"

definition with_tenant :: "source_row \<Rightarrow> intake_row res" where
  "with_tenant src =
     (case src of (existing, row) \<Rightarrow>
      if \<not> py_blank existing then Inr (row\<lparr>it_tenant_id := py_strip (the existing)\<rparr>)
      else bindE (tenant_from_context row) (\<lambda>t. Inr (row\<lparr>it_tenant_id := t\<rparr>)))"

definition read_source_rows :: "source_row list option \<Rightarrow> string \<Rightarrow> intake_row list res" where
  "read_source_rows file path =
     (case file of
        None \<Rightarrow> Inl (IntakeTransferError (''intake ledger file not found: '' @ path))
      | Some rows \<Rightarrow> mapE with_tenant (sort_key (\<lambda>(t, r). (text_key (it_created_at r), it_idempotency_key r)) rows))"

section \<open>The transfer\<close>

text \<open>The row as PostgreSQL keeps it.\<close>

definition insert_parameters :: "intake_row \<Rightarrow> intake_row res" where
  "insert_parameters row =
     bindE (json_loads (it_caller_context row)) (\<lambda>context.
     Inr (row\<lparr>it_caller_context := Context_json (jsort context),
       it_accepted_at := dt_to_text (stamp_dt (it_accepted_at row)), it_created_at := dt_to_text (stamp_dt (it_created_at row))\<rparr>))"

definition response_dump :: "intake_response \<Rightarrow> json" where
  "response_dump x = JObj [(''intake_id'', JStr (is_intake_id x)), (''intake_status'', JStr (is_intake_status x)),
     (''report_evidence_pack_id'', JStr (is_report_evidence_pack_id x)),
     (''conversion_intent_id'', JStr (is_conversion_intent_id x)), (''candidate_id'', JStr (is_candidate_id x)),
     (''producer'', JStr (is_producer x)), (''owned_product'', JStr (is_owned_product x)),
     (''supportability_status'', JStr (is_supportability_status x)),
     (''route_existence_proven'', JBool (is_route_existence_proven x)),
     (''materialization_proven'', JBool (is_materialization_proven x)),
     (''creates_report_job'', JBool (is_creates_report_job x)),
     (''creates_rendered_output'', JBool (is_creates_rendered_output x)),
     (''creates_archive_record'', JBool (is_creates_archive_record x)),
     (''grants_client_publication_authority'', JBool (is_grants_client_publication_authority x)),
     (''remaining_blockers'', JList (map JStr (is_remaining_blockers x))),
     (''evidence_refs'', JList (map JStr (is_evidence_refs x))),
     (''accepted_at_utc'', JStr (stamp_text (Zulu (is_accepted_at x)))), (''correlation_id'', jopt (is_correlation_id x))]"

text \<open>The columns the verification compares, in order; JSON columns by value.\<close>

definition verified_columns :: "intake_row \<Rightarrow> (string \<times> json) list res" where
  "verified_columns r =
     bindE (json_loads (it_caller_context r)) (\<lambda>context.
     Inr [(''tenant_id'', JStr (it_tenant_id r)), (''idempotency_key'', JStr (it_idempotency_key r)),
      (''intake_id'', JStr (it_intake_id r)), (''payload_fingerprint'', JStr (it_payload_fingerprint r)),
      (''response_json'', jsort (response_dump (it_response r))), (''caller_context_json'', jsort context),
      (''report_evidence_pack_id'', JStr (it_report_evidence_pack_id r)),
      (''conversion_intent_id'', JStr (it_conversion_intent_id r)), (''candidate_id'', JStr (it_candidate_id r)),
      (''evidence_packet_id'', JStr (it_evidence_packet_id r)),
      (''evidence_content_fingerprint'', JStr (it_evidence_content_fingerprint r)), (''producer'', JStr (it_producer r)),
      (''supportability_status'', JStr (it_supportability_status r)), (''correlation_id'', jopt (it_correlation_id r)),
      (''trace_id'', jopt (it_trace_id r))])"

fun first_difference :: "string \<Rightarrow> (string \<times> json) list \<Rightarrow> (string \<times> json) list \<Rightarrow> string" where
  "first_difference key ((column, v) # vs) ((_, w) # ws) =
     (if v = w then first_difference key vs ws
      else if column \<in> {''response_json'', ''caller_context_json''} then key @ '': '' @ column @ '' differs''
      else key @ '': '' @ column @ '' differs (source='' @ py_repr v @ '' target='' @ py_repr w @ '')'')"
| "first_difference key _ _ = []"

definition verify_row :: "intake_row list \<Rightarrow> intake_row \<Rightarrow> string res" where
  "verify_row tgt row =
     (let key = it_idempotency_key row in
      case fetch (\<lambda>r. row_key r = row_key row) tgt of
        None \<Rightarrow> Inr (it_tenant_id row @ ''/'' @ key @ '': missing from target'')
      | Some r \<Rightarrow>
          bindE (verified_columns row) (\<lambda>vs.
          bindE (verified_columns r) (\<lambda>ws.
          let difference = first_difference key vs ws in
          Inr (if difference \<noteq> [] then difference
               else if stamp_dt (it_accepted_at row) \<noteq> stamp_dt (it_accepted_at r) then key @ '': accepted_at_utc differs as an instant''
               else if stamp_dt (it_created_at row) \<noteq> stamp_dt (it_created_at r) then key @ '': created_at_utc differs as an instant''
               else []))))"

record transfer_report =
  tp_source_records :: nat
  tp_inserted :: nat
  tp_already_present :: nat
  tp_verified :: nat
  tp_mismatches :: "string list"

definition transfer_complete :: "transfer_report \<Rightarrow> bool" where
  "transfer_complete r \<longleftrightarrow> tp_mismatches r = [] \<and> tp_verified r = tp_source_records r"

definition transfer_summary :: "transfer_report \<Rightarrow> string" where
  "transfer_summary r = ''source='' @ int_text (int (tp_source_records r)) @ '' inserted='' @ int_text (int (tp_inserted r))
     @ '' already_present='' @ int_text (int (tp_already_present r)) @ '' verified='' @ int_text (int (tp_verified r))
     @ '' mismatches='' @ count_text (tp_mismatches r)"

text \<open>\<open>INSERT ... ON CONFLICT (tenant_id, idempotency_key) DO NOTHING\<close>: the row count.\<close>

definition insert_target :: "intake_row \<Rightarrow> (intake_row list, bool) tx" where
  "insert_target row tgt =
     (case insert_parameters row of Inl x \<Rightarrow> Inl x
      | Inr r \<Rightarrow> if row_key r \<in> row_key ` set tgt then Inr (False, tgt) else Inr (True, tgt @ [r]))"

fun insert_rows :: "intake_row list \<Rightarrow> (intake_row list, nat \<times> nat) action" where
  "insert_rows [] = io_return (0, 0)"
| "insert_rows (row # rows) =
     io_bind (io_tx (insert_target row)) (\<lambda>new.
     io_bind (insert_rows rows) (\<lambda>(inserted, present).
     io_return (if new then (Suc inserted, present) else (inserted, Suc present))))"

definition transfer_intake_ledger ::
    "source_row list option \<Rightarrow> string \<Rightarrow> bool \<Rightarrow> (intake_row list, transfer_report) action" where
  "transfer_intake_ledger file path allow_missing_source =
     (if allow_missing_source \<and> file = None
      then io_return \<lparr>tp_source_records = 0, tp_inserted = 0, tp_already_present = 0, tp_verified = 0, tp_mismatches = []\<rparr>
      else
        io_bind (io_lift (read_source_rows file path)) (\<lambda>rows.
        io_bind (insert_rows rows) (\<lambda>(inserted, present).
        io_bind (\<lambda>tgt. io_lift (mapE (verify_row tgt) rows) tgt) (\<lambda>outcomes.
        let mismatches = filter (\<lambda>m. m \<noteq> []) outcomes;
            report = \<lparr>tp_source_records = length rows, tp_inserted = inserted, tp_already_present = present,
              tp_verified = length (filter (\<lambda>m. m = []) outcomes), tp_mismatches = mismatches\<rparr> in
        if transfer_complete report then io_return report
        else io_raise (IntakeTransferError (''intake transfer incomplete: '' @ transfer_summary report
          @ ''; first mismatch: '' @ (case mismatches of [] \<Rightarrow> ''none'' | m # _ \<Rightarrow> m)))))))"

end
