(* ===== verification/Idea_Intake_Laws.thy ===== *)
theory Idea_Intake_Laws
  imports Idea_Transfer Ledger_Samples
begin

text \<open>
  What the intake ledger guarantees: the text hashed into an intake's identity determines tenant, key and
  payload; an intake is written once, whoever races for its key; a transfer that reports success has
  copied every row, and can be interrupted and resumed anywhere.
\<close>

section \<open>The identity of an intake\<close>

lemma split_at_colon:
  assumes "CHR '':'' \<notin> set a" "CHR '':'' \<notin> set b"
  shows "a @ CHR '':'' # x = b @ CHR '':'' # y \<longleftrightarrow> a = b \<and> x = y"
  using assms
proof (induction a arbitrary: b)
  case Nil
  then show ?case by (cases b) auto
next
  case (Cons c a)
  then show ?case by (cases b) auto
qed

lemma length_text_no_colon: "CHR '':'' \<notin> set (int_text (int n))"
proof
  assume "CHR '':'' \<in> set (int_text (int n))"
  then have "is_number_char (CHR '':'')" using int_text_number [of "int n"] by (auto simp: list_all_iff)
  then show False by (simp add: is_number_char_def is_digit_def)
qed

lemma prefixed_inject:
  "int_text (int (length a)) @ '':'' @ a @ x = int_text (int (length b)) @ '':'' @ b @ y \<longleftrightarrow> a = b \<and> x = y"
  by (auto simp: split_at_colon [OF length_text_no_colon length_text_no_colon])

section \<open>Intakes\<close>

text \<open>
  A step is a whole acceptance, or, in a file, the storing half of one whose reading half happened
  at any earlier moment.
\<close>

inductive intake_step :: "intake_ledger \<Rightarrow> intake_ledger \<Rightarrow> bool" where
  accepting: "accept e q t k at c tr caller L = Inr (r, L') \<Longrightarrow> intake_step L L'"
| racing: "store_record r q c tr (Database rows) = Inr (r', L') \<Longrightarrow> intake_step (Database rows) L'"

abbreviation intake_run :: "intake_ledger \<Rightarrow> intake_ledger \<Rightarrow> bool" where
  "intake_run \<equiv> intake_step\<^sup>*\<^sup>*"

text \<open>The ledger holds a record with this fingerprint and this response under the key.\<close>

definition holds :: "string \<Rightarrow> string \<Rightarrow> string \<Rightarrow> intake_response \<Rightarrow> intake_ledger \<Rightarrow> bool" where
  "holds t k fp resp L \<longleftrightarrow> (\<exists>x. get_intake_record t k L = Inr (Some x, L)
     \<and> ik_payload_fingerprint x = fp \<and> ik_response x = resp)"

lemma get_intake_record_state: "get_intake_record t k L = Inr (x, L') \<Longrightarrow> L' = L"
  by (auto simp: get_intake_record_def split: intake_ledger.splits option.splits)

lemma record_from_row_of_record:
  "record_from_intake_row (row_of_record r q co tr) = Inr (r\<lparr>ik_caller_context := jsort (ik_caller_context r)\<rparr>)"
  by (cases r) (simp add: record_from_intake_row_def row_of_record_def json_loads_def dt_to_text_def)

lemma row_key_of_record: "row_key (row_of_record r q c tr) = (ik_tenant_id r, ik_idempotency_key r)"
  by (simp add: row_key_def row_of_record_def)

lemma store_record_database:
  assumes "store_record r q c tr (Database rows) = Inr (r', L')"
  obtains (fresh) "(ik_tenant_id r, ik_idempotency_key r) \<notin> row_key ` set rows"
      "L' = Database (rows @ [row_of_record r q c tr])" "r' = r"
  | (raced) "L' = Database rows" "get_intake_record (ik_tenant_id r) (ik_idempotency_key r) (Database rows) = Inr (Some r', L')"
      "ik_payload_fingerprint r' = ik_payload_fingerprint r"
proof (cases "(ik_tenant_id r, ik_idempotency_key r) \<in> row_key ` set rows")
  case True
  have "tx_bind (get_intake_record (ik_tenant_id r) (ik_idempotency_key r)) (\<lambda>existing. case existing of
      Some x \<Rightarrow> if ik_payload_fingerprint x = ik_payload_fingerprint r then tx_return x else tx_raise intake_conflict
    | None \<Rightarrow> tx_raise intake_conflict) (Database rows) = Inr (r', L')"
    using assms True by (simp add: store_record_def Let_def)
  then obtain x L1 where get: "get_intake_record (ik_tenant_id r) (ik_idempotency_key r) (Database rows) = Inr (x, L1)"
    and rest: "(case x of
      Some x \<Rightarrow> if ik_payload_fingerprint x = ik_payload_fingerprint r then tx_return x else tx_raise intake_conflict
    | None \<Rightarrow> tx_raise intake_conflict) L1 = Inr (r', L')"
    by (rule tx_bindE)
  have L1: "L1 = Database rows" using get by (rule get_intake_record_state)
  have "x = Some r'" "L' = L1" "ik_payload_fingerprint r' = ik_payload_fingerprint r"
    using rest by (simp_all split: option.splits if_splits)
  then show thesis using get L1 by (intro raced) simp_all
next
  case False
  then have "r' = r \<and> L' = Database (rows @ [row_of_record r q c tr])" using assms by (auto simp: store_record_def)
  then show thesis using False by (intro fresh) simp_all
qed

text \<open>What storing a record does to the record of any key.\<close>

lemma store_record_effect:
  assumes "store_record r q c tr L = Inr (r', L')"
    and "case L of Memory m \<Rightarrow> (ik_tenant_id r, ik_idempotency_key r) \<notin> fst ` set m | Database rows \<Rightarrow> True"
  shows "holds (ik_tenant_id r) (ik_idempotency_key r) (ik_payload_fingerprint r) (ik_response r') L'"
    "holds t k fp resp L \<Longrightarrow> holds t k fp resp L'"
proof -
  let ?key = "(ik_tenant_id r, ik_idempotency_key r)"
  consider (memory) m where "L = Memory m" "?key \<notin> fst ` set m" "L' = Memory (m @ [(?key, r)])" "r' = r"
    | (fresh) rows where "L = Database rows" "?key \<notin> row_key ` set rows"
        "L' = Database (rows @ [row_of_record r q c tr])" "r' = r"
    | (raced) "L' = L" "get_intake_record (ik_tenant_id r) (ik_idempotency_key r) L = Inr (Some r', L')"
        "ik_payload_fingerprint r' = ik_payload_fingerprint r"
  proof (cases L)
    case (Memory m)
    then show thesis using assms by (intro memory [of m]) (auto simp: store_record_def Let_def)
  next
    case (Database rows)
    from assms(1) [unfolded this] show thesis
      by (rule store_record_database) (use Database fresh raced in blast)+
  qed
  then have "holds (ik_tenant_id r) (ik_idempotency_key r) (ik_payload_fingerprint r) (ik_response r') L'
    \<and> (holds t k fp resp L \<longrightarrow> holds t k fp resp L')"
  proof cases
    case memory
    have "map_of m ?key = None" using memory(2) by (simp add: map_of_eq_None_iff)
    then have "map_of (m @ [(?key, r)]) x = (if x = ?key then Some r else map_of m x)" for x
      by (auto simp: map_add_def split: option.split)
    then show ?thesis using memory \<open>map_of m ?key = None\<close> by (simp add: holds_def get_intake_record_def)
  next
    case fresh
    have "fetch (\<lambda>x. row_key x = ?key) rows = None" using fresh(2) by (force simp: image_iff)
    then have "fetch (\<lambda>x. row_key x = ?key) (rows @ [row_of_record r q c tr]) = Some (row_of_record r q c tr)"
      by (simp add: fetch_append row_key_of_record del: fetch_None)
    moreover have "holds t k fp resp L'" if h: "holds t k fp resp L"
    proof -
      obtain x where "fetch (\<lambda>x. row_key x = (t, k)) rows = Some x"
        using h fresh(1) by (auto simp: holds_def get_intake_record_def split: option.splits)
      then show ?thesis using h fresh(1,3) by (auto simp: holds_def get_intake_record_def fetch_append_Some)
    qed
    ultimately show ?thesis using fresh(3,4) by (auto simp: holds_def get_intake_record_def tx_lift_def record_from_row_of_record)
  next
    case raced
    then show ?thesis by (auto simp: holds_def)
  qed
  then show "holds (ik_tenant_id r) (ik_idempotency_key r) (ik_payload_fingerprint r) (ik_response r') L'"
    "holds t k fp resp L \<Longrightarrow> holds t k fp resp L'" by auto
qed

lemma build_intake_record_fields:
  "ik_tenant_id (build_intake_record e q t k fp at c caller) = t"
  "ik_idempotency_key (build_intake_record e q t k fp at c caller) = k"
  "ik_payload_fingerprint (build_intake_record e q t k fp at c caller) = fp"
  by (simp_all add: build_intake_record_def Let_def)

lemma accept_effect:
  assumes "accept e q t k at c tr caller L = Inr (resp, L')"
  shows "holds t k (payload_fingerprint_of e q) resp L'" "holds t' k' fp resp' L \<Longrightarrow> holds t' k' fp resp' L'"
proof -
  let ?r = "build_intake_record e q t k (payload_fingerprint_of e q) at c caller"
  obtain x L1 where get: "get_intake_record t k L = Inr (x, L1)"
    and rest: "(case x of
        Some x \<Rightarrow> if ik_payload_fingerprint x \<noteq> payload_fingerprint_of e q then tx_raise intake_conflict else tx_return (ik_response x)
      | None \<Rightarrow> tx_bind (store_record ?r q c tr) (\<lambda>stored. tx_return (ik_response stored))) L1 = Inr (resp, L')"
    using assms unfolding accept_def Let_def by (rule tx_bindE)
  have L1: "L1 = L" using get by (rule get_intake_record_state)
  have "holds t k (payload_fingerprint_of e q) resp L' \<and> (holds t' k' fp resp' L \<longrightarrow> holds t' k' fp resp' L')"
  proof (cases x)
    case None
    then obtain r' where st: "store_record ?r q c tr L = Inr (r', L')" and resp: "resp = ik_response r'"
      using rest L1 by (auto elim!: tx_bindE)
    have side: "case L of Memory m \<Rightarrow> (ik_tenant_id ?r, ik_idempotency_key ?r) \<notin> fst ` set m | Database rows \<Rightarrow> True"
      using get None by (cases L) (auto simp: get_intake_record_def build_intake_record_fields map_of_eq_None_iff)
    from store_record_effect(1) [OF st side] store_record_effect(2) [OF st side, of t' k' fp resp'] show ?thesis
      by (auto simp: build_intake_record_fields resp)
  next
    case (Some y)
    then show ?thesis using rest get L1 by (auto simp: holds_def split: if_splits)
  qed
  then show "holds t k (payload_fingerprint_of e q) resp L'" "holds t' k' fp resp' L \<Longrightarrow> holds t' k' fp resp' L'" by auto
qed

lemma intake_run_holds:
  assumes "intake_run L L'" "holds t k fp resp L"
  shows "holds t k fp resp L'"
  using assms
proof (induction rule: rtranclp_induct)
  case (step L1 L2)
  then have "holds t k fp resp L1" by simp
  with step.hyps(2) show ?case
  proof (cases rule: intake_step.cases)
    case racing
    then show ?thesis using store_record_effect(2) \<open>holds t k fp resp L1\<close> by fastforce
  qed (use accept_effect(2) \<open>holds t k fp resp L1\<close> in blast)
qed simp

lemma accept_held:
  assumes "holds t k fp resp L"
  shows "accept e q t k at c tr caller L = (if payload_fingerprint_of e q = fp then Inr (resp, L) else Inl intake_conflict)"
  using assms by (auto simp: holds_def accept_def Let_def tx_run)

lemma store_held:
  assumes "holds t k fp resp (Database rows)" "ik_tenant_id r = t" "ik_idempotency_key r = k"
  shows "map_sum id (map_prod ik_response id) (store_record r q c tr (Database rows))
    = (if ik_payload_fingerprint r = fp then Inr (resp, Database rows) else Inl intake_conflict)"
proof -
  obtain x where x: "get_intake_record t k (Database rows) = Inr (Some x, Database rows)"
    "ik_payload_fingerprint x = fp" "ik_response x = resp" using assms(1) by (auto simp: holds_def)
  then have "\<exists>r. fetch (\<lambda>r. row_key r = (t, k)) rows = Some r" by (auto simp: get_intake_record_def split: option.splits)
  then have "(t, k) \<in> row_key ` set rows" by (auto dest!: fetch_SomeD intro: rev_image_eqI)
  then show ?thesis using x assms(2,3) by (auto simp: store_record_def tx_run)
qed

section \<open>Transfers\<close>

definition place :: "intake_row \<Rightarrow> intake_row list \<Rightarrow> intake_row list" where
  "place r tgt = (if row_key r \<in> row_key ` set tgt then tgt else tgt @ [r])"

lemma place_keys: "row_key ` set (fold place rs tgt) = row_key ` (set rs \<union> set tgt)"
  by (induction rs arbitrary: tgt) (auto simp: place_def)

lemma place_prefix: "\<exists>new. fold place rs tgt = tgt @ new \<and> length new \<le> length rs"
proof (induction rs arbitrary: tgt)
  case (Cons r rs)
  obtain new where new: "fold place rs (place r tgt) = place r tgt @ new" "length new \<le> length rs" using Cons.IH by blast
  obtain m where "place r tgt = tgt @ m" "length m \<le> 1" by (cases "row_key r \<in> row_key ` set tgt") (auto simp: place_def)
  then show ?case using new by simp
qed simp

lemma place_length: "length tgt \<le> length (fold place rs tgt)" "length (fold place rs tgt) \<le> length tgt + length rs"
  using place_prefix [of rs tgt] by auto

lemma place_present: "row_key ` set rs \<subseteq> row_key ` set tgt \<Longrightarrow> fold place rs tgt = tgt"
  by (induction rs) (auto simp: place_def)

lemma place_resume: "fold place rs (fold place (take n rs) tgt) = fold place rs tgt"
proof -
  let ?t = "fold place (take n rs) tgt"
  have "fold place rs ?t = fold place (drop n rs) (fold place (take n rs) ?t)"
    using fold_append [of place "take n rs" "drop n rs"] by (simp del: fold_append)
  also have "fold place (take n rs) ?t = ?t" by (rule place_present) (auto simp: place_keys)
  also have "fold place (drop n rs) ?t = fold place rs tgt"
    using fold_append [of place "take n rs" "drop n rs"] by (simp del: fold_append)
  finally show ?thesis .
qed

lemma insert_parameters_key: "insert_parameters row = Inr r \<Longrightarrow> row_key r = row_key row"
  by (auto simp: insert_parameters_def bindE_eq_Inr row_key_def)

lemma insert_target_run: "insert_parameters row = Inr r \<Longrightarrow>
    io_tx (insert_target row) tgt = (Done (row_key r \<notin> row_key ` set tgt), place r tgt)"
  by (simp add: io_tx_def commit_def insert_target_def place_def)

lemma insert_rows_done:
  assumes "mapE insert_parameters rows = Inr copies"
  shows "insert_rows rows tgt = (let inserted = length (fold place copies tgt) - length tgt in
    (Done (inserted, length rows - inserted), fold place copies tgt))"
  using assms
proof (induction rows arbitrary: copies tgt)
  case Nil
  then show ?case by (simp add: io_return_def)
next
  case (Cons row rows)
  obtain r cs where r: "insert_parameters row = Inr r" and cs: "mapE insert_parameters rows = Inr cs" "copies = r # cs"
    using Cons.prems by (auto simp: bindE_eq_Inr)
  have len: "length cs = length rows" using cs(1) by (auto simp: mapE_Inr dest: list_all2_lengthD)
  have bounds: "length (place r tgt) \<le> length (fold place cs (place r tgt))"
      "length (fold place cs (place r tgt)) \<le> length (place r tgt) + length cs" by (rule place_length)+
  show ?case
  proof (cases "row_key r \<in> row_key ` set tgt")
    case True
    then have "place r tgt = tgt" by (simp add: place_def)
    then show ?thesis using True bounds len
      by (simp add: io_bind_def insert_target_run [OF r] Cons.IH [OF cs(1)] io_return_def cs(2) Let_def Suc_diff_le)
  next
    case False
    then have "place r tgt = tgt @ [r]" by (simp add: place_def)
    then show ?thesis using False bounds len
      by (simp add: io_bind_def insert_target_run [OF r] Cons.IH [OF cs(1)] io_return_def cs(2) Let_def Suc_diff_Suc Suc_le_eq)
  qed
qed

lemma insert_rows_raised: "mapE insert_parameters rows = Inl x \<Longrightarrow> \<exists>x' tgt'. insert_rows rows tgt = (Raised x', tgt')"
proof (induction rows arbitrary: tgt)
  case (Cons row rows)
  show ?case
  proof (cases "insert_parameters row")
    case (Inl y)
    then show ?thesis by (simp add: io_bind_def io_tx_def commit_def insert_target_def)
  next
    case (Inr r)
    then have "mapE insert_parameters rows = Inl x" using Cons.prems by (auto simp: bindE_eq_Inl)
    then obtain x' tgt' where "insert_rows rows (place r tgt) = (Raised x', tgt')" using Cons.IH by blast
    then show ?thesis by (simp add: io_bind_def insert_target_run [OF Inr])
  qed
qed simp

lemma insert_rows_run:
  "insert_rows rows tgt = (Done ip, tgt') \<longleftrightarrow> (\<exists>copies. mapE insert_parameters rows = Inr copies
     \<and> tgt' = fold place copies tgt \<and> ip = (length tgt' - length tgt, length rows - (length tgt' - length tgt)))"
proof (cases "mapE insert_parameters rows")
  case (Inl x)
  then show ?thesis using insert_rows_raised [of rows x tgt] by auto
next
  case (Inr copies)
  then show ?thesis using insert_rows_done [OF Inr, of tgt] by (auto simp: Let_def)
qed

lemma first_difference_none:
  assumes "first_difference key vs ws = []" "map fst vs = map fst ws"
  shows "vs = ws"
  using assms
proof (induction vs arbitrary: ws)
  case (Cons v vs)
  obtain a b where v: "v = (a, b)" by (cases v)
  then obtain b' ws' where ws: "ws = (a, b') # ws'" using Cons.prems(2) by (cases ws) auto
  have "b = b'" using Cons.prems(1) v ws by (auto split: if_splits)
  then show ?case using Cons v ws by auto
qed simp

lemma verified_columns_names: "verified_columns r = Inr vs \<Longrightarrow> verified_columns r' = Inr ws \<Longrightarrow> map fst vs = map fst ws"
  by (auto simp: verified_columns_def bindE_eq_Inr)

text \<open>A verified row has a copy in the target: every column, the JSON by value and the times as instants.\<close>

definition copied :: "intake_row \<Rightarrow> intake_row list \<Rightarrow> bool" where
  "copied row tgt \<longleftrightarrow> (\<exists>r \<in> set tgt. row_key r = row_key row \<and> verified_columns r = verified_columns row
     \<and> stamp_dt (it_accepted_at r) = stamp_dt (it_accepted_at row) \<and> stamp_dt (it_created_at r) = stamp_dt (it_created_at row))"

lemma verify_row_copied:
  assumes "verify_row tgt row = Inr []"
  shows "copied row tgt"
proof -
  obtain r where r: "fetch (\<lambda>r. row_key r = row_key row) tgt = Some r"
    using assms by (cases "fetch (\<lambda>r. row_key r = row_key row) tgt") (auto simp: verify_row_def)
  obtain vs ws where vw: "verified_columns row = Inr vs" "verified_columns r = Inr ws"
    "first_difference (it_idempotency_key row) vs ws = []"
    "stamp_dt (it_accepted_at row) = stamp_dt (it_accepted_at r)" "stamp_dt (it_created_at row) = stamp_dt (it_created_at r)"
    using assms r by (auto simp: verify_row_def bindE_eq_Inr Let_def split: if_splits)
  have "vs = ws" using first_difference_none [OF vw(3)] verified_columns_names [OF vw(1,2)] by simp
  then show ?thesis using fetch_SomeD [OF r] vw unfolding copied_def by auto
qed

text \<open>A transfer in one formula.\<close>

definition report_of :: "intake_row list \<Rightarrow> nat \<Rightarrow> transfer_report" where
  "report_of rows inserted = \<lparr>tp_source_records = length rows, tp_inserted = inserted,
     tp_already_present = length rows - inserted, tp_verified = length rows, tp_mismatches = []\<rparr>"

lemma transfer_run:
  assumes rows: "read_source_rows (Some src) path = Inr rows"
  shows "transfer_intake_ledger (Some src) path am tgt = (Done rep, tgt') \<longleftrightarrow>
    (\<exists>copies. mapE insert_parameters rows = Inr copies \<and> tgt' = fold place copies tgt
      \<and> (\<forall>row \<in> set rows. verify_row tgt' row = Inr []) \<and> rep = report_of rows (length tgt' - length tgt))"
proof -
  have all_empty: "mapE f xs = Inr outcomes \<and> (\<forall>m \<in> set outcomes. m = []) \<longleftrightarrow>
      (\<forall>x \<in> set xs. f x = Inr []) \<and> outcomes = map (\<lambda>_. []) xs"
    for f :: "intake_row \<Rightarrow> string res" and xs outcomes
    unfolding mapE_Inr
  proof (induction xs arbitrary: outcomes)
    case (Cons x xs)
    then show ?case by (cases outcomes) (auto simp: list_all2_Cons1)
  qed auto
  have verified: "mapE (verify_row t) rows = Inr outcomes \<and> filter (\<lambda>m. m \<noteq> []) outcomes = [] \<longleftrightarrow>
    (\<forall>row \<in> set rows. verify_row t row = Inr []) \<and> outcomes = map (\<lambda>_. []) rows" for t outcomes
    using all_empty [of "verify_row t" rows outcomes] by (simp add: filter_empty_conv)
  have "transfer_intake_ledger (Some src) path am tgt = (Done rep, tgt') \<longleftrightarrow>
    (\<exists>i p outcomes. insert_rows rows tgt = (Done (i, p), tgt') \<and> mapE (verify_row tgt') rows = Inr outcomes
      \<and> filter (\<lambda>m. m \<noteq> []) outcomes = [] \<and> length (filter (\<lambda>m. m = []) outcomes) = length rows
      \<and> rep = \<lparr>tp_source_records = length rows, tp_inserted = i, tp_already_present = p, tp_verified = length rows, tp_mismatches = []\<rparr>)"
    by (auto simp: transfer_intake_ledger_def rows io_bind_def io_lift_def io_return_def io_raise_def Let_def transfer_complete_def
        split: ending.splits prod.splits sum.splits if_splits)
  also have "\<dots> \<longleftrightarrow> (\<exists>i p. insert_rows rows tgt = (Done (i, p), tgt') \<and> (\<forall>row \<in> set rows. verify_row tgt' row = Inr [])
      \<and> rep = \<lparr>tp_source_records = length rows, tp_inserted = i, tp_already_present = p, tp_verified = length rows, tp_mismatches = []\<rparr>)"
  proof -
    have "(\<exists>outcomes. mapE (verify_row tgt') rows = Inr outcomes \<and> filter (\<lambda>m. m \<noteq> []) outcomes = []
        \<and> length (filter (\<lambda>m. m = []) outcomes) = length rows) \<longleftrightarrow> (\<forall>row \<in> set rows. verify_row tgt' row = Inr [])"
      using verified [of tgt'] verified [of tgt' "map (\<lambda>_. []) rows"] by (auto simp: filter_map comp_def)
    then show ?thesis by blast
  qed
  also have "\<dots> \<longleftrightarrow> (\<exists>copies. mapE insert_parameters rows = Inr copies \<and> tgt' = fold place copies tgt
      \<and> (\<forall>row \<in> set rows. verify_row tgt' row = Inr []) \<and> rep = report_of rows (length tgt' - length tgt))"
    unfolding insert_rows_run report_of_def by auto
  finally show ?thesis .
qed

lemma read_source_rows_mem:
  assumes "read_source_rows (Some src) path = Inr rows" "x \<in> set src"
  shows "\<exists>row \<in> set rows. with_tenant x = Inr row"
proof -
  let ?xs = "sort_key (\<lambda>(t, r). (text_key (it_created_at r), it_idempotency_key r)) src"
  have m: "list_all2 (\<lambda>x y. with_tenant x = Inr y) ?xs rows" using assms(1) by (simp add: read_source_rows_def mapE_Inr)
  have "x \<in> set ?xs" using assms(2) by simp
  then obtain i where i: "i < length ?xs" "?xs ! i = x" by (auto simp: in_set_conv_nth simp del: set_sort)
  then have "with_tenant x = Inr (rows ! i)" using list_all2_nthD [OF m i(1)] by simp
  moreover have "i < length rows" using i(1) list_all2_lengthD [OF m] by simp
  ultimately show ?thesis by auto
qed

lemma read_source_rows_length: "read_source_rows (Some src) path = Inr rows \<Longrightarrow> length rows = length src"
  by (auto simp: read_source_rows_def mapE_Inr dest!: list_all2_lengthD)

section \<open>Properties\<close>

text \<open>
  (C31) The text an intake's identity is hashed from determines the tenant, the key and the payload
  fingerprint, whatever characters the caller puts into the key: two intakes share a preimage only when
  all three agree.
\<close>

theorem intake_identity_unambiguous:
  "intake_preimage t k fp = intake_preimage t' k' fp' \<longleftrightarrow> t = t' \<and> k = k' \<and> fp = fp'"
proof -
  have "int_text (int (length fp)) @ '':'' @ fp @ [] = int_text (int (length fp')) @ '':'' @ fp' @ [] \<longleftrightarrow> fp = fp'"
    unfolding prefixed_inject by simp
  then show ?thesis
    using prefixed_inject [of t _ t'] prefixed_inject [of k _ k'] by (simp add: intake_preimage_def)
qed

text \<open>
  (C28) An intake is written once, and belongs to its tenant. After an accepted intake, whatever
  intakes follow, of any tenant, under any key, racing or not, a further intake of the tenant under the key
  returns the first response when the payload fingerprint is the first one, and otherwise is refused as a
  conflict; in both cases the ledger is unchanged. In a file the same holds for a request that looked
  before the first one was stored and stores after it.
\<close>

theorem intake_written_once:
  assumes first: "accept e q t k at c tr caller L = Inr (resp, L1)" and run: "intake_run L1 L2"
  shows "accept e' q' t k at' c' tr' caller' L2 = (if payload_fingerprint_of e' q' = payload_fingerprint_of e q
      then Inr (resp, L2) else Inl intake_conflict)
    \<and> (\<forall>rows. L2 = Database rows \<longrightarrow> map_sum id (map_prod ik_response id)
      (store_record (build_intake_record e' q' t k (payload_fingerprint_of e' q') at' c' caller') q' c' tr' L2)
      = (if payload_fingerprint_of e' q' = payload_fingerprint_of e q then Inr (resp, L2) else Inl intake_conflict))"
proof -
  have h: "holds t k (payload_fingerprint_of e q) resp L2"
    using intake_run_holds [OF run accept_effect(1) [OF first]] .
  have "map_sum id (map_prod ik_response id)
      (store_record (build_intake_record e' q' t k (payload_fingerprint_of e' q') at' c' caller') q' c' tr' L2)
      = (if payload_fingerprint_of e' q' = payload_fingerprint_of e q then Inr (resp, L2) else Inl intake_conflict)"
    if db: "L2 = Database rows" for rows
    using store_held [OF h [unfolded db], of "build_intake_record e' q' t k (payload_fingerprint_of e' q') at' c' caller'" q' c' tr']
    by (simp add: build_intake_record_fields db)
  then show ?thesis using accept_held [OF h] by blast
qed

definition sample_pack :: "string \<Rightarrow> intake_request" where
  "sample_pack candidate = \<lparr>iq_report_evidence_pack_id = ''irep_001'', iq_conversion_intent_id = ''icnv_001'',
     iq_candidate_id = candidate, iq_purpose = ''CLIENT_REPORT_EVIDENCE'', iq_evidence_packet_id = ''ievp_001'',
     iq_evidence_content_fingerprint = ''sha256:idea'', iq_source_signal_ids = [''sig_1''],
     iq_source_summaries = [\<lparr>ss_product_id = ''lotus-core:HoldingsAsOf:v1'', ss_source_system = ''lotus-core'',
       ss_product_version = ''v1'', ss_as_of_date = ''2026-06-24'', ss_generated_at = ''2026-06-24T00:00:00Z'',
       ss_data_quality_status = ''complete'', ss_freshness = ''fresh''\<rparr>],
     iq_reason_codes = [''HIGH_CASH''], iq_retention_policy_ref = ''generated-report-standard'',
     iq_requested_at = ''2026-06-24T00:00:00Z''\<rparr>"

definition sample_accept :: "string \<Rightarrow> string \<Rightarrow> intake_response intake_tx" where
  "sample_accept tenant candidate = accept sample_env (sample_pack candidate) tenant ''key-1'' None None None None"

lemma sample_intakes:
  "(case sample_accept ''a'' ''icand_1'' (Database []) of Inl _ \<Rightarrow> False
    | Inr (resp, L1) \<Rightarrow> (case sample_accept ''b'' ''icand_2'' L1 of Inl _ \<Rightarrow> False | Inr (_, L2) \<Rightarrow> L2 \<noteq> L1))"
  by code_simp

theorem intake_written_once_witness:
  "\<exists>resp L1 L2. sample_accept ''a'' ''icand_1'' (Database []) = Inr (resp, L1) \<and> intake_run L1 L2 \<and> L2 \<noteq> L1
     \<and> sample_accept ''a'' ''icand_1'' L2 = Inr (resp, L2)"
proof -
  obtain resp L1 where a: "sample_accept ''a'' ''icand_1'' (Database []) = Inr (resp, L1)"
    using sample_intakes by (cases "sample_accept ''a'' ''icand_1'' (Database [])") auto
  note b = sample_intakes [unfolded a sum.case prod.case]
  obtain x L2 where c: "sample_accept ''b'' ''icand_2'' L1 = Inr (x, L2)" "L2 \<noteq> L1"
    using b by (cases "sample_accept ''b'' ''icand_2'' L1") auto
  have run: "intake_run L1 L2" using intake_step.accepting [OF c(1) [unfolded sample_accept_def]] by auto
  have "sample_accept ''a'' ''icand_1'' L2 = Inr (resp, L2)"
    using intake_written_once [OF a [unfolded sample_accept_def] run, of sample_env "sample_pack ''icand_1''" None None None None]
    by (simp add: sample_accept_def)
  then show ?thesis using a run c(2) by blast
qed

text \<open>
  (C30) A transfer that reports success has moved everything and damaged nothing. Every row of the
  source, with its tenant established, has a copy in the target with equal columns, JSON compared by value and
  times as instants; the rows the target had are untouched at its front; the counts add up. And a transfer may
  be killed after any number of rows: started again, it succeeds and reaches the same target.
\<close>

theorem transfer_faithful:
  assumes "transfer_intake_ledger (Some src) path am tgt = (Done rep, tgt')"
  shows "(\<forall>x \<in> set src. \<exists>row. with_tenant x = Inr row \<and> copied row tgt')
    \<and> (\<exists>new. tgt' = tgt @ new \<and> length new = tp_inserted rep)
    \<and> tp_inserted rep + tp_already_present rep = length src \<and> tp_verified rep = length src
    \<and> (\<exists>rows. read_source_rows (Some src) path = Inr rows \<and> (\<forall>n. \<exists>rep'.
         transfer_intake_ledger (Some src) path am (snd (insert_rows (take n rows) tgt)) = (Done rep', tgt')))"
proof -
  obtain rows where rows: "read_source_rows (Some src) path = Inr rows"
    using assms by (cases "read_source_rows (Some src) path")
      (auto simp: transfer_intake_ledger_def io_bind_def io_lift_def)
  obtain copies where copies: "mapE insert_parameters rows = Inr copies" "tgt' = fold place copies tgt"
    and ok: "\<forall>row \<in> set rows. verify_row tgt' row = Inr []" and rep: "rep = report_of rows (length tgt' - length tgt)"
    using assms unfolding transfer_run [OF rows] by blast
  have moved: "\<forall>x \<in> set src. \<exists>row. with_tenant x = Inr row \<and> copied row tgt'"
    using read_source_rows_mem [OF rows] ok verify_row_copied by blast
  obtain new where new: "tgt' = tgt @ new" "length new \<le> length copies" using place_prefix copies(2) by blast
  have len: "length copies = length rows" using copies(1) by (auto simp: mapE_Inr dest: list_all2_lengthD)
  have "\<exists>rep'. transfer_intake_ledger (Some src) path am (snd (insert_rows (take n rows) tgt)) = (Done rep', tgt')" for n
  proof -
    have "mapE insert_parameters (take n rows) = Inr (take n copies)"
      using copies(1) by (auto simp: mapE_Inr intro: list_all2_takeI)
    then have "snd (insert_rows (take n rows) tgt) = fold place (take n copies) tgt" by (simp add: insert_rows_done Let_def)
    then show ?thesis unfolding transfer_run [OF rows] using copies ok by (auto simp: place_resume)
  qed
  then show ?thesis
    using moved new rows len rep read_source_rows_length [OF rows] by (auto simp: report_of_def)
qed

definition sample_file_row :: "string \<Rightarrow> source_row" where
  "sample_file_row key = (None, (row_of_record (build_intake_record sample_env (sample_pack ''icand_1'') '' '' key ''fp'' None None None)
     (sample_pack ''icand_1'') None None)\<lparr>it_caller_context := Context_json (JObj [(''tenant_id'', JStr '' tenant-sg '')])\<rparr>)"

theorem transfer_faithful_witness:
  "\<exists>rep tgt'. transfer_intake_ledger (Some [sample_file_row ''k1'', sample_file_row ''k2'']) ''p'' False [] = (Done rep, tgt')
     \<and> (\<forall>x \<in> {sample_file_row ''k1'', sample_file_row ''k2''}. \<exists>row. with_tenant x = Inr row \<and> copied row tgt')"
proof -
  have "case transfer_intake_ledger (Some [sample_file_row ''k1'', sample_file_row ''k2'']) ''p'' False [] of
    (Done rep, _) \<Rightarrow> tp_inserted rep = 2 | _ \<Rightarrow> False" by code_simp
  then obtain rep tgt' where run: "transfer_intake_ledger (Some [sample_file_row ''k1'', sample_file_row ''k2'']) ''p'' False [] = (Done rep, tgt')"
    by (auto split: prod.splits ending.splits)
  from transfer_faithful [OF this] run show ?thesis by auto
qed

end
