(* ===== verification/Idea_Materialization_Laws.thy ===== *)
theory Idea_Materialization_Laws
  imports Idea_Materialization Idea_Intake_Laws
begin

text \<open>
  A materialization can be recovered: whatever happened to the job since, the tenant's key leads to exactly one
  receipt, with the job's current state, for the identity it was created with and for no other.
\<close>

section \<open>The rows of a key\<close>

lemma filter_single:
  assumes "distinct xs" "x \<in> set xs" "\<And>y. y \<in> set xs \<Longrightarrow> P y \<longleftrightarrow> y = x"
  shows "filter P xs = [x]"
proof -
  obtain ys zs where xs: "xs = ys @ x # zs" using assms(2) by (auto simp: in_set_conv_decomp)
  then have "filter P ys = []" "filter P zs = []" "P x" using assms by (auto simp: filter_empty_conv)
  then show ?thesis by (simp add: xs)
qed

lemma request_of_job:
  assumes inv: "schema_inv s" and j: "j \<in> set (jobs s)"
  obtains r where "find_request (j_request_id j) s = Some r" "r \<in> set (requests s)" "r_id r = j_request_id j"
proof -
  obtain r where "r \<in> set (requests s)" "j_request_id j = r_id r"
    using inv j unfolding schema_inv_def jobs_ok_def by blast
  then show thesis using that find_request_iff [OF inv] by metis
qed

lemma job_rows_map:
  assumes "schema_inv s"
  shows "job_rows s = map (\<lambda>j. (the (find_request (j_request_id j) s), j)) (jobs s)"
proof -
  have total: "List.map_filter (\<lambda>j. map_option (\<lambda>r. (r, j)) (f j)) js = map (\<lambda>j. (the (f j), j)) js"
    if "\<And>j. j \<in> set js \<Longrightarrow> f j \<noteq> None" for f :: "job_row \<Rightarrow> request_row option" and js
    using that by (induction js) (auto simp: List.map_filter_simps split: option.split)
  show ?thesis unfolding job_rows_def
    by (rule total) (use request_of_job [OF assms] in \<open>metis option.distinct(1)\<close>)
qed

lemma job_rows_of_key:
  assumes inv: "schema_inv s" and j: "j \<in> set (jobs s)" and r: "r \<in> set (requests s)" "j_request_id j = r_id r"
    and key: "r_tenant_id r = t" "r_idempotency_key r = k" "t \<noteq> []" "k \<noteq> []"
  shows "list_job_rows s (recovery_filters t k) = [(r, j)]"
proof -
  have find: "find_request (r_id r) s = Some r" using r find_request_iff [OF inv] by blast
  have "filter (\<lambda>(r, j). list_jobs_predicates (recovery_filters t k) r j) (job_rows s) = [(r, j)]"
  proof (rule filter_single)
    show "distinct (job_rows s)" using schema_distinct(1) [OF inv]
      by (auto simp: job_rows_map [OF inv] distinct_map inj_on_def)
    show "(r, j) \<in> set (job_rows s)" using j r(2) find by (force simp: job_rows_map [OF inv])
    fix y assume "y \<in> set (job_rows s)"
    then obtain j' where j': "j' \<in> set (jobs s)" "y = (the (find_request (j_request_id j') s), j')"
      by (auto simp: job_rows_map [OF inv])
    obtain r' where r': "find_request (j_request_id j') s = Some r'" "r' \<in> set (requests s)" "r_id r' = j_request_id j'"
      using inv j'(1) by (rule request_of_job)
    have "(\<lambda>(r, j). list_jobs_predicates (recovery_filters t k) r j) y \<longleftrightarrow> r_tenant_id r' = t \<and> r_idempotency_key r' = k"
      using key by (auto simp: j' r' list_jobs_predicates_def recovery_filters_def str_filter_def opt_filter_def truthy_def)
    also have "\<dots> \<longleftrightarrow> r' = r"
    proof
      have "inj_on (\<lambda>x. (r_tenant_id x, r_idempotency_key x)) (set (requests s))"
        using inv by (simp add: schema_inv_def requests_ok_def request_keys_def distinct_map)
      then show "r' = r" if "r_tenant_id r' = t \<and> r_idempotency_key r' = k"
        using that key r(1) r'(2) by (auto simp: inj_on_def)
    qed (use key in simp)
    also have "\<dots> \<longleftrightarrow> y = (r, j)"
    proof
      have "inj_on j_request_id (set (jobs s))" using schema_distinct(6) [OF inv] by (simp add: distinct_map)
      then show "y = (r, j)" if "r' = r" using that j' r' r j by (auto simp: inj_on_def)
    qed (use j' r' in simp)
    finally show "(\<lambda>(r, j). list_jobs_predicates (recovery_filters t k) r j) y \<longleftrightarrow> y = (r, j)" .
  qed
  then show ?thesis by (simp add: list_job_rows_def newest_jobs_def sql_limit_def recovery_filters_def)
qed

lemma owner_snapshot_of_key:
  assumes "list_job_rows s (recovery_filters t k) = [(r, j)]" "r_tenant_id r = t" "r_idempotency_key r = k"
  shows "read_idea_materialization_owner_snapshot s t k
    = Inr (listed_record (r, j), length (filter (\<lambda>v. ev_job_id v = j_id j) (events s)))"
proof -
  have "record_matches_filters (listed_record (r, j)) (recovery_filters t k) = Inr True"
    using assms(2,3) by (simp add: record_matches_filters_def recovery_filters_def str_filter_def opt_filter_def
        portfolio_filter_def listed_record_def record_from_row_def)
  then show ?thesis
    by (simp add: read_idea_materialization_owner_snapshot_def list_job_owner_snapshots_def assms(1))
qed

section \<open>The identity of a job\<close>

lemma validate_identity_dump: "validate_identity (JObj (sorted_obj (identity_dump i))) = (if valid_identity i then Some i else None)"
proof -
  let ?d = "sorted_obj (identity_dump i)"
  have texts: "identity_field ?d ''report_evidence_pack_id'' = Some (rd_report_evidence_pack_id i)"
    "identity_field ?d ''conversion_intent_id'' = Some (rd_conversion_intent_id i)"
    "identity_field ?d ''candidate_id'' = Some (rd_candidate_id i)"
    "identity_field ?d ''evidence_packet_id'' = Some (rd_evidence_packet_id i)"
    "identity_field ?d ''evidence_content_fingerprint'' = Some (rd_evidence_content_fingerprint i)"
    "identity_field ?d ''portfolio_id'' = Some (rd_portfolio_id i)"
    "dget ?d ''source_contract_version'' = Some (JStr SOURCE_CONTRACT)" "dget ?d ''owned_product'' = Some (JStr OWNED_PRODUCT)"
    unfolding identity_field_def dget_sorted_obj_any by (simp_all add: identity_dump_def dget_def)
  have same: "\<lparr>rd_report_evidence_pack_id = rd_report_evidence_pack_id i, rd_conversion_intent_id = rd_conversion_intent_id i,
      rd_candidate_id = rd_candidate_id i, rd_evidence_packet_id = rd_evidence_packet_id i,
      rd_evidence_content_fingerprint = rd_evidence_content_fingerprint i, rd_portfolio_id = rd_portfolio_id i\<rparr> = i"
    by (cases i) simp
  show ?thesis by (simp add: validate_identity_def texts same Let_def)
qed

text \<open>What the created request holds.\<close>

definition idea_request_row :: "materialization_request \<Rightarrow> request_row \<Rightarrow> bool" where
  "idea_request_row q r \<longleftrightarrow> r_report_type r = ''proof_pack'' \<and> r_caller_application r = ''lotus-idea''
     \<and> jget (r_options r) IDEA_MATERIALIZATION_RECOVERY_IDENTITY_OPTION
         = JObj (sorted_obj (identity_dump (recovery_identity_from_request q)))
     \<and> jget (r_options r) ''proof_pack_report_input'' = JObj (sorted_obj (proof_pack_input q))
     \<and> jget (r_portfolio_scope r) ''portfolio_ids'' = JList [JStr (py_strip (mz_portfolio_id q))]"

lemma prepared_proof_pack:
  assumes "prepare_creation dp e (new_job ''proof_pack'' m (Proof_pack mq) caller (Some key) b) = Inr p"
  shows "proof_pack_parts mq = Inr (pp_parts p)" "pp_key p = py_strip key" "py_strip key \<noteq> []"
  using assms by (auto simp: prepare_creation_def new_job_def bindE_eq_Inr py_blank_def)

lemma proof_pack_parts_of_pack:
  assumes "proof_pack_parts (build_proof_pack_report_job_request q policy) = Inr parts"
  shows "rp_options parts = dset (mq_options (build_proof_pack_report_job_request q policy)) ''proof_pack_report_input'' (JObj (proof_pack_input q))"
    "rp_portfolio_scope parts = [(''portfolio_ids'', JList [JStr (py_strip (mz_portfolio_id q))]),
       (''proof_pack_id'', jget (proof_pack_input q) ''proof_pack_id'')]"
  using assms by (auto simp: proof_pack_parts_def managed_parts_def build_proof_pack_report_job_request_def Let_def bindE_eq_Inr)

lemma created_idea_row:
  assumes p: "prepare_creation dp e (new_job ''proof_pack'' m (Proof_pack (build_proof_pack_report_job_request q policy)) caller (Some key) b) = Inr p"
    and rows: "created_rows e (new_job ''proof_pack'' m (Proof_pack (build_proof_pack_report_job_request q policy)) caller (Some key) b) p r j"
    and app: "cc_caller_application caller = ''lotus-idea''"
  shows "idea_request_row q r" "r_tenant_id r = cc_tenant_id caller" "r_idempotency_key r = py_strip key" "j_request_id j = r_id r"
proof -
  note parts = proof_pack_parts_of_pack [OF prepared_proof_pack(1) [OF p]]
  obtain opts policy' where r: "r = new_request_row (new_job ''proof_pack'' m (Proof_pack (build_proof_pack_report_job_request q policy)) caller
      (Some key) b) p (new_request_id e) opts (utc_now e 0)"
    and j: "j = new_job_row (new_job ''proof_pack'' m (Proof_pack (build_proof_pack_report_job_request q policy)) caller (Some key) b) p
      (new_request_id e) (new_job_id e) (utc_now e 0) policy'"
    and opts: "opts = rp_options (pp_parts p)"
    using rows by (auto simp: created_rows_def new_job_def bind_admission_def bindE_eq_Inr)
  have neq: "IDEA_MATERIALIZATION_RECOVERY_IDENTITY_OPTION \<noteq> ''proof_pack_report_input''"
    "IDEA_MATERIALIZATION_RECOVERY_IDENTITY_OPTION \<noteq> ''retention_policy''"
    by (simp_all add: IDEA_MATERIALIZATION_RECOVERY_IDENTITY_OPTION_def)
  have opt: "dget (mq_options (build_proof_pack_report_job_request q policy)) IDEA_MATERIALIZATION_RECOVERY_IDENTITY_OPTION
      = Some (JObj (identity_dump (recovery_identity_from_request q)))"
    using neq by (simp add: build_proof_pack_report_job_request_def Let_def split: option.split)
  have opts': "r_options r = sorted_obj (rp_options (pp_parts p))" by (simp add: r new_request_row_def opts)
  have scope: "r_portfolio_scope r = sorted_obj (rp_portfolio_scope (pp_parts p))" by (simp add: r new_request_row_def)
  have "r_report_type r = ''proof_pack''" "r_caller_application r = ''lotus-idea''"
    by (simp_all add: r new_request_row_def new_job_def app)
  moreover have "jget (r_options r) IDEA_MATERIALIZATION_RECOVERY_IDENTITY_OPTION
      = JObj (sorted_obj (identity_dump (recovery_identity_from_request q)))"
    unfolding opts' jget_def dget_sorted_obj_any parts using opt neq by (simp add: jsort_JObj del: jsort.simps)
  moreover have "jget (r_options r) ''proof_pack_report_input'' = JObj (sorted_obj (proof_pack_input q))"
    unfolding opts' jget_def dget_sorted_obj_any parts by (simp add: jsort_JObj del: jsort.simps)
  moreover have "jget (r_portfolio_scope r) ''portfolio_ids'' = JList [JStr (py_strip (mz_portfolio_id q))]"
    unfolding scope jget_def dget_sorted_obj_any parts by (simp add: dget_def)
  ultimately show "idea_request_row q r" unfolding idea_request_row_def by blast
  show "r_tenant_id r = cc_tenant_id caller" "r_idempotency_key r = py_strip key" "j_request_id j = r_id r"
    using prepared_proof_pack(2) [OF p] by (simp_all add: r j new_request_row_def new_job_row_def new_job_def)
qed

text \<open>What recovery answers for such a request.\<close>

lemma recover_idea_row:
  assumes q: "idea_request_row q r" and valid: "valid_identity (recovery_identity_from_request q)"
    and snap: "read_idea_materialization_owner_snapshot s t k = Inr (listed_record (r, j), n)" and n: "0 < n"
  shows "recover_idea_materialization s t k expected =
    (if expected \<noteq> recovery_identity_from_request q then Inl (identity_conflict ''identity_changed'')
     else if py_strip (mz_portfolio_id q) \<noteq> mz_portfolio_id q then Inl (identity_conflict ''record_inconsistent'')
     else Inr (receipt (record_from_row r j) n expected k))"
proof -
  let ?i = "recovery_identity_from_request q" and ?rec = "listed_record (r, j)"
  have fields: "lr_options ?rec = r_options r" "lr_report_type ?rec = r_report_type r"
    "lr_caller_application ?rec = r_caller_application r" "lr_portfolio_scope ?rec = r_portfolio_scope r"
    by (simp_all add: listed_record_def record_from_row_def)
  have stored: "stored_recovery_identity ?rec = Inr ?i"
    using q valid by (simp add: stored_recovery_identity_def fields idea_request_row_def validate_identity_dump)
  have "jget (sorted_obj (proof_pack_input q)) ''proof_pack_id'' = JStr (rd_report_evidence_pack_id ?i)"
    "jget (sorted_obj (proof_pack_input q)) ''proof_pack_content_hash'' = JStr (rd_evidence_content_fingerprint ?i)"
    "jget (sorted_obj (proof_pack_input q)) ''source_contract_version'' = JStr SOURCE_CONTRACT"
    unfolding jget_def dget_sorted_obj_any
    by (simp_all add: proof_pack_input_def dget_def recovery_identity_from_request_def Let_def)
  then have binding: "validate_record_binding ?rec ?i = require (py_strip (mz_portfolio_id q) = mz_portfolio_id q) (identity_conflict ''record_inconsistent'')"
    using q by (simp add: validate_record_binding_def fields idea_request_row_def recovery_identity_from_request_def Let_def)
  have rc: "receipt ?rec n ?i k = receipt (record_from_row r j) n ?i k"
    by (simp add: receipt_def listed_record_def record_from_row_def)
  show ?thesis
    by (auto simp: recover_idea_materialization_def snap stored materialization_response_of_def binding n rc)
qed

text \<open>A created job has an event, and keeps it.\<close>

lemma created_job_event:
  assumes "insert_new_job e c p source s = Inr (rec, s')"
  shows "\<exists>v \<in> set (events s'). ev_job_id v = new_job_id e"
proof -
  let ?rest = "tx_bind (load_by_request_id (new_request_id e)) (\<lambda>record.
      tx_bind (case source of None \<Rightarrow> tx_return ()
               | Some src \<Rightarrow> insert_relationship_or_nothing
                   (replay_relationship c (''rjr_'' @ uuid4_hex e 4) src record (utc_now e 0))) (\<lambda>_.
      tx_bind (if requires_work_item (cx_enqueue c) (lr_custody_policy record)
               then ensure_work_item (sub_env 5 e) record else tx_return ()) (\<lambda>_.
      tx_return record)))"
  have "\<exists>s1 u s2. append_status_event (sub_env 3 e) (new_job_id e) None Accepted ''job_accepted''
      (Some (cx_accepted_message c)) (Some [(''report_type'', JStr (cx_report_type c))]) (Some (pp_key p))
      (cc_triggered_by (cx_caller c)) (cc_correlation_id (cx_caller c)) (cc_trace_id (cx_caller c)) (utc_now e 0) s1 = Inr (u, s2)
    \<and> ?rest s2 = Inr (rec, s')"
    using assms unfolding insert_new_job_def Let_def
    by (elim tx_bindE) (intro exI conjI, assumption, simp add: tx_bind_def)
  then obtain s1 u s2 where ev: "append_status_event (sub_env 3 e) (new_job_id e) None Accepted ''job_accepted''
      (Some (cx_accepted_message c)) (Some [(''report_type'', JStr (cx_report_type c))]) (Some (pp_key p))
      (cc_triggered_by (cx_caller c)) (cc_correlation_id (cx_caller c)) (cc_trace_id (cx_caller c)) (utc_now e 0) s1 = Inr (u, s2)"
    and rest: "?rest s2 = Inr (rec, s')" by (elim exE conjE)
  have "keeps ledger_rel ?rest" by (intro ledger_rules keeps_intros)
  then have "ledger_rel s2 s'" using rest by (rule keepsD)
  then obtain vs where "events s' = events s2 @ vs" unfolding ledger_rel_def history_rel_def by blast
  moreover obtain v where "events s2 = events s1 @ [v]" "ev_job_id v = new_job_id e"
    using ev by (rule append_event_Inr) auto
  ultimately show ?thesis by auto
qed

section \<open>Property\<close>

text \<open>
  (C29) A materialization is recoverable. When lotus-idea's request created a job, then, whatever the
  ledger did since, asking for the tenant and the key with the identity of the request returns the receipt of that
  job, with its current state and the number of its events as version; any other identity is refused as
  changed. The exception is a portfolio id with surrounding blanks: the job is created for the stripped id, and
  every recovery, the response of the request itself included, is refused as inconsistent.
\<close>

theorem materialization_recoverable:
  assumes inv: "schema_inv s"
    and run: "create_proof_pack_report_job dp e (build_proof_pack_report_job_request q policy) caller (Some key) s = Inr (job, s1)"
    and new: "(cc_tenant_id caller, py_strip key) \<notin> set (request_keys s)"
    and later: "ledger_run s1 s2"
    and caller: "cc_caller_application caller = ''lotus-idea''" "cc_tenant_id caller \<noteq> []"
    and valid: "valid_identity (recovery_identity_from_request q)"
  shows "\<exists>now version. get_job (lr_job_id job) s2 = Inr (now, s2)
    \<and> version = length (filter (\<lambda>v. ev_job_id v = lr_job_id job) (events s2)) \<and> 0 < version
    \<and> (\<forall>expected. recover_idea_materialization s2 (cc_tenant_id caller) (py_strip key) expected =
        (if expected \<noteq> recovery_identity_from_request q then Inl (identity_conflict ''identity_changed'')
         else if py_strip (mz_portfolio_id q) \<noteq> mz_portfolio_id q then Inl (identity_conflict ''record_inconsistent'')
         else Inr (receipt now version expected (py_strip key))))"
proof -
  let ?mq = "build_proof_pack_report_job_request q policy"
  let ?c = "new_job ''proof_pack'' ''Proof-pack report job accepted.'' (Proof_pack ?mq) caller (Some key) False"
  have create: "create_report_job dp e ?c s = Inr (job, s1)" using run by (simp add: create_proof_pack_report_job_def)
  then obtain p where p: "prepare_creation dp e ?c = Inr p" by (auto simp: create_report_job_def elim: tx_bindE)
  note prep = prepared_proof_pack [OF p]
  have "request_for s ?c p = None"
    using new prep(2) by (auto simp: request_keys_def new_job_def intro: rev_image_eqI)
  then obtain source where ins: "insert_new_job e ?c p source s = Inr (job, s1)"
    by (rule create_novel_run [OF create p])
  from insert_new_job_effect [OF inv ins] obtain r j where rows: "created_rows e ?c p r j" and job: "job = record_from_row r j"
    and s1: "requests s1 = requests s @ [r]" "jobs s1 = jobs s @ [j]" .
  note row = created_idea_row [OF p rows caller(1)]
  have jid: "j_id j = new_job_id e" using rows by (auto simp: created_rows_def new_job_row_def)
  have rel: "ledger_rel s1 s2" using run_rel [OF later] .
  have inv1: "schema_inv s1" using keepsD [OF keeps_create_report_job create] inv by (simp add: ledger_rel_def schema_rel_def)
  have inv2: "schema_inv s2" using rel inv1 by (simp add: ledger_rel_def schema_rel_def)
  have h: "history_rel s1 s2" using rel by (simp add: ledger_rel_def)
  have "find_job (j_id j) s1 = Some j" using find_job_iff [OF inv1] s1(2) by simp
  then obtain j' where j': "find_job (j_id j) s2 = Some j'" "job_evolves j j'" using history_find_job [OF h] by blast
  have mem: "j' \<in> set (jobs s2)" "j_id j' = j_id j" using j'(1) find_job_iff [OF inv2] by blast+
  have r2: "r \<in> set (requests s2)" using h s1(1) unfolding history_rel_def by auto
  have req: "j_request_id j' = r_id r" using j'(2) row(4) by (simp add: job_evolves_def)
  have find: "find_request (j_request_id j') s2 = Some r" using r2 req find_request_iff [OF inv2] by simp
  let ?n = "length (filter (\<lambda>v. ev_job_id v = j_id j') (events s2))"
  have "0 < ?n"
  proof -
    obtain v where "v \<in> set (events s1)" "ev_job_id v = j_id j'" using created_job_event [OF ins] jid mem(2) by auto
    moreover have "set (events s1) \<subseteq> set (events s2)" using h unfolding history_rel_def by auto
    ultimately show ?thesis by (auto simp: length_greater_0_conv filter_empty_conv)
  qed
  moreover have "read_idea_materialization_owner_snapshot s2 (cc_tenant_id caller) (py_strip key) = Inr (listed_record (r, j'), ?n)"
    using job_rows_of_key [OF inv2 mem(1) r2 req row(2,3) caller(2) prep(3)] row(2,3) by (rule owner_snapshot_of_key)
  moreover have "get_job (lr_job_id job) s2 = Inr (record_from_row r j', s2)"
    using j'(1) load_unique [OF inv2 j'(1) find] by (simp add: get_job_def job tx_run)
  ultimately show ?thesis
    using recover_idea_row [OF row(1) valid] mem(2) job
    by (intro exI [of _ "record_from_row r j'"] exI [of _ ?n]) auto
qed

definition sample_materialization :: materialization_request where
  "sample_materialization = \<lparr>mz_idea_evidence_pack = sample_pack ''icand_1'', mz_portfolio_id = ''PB_1'', mz_mandate_id = None,
     mz_as_of_date = 739791, mz_output_formats = [''pdf''], mz_reporting_currency = None, mz_options = []\<rparr>"

definition sample_idea_caller :: caller_context where
  "sample_idea_caller = \<lparr>cc_trigger_type = ''system'', cc_triggered_by = ''idea'', cc_caller_application = ''lotus-idea'',
     cc_tenant_id = ''tenant-sg'', cc_region = ''sg'', cc_booking_center_code = None, cc_role = None,
     cc_correlation_id = ''corr'', cc_trace_id = ''trace''\<rparr>"

definition sample_materialize :: "job_record ledger_tx" where
  "sample_materialize = create_proof_pack_report_job sample_deployment sample_env
     (build_proof_pack_report_job_request sample_materialization (Some (policy_of ''generated-report-standard'' False)))
     sample_idea_caller (Some '' key-1 '')"

text \<open>The values of the options and the identity text are left uncomputed.\<close>

definition sample_idea_parts :: "json \<Rightarrow> json \<Rightarrow> json \<Rightarrow> request_parts" where
  "sample_idea_parts i policy input = \<lparr>rp_portfolio_scope = [(''portfolio_ids'', JList [JStr ''PB_1'']), (''proof_pack_id'', JStr ''irep_001'')],
     rp_as_of_date = 739791, rp_output_formats = [''pdf''], rp_reporting_currency = None,
     rp_options = [(''idea_materialization_recovery_identity'', i), (''retention_policy'', policy), (''proof_pack_report_input'', input)]\<rparr>"

lemma sample_idea_parts_of:
  "\<exists>i policy input. proof_pack_parts (build_proof_pack_report_job_request sample_materialization (Some (policy_of ''generated-report-standard'' False)))
     = Inr (sample_idea_parts i policy input)"
proof -
  have "parse_as_of (jor (jget (proof_pack_input sample_materialization) ''as_of_date'')
      (jget (proof_pack_input sample_materialization) ''generated_at'')) e = Inr 739791" for e
  proof -
    have "jtrue (JStr (date_isoformat 739791))" "date_fromisoformat (take 10 (date_isoformat 739791)) = Inr 739791" by code_simp+
    then show ?thesis
      by (simp add: proof_pack_input_def sample_materialization_def Let_def jget_def dget_def jor_def parse_as_of_def)
  qed
  moreover have "py_strip ''PB_1'' = ''PB_1''" by code_simp
  moreover have "jget (proof_pack_input sample_materialization) ''proof_pack_id'' = JStr ''irep_001''"
    by (simp add: proof_pack_input_def sample_materialization_def sample_pack_def Let_def jget_def dget_def)
  ultimately show ?thesis
    by (simp add: proof_pack_parts_def build_proof_pack_report_job_request_def Let_def managed_parts_def sample_idea_parts_def
        IDEA_MATERIALIZATION_RECOVERY_IDENTITY_OPTION_def) (simp add: sample_materialization_def)
qed

lemma sample_materialize_run: "\<not> isl (sample_materialize (sample_ledger sample_job))"
proof -
  let ?mq = "build_proof_pack_report_job_request sample_materialization (Some (policy_of ''generated-report-standard'' False))"
  let ?c = "\<lambda>mq. new_job ''proof_pack'' ''Proof-pack report job accepted.'' (Proof_pack mq) sample_idea_caller (Some '' key-1 '') False"
  obtain i policy input where parts: "proof_pack_parts ?mq = Inr (sample_idea_parts i policy input)"
    using sample_idea_parts_of by blast
  let ?parts = "sample_idea_parts i policy input"
  have *: "case job_template_identity ''proof_pack'' [''pdf''] None of Inl _ \<Rightarrow> False | Inr pair \<Rightarrow>
    (case resolve_job_accepted_contract ''v1'' ''proof_pack'' [''pdf''] None None (rp_options ?parts) of Inl _ \<Rightarrow> False
     | Inr c \<Rightarrow> \<not> isl (template_for_accepted_contract c pair))" by code_simp
  obtain pair contract pair' where t: "job_template_identity ''proof_pack'' [''pdf''] None = Inr pair"
    "resolve_job_accepted_contract ''v1'' ''proof_pack'' [''pdf''] None None (rp_options ?parts) = Inr contract"
    "template_for_accepted_contract contract pair = Inr pair'"
  proof (cases "job_template_identity ''proof_pack'' [''pdf''] None")
    case pair: (Inr pair)
    show ?thesis
    proof (cases "resolve_job_accepted_contract ''v1'' ''proof_pack'' [''pdf''] None None (rp_options ?parts)")
      case contract: (Inr contract)
      then show ?thesis using pair contract * that by (cases "template_for_accepted_contract contract pair") simp_all
    qed (use pair * in simp)
  qed (use * in simp)
  have a: "require_internal_admission sample_env (Proof_pack ?mq) (rp_options ?parts) ''tenant-sg'' None = Inr ()"
    by (simp add: require_internal_admission_def sample_idea_parts_def dkeys_def BINDING_OPTION_def)
  have k: "\<not> py_blank (Some '' key-1 '')" "py_strip '' key-1 '' = ''key-1''" by code_simp+
  obtain hash where p: "prepare_creation sample_deployment sample_env (?c ?mq) = Inr \<lparr>pp_parts = ?parts, pp_template = pair',
      pp_contract = contract, pp_key = ''key-1'', pp_hash = hash\<rparr>"
    using parts t a k by (cases pair') (simp add: prepare_creation_def new_job_def sample_deployment_def compute_request_hash_def
        sample_idea_caller_def sample_idea_parts_def)
  have "\<not> isl (insert_new_job sample_env (?c mq) \<lparr>pp_parts = sample_idea_parts i policy input, pp_template = pair,
      pp_contract = contract, pp_key = ''key-1'', pp_hash = hash\<rparr> None (sample_ledger sample_job))"
    for mq i policy input pair contract hash by code_simp
  then show ?thesis unfolding sample_materialize_def create_proof_pack_report_job_def
    using create_new [OF p, of "sample_ledger sample_job"] by (simp add: samples new_job_def sample_idea_caller_def)
qed

theorem materialization_recoverable_witness:
  "\<exists>job s1 now version. sample_materialize (sample_ledger sample_job) = Inr (job, s1) \<and> get_job (lr_job_id job) s1 = Inr (now, s1)
     \<and> recover_idea_materialization s1 ''tenant-sg'' ''key-1'' (recovery_identity_from_request sample_materialization)
       = Inr (receipt now version (recovery_identity_from_request sample_materialization) ''key-1'')"
proof -
  obtain job s1 where run: "sample_materialize (sample_ledger sample_job) = Inr (job, s1)"
    using sample_materialize_run by (rule Inr_pairE)
  have inv: "schema_inv (sample_ledger sample_job)"
    by (rule schema_inv_sample) (simp_all add: samples custody_checks_def custody_scoped_def)
  have key: "py_strip '' key-1 '' = ''key-1''" "py_strip (mz_portfolio_id sample_materialization) = mz_portfolio_id sample_materialization"
    by code_simp+
  have new: "(cc_tenant_id sample_idea_caller, py_strip '' key-1 '') \<notin> set (request_keys (sample_ledger sample_job))"
    by code_simp
  have valid: "valid_identity (recovery_identity_from_request sample_materialization)" by code_simp
  have caller: "cc_caller_application sample_idea_caller = ''lotus-idea''" "cc_tenant_id sample_idea_caller = ''tenant-sg''"
    by (simp_all add: sample_idea_caller_def)
  from materialization_recoverable [OF inv run [unfolded sample_materialize_def] new rtranclp.rtrancl_refl caller(1) _ valid] run
  show ?thesis unfolding caller(2) key by auto
qed

end
