(* ===== verification/Spec2Isabelle.thy ===== *)
theory Spec2Isabelle
  imports Batch_Replay Scheduler_Laws Archive_Lineage_Laws Snapshot_Laws Idea_Materialization_Laws
begin

text \<open>
  A verification development for lotus-report, the service that accepts report requests, runs them
  as durable jobs, renders them and hands the documents to an archive.

  \<^bold>\<open>The program.\<close> A client submits a report request with an idempotency key. The ledger
  (\<open>src/src/app/reporting_jobs/ledger.py\<close>, class \<open>ReportJobLedger\<close>) stores the request, one job for it,
  the job's status events and one work item, in SQLite tables and one transaction per call. Workers
  (\<open>worker.py\<close>) claim work items under a lease, execute the job (\<open>execution.py\<close>: capture a snapshot,
  then render) and settle the item. Jobs accepted under the custody policy (\<open>custody_policy.py\<close>,
  \<open>custody_recovery.py\<close>) additionally keep the exact bytes they offered to the render service, until the
  outcome is confirmed. A failed job can be replayed as a new job, an archived report can be
  rerendered, and read operations project archive status, lineage and job listings. The input of a job is
  kept as an immutable snapshot with its source calls (\<open>src/src/app/reporting_lineage/store.py\<close>). That one document
  corrects or replaces another is reported to Archive, and reconciled until Archive has answered
  (\<open>src/src/app/reporting_render/archive_lineage.py\<close>).

  The batch orchestrator (\<open>src/src/app/report_batch_orchestrator/\<close>) turns one request for many portfolios into a
  batch with an item per portfolio, kept in a second ledger. A runtime pass picks runnable batches of
  its tenants, leases items, creates a report job per item in the job ledger, executes the jobs of the
  waiting items and reconciles the batch status; a failed item can be retried or replayed as a new job.
  Batches also come from schedules: stored ones, which tenants create and edit, and configured ones. A
  scheduler pass finds the periods owed, asks the portfolio source who owns each portfolio and creates
  one batch per cycle. The ordering catalogue (\<open>src/src/app/report_ordering_catalogue/\<close>) publishes the report
  families and validates what is ordered, by a schedule or by hand.

  Reviewed evidence packs of lotus-idea (\<open>src/src/app/idea_evidence_intake/\<close>) come in through a ledger of their own.
  Such a pack is materialized as a proof-pack report job under the caller's idempotency key; a client that lost
  the answer recovers the receipt by the exact identity of what it sent. A file of that ledger is
  upgraded when the schema changes and transferred into PostgreSQL.

  \<^bold>\<open>How it is modelled.\<close> A table is a list of rows in insertion order, the ledger a record of six
  tables; a transaction is a function from a ledger to \<open>err + 'a \<times> ledger\<close>, so an exception carries
  no state: the transaction was rolled back. Every \<open>raise\<close> of the source is a constructor of \<open>err\<close>
  with its message. The database's constraints (keys, foreign keys, \<open>CHECK\<close>, triggers) raise in the
  insertion and update functions, as SQLite does. A timestamp column holds the text the code writes,
  represented by the instant and the format, and SQL's comparison of two texts is the
  integer comparison \<open>text_key\<close>; \<open>Timestamps\<close> proves that it is the comparison of the texts.

  \<^bold>\<open>Outside the repository.\<close> An \<open>env\<close> supplies clock readings, \<open>uuid4\<close> draws, random jitter, SHA-256
  and the custody bindings (a protocol with no implementation here); a \<open>deployment\<close> supplies the
  configured contract version and the two Pydantic validations of stored JSON. The worker and the
  materialization of a pack take the capture service, the render service and the monotonic clock; the scheduler the portfolio source; the
  catalogue the two answers of the render service; the lineage flow the Archive client. All of them are arguments, so the
  theorems hold for every choice; what a theorem needs of one (SHA-256 separates the two texts it
  compares, services write only through the ledger) is a hypothesis it states.

  \<^bold>\<open>Theories.\<close>

  \<^item> \<open>Report_Prelude\<close>: errors, results, transactions and their composition (\<open>tx_relation\<close>, the interface
    of every relation between ledgers that transactions preserve), Python string operations, JSON
    values, tables.
  \<^item> \<open>Timestamps\<close>, \<open>Iso_Dates\<close>: the calendar, \<open>_dt_to_text\<close>, the order of stored texts, and
    \<open>date.fromisoformat\<close>.
  \<^item> \<open>Json_Text\<close>, \<open>Json_Injective\<close>: \<open>canonical_json\<close>, the offer encoding, and that the text determines the
    value up to key order.
  \<^item> \<open>Job_Lifecycle\<close> (\<open>lifecycle_policy.py\<close>), \<open>Event_Contracts\<close> (\<open>event_contracts.py\<close>), \<open>Work_Queue\<close>
    (\<open>work_queue.py\<close>): the status machine (an instance of \<open>ranked_lifecycle\<close>, hence finite and
    without revisits), the event contract, retry back-off.
  \<^item> \<open>Ledger_State\<close>: rows, tables, SQL statements, the schema invariant \<open>schema_inv\<close> and the history
    relation (what no statement may change), both instances of \<open>tx_relation\<close>. \<open>Ledger_Samples\<close>: rows for
    the witnesses.
  \<^item> \<open>Custody\<close>: custody of retained render offers: guards, reservations against the retry budget,
    parking, final confirmation in its two transactions, resumption.
  \<^item> \<open>Job_Transitions\<close>: \<open>_transition_job\<close>, the \<open>mark_*\<close> methods, cancellation, events, reading a job.
  \<^item> \<open>Work_Ledger\<close>: enqueue, claim, complete, defer, fail, recovery of expired leases. The locale
    \<open>fenced_settlement\<close> is what a worker relies on, interpreted on the three settling operations.
  \<^item> \<open>Template_Resolution\<close>, \<open>Request_Identity\<close>, \<open>Admission\<close>, \<open>Replay_Lineage\<close>, \<open>Job_Creation\<close>,
    \<open>Creation_Laws\<close>: the contract stamped at acceptance, the parts and the identity hash of the five
    request kinds, admissions of composite calculations, the recursive lineage queries, creation,
    submission and replay, and what they guarantee.
  \<^item> \<open>Rerender\<close>, \<open>Job_Queries\<close>: rerender attempts; archive statuses, pending lineage, event history,
    relationships, listings.
  \<^item> \<open>Ledger_Runs\<close>: the step relation with one rule per state-changing operation, and the theorems
    about whole runs: the invariant of every reachable ledger, append-only history, and the
    guarantees that hold whatever happens between two calls.
  \<^item> \<open>Worker\<close>: worker passes and the execution service over those operations. Code that spans several
    transactions is an action on a state (\<open>effects\<close> is the interface of every property actions keep).
  \<^item> \<open>Batch_Selection\<close> (\<open>selector.py\<close>, \<open>schedule.py\<close>, \<open>lifecycle_policy.py\<close>): which portfolios a batch gets,
    the period of a cycle, the key of a scheduled batch, the status a batch has by its items.
  \<^item> \<open>Batch_Ledger\<close> (\<open>ledger.py\<close>): the two batch tables and every operation on them. \<open>Batch_Laws\<close>: the
    abstract life of an item (\<open>item_spec\<close>), the invariant of the tables and what each operation keeps.
    \<open>Batch_Runs\<close>: the step relation, and the theorems about whole runs: consistency, refinement of the
    abstract life, exclusive leases, at most one job per item, fair selection.
  \<^item> \<open>Batch_Worker\<close> (\<open>tenant_admission.py\<close>, \<open>dispatch.py\<close>, \<open>execution.py\<close>, \<open>worker.py\<close>, \<open>runtime.py\<close>): actions
    on a \<open>world\<close>, the pair of the job ledger and the batch ledger. \<open>Batch_Worker_Laws\<close>: every pass is a run of
    both ledgers; bounds, tenant isolation, quarantine, and what happens to refused and replayed work.
  \<^item> \<open>Batch_Replay\<close> (\<open>replay.py\<close>): the replay of a batch item.
  \<^item> \<open>Ordering_Catalogue\<close> (\<open>definitions.py\<close>, \<open>validation.py\<close>, \<open>service.py\<close> of the catalogue): the published families,
    the validation of an order, the catalogue with its supportability, and that it offers a document
    only on evidence of the render service.
  \<^item> \<open>Schedule_Dates\<close>, \<open>Schedule_Service\<close> (\<open>schedule_definitions.py\<close>, the schedule tables of \<open>ledger.py\<close>): the
    periods a schedule owes, the schedule and audit tables, and every operation of the service.
    \<open>Schedule_Laws\<close>: the invariant of every reachable store (revisions count audit records, one enabled
    schedule per fingerprint), no lost update, idempotent creation.
  \<^item> \<open>Scheduler\<close> (\<open>scheduler.py\<close>): definitions due, resolution of portfolios, identity of a cycle, a pass.
    \<open>Scheduler_Laws\<close>: every batch of a pass rests on the source's evidence of ownership, and a cycle
    never gets a second batch.
  \<^item> \<open>Archive_Lineage\<close> (\<open>archive_lineage.py\<close>): recording a document pair, settlement, reconciliation.
    \<open>Archive_Lineage_Laws\<close>: once Archive acknowledges, one pass settles every pending pair.
  \<^item> \<open>Snapshot_Store\<close> (\<open>reporting_lineage/store.py\<close>): the snapshot and upstream-call tables and every operation.
    \<open>Snapshot_Laws\<close>: what a capture has recorded is never changed, and a later capture returns it or is
    refused.
  \<^item> \<open>Idea_Intake\<close> (\<open>retention_policy.py\<close>, \<open>service.py\<close> of the idea intake): retention policies, the intake ledger with
    its two stores. \<open>Idea_Transfer\<close> (\<open>service.py\<close>, \<open>transfer.py\<close>): the upgrade of an old file and the transfer into
    PostgreSQL. \<open>Idea_Intake_Laws\<close>: the identity of an intake is unambiguous, an accepted pack is never
    overwritten, and a transfer that reports success carried every row.
  \<^item> \<open>Idea_Materialization\<close> (\<open>service.py\<close>, \<open>recovery.py\<close>, \<open>routers/idea_evidence_intake.py\<close>): the job request of a pack, the
    receipt and its recovery, and the three handlers, over the pair of the intake ledger and the job ledger.
    \<open>Idea_Materialization_Laws\<close>: the receipt of a created job is recovered after every further run of the ledger.
  \<^item> This theory: what the scheduler accepts, dispatch accepts.

  \<^bold>\<open>Fuel and bounds.\<close> Only the breadth-first evaluation of the two recursive lineage queries has fuel,
  one more than the number of relationships; \<open>set_closure\<close> proves that it computes the whole
  closure. A worker pass recurses over the items it may still claim, at most five; a batch pass over
  the batches it selected and the items of each. Every other definition is total without fuel.

  \<^bold>\<open>Concurrency.\<close> The code runs each transaction under a lock (and \<open>BEGIN IMMEDIATE\<close>), so a run is a
  sequence of whole transactions from any number of callers; \<open>ledger_step\<close> allows every order. An
  operation that spans two transactions (\<open>confirm_final\<close>, a worker pass) is modelled as the
  separate transactions. The two ledgers are separate databases, so a batch pass alternates between
  them and can stop after any transaction; the actions return the state reached with the error.

  \<^bold>\<open>Not modelled.\<close> DDL and the one-off migrations of the job and batch tables (the constraints they create are in the model); the
  PostgreSQL ledgers (a second backend of the same protocols, whose isolation would have to be
  assumed); Pydantic validation of requests and the HTTP layer (the handlers of the idea intake apart); settings and the API projections of
  batches and of a scheduler's configuration; the capture service, package building and render
  orchestration, which mostly drive remote services and enter the worker as parameters; the read services
  and composite contracts; metrics, logging and configuration.
\<close>

section \<open>From a schedule to its jobs\<close>

text \<open>
  A batch whose items can be dispatched: the job request of any item is accepted, and the formats name at
  most one document.
\<close>

definition dispatchable :: "batch_row \<Rightarrow> bool" where
  "dispatchable b \<longleftrightarrow> (\<forall>i. \<exists>q. request_for_item b i = Inr q) \<and> (\<exists>f. document_output_format (b_output_formats b) = Inr f)"

lemma document_format_set:
  "(\<exists>f. document_output_format fs = Inr f) \<longleftrightarrow> card {f \<in> set fs. f = ''pdf'' \<or> f = ''xlsx''} \<le> 1"
  by (simp add: document_output_format_def Let_def length_remdups_card_conv)

lemma commentary_sorted: "advisor_commentary_requires_run_id (sorted_obj d) = advisor_commentary_requires_run_id d"
proof -
  have str: "(case jsort v of JStr t \<Rightarrow> P t | _ \<Rightarrow> False) = (case v of JStr t \<Rightarrow> P t | _ \<Rightarrow> False)" for v P
    by (cases v) simp_all
  have strs: "(case jsort v of JList vs \<Rightarrow> list_ex (\<lambda>v. case v of JStr t \<Rightarrow> P t | _ \<Rightarrow> False) vs | _ \<Rightarrow> False)
      = (case v of JList vs \<Rightarrow> list_ex (\<lambda>v. case v of JStr t \<Rightarrow> P t | _ \<Rightarrow> False) vs | _ \<Rightarrow> False)" for v P
    by (cases v) (simp_all add: list_ex_iff str)
  show ?thesis
    unfolding advisor_commentary_requires_run_id_def dget_sorted_obj_any
    using str strs by (cases "dget d ''sections''"; cases "dget d ''advisor_brief_run_id''") simp_all
qed

lemma commentary_stamped:
  "advisor_commentary_requires_run_id (batch_options e d cycle) = advisor_commentary_requires_run_id (sf_options d)"
  by (simp add: advisor_commentary_requires_run_id_def batch_options_def Let_def)

lemma chosen_texts: "list_ex (\<lambda>v. case v of JStr t \<Rightarrow> P t | _ \<Rightarrow> False) vs \<longleftrightarrow> (\<exists>t \<in> set (strings_of vs). P t)"
  by (induction vs rule: strings_of.induct) auto

lemma accepted_commentary_given:
  assumes "validate_report_ordering_submission FAMILY_DEFINITIONS ''portfolio_review'' mode formats options = Inr ()"
  shows "\<not> advisor_commentary_requires_run_id options"
proof (cases "''ADVISOR_COMMENTARY'' \<in> set (selected_sections options)")
  case True
  then show ?thesis using accepted_commentary [OF assms] by (auto simp: advisor_commentary_requires_run_id_def)
next
  case False
  then show ?thesis
    by (auto simp: advisor_commentary_requires_run_id_def selected_sections_def chosen_texts rev_image_eqI
        split: option.splits json.splits)
qed

lemma ordered_schedule:
  assumes "validate_selector_source d = Inr ()"
  shows "validate_report_ordering_submission FAMILY_DEFINITIONS ''portfolio_review'' ''governed_schedule''
    (sf_output_formats d) (sf_options d) = Inr ()"
  using assms by (auto simp: validate_selector_source_def require_def split: if_splits sum.splits err.splits)

lemma fresh_batch_dispatchable:
  assumes "validate_selector_source d = Inr ()" "batch_create_request e d cs cycle = Inr q"
  shows "dispatchable (new_batch_row q caller ms now bid key hash)"
proof -
  note ok = ordered_schedule [OF assms(1)]
  have q: "bq_options q = batch_options e d cycle" "bq_requested_output_formats q = sf_output_formats d"
    using assms(2) by (auto simp: batch_create_request_def require_def split: if_splits)
  have "\<not> advisor_commentary_requires_run_id (sorted_obj (bq_options q))"
    using accepted_commentary_given [OF ok] by (simp add: commentary_sorted commentary_stamped q(1))
  moreover have "\<exists>f. document_output_format (sort (bq_requested_output_formats q)) = Inr f"
    using accepted_document_format [OF ok] by (simp add: document_format_set q(2))
  ultimately show ?thesis by (simp add: dispatchable_def request_for_item_def new_batch_row_def)
qed

lemma within_dispatchable:
  assumes "validate_selector_source d = Inr ()"
  shows "within (adds dispatchable) (run_schedule e ask cfg caller d)"
  unfolding within_def
proof
  fix s
  show "adds dispatchable s (snd (run_schedule e ask cfg caller d s))"
  proof (cases rule: run_schedule_cases [of e ask cfg caller d s])
    case none
    then show ?thesis by (simp add: additions.effect_refl)
  next
    case (run cs)
    show ?thesis unfolding run(2)
    proof (cases rule: materialize_schedule_cases [of e d cs caller s])
      case none
      then show "adds dispatchable s (snd (materialize_schedule e d cs caller s))" by (simp add: additions.effect_refl)
    next
      case (batch cycle q r)
      show "adds dispatchable s (snd (materialize_schedule e d cs caller s))"
      proof (cases "snd (materialize_schedule e d cs caller s) = s")
        case False
        obtain ms now bid where "batches (snd (materialize_schedule e d cs caller s)) = batches s @ [new_batch_row q caller ms
             now bid (py_strip (the (Some (cycle_key e caller d cs cycle)))) (compute_batch_request_hash e q caller ms)]"
          using create_batch_appends [OF batch(3) False] by metis
        then show ?thesis using fresh_batch_dispatchable [OF assms batch(2)] by (auto simp: adds_def)
      qed (simp add: additions.effect_refl)
    qed
  qed
qed

lemma within_schedules_dispatchable:
  assumes "\<forall>d \<in> set ds. validate_selector_source d = Inr ()"
  shows "within (adds dispatchable) (run_schedules e source cfg caller i ds)"
  using assms
proof (induction ds arbitrary: i)
  case (Cons d ds)
  then show ?case unfolding run_schedules.simps
    by (intro additions.within_bind additions.within_return within_dispatchable) simp_all
qed (simp add: additions.within_return)

lemma enabled_schedules_valid:
  assumes "enabled_schedules cfg store today = Inr ds" "\<forall>d \<in> set (sc_schedules cfg). validate_selector_source d = Inr ()"
    "d \<in> set ds"
  shows "validate_selector_source d = Inr ()"
proof -
  have converted: "validate_selector_source x = Inr ()" if "stored_schedule_to_definition y t = Inr x" for x y t
    using that by (auto simp: stored_schedule_to_definition_def Let_def)
  have stored: "validate_selector_source x = Inr ()"
    if due: "due_definitions_for_scheduler a b c today st = Inr xs" and x: "x \<in> set xs" for x a b c st xs
  proof -
    obtain xss where xss: "mapE (\<lambda>y. bindE (due_as_of_dates (ss_cadence y) today (ss_cadence_effective_on y)
        STORED_SCHEDULE_BACKFILL_LIMIT) (mapE (stored_schedule_to_definition y)))
      (filter (\<lambda>x. ss_enabled x \<and> ss_region x = b \<and> ss_booking_center_code x = c) (list_schedule_definitions a st)) = Inr xss"
      and xs: "xs = concat xss"
      using due unfolding due_definitions_for_scheduler_def bindE_eq_Inr by blast
    obtain zs where zs: "zs \<in> set xss" "x \<in> set zs" using x xs by auto
    obtain y where "bindE (due_as_of_dates (ss_cadence y) today (ss_cadence_effective_on y)
        STORED_SCHEDULE_BACKFILL_LIMIT) (mapE (stored_schedule_to_definition y)) = Inr zs"
      using mapE_member [OF xss zs(1)] by blast
    then obtain t where "stored_schedule_to_definition y t = Inr x" using zs(2) by (auto dest!: mapE_member)
    then show ?thesis by (rule converted)
  qed
  show ?thesis using assms stored by (cases store) (auto simp: enabled_schedules_def)
qed



end
